(* ===== verification/Kernel_Prelude.thy ===== *)
theory Kernel_Prelude
  imports Complex_Main
begin

text \<open>
  What every theory of the development shares: the result type of fallible Python code and its
  sequencing, Python's \<open>or\<close> on optional decimals, tables of rows addressed by a key column, and
  sums over such tables.

  A Python \<open>Decimal\<close> is a rational number here. The context's rounding at 28 significant digits
  and the \<open>Numeric(20, 6)\<close> rounding of the columns are outside the model.
\<close>

named_theorems ok_iff \<open>inversion of successful results\<close>
named_theorems frame \<open>what an operation leaves unchanged\<close>

section \<open>Results\<close>

text \<open>
  A call that may raise returns \<open>Inl\<close> of the exception or \<open>Inr\<close> of its value. \<open>rbind\<close> is the
  sequencing of two such calls: the exception of the first one skips the second.
\<close>

definition rbind :: "'e + 'a \<Rightarrow> ('a \<Rightarrow> 'e + 'b) \<Rightarrow> 'e + 'b" where
  "rbind r f = (case r of Inl e \<Rightarrow> Inl e | Inr x \<Rightarrow> f x)"

lemma rbind_simps [simp]:
  "rbind (Inl e) f = Inl e"
  "rbind (Inr x) f = f x"
  by (simp_all add: rbind_def)

lemma rbind_Inr_iff [ok_iff]: "rbind r f = Inr y \<longleftrightarrow> (\<exists>x. r = Inr x \<and> f x = Inr y)"
  by (cases r) auto

lemma rbind_Inl_iff: "rbind r f = Inl e \<longleftrightarrow> r = Inl e \<or> (\<exists>x. r = Inr x \<and> f x = Inl e)"
  by (cases r) auto

lemma if_Inr_iff [ok_iff]:
  "(if b then Inl e else r) = Inr y \<longleftrightarrow> \<not> b \<and> r = Inr y"
  "(if b then r else Inl e) = Inr y \<longleftrightarrow> b \<and> r = Inr y"
  by auto

lemma case_option_Inr_iff [ok_iff]:
  "(case x of None \<Rightarrow> Inl e | Some v \<Rightarrow> f v) = Inr y \<longleftrightarrow> (\<exists>v. x = Some v \<and> f v = Inr y)"
  by (cases x) auto

lemma rbind_cong [fundef_cong]:
  "r = r' \<Longrightarrow> (\<And>x. r' = Inr x \<Longrightarrow> f x = f' x) \<Longrightarrow> rbind r f = rbind r' f'"
  by (cases r') (auto simp: rbind_def)

text \<open>
  Calls that also act on the world outside the database: the world is passed through, and an
  exception leaves the effects it has had so far.
\<close>

definition wlift :: "'e + 'a \<Rightarrow> 'w \<Rightarrow> ('e + 'a) \<times> 'w" where
  "wlift r w = (r, w)"

definition wbind :: "('w \<Rightarrow> ('e + 'a) \<times> 'w) \<Rightarrow> ('a \<Rightarrow> 'w \<Rightarrow> ('e + 'b) \<times> 'w) \<Rightarrow>
    'w \<Rightarrow> ('e + 'b) \<times> 'w" where
  "wbind m f w = (case m w of (Inl e, w) \<Rightarrow> (Inl e, w) | (Inr x, w) \<Rightarrow> f x w)"

lemma wbind_simps [simp]:
  "wbind (wlift (Inl e)) f w = (Inl e, w)"
  "wbind (wlift (Inr x)) f w = f x w"
  "wlift r w = (r, w)"
  by (simp_all add: wlift_def wbind_def)

lemma wbind_Inr_iff [ok_iff]:
  "wbind m f w = (Inr y, w') \<longleftrightarrow> (\<exists>x w1. m w = (Inr x, w1) \<and> f x w1 = (Inr y, w'))"
  by (auto simp: wbind_def split: prod.splits sum.splits)

lemma wbind_Inl_iff:
  "wbind m f w = (Inl e, w') \<longleftrightarrow>
     m w = (Inl e, w') \<or> (\<exists>x w1. m w = (Inr x, w1) \<and> f x w1 = (Inl e, w'))"
  by (auto simp: wbind_def split: prod.splits sum.splits)

section \<open>Python idioms\<close>

text \<open>\<open>x or d\<close> on an optional decimal: \<open>None\<close> and zero are both false.\<close>

definition or_else :: "rat option \<Rightarrow> rat \<Rightarrow> rat" where
  "or_else x d = (case x of None \<Rightarrow> d | Some v \<Rightarrow> if v = 0 then d else v)"

definition truthy :: "rat option \<Rightarrow> bool" where
  "truthy x = (case x of None \<Rightarrow> False | Some v \<Rightarrow> v \<noteq> 0)"

lemma or_else_pos: "0 < d \<Longrightarrow> (\<And>v. x = Some v \<Longrightarrow> 0 < v) \<Longrightarrow> 0 < or_else x d"
  by (auto simp: or_else_def split: option.splits)

lemma or_else_same [simp]: "or_else (Some d) d = d"
  by (simp add: or_else_def)

text \<open>\<open>str.upper\<close>, \<open>str.lower\<close>, \<open>str.isalnum\<close> and \<open>str.isspace\<close> on characters; the letters are the ASCII ones.\<close>

definition upper_char :: "char \<Rightarrow> char" where
  "upper_char c = (let n = (of_char c :: nat) in if 97 \<le> n \<and> n \<le> 122 then char_of (n - 32) else c)"

definition lower_char :: "char \<Rightarrow> char" where
  "lower_char c = (let n = (of_char c :: nat) in if 65 \<le> n \<and> n \<le> 90 then char_of (n + 32) else c)"

definition is_alnum :: "char \<Rightarrow> bool" where
  "is_alnum c = (let n = (of_char c :: nat)
     in 48 \<le> n \<and> n \<le> 57 \<or> 65 \<le> n \<and> n \<le> 90 \<or> 97 \<le> n \<and> n \<le> 122)"

definition is_space :: "char \<Rightarrow> bool" where
  "is_space c = ((of_char c :: nat) \<in> {9, 10, 11, 12, 13, 28, 29, 30, 31, 32})"

abbreviation lower :: "string \<Rightarrow> string" where
  "lower \<equiv> map lower_char"

definition strip :: "string \<Rightarrow> string" where
  "strip s = rev (dropWhile is_space (rev (dropWhile is_space s)))"

definition ends_with :: "string \<Rightarrow> string \<Rightarrow> bool" where
  "ends_with s t \<longleftrightarrow> length t \<le> length s \<and> drop (length s - length t) s = t"

fun contains :: "string \<Rightarrow> string \<Rightarrow> bool" where
  "contains [] t = (t = [])"
| "contains (c # s) t = (take (length t) (c # s) = t \<or> contains s t)"

text \<open>\<open>str\<close> of an integer.\<close>

fun nat_str :: "nat \<Rightarrow> string" where
  "nat_str n = (if n < 10 then [char_of (48 + n)] else nat_str (n div 10) @ [char_of (48 + n mod 10)])"

declare nat_str.simps [simp del]

definition int_str :: "int \<Rightarrow> string" where
  "int_str i = (if i < 0 then ''-'' @ nat_str (nat (- i)) else nat_str (nat i))"

section \<open>Keyed tables\<close>

text \<open>
  A table is the list of its rows in insertion order. \<open>row_at\<close> is the first row with a given key
  and \<open>put_row\<close> replaces every row that has the key of the new one.
\<close>

definition row_at :: "('r \<Rightarrow> 'k) \<Rightarrow> 'k \<Rightarrow> 'r list \<Rightarrow> 'r option" where
  "row_at key k rows = find (\<lambda>r. key r = k) rows"

definition put_row :: "('r \<Rightarrow> 'k) \<Rightarrow> 'r \<Rightarrow> 'r list \<Rightarrow> 'r list" where
  "put_row key r rows = map (\<lambda>x. if key x = key r then r else x) rows"

lemma row_at_Nil [simp]: "row_at key k [] = None"
  by (simp add: row_at_def)

lemma row_at_Cons [simp]:
  "row_at key k (r # rows) = (if key r = k then Some r else row_at key k rows)"
  by (simp add: row_at_def)

lemma row_at_append:
  "row_at key k (xs @ ys) = (case row_at key k xs of None \<Rightarrow> row_at key k ys | Some r \<Rightarrow> Some r)"
  by (induction xs) auto

lemma row_at_SomeD: "row_at key k rows = Some r \<Longrightarrow> r \<in> set rows \<and> key r = k"
  by (induction rows) (auto split: if_splits)

lemma row_at_None_iff: "row_at key k rows = None \<longleftrightarrow> k \<notin> key ` set rows"
  by (induction rows) auto

lemma row_at_mem: "distinct (map key rows) \<Longrightarrow> r \<in> set rows \<Longrightarrow> row_at key (key r) rows = Some r"
  by (induction rows) auto

lemma put_row_Nil [simp]: "put_row key r [] = []"
  by (simp add: put_row_def)

lemma put_row_Cons [simp]:
  "put_row key r (x # xs) = (if key x = key r then r else x) # put_row key r xs"
  by (simp add: put_row_def)

lemma put_row_append [simp]: "put_row key r (xs @ ys) = put_row key r xs @ put_row key r ys"
  by (simp add: put_row_def)

lemma map_key_put_row [simp]: "map key (put_row key r rows) = map key rows"
  by (induction rows) auto

lemma image_key_put_row [simp]: "key ` set (put_row key r rows) = key ` set rows"
  by (metis map_key_put_row set_map)

lemma length_put_row [simp]: "length (put_row key r rows) = length rows"
  by (simp add: put_row_def)

lemma map_put_row_same:
  "(\<And>x. x \<in> set rows \<Longrightarrow> key x = key r \<Longrightarrow> f r = f x) \<Longrightarrow> map f (put_row key r rows) = map f rows"
  by (induction rows) auto

lemma row_at_put_row:
  "row_at key k (put_row key r rows) =
     (case row_at key k rows of None \<Rightarrow> None | Some x \<Rightarrow> Some (if k = key r then r else x))"
  by (induction rows) auto

lemma put_row_fresh: "key r \<notin> key ` set rows \<Longrightarrow> put_row key r rows = rows"
  by (induction rows) auto

lemma put_row_same:
  "distinct (map key rows) \<Longrightarrow> row_at key k rows = Some r \<Longrightarrow> put_row key r rows = rows"
  by (induction rows) (auto split: if_splits simp: put_row_fresh dest: row_at_SomeD)

lemma put_row_put_row: "key r = key r' \<Longrightarrow> put_row key r (put_row key r' rows) = put_row key r rows"
  by (induction rows) auto

lemma set_put_rowD: "x \<in> set (put_row key r rows) \<Longrightarrow> x = r \<or> x \<in> set rows \<and> key x \<noteq> key r"
  by (auto simp: put_row_def split: if_splits)

lemma set_put_row:
  "key r \<in> key ` set rows \<Longrightarrow> set (put_row key r rows) = insert r {x \<in> set rows. key x \<noteq> key r}"
  by (auto simp: put_row_def)

text \<open>Sums over a table whose keys are distinct change by the difference of one row.\<close>

definition row_sum :: "('r \<Rightarrow> rat) \<Rightarrow> 'r list \<Rightarrow> rat" where
  "row_sum f rows = sum_list (map f rows)"

lemma row_sum_simps [simp]:
  "row_sum f [] = 0"
  "row_sum f (r # rows) = f r + row_sum f rows"
  "row_sum f (xs @ ys) = row_sum f xs + row_sum f ys"
  by (simp_all add: row_sum_def)

lemma row_sum_cong: "(\<And>r. r \<in> set rows \<Longrightarrow> f r = g r) \<Longrightarrow> row_sum f rows = row_sum g rows"
  by (induction rows) auto

lemma row_sum_put_row:
  assumes "distinct (map key rows)" and "row_at key (key r) rows = Some old"
  shows "row_sum f (put_row key r rows) = row_sum f rows - f old + f r"
  using assms
proof (induction rows)
  case Nil
  then show ?case by simp
next
  case (Cons x xs)
  show ?case
  proof (cases "key x = key r")
    case True
    with Cons.prems(1) have "key r \<notin> key ` set xs" by simp
    with True Cons.prems(2) show ?thesis by (simp add: put_row_fresh)
  next
    case False
    with Cons show ?thesis by simp
  qed
qed

lemma row_sum_nonneg: "(\<And>r. r \<in> set rows \<Longrightarrow> 0 \<le> f r) \<Longrightarrow> 0 \<le> row_sum f rows"
  by (induction rows) auto

lemma row_sum_member_le:
  "r \<in> set rows \<Longrightarrow> (\<And>x. x \<in> set rows \<Longrightarrow> 0 \<le> f x) \<Longrightarrow> f r \<le> row_sum f rows"
proof (induction rows)
  case Nil
  then show ?case by simp
next
  case (Cons a rows)
  then have "0 \<le> row_sum f rows" and "0 \<le> f a" by (auto intro: row_sum_nonneg)
  with Cons show ?case by fastforce
qed

section \<open>Invariants of runs\<close>

text \<open>
  A step relation and a property its steps keep: the property holds after every run from a state
  that has it.
\<close>

locale step_invariant =
  fixes step :: "'s \<Rightarrow> 's \<Rightarrow> bool"
    and inv :: "'s \<Rightarrow> bool"
  assumes inv_step: "inv s \<Longrightarrow> step s t \<Longrightarrow> inv t"
begin

lemma inv_run: "step\<^sup>*\<^sup>* s t \<Longrightarrow> inv s \<Longrightarrow> inv t"
  by (induction rule: rtranclp_induct) (blast intro: inv_step)+

end

end
