(* ===== verification/Path_Safety.thy ===== *)
theory Path_Safety
  imports Kernel_Prelude
begin

text \<open>
  The path sandbox of the agent's file tools, \<open>tools/path_utils.py\<close>: which roots may be read and
  written, and the five helpers that turn a path given by a user or by the model into a resolved path
  inside such a root.

  A path is a POSIX path: whether it starts at the root, and its components without empty ones and
  without \<open>.\<close>. The file system (\<open>Path.resolve\<close>, which follows links and removes \<open>..\<close>, and \<open>is_dir\<close>),
  the expansion of \<open>~\<close>, the working and home directories and the environment variables come from
  outside. Error texts are the constant parts of the source's.
\<close>

section \<open>Paths\<close>

record path =
  pa_absolute :: bool
  pa_parts :: "string list"

fun split_on :: "char \<Rightarrow> string \<Rightarrow> string list" where
  "split_on c [] = [[]]"
| "split_on c (x # xs) =
     (if x = c then [] # split_on c xs
      else case split_on c xs of [] \<Rightarrow> [[x]] | w # ws \<Rightarrow> (x # w) # ws)"

definition path_of :: "string \<Rightarrow> path" where
  "path_of s = \<lparr>pa_absolute = (s \<noteq> [] \<and> hd s = CHR ''/''),
                pa_parts = filter (\<lambda>w. w \<notin> {'''', ''.''}) (split_on (CHR ''/'') s)\<rparr>"

definition path_join :: "path \<Rightarrow> path \<Rightarrow> path" where
  "path_join p q = (if pa_absolute q then q else p\<lparr>pa_parts := pa_parts p @ pa_parts q\<rparr>)"

definition is_relative_to :: "path \<Rightarrow> path \<Rightarrow> bool" where
  "is_relative_to p base_dir \<longleftrightarrow> pa_absolute p = pa_absolute base_dir \<and>
     take (length (pa_parts base_dir)) (pa_parts p) = pa_parts base_dir"

definition subdir :: "path \<Rightarrow> string list \<Rightarrow> path" where
  "subdir p ws = p\<lparr>pa_parts := pa_parts p @ ws\<rparr>"

definition path_name :: "path \<Rightarrow> string" where
  "path_name p = (if pa_parts p = [] then [] else last (pa_parts p))"

record path_env =
  pw_resolve :: "path \<Rightarrow> path"
  pw_expanduser :: "path \<Rightarrow> path"
  pw_cwd :: path
  pw_home :: path
  pw_agent_root :: path
  pw_getenv :: "string \<Rightarrow> string"
  pw_is_dir :: "path \<Rightarrow> bool"

type_synonym 'a pathres = "string + 'a"

section \<open>The roots\<close>

definition rejects_unc :: "string \<Rightarrow> unit pathres" where
  "rejects_unc p = (if take 2 p = [CHR 0x5C, CHR 0x5C] \<or> take 2 p = ''//''
                    then Inl ''UNC paths are not allowed'' else Inr ())"

fun configured_roots :: "path_env \<Rightarrow> string list \<Rightarrow> path list pathres" where
  "configured_roots e [] = Inr []"
| "configured_roots e (item # items) =
     (if strip item = [] then configured_roots e items
      else rbind (rejects_unc (strip item)) (\<lambda>_.
           rbind (configured_roots e items) (\<lambda>roots.
             Inr (pw_resolve e (pw_expanduser e (path_of (strip item))) # roots))))"

definition env_roots :: "path_env \<Rightarrow> string \<Rightarrow> path list pathres" where
  "env_roots e var = configured_roots e (split_on (CHR '','') (pw_getenv e var))"

definition default_file_roots :: "path_env \<Rightarrow> path list" where
  "default_file_roots e =
     (let cwd = pw_resolve e (pw_cwd e); home = pw_resolve e (pw_home e); agent_root = pw_agent_root e
      in [subdir agent_root [''uploads''], subdir agent_root [''runs''],
          subdir cwd [''uploads''], subdir cwd [''data''],
          subdir home [''.vibe-trading'', ''uploads''], subdir home [''.vibe-trading'', ''imports'']])"

definition swarm_runs_root :: "path_env \<Rightarrow> path" where
  "swarm_runs_root e = subdir (pw_agent_root e) [''.swarm'', ''runs'']"

definition default_run_roots :: "path_env \<Rightarrow> path list" where
  "default_run_roots e =
     (let cwd = pw_resolve e (pw_cwd e); home = pw_resolve e (pw_home e); agent_root = pw_agent_root e
      in [subdir agent_root [''runs''], swarm_runs_root e, subdir cwd [''runs''],
          subdir home [''.vibe-trading'', ''shadow_runs''], subdir home [''.vibe-trading'', ''runs'']])"

definition default_write_roots :: "path_env \<Rightarrow> path list" where
  "default_write_roots e =
     (let cwd = pw_resolve e (pw_cwd e); home = pw_resolve e (pw_home e); agent_root = pw_agent_root e
      in [subdir agent_root [''uploads''], subdir agent_root [''runs''], subdir cwd [''uploads''],
          subdir home [''.vibe-trading'', ''uploads''], subdir home [''.vibe-trading'', ''runs'']])"

text \<open>The loop that resolves the roots and keeps the first of equal ones.\<close>

fun add_roots :: "path_env \<Rightarrow> path list \<Rightarrow> path list \<Rightarrow> path list" where
  "add_roots e roots [] = roots"
| "add_roots e roots (r # rs) =
     (let resolved = pw_resolve e r
      in add_roots e (if resolved \<in> set roots then roots else roots @ [resolved]) rs)"

definition allowed_file_roots :: "path_env \<Rightarrow> path list pathres" where
  "allowed_file_roots e = rbind (env_roots e ''VIBE_TRADING_ALLOWED_FILE_ROOTS'')
     (\<lambda>configured. Inr (add_roots e [] (default_file_roots e @ configured)))"

definition allowed_write_roots :: "path_env \<Rightarrow> path list pathres" where
  "allowed_write_roots e = rbind (env_roots e ''VIBE_TRADING_ALLOWED_WRITE_ROOTS'')
     (\<lambda>configured. Inr (add_roots e [] (default_write_roots e @ configured)))"

definition allowed_run_roots :: "path_env \<Rightarrow> path list pathres" where
  "allowed_run_roots e = rbind (env_roots e ''VIBE_TRADING_ALLOWED_RUN_ROOTS'')
     (\<lambda>configured. Inr (add_roots e [] (default_run_roots e @ configured)))"

section \<open>The helpers\<close>

definition safe_path :: "path_env \<Rightarrow> string \<Rightarrow> path \<Rightarrow> path pathres" where
  "safe_path e p workdir = rbind (rejects_unc p) (\<lambda>_.
     let base = pw_resolve e workdir;
         expanded = pw_expanduser e (path_of p);
         resolved = (if pa_absolute expanded then pw_resolve e expanded
                     else pw_resolve e (path_join base (path_of p)))
     in if is_relative_to resolved base then Inr resolved
        else Inl ''escapes the workspace root'')"

text \<open>The first root that holds the candidate decides; without one the call fails with the given text.\<close>

definition inside_roots :: "path \<Rightarrow> path list \<Rightarrow> string \<Rightarrow> path pathres" where
  "inside_roots candidate roots msg =
     (if list_ex (is_relative_to candidate) roots then Inr candidate else Inl msg)"

definition safe_run_dir :: "path_env \<Rightarrow> string \<Rightarrow> path pathres" where
  "safe_run_dir e p = rbind (rejects_unc p) (\<lambda>_.
     let resolved = pw_resolve e (pw_expanduser e (path_of p))
     in rbind (allowed_run_roots e) (\<lambda>roots.
          inside_roots resolved roots ''run_dir is outside allowed run roots''))"

definition resolve_safe_path ::
    "path_env \<Rightarrow> string \<Rightarrow> string option \<Rightarrow> path list \<Rightarrow> path pathres" where
  "resolve_safe_path e file_path run_dir allowed_roots = rbind (rejects_unc file_path) (\<lambda>_.
     let candidate = pw_resolve e (pw_expanduser e (path_of file_path)) in
     case run_dir of
       Some (c # cs) \<Rightarrow>
         (case safe_run_dir e (c # cs) of
            Inl exc \<Rightarrow> inside_roots candidate allowed_roots exc
          | Inr run_root \<Rightarrow>
              (case safe_path e file_path run_root of
                 Inl exc \<Rightarrow> inside_roots candidate allowed_roots ''escapes run_dir and is not in allowed roots''
               | Inr resolved \<Rightarrow> Inr resolved))
     | _ \<Rightarrow> inside_roots candidate allowed_roots ''run_dir is required'')"

definition import_candidate :: "path_env \<Rightarrow> string \<Rightarrow> path" where
  "import_candidate e p =
     (let candidate = pw_expanduser e (path_of p) in
      if pa_absolute candidate then pw_resolve e candidate
      else case pa_parts candidate of
        w # ws \<Rightarrow>
          if w = ''uploads'' then pw_resolve e (path_join (pw_agent_root e) candidate)
          else if w = ''agent'' \<and> ws \<noteq> [] \<and> hd ws = ''uploads''
          then pw_resolve e (path_join (pw_agent_root e) (candidate\<lparr>pa_parts := ws\<rparr>))
          else pw_resolve e (path_join (pw_cwd e) candidate)
      | [] \<Rightarrow> pw_resolve e (path_join (pw_cwd e) candidate))"

definition safe_import_path :: "path_env \<Rightarrow> string \<Rightarrow> path pathres" where
  "safe_import_path e p = rbind (rejects_unc p) (\<lambda>_.
     let resolved = import_candidate e p
     in rbind (allowed_file_roots e) (\<lambda>roots.
          inside_roots resolved roots ''is outside allowed roots''))"

definition safe_user_path :: "path_env \<Rightarrow> string \<Rightarrow> path pathres" where
  "safe_user_path = safe_import_path"

definition safe_document_path :: "path_env \<Rightarrow> string \<Rightarrow> path pathres" where
  "safe_document_path = safe_import_path"

fun find_run_dir :: "path_env \<Rightarrow> string \<Rightarrow> path list \<Rightarrow> path option" where
  "find_run_dir e name [] = None"
| "find_run_dir e name (base_dir # roots) =
     (let resolved = pw_resolve e (subdir base_dir [name])
      in if is_relative_to resolved base_dir \<and> pw_is_dir e resolved then Some resolved
         else find_run_dir e name roots)"

definition safe_run_id :: "path_env \<Rightarrow> string \<Rightarrow> path pathres" where
  "safe_run_id e run_id = rbind (rejects_unc run_id) (\<lambda>_.
     let candidate = path_of run_id in
     if strip run_id = [] \<or> pa_absolute candidate \<or> length (pa_parts candidate) \<noteq> 1 \<or>
        list_ex (\<lambda>w. w \<in> {'''', ''.'', ''..''}) (pa_parts candidate)
     then Inl ''must be a bare run directory name''
     else rbind (allowed_run_roots e) (\<lambda>roots.
       case find_run_dir e (path_name candidate) roots of
         Some d \<Rightarrow> Inr d
       | None \<Rightarrow> Inl ''was not found under allowed run roots''))"

section \<open>Containment\<close>

lemma inside_roots_iff [ok_iff]:
  "inside_roots c roots msg = Inr r \<longleftrightarrow> r = c \<and> (\<exists>base_dir \<in> set roots. is_relative_to c base_dir)"
  by (auto simp: inside_roots_def list_ex_iff)

lemma safe_path_iff:
  "safe_path e p w = Inr r \<longleftrightarrow> rejects_unc p = Inr () \<and>
     r = pw_resolve e (if pa_absolute (pw_expanduser e (path_of p)) then pw_expanduser e (path_of p)
                       else path_join (pw_resolve e w) (path_of p)) \<and>
     is_relative_to r (pw_resolve e w)"
  by (auto simp: safe_path_def Let_def ok_iff)

text \<open>What the sandbox promises of a path it returns: the file system has resolved it, and it lies under one of the roots.\<close>

definition contained :: "path_env \<Rightarrow> path list \<Rightarrow> path \<Rightarrow> bool" where
  "contained e roots r \<longleftrightarrow> r \<in> range (pw_resolve e) \<and> (\<exists>base_dir \<in> set roots. is_relative_to r base_dir)"

lemma contained_mono: "contained e roots r \<Longrightarrow> set roots \<subseteq> set roots' \<Longrightarrow> contained e roots' r"
  by (auto simp: contained_def)

lemma import_candidate_resolved: "import_candidate e p \<in> range (pw_resolve e)"
  by (auto simp: import_candidate_def Let_def split: list.splits)

lemma safe_run_dir_contained:
  "safe_run_dir e p = Inr r \<Longrightarrow> \<exists>roots. allowed_run_roots e = Inr roots \<and> contained e roots r"
  by (auto simp: safe_run_dir_def Let_def ok_iff contained_def)

lemma safe_import_path_contained:
  "safe_import_path e p = Inr r \<Longrightarrow> \<exists>roots. allowed_file_roots e = Inr roots \<and> contained e roots r"
  using import_candidate_resolved [of e p]
  by (auto simp: safe_import_path_def Let_def ok_iff contained_def)

lemma find_run_dir_contained:
  "find_run_dir e name roots = Some r \<Longrightarrow> contained e roots r \<and> pw_is_dir e r"
  by (induction roots) (auto simp: Let_def contained_def split: if_splits)

lemma safe_run_id_contained:
  "safe_run_id e p = Inr r \<Longrightarrow> \<exists>roots. allowed_run_roots e = Inr roots \<and> contained e roots r \<and> pw_is_dir e r"
  by (auto simp: safe_run_id_def Let_def ok_iff split: if_splits option.splits dest!: find_run_dir_contained)

lemma resolve_safe_path_contained:
  assumes "resolve_safe_path e p run_dir roots = Inr r"
  shows "contained e roots r \<or>
    (\<exists>d base_dir. run_dir = Some d \<and> safe_run_dir e d = Inr base_dir \<and> contained e [pw_resolve e base_dir] r)"
  using assms
  by (auto simp: resolve_safe_path_def Let_def ok_iff contained_def safe_path_iff
      split: option.splits list.splits sum.splits)

lemma is_relative_to_iff:
  "is_relative_to p q \<longleftrightarrow> pa_absolute p = pa_absolute q \<and> (\<exists>ws. pa_parts p = pa_parts q @ ws)"
  unfolding is_relative_to_def by (metis append_eq_conv_conj append_take_drop_id)

lemma is_relative_to_trans:
  "is_relative_to p q \<Longrightarrow> is_relative_to q r \<Longrightarrow> is_relative_to p r"
  by (auto simp: is_relative_to_iff)

lemma contained_under:
  "contained e [q] r \<Longrightarrow> contained e roots q \<Longrightarrow> contained e roots r"
  by (auto simp: contained_def intro: is_relative_to_trans)

text \<open>
  A run directory that was accepted is resolved, so that what is accepted below it lies under an
  allowed run root as well.
\<close>

lemma resolve_safe_path_sandbox:
  assumes idem: "\<And>q. pw_resolve e (pw_resolve e q) = pw_resolve e q"
    and ok: "resolve_safe_path e p run_dir roots = Inr r"
  shows "contained e roots r \<or> (\<exists>rr. allowed_run_roots e = Inr rr \<and> contained e rr r)"
proof (cases "contained e roots r")
  case False
  with resolve_safe_path_contained [OF ok] obtain d q where d: "safe_run_dir e d = Inr q"
    and r: "contained e [pw_resolve e q] r" by blast
  from safe_run_dir_contained [OF d] obtain rr where rr: "allowed_run_roots e = Inr rr" "contained e rr q"
    by blast
  then have "pw_resolve e q = q" by (auto simp: contained_def idem)
  with r rr show ?thesis by (auto dest: contained_under)
qed simp

lemma safe_import_path_iff:
  "safe_import_path e p = Inr r \<longleftrightarrow> rejects_unc p = Inr () \<and> r = import_candidate e p \<and>
     (\<exists>roots. allowed_file_roots e = Inr roots \<and> contained e roots r)"
  using import_candidate_resolved [of e p]
  by (auto simp: safe_import_path_def Let_def ok_iff contained_def)

end
