(* ===== verification/Py_Values.thy ===== *)
theory Py_Values
  imports Kernel_Prelude
begin

text \<open>
  The dynamic values of the live-trading code: Python floats, the values a JSON document or a broker's
  answer holds, the conversions \<open>float\<close> and \<open>int\<close>, and what the code takes from its environment.

  A finite float is the rational number it stands for; rounding and the overflow of finite operations
  are outside the model. The infinities and NaN are kept, with Python's comparisons, because the
  limits of the order gate are compared with numbers that come from outside.
\<close>

section \<open>Floats\<close>

datatype pyfloat = Fin rat | PInf | NInf | NaN

fun flt :: "pyfloat \<Rightarrow> pyfloat \<Rightarrow> bool" where
  "flt (Fin a) (Fin b) = (a < b)"
| "flt (Fin a) PInf = True"
| "flt NInf (Fin b) = True"
| "flt NInf PInf = True"
| "flt _ _ = False"

fun feq :: "pyfloat \<Rightarrow> pyfloat \<Rightarrow> bool" where
  "feq (Fin a) (Fin b) = (a = b)"
| "feq PInf PInf = True"
| "feq NInf NInf = True"
| "feq _ _ = False"

definition fle :: "pyfloat \<Rightarrow> pyfloat \<Rightarrow> bool" where
  "fle a b \<longleftrightarrow> flt a b \<or> feq a b"

fun fneg :: "pyfloat \<Rightarrow> pyfloat" where
  "fneg (Fin a) = Fin (- a)"
| "fneg PInf = NInf"
| "fneg NInf = PInf"
| "fneg NaN = NaN"

fun fabs :: "pyfloat \<Rightarrow> pyfloat" where
  "fabs (Fin a) = Fin \<bar>a\<bar>"
| "fabs NaN = NaN"
| "fabs _ = PInf"

fun fadd :: "pyfloat \<Rightarrow> pyfloat \<Rightarrow> pyfloat" where
  "fadd (Fin a) (Fin b) = Fin (a + b)"
| "fadd NaN _ = NaN"
| "fadd _ NaN = NaN"
| "fadd PInf NInf = NaN"
| "fadd NInf PInf = NaN"
| "fadd PInf _ = PInf"
| "fadd _ PInf = PInf"
| "fadd NInf _ = NInf"
| "fadd _ NInf = NInf"

definition fsub :: "pyfloat \<Rightarrow> pyfloat \<Rightarrow> pyfloat" where
  "fsub a b = fadd a (fneg b)"

definition fsign :: "pyfloat \<Rightarrow> pyfloat \<Rightarrow> pyfloat" where
  "fsign a x = (if feq a (Fin 0) then NaN else if flt a (Fin 0) then fneg x else x)"

fun fmul :: "pyfloat \<Rightarrow> pyfloat \<Rightarrow> pyfloat" where
  "fmul (Fin a) (Fin b) = Fin (a * b)"
| "fmul NaN _ = NaN"
| "fmul _ NaN = NaN"
| "fmul PInf b = fsign b PInf"
| "fmul NInf b = fsign b NInf"
| "fmul a PInf = fsign a PInf"
| "fmul a NInf = fsign a NInf"

text \<open>Division by a number that is not zero.\<close>

fun fdiv :: "pyfloat \<Rightarrow> pyfloat \<Rightarrow> pyfloat" where
  "fdiv (Fin a) (Fin b) = Fin (a / b)"
| "fdiv NaN _ = NaN"
| "fdiv _ NaN = NaN"
| "fdiv (Fin a) _ = Fin 0"
| "fdiv PInf (Fin b) = fsign (Fin b) PInf"
| "fdiv NInf (Fin b) = fsign (Fin b) NInf"
| "fdiv _ _ = NaN"

text \<open>\<open>max(a, b)\<close> keeps \<open>a\<close> unless \<open>b\<close> is greater.\<close>

definition fmax :: "pyfloat \<Rightarrow> pyfloat \<Rightarrow> pyfloat" where
  "fmax a b = (if flt a b then b else a)"

definition is_nan :: "pyfloat \<Rightarrow> bool" where
  "is_nan a \<longleftrightarrow> \<not> feq a a"

lemma is_nan_iff [simp]: "is_nan a \<longleftrightarrow> a = NaN"
  by (cases a) (simp_all add: is_nan_def)

lemma flt_irrefl [simp]: "\<not> flt a a"
  by (cases a) simp_all

lemma flt_trans [trans]: "flt a b \<Longrightarrow> flt b c \<Longrightarrow> flt a c"
  by (cases a; cases b; cases c) simp_all

lemma fle_refl [simp]: "fle a a \<longleftrightarrow> a \<noteq> NaN"
  by (cases a) (simp_all add: fle_def)

lemma fle_trans [trans]: "fle a b \<Longrightarrow> fle b c \<Longrightarrow> fle a c"
  by (cases a; cases b; cases c) (auto simp: fle_def)

lemma not_flt: "a \<noteq> NaN \<Longrightarrow> b \<noteq> NaN \<Longrightarrow> \<not> flt a b \<longleftrightarrow> fle b a"
  by (cases a; cases b) (auto simp: fle_def)

lemma flt_NaN [simp]: "\<not> flt NaN a" "\<not> flt a NaN" "\<not> fle NaN a" "\<not> fle a NaN"
  by (cases a; simp add: fle_def)+

lemma fmax_ge: "fmax a b \<noteq> NaN \<Longrightarrow> b \<noteq> NaN \<Longrightarrow> fle a (fmax a b) \<and> fle b (fmax a b)"
  by (cases a; cases b) (auto simp: fmax_def fle_def)

section \<open>Values\<close>

datatype pyval =
    VNone
  | VBool bool
  | VInt int
  | VFloat pyfloat
  | VStr string
  | VList "pyval list"
  | VDict "(string \<times> pyval) list"

type_synonym pydict = "(string \<times> pyval) list"

text \<open>The exceptions of the live-trading code.\<close>

datatype live_exc =
    Value_Error string
  | Type_Error string
  | Key_Error string
  | Overflow_Error
  | Attribute_Error string
  | Commit_Error string
  | Remote_Error string
  | Runtime_Error string

type_synonym 'a live = "live_exc + 'a"

fun val_truthy :: "pyval \<Rightarrow> bool" where
  "val_truthy VNone = False"
| "val_truthy (VBool b) = b"
| "val_truthy (VInt i) = (i \<noteq> 0)"
| "val_truthy (VFloat x) = (\<not> feq x (Fin 0))"
| "val_truthy (VStr s) = (s \<noteq> [])"
| "val_truthy (VList l) = (l \<noteq> [])"
| "val_truthy (VDict d) = (d \<noteq> [])"

text \<open>\<open>isinstance(v, (int, float))\<close> and the number, as a float.\<close>

fun number_of :: "pyval \<Rightarrow> pyfloat option" where
  "number_of (VBool b) = Some (Fin (if b then 1 else 0))"
| "number_of (VInt i) = Some (Fin (of_int i))"
| "number_of (VFloat x) = Some x"
| "number_of _ = None"

text \<open>\<open>d.get(k)\<close> and \<open>d[k]\<close>; \<open>dict_set\<close> is the assignment, which keeps the place of a key.\<close>

definition dget :: "pydict \<Rightarrow> string \<Rightarrow> pyval" where
  "dget d k = (case map_of d k of None \<Rightarrow> VNone | Some v \<Rightarrow> v)"

definition dget_or :: "pydict \<Rightarrow> string \<Rightarrow> pyval \<Rightarrow> pyval" where
  "dget_or d k v = (case map_of d k of None \<Rightarrow> v | Some w \<Rightarrow> w)"

definition ditem :: "pydict \<Rightarrow> string \<Rightarrow> pyval live" where
  "ditem d k = (case map_of d k of None \<Rightarrow> Inl (Key_Error k) | Some v \<Rightarrow> Inr v)"

fun dict_set :: "string \<Rightarrow> pyval \<Rightarrow> pydict \<Rightarrow> pydict" where
  "dict_set k v [] = [(k, v)]"
| "dict_set k v ((k', w) # d) = (if k' = k then (k, v) # d else (k', w) # dict_set k v d)"

lemma map_of_dict_set [simp]: "map_of (dict_set k v d) = (map_of d)(k \<mapsto> v)"
  by (induction k v d rule: dict_set.induct) auto

section \<open>Numbers in texts\<close>

definition is_digit :: "char \<Rightarrow> bool" where
  "is_digit c = (let n = (of_char c :: nat) in 48 \<le> n \<and> n \<le> 57)"

definition digit_val :: "char \<Rightarrow> nat" where
  "digit_val c = of_char c - 48"

definition digits_val :: "string \<Rightarrow> nat" where
  "digits_val ds = foldl (\<lambda>a c. 10 * a + digit_val c) 0 ds"

text \<open>Digits, with single underscores between them.\<close>

fun more_digits :: "string \<Rightarrow> string \<times> string" where
  "more_digits [] = ([], [])"
| "more_digits (c # cs) =
     (if is_digit c then (let (ds, r) = more_digits cs in (c # ds, r))
      else if c = CHR ''_'' \<and> cs \<noteq> [] \<and> is_digit (hd cs) then more_digits cs
      else ([], c # cs))"

definition digit_part :: "string \<Rightarrow> string \<times> string" where
  "digit_part s = (if s \<noteq> [] \<and> is_digit (hd s) then more_digits s else ([], s))"

definition sign_part :: "string \<Rightarrow> bool \<times> string" where
  "sign_part s =
     (case s of [] \<Rightarrow> (False, [])
      | c # cs \<Rightarrow> if c = CHR ''-'' then (True, cs) else if c = CHR ''+'' then (False, cs) else (False, s))"

definition exponent_part :: "string \<Rightarrow> int option" where
  "exponent_part s =
     (case s of [] \<Rightarrow> Some 0
      | c # cs \<Rightarrow>
          if c = CHR ''e'' \<or> c = CHR ''E''
          then let (neg, r) = sign_part cs; (ds, r) = digit_part r
               in if ds = [] \<or> r \<noteq> [] then None
                  else Some (if neg then - int (digits_val ds) else int (digits_val ds))
          else None)"

definition scale10 :: "rat \<Rightarrow> int \<Rightarrow> rat" where
  "scale10 q k = (if 0 \<le> k then q * 10 ^ nat k else q / 10 ^ nat (- k))"

definition float_of_str :: "string \<Rightarrow> pyfloat option" where
  "float_of_str s =
     (let (neg, u) = sign_part (strip s); flip = (\<lambda>x. if neg then fneg x else x)
      in if lower u = ''inf'' \<or> lower u = ''infinity'' then Some (flip PInf)
         else if lower u = ''nan'' then Some NaN
         else
         let (ip, r) = digit_part u;
             (fp, r) = (if r \<noteq> [] \<and> hd r = CHR ''.'' then digit_part (tl r) else ([], r))
         in if ip = [] \<and> fp = [] then None
            else case exponent_part r of
              None \<Rightarrow> None
            | Some e \<Rightarrow> Some (flip (Fin (scale10 (of_nat (digits_val (ip @ fp))) (e - int (length fp))))))"

definition int_of_str :: "string \<Rightarrow> int option" where
  "int_of_str s =
     (let (neg, u) = sign_part (strip s); (ds, r) = digit_part u
      in if ds = [] \<or> r \<noteq> [] then None
         else Some (if neg then - int (digits_val ds) else int (digits_val ds)))"

definition truncate_rat :: "rat \<Rightarrow> int" where
  "truncate_rat q = (if 0 \<le> q then \<lfloor>q\<rfloor> else \<lceil>q\<rceil>)"

text \<open>\<open>float(v)\<close> and \<open>int(v)\<close>.\<close>

definition py_float :: "pyval \<Rightarrow> pyfloat live" where
  "py_float v =
     (case number_of v of
        Some x \<Rightarrow> Inr x
      | None \<Rightarrow>
          (case v of
             VStr s \<Rightarrow> (case float_of_str s of None \<Rightarrow> Inl (Value_Error ''float'') | Some x \<Rightarrow> Inr x)
           | _ \<Rightarrow> Inl (Type_Error ''float'')))"

definition py_int :: "pyval \<Rightarrow> int live" where
  "py_int v =
     (case v of
        VBool b \<Rightarrow> Inr (if b then 1 else 0)
      | VInt i \<Rightarrow> Inr i
      | VFloat (Fin q) \<Rightarrow> Inr (truncate_rat q)
      | VFloat NaN \<Rightarrow> Inl (Value_Error ''int'')
      | VFloat _ \<Rightarrow> Inl Overflow_Error
      | VStr s \<Rightarrow> (case int_of_str s of None \<Rightarrow> Inl (Value_Error ''int'') | Some i \<Rightarrow> Inr i)
      | _ \<Rightarrow> Inl (Type_Error ''int''))"

text \<open>\<open>a or b\<close>, and the items a \<open>for\<close> loop takes from a value.\<close>

definition val_or :: "pyval \<Rightarrow> pyval \<Rightarrow> pyval" where
  "val_or a b = (if val_truthy a then a else b)"

definition py_iter :: "pyval \<Rightarrow> pyval list live" where
  "py_iter v =
     (case v of
        VList l \<Rightarrow> Inr l
      | VStr s \<Rightarrow> Inr (map (\<lambda>c. VStr [c]) s)
      | VDict d \<Rightarrow> Inr (map (\<lambda>(k, w). VStr k) d)
      | _ \<Rightarrow> Inl (Type_Error ''not iterable''))"

text \<open>A call on every item of a list, up to the first exception.\<close>

fun rmap :: "('a \<Rightarrow> 'e + 'b) \<Rightarrow> 'a list \<Rightarrow> 'e + 'b list" where
  "rmap f [] = Inr []"
| "rmap f (x # xs) = rbind (f x) (\<lambda>y. rbind (rmap f xs) (\<lambda>ys. Inr (y # ys)))"

lemma rmap_Inr_iff [ok_iff]: "rmap f xs = Inr ys \<longleftrightarrow> list_all2 (\<lambda>x y. f x = Inr y) xs ys"
  by (induction xs arbitrary: ys) (auto simp: rbind_Inr_iff list_all2_Cons1)

section \<open>The environment\<close>

text \<open>
  What the code takes from the interpreter and the clock: the time in microseconds since the epoch, the
  ISO text of an instant (with \<open>+00:00\<close> or with \<open>Z\<close>) and of a day, the parser of such texts, the text of a value that is not a
  string, a number in the \<open>g\<close> format, the hexadecimal digits of the n-th random id, and the digest
  function.
\<close>

record py_env =
  pe_now :: int
  pe_iso :: "int \<Rightarrow> string"
  pe_iso_z :: "int \<Rightarrow> string"
  pe_from_iso :: "string \<Rightarrow> int option"
  pe_date :: "int \<Rightarrow> string"
  pe_str :: "pyval \<Rightarrow> string"
  pe_format_g :: "pyfloat \<Rightarrow> string"
  pe_uuid_hex :: "nat \<Rightarrow> string"
  pe_sha256 :: "string \<Rightarrow> string"

definition day_of :: "int \<Rightarrow> int" where
  "day_of t = t div 86400000000"

definition utc_today :: "py_env \<Rightarrow> string" where
  "utc_today e = pe_date e (day_of (pe_now e))"

definition py_str :: "py_env \<Rightarrow> pyval \<Rightarrow> string" where
  "py_str e v = (case v of VStr s \<Rightarrow> s | _ \<Rightarrow> pe_str e v)"

definition upper_strip :: "string \<Rightarrow> string" where
  "upper_strip s = map upper_char (strip s)"

section \<open>Numbers and their texts\<close>

lemma is_digit_char [simp]: "n < 10 \<Longrightarrow> is_digit (char_of (48 + n :: nat))"
  by (simp add: is_digit_def Let_def)

lemma digit_val_char [simp]: "n < 10 \<Longrightarrow> digit_val (char_of (48 + n :: nat)) = n"
  by (simp add: digit_val_def)

lemma digits_val_snoc [simp]: "digits_val (ds @ [c]) = 10 * digits_val ds + digit_val c"
  by (simp add: digits_val_def)

lemma nat_str_digits: "list_all is_digit (nat_str n) \<and> nat_str n \<noteq> [] \<and> digits_val (nat_str n) = n"
proof (induction n rule: nat_str.induct)
  case (1 n)
  show ?case
  proof (cases "n < 10")
    case True
    have "digits_val [char_of (48 + n)] = n" using digits_val_snoc [of "[]"] True by (simp add: digits_val_def)
    then show ?thesis using True by (simp add: nat_str.simps [of n])
  next
    case False
    have "n mod 10 < 10" by simp
    from is_digit_char [OF this] digit_val_char [OF this] False 1 show ?thesis
      by (simp add: nat_str.simps [of n])
  qed
qed

lemma digit_not_space: "is_digit c \<Longrightarrow> \<not> is_space c \<and> c \<noteq> CHR ''-'' \<and> c \<noteq> CHR ''+''"
  by (auto simp: is_digit_def is_space_def Let_def)

lemma strip_no_space: "list_all (\<lambda>c. \<not> is_space c) s \<Longrightarrow> strip s = s"
proof -
  have "list_all (\<lambda>c. \<not> is_space c) s \<Longrightarrow> dropWhile is_space s = s" for s by (cases s) auto
  then show "list_all (\<lambda>c. \<not> is_space c) s \<Longrightarrow> strip s = s" by (simp add: strip_def list_all_rev)
qed

lemma strip_strip [simp]: "strip (strip s) = strip s"
proof -
  define t where "t = dropWhile is_space s"
  have s: "strip s = rev (dropWhile is_space (rev t))" by (simp add: strip_def t_def)
  have split: "t = rev (dropWhile is_space (rev t)) @ rev (takeWhile is_space (rev t))"
    by (metis rev_append rev_rev_ident takeWhile_dropWhile_id)
  have "dropWhile is_space (strip s) = strip s"
  proof (cases "strip s")
    case (Cons c cs)
    then have "t \<noteq> []" "hd t = c" using split unfolding s by (metis append_Cons list.discI, metis append_Cons list.sel(1))
    then have "\<not> is_space c" unfolding t_def by (metis hd_dropWhile)
    with Cons show ?thesis by simp
  qed simp
  then have "strip (strip s) = rev (dropWhile is_space (rev (strip s)))" by (simp add: strip_def [of "strip s"])
  also have "\<dots> = strip s" unfolding s by (simp add: dropWhile_idem)
  finally show ?thesis .
qed

end
