(* ===== verification/Goal_Store.thy ===== *)
theory Goal_Store
  imports Path_Safety Py_Values "HOL-Library.List_Lexorder" "HOL-Library.Char_ord"
begin

text \<open>
  The ledger of research goals, \<open>goal/store.py\<close> with the records of \<open>goal/models.py\<close> and the text
  checks of \<open>goal/policy.py\<close>.

  The SQLite database is a record of five tables. An insertion or an update first checks what the schema
  checks: the primary key, the foreign key to \<open>goals\<close>, the unique index that admits one current goal per
  session, and that an integer fits into 64 bits. Every operation that writes runs in
  \<open>write_transaction\<close>, which takes the tables back when an exception leaves it. An operation gets the
  text of the time it reads and, as a function \<open>u\<close>, the digits of the random ids it draws.

  The texts are ASCII: the patterns of \<open>policy.py\<close> take only ASCII letters, digits and the underscore as word characters, and its
  Chinese words are given as their UTF-8 bytes.
\<close>

section \<open>Data\<close>

datatype goal_status =
    ACTIVE | PAUSED | WAITING_USER | NEEDS_REFRESH | INSUFFICIENT_EVIDENCE | COMPLIANCE_BLOCKED
  | BLOCKED | BUDGET_LIMITED | USAGE_LIMITED | COMPLETE | CANCELLED | SUPERSEDED

fun goal_status_value :: "goal_status \<Rightarrow> string" where
  "goal_status_value ACTIVE = ''active''"
| "goal_status_value PAUSED = ''paused''"
| "goal_status_value WAITING_USER = ''waiting_user''"
| "goal_status_value NEEDS_REFRESH = ''needs_refresh''"
| "goal_status_value INSUFFICIENT_EVIDENCE = ''insufficient_evidence''"
| "goal_status_value COMPLIANCE_BLOCKED = ''compliance_blocked''"
| "goal_status_value BLOCKED = ''blocked''"
| "goal_status_value BUDGET_LIMITED = ''budget_limited''"
| "goal_status_value USAGE_LIMITED = ''usage_limited''"
| "goal_status_value COMPLETE = ''complete''"
| "goal_status_value CANCELLED = ''cancelled''"
| "goal_status_value SUPERSEDED = ''superseded''"

datatype risk_tier =
    RESEARCH_GENERAL | MARKET_SPECIFIC_SHORT_TERM | PERSONALIZED_ADVICE_OR_POSITION_SIZING
  | LIVE_TRADING_OR_EXECUTION

definition current_statuses :: "goal_status list" where
  "current_statuses = [ACTIVE, PAUSED, WAITING_USER, NEEDS_REFRESH, INSUFFICIENT_EVIDENCE,
     COMPLIANCE_BLOCKED, BUDGET_LIMITED]"

definition completion_results :: "string list" where
  "completion_results = [''satisfied'', ''satisfied_with_caveat'', ''not_applicable_user_accepted'']"

record goal_record =
  go_goal_id :: string
  go_session_id :: string
  go_status :: goal_status
  go_objective :: string
  go_ui_summary :: string
  go_source :: string
  go_protocol :: string
  go_risk_tier :: risk_tier
  go_token_budget :: "int option"
  go_tokens_used :: int
  go_turn_budget :: "int option"
  go_turns_used :: int
  go_time_budget_seconds :: "int option"
  go_time_used_seconds :: int
  go_budget_wrapup_sent :: bool
  go_created_at :: string
  go_updated_at :: string
  go_completed_at :: "string option"
  go_recap :: "string option"

record goal_claim =
  cl_claim_id :: string
  cl_goal_id :: string
  cl_session_id :: string
  cl_claim_type :: string
  cl_text :: string
  cl_status :: string
  cl_created_at :: string
  cl_updated_at :: string

record goal_criterion =
  cr_criterion_id :: string
  cr_goal_id :: string
  cr_session_id :: string
  cr_text :: string
  cr_required :: bool
  cr_status :: string
  cr_freshness_requirement :: "string option"
  cr_protocol_step :: "string option"
  cr_created_at :: string
  cr_updated_at :: string

record evidence_input =
  ei_text :: string
  ei_criterion_id :: "string option"
  ei_claim_id :: "string option"
  ei_evidence_type :: string
  ei_tool_call_id :: "string option"
  ei_run_id :: "string option"
  ei_source_provider :: "string option"
  ei_source_type :: "string option"
  ei_source_uri :: "string option"
  ei_symbol_universe :: "string list"
  ei_benchmark :: "string list"
  ei_timeframe :: "string option"
  ei_method :: "string option"
  ei_assumptions :: pydict
  ei_artifact_path :: "string option"
  ei_artifact_hash :: "string option"
  ei_data_as_of :: "string option"
  ei_confidence :: "string option"
  ei_caveat :: "string option"
  ei_contradicts_claim_ids :: "string list"

record evidence_record =
  ev_evidence_id :: string
  ev_goal_id :: string
  ev_session_id :: string
  ev_criterion_id :: "string option"
  ev_claim_id :: "string option"
  ev_evidence_type :: string
  ev_text :: string
  ev_tool_call_id :: "string option"
  ev_run_id :: "string option"
  ev_source_provider :: "string option"
  ev_source_type :: "string option"
  ev_source_uri :: "string option"
  ev_symbol_universe :: "string list"
  ev_benchmark :: "string list"
  ev_timeframe :: "string option"
  ev_method :: "string option"
  ev_assumptions :: pydict
  ev_artifact_path :: "string option"
  ev_artifact_hash :: "string option"
  ev_retrieved_at :: string
  ev_data_as_of :: "string option"
  ev_freshness_status :: string
  ev_verification_status :: string
  ev_confidence :: "string option"
  ev_caveat :: "string option"
  ev_contradicts_claim_ids :: "string list"
  ev_created_at :: string

record audit_row =
  au_criterion_id :: string
  au_result :: string
  au_evidence_ids :: "string list"
  au_notes :: string

record goal_audit =
  ga_audit_id :: string
  ga_goal_id :: string
  ga_session_id :: string
  ga_audit_type :: string
  ga_result :: string
  ga_rows :: "audit_row list"
  ga_created_at :: string

record goal_db =
  db_goals :: "goal_record list"
  db_claims :: "goal_claim list"
  db_criteria :: "goal_criterion list"
  db_evidence :: "evidence_record list"
  db_audits :: "goal_audit list"

datatype goal_exc =
    Goal_Value_Error string
  | Stale_Goal_Error string
  | Integrity_Error
  | Sql_Overflow_Error
  | Reload_Error

type_synonym 'a goal_op = "goal_db \<Rightarrow> (goal_exc + 'a) \<times> goal_db"

definition is_current :: "goal_record \<Rightarrow> bool" where
  "is_current g \<longleftrightarrow> go_status g \<in> set current_statuses"

text \<open>JSON objects are written with sorted keys, at every depth.\<close>

fun json_sorted :: "pyval \<Rightarrow> pyval" where
  "json_sorted (VDict d) = VDict (sort_key fst (map (\<lambda>(k, v). (k, json_sorted v)) d))"
| "json_sorted (VList l) = VList (map json_sorted l)"
| "json_sorted v = v"

definition dict_sorted :: "pydict \<Rightarrow> pydict" where
  "dict_sorted d = sort_key fst (map (\<lambda>(k, v). (k, json_sorted v)) d)"

section \<open>Texts\<close>

definition normalize_required_text :: "string \<Rightarrow> string \<Rightarrow> goal_exc + string" where
  "normalize_required_text v field =
     (if strip v = [] then Inl (Goal_Value_Error (field @ '' cannot be empty'')) else Inr (strip v))"

definition word_char :: "char \<Rightarrow> bool" where
  "word_char c \<longleftrightarrow> is_alnum c \<or> c = CHR ''_''"

text \<open>A word boundary between the character before and the rest of the text.\<close>

definition boundary :: "char option \<Rightarrow> string \<Rightarrow> bool" where
  "boundary p s \<longleftrightarrow> (case p of None \<Rightarrow> False | Some c \<Rightarrow> word_char c) \<noteq> (s \<noteq> [] \<and> word_char (hd s))"

definition word_here :: "char option \<Rightarrow> string \<Rightarrow> string \<Rightarrow> bool" where
  "word_here p w s \<longleftrightarrow> boundary p s \<and> take (length w) (lower s) = w \<and>
     boundary (Some (last w)) (drop (length w) s)"

text \<open>At most \<open>n\<close> characters that are not line feeds, then one of the words.\<close>

fun word_within :: "nat \<Rightarrow> char option \<Rightarrow> string list \<Rightarrow> string \<Rightarrow> bool" where
  "word_within n p ws [] = False"
| "word_within 0 p ws (c # s) = list_ex (\<lambda>w. word_here p w (c # s)) ws"
| "word_within (Suc n) p ws (c # s) =
     (list_ex (\<lambda>w. word_here p w (c # s)) ws \<or>
      c \<noteq> CHR 0x0A \<and> word_within n (Some c) ws s)"

fun words_near :: "char option \<Rightarrow> string list \<Rightarrow> string list \<Rightarrow> string \<Rightarrow> bool" where
  "words_near p fs gs [] = False"
| "words_near p fs gs (c # s) =
     (list_ex (\<lambda>w. word_here p w (c # s) \<and> word_within 40 (Some (last w)) gs (drop (length w) (c # s))) fs \<or>
      words_near (Some c) fs gs s)"

text \<open>The nine Chinese words of the third pattern: "place an order", "market order", "limit order", and buy or sell "at once" or "now".\<close>

definition chinese_order_words :: "string list" where
  "chinese_order_words = map (map char_of)
     ([[228, 184, 139, 229, 141, 149], [229, 184, 130, 228, 187, 183, 229, 141, 149],
       [233, 153, 144, 228, 187, 183, 229, 141, 149], [233, 169, 172, 228, 184, 138, 228, 185, 176],
       [231, 171, 139, 229, 141, 179, 228, 185, 176], [231, 142, 176, 229, 156, 168, 228, 185, 176],
       [233, 169, 172, 228, 184, 138, 229, 141, 150], [231, 171, 139, 229, 141, 179, 229, 141, 150],
       [231, 142, 176, 229, 156, 168, 229, 141, 150]] :: nat list list)"

definition execution_text :: "string \<Rightarrow> bool" where
  "execution_text s \<longleftrightarrow>
     words_near None [''place'', ''submit'', ''execute'', ''send''] [''order'', ''trade''] s \<or>
     words_near None [''buy'', ''sell'', ''short'', ''long'']
       [''now'', ''immediately'', ''market order'', ''limit order'', ''share'', ''shares'', ''contract'',
        ''contracts'', ''btc'', ''eth'', ''usdt''] s \<or>
     list_ex (contains s) chinese_order_words"

definition reject_live_execution_objective :: "string \<Rightarrow> goal_exc + unit" where
  "reject_live_execution_objective objective =
     (if execution_text (strip objective)
      then Inl (Goal_Value_Error ''live trading or execution goals are not supported'') else Inr ())"

section \<open>Tables and transactions\<close>

definition goal_row_id :: "string \<Rightarrow> string \<Rightarrow> string" where
  "goal_row_id prefix hex = prefix @ ''_'' @ hex"

definition write_transaction :: "'a goal_op \<Rightarrow> 'a goal_op" where
  "write_transaction body db =
     (case body db of (Inl exc, _) \<Rightarrow> (Inl exc, db) | (Inr x, db') \<Rightarrow> (Inr x, db'))"

definition query :: "(goal_db \<Rightarrow> goal_exc + 'a) \<Rightarrow> 'a goal_op" where
  "query f db = (f db, db)"

definition sql_int :: "int \<Rightarrow> bool" where
  "sql_int i \<longleftrightarrow> - (2 ^ 63) \<le> i \<and> i < 2 ^ 63"

definition sql_opt_int :: "int option \<Rightarrow> bool" where
  "sql_opt_int x = (case x of None \<Rightarrow> True | Some i \<Rightarrow> sql_int i)"

definition one_current :: "goal_record list \<Rightarrow> bool" where
  "one_current goals \<longleftrightarrow> distinct (map go_session_id (filter is_current goals))"

definition insert_goal :: "goal_record \<Rightarrow> unit goal_op" where
  "insert_goal g db =
     (if \<not> (sql_opt_int (go_token_budget g) \<and> sql_opt_int (go_turn_budget g) \<and>
            sql_opt_int (go_time_budget_seconds g)) then (Inl Sql_Overflow_Error, db)
      else if go_goal_id g \<in> go_goal_id ` set (db_goals db) \<or> \<not> one_current (db_goals db @ [g])
      then (Inl Integrity_Error, db)
      else (Inr (), db\<lparr>db_goals := db_goals db @ [g]\<rparr>))"

definition goal_exists :: "goal_db \<Rightarrow> string \<Rightarrow> bool" where
  "goal_exists db gid \<longleftrightarrow> gid \<in> go_goal_id ` set (db_goals db)"

definition insert_claim :: "goal_claim \<Rightarrow> unit goal_op" where
  "insert_claim c db =
     (if cl_claim_id c \<in> cl_claim_id ` set (db_claims db) \<or> \<not> goal_exists db (cl_goal_id c)
      then (Inl Integrity_Error, db)
      else (Inr (), db\<lparr>db_claims := db_claims db @ [c]\<rparr>))"

definition insert_criterion :: "goal_criterion \<Rightarrow> unit goal_op" where
  "insert_criterion c db =
     (if cr_criterion_id c \<in> cr_criterion_id ` set (db_criteria db) \<or> \<not> goal_exists db (cr_goal_id c)
      then (Inl Integrity_Error, db)
      else (Inr (), db\<lparr>db_criteria := db_criteria db @ [c]\<rparr>))"

definition insert_evidence :: "evidence_record \<Rightarrow> unit goal_op" where
  "insert_evidence v db =
     (if ev_evidence_id v \<in> ev_evidence_id ` set (db_evidence db) \<or> \<not> goal_exists db (ev_goal_id v)
      then (Inl Integrity_Error, db)
      else (Inr (), db\<lparr>db_evidence := db_evidence db @ [v]\<rparr>))"

definition insert_audit :: "goal_audit \<Rightarrow> unit goal_op" where
  "insert_audit a db =
     (if ga_audit_id a \<in> ga_audit_id ` set (db_audits db) \<or> \<not> goal_exists db (ga_goal_id a)
      then (Inl Integrity_Error, db)
      else (Inr (), db\<lparr>db_audits := db_audits db @ [a]\<rparr>))"

text \<open>\<open>UPDATE goals SET ... WHERE P\<close>.\<close>

definition update_goals :: "(goal_record \<Rightarrow> bool) \<Rightarrow> (goal_record \<Rightarrow> goal_record) \<Rightarrow> unit goal_op" where
  "update_goals P f db =
     (let goals = map (\<lambda>g. if P g then f g else g) (db_goals db)
      in if one_current goals then (Inr (), db\<lparr>db_goals := goals\<rparr>) else (Inl Integrity_Error, db))"

definition update_claims :: "(goal_claim \<Rightarrow> bool) \<Rightarrow> (goal_claim \<Rightarrow> goal_claim) \<Rightarrow> unit goal_op" where
  "update_claims P f db = (Inr (), db\<lparr>db_claims := map (\<lambda>c. if P c then f c else c) (db_claims db)\<rparr>)"

definition update_criteria :: "(goal_criterion \<Rightarrow> bool) \<Rightarrow> (goal_criterion \<Rightarrow> goal_criterion) \<Rightarrow> unit goal_op" where
  "update_criteria P f db = (Inr (), db\<lparr>db_criteria := map (\<lambda>c. if P c then f c else c) (db_criteria db)\<rparr>)"

section \<open>Reading\<close>

definition get_goal :: "string \<Rightarrow> goal_db \<Rightarrow> goal_exc + goal_record option" where
  "get_goal gid db = rbind (normalize_required_text gid ''goal_id'')
     (\<lambda>gid. Inr (row_at go_goal_id gid (db_goals db)))"

definition get_current_goal :: "string \<Rightarrow> goal_db \<Rightarrow> goal_exc + goal_record option" where
  "get_current_goal session_id db = rbind (normalize_required_text session_id ''session_id'') (\<lambda>session_id.
     Inr (case rev (sort_key go_updated_at
            (filter (\<lambda>g. go_session_id g = session_id \<and> is_current g) (db_goals db))) of
            [] \<Rightarrow> None
          | g # _ \<Rightarrow> Some g))"

text \<open>\<open>step_7\<close> sorts as 7, every other step after all of these.\<close>

definition step_rank :: "string option \<Rightarrow> nat" where
  "step_rank st = (case st of
       None \<Rightarrow> 2147483647
     | Some s \<Rightarrow> if take 5 s = ''step_'' \<and> drop 5 s \<noteq> [] \<and> is_digit (hd (drop 5 s))
                 then digits_val (takeWhile is_digit (drop 5 s)) else 2147483647)"

text \<open>Sorting by several keys: the least significant key first.\<close>

definition list_criteria :: "string \<Rightarrow> goal_db \<Rightarrow> goal_exc + goal_criterion list" where
  "list_criteria gid db = rbind (normalize_required_text gid ''goal_id'') (\<lambda>gid.
     Inr (sort_key (step_rank \<circ> cr_protocol_step) (sort_key cr_created_at (sort_key cr_criterion_id
       (filter (\<lambda>c. cr_goal_id c = gid) (db_criteria db))))))"

definition list_claims :: "string \<Rightarrow> goal_db \<Rightarrow> goal_exc + goal_claim list" where
  "list_claims gid db = rbind (normalize_required_text gid ''goal_id'') (\<lambda>gid.
     Inr (sort_key cl_created_at (sort_key cl_claim_id
       (filter (\<lambda>c. cl_goal_id c = gid) (db_claims db)))))"

definition evidence_order :: "evidence_record list \<Rightarrow> evidence_record list" where
  "evidence_order rows = sort_key ev_created_at (sort_key ev_evidence_id rows)"

definition list_evidence :: "string \<Rightarrow> int option \<Rightarrow> goal_db \<Rightarrow> goal_exc + evidence_record list" where
  "list_evidence gid limit db = rbind (normalize_required_text gid ''goal_id'') (\<lambda>gid.
     let rows = filter (\<lambda>v. ev_goal_id v = gid) (db_evidence db) in
     case limit of
       None \<Rightarrow> Inr (evidence_order rows)
     | Some n \<Rightarrow>
         if n \<le> 0 then Inl (Goal_Value_Error ''evidence limit must be positive'')
         else if \<not> sql_int n then Inl Sql_Overflow_Error
         else Inr (evidence_order (take (nat n) (rev (evidence_order rows)))))"

definition count_evidence :: "string \<Rightarrow> goal_db \<Rightarrow> goal_exc + nat" where
  "count_evidence gid db = rbind (normalize_required_text gid ''goal_id'') (\<lambda>gid.
     Inr (length (filter (\<lambda>v. ev_goal_id v = gid) (db_evidence db))))"

record goal_snapshot =
  sn_goal :: goal_record
  sn_claims :: "goal_claim list"
  sn_criteria :: "goal_criterion list"
  sn_evidence :: "evidence_record list"
  sn_evidence_count :: nat

definition get_goal_snapshot :: "string \<Rightarrow> int option \<Rightarrow> goal_db \<Rightarrow> goal_exc + goal_snapshot option" where
  "get_goal_snapshot gid evidence_limit db = rbind (get_goal gid db) (\<lambda>found.
     case found of None \<Rightarrow> Inr None | Some g \<Rightarrow>
       rbind (list_evidence (go_goal_id g) evidence_limit db) (\<lambda>evidence.
       rbind (list_claims (go_goal_id g) db) (\<lambda>claims.
       rbind (list_criteria (go_goal_id g) db) (\<lambda>criteria.
       rbind (count_evidence (go_goal_id g) db) (\<lambda>n.
         Inr (Some \<lparr>sn_goal = g, sn_claims = claims, sn_criteria = criteria, sn_evidence = evidence,
                    sn_evidence_count = n\<rparr>))))))"

definition get_current_snapshot :: "string \<Rightarrow> goal_db \<Rightarrow> goal_exc + goal_snapshot option" where
  "get_current_snapshot session_id db = rbind (get_current_goal session_id db) (\<lambda>found.
     case found of None \<Rightarrow> Inr None | Some g \<Rightarrow> get_goal_snapshot (go_goal_id g) (Some 50) db)"

definition get_evidence :: "string \<Rightarrow> goal_db \<Rightarrow> evidence_record option" where
  "get_evidence eid db = row_at ev_evidence_id eid (db_evidence db)"

definition require_criterion :: "string \<Rightarrow> string \<Rightarrow> goal_db \<Rightarrow> goal_exc + goal_criterion" where
  "require_criterion gid cid db =
     (case find (\<lambda>c. cr_goal_id c = gid \<and> cr_criterion_id c = cid) (db_criteria db) of
        None \<Rightarrow> Inl (Goal_Value_Error ''unknown criterion_id'')
      | Some c \<Rightarrow> Inr c)"

definition require_claim :: "string \<Rightarrow> string \<Rightarrow> goal_db \<Rightarrow> goal_exc + goal_claim" where
  "require_claim gid cid db =
     (case find (\<lambda>c. cl_goal_id c = gid \<and> cl_claim_id c = cid) (db_claims db) of
        None \<Rightarrow> Inl (Goal_Value_Error ''unknown claim_id'')
      | Some c \<Rightarrow> Inr c)"

definition require_mutable_goal :: "string \<Rightarrow> string \<Rightarrow> string \<Rightarrow> goal_db \<Rightarrow> goal_exc + goal_record" where
  "require_mutable_goal session_id gid expected_gid db =
     (if expected_gid \<noteq> gid then Inl (Stale_Goal_Error ''expected_goal_id does not match target goal'')
      else rbind (normalize_required_text session_id ''session_id'') (\<lambda>session_id.
           rbind (normalize_required_text gid ''goal_id'') (\<lambda>gid.
           rbind (get_goal gid db) (\<lambda>found.
             case found of
               None \<Rightarrow> Inl (Stale_Goal_Error ''goal is not available for this session'')
             | Some g \<Rightarrow>
                 if go_session_id g \<noteq> session_id
                 then Inl (Stale_Goal_Error ''goal is not available for this session'')
                 else if \<not> is_current g then Inl (Stale_Goal_Error ''goal status is not mutable'')
                 else rbind (get_current_goal session_id db) (\<lambda>current.
                   case current of
                     None \<Rightarrow> Inl (Stale_Goal_Error ''goal is not current for this session'')
                   | Some c \<Rightarrow>
                       if go_goal_id c \<noteq> gid
                       then Inl (Stale_Goal_Error ''goal is not current for this session'')
                       else Inr g)))))"

text \<open>The row after a write; it is an error when there is none.\<close>

definition reload_goal :: "string \<Rightarrow> goal_record goal_op" where
  "reload_goal gid = wbind (query (get_goal gid)) (\<lambda>found.
     wlift (case found of None \<Rightarrow> Inl Reload_Error | Some g \<Rightarrow> Inr g))"

section \<open>Creating a goal\<close>

record goal_request =
  rq_session_id :: string
  rq_objective :: string
  rq_criteria :: "string list"
  rq_ui_summary :: string
  rq_source :: string
  rq_protocol :: string
  rq_risk_tier :: risk_tier
  rq_token_budget :: "int option"
  rq_turn_budget :: "int option"
  rq_time_budget_seconds :: "int option"

definition positive_budget :: "int option \<Rightarrow> string \<Rightarrow> goal_exc + unit" where
  "positive_budget v name =
     (case v of None \<Rightarrow> Inr ()
      | Some i \<Rightarrow> if i \<le> 0 then Inl (Goal_Value_Error (name @ '' must be positive'')) else Inr ())"

fun reject_all :: "string list \<Rightarrow> goal_exc + unit" where
  "reject_all [] = Inr ()"
| "reject_all (c # cs) = rbind (reject_live_execution_objective c) (\<lambda>_. reject_all cs)"

definition validate_request :: "goal_request \<Rightarrow> goal_exc + string \<times> string \<times> string list" where
  "validate_request q =
     rbind (normalize_required_text (rq_session_id q) ''session_id'') (\<lambda>session_id.
     rbind (normalize_required_text (rq_objective q) ''goal objective'') (\<lambda>objective.
     rbind (reject_live_execution_objective objective) (\<lambda>_.
     if rq_risk_tier q = LIVE_TRADING_OR_EXECUTION
     then Inl (Goal_Value_Error ''live trading or execution goals are not supported'')
     else let criteria = map strip (filter (\<lambda>c. strip c \<noteq> []) (rq_criteria q)) in
       if criteria = [] then Inl (Goal_Value_Error ''at least one goal criterion is required'')
       else rbind (reject_all criteria) (\<lambda>_.
            rbind (positive_budget (rq_token_budget q) ''token_budget'') (\<lambda>_.
            rbind (positive_budget (rq_turn_budget q) ''turn_budget'') (\<lambda>_.
            rbind (positive_budget (rq_time_budget_seconds q) ''time_budget_seconds'') (\<lambda>_.
              Inr (session_id, objective, criteria))))))))"

definition new_criterion :: "string \<Rightarrow> (nat \<Rightarrow> string) \<Rightarrow> string \<Rightarrow> string \<Rightarrow> nat \<Rightarrow> string \<Rightarrow> goal_criterion" where
  "new_criterion now u gid session_id i t =
     \<lparr>cr_criterion_id = goal_row_id ''crit'' (u (i + 2)), cr_goal_id = gid, cr_session_id = session_id, cr_text = t,
      cr_required = True, cr_status = ''pending'', cr_freshness_requirement = None,
      cr_protocol_step = Some (''step_'' @ nat_str (i + 1)), cr_created_at = now, cr_updated_at = now\<rparr>"

fun insert_criteria ::
    "string \<Rightarrow> (nat \<Rightarrow> string) \<Rightarrow> string \<Rightarrow> string \<Rightarrow> nat \<Rightarrow> string list \<Rightarrow> unit goal_op" where
  "insert_criteria now u gid session_id i [] = wlift (Inr ())"
| "insert_criteria now u gid session_id i (t # ts) =
     wbind (insert_criterion (new_criterion now u gid session_id i t))
     (\<lambda>_. insert_criteria now u gid session_id (Suc i) ts)"

definition thesis_claim :: "string \<Rightarrow> (nat \<Rightarrow> string) \<Rightarrow> string \<Rightarrow> string \<Rightarrow> string \<Rightarrow> goal_claim" where
  "thesis_claim now u gid session_id objective =
     \<lparr>cl_claim_id = goal_row_id ''claim'' (u 1), cl_goal_id = gid, cl_session_id = session_id,
      cl_claim_type = ''thesis'', cl_text = objective, cl_status = ''active'',
      cl_created_at = now, cl_updated_at = now\<rparr>"

definition supersede :: "string \<Rightarrow> goal_record \<Rightarrow> goal_record" where
  "supersede now g = g\<lparr>go_status := SUPERSEDED, go_updated_at := now,
     go_completed_at := Some (case go_completed_at g of None \<Rightarrow> now | Some t \<Rightarrow> t)\<rparr>"

definition new_goal :: "string \<Rightarrow> string \<Rightarrow> string \<Rightarrow> string \<Rightarrow> goal_request \<Rightarrow> goal_record" where
  "new_goal now gid session_id objective q =
     \<lparr>go_goal_id = gid, go_session_id = session_id, go_status = ACTIVE, go_objective = objective,
      go_ui_summary = (if strip (rq_ui_summary q) = [] then take 80 objective else strip (rq_ui_summary q)),
      go_source = rq_source q, go_protocol = rq_protocol q, go_risk_tier = rq_risk_tier q,
      go_token_budget = rq_token_budget q, go_tokens_used = 0,
      go_turn_budget = rq_turn_budget q, go_turns_used = 0,
      go_time_budget_seconds = rq_time_budget_seconds q, go_time_used_seconds = 0,
      go_budget_wrapup_sent = False, go_created_at = now, go_updated_at = now,
      go_completed_at = None, go_recap = None\<rparr>"

definition replace_body ::
    "string \<Rightarrow> (nat \<Rightarrow> string) \<Rightarrow> goal_request \<Rightarrow> string \<Rightarrow> string \<Rightarrow> string \<Rightarrow> string list \<Rightarrow> unit goal_op" where
  "replace_body now u q gid session_id objective criteria =
     wbind (update_goals (\<lambda>g. go_session_id g = session_id \<and> is_current g) (supersede now)) (\<lambda>_.
     wbind (insert_goal (new_goal now gid session_id objective q)) (\<lambda>_.
     wbind (insert_claim (thesis_claim now u gid session_id objective)) (\<lambda>_.
     insert_criteria now u gid session_id 0 criteria)))"

definition replace_goal :: "string \<Rightarrow> (nat \<Rightarrow> string) \<Rightarrow> goal_request \<Rightarrow> goal_record goal_op" where
  "replace_goal now u q = wbind (wlift (validate_request q)) (\<lambda>(session_id, objective, criteria).
     let gid = goal_row_id ''goal'' (u 0) in
     wbind (write_transaction (replace_body now u q gid session_id objective criteria))
     (\<lambda>_. reload_goal gid))"

section \<open>Changing the current goal\<close>

definition next_summary :: "goal_record \<Rightarrow> string \<Rightarrow> string option \<Rightarrow> string option \<Rightarrow> string" where
  "next_summary g next_objective objective ui_summary =
     (case ui_summary of
        Some t \<Rightarrow> if strip t = [] then take 80 next_objective else strip t
      | None \<Rightarrow> if objective \<noteq> None \<and> go_ui_summary g = take 80 (go_objective g)
                then take 80 next_objective else go_ui_summary g)"

definition update_goal ::
    "string \<Rightarrow> string \<Rightarrow> string \<Rightarrow> string \<Rightarrow> string option \<Rightarrow> string option \<Rightarrow> goal_record goal_op" where
  "update_goal now session_id gid expected_gid objective ui_summary =
     wbind (write_transaction (
       wbind (query (require_mutable_goal session_id gid expected_gid)) (\<lambda>g.
       wbind (wlift (case objective of
           None \<Rightarrow> Inr (go_objective g)
         | Some t \<Rightarrow> rbind (normalize_required_text t ''goal objective'') (\<lambda>t.
             rbind (reject_live_execution_objective t) (\<lambda>_. Inr t)))) (\<lambda>next_objective.
       wbind (update_goals (\<lambda>x. go_goal_id x = go_goal_id g \<and> go_session_id x = go_session_id g)
         (\<lambda>x. x\<lparr>go_objective := next_objective,
                go_ui_summary := next_summary g next_objective objective ui_summary,
                go_updated_at := now\<rparr>)) (\<lambda>_.
       wbind (if objective = None then wlift (Inr ())
              else update_claims (\<lambda>c. cl_goal_id c = go_goal_id g \<and> cl_session_id c = go_session_id g \<and>
                     cl_claim_type c = ''thesis'' \<and> cl_status c = ''active'')
                   (\<lambda>c. c\<lparr>cl_text := next_objective, cl_updated_at := now\<rparr>)) (\<lambda>_.
       wlift (Inr (go_goal_id g))))))))
     reload_goal"

text \<open>Where a piece of evidence can be traced: the files under the sandbox of \<open>path_utils.py\<close>.\<close>

record goal_env =
  ge_paths :: path_env
  ge_is_file :: "path \<Rightarrow> bool"
  ge_read_bytes :: "path \<Rightarrow> string option"
  ge_sha256 :: "string \<Rightarrow> string"

definition artifact_hash_matches :: "goal_env \<Rightarrow> path \<Rightarrow> string option \<Rightarrow> bool" where
  "artifact_hash_matches e p expected_hash =
     (case expected_hash of
        Some (c # cs) \<Rightarrow>
          (case ge_read_bytes e p of
             None \<Rightarrow> False
           | Some bytes \<Rightarrow>
               let h = lower (c # cs)
               in ge_sha256 e bytes = (if take 7 h = ''sha256:'' then drop 7 h else h))
      | _ \<Rightarrow> False)"

definition verification_status :: "goal_env \<Rightarrow> evidence_input \<Rightarrow> string" where
  "verification_status e ei =
     (if (case ei_artifact_path ei of
            Some (c # cs) \<Rightarrow>
              (case safe_document_path (ge_paths e) (c # cs) of
                 Inl _ \<Rightarrow> False
               | Inr artifact \<Rightarrow> ge_is_file e artifact \<and> artifact_hash_matches e artifact (ei_artifact_hash ei))
          | _ \<Rightarrow> False) then ''verified''
      else if (case ei_run_id ei of
            Some (c # cs) \<Rightarrow>
              (case safe_run_id (ge_paths e) (c # cs) of
                 Inl _ \<Rightarrow> False
               | Inr run_dir \<Rightarrow> pw_is_dir (ge_paths e) run_dir)
          | _ \<Rightarrow> False) then ''verified''
      else ''unverified'')"

definition evidence_row ::
    "goal_env \<Rightarrow> string \<Rightarrow> string \<Rightarrow> goal_record \<Rightarrow> evidence_input \<Rightarrow> evidence_record" where
  "evidence_row e now eid g ei =
     \<lparr>ev_evidence_id = eid, ev_goal_id = go_goal_id g, ev_session_id = go_session_id g,
      ev_criterion_id = ei_criterion_id ei, ev_claim_id = ei_claim_id ei,
      ev_evidence_type = ei_evidence_type ei, ev_text = strip (ei_text ei),
      ev_tool_call_id = ei_tool_call_id ei, ev_run_id = ei_run_id ei,
      ev_source_provider = ei_source_provider ei, ev_source_type = ei_source_type ei,
      ev_source_uri = ei_source_uri ei, ev_symbol_universe = ei_symbol_universe ei,
      ev_benchmark = ei_benchmark ei, ev_timeframe = ei_timeframe ei, ev_method = ei_method ei,
      ev_assumptions = dict_sorted (ei_assumptions ei), ev_artifact_path = ei_artifact_path ei,
      ev_artifact_hash = ei_artifact_hash ei, ev_retrieved_at = now, ev_data_as_of = ei_data_as_of ei,
      ev_freshness_status = (case ei_data_as_of ei of Some (c # cs) \<Rightarrow> ''fresh'' | _ \<Rightarrow> ''unknown''),
      ev_verification_status = verification_status e ei, ev_confidence = ei_confidence ei,
      ev_caveat = ei_caveat ei, ev_contradicts_claim_ids = ei_contradicts_claim_ids ei,
      ev_created_at = now\<rparr>"

definition cover_criterion :: "string \<Rightarrow> goal_record \<Rightarrow> string option \<Rightarrow> unit goal_op" where
  "cover_criterion now g criterion_id =
     (case criterion_id of
        None \<Rightarrow> wlift (Inr ())
      | Some cid \<Rightarrow> update_criteria
          (\<lambda>c. cr_goal_id c = go_goal_id g \<and> cr_session_id c = go_session_id g \<and>
               cr_criterion_id c = cid \<and> cr_status c \<in> {''pending'', ''open'', ''unsatisfied''})
          (\<lambda>c. c\<lparr>cr_status := ''covered'', cr_updated_at := now\<rparr>))"

definition check_links :: "goal_record \<Rightarrow> evidence_input \<Rightarrow> goal_db \<Rightarrow> goal_exc + unit" where
  "check_links g ei db =
     (if strip (ei_text ei) = [] then Inl (Goal_Value_Error ''evidence text cannot be empty'')
      else rbind (case ei_criterion_id ei of None \<Rightarrow> Inr ()
             | Some cid \<Rightarrow> rbind (require_criterion (go_goal_id g) cid db) (\<lambda>_. Inr ())) (\<lambda>_.
           case ei_claim_id ei of None \<Rightarrow> Inr ()
             | Some cid \<Rightarrow> rbind (require_claim (go_goal_id g) cid db) (\<lambda>_. Inr ())))"

definition append_body ::
    "goal_env \<Rightarrow> string \<Rightarrow> string \<Rightarrow> string \<Rightarrow> string \<Rightarrow> string \<Rightarrow> evidence_input \<Rightarrow> unit goal_op" where
  "append_body e now eid session_id gid expected_gid ei =
     wbind (query (require_mutable_goal session_id gid expected_gid)) (\<lambda>g.
     wbind (query (check_links g ei)) (\<lambda>_.
     wbind (insert_evidence (evidence_row e now eid g ei)) (\<lambda>_.
     cover_criterion now g (ei_criterion_id ei))))"

definition append_evidence ::
    "goal_env \<Rightarrow> string \<Rightarrow> (nat \<Rightarrow> string) \<Rightarrow> string \<Rightarrow> string \<Rightarrow> string \<Rightarrow> evidence_input \<Rightarrow>
     evidence_record goal_op" where
  "append_evidence e now u session_id gid expected_gid ei =
     (let eid = goal_row_id ''ev'' (u 0) in
      wbind (write_transaction (append_body e now eid session_id gid expected_gid ei))
      (\<lambda>_. wbind (query (\<lambda>db. Inr (get_evidence eid db))) (\<lambda>found.
             wlift (case found of None \<Rightarrow> Inl Reload_Error | Some v \<Rightarrow> Inr v))))"

text \<open>The evidence named by an audit row, and whether some of it is verified.\<close>

fun check_evidence :: "goal_record \<Rightarrow> goal_criterion \<Rightarrow> goal_db \<Rightarrow> string list \<Rightarrow> goal_exc + bool" where
  "check_evidence g c db [] = Inr False"
| "check_evidence g c db (eid # eids) =
     (case get_evidence eid db of
        None \<Rightarrow> Inl (Goal_Value_Error ''unknown evidence_id'')
      | Some v \<Rightarrow>
          if ev_goal_id v \<noteq> go_goal_id g then Inl (Goal_Value_Error ''unknown evidence_id'')
          else if ev_criterion_id v \<noteq> Some (cr_criterion_id c)
          then Inl (Goal_Value_Error ''evidence does not match criterion'')
          else rbind (check_evidence g c db eids) (\<lambda>b. Inr (ev_verification_status v = ''verified'' \<or> b)))"

definition check_criterion :: "goal_record \<Rightarrow> audit_row list \<Rightarrow> goal_db \<Rightarrow> goal_criterion \<Rightarrow> goal_exc + unit" where
  "check_criterion g audit db c =
     (if \<not> cr_required c then Inr ()
      else case row_at au_criterion_id (cr_criterion_id c) (rev audit) of
        None \<Rightarrow> Inl (Goal_Value_Error ''missing audit row for criterion'')
      | Some row \<Rightarrow>
          if au_result row \<notin> set completion_results then Inl (Goal_Value_Error ''criterion is not satisfied'')
          else if au_result row \<in> {''satisfied'', ''satisfied_with_caveat''} \<and> au_evidence_ids row = []
          then Inl (Goal_Value_Error ''complete goals require verified evidence'')
          else if au_result row = ''not_applicable_user_accepted'' \<and> strip (au_notes row) = []
          then Inl (Goal_Value_Error ''not-applicable criteria require acceptance notes'')
          else rbind (check_evidence g c db (au_evidence_ids row)) (\<lambda>verified.
            if au_result row \<in> {''satisfied'', ''satisfied_with_caveat''} \<and> \<not> verified
            then Inl (Goal_Value_Error ''complete goals require verified evidence'')
            else Inr ()))"

fun check_criteria :: "goal_record \<Rightarrow> audit_row list \<Rightarrow> goal_db \<Rightarrow> goal_criterion list \<Rightarrow> goal_exc + unit" where
  "check_criteria g audit db [] = Inr ()"
| "check_criteria g audit db (c # cs) =
     rbind (check_criterion g audit db c) (\<lambda>_. check_criteria g audit db cs)"

definition validate_completion_audit :: "goal_record \<Rightarrow> audit_row list \<Rightarrow> goal_db \<Rightarrow> goal_exc + unit" where
  "validate_completion_audit g audit db =
     rbind (list_criteria (go_goal_id g) db) (check_criteria g audit db)"

definition closing_statuses :: "goal_status list" where
  "closing_statuses = [COMPLETE, BLOCKED, CANCELLED, SUPERSEDED, USAGE_LIMITED]"

fun apply_audit :: "string \<Rightarrow> goal_record \<Rightarrow> audit_row list \<Rightarrow> unit goal_op" where
  "apply_audit now g [] = wlift (Inr ())"
| "apply_audit now g (row # rows) =
     wbind (update_criteria
       (\<lambda>c. cr_goal_id c = go_goal_id g \<and> cr_session_id c = go_session_id g \<and>
            cr_criterion_id c = au_criterion_id row)
       (\<lambda>c. c\<lparr>cr_status := au_result row, cr_updated_at := now\<rparr>))
     (\<lambda>_. apply_audit now g rows)"

definition coalesce :: "'a option \<Rightarrow> 'a option \<Rightarrow> 'a option" where
  "coalesce x y = (case x of None \<Rightarrow> y | Some v \<Rightarrow> Some v)"

definition set_status :: "string \<Rightarrow> goal_status \<Rightarrow> string option \<Rightarrow> goal_record \<Rightarrow> goal_record" where
  "set_status now status recap x = x\<lparr>go_status := status, go_updated_at := now,
     go_completed_at := coalesce (if status \<in> set closing_statuses then Some now else None) (go_completed_at x),
     go_recap := coalesce recap (go_recap x)\<rparr>"

definition status_body ::
    "string \<Rightarrow> string \<Rightarrow> string \<Rightarrow> string \<Rightarrow> string \<Rightarrow> goal_status \<Rightarrow> audit_row list \<Rightarrow>
     string option \<Rightarrow> string goal_op" where
  "status_body now aid session_id gid expected_gid status audit recap =
     wbind (query (require_mutable_goal session_id gid expected_gid)) (\<lambda>g.
     wbind (query (\<lambda>db. if status = COMPLETE then validate_completion_audit g audit db else Inr ())) (\<lambda>_.
     wbind (update_goals (\<lambda>x. go_goal_id x = go_goal_id g \<and> go_session_id x = go_session_id g)
                         (set_status now status recap)) (\<lambda>_.
     wbind (if audit = [] then wlift (Inr ())
            else insert_audit \<lparr>ga_audit_id = aid, ga_goal_id = go_goal_id g,
                   ga_session_id = go_session_id g, ga_audit_type = ''completion'',
                   ga_result = goal_status_value status, ga_rows = audit, ga_created_at = now\<rparr>) (\<lambda>_.
     wbind (if audit \<noteq> [] \<and> status = COMPLETE then apply_audit now g audit else wlift (Inr ())) (\<lambda>_.
     wlift (Inr (go_goal_id g)))))))"

definition update_status ::
    "string \<Rightarrow> (nat \<Rightarrow> string) \<Rightarrow> string \<Rightarrow> string \<Rightarrow> string \<Rightarrow> goal_status \<Rightarrow> audit_row list \<Rightarrow>
     string option \<Rightarrow> goal_record goal_op" where
  "update_status now u session_id gid expected_gid status audit recap =
     wbind (write_transaction
       (status_body now (goal_row_id ''audit'' (u 0)) session_id gid expected_gid status audit recap)) reload_goal"

definition crosses_budget :: "goal_record \<Rightarrow> int \<Rightarrow> int \<Rightarrow> int \<Rightarrow> bool" where
  "crosses_budget g tokens_used time_used_seconds turns_used \<longleftrightarrow>
     (case go_token_budget g of None \<Rightarrow> False | Some b \<Rightarrow> b \<le> tokens_used) \<or>
     (case go_time_budget_seconds g of None \<Rightarrow> False | Some b \<Rightarrow> b \<le> time_used_seconds) \<or>
     (case go_turn_budget g of None \<Rightarrow> False | Some b \<Rightarrow> b \<le> turns_used)"

definition add_usage :: "string \<Rightarrow> int \<Rightarrow> int \<Rightarrow> int \<Rightarrow> goal_record \<Rightarrow> goal_record \<Rightarrow> goal_record" where
  "add_usage now token_delta time_delta_seconds turn_delta g x =
     (let tokens_used = go_tokens_used g + token_delta;
          time_used_seconds = go_time_used_seconds g + time_delta_seconds;
          turns_used = go_turns_used g + turn_delta
      in x\<lparr>go_tokens_used := tokens_used, go_time_used_seconds := time_used_seconds,
           go_turns_used := turns_used,
           go_status := (if crosses_budget g tokens_used time_used_seconds turns_used then BUDGET_LIMITED
                         else go_status g),
           go_updated_at := now\<rparr>)"

definition usage_body ::
    "string \<Rightarrow> string \<Rightarrow> string \<Rightarrow> string \<Rightarrow> int \<Rightarrow> int \<Rightarrow> int \<Rightarrow> string goal_op" where
  "usage_body now session_id gid expected_gid token_delta time_delta_seconds turn_delta =
     wbind (query (require_mutable_goal session_id gid expected_gid)) (\<lambda>g.
     wbind (wlift (if sql_int (go_tokens_used g + token_delta) \<and> sql_int (go_time_used_seconds g + time_delta_seconds) \<and>
                      sql_int (go_turns_used g + turn_delta) then Inr () else Inl Sql_Overflow_Error)) (\<lambda>_.
     wbind (update_goals (\<lambda>x. go_goal_id x = go_goal_id g \<and> go_session_id x = go_session_id g)
                         (add_usage now token_delta time_delta_seconds turn_delta g)) (\<lambda>_.
     wlift (Inr (go_goal_id g)))))"

definition account_usage ::
    "string \<Rightarrow> string \<Rightarrow> string \<Rightarrow> string \<Rightarrow> int \<Rightarrow> int \<Rightarrow> int \<Rightarrow> goal_record goal_op" where
  "account_usage now session_id gid expected_gid token_delta time_delta_seconds turn_delta =
     wbind (wlift (if min token_delta (min time_delta_seconds turn_delta) < 0
                   then Inl (Goal_Value_Error ''usage deltas must be non-negative'') else Inr ())) (\<lambda>_.
     wbind (write_transaction
       (usage_body now session_id gid expected_gid token_delta time_delta_seconds turn_delta)) reload_goal)"

text \<open>The children go first; a child that refers to a deleted goal from another session stops the deletion.\<close>

definition delete_session_rows :: "string \<Rightarrow> unit goal_op" where
  "delete_session_rows session_id db =
     (let audits = filter (\<lambda>a. ga_session_id a \<noteq> session_id) (db_audits db);
          evidence = filter (\<lambda>v. ev_session_id v \<noteq> session_id) (db_evidence db);
          criteria = filter (\<lambda>c. cr_session_id c \<noteq> session_id) (db_criteria db);
          claims = filter (\<lambda>c. cl_session_id c \<noteq> session_id) (db_claims db);
          gone = go_goal_id ` set (filter (\<lambda>g. go_session_id g = session_id) (db_goals db));
          db' = \<lparr>db_goals = filter (\<lambda>g. go_session_id g \<noteq> session_id) (db_goals db), db_claims = claims,
                 db_criteria = criteria, db_evidence = evidence, db_audits = audits\<rparr>
      in if list_ex (\<lambda>a. ga_goal_id a \<in> gone) audits \<or> list_ex (\<lambda>v. ev_goal_id v \<in> gone) evidence \<or>
            list_ex (\<lambda>c. cr_goal_id c \<in> gone) criteria \<or> list_ex (\<lambda>c. cl_goal_id c \<in> gone) claims
         then (Inl Integrity_Error, db) else (Inr (), db'))"

definition delete_session_goals :: "string \<Rightarrow> nat goal_op" where
  "delete_session_goals session_id =
     wbind (wlift (normalize_required_text session_id ''session_id'')) (\<lambda>session_id.
     write_transaction (
       wbind (query (\<lambda>db. Inr (length (filter (\<lambda>g. go_session_id g = session_id) (db_goals db))))) (\<lambda>n.
       wbind (delete_session_rows session_id) (\<lambda>_. wlift (Inr n)))))"

section \<open>Runs\<close>

datatype goal_event =
    Replace string "nat \<Rightarrow> string" goal_request
  | Update string string string string "string option" "string option"
  | Evidence string "nat \<Rightarrow> string" string string string evidence_input
  | Status string "nat \<Rightarrow> string" string string string goal_status "audit_row list" "string option"
  | Usage string string string string int int int
  | Delete string

fun goal_step :: "goal_env \<Rightarrow> goal_event \<Rightarrow> goal_db \<Rightarrow> goal_db" where
  "goal_step e (Replace now u q) db = snd (replace_goal now u q db)"
| "goal_step e (Update now s g x objective summary) db = snd (update_goal now s g x objective summary db)"
| "goal_step e (Evidence now u s g x ei) db = snd (append_evidence e now u s g x ei db)"
| "goal_step e (Status now u s g x st audit recap) db = snd (update_status now u s g x st audit recap db)"
| "goal_step e (Usage now s g x tok tim tur) db = snd (account_usage now s g x tok tim tur db)"
| "goal_step e (Delete s) db = snd (delete_session_goals s db)"

definition goal_run :: "goal_env \<Rightarrow> goal_event list \<Rightarrow> goal_db \<Rightarrow> goal_db" where
  "goal_run e evs db = fold (goal_step e) evs db"

definition empty_goal_db :: goal_db where
  "empty_goal_db = \<lparr>db_goals = [], db_claims = [], db_criteria = [], db_evidence = [], db_audits = []\<rparr>"

end
