(* ===== verification/Goal_Invariants.thy ===== *)
theory Goal_Invariants
  imports Goal_Store
begin

text \<open>
  What holds of the goal ledger after any sequence of operations: the well-formedness of its rows and
  of the references between them, one current goal per session, and the evidence behind a completed
  goal. The first section turns the body of each transaction into the database it leaves.
\<close>

section \<open>What a transaction writes\<close>

lemma wbind_query: "wbind (query f) k db = (case f db of Inl exc \<Rightarrow> (Inl exc, db) | Inr x \<Rightarrow> k x db)"
  by (simp add: wbind_def query_def split: sum.splits)

lemma query_result [simp]: "query f db = (f db, db)"
  by (simp add: query_def)

lemma write_transaction_Inr [ok_iff]:
  "write_transaction body db = (Inr x, db') \<longleftrightarrow> body db = (Inr x, db')"
  by (auto simp: write_transaction_def split: prod.splits sum.splits)

lemma write_transaction_Inl [ok_iff]:
  "write_transaction body db = (Inl exc, db') \<longleftrightarrow> db' = db \<and> fst (body db) = Inl exc"
  by (auto simp: write_transaction_def split: prod.splits sum.splits)

lemma snd_write_transaction:
  "snd (write_transaction body db) = (case fst (body db) of Inl _ \<Rightarrow> db | Inr _ \<Rightarrow> snd (body db))"
  by (auto simp: write_transaction_def split: prod.splits sum.splits)

lemma reload_goal_keeps [simp]: "snd (reload_goal gid db) = db"
  by (auto simp: reload_goal_def wbind_query split: sum.splits option.splits)

text \<open>After the transaction an operation only reads.\<close>

lemma snd_wbind_transaction:
  assumes "\<And>x db. snd (k x db) = db"
  shows "snd (wbind (write_transaction body) k db) =
    (case fst (body db) of Inl _ \<Rightarrow> db | Inr _ \<Rightarrow> snd (body db))"
proof (cases "body db")
  case (Pair r db')
  then show ?thesis using assms
    by (cases r) (auto simp: wbind_def write_transaction_def)
qed

lemma insert_goal_Inr [ok_iff]:
  "insert_goal g db = (Inr x, db') \<longleftrightarrow>
     sql_opt_int (go_token_budget g) \<and> sql_opt_int (go_turn_budget g) \<and>
     sql_opt_int (go_time_budget_seconds g) \<and> go_goal_id g \<notin> go_goal_id ` set (db_goals db) \<and>
     one_current (db_goals db @ [g]) \<and> db' = db\<lparr>db_goals := db_goals db @ [g]\<rparr>"
  by (auto simp: insert_goal_def)

lemma insert_claim_Inr [ok_iff]:
  "insert_claim c db = (Inr x, db') \<longleftrightarrow> cl_claim_id c \<notin> cl_claim_id ` set (db_claims db) \<and>
     goal_exists db (cl_goal_id c) \<and> db' = db\<lparr>db_claims := db_claims db @ [c]\<rparr>"
  by (auto simp: insert_claim_def)

lemma insert_criterion_Inr [ok_iff]:
  "insert_criterion c db = (Inr x, db') \<longleftrightarrow> cr_criterion_id c \<notin> cr_criterion_id ` set (db_criteria db) \<and>
     goal_exists db (cr_goal_id c) \<and> db' = db\<lparr>db_criteria := db_criteria db @ [c]\<rparr>"
  by (auto simp: insert_criterion_def)

lemma insert_evidence_Inr [ok_iff]:
  "insert_evidence v db = (Inr x, db') \<longleftrightarrow> ev_evidence_id v \<notin> ev_evidence_id ` set (db_evidence db) \<and>
     goal_exists db (ev_goal_id v) \<and> db' = db\<lparr>db_evidence := db_evidence db @ [v]\<rparr>"
  by (auto simp: insert_evidence_def)

lemma insert_audit_Inr [ok_iff]:
  "insert_audit a db = (Inr x, db') \<longleftrightarrow> ga_audit_id a \<notin> ga_audit_id ` set (db_audits db) \<and>
     goal_exists db (ga_goal_id a) \<and> db' = db\<lparr>db_audits := db_audits db @ [a]\<rparr>"
  by (auto simp: insert_audit_def)

lemma update_goals_Inr [ok_iff]:
  "update_goals P f db = (Inr x, db') \<longleftrightarrow>
     one_current (map (\<lambda>g. if P g then f g else g) (db_goals db)) \<and>
     db' = db\<lparr>db_goals := map (\<lambda>g. if P g then f g else g) (db_goals db)\<rparr>"
  by (auto simp: update_goals_def Let_def)

lemma update_claims_Inr [ok_iff]:
  "update_claims P f db = (Inr x, db') \<longleftrightarrow>
     db' = db\<lparr>db_claims := map (\<lambda>c. if P c then f c else c) (db_claims db)\<rparr>"
  by (auto simp: update_claims_def)

lemma update_criteria_Inr [ok_iff]:
  "update_criteria P f db = (Inr x, db') \<longleftrightarrow>
     db' = db\<lparr>db_criteria := map (\<lambda>c. if P c then f c else c) (db_criteria db)\<rparr>"
  by (auto simp: update_criteria_def)

lemma goal_exists_frame [simp]:
  "goal_exists (db\<lparr>db_claims := a\<rparr>) gid = goal_exists db gid"
  "goal_exists (db\<lparr>db_criteria := b\<rparr>) gid = goal_exists db gid"
  "goal_exists (db\<lparr>db_evidence := c\<rparr>) gid = goal_exists db gid"
  "goal_exists (db\<lparr>db_audits := d\<rparr>) gid = goal_exists db gid"
  by (simp_all add: goal_exists_def)

fun new_criteria ::
    "string \<Rightarrow> (nat \<Rightarrow> string) \<Rightarrow> string \<Rightarrow> string \<Rightarrow> nat \<Rightarrow> string list \<Rightarrow> goal_criterion list" where
  "new_criteria now u gid s i [] = []"
| "new_criteria now u gid s i (t # ts) =
     new_criterion now u gid s i t # new_criteria now u gid s (Suc i) ts"

lemma insert_criteria_Inr [ok_iff]:
  "goal_exists db gid \<Longrightarrow> insert_criteria now u gid s i ts db = (Inr x, db') \<longleftrightarrow>
     db' = db\<lparr>db_criteria := db_criteria db @ new_criteria now u gid s i ts\<rparr> \<and>
     distinct (map cr_criterion_id (new_criteria now u gid s i ts)) \<and>
     cr_criterion_id ` set (new_criteria now u gid s i ts) \<inter> cr_criterion_id ` set (db_criteria db) = {}"
proof (induction ts arbitrary: i db)
  case Nil
  then show ?case by auto
next
  case (Cons t ts)
  have "goal_exists (db\<lparr>db_criteria := db_criteria db @ [new_criterion now u gid s i t]\<rparr>) gid"
    using Cons.prems by simp
  from Cons.IH [OF this, of "Suc i"] Cons.prems show ?case
    by (auto simp: ok_iff new_criterion_def)
qed

definition replaced_db ::
    "string \<Rightarrow> (nat \<Rightarrow> string) \<Rightarrow> goal_request \<Rightarrow> string \<Rightarrow> string \<Rightarrow> string list \<Rightarrow> goal_db \<Rightarrow> goal_db" where
  "replaced_db now u q s objective criteria db = db\<lparr>
     db_goals := map (\<lambda>g. if go_session_id g = s \<and> is_current g then supersede now g else g) (db_goals db)
       @ [new_goal now (goal_row_id ''goal'' (u 0)) s objective q],
     db_claims := db_claims db @ [thesis_claim now u (goal_row_id ''goal'' (u 0)) s objective],
     db_criteria := db_criteria db @ new_criteria now u (goal_row_id ''goal'' (u 0)) s 0 criteria\<rparr>"

text \<open>What the schema asks of the rows of a new goal.\<close>

definition replace_ok ::
    "(nat \<Rightarrow> string) \<Rightarrow> goal_request \<Rightarrow> goal_db \<Rightarrow> goal_db \<Rightarrow> bool" where
  "replace_ok u q db db' \<longleftrightarrow>
     sql_opt_int (rq_token_budget q) \<and> sql_opt_int (rq_turn_budget q) \<and> sql_opt_int (rq_time_budget_seconds q) \<and>
     goal_row_id ''goal'' (u 0) \<notin> go_goal_id ` set (db_goals db) \<and>
     one_current (butlast (db_goals db')) \<and> one_current (db_goals db') \<and>
     goal_row_id ''claim'' (u 1) \<notin> cl_claim_id ` set (db_claims db) \<and>
     distinct (map cr_criterion_id (drop (length (db_criteria db)) (db_criteria db'))) \<and>
     cr_criterion_id ` set (drop (length (db_criteria db)) (db_criteria db')) \<inter>
       cr_criterion_id ` set (db_criteria db) = {}"

lemma new_goal_simps [simp]:
  "go_goal_id (new_goal now gid s objective q) = gid"
  "go_session_id (new_goal now gid s objective q) = s"
  "go_status (new_goal now gid s objective q) = ACTIVE"
  "go_objective (new_goal now gid s objective q) = objective"
  "go_token_budget (new_goal now gid s objective q) = rq_token_budget q"
  "go_turn_budget (new_goal now gid s objective q) = rq_turn_budget q"
  "go_time_budget_seconds (new_goal now gid s objective q) = rq_time_budget_seconds q"
  "go_risk_tier (new_goal now gid s objective q) = rq_risk_tier q"
  "go_tokens_used (new_goal now gid s objective q) = 0"
  "go_turns_used (new_goal now gid s objective q) = 0"
  "go_time_used_seconds (new_goal now gid s objective q) = 0"
  by (simp_all add: new_goal_def)

lemma thesis_claim_simps [simp]:
  "cl_claim_id (thesis_claim now u gid s objective) = goal_row_id ''claim'' (u 1)"
  "cl_goal_id (thesis_claim now u gid s objective) = gid"
  "cl_session_id (thesis_claim now u gid s objective) = s"
  by (simp_all add: thesis_claim_def)

lemma supersede_simps [simp]:
  "go_goal_id (supersede now g) = go_goal_id g"
  "go_session_id (supersede now g) = go_session_id g"
  "go_status (supersede now g) = SUPERSEDED"
  "go_objective (supersede now g) = go_objective g"
  "go_risk_tier (supersede now g) = go_risk_tier g"
  "go_token_budget (supersede now g) = go_token_budget g"
  "go_turn_budget (supersede now g) = go_turn_budget g"
  "go_time_budget_seconds (supersede now g) = go_time_budget_seconds g"
  "go_tokens_used (supersede now g) = go_tokens_used g"
  "go_turns_used (supersede now g) = go_turns_used g"
  "go_time_used_seconds (supersede now g) = go_time_used_seconds g"
  by (simp_all add: supersede_def)

lemma new_criterion_simps [simp]:
  "cr_criterion_id (new_criterion now u gid s i t) = goal_row_id ''crit'' (u (i + 2))"
  "cr_goal_id (new_criterion now u gid s i t) = gid"
  "cr_session_id (new_criterion now u gid s i t) = s"
  "cr_text (new_criterion now u gid s i t) = t"
  "cr_required (new_criterion now u gid s i t)"
  "cr_status (new_criterion now u gid s i t) = ''pending''"
  by (simp_all add: new_criterion_def)

lemma new_criteria_all:
  "c \<in> set (new_criteria now u gid s i ts) \<Longrightarrow>
     cr_goal_id c = gid \<and> cr_session_id c = s \<and> cr_text c \<in> set ts \<and> cr_required c \<and> cr_status c = ''pending''"
  by (induction ts arbitrary: i) auto

lemma new_criteria_ids:
  "map cr_criterion_id (new_criteria now u gid s i ts) = map (\<lambda>j. goal_row_id ''crit'' (u (j + 2))) [i..<i + length ts]"
proof (induction ts arbitrary: i)
  case (Cons t ts)
  show ?case using Cons.IH [of "Suc i"] by (simp add: upt_rec)
qed simp

lemma map_goal_ids:
  "(\<And>g. go_goal_id (f g) = go_goal_id g) \<Longrightarrow>
     go_goal_id ` set (map (\<lambda>g. if P g then f g else g) gs) = go_goal_id ` set gs"
  by (induction gs) auto

lemma replace_body_Inr:
  "replace_body now u q (goal_row_id ''goal'' (u 0)) s objective criteria db = (Inr x, db') \<Longrightarrow>
     db' = replaced_db now u q s objective criteria db \<and> replace_ok u q db db'"
proof -
  have ge: "goal_exists (db\<lparr>db_goals := gs @ [new_goal now g s' t q'], db_claims := cs\<rparr>) g" for gs g s' t q' cs
    by (simp add: goal_exists_def)
  assume "replace_body now u q (goal_row_id ''goal'' (u 0)) s objective criteria db = (Inr x, db')"
  then show ?thesis
    by (auto simp: replace_body_def ok_iff insert_criteria_Inr [OF ge] replaced_db_def replace_ok_def
        map_goal_ids [of "supersede now"] simp del: set_map)
qed

lemma replace_goal_cases:
  "snd (replace_goal now u q db) = db \<or>
   (\<exists>s objective criteria. validate_request q = Inr (s, objective, criteria) \<and>
      snd (replace_goal now u q db) = replaced_db now u q s objective criteria db \<and>
      replace_ok u q db (snd (replace_goal now u q db)))"
proof (cases "validate_request q")
  case (Inl exc)
  then show ?thesis by (simp add: replace_goal_def)
next
  case (Inr v)
  obtain s objective criteria where v: "validate_request q = Inr (s, objective, criteria)"
    using Inr by (cases v) auto
  let ?body = "replace_body now u q (goal_row_id ''goal'' (u 0)) s objective criteria"
  have snd: "snd (replace_goal now u q db) = (case fst (?body db) of Inl _ \<Rightarrow> db | Inr _ \<Rightarrow> snd (?body db))"
    by (simp add: replace_goal_def v Let_def snd_wbind_transaction)
  show ?thesis
  proof (cases "?body db")
    case (Pair r db')
    then show ?thesis using snd v replace_body_Inr [of now u q s objective criteria db]
      by (cases r) auto
  qed
qed

definition on_goal :: "goal_record \<Rightarrow> (goal_record \<Rightarrow> goal_record) \<Rightarrow> goal_db \<Rightarrow> goal_db" where
  "on_goal g f db = db\<lparr>db_goals := map (\<lambda>x. if go_goal_id x = go_goal_id g \<and> go_session_id x = go_session_id g
     then f x else x) (db_goals db)\<rparr>"

lemma on_goal_frame [simp]:
  "db_claims (on_goal g f db) = db_claims db"
  "db_criteria (on_goal g f db) = db_criteria db"
  "db_evidence (on_goal g f db) = db_evidence db"
  "db_audits (on_goal g f db) = db_audits db"
  by (simp_all add: on_goal_def)

definition new_objective :: "goal_record \<Rightarrow> string option \<Rightarrow> goal_exc + string" where
  "new_objective g objective = (case objective of
       None \<Rightarrow> Inr (go_objective g)
     | Some t \<Rightarrow> rbind (normalize_required_text t ''goal objective'') (\<lambda>t.
         rbind (reject_live_execution_objective t) (\<lambda>_. Inr t)))"

definition edited_db ::
    "string \<Rightarrow> goal_record \<Rightarrow> string option \<Rightarrow> string option \<Rightarrow> string \<Rightarrow> goal_db \<Rightarrow> goal_db" where
  "edited_db now g objective ui_summary t db =
     (let db' = on_goal g (\<lambda>x. x\<lparr>go_objective := t, go_ui_summary := next_summary g t objective ui_summary,
                              go_updated_at := now\<rparr>) db
      in if objective = None then db'
         else db'\<lparr>db_claims := map (\<lambda>c. if cl_goal_id c = go_goal_id g \<and> cl_session_id c = go_session_id g \<and>
                     cl_claim_type c = ''thesis'' \<and> cl_status c = ''active''
                   then c\<lparr>cl_text := t, cl_updated_at := now\<rparr> else c) (db_claims db)\<rparr>)"

lemma snd_case_fst:
  "(\<And>x db'. r = (Inr x, db') \<Longrightarrow> P db') \<Longrightarrow> P db \<Longrightarrow> P (case fst r of Inl _ \<Rightarrow> db | Inr _ \<Rightarrow> snd r)"
  by (cases r; cases "fst r") auto

lemma update_goal_cases:
  "snd (update_goal now s gid x objective ui db) = db \<or>
   (\<exists>g t. require_mutable_goal s gid x db = Inr g \<and> new_objective g objective = Inr t \<and>
      one_current (db_goals (edited_db now g objective ui t db)) \<and>
      snd (update_goal now s gid x objective ui db) = edited_db now g objective ui t db)"
  unfolding update_goal_def snd_wbind_transaction [where k = reload_goal, OF reload_goal_keeps]
  by (rule snd_case_fst)
    (auto simp: ok_iff new_objective_def [symmetric] edited_db_def on_goal_def Let_def split: sum.splits if_splits)

definition evidence_db :: "goal_env \<Rightarrow> string \<Rightarrow> string \<Rightarrow> goal_record \<Rightarrow> evidence_input \<Rightarrow> goal_db \<Rightarrow> goal_db" where
  "evidence_db e now eid g ei db = db\<lparr>
     db_evidence := db_evidence db @ [evidence_row e now eid g ei],
     db_criteria := map (\<lambda>c. if ei_criterion_id ei = Some (cr_criterion_id c) \<and> cr_goal_id c = go_goal_id g \<and>
         cr_session_id c = go_session_id g \<and> cr_status c \<in> {''pending'', ''open'', ''unsatisfied''}
       then c\<lparr>cr_status := ''covered'', cr_updated_at := now\<rparr> else c) (db_criteria db)\<rparr>"

definition evidence_ok :: "string \<Rightarrow> goal_record \<Rightarrow> evidence_input \<Rightarrow> goal_db \<Rightarrow> bool" where
  "evidence_ok eid g ei db \<longleftrightarrow> strip (ei_text ei) \<noteq> [] \<and>
     (\<forall>cid. ei_criterion_id ei = Some cid \<longrightarrow>
        (\<exists>c \<in> set (db_criteria db). cr_goal_id c = go_goal_id g \<and> cr_criterion_id c = cid)) \<and>
     (\<forall>cid. ei_claim_id ei = Some cid \<longrightarrow>
        (\<exists>c \<in> set (db_claims db). cl_goal_id c = go_goal_id g \<and> cl_claim_id c = cid)) \<and>
     eid \<notin> ev_evidence_id ` set (db_evidence db)"

lemma require_criterion_Inr [ok_iff]:
  "(\<exists>c. require_criterion gid cid db = Inr c) \<longleftrightarrow>
     (\<exists>c \<in> set (db_criteria db). cr_goal_id c = gid \<and> cr_criterion_id c = cid)"
  using find_None_iff [of "\<lambda>c. cr_goal_id c = gid \<and> cr_criterion_id c = cid" "db_criteria db"]
  by (auto simp: require_criterion_def split: option.splits)

lemma require_claim_Inr [ok_iff]:
  "(\<exists>c. require_claim gid cid db = Inr c) \<longleftrightarrow>
     (\<exists>c \<in> set (db_claims db). cl_goal_id c = gid \<and> cl_claim_id c = cid)"
  using find_None_iff [of "\<lambda>c. cl_goal_id c = gid \<and> cl_claim_id c = cid" "db_claims db"]
  by (auto simp: require_claim_def split: option.splits)

lemma evidence_row_simps [simp]:
  "ev_evidence_id (evidence_row e now eid g ei) = eid"
  "ev_goal_id (evidence_row e now eid g ei) = go_goal_id g"
  "ev_session_id (evidence_row e now eid g ei) = go_session_id g"
  "ev_criterion_id (evidence_row e now eid g ei) = ei_criterion_id ei"
  "ev_claim_id (evidence_row e now eid g ei) = ei_claim_id ei"
  "ev_verification_status (evidence_row e now eid g ei) = verification_status e ei"
  by (simp_all add: evidence_row_def)

lemma check_links_Inr [ok_iff]:
  "check_links g ei db = Inr x \<longleftrightarrow> strip (ei_text ei) \<noteq> [] \<and>
     (\<forall>cid. ei_criterion_id ei = Some cid \<longrightarrow>
        (\<exists>c \<in> set (db_criteria db). cr_goal_id c = go_goal_id g \<and> cr_criterion_id c = cid)) \<and>
     (\<forall>cid. ei_claim_id ei = Some cid \<longrightarrow>
        (\<exists>c \<in> set (db_claims db). cl_goal_id c = go_goal_id g \<and> cl_claim_id c = cid))"
  by (cases "ei_criterion_id ei"; cases "ei_claim_id ei")
    (simp_all add: check_links_def rbind_Inr_iff require_criterion_Inr require_claim_Inr if_Inr_iff)

lemma cover_criterion_Inr [ok_iff]:
  "cover_criterion now g cid db = (Inr x, db') \<longleftrightarrow>
     db' = db\<lparr>db_criteria := map (\<lambda>c. if cid = Some (cr_criterion_id c) \<and> cr_goal_id c = go_goal_id g \<and>
         cr_session_id c = go_session_id g \<and> cr_status c \<in> {''pending'', ''open'', ''unsatisfied''}
       then c\<lparr>cr_status := ''covered'', cr_updated_at := now\<rparr> else c) (db_criteria db)\<rparr>"
proof (cases cid)
  case (Some k)
  have eq: "(cr_goal_id c = go_goal_id g \<and> cr_session_id c = go_session_id g \<and> cr_criterion_id c = k \<and> P) =
    (k = cr_criterion_id c \<and> cr_goal_id c = go_goal_id g \<and> cr_session_id c = go_session_id g \<and> P)" for c P
    by auto
  show ?thesis by (simp add: cover_criterion_def Some update_criteria_Inr eq)
qed (auto simp: cover_criterion_def)

lemma append_body_Inr:
  "append_body e now eid s gid x ei db = (Inr y, db') \<longleftrightarrow>
     (\<exists>g. require_mutable_goal s gid x db = Inr g \<and> evidence_ok eid g ei db \<and>
        goal_exists db (go_goal_id g) \<and> db' = evidence_db e now eid g ei db)"
  by (auto simp: append_body_def ok_iff evidence_ok_def evidence_db_def)

lemma append_evidence_cases:
  "snd (append_evidence e now u s gid x ei db) = db \<or>
   (\<exists>g. require_mutable_goal s gid x db = Inr g \<and> evidence_ok (goal_row_id ''ev'' (u 0)) g ei db \<and>
      snd (append_evidence e now u s gid x ei db) = evidence_db e now (goal_row_id ''ev'' (u 0)) g ei db)"
proof -
  have k: "snd (wbind (query f) (\<lambda>found. wlift (h found)) db) = db" for f h and db :: goal_db
    by (auto simp: wbind_query split: sum.splits)
  show ?thesis
    unfolding append_evidence_def Let_def snd_wbind_transaction [OF k]
    by (rule snd_case_fst) (auto simp: append_body_Inr)
qed

definition audit_criterion :: "string \<Rightarrow> goal_record \<Rightarrow> audit_row list \<Rightarrow> goal_criterion \<Rightarrow> goal_criterion" where
  "audit_criterion now g rows c = foldl (\<lambda>c row. if cr_goal_id c = go_goal_id g \<and>
       cr_session_id c = go_session_id g \<and> cr_criterion_id c = au_criterion_id row
     then c\<lparr>cr_status := au_result row, cr_updated_at := now\<rparr> else c) c rows"

lemma audit_criterion_Nil [simp]: "audit_criterion now g [] c = c"
  by (simp add: audit_criterion_def)

lemma audit_criterion_Cons:
  "audit_criterion now g (row # rows) c = audit_criterion now g rows
     (if cr_goal_id c = go_goal_id g \<and> cr_session_id c = go_session_id g \<and> cr_criterion_id c = au_criterion_id row
      then c\<lparr>cr_status := au_result row, cr_updated_at := now\<rparr> else c)"
  by (simp add: audit_criterion_def)

lemma audit_criterion_frame [simp]:
  "cr_criterion_id (audit_criterion now g rows c) = cr_criterion_id c"
  "cr_goal_id (audit_criterion now g rows c) = cr_goal_id c"
  "cr_session_id (audit_criterion now g rows c) = cr_session_id c"
  "cr_text (audit_criterion now g rows c) = cr_text c"
  "cr_required (audit_criterion now g rows c) = cr_required c"
  by (induction rows arbitrary: c) (simp_all add: audit_criterion_Cons)

lemma audit_criterion_other [simp]:
  "cr_goal_id c \<noteq> go_goal_id g \<Longrightarrow> audit_criterion now g rows c = c"
  by (induction rows) (simp_all add: audit_criterion_Cons)

text \<open>The last row of an audit about a criterion gives its status.\<close>

lemma audit_criterion_status:
  "cr_goal_id c = go_goal_id g \<Longrightarrow> cr_session_id c = go_session_id g \<Longrightarrow>
     cr_status (audit_criterion now g rows c) =
       (case row_at au_criterion_id (cr_criterion_id c) (rev rows) of
          None \<Rightarrow> cr_status c | Some row \<Rightarrow> au_result row)"
  by (induction rows arbitrary: c) (auto simp: audit_criterion_Cons row_at_append split: option.splits)

lemma audit_criterion_none [simp]: "audit_criterion now g [] = (\<lambda>c. c)"
  by (simp add: fun_eq_iff)

lemma apply_audit_eq [simp]:
  "apply_audit now g rows db = (Inr (), db\<lparr>db_criteria := map (audit_criterion now g rows) (db_criteria db)\<rparr>)"
proof (induction rows arbitrary: db)
  case (Cons row rows)
  show ?case
    by (simp add: wbind_def update_criteria_def Cons.IH audit_criterion_Cons [abs_def] comp_def)
qed simp

definition status_db ::
    "string \<Rightarrow> string \<Rightarrow> goal_record \<Rightarrow> goal_status \<Rightarrow> audit_row list \<Rightarrow> string option \<Rightarrow> goal_db \<Rightarrow> goal_db" where
  "status_db now aid g status audit recap db = (on_goal g (set_status now status recap) db)\<lparr>
     db_audits := db_audits db @ (if audit = [] then [] else
       [\<lparr>ga_audit_id = aid, ga_goal_id = go_goal_id g, ga_session_id = go_session_id g,
         ga_audit_type = ''completion'', ga_result = goal_status_value status, ga_rows = audit,
         ga_created_at = now\<rparr>]),
     db_criteria := map (if status = COMPLETE then audit_criterion now g audit else (\<lambda>c. c)) (db_criteria db)\<rparr>"

definition status_ok ::
    "string \<Rightarrow> goal_record \<Rightarrow> goal_status \<Rightarrow> audit_row list \<Rightarrow> goal_db \<Rightarrow> goal_db \<Rightarrow> bool" where
  "status_ok aid g status audit db db' \<longleftrightarrow>
     (status = COMPLETE \<longrightarrow> validate_completion_audit g audit db = Inr ()) \<and>
     one_current (db_goals db') \<and> (audit \<noteq> [] \<longrightarrow> aid \<notin> ga_audit_id ` set (db_audits db))"

lemma status_body_Inr:
  assumes "status_body now aid s gid x status audit recap db = (Inr y, db')"
  shows "\<exists>g. require_mutable_goal s gid x db = Inr g \<and>
    status_ok aid g status audit db db' \<and> db' = status_db now aid g status audit recap db"
proof -
  from assms obtain g where "require_mutable_goal s gid x db = Inr g"
    and "(if status = COMPLETE then validate_completion_audit g audit db else Inr ()) = Inr ()"
    and "wbind (update_goals (\<lambda>x. go_goal_id x = go_goal_id g \<and> go_session_id x = go_session_id g)
           (set_status now status recap)) (\<lambda>_.
         wbind (if audit = [] then wlift (Inr ())
              else insert_audit \<lparr>ga_audit_id = aid, ga_goal_id = go_goal_id g,
                   ga_session_id = go_session_id g, ga_audit_type = ''completion'',
                   ga_result = goal_status_value status, ga_rows = audit, ga_created_at = now\<rparr>) (\<lambda>_.
         wbind (if audit \<noteq> [] \<and> status = COMPLETE then apply_audit now g audit else wlift (Inr ())) (\<lambda>_.
         wlift (Inr (go_goal_id g))))) db = (Inr y, db')"
    unfolding status_body_def by (auto simp: wbind_Inr_iff)
  then show ?thesis
    by (cases "audit = []"; cases "status = COMPLETE")
      (auto simp: ok_iff status_db_def status_ok_def on_goal_def)
qed

lemma update_status_cases:
  "snd (update_status now u s gid x status audit recap db) = db \<or>
   (\<exists>g. require_mutable_goal s gid x db = Inr g \<and>
      status_ok (goal_row_id ''audit'' (u 0)) g status audit db (snd (update_status now u s gid x status audit recap db)) \<and>
      snd (update_status now u s gid x status audit recap db) =
        status_db now (goal_row_id ''audit'' (u 0)) g status audit recap db)"
  unfolding update_status_def snd_wbind_transaction [where k = reload_goal, OF reload_goal_keeps]
  by (rule snd_case_fst) (auto dest: status_body_Inr)

definition usage_ok :: "int \<Rightarrow> int \<Rightarrow> int \<Rightarrow> goal_record \<Rightarrow> goal_db \<Rightarrow> bool" where
  "usage_ok tok tim tur g db' \<longleftrightarrow> 0 \<le> tok \<and> 0 \<le> tim \<and> 0 \<le> tur \<and> sql_int (go_tokens_used g + tok) \<and>
     sql_int (go_time_used_seconds g + tim) \<and> sql_int (go_turns_used g + tur) \<and> one_current (db_goals db')"

lemma usage_body_Inr [ok_iff]:
  "usage_body now s gid x tok tim tur db = (Inr y, db') \<longleftrightarrow>
     (\<exists>g. require_mutable_goal s gid x db = Inr g \<and> y = go_goal_id g \<and> sql_int (go_tokens_used g + tok) \<and>
        sql_int (go_time_used_seconds g + tim) \<and> sql_int (go_turns_used g + tur) \<and>
        one_current (db_goals db') \<and> db' = on_goal g (add_usage now tok tim tur g) db)"
  by (auto simp: usage_body_def ok_iff on_goal_def)

lemma account_usage_cases:
  "snd (account_usage now s gid x tok tim tur db) = db \<or>
   (\<exists>g. require_mutable_goal s gid x db = Inr g \<and>
      usage_ok tok tim tur g (snd (account_usage now s gid x tok tim tur db)) \<and>
      snd (account_usage now s gid x tok tim tur db) = on_goal g (add_usage now tok tim tur g) db)"
proof (cases "min tok (min tim tur) < 0")
  case True
  then show ?thesis by (simp add: account_usage_def)
next
  case False
  then have eq: "snd (account_usage now s gid x tok tim tur db) =
      snd (wbind (write_transaction (usage_body now s gid x tok tim tur)) reload_goal db)"
    by (simp add: account_usage_def)
  show ?thesis
    unfolding eq snd_wbind_transaction [where k = reload_goal, OF reload_goal_keeps]
    by (rule snd_case_fst) (use False in \<open>auto simp: usage_body_Inr usage_ok_def\<close>)
qed

section \<open>Well-formed ledgers\<close>

definition budget_ok :: "int option \<Rightarrow> bool" where
  "budget_ok b \<longleftrightarrow> (\<forall>i. b = Some i \<longrightarrow> 0 < i \<and> sql_int i)"

definition used_ok :: "int \<Rightarrow> bool" where
  "used_ok i \<longleftrightarrow> 0 \<le> i \<and> sql_int i"

definition research_text :: "string \<Rightarrow> bool" where
  "research_text t \<longleftrightarrow> t \<noteq> [] \<and> reject_live_execution_objective t = Inr ()"

definition goal_row_ok :: "goal_record \<Rightarrow> bool" where
  "goal_row_ok g \<longleftrightarrow> research_text (go_objective g) \<and> go_risk_tier g \<noteq> LIVE_TRADING_OR_EXECUTION \<and>
     budget_ok (go_token_budget g) \<and> budget_ok (go_turn_budget g) \<and> budget_ok (go_time_budget_seconds g) \<and>
     used_ok (go_tokens_used g) \<and> used_ok (go_turns_used g) \<and> used_ok (go_time_used_seconds g)"

definition goals_ok :: "goal_db \<Rightarrow> bool" where
  "goals_ok db \<longleftrightarrow> distinct (map go_goal_id (db_goals db)) \<and> one_current (db_goals db) \<and>
     list_all goal_row_ok (db_goals db)"

definition goal_keys :: "goal_db \<Rightarrow> (string \<times> string) set" where
  "goal_keys db = (\<lambda>g. (go_goal_id g, go_session_id g)) ` set (db_goals db)"

definition refs_ok :: "goal_db \<Rightarrow> bool" where
  "refs_ok db \<longleftrightarrow>
     distinct (map cl_claim_id (db_claims db)) \<and> distinct (map cr_criterion_id (db_criteria db)) \<and>
     distinct (map ev_evidence_id (db_evidence db)) \<and> distinct (map ga_audit_id (db_audits db)) \<and>
     (\<forall>c \<in> set (db_claims db). (cl_goal_id c, cl_session_id c) \<in> goal_keys db) \<and>
     (\<forall>c \<in> set (db_criteria db). (cr_goal_id c, cr_session_id c) \<in> goal_keys db \<and> research_text (cr_text c)) \<and>
     (\<forall>v \<in> set (db_evidence db). (ev_goal_id v, ev_session_id v) \<in> goal_keys db \<and>
        (\<forall>cid. ev_criterion_id v = Some cid \<longrightarrow>
           (cid, ev_goal_id v) \<in> (\<lambda>c. (cr_criterion_id c, cr_goal_id c)) ` set (db_criteria db)) \<and>
        (\<forall>cid. ev_claim_id v = Some cid \<longrightarrow>
           (cid, ev_goal_id v) \<in> (\<lambda>c. (cl_claim_id c, cl_goal_id c)) ` set (db_claims db))) \<and>
     (\<forall>a \<in> set (db_audits db). (ga_goal_id a, ga_session_id a) \<in> goal_keys db)"

definition criterion_backed :: "goal_db \<Rightarrow> goal_criterion \<Rightarrow> bool" where
  "criterion_backed db c \<longleftrightarrow> cr_status c \<in> set completion_results \<and>
     (cr_status c \<in> {''satisfied'', ''satisfied_with_caveat''} \<longrightarrow>
        (\<exists>v \<in> set (db_evidence db). ev_goal_id v = cr_goal_id c \<and>
           ev_criterion_id v = Some (cr_criterion_id c) \<and> ev_verification_status v = ''verified''))"

definition completed_backed :: "goal_db \<Rightarrow> bool" where
  "completed_backed db \<longleftrightarrow> (\<forall>g \<in> set (db_goals db). go_status g = COMPLETE \<longrightarrow>
     (\<forall>c \<in> set (db_criteria db). cr_goal_id c = go_goal_id g \<and> cr_required c \<longrightarrow> criterion_backed db c))"

text \<open>What the guard of every write has found.\<close>

lemma require_mutable_goal_Inr:
  assumes "require_mutable_goal s gid x db = Inr g"
  shows "x = gid" "g \<in> set (db_goals db)" "is_current g" "go_session_id g = strip s"
proof -
  from assms show "x = gid" by (simp add: require_mutable_goal_def split: if_splits)
  from assms obtain y where "row_at go_goal_id y (db_goals db) = Some g" "is_current g" "go_session_id g = strip s"
    by (auto simp: require_mutable_goal_def get_goal_def normalize_required_text_def rbind_Inr_iff
        split: if_splits option.splits)
  then show "g \<in> set (db_goals db)" "is_current g" "go_session_id g = strip s"
    by (auto dest: row_at_SomeD)
qed

lemma goal_keys_on_goal [simp]:
  assumes "\<And>x. go_goal_id (f x) = go_goal_id x" and "\<And>x. go_session_id (f x) = go_session_id x"
  shows "goal_keys (on_goal g f db) = goal_keys db"
proof -
  have "map (\<lambda>g. (go_goal_id g, go_session_id g)) (db_goals (on_goal g f db)) =
      map (\<lambda>g. (go_goal_id g, go_session_id g)) (db_goals db)"
    using assms by (simp add: on_goal_def)
  then show ?thesis unfolding goal_keys_def by (metis set_map)
qed

lemma goal_keys_frame [simp]:
  "goal_keys (db\<lparr>db_claims := a\<rparr>) = goal_keys db"
  "goal_keys (db\<lparr>db_criteria := b\<rparr>) = goal_keys db"
  "goal_keys (db\<lparr>db_evidence := c\<rparr>) = goal_keys db"
  "goal_keys (db\<lparr>db_audits := d\<rparr>) = goal_keys db"
  by (simp_all add: goal_keys_def)

lemma goals_ok_on_goal:
  assumes "goals_ok db" and "\<And>x. go_goal_id (f x) = go_goal_id x"
    and "one_current (db_goals (on_goal g f db))"
    and "\<And>x. x \<in> set (db_goals db) \<Longrightarrow> go_goal_id x = go_goal_id g \<Longrightarrow> goal_row_ok x \<Longrightarrow> goal_row_ok (f x)"
  shows "goals_ok (on_goal g f db)"
proof -
  have "map go_goal_id (db_goals (on_goal g f db)) = map go_goal_id (db_goals db)"
    using assms(2) by (simp add: on_goal_def)
  moreover have "list_all goal_row_ok (db_goals (on_goal g f db))"
    using assms(1,4) by (auto simp: goals_ok_def on_goal_def list_all_iff)
  ultimately show ?thesis using assms(1,3) by (simp only: goals_ok_def)
qed

text \<open>Two rows of one goal are the same row.\<close>

lemma same_goal:
  "goals_ok db \<Longrightarrow> g \<in> set (db_goals db) \<Longrightarrow> h \<in> set (db_goals db) \<Longrightarrow> go_goal_id g = go_goal_id h \<Longrightarrow> g = h"
  unfolding goals_ok_def distinct_map by (auto dest: inj_onD)

lemma set_status_simps [simp]:
  "go_goal_id (set_status now st r x) = go_goal_id x"
  "go_session_id (set_status now st r x) = go_session_id x"
  "go_status (set_status now st r x) = st"
  "goal_row_ok (set_status now st r x) = goal_row_ok x"
  by (simp_all add: set_status_def goal_row_ok_def)

lemma add_usage_simps [simp]:
  "go_goal_id (add_usage now a b c g x) = go_goal_id x"
  "go_session_id (add_usage now a b c g x) = go_session_id x"
  "go_status (add_usage now a b c g x) =
     (if crosses_budget g (go_tokens_used g + a) (go_time_used_seconds g + b) (go_turns_used g + c)
      then BUDGET_LIMITED else go_status g)"
  by (simp_all add: add_usage_def Let_def)

lemma current_not_complete: "is_current g \<Longrightarrow> go_status g \<noteq> COMPLETE"
  by (auto simp: is_current_def current_statuses_def)

section \<open>Preservation\<close>

lemma goals_ok_frame [simp]:
  "goals_ok (db\<lparr>db_claims := a\<rparr>) = goals_ok db"
  "goals_ok (db\<lparr>db_criteria := b\<rparr>) = goals_ok db"
  "goals_ok (db\<lparr>db_evidence := c\<rparr>) = goals_ok db"
  "goals_ok (db\<lparr>db_audits := d\<rparr>) = goals_ok db"
  by (simp_all add: goals_ok_def)

lemma refs_ok_goals:
  "refs_ok db \<Longrightarrow> goal_keys db \<subseteq> goal_keys db' \<Longrightarrow> db_claims db' = db_claims db \<Longrightarrow>
   db_criteria db' = db_criteria db \<Longrightarrow> db_evidence db' = db_evidence db \<Longrightarrow>
   db_audits db' = db_audits db \<Longrightarrow> refs_ok db'"
  unfolding refs_ok_def by (simp add: subset_iff)

lemma completed_backed_on_goal:
  assumes "completed_backed db" and "\<And>x. go_goal_id (f x) = go_goal_id x"
    and "\<And>x. x \<in> set (db_goals db) \<Longrightarrow> go_goal_id x = go_goal_id g \<Longrightarrow> go_status (f x) = COMPLETE \<Longrightarrow>
           go_status x = COMPLETE"
  shows "completed_backed (on_goal g f db)"
  using assms unfolding completed_backed_def criterion_backed_def on_goal_def
  by (auto split: if_splits)

lemma completed_backed_frame [simp]:
  "completed_backed (db\<lparr>db_claims := a\<rparr>) = completed_backed db"
  "completed_backed (db\<lparr>db_audits := d\<rparr>) = completed_backed db"
  by (simp_all add: completed_backed_def criterion_backed_def)

lemma new_objective_research:
  assumes "goals_ok db" "g \<in> set (db_goals db)" "new_objective g objective = Inr t"
  shows "research_text t"
  using assms
  by (auto simp: new_objective_def goals_ok_def list_all_iff goal_row_ok_def research_text_def rbind_Inr_iff
      normalize_required_text_def split: option.splits if_splits)

lemma map_if_id_list:
  "(\<And>c. h (f c) = h c) \<Longrightarrow> map h (map (\<lambda>c. if P c then f c else c) cs) = map h cs"
  by simp

lemma map_if_id_set:
  "(\<And>c. h (f c) = h c) \<Longrightarrow> h ` set (map (\<lambda>c. if P c then f c else c) cs) = h ` set cs"
  by (metis map_if_id_list set_map)

lemma update_goal_ok:
  assumes ok: "goals_ok db" "refs_ok db" "completed_backed db"
    and g: "require_mutable_goal s gid x db = Inr g" and t: "new_objective g objective = Inr t"
    and cur: "one_current (db_goals (edited_db now g objective ui t db))"
  shows "goals_ok (edited_db now g objective ui t db) \<and> refs_ok (edited_db now g objective ui t db) \<and>
    completed_backed (edited_db now g objective ui t db)"
proof -
  let ?f = "\<lambda>x. x\<lparr>go_objective := t, go_ui_summary := next_summary g t objective ui, go_updated_at := now\<rparr>"
  let ?db = "on_goal g ?f db"
  have "research_text t"
    using new_objective_research [OF ok(1) require_mutable_goal_Inr(2) [OF g] t] .
  moreover have "one_current (db_goals ?db)" using cur by (simp add: edited_db_def Let_def split: if_splits)
  ultimately have 1: "goals_ok ?db" by (intro goals_ok_on_goal ok) (auto simp: goal_row_ok_def)
  have 2: "refs_ok ?db" by (rule refs_ok_goals [OF ok(2)]) simp_all
  have 3: "completed_backed ?db" by (intro completed_backed_on_goal ok) simp_all
  let ?Q = "\<lambda>c. cl_goal_id c = go_goal_id g \<and> cl_session_id c = go_session_id g \<and>
    cl_claim_type c = ''thesis'' \<and> cl_status c = ''active''"
  let ?h = "\<lambda>c. c\<lparr>cl_text := t, cl_updated_at := now\<rparr>"
  let ?db' = "?db\<lparr>db_claims := map (\<lambda>c. if ?Q c then ?h c else c) (db_claims db)\<rparr>"
  have ids: "map cl_claim_id (db_claims ?db') = map cl_claim_id (db_claims ?db)" by simp
  have rows: "db_claims ?db' = map (\<lambda>c. if ?Q c then ?h c else c) (db_claims db)" by simp
  have links: "(\<lambda>c. (cl_claim_id c, cl_goal_id c)) ` set (db_claims ?db') =
      (\<lambda>c. (cl_claim_id c, cl_goal_id c)) ` set (db_claims ?db)"
    unfolding rows on_goal_frame by (rule map_if_id_set) simp
  have 4: "refs_ok ?db'" using 2 unfolding refs_ok_def ids links by auto
  have 5: "goals_ok ?db'" "completed_backed ?db'" using 1 3 by simp_all
  have "edited_db now g objective ui t db = ?db \<or> edited_db now g objective ui t db = ?db'"
    by (simp add: edited_db_def Let_def)
  then show ?thesis using 1 2 3 4 5 by (elim disjE) (simp_all only: simp_thms)
qed

lemma account_usage_ok:
  assumes ok: "goals_ok db" "refs_ok db" "completed_backed db"
    and g: "require_mutable_goal s gid x db = Inr g"
    and u: "usage_ok a b c g (on_goal g (add_usage now a b c g) db)"
  shows "goals_ok (on_goal g (add_usage now a b c g) db) \<and> refs_ok (on_goal g (add_usage now a b c g) db) \<and>
    completed_backed (on_goal g (add_usage now a b c g) db)"
proof (intro conjI)
  have row: "goal_row_ok g" using ok(1) require_mutable_goal_Inr(2) [OF g]
    by (simp add: goals_ok_def list_all_iff)
  show "goals_ok (on_goal g (add_usage now a b c g) db)"
    using u row
    by (intro goals_ok_on_goal ok)
      (auto simp: usage_ok_def goal_row_ok_def add_usage_def Let_def used_ok_def)
  show "refs_ok (on_goal g (add_usage now a b c g) db)"
    by (rule refs_ok_goals [OF ok(2)]) simp_all
  show "completed_backed (on_goal g (add_usage now a b c g) db)"
    using current_not_complete [OF require_mutable_goal_Inr(3) [OF g]]
    by (intro completed_backed_on_goal ok) (simp_all split: if_splits)
qed

lemma check_evidence_Inr:
  "check_evidence g c db eids = Inr b \<Longrightarrow> b \<Longrightarrow>
     \<exists>v \<in> set (db_evidence db). ev_goal_id v = go_goal_id g \<and> ev_criterion_id v = Some (cr_criterion_id c) \<and>
       ev_verification_status v = ''verified''"
  by (induction eids arbitrary: b)
    (auto simp: get_evidence_def rbind_Inr_iff split: option.splits if_splits dest!: row_at_SomeD)

lemma check_criterion_Inr:
  assumes "check_criterion g audit db c = Inr ()" and "cr_required c"
  obtains row where "row_at au_criterion_id (cr_criterion_id c) (rev audit) = Some row"
    "au_result row \<in> set completion_results"
    "au_result row \<in> {''satisfied'', ''satisfied_with_caveat''} \<Longrightarrow>
       \<exists>v \<in> set (db_evidence db). ev_goal_id v = go_goal_id g \<and> ev_criterion_id v = Some (cr_criterion_id c) \<and>
         ev_verification_status v = ''verified''"
proof -
  from assms obtain row verified where row: "row_at au_criterion_id (cr_criterion_id c) (rev audit) = Some row"
    and res: "au_result row \<in> set completion_results"
    and ev: "check_evidence g c db (au_evidence_ids row) = Inr verified"
    and ver: "au_result row \<in> {''satisfied'', ''satisfied_with_caveat''} \<longrightarrow> verified"
    unfolding check_criterion_def by (auto simp: rbind_Inr_iff simp del: insert_iff split: option.splits if_splits)
  show thesis
    by (rule that [OF row res]) (use check_evidence_Inr [OF ev] ver in blast)
qed

lemma check_criteria_Inr:
  "check_criteria g audit db cs = Inr () \<Longrightarrow> c \<in> set cs \<Longrightarrow> check_criterion g audit db c = Inr ()"
  by (induction cs) (auto simp: rbind_Inr_iff)

lemma validated_criterion:
  assumes "validate_completion_audit g audit db = Inr ()" and "strip (go_goal_id g) = go_goal_id g"
    and "c \<in> set (db_criteria db)" and "cr_goal_id c = go_goal_id g"
  shows "check_criterion g audit db c = Inr ()"
  using assms
  by (auto simp: validate_completion_audit_def list_criteria_def normalize_required_text_def rbind_Inr_iff
      elim!: check_criteria_Inr split: if_splits)

lemma require_mutable_goal_id:
  "require_mutable_goal s gid x db = Inr g \<Longrightarrow> go_goal_id g = strip gid"
  by (auto simp: require_mutable_goal_def get_goal_def normalize_required_text_def rbind_Inr_iff
      split: if_splits option.splits dest!: row_at_SomeD)

lemma criterion_session:
  assumes "goals_ok db" "refs_ok db" "g \<in> set (db_goals db)" "c \<in> set (db_criteria db)"
    and "cr_goal_id c = go_goal_id g"
  shows "cr_session_id c = go_session_id g"
proof -
  from assms(2,4) obtain h where "h \<in> set (db_goals db)" "go_goal_id h = cr_goal_id c" "go_session_id h = cr_session_id c"
    by (auto simp: refs_ok_def goal_keys_def)
  with same_goal [OF assms(1,3)] assms(5) show ?thesis by metis
qed

lemma completed_criterion_backed:
  assumes ok: "goals_ok db" "refs_ok db" and g: "require_mutable_goal s gid x db = Inr g"
    and val: "validate_completion_audit g audit db = Inr ()"
    and c: "c \<in> set (db_criteria db)" "cr_goal_id c = go_goal_id g" "cr_required c"
    and ev: "db_evidence db' = db_evidence db"
  shows "criterion_backed db' (audit_criterion now g audit c)"
proof -
  have "strip (go_goal_id g) = go_goal_id g" using require_mutable_goal_id [OF g] by simp
  then obtain row where row: "row_at au_criterion_id (cr_criterion_id c) (rev audit) = Some row"
    "au_result row \<in> set completion_results"
    "au_result row \<in> {''satisfied'', ''satisfied_with_caveat''} \<Longrightarrow>
       \<exists>v \<in> set (db_evidence db). ev_goal_id v = go_goal_id g \<and> ev_criterion_id v = Some (cr_criterion_id c) \<and>
         ev_verification_status v = ''verified''"
    using check_criterion_Inr [OF validated_criterion [OF val _ c(1,2)] c(3)] by metis
  have "cr_status (audit_criterion now g audit c) = au_result row"
    using audit_criterion_status [OF c(2) criterion_session [OF ok require_mutable_goal_Inr(2) [OF g] c(1,2)]] row(1)
    by simp
  with row(2,3) c(2) ev show ?thesis by (simp add: criterion_backed_def)
qed

text \<open>Changing rows of the criteria without their ids, texts and sessions, and adding rows that refer to a goal.\<close>

lemma refs_ok_criteria:
  assumes "refs_ok db" and "\<And>c. cr_criterion_id (f c) = cr_criterion_id c" "\<And>c. cr_goal_id (f c) = cr_goal_id c"
    "\<And>c. cr_session_id (f c) = cr_session_id c" "\<And>c. cr_text (f c) = cr_text c"
  shows "refs_ok (db\<lparr>db_criteria := map f (db_criteria db)\<rparr>)"
proof -
  have "map cr_criterion_id (map f (db_criteria db)) = map cr_criterion_id (db_criteria db)"
    using assms(2) by simp
  moreover have "(\<lambda>c. (cr_criterion_id c, cr_goal_id c)) ` set (map f (db_criteria db)) =
      (\<lambda>c. (cr_criterion_id c, cr_goal_id c)) ` set (db_criteria db)"
    using assms(2,3) by (simp add: image_image)
  ultimately show ?thesis
    using assms(1,3,4,5) unfolding refs_ok_def by (simp del: map_map set_map) (simp add: list.set_map)
qed

lemma refs_ok_audit:
  "refs_ok db \<Longrightarrow> ga_audit_id a \<notin> ga_audit_id ` set (db_audits db) \<Longrightarrow>
     (ga_goal_id a, ga_session_id a) \<in> goal_keys db \<Longrightarrow> refs_ok (db\<lparr>db_audits := db_audits db @ [a]\<rparr>)"
  unfolding refs_ok_def by auto

lemma refs_ok_evidence:
  assumes "refs_ok db" and "ev_evidence_id v \<notin> ev_evidence_id ` set (db_evidence db)"
    and "(ev_goal_id v, ev_session_id v) \<in> goal_keys db"
    and "\<And>cid. ev_criterion_id v = Some cid \<Longrightarrow>
      (cid, ev_goal_id v) \<in> (\<lambda>c. (cr_criterion_id c, cr_goal_id c)) ` set (db_criteria db)"
    and "\<And>cid. ev_claim_id v = Some cid \<Longrightarrow>
      (cid, ev_goal_id v) \<in> (\<lambda>c. (cl_claim_id c, cl_goal_id c)) ` set (db_claims db)"
  shows "refs_ok (db\<lparr>db_evidence := db_evidence db @ [v]\<rparr>)"
  using assms unfolding refs_ok_def by simp

lemma mutable_goal_key:
  "require_mutable_goal s gid x db = Inr g \<Longrightarrow> (go_goal_id g, go_session_id g) \<in> goal_keys db"
  by (auto simp: goal_keys_def dest: require_mutable_goal_Inr)

lemma update_status_ok:
  assumes ok: "goals_ok db" "refs_ok db" "completed_backed db"
    and g: "require_mutable_goal s gid x db = Inr g"
    and st: "status_ok aid g status audit db (status_db now aid g status audit recap db)"
  shows "goals_ok (status_db now aid g status audit recap db) \<and> refs_ok (status_db now aid g status audit recap db) \<and>
    completed_backed (status_db now aid g status audit recap db)"
proof (intro conjI)
  let ?db1 = "on_goal g (set_status now status recap) db"
  let ?f = "if status = COMPLETE then audit_criterion now g audit else (\<lambda>c. c)"
  let ?db2 = "?db1\<lparr>db_criteria := map ?f (db_criteria ?db1)\<rparr>"
  let ?a = "\<lparr>ga_audit_id = aid, ga_goal_id = go_goal_id g, ga_session_id = go_session_id g,
         ga_audit_type = ''completion'', ga_result = goal_status_value status, ga_rows = audit, ga_created_at = now\<rparr>"
  have eq: "status_db now aid g status audit recap db =
      (if audit = [] then ?db2 else ?db2\<lparr>db_audits := db_audits ?db2 @ [?a]\<rparr>)"
    by (simp add: status_db_def)
  have 1: "goals_ok ?db1"
    using st by (intro goals_ok_on_goal ok) (simp_all add: status_ok_def status_db_def)
  then have 2: "goals_ok ?db2" by simp
  have "refs_ok ?db1" by (rule refs_ok_goals [OF ok(2)]) simp_all
  then have 3: "refs_ok ?db2" by (rule refs_ok_criteria) simp_all
  have 4: "(ga_goal_id ?a, ga_session_id ?a) \<in> goal_keys ?db2" using mutable_goal_key [OF g] by simp
  show "goals_ok (status_db now aid g status audit recap db)" using 2 by (simp add: eq)
  show "refs_ok (status_db now aid g status audit recap db)"
  proof (cases "audit = []")
    case True
    show ?thesis using 3 unfolding eq if_P [OF True] .
  next
    case False
    with st have "ga_audit_id ?a \<notin> ga_audit_id ` set (db_audits ?db2)" by (simp add: status_ok_def)
    from refs_ok_audit [OF 3 this 4] show ?thesis unfolding eq if_not_P [OF False] .
  qed
  show "completed_backed (status_db now aid g status audit recap db)"
  proof (cases "status = COMPLETE")
    case False
    have "completed_backed ?db1" using False by (intro completed_backed_on_goal ok) simp_all
    with False show ?thesis by (simp add: eq completed_backed_def criterion_backed_def)
  next
    case True
    have "completed_backed ?db2"
      unfolding completed_backed_def
    proof (intro ballI impI, elim conjE)
      fix h c assume h: "h \<in> set (db_goals ?db2)" "go_status h = COMPLETE"
        and c: "c \<in> set (db_criteria ?db2)" "cr_goal_id c = go_goal_id h" "cr_required c"
      from c(1) True obtain c0 where c0: "c0 \<in> set (db_criteria db)" "c = audit_criterion now g audit c0" by auto
      show "criterion_backed ?db2 c"
      proof (cases "go_goal_id h = go_goal_id g")
        case True
        with c c0 have "cr_goal_id c0 = go_goal_id g" "cr_required c0" by simp_all
        with c0 completed_criterion_backed [OF ok(1,2) g, of audit c0 ?db2] st \<open>status = COMPLETE\<close>
        show ?thesis by (simp add: status_ok_def)
      next
        case False
        with h have "h \<in> set (db_goals db)" by (auto simp: on_goal_def split: if_splits)
        moreover have "c = c0" using False c c0 by simp
        ultimately have "criterion_backed db c"
          using ok(3) h(2) c c0 by (auto simp: completed_backed_def)
        then show ?thesis by (simp add: criterion_backed_def)
      qed
    qed
    then show ?thesis by (simp add: eq)
  qed
qed

lemma append_evidence_ok:
  assumes ok: "goals_ok db" "refs_ok db" "completed_backed db"
    and g: "require_mutable_goal s gid x db = Inr g" and ev: "evidence_ok eid g ei db"
  shows "goals_ok (evidence_db e now eid g ei db) \<and> refs_ok (evidence_db e now eid g ei db) \<and>
    completed_backed (evidence_db e now eid g ei db)"
proof (intro conjI)
  let ?v = "evidence_row e now eid g ei"
  let ?f = "\<lambda>c. if ei_criterion_id ei = Some (cr_criterion_id c) \<and> cr_goal_id c = go_goal_id g \<and>
         cr_session_id c = go_session_id g \<and> cr_status c \<in> {''pending'', ''open'', ''unsatisfied''}
       then c\<lparr>cr_status := ''covered'', cr_updated_at := now\<rparr> else c"
  let ?db1 = "db\<lparr>db_criteria := map ?f (db_criteria db)\<rparr>"
  have eq: "evidence_db e now eid g ei db = ?db1\<lparr>db_evidence := db_evidence ?db1 @ [?v]\<rparr>"
    by (simp add: evidence_db_def)
  show "goals_ok (evidence_db e now eid g ei db)" using ok by (simp add: eq)
  have r1: "refs_ok ?db1" using refs_ok_criteria [OF ok(2), of ?f] by simp
  have rows: "db_criteria ?db1 = map ?f (db_criteria db)" by simp
  have "(\<lambda>c. (cr_criterion_id c, cr_goal_id c)) ` set (db_criteria ?db1) =
      (\<lambda>c. (cr_criterion_id c, cr_goal_id c)) ` set (db_criteria db)"
    unfolding rows by (rule map_if_id_set) simp
  then have links: "ei_criterion_id ei = Some cid \<Longrightarrow>
      (cid, go_goal_id g) \<in> (\<lambda>c. (cr_criterion_id c, cr_goal_id c)) ` set (db_criteria ?db1)" for cid
    using ev by (force simp: evidence_ok_def)
  have claims: "ei_claim_id ei = Some cid \<Longrightarrow>
      (cid, go_goal_id g) \<in> (\<lambda>c. (cl_claim_id c, cl_goal_id c)) ` set (db_claims db)" for cid
    using ev by (force simp: evidence_ok_def)
  have key: "(go_goal_id g, go_session_id g) \<in> goal_keys db" using mutable_goal_key [OF g] .
  have "eid \<notin> ev_evidence_id ` set (db_evidence db)" using ev by (simp add: evidence_ok_def)
  then have fresh: "ev_evidence_id ?v \<notin> ev_evidence_id ` set (db_evidence ?db1)" by simp
  have "refs_ok (?db1\<lparr>db_evidence := db_evidence ?db1 @ [?v]\<rparr>)"
    by (rule refs_ok_evidence [OF r1 fresh]) (use links claims key in \<open>simp_all del: set_map\<close>)
  then show "refs_ok (evidence_db e now eid g ei db)" unfolding eq .
  have not_g: "go_goal_id h \<noteq> go_goal_id g" if "h \<in> set (db_goals db)" "go_status h = COMPLETE" for h
    using same_goal [OF ok(1) that(1) require_mutable_goal_Inr(2) [OF g]] that(2)
      current_not_complete [OF require_mutable_goal_Inr(3) [OF g]] by auto
  show "completed_backed (evidence_db e now eid g ei db)"
    unfolding completed_backed_def
  proof (intro ballI impI, elim conjE)
    fix h c assume h: "h \<in> set (db_goals (evidence_db e now eid g ei db))" "go_status h = COMPLETE"
      and c: "c \<in> set (db_criteria (evidence_db e now eid g ei db))" "cr_goal_id c = go_goal_id h" "cr_required c"
    have "h \<in> set (db_goals db)" using h(1) by (simp add: eq)
    moreover have "c \<in> set (db_criteria db)"
      using c(1,2) not_g [OF \<open>h \<in> set (db_goals db)\<close> h(2)] by (auto simp: eq split: if_splits)
    ultimately have "criterion_backed db c" using ok(3) h(2) c by (auto simp: completed_backed_def)
    then show "criterion_backed (evidence_db e now eid g ei db) c"
      by (auto simp: criterion_backed_def eq)
  qed
qed

lemma reject_all_Inr: "reject_all cs = Inr () \<longleftrightarrow> (\<forall>c \<in> set cs. reject_live_execution_objective c = Inr ())"
  by (induction cs) (auto simp: rbind_Inr_iff)

lemma positive_budget_Inr: "positive_budget b name = Inr () \<longleftrightarrow> (\<forall>i. b = Some i \<longrightarrow> 0 < i)"
  by (auto simp: positive_budget_def split: option.splits)

lemma validate_request_Inr:
  assumes "validate_request q = Inr (s, objective, criteria)"
  shows "s = strip (rq_session_id q)" "s \<noteq> []" "research_text objective" "objective = strip (rq_objective q)"
    "rq_risk_tier q \<noteq> LIVE_TRADING_OR_EXECUTION" "criteria \<noteq> []" "\<forall>t \<in> set criteria. research_text t"
    "\<forall>b \<in> {rq_token_budget q, rq_turn_budget q, rq_time_budget_seconds q}. \<forall>i. b = Some i \<longrightarrow> 0 < i"
  using assms
  by (auto simp: validate_request_def rbind_Inr_iff normalize_required_text_def Let_def reject_all_Inr
      positive_budget_Inr research_text_def split: if_splits)

lemma goal_keys_replaced:
  "goal_keys (replaced_db now u q s objective criteria db) = insert (goal_row_id ''goal'' (u 0), s) (goal_keys db)"
proof -
  let ?k = "\<lambda>g. (go_goal_id g, go_session_id g)"
  have "?k ` set (map (\<lambda>g. if go_session_id g = s \<and> is_current g then supersede now g else g) (db_goals db)) =
      ?k ` set (db_goals db)"
    by (rule map_if_id_set) simp
  then show ?thesis unfolding goal_keys_def replaced_db_def by (simp del: set_map)
qed

lemma replace_goal_ok:
  assumes ok: "goals_ok db" "refs_ok db" "completed_backed db"
    and v: "validate_request q = Inr (s, objective, criteria)"
    and r: "replace_ok u q db (replaced_db now u q s objective criteria db)"
  shows "goals_ok (replaced_db now u q s objective criteria db) \<and>
    refs_ok (replaced_db now u q s objective criteria db) \<and>
    completed_backed (replaced_db now u q s objective criteria db)"
proof (intro conjI)
  let ?db = "replaced_db now u q s objective criteria db"
  let ?gid = "goal_row_id ''goal'' (u 0)"
  let ?gs = "map (\<lambda>g. if go_session_id g = s \<and> is_current g then supersede now g else g) (db_goals db)"
  have goals: "db_goals ?db = ?gs @ [new_goal now ?gid s objective q]" by (simp add: replaced_db_def)
  have fresh: "?gid \<notin> go_goal_id ` set (db_goals db)" and cur: "one_current (db_goals ?db)"
    using r by (auto simp: replace_ok_def)
  have ids: "map go_goal_id ?gs = map go_goal_id (db_goals db)" by (rule map_if_id_list) simp
  have "distinct (map go_goal_id (db_goals ?db))"
    using ok(1) fresh unfolding goals map_append ids by (simp add: goals_ok_def)
  moreover have "goal_row_ok (supersede now g) = goal_row_ok g" for g by (simp add: goal_row_ok_def)
  moreover have "goal_row_ok (new_goal now ?gid s objective q)"
    using validate_request_Inr [OF v] r
    by (auto simp: goal_row_ok_def budget_ok_def used_ok_def replace_ok_def sql_opt_int_def sql_int_def
        split: option.splits)
  ultimately show "goals_ok ?db" using ok(1) cur by (auto simp: goals_ok_def goals list_all_iff)
  have crit: "db_criteria ?db = db_criteria db @ new_criteria now u ?gid s 0 criteria"
    and claims: "db_claims ?db = db_claims db @ [thesis_claim now u ?gid s objective]"
    and rest: "db_evidence ?db = db_evidence db" "db_audits ?db = db_audits db"
    by (simp_all add: replaced_db_def)
  have new: "cr_goal_id c = ?gid \<and> cr_session_id c = s \<and> research_text (cr_text c)"
    if "c \<in> set (new_criteria now u ?gid s 0 criteria)" for c
    using new_criteria_all [OF that] validate_request_Inr(7) [OF v] by auto
  have "distinct (map cr_criterion_id (db_criteria ?db))"
    using r ok(2) by (auto simp: replace_ok_def refs_ok_def crit)
  moreover have "distinct (map cl_claim_id (db_claims ?db))"
    using r ok(2) by (auto simp: replace_ok_def refs_ok_def claims)
  ultimately show "refs_ok ?db"
    using ok(2) new unfolding refs_ok_def goal_keys_replaced rest by (simp add: crit claims image_Un ball_Un)
  show "completed_backed ?db"
    unfolding completed_backed_def
  proof (intro ballI impI, elim conjE)
    fix h c assume h: "h \<in> set (db_goals ?db)" "go_status h = COMPLETE"
      and c: "c \<in> set (db_criteria ?db)" "cr_goal_id c = go_goal_id h" "cr_required c"
    from h have hdb: "h \<in> set (db_goals db)" by (auto simp: goals split: if_splits)
    with fresh c(1,2) new have "c \<in> set (db_criteria db)" by (auto simp: crit)
    with hdb ok(3) h(2) c have "criterion_backed db c" by (auto simp: completed_backed_def)
    then show "criterion_backed ?db c" by (simp add: criterion_backed_def rest)
  qed
qed

definition pruned_db :: "string \<Rightarrow> goal_db \<Rightarrow> goal_db" where
  "pruned_db s db = \<lparr>db_goals = filter (\<lambda>g. go_session_id g \<noteq> s) (db_goals db),
     db_claims = filter (\<lambda>c. cl_session_id c \<noteq> s) (db_claims db),
     db_criteria = filter (\<lambda>c. cr_session_id c \<noteq> s) (db_criteria db),
     db_evidence = filter (\<lambda>v. ev_session_id v \<noteq> s) (db_evidence db),
     db_audits = filter (\<lambda>a. ga_session_id a \<noteq> s) (db_audits db)\<rparr>"

lemma delete_session_rows_cases:
  "delete_session_rows s db = (Inl Integrity_Error, db) \<or> delete_session_rows s db = (Inr (), pruned_db s db)"
  by (simp add: delete_session_rows_def pruned_db_def Let_def del: list_ex_iff)

lemma delete_session_goals_cases:
  "snd (delete_session_goals s db) = db \<or> snd (delete_session_goals s db) = pruned_db (strip s) db"
proof (cases "strip s = []")
  case True
  then show ?thesis by (simp add: delete_session_goals_def normalize_required_text_def)
next
  case False
  with delete_session_rows_cases [of "strip s" db] show ?thesis
    by (auto simp: delete_session_goals_def normalize_required_text_def wbind_query snd_write_transaction)
      (simp_all add: wbind_def)
qed

lemma goal_keys_pruned: "goal_keys (pruned_db s db) = {k \<in> goal_keys db. snd k \<noteq> s}"
  by (auto simp: goal_keys_def pruned_db_def)

text \<open>The rows of one goal belong to one session.\<close>

lemma goal_key_unique:
  "goals_ok db \<Longrightarrow> (gid, s) \<in> goal_keys db \<Longrightarrow> (gid, s') \<in> goal_keys db \<Longrightarrow> s = s'"
  by (auto simp: goal_keys_def dest: same_goal)

lemma one_current_filter: "one_current gs \<Longrightarrow> one_current (filter P gs)"
  by (induction gs) (auto simp: one_current_def)

lemma delete_session_goals_ok:
  assumes ok: "goals_ok db" "refs_ok db" "completed_backed db"
  shows "goals_ok (pruned_db s db) \<and> refs_ok (pruned_db s db) \<and> completed_backed (pruned_db s db)"
proof (intro conjI)
  show "goals_ok (pruned_db s db)"
    using ok(1) by (auto simp: goals_ok_def pruned_db_def list_all_iff one_current_filter distinct_map_filter)
  have crit: "cr_session_id c = ev_session_id v" if "c \<in> set (db_criteria db)" "v \<in> set (db_evidence db)"
    "cr_goal_id c = ev_goal_id v" for c v
    using that ok(2) goal_key_unique [OF ok(1), of "ev_goal_id v"] by (auto simp: refs_ok_def)
  have claim: "cl_session_id c = ev_session_id v" if "c \<in> set (db_claims db)" "v \<in> set (db_evidence db)"
    "cl_goal_id c = ev_goal_id v" for c v
    using that ok(2) goal_key_unique [OF ok(1), of "ev_goal_id v"] by (auto simp: refs_ok_def)
  have "\<forall>v \<in> set (db_evidence (pruned_db s db)). \<forall>cid. ev_criterion_id v = Some cid \<longrightarrow>
      (cid, ev_goal_id v) \<in> (\<lambda>c. (cr_criterion_id c, cr_goal_id c)) ` set (db_criteria (pruned_db s db))"
    using ok(2) crit by (fastforce simp: refs_ok_def pruned_db_def)
  moreover have "\<forall>v \<in> set (db_evidence (pruned_db s db)). \<forall>cid. ev_claim_id v = Some cid \<longrightarrow>
      (cid, ev_goal_id v) \<in> (\<lambda>c. (cl_claim_id c, cl_goal_id c)) ` set (db_claims (pruned_db s db))"
    using ok(2) claim by (fastforce simp: refs_ok_def pruned_db_def)
  ultimately show "refs_ok (pruned_db s db)"
    using ok(2) unfolding refs_ok_def goal_keys_pruned by (simp add: pruned_db_def distinct_map_filter)
  show "completed_backed (pruned_db s db)"
    unfolding completed_backed_def
  proof (intro ballI impI, elim conjE)
    fix h c assume h: "h \<in> set (db_goals (pruned_db s db))" "go_status h = COMPLETE"
      and c: "c \<in> set (db_criteria (pruned_db s db))" "cr_goal_id c = go_goal_id h" "cr_required c"
    then have "criterion_backed db c" and cdb: "c \<in> set (db_criteria db)" "cr_session_id c \<noteq> s"
      using ok(3) by (auto simp: completed_backed_def pruned_db_def)
    moreover have "ev_session_id v \<noteq> s" if "v \<in> set (db_evidence db)" "ev_goal_id v = cr_goal_id c" for v
      using crit [OF cdb(1) that(1)] that(2) cdb(2) by simp
    ultimately show "criterion_backed (pruned_db s db) c"
      by (fastforce simp: criterion_backed_def pruned_db_def)
  qed
qed

definition ledger_ok :: "goal_db \<Rightarrow> bool" where
  "ledger_ok db \<longleftrightarrow> goals_ok db \<and> refs_ok db \<and> completed_backed db"

lemma ledger_ok_step: "ledger_ok db \<Longrightarrow> ledger_ok (goal_step e ev db)"
proof (cases ev)
  case (Replace now u q)
  then show "ledger_ok db \<Longrightarrow> ?thesis"
    using replace_goal_cases [of now u q db] replace_goal_ok by (fastforce simp: ledger_ok_def)
next
  case (Update now s gid x objective ui)
  then show "ledger_ok db \<Longrightarrow> ?thesis"
    using update_goal_cases [of now s gid x objective ui db] update_goal_ok by (fastforce simp: ledger_ok_def)
next
  case (Evidence now u s gid x ei)
  then show "ledger_ok db \<Longrightarrow> ?thesis"
    using append_evidence_cases [of e now u s gid x ei db] append_evidence_ok by (fastforce simp: ledger_ok_def)
next
  case (Status now u s gid x st audit recap)
  then show "ledger_ok db \<Longrightarrow> ?thesis"
    using update_status_cases [of now u s gid x st audit recap db] update_status_ok
    by (fastforce simp: ledger_ok_def)
next
  case (Usage now s gid x a b c)
  then show "ledger_ok db \<Longrightarrow> ?thesis"
    using account_usage_cases [of now s gid x a b c db] account_usage_ok by (fastforce simp: ledger_ok_def)
next
  case (Delete s)
  then show "ledger_ok db \<Longrightarrow> ?thesis"
    using delete_session_goals_cases [of s db] delete_session_goals_ok by (fastforce simp: ledger_ok_def)
qed

lemma ledger_ok_empty: "ledger_ok empty_goal_db"
  by (simp add: ledger_ok_def goals_ok_def refs_ok_def completed_backed_def empty_goal_db_def one_current_def)

lemma goal_run_simps [simp]:
  "goal_run e [] db = db"
  "goal_run e (ev # evs) db = goal_run e evs (goal_step e ev db)"
  by (simp_all add: goal_run_def)

lemma ledger_ok_run: "ledger_ok db \<Longrightarrow> ledger_ok (goal_run e evs db)"
  by (induction evs arbitrary: db) (auto intro: ledger_ok_step)

end

