(* ===== verification/Goal_Properties.thy ===== *)
theory Goal_Properties
  imports Goal_Invariants "HOL-Library.Multiset"
begin

text \<open>The properties of the goal ledger and of the path sandbox.\<close>

section \<open>Lemmas\<close>

lemma current_unique:
  assumes "goals_ok db" "g \<in> set (db_goals db)" "h \<in> set (db_goals db)"
    "is_current g" "is_current h" "go_session_id g = go_session_id h"
  shows "g = h"
  using assms by (auto simp: goals_ok_def one_current_def distinct_map inj_on_def)

text \<open>The current goal of a session is its only row with a current status.\<close>

lemma current_rows:
  assumes "goals_ok db" "g \<in> set (db_goals db)" "is_current g" "go_session_id g = s"
  shows "filter (\<lambda>x. go_session_id x = s \<and> is_current x) (db_goals db) = [g]"
proof -
  let ?l = "filter (\<lambda>x. go_session_id x = s \<and> is_current x) (db_goals db)"
  have "set ?l = {g}" using assms current_unique [OF assms(1)] by auto
  moreover have "distinct ?l"
    using assms(1) by (simp add: goals_ok_def distinct_map)
  ultimately have "length ?l = 1" by (metis card.empty card_insert_disjoint distinct_card empty_iff finite.emptyI One_nat_def)
  with \<open>set ?l = {g}\<close> show ?thesis
    by (cases ?l) (auto simp: length_Suc_conv)
qed

lemma get_current_goal_eq:
  assumes "goals_ok db" "g \<in> set (db_goals db)" "is_current g" "go_session_id g = strip s" "strip s \<noteq> []"
  shows "get_current_goal s db = Inr (Some g)"
  using current_rows [OF assms(1-4)] assms(5) by (simp add: get_current_goal_def normalize_required_text_def)

text \<open>The guard of the writes, as what it accepts.\<close>

lemma require_mutable_goal_iff:
  assumes "goals_ok db"
  shows "require_mutable_goal s gid x db = Inr g \<longleftrightarrow>
    x = gid \<and> strip s \<noteq> [] \<and> strip gid \<noteq> [] \<and> g \<in> set (db_goals db) \<and> is_current g \<and>
    go_goal_id g = strip gid \<and> go_session_id g = strip s"
proof
  assume l: "require_mutable_goal s gid x db = Inr g"
  then have "strip s \<noteq> []" "strip gid \<noteq> []"
    by (auto simp: require_mutable_goal_def normalize_required_text_def split: if_splits)
  with l show "x = gid \<and> strip s \<noteq> [] \<and> strip gid \<noteq> [] \<and> g \<in> set (db_goals db) \<and> is_current g \<and>
      go_goal_id g = strip gid \<and> go_session_id g = strip s"
    using require_mutable_goal_Inr [OF l] require_mutable_goal_id [OF l] by simp
next
  assume r: "x = gid \<and> strip s \<noteq> [] \<and> strip gid \<noteq> [] \<and> g \<in> set (db_goals db) \<and> is_current g \<and>
      go_goal_id g = strip gid \<and> go_session_id g = strip s"
  then have "row_at go_goal_id (strip gid) (db_goals db) = Some g"
    using row_at_mem [of go_goal_id "db_goals db" g] assms by (simp add: goals_ok_def)
  moreover have "get_current_goal (strip s) db = Inr (Some g)"
    using r by (intro get_current_goal_eq [OF assms]) simp_all
  ultimately show "require_mutable_goal s gid x db = Inr g"
    using r by (simp add: require_mutable_goal_def normalize_required_text_def get_goal_def)
qed

lemma one_current_on_goal:
  assumes "one_current gs" and "\<And>x. x \<in> set gs \<Longrightarrow> P x \<Longrightarrow> is_current (f x) \<Longrightarrow> is_current x"
    and "\<And>x. go_session_id (f x) = go_session_id x"
  shows "one_current (map (\<lambda>x. if P x then f x else x) gs)"
  using assms(1,2)
proof (induction gs)
  case Nil
  then show ?case by (simp add: one_current_def)
next
  case (Cons g gs)
  have "one_current gs" using Cons.prems(1) by (auto simp: one_current_def split: if_splits)
  then have IH: "one_current (map (\<lambda>x. if P x then f x else x) gs)" using Cons by simp
  have "go_session_id ` {x \<in> set (map (\<lambda>x. if P x then f x else x) gs). is_current x} \<subseteq>
      go_session_id ` {x \<in> set gs. is_current x}"
    using Cons.prems(2) assms(3) by (force split: if_splits)
  with IH Cons.prems assms(3) show ?case
    by (auto simp: one_current_def split: if_splits)
qed

lemma get_goal_strip:
  "strip gid = gid \<Longrightarrow> gid \<noteq> [] \<Longrightarrow> get_goal gid db = Inr (row_at go_goal_id gid (db_goals db))"
  by (simp add: get_goal_def normalize_required_text_def)

section \<open>Closed goals\<close>

text \<open>Everything the ledger holds about a goal.\<close>

definition goal_rows ::
    "goal_db \<Rightarrow> string \<Rightarrow> goal_record list \<times> goal_claim list \<times> goal_criterion list \<times> evidence_record list \<times>
     goal_audit list" where
  "goal_rows db gid =
     (filter (\<lambda>g. go_goal_id g = gid) (db_goals db), filter (\<lambda>c. cl_goal_id c = gid) (db_claims db),
      filter (\<lambda>c. cr_goal_id c = gid) (db_criteria db), filter (\<lambda>v. ev_goal_id v = gid) (db_evidence db),
      filter (\<lambda>a. ga_goal_id a = gid) (db_audits db))"

fun deletes :: "string \<Rightarrow> goal_event \<Rightarrow> bool" where
  "deletes s (Delete s') = (strip s' = s)"
| "deletes s _ = False"

lemma filter_map_other:
  "(\<And>x. x \<in> set xs \<Longrightarrow> Q x \<Longrightarrow> f x = x) \<Longrightarrow> (\<And>x. x \<in> set xs \<Longrightarrow> Q (f x) = Q x) \<Longrightarrow>
     filter Q (map f xs) = filter Q xs"
  by (induction xs) auto

lemma goals_on_goal:
  "(\<And>x. go_goal_id (f x) = go_goal_id x) \<Longrightarrow> go_goal_id g \<noteq> gid \<Longrightarrow>
     filter (\<lambda>x. go_goal_id x = gid) (db_goals (on_goal g f db)) = filter (\<lambda>x. go_goal_id x = gid) (db_goals db)"
  unfolding on_goal_def by (simp, rule filter_map_other) auto

text \<open>A write to one goal leaves the rows of every other goal as they are.\<close>

lemma edited_rows:
  "go_goal_id g \<noteq> gid \<Longrightarrow> goal_rows (edited_db now g objective ui t db) gid = goal_rows db gid"
  by (auto simp: goal_rows_def edited_db_def Let_def goals_on_goal intro!: filter_map_other)

lemma usage_rows:
  "go_goal_id g \<noteq> gid \<Longrightarrow> goal_rows (on_goal g (add_usage now a b c g) db) gid = goal_rows db gid"
  by (simp add: goal_rows_def goals_on_goal)

lemma status_rows:
  assumes "go_goal_id g \<noteq> gid"
  shows "goal_rows (status_db now aid g st audit recap db) gid = goal_rows db gid"
proof -
  have "filter (\<lambda>c. cr_goal_id c = gid) (map (audit_criterion now g audit) (db_criteria db)) =
      filter (\<lambda>c. cr_goal_id c = gid) (db_criteria db)"
    by (rule filter_map_other) (use assms in auto)
  moreover have "filter (\<lambda>x. go_goal_id x = gid) (db_goals (on_goal g (set_status now st recap) db)) =
      filter (\<lambda>x. go_goal_id x = gid) (db_goals db)"
    using assms by (intro goals_on_goal) simp_all
  ultimately show ?thesis
    using assms by (cases "audit = []"; cases "st = COMPLETE") (simp_all add: goal_rows_def status_db_def)
qed

lemma evidence_rows:
  "go_goal_id g \<noteq> gid \<Longrightarrow> goal_rows (evidence_db e now eid g ei db) gid = goal_rows db gid"
  by (auto simp: goal_rows_def evidence_db_def intro!: filter_map_other)

lemma replaced_rows:
  assumes "replace_ok u q db (replaced_db now u q s objective criteria db)" and "goals_ok db"
    and "g \<in> set (db_goals db)" "\<not> is_current g"
  shows "goal_rows (replaced_db now u q s objective criteria db) (go_goal_id g) = goal_rows db (go_goal_id g)"
proof -
  have ne: "goal_row_id ''goal'' (u 0) \<noteq> go_goal_id g" using assms(1,3) by (auto simp: replace_ok_def)
  moreover have "filter (\<lambda>c. cr_goal_id c = go_goal_id g)
      (new_criteria now u (goal_row_id ''goal'' (u 0)) s 0 criteria) = []"
    using ne by (auto simp: filter_empty_conv dest: new_criteria_all)
  moreover have "filter (\<lambda>x. go_goal_id x = go_goal_id g)
      (map (\<lambda>x. if go_session_id x = s \<and> is_current x then supersede now x else x) (db_goals db)) =
      filter (\<lambda>x. go_goal_id x = go_goal_id g) (db_goals db)"
    using same_goal [OF assms(2) _ assms(3)] assms(4) by (intro filter_map_other) auto
  ultimately show ?thesis by (simp add: goal_rows_def replaced_db_def)
qed

lemma pruned_rows:
  assumes "goals_ok db" "refs_ok db" and "g \<in> set (db_goals db)" and "go_session_id g \<noteq> s"
  shows "goal_rows (pruned_db s db) (go_goal_id g) = goal_rows db (go_goal_id g)"
proof -
  have "s' \<noteq> s" if "(go_goal_id g, s') \<in> goal_keys db" for s'
    using goal_key_unique [OF assms(1) that, of "go_session_id g"] assms(3,4) by (auto simp: goal_keys_def)
  moreover have "go_session_id h \<noteq> s" if "h \<in> set (db_goals db)" "go_goal_id h = go_goal_id g" for h
    using same_goal [OF assms(1) that(1) assms(3) that(2)] assms(4) by simp
  ultimately show ?thesis
    using assms(2) by (auto simp: goal_rows_def pruned_db_def refs_ok_def intro!: filter_cong) metis+
qed

lemma closed_goal_step:
  assumes ok: "goals_ok db" "refs_ok db" and g: "g \<in> set (db_goals db)" "\<not> is_current g"
    and ev: "\<not> deletes (go_session_id g) ev"
  shows "goal_rows (goal_step e ev db) (go_goal_id g) = goal_rows db (go_goal_id g)"
proof -
  have other: "go_goal_id h \<noteq> go_goal_id g" if "require_mutable_goal s gid x db = Inr h" for s gid x h
    using require_mutable_goal_Inr(2,3) [OF that] same_goal [OF ok(1) _ g(1)] g(2) by auto
  show ?thesis
  proof (cases ev)
    case (Replace now u q)
    then show ?thesis using replace_goal_cases [of now u q db] replaced_rows [OF _ ok(1) g] by fastforce
  next
    case (Update now s gid x objective ui)
    then show ?thesis using update_goal_cases [of now s gid x objective ui db] other edited_rows by fastforce
  next
    case (Evidence now u s gid x ei)
    then show ?thesis using append_evidence_cases [of e now u s gid x ei db] other evidence_rows by fastforce
  next
    case (Status now u s gid x st audit recap)
    then show ?thesis using update_status_cases [of now u s gid x st audit recap db] other status_rows by fastforce
  next
    case (Usage now s gid x a b c)
    then show ?thesis using account_usage_cases [of now s gid x a b c db] other usage_rows by fastforce
  next
    case (Delete s)
    then show ?thesis using delete_session_goals_cases [of s db] pruned_rows [OF ok g(1)] ev by auto
  qed
qed

lemma closed_goal_run:
  assumes "ledger_ok db" and "g \<in> set (db_goals db)" "\<not> is_current g"
    and "list_all (\<lambda>ev. \<not> deletes (go_session_id g) ev) evs"
  shows "goal_rows (goal_run e evs db) (go_goal_id g) = goal_rows db (go_goal_id g)"
  using assms
proof (induction evs arbitrary: db)
  case (Cons ev evs)
  have eq: "goal_rows (goal_step e ev db) (go_goal_id g) = goal_rows db (go_goal_id g)"
    using Cons.prems by (intro closed_goal_step) (auto simp: ledger_ok_def)
  then have kept: "filter (\<lambda>x. go_goal_id x = go_goal_id g) (db_goals (goal_step e ev db)) =
      filter (\<lambda>x. go_goal_id x = go_goal_id g) (db_goals db)"
    by (simp add: goal_rows_def)
  have "g \<in> set (filter (\<lambda>x. go_goal_id x = go_goal_id g) (db_goals (goal_step e ev db)))"
    unfolding kept using Cons.prems by simp
  then have "g \<in> set (db_goals (goal_step e ev db))" by simp
  with Cons.IH [of "goal_step e ev db"] Cons.prems eq show ?case
    by (simp add: ledger_ok_step)
qed simp

section \<open>Writes that succeed\<close>

lemma reload_row:
  "strip gid = gid \<Longrightarrow> gid \<noteq> [] \<Longrightarrow> row_at go_goal_id gid (db_goals db) = Some g \<Longrightarrow>
     reload_goal gid db = (Inr g, db)"
  by (simp add: reload_goal_def wbind_query get_goal_strip)

lemma row_at_on_goal:
  assumes "goals_ok db" "g \<in> set (db_goals db)" "go_goal_id (f g) = go_goal_id g"
    and "\<And>x. go_goal_id (f x) = go_goal_id x"
  shows "row_at go_goal_id (go_goal_id g) (db_goals (on_goal g f db)) = Some (f g)"
proof -
  have "map go_goal_id (db_goals (on_goal g f db)) = map go_goal_id (db_goals db)"
    using assms(4) by (simp add: on_goal_def)
  then have "distinct (map go_goal_id (db_goals (on_goal g f db)))" using assms(1) by (simp add: goals_ok_def)
  moreover have "f g \<in> set (db_goals (on_goal g f db))" using assms(2) by (force simp: on_goal_def)
  ultimately show ?thesis using row_at_mem [of go_goal_id _ "f g"] assms(3) by metis
qed

text \<open>The unique index does not stop a write to a current goal.\<close>

lemma one_current_write:
  assumes ok: "goals_ok db" and g: "g \<in> set (db_goals db)" "is_current g"
    and f: "\<And>x. go_session_id (f x) = go_session_id x"
  shows "one_current (db_goals (on_goal g f db))"
proof -
  have "is_current x" if "x \<in> set (db_goals db)" "go_goal_id x = go_goal_id g" for x
    using same_goal [OF ok that(1) g(1) that(2)] g(2) by simp
  then have "one_current (map (\<lambda>x. if go_goal_id x = go_goal_id g \<and> go_session_id x = go_session_id g
      then f x else x) (db_goals db))"
    using ok f by (intro one_current_on_goal) (simp_all add: goals_ok_def)
  then show ?thesis by (simp add: on_goal_def)
qed

lemma usage_result:
  assumes ok: "goals_ok db" and g: "require_mutable_goal s gid x db = Inr g"
    and nonneg: "0 \<le> a" "0 \<le> b" "0 \<le> c"
    and fits: "sql_int (go_tokens_used g + a)" "sql_int (go_time_used_seconds g + b)" "sql_int (go_turns_used g + c)"
  shows "account_usage now s gid x a b c db = (Inr (add_usage now a b c g g), on_goal g (add_usage now a b c g) db)"
proof -
  let ?db = "on_goal g (add_usage now a b c g) db"
  have mem: "g \<in> set (db_goals db)" "is_current g" using require_mutable_goal_Inr [OF g] by auto
  have id: "strip (go_goal_id g) = go_goal_id g" "go_goal_id g \<noteq> []"
    using require_mutable_goal_id [OF g] require_mutable_goal_iff [OF ok] g by auto
  have "one_current (db_goals ?db)"
    by (rule one_current_write [OF ok mem]) simp
  then have body: "usage_body now s gid x a b c db = (Inr (go_goal_id g), ?db)"
    using g fits by (simp add: usage_body_Inr)
  have row: "row_at go_goal_id (go_goal_id g) (db_goals ?db) = Some (add_usage now a b c g g)"
    using row_at_on_goal [OF ok mem(1)] by simp
  show ?thesis
    using nonneg reload_row [OF id row] body
    by (simp add: account_usage_def wbind_def write_transaction_def)
qed

lemma delete_result:
  assumes "goals_ok db" "refs_ok db" and "strip s \<noteq> []"
  shows "delete_session_goals s db =
    (Inr (length (filter (\<lambda>g. go_session_id g = strip s) (db_goals db))), pruned_db (strip s) db)"
proof -
  let ?s = "strip s"
  define gone where "gone = go_goal_id ` set (filter (\<lambda>g. go_session_id g = ?s) (db_goals db))"
  have no: "gid \<notin> gone" if "(gid, s') \<in> goal_keys db" "s' \<noteq> ?s" for gid s'
    using goal_key_unique [OF assms(1) that(1), of ?s] that(2) unfolding goal_keys_def gone_def by fastforce
  have "\<not> list_ex (\<lambda>a. ga_goal_id a \<in> gone) (filter (\<lambda>a. ga_session_id a \<noteq> ?s) (db_audits db))"
    "\<not> list_ex (\<lambda>v. ev_goal_id v \<in> gone) (filter (\<lambda>v. ev_session_id v \<noteq> ?s) (db_evidence db))"
    "\<not> list_ex (\<lambda>c. cr_goal_id c \<in> gone) (filter (\<lambda>c. cr_session_id c \<noteq> ?s) (db_criteria db))"
    "\<not> list_ex (\<lambda>c. cl_goal_id c \<in> gone) (filter (\<lambda>c. cl_session_id c \<noteq> ?s) (db_claims db))"
    using assms(2) no unfolding refs_ok_def by (auto simp: list_ex_iff)
  then have "delete_session_rows ?s db = (Inr (), pruned_db ?s db)"
    by (simp add: delete_session_rows_def pruned_db_def Let_def gone_def [symmetric] del: list_ex_iff set_filter)
  then show ?thesis
    using assms(3)
    by (simp add: delete_session_goals_def normalize_required_text_def wbind_query)
      (simp add: write_transaction_def wbind_def)
qed

text \<open>The criteria of a new goal are listed in the order of the request.\<close>

lemma step_rank_step [simp]: "step_rank (Some (''step_'' @ nat_str n)) = n"
proof -
  have tw: "takeWhile is_digit (nat_str n) = nat_str n"
    using nat_str_digits [of n] by (simp add: takeWhile_eq_all_conv list_all_iff)
  have "is_digit (hd (nat_str n))"
    using nat_str_digits [of n] by (cases "nat_str n") auto
  then show ?thesis using nat_str_digits [of n] by (simp add: step_rank_def tw)
qed

lemma new_criteria_ranks:
  "map (step_rank \<circ> cr_protocol_step) (new_criteria now u gid s i ts) = [Suc i..<Suc i + length ts]"
proof (induction ts arbitrary: i)
  case (Cons t ts)
  have "step_rank (cr_protocol_step (new_criterion now u gid s i t)) = Suc i"
    using step_rank_step [of "Suc i"] by (simp add: new_criterion_def)
  then show ?case using Cons.IH [of "Suc i"] by (simp add: upt_rec)
qed simp

lemma new_criteria_texts: "map cr_text (new_criteria now u gid s i ts) = ts"
  by (induction ts arbitrary: i) simp_all

lemma sorted_criteria:
  "sort_key (step_rank \<circ> cr_protocol_step) (sort_key cr_created_at (sort_key cr_criterion_id
     (new_criteria now u gid s i ts))) = new_criteria now u gid s i ts"
proof (rule sort_key_inj_key_eq)
  let ?cs = "new_criteria now u gid s i ts"
  show "mset (sort_key cr_created_at (sort_key cr_criterion_id ?cs)) = mset ?cs" by simp
  have "distinct (map (step_rank \<circ> cr_protocol_step) ?cs)" unfolding new_criteria_ranks by simp
  then show "inj_on (step_rank \<circ> cr_protocol_step) (set (sort_key cr_created_at (sort_key cr_criterion_id ?cs)))"
    by (simp add: distinct_map)
  show "sorted (map (step_rank \<circ> cr_protocol_step) ?cs)" unfolding new_criteria_ranks by (rule sorted_upt)
qed

definition row_ids_fresh :: "(nat \<Rightarrow> string) \<Rightarrow> nat \<Rightarrow> goal_db \<Rightarrow> bool" where
  "row_ids_fresh u n db \<longleftrightarrow> list_all (\<lambda>i. list_all (\<lambda>c. \<not> is_space c) (u i)) [0..<n + 2] \<and>
     goal_row_id ''goal'' (u 0) \<notin> go_goal_id ` set (db_goals db) \<and>
     goal_row_id ''claim'' (u 1) \<notin> cl_claim_id ` set (db_claims db) \<and>
     distinct (map u [2..<n + 2]) \<and>
     list_all (\<lambda>i. goal_row_id ''crit'' (u i) \<notin> cr_criterion_id ` set (db_criteria db)) [2..<n + 2]"

lemma new_id_strip: "list_all (\<lambda>c. \<not> is_space c) h \<Longrightarrow> strip (goal_row_id ''goal'' h) = goal_row_id ''goal'' h"
  by (rule strip_no_space) (simp add: goal_row_id_def is_space_def)

lemma new_id_inj: "goal_row_id p h = goal_row_id p h' \<longleftrightarrow> h = h'"
  by (simp add: goal_row_id_def)

lemma new_criteria_id_set:
  "map cr_criterion_id (new_criteria now u gid s 0 ts) = map (\<lambda>i. goal_row_id ''crit'' (u i)) [2..<length ts + 2]"
  unfolding new_criteria_ids map_add_upt [of 2 "length ts", symmetric] map_map by (simp add: comp_def)

lemma one_current_replaced:
  assumes "goals_ok db" and "go_session_id g = s"
  shows "one_current (map (\<lambda>x. if go_session_id x = s \<and> is_current x then supersede now x else x) (db_goals db))"
    and "one_current (map (\<lambda>x. if go_session_id x = s \<and> is_current x then supersede now x else x) (db_goals db) @ [g])"
proof -
  let ?gs = "map (\<lambda>x. if go_session_id x = s \<and> is_current x then supersede now x else x) (db_goals db)"
  have no: "\<not> is_current (supersede now x)" for x by (simp add: is_current_def current_statuses_def)
  show 1: "one_current ?gs" using assms(1) no by (intro one_current_on_goal) (simp_all add: goals_ok_def)
  have "s \<notin> go_session_id ` set (filter is_current ?gs)" using no by (auto split: if_splits)
  with 1 assms(2) show "one_current (?gs @ [g])" by (auto simp: one_current_def)
qed

lemma insert_criteria_fresh:
  assumes "goal_exists db gid" and "distinct (map u [2..<length ts + 2])"
    and "list_all (\<lambda>i. goal_row_id ''crit'' (u i) \<notin> cr_criterion_id ` set (db_criteria db)) [2..<length ts + 2]"
  shows "insert_criteria now u gid s 0 ts db =
    (Inr (), db\<lparr>db_criteria := db_criteria db @ new_criteria now u gid s 0 ts\<rparr>)"
proof -
  let ?cs = "new_criteria now u gid s 0 ts"
  have "distinct (map cr_criterion_id ?cs)"
    using assms(2) unfolding new_criteria_id_set distinct_map inj_on_def new_id_inj .
  moreover have "cr_criterion_id ` set ?cs \<inter> cr_criterion_id ` set (db_criteria db) = {}"
  proof -
    have "cr_criterion_id ` set ?cs = (\<lambda>i. goal_row_id ''crit'' (u i)) ` set [2..<length ts + 2]"
      by (metis new_criteria_id_set set_map)
    then show ?thesis using assms(3) by (auto simp: list_all_iff)
  qed
  ultimately show ?thesis unfolding insert_criteria_Inr [OF assms(1)] by simp
qed

lemma replace_result:
  assumes ok: "goals_ok db" and v: "validate_request q = Inr (s, objective, criteria)"
    and fits: "sql_opt_int (rq_token_budget q)" "sql_opt_int (rq_turn_budget q)"
      "sql_opt_int (rq_time_budget_seconds q)"
    and fresh: "row_ids_fresh u (length criteria) db"
  shows "replace_goal now u q db =
    (Inr (new_goal now (goal_row_id ''goal'' (u 0)) s objective q), replaced_db now u q s objective criteria db)"
proof -
  let ?gid = "goal_row_id ''goal'' (u 0)"
  let ?g = "new_goal now ?gid s objective q"
  let ?gs = "map (\<lambda>g. if go_session_id g = s \<and> is_current g then supersede now g else g) (db_goals db)"
  have cur: "one_current ?gs" "one_current (?gs @ [?g])"
    using one_current_replaced [OF ok, of ?g s now] by simp_all
  have ids: "go_goal_id ` set ?gs = go_goal_id ` set (db_goals db)" by (rule map_goal_ids) simp
  have new: "?gid \<notin> go_goal_id ` set ?gs" using fresh unfolding ids by (simp add: row_ids_fresh_def)
  define db1 where "db1 = db\<lparr>db_goals := ?gs\<rparr>"
  define db2 where "db2 = db1\<lparr>db_goals := ?gs @ [?g]\<rparr>"
  define db3 where "db3 = db2\<lparr>db_claims := db_claims db @ [thesis_claim now u ?gid s objective]\<rparr>"
  have 1: "update_goals (\<lambda>g. go_session_id g = s \<and> is_current g) (supersede now) db = (Inr (), db1)"
    using cur(1) by (simp only: update_goals_Inr db1_def simp_thms)
  have 2: "insert_goal ?g db1 = (Inr (), db2)"
    using cur(2) new fits unfolding insert_goal_Inr db2_def db1_def by (simp del: set_map)
  have ge: "goal_exists db2 ?gid" by (simp add: goal_exists_def db2_def)
  have 3: "insert_claim (thesis_claim now u ?gid s objective) db2 = (Inr (), db3)"
    using fresh ge unfolding insert_claim_Inr db3_def by (simp add: row_ids_fresh_def db2_def db1_def)
  have 4: "insert_criteria now u ?gid s 0 criteria db3 =
      (Inr (), db3\<lparr>db_criteria := db_criteria db3 @ new_criteria now u ?gid s 0 criteria\<rparr>)"
    using fresh ge by (intro insert_criteria_fresh) (simp_all add: row_ids_fresh_def db3_def db2_def db1_def)
  have "replace_body now u q ?gid s objective criteria db =
      (Inr (), replaced_db now u q s objective criteria db)"
    unfolding replace_body_def wbind_def 1 prod.case sum.case 2 3 4
    by (simp add: replaced_db_def db3_def db2_def db1_def)
  then have 5: "write_transaction (replace_body now u q ?gid s objective criteria) db =
      (Inr (), replaced_db now u q s objective criteria db)" by (simp add: write_transaction_Inr)
  have "row_at go_goal_id ?gid ?gs = None" using new unfolding row_at_None_iff .
  then have row: "row_at go_goal_id ?gid (db_goals (replaced_db now u q s objective criteria db)) = Some ?g"
    by (simp add: replaced_db_def row_at_append)
  have id: "strip ?gid = ?gid" "?gid \<noteq> []"
    using fresh new_id_strip by (auto simp: row_ids_fresh_def upt_rec goal_row_id_def)
  show ?thesis
    unfolding replace_goal_def v wbind_simps Let_def prod.case
    unfolding wbind_def 5 prod.case sum.case reload_row [OF id row] ..
qed

section \<open>A small ledger\<close>

text \<open>A text without the first letters of the words of the patterns.\<close>

lemma words_near_first:
  "list_all (\<lambda>w. w \<noteq> [] \<and> hd w \<notin> set (lower s)) fs \<Longrightarrow> \<not> words_near p fs gs s"
proof (induction s arbitrary: p)
  case (Cons c s)
  have "\<not> word_here p w (c # s)" if "w \<in> set fs" for w
  proof -
    have "w \<noteq> []" "hd w \<noteq> lower_char c" using that Cons.prems by (auto simp: list_all_iff)
    then show ?thesis by (cases w) (auto simp: word_here_def)
  qed
  moreover have "\<not> words_near (Some c) fs gs s"
    using Cons.prems by (intro Cons.IH) (auto simp: list_all_iff)
  ultimately show ?case by (auto simp: list_ex_iff)
qed simp

lemma contains_first: "t \<noteq> [] \<Longrightarrow> hd t \<notin> set s \<Longrightarrow> \<not> contains s t"
  by (induction s) (auto simp: take_Cons', metis list.sel(1) take_eq_Nil list.collapse take_Suc)

lemma quiet_text:
  assumes "list_all (\<lambda>c. c \<notin> set (lower s)) ''psebl''" and "list_all (\<lambda>c. (of_char c :: nat) < 128) s"
  shows "\<not> execution_text s"
proof -
  have "list_all (\<lambda>t. t \<noteq> [] \<and> 128 \<le> (of_char (hd t) :: nat)) chinese_order_words"
    by (simp add: chinese_order_words_def)
  then have "\<not> contains s t" if "t \<in> set chinese_order_words" for t
    using that assms(2) by (intro contains_first) (fastforce simp: list_all_iff)+
  moreover have "\<not> words_near None [''place'', ''submit'', ''execute'', ''send''] gs s" for gs
    by (rule words_near_first) (use assms(1) in simp)
  moreover have "\<not> words_near None [''buy'', ''sell'', ''short'', ''long''] gs s" for gs
    by (rule words_near_first) (use assms(1) in simp)
  ultimately show ?thesis by (auto simp: execution_text_def list_ex_iff)
qed

definition demo_hex :: "char \<Rightarrow> nat \<Rightarrow> string" where
  "demo_hex c i = replicate (Suc i) c"

definition demo_request :: goal_request where
  "demo_request = \<lparr>rq_session_id = ''s1'', rq_objective = '' fund '', rq_criteria = [''data'', '' '', ''macro''],
     rq_ui_summary = [], rq_source = ''api'', rq_protocol = ''thesis_review'', rq_risk_tier = RESEARCH_GENERAL,
     rq_token_budget = Some 100, rq_turn_budget = None, rq_time_budget_seconds = None\<rparr>"

lemma demo_request_valid: "validate_request demo_request = Inr (''s1'', ''fund'', [''data'', ''macro''])"
proof -
  have "\<not> execution_text ''fund''" "\<not> execution_text ''data''" "\<not> execution_text ''macro''"
    by (rule quiet_text; simp add: lower_char_def)+
  then show ?thesis
    by (simp add: validate_request_def demo_request_def normalize_required_text_def strip_def is_space_def
        reject_live_execution_objective_def positive_budget_def)
qed

lemma demo_request_budgets [simp]:
  "rq_token_budget demo_request = Some 100" "rq_turn_budget demo_request = None"
  "rq_time_budget_seconds demo_request = None"
  by (simp_all add: demo_request_def)

lemma demo_hex_fresh:
  "\<not> is_space c \<Longrightarrow> row_ids_fresh (demo_hex c) 2 empty_goal_db"
  by (simp add: row_ids_fresh_def empty_goal_db_def demo_hex_def upt_rec list_all_iff)

text \<open>One goal for the session \<open>s1\<close>.\<close>

definition demo_goal :: goal_record where
  "demo_goal = new_goal ''t1'' (goal_row_id ''goal'' (demo_hex CHR ''a'' 0)) ''s1'' ''fund'' demo_request"

definition demo_ledger :: goal_db where
  "demo_ledger = replaced_db ''t1'' (demo_hex CHR ''a'') demo_request ''s1'' ''fund'' [''data'', ''macro''] empty_goal_db"

lemma demo_replace:
  "replace_goal ''t1'' (demo_hex CHR ''a'') demo_request empty_goal_db = (Inr demo_goal, demo_ledger)"
  unfolding demo_goal_def demo_ledger_def
  by (rule replace_result [OF _ demo_request_valid])
    (use ledger_ok_empty demo_hex_fresh [of "CHR ''a''"] in
      \<open>simp_all add: ledger_ok_def sql_opt_int_def sql_int_def is_space_def eval_nat_numeral\<close>)

lemma demo_ledger_run: "goal_run e [Replace ''t1'' (demo_hex CHR ''a'') demo_request] empty_goal_db = demo_ledger"
  by (simp add: demo_replace)

lemma demo_ledger_ok: "ledger_ok demo_ledger"
  using ledger_ok_run [OF ledger_ok_empty, of undefined "[Replace ''t1'' (demo_hex CHR ''a'') demo_request]"]
  by (simp only: demo_ledger_run)

lemma demo_goals: "db_goals demo_ledger = [demo_goal]"
  by (simp add: demo_ledger_def replaced_db_def demo_goal_def empty_goal_db_def)

lemma demo_goal_simps [simp]:
  "go_goal_id demo_goal = ''goal_a''" "go_session_id demo_goal = ''s1''" "is_current demo_goal"
  "go_status demo_goal = ACTIVE" "go_tokens_used demo_goal = 0" "go_turns_used demo_goal = 0"
  "go_time_used_seconds demo_goal = 0"
  "go_token_budget demo_goal = Some 100" "go_turn_budget demo_goal = None" "go_time_budget_seconds demo_goal = None"
  by (simp_all add: demo_goal_def goal_row_id_def demo_hex_def is_current_def current_statuses_def)

lemma demo_mutable: "require_mutable_goal ''s1'' ''goal_a'' ''goal_a'' demo_ledger = Inr demo_goal"
  using demo_ledger_ok
  by (subst require_mutable_goal_iff) (simp_all add: ledger_ok_def demo_goals strip_def is_space_def)

lemma demo_second:
  "goal_run e [Replace ''t1'' (demo_hex CHR ''a'') demo_request, Replace ''t2'' (demo_hex CHR ''b'') demo_request]
     empty_goal_db = replaced_db ''t2'' (demo_hex CHR ''b'') demo_request ''s1'' ''fund'' [''data'', ''macro''] demo_ledger"
proof -
  have ne: "demo_hex CHR ''b'' i \<noteq> demo_hex CHR ''a'' j" for i j by (simp add: demo_hex_def)
  have crit: "goal_row_id ''crit'' (demo_hex CHR ''b'' i) \<notin> cr_criterion_id ` set (db_criteria demo_ledger)" for i
  proof -
    have "cr_criterion_id ` set (db_criteria demo_ledger) =
        set (map (\<lambda>i. goal_row_id ''crit'' (demo_hex CHR ''a'' i)) [2..<length [''data'', ''macro''] + 2])"
      by (simp only: new_criteria_id_set [symmetric] set_map) (simp add: demo_ledger_def replaced_db_def empty_goal_db_def)
    then show ?thesis using ne by (auto simp: new_id_inj simp del: length_Cons)
  qed
  have "row_ids_fresh (demo_hex CHR ''b'') 2 demo_ledger"
    using demo_hex_fresh [of "CHR ''b''"] ne crit
    by (simp add: row_ids_fresh_def demo_ledger_def replaced_db_def empty_goal_db_def new_id_inj is_space_def list_all_iff)
  then have "snd (replace_goal ''t2'' (demo_hex CHR ''b'') demo_request demo_ledger) =
      replaced_db ''t2'' (demo_hex CHR ''b'') demo_request ''s1'' ''fund'' [''data'', ''macro''] demo_ledger"
    using demo_ledger_ok
    by (subst replace_result [OF _ demo_request_valid])
      (simp_all add: ledger_ok_def sql_opt_int_def sql_int_def eval_nat_numeral)
  then show ?thesis by (simp add: demo_replace)
qed

section \<open>Properties\<close>

text \<open>
  C22. The ledger is well-formed after any sequence of operations: ids are unique, a session has at most
  one current goal, budgets are positive and usage is not negative, no objective and no criterion reads
  as a request to trade, and every claim, criterion, piece of evidence and audit belongs to a goal of
  its own session.
\<close>

theorem ledger_well_formed:
  "goals_ok (goal_run e evs empty_goal_db) \<and> refs_ok (goal_run e evs empty_goal_db)"
  using ledger_ok_run [OF ledger_ok_empty] by (simp add: ledger_ok_def)

text \<open>
  C23. After any sequence of operations every required criterion of a completed goal is satisfied, with
  verified evidence for it on file, or was accepted as not applicable.
\<close>

theorem completion_needs_evidence:
  "completed_backed (goal_run e evs empty_goal_db)"
  using ledger_ok_run [OF ledger_ok_empty] by (simp add: ledger_ok_def)

text \<open>
  A valid request with ids the ledger does not hold yet succeeds: the new goal is the current one of
  its session, its criteria are listed in the order of the request, and what was current is superseded.
\<close>

theorem new_goal_is_current:
  assumes "ledger_ok db" and "validate_request q = Inr (s, objective, criteria)"
    and "sql_opt_int (rq_token_budget q)" "sql_opt_int (rq_turn_budget q)" "sql_opt_int (rq_time_budget_seconds q)"
    and "row_ids_fresh u (length criteria) db"
  shows "fst (replace_goal now u q db) = Inr (new_goal now (goal_row_id ''goal'' (u 0)) s objective q) \<and>
    get_current_goal s (snd (replace_goal now u q db)) =
      Inr (Some (new_goal now (goal_row_id ''goal'' (u 0)) s objective q)) \<and>
    rbind (list_criteria (goal_row_id ''goal'' (u 0)) (snd (replace_goal now u q db)))
      (\<lambda>cs. Inr (map cr_text cs)) = Inr criteria \<and>
    (\<forall>g \<in> set (db_goals db). go_session_id g = s \<and> is_current g \<longrightarrow>
       supersede now g \<in> set (db_goals (snd (replace_goal now u q db))))"
proof -
  let ?gid = "goal_row_id ''goal'' (u 0)"
  let ?g = "new_goal now ?gid s objective q"
  let ?db = "replaced_db now u q s objective criteria db"
  have ok: "goals_ok db" "refs_ok db" using assms(1) by (simp_all add: ledger_ok_def)
  have r: "replace_goal now u q db = (Inr ?g, ?db)" by (rule replace_result [OF ok(1) assms(2-6)])
  have "goals_ok ?db" using ledger_ok_step [OF assms(1), of undefined "Replace now u q"] r
    by (simp add: ledger_ok_def)
  moreover have "?g \<in> set (db_goals ?db)" by (simp add: replaced_db_def)
  moreover have "is_current ?g" by (simp add: is_current_def current_statuses_def)
  moreover have "strip s = s" "s \<noteq> []" using validate_request_Inr(1,2) [OF assms(2)] by simp_all
  ultimately have "get_current_goal s ?db = Inr (Some ?g)" by (intro get_current_goal_eq) simp_all
  moreover have "filter (\<lambda>c. cr_goal_id c = ?gid) (db_criteria ?db) = new_criteria now u ?gid s 0 criteria"
  proof -
    have "cr_goal_id c \<noteq> ?gid" if "c \<in> set (db_criteria db)" for c
    proof -
      from that ok(2) obtain h where "h \<in> set (db_goals db)" "go_goal_id h = cr_goal_id c"
        by (auto simp: refs_ok_def goal_keys_def)
      moreover have "?gid \<notin> go_goal_id ` set (db_goals db)" using assms(6) unfolding row_ids_fresh_def by blast
      ultimately show ?thesis by (metis imageI)
    qed
    then show ?thesis by (auto simp: replaced_db_def filter_empty_conv filter_id_conv dest: new_criteria_all)
  qed
  moreover have "strip ?gid = ?gid" "?gid \<noteq> []"
    using assms(6) new_id_strip by (auto simp: row_ids_fresh_def upt_rec goal_row_id_def)
  ultimately show ?thesis
    using r by (auto simp: list_criteria_def normalize_required_text_def sorted_criteria new_criteria_texts replaced_db_def)
qed

theorem new_goal_is_current_witness:
  "get_current_goal ''s1'' demo_ledger = Inr (Some demo_goal)"
  using new_goal_is_current [OF ledger_ok_empty demo_request_valid, of "demo_hex CHR ''a''" "''t1''"]
    demo_replace demo_hex_fresh [of "CHR ''a''"]
  by (simp add: sql_opt_int_def sql_int_def is_space_def eval_nat_numeral demo_goal_def [symmetric])

text \<open>
  C25. Once a goal is not current any more, whatever happens later leaves its row, its claims, criteria,
  evidence and audits as they are, until its session is deleted.
\<close>

theorem closed_goals_are_frozen:
  assumes "g \<in> set (db_goals (goal_run e evs0 empty_goal_db))" and "\<not> is_current g"
    and "list_all (\<lambda>ev. \<not> deletes (go_session_id g) ev) evs"
  shows "goal_rows (goal_run e (evs0 @ evs) empty_goal_db) (go_goal_id g) =
    goal_rows (goal_run e evs0 empty_goal_db) (go_goal_id g)"
  using closed_goal_run [OF ledger_ok_run [OF ledger_ok_empty] assms] by (simp add: goal_run_def)

theorem closed_goals_are_frozen_witness:
  "goal_rows (goal_run undefined
     [Replace ''t1'' (demo_hex CHR ''a'') demo_request, Replace ''t2'' (demo_hex CHR ''b'') demo_request,
      Usage ''t3'' ''s1'' ''goal_a'' ''goal_a'' 7 0 0, Delete ''s2''] empty_goal_db) ''goal_a'' =
   goal_rows (goal_run undefined
     [Replace ''t1'' (demo_hex CHR ''a'') demo_request, Replace ''t2'' (demo_hex CHR ''b'') demo_request]
     empty_goal_db) ''goal_a''"
proof -
  let ?evs = "[Replace ''t1'' (demo_hex CHR ''a'') demo_request, Replace ''t2'' (demo_hex CHR ''b'') demo_request]"
  have "supersede ''t2'' demo_goal \<in> set (db_goals (goal_run undefined ?evs empty_goal_db))"
    unfolding demo_second by (simp add: replaced_db_def demo_goals)
  moreover have "\<not> is_current (supersede ''t2'' demo_goal)" by (simp add: is_current_def current_statuses_def)
  moreover have "list_all (\<lambda>ev. \<not> deletes (go_session_id (supersede ''t2'' demo_goal)) ev)
      [Usage ''t3'' ''s1'' ''goal_a'' ''goal_a'' 7 0 0, Delete ''s2'']"
    by (simp add: strip_def is_space_def)
  ultimately show ?thesis
    using closed_goals_are_frozen [of "supersede ''t2'' demo_goal" undefined ?evs
      "[Usage ''t3'' ''s1'' ''goal_a'' ''goal_a'' 7 0 0, Delete ''s2'']"] by (simp del: goal_run_simps)
qed

text \<open>
  C24. A write that does not name the current goal of its session, twice and by the same id, is refused
  with an exception and changes nothing: no edit, no evidence, no status and no usage.
\<close>

theorem stale_writes_rejected:
  assumes "\<not> (expected_gid = gid \<and>
    (\<exists>g \<in> set (db_goals db). is_current g \<and> go_goal_id g = strip gid \<and> go_session_id g = strip s))"
  shows "isl (fst (update_goal now s gid expected_gid objective ui db)) \<and>
    snd (update_goal now s gid expected_gid objective ui db) = db \<and>
    isl (fst (append_evidence e now u s gid expected_gid ei db)) \<and>
    snd (append_evidence e now u s gid expected_gid ei db) = db \<and>
    isl (fst (update_status now u s gid expected_gid st audit recap db)) \<and>
    snd (update_status now u s gid expected_gid st audit recap db) = db \<and>
    isl (fst (account_usage now s gid expected_gid a b c db)) \<and>
    snd (account_usage now s gid expected_gid a b c db) = db"
proof -
  obtain exc where m: "require_mutable_goal s gid expected_gid db = Inl exc"
  proof (cases "require_mutable_goal s gid expected_gid db")
    case (Inr g)
    from require_mutable_goal_Inr [OF Inr] require_mutable_goal_id [OF Inr] assms show ?thesis by blast
  qed
  have stop: "wbind (write_transaction (wbind (query (require_mutable_goal s gid expected_gid)) k)) f db = (Inl exc, db)"
    for k :: "goal_record \<Rightarrow> 'x goal_op" and f :: "'x \<Rightarrow> 'y goal_op"
    by (simp add: wbind_def write_transaction_def m)
  show ?thesis
    unfolding update_goal_def append_evidence_def append_body_def update_status_def status_body_def
      account_usage_def usage_body_def Let_def
    by (cases "min a (min b c) < 0") (simp_all add: stop)
qed

theorem stale_writes_rejected_witness:
  "snd (account_usage ''t2'' ''s2'' ''goal_a'' ''goal_a'' 7 0 0 demo_ledger) = demo_ledger \<and>
   isl (fst (update_status ''t2'' (demo_hex CHR ''c'') ''s1'' ''goal_b'' ''goal_b'' CANCELLED [] None demo_ledger))"
  using stale_writes_rejected [of "''goal_a''" "''goal_a''" demo_ledger "''s2''" "''t2''" None None undefined undefined
      undefined undefined undefined undefined 7 0 0]
    stale_writes_rejected [of "''goal_b''" "''goal_b''" demo_ledger "''s1''" "''t2''" None None undefined
      "demo_hex CHR ''c''" undefined CANCELLED "[]" None 7 0 0]
  by (simp add: demo_goals strip_def is_space_def)

text \<open>
  Usage counted on the current goal is added to what it has used, and the goal becomes limited by its
  budget exactly when one of its budgets is reached; otherwise its status stays.
\<close>

theorem usage_limits_goal:
  assumes "ledger_ok db" and "require_mutable_goal s gid expected_gid db = Inr g"
    and "0 \<le> tokens" "0 \<le> seconds" "0 \<le> turns"
    and "sql_int (go_tokens_used g + tokens)" "sql_int (go_time_used_seconds g + seconds)"
      "sql_int (go_turns_used g + turns)"
  shows "\<exists>h. fst (account_usage now s gid expected_gid tokens seconds turns db) = Inr h \<and>
    h \<in> set (db_goals (snd (account_usage now s gid expected_gid tokens seconds turns db))) \<and>
    go_goal_id h = go_goal_id g \<and> go_tokens_used h = go_tokens_used g + tokens \<and>
    go_time_used_seconds h = go_time_used_seconds g + seconds \<and> go_turns_used h = go_turns_used g + turns \<and>
    go_status h =
      (if crosses_budget g (go_tokens_used h) (go_time_used_seconds h) (go_turns_used h) then BUDGET_LIMITED
       else go_status g)"
proof -
  have "g \<in> set (db_goals db)" using require_mutable_goal_Inr [OF assms(2)] by simp
  then have "add_usage now tokens seconds turns g g \<in> set (db_goals (on_goal g (add_usage now tokens seconds turns g) db))"
    by (force simp: on_goal_def)
  then show ?thesis
    using assms by (subst (1 2) usage_result) (auto simp: ledger_ok_def add_usage_def Let_def)
qed

theorem usage_limits_goal_witness:
  "\<exists>h. fst (account_usage ''t2'' ''s1'' ''goal_a'' ''goal_a'' 100 5 1 demo_ledger) = Inr h \<and>
     go_tokens_used h = 100 \<and> go_status h = BUDGET_LIMITED"
proof -
  obtain h where "fst (account_usage ''t2'' ''s1'' ''goal_a'' ''goal_a'' 100 5 1 demo_ledger) = Inr h"
    "go_tokens_used h = 100" "go_time_used_seconds h = 5" "go_turns_used h = 1"
    "go_status h = (if crosses_budget demo_goal (go_tokens_used h) (go_time_used_seconds h) (go_turns_used h)
      then BUDGET_LIMITED else go_status demo_goal)"
    using usage_limits_goal [OF demo_ledger_ok demo_mutable, of 100 5 1 "''t2''"] by (auto simp: sql_int_def)
  then show ?thesis by (auto simp: crosses_budget_def)
qed

text \<open>
  Deleting a session always succeeds: the number of its goals is returned, no row of the session is
  left, and the goals of other sessions keep all their rows.
\<close>

theorem session_is_deleted:
  assumes "ledger_ok db" and "strip s \<noteq> []"
  shows "fst (delete_session_goals s db) = Inr (length (filter (\<lambda>g. go_session_id g = strip s) (db_goals db))) \<and>
    strip s \<notin> snd ` goal_keys (snd (delete_session_goals s db)) \<and>
    refs_ok (snd (delete_session_goals s db)) \<and>
    (\<forall>g \<in> set (db_goals db). go_session_id g \<noteq> strip s \<longrightarrow>
       goal_rows (snd (delete_session_goals s db)) (go_goal_id g) = goal_rows db (go_goal_id g))"
proof -
  have ok: "goals_ok db" "refs_ok db" "completed_backed db" using assms(1) by (simp_all add: ledger_ok_def)
  show ?thesis
    using delete_session_goals_ok [OF ok] pruned_rows [OF ok(1,2)]
    unfolding delete_result [OF ok(1,2) assms(2)] by (auto simp: goal_keys_pruned)
qed

theorem session_is_deleted_witness:
  "fst (delete_session_goals '' s1 '' demo_ledger) = Inr 1"
  using session_is_deleted [OF demo_ledger_ok, of "'' s1 ''"] by (simp add: demo_goals strip_def is_space_def)

text \<open>
  C26. Every path the sandbox hands out is a resolved path under one of the roots allowed for its use:
  imported documents and user files under the file roots, run directories and run ids under the run
  roots (a run id names an existing directory), and written files under the given roots or a run root.
  A document path is accepted exactly when it lies there.
\<close>

theorem sandbox_contains_paths:
  assumes "\<And>q. pw_resolve e (pw_resolve e q) = pw_resolve e q"
  shows "(safe_document_path e p = Inr r \<longleftrightarrow> rejects_unc p = Inr () \<and> r = import_candidate e p \<and>
      (\<exists>roots. allowed_file_roots e = Inr roots \<and> contained e roots r)) \<and>
    safe_user_path e p = safe_document_path e p \<and>
    (safe_run_dir e p = Inr r \<longrightarrow> (\<exists>roots. allowed_run_roots e = Inr roots \<and> contained e roots r)) \<and>
    (safe_run_id e p = Inr r \<longrightarrow>
      (\<exists>roots. allowed_run_roots e = Inr roots \<and> contained e roots r) \<and> pw_is_dir e r) \<and>
    (resolve_safe_path e p run_dir write_roots = Inr r \<longrightarrow> contained e write_roots r \<or>
      (\<exists>roots. allowed_run_roots e = Inr roots \<and> contained e roots r))"
  using safe_import_path_iff [of e p r] safe_run_dir_contained [of e p r] safe_run_id_contained [of e p r]
    resolve_safe_path_sandbox [OF assms, of p run_dir write_roots r]
  by (auto simp: safe_document_path_def safe_user_path_def)

text \<open>A file system without links, under the root directory.\<close>

definition demo_paths :: path_env where
  "demo_paths = \<lparr>pw_resolve = (\<lambda>p. p\<lparr>pa_absolute := True\<rparr>), pw_expanduser = (\<lambda>p. p),
     pw_cwd = path_of ''/w'', pw_home = path_of ''/h'', pw_agent_root = path_of ''/a'',
     pw_getenv = (\<lambda>v. []), pw_is_dir = (\<lambda>p. True)\<rparr>"

lemma demo_paths_simps [simp]:
  "pw_resolve demo_paths p = p\<lparr>pa_absolute := True\<rparr>" "pw_expanduser demo_paths p = p"
  "pw_cwd demo_paths = path_of ''/w''" "pw_agent_root demo_paths = path_of ''/a''"
  by (simp_all add: demo_paths_def)

lemma demo_roots:
  "allowed_file_roots demo_paths = Inr (map path_of [''/a/uploads'', ''/a/runs'', ''/w/uploads'', ''/w/data'',
     ''/h/.vibe-trading/uploads'', ''/h/.vibe-trading/imports''])"
  by (simp add: allowed_file_roots_def env_roots_def demo_paths_def path_of_def default_file_roots_def subdir_def
      strip_def Let_def)

theorem sandbox_contains_paths_witness:
  "safe_document_path demo_paths ''uploads/x'' = Inr (path_of ''/a/uploads/x'') \<and>
   \<not> (safe_document_path demo_paths ''x'' = Inr (path_of ''/w/x''))"
proof -
  have idem: "pw_resolve demo_paths (pw_resolve demo_paths q) = pw_resolve demo_paths q" for q
    by (simp add: demo_paths_def)
  have "path_of ''/a/uploads/x'' \<in> range (pw_resolve demo_paths)"
    by (rule image_eqI [where x = "path_of ''/a/uploads/x''"]) (simp_all add: path_of_def)
  then show ?thesis
    using sandbox_contains_paths [OF idem, of "''uploads/x''" "path_of ''/a/uploads/x''" None "[]"]
      sandbox_contains_paths [OF idem, of "''x''" "path_of ''/w/x''" None "[]"]
    by (simp add: contained_def demo_roots path_of_def rejects_unc_def import_candidate_def path_join_def
        is_relative_to_def)
qed

end
