(* ===== verification/Governance.thy ===== *)
theory Governance
  imports Py_Values "HOL-Library.AList"
begin

text \<open>
  The tool governance of the agent, \<open>governance/\<close>: how a tool is classified (\<open>discovery.py\<close>), how a call
  is judged by prioritised rules (\<open>policy_engine.py\<close>), the wrapper that enforces the judgement around the
  tool registry (\<open>runtime.py\<close>, \<open>agent/tools.py\<close>), its records (\<open>trace_adapter.py\<close>) and the redaction of
  parameters (\<open>decisions.py\<close>, \<open>reliability/redaction.py\<close>), and the call budgets (\<open>budget.py\<close>).

  The predicate of a rule may raise, which is \<open>None\<close>. Random ids and times of decisions are left out;
  the digest of the parameters and Python's \<open>repr\<close> come from outside.
\<close>

section \<open>Manifests\<close>

datatype tool_surface =
    CLI | LOCAL_API | REMOTE_API | MCP_STDIO | MCP_SSE | MCP_HTTP | SWARM | SCHEDULER
  | BACKTEST_SUBPROCESS | LIVE_CONNECTOR | CHANNEL_BOT

fun surface_value :: "tool_surface \<Rightarrow> string" where
  "surface_value CLI = ''cli''"
| "surface_value LOCAL_API = ''local_api''"
| "surface_value REMOTE_API = ''remote_api''"
| "surface_value MCP_STDIO = ''mcp_stdio''"
| "surface_value MCP_SSE = ''mcp_sse''"
| "surface_value MCP_HTTP = ''mcp_http''"
| "surface_value SWARM = ''swarm''"
| "surface_value SCHEDULER = ''scheduler''"
| "surface_value BACKTEST_SUBPROCESS = ''backtest_subprocess''"
| "surface_value LIVE_CONNECTOR = ''live_connector''"
| "surface_value CHANNEL_BOT = ''channel_bot''"

definition all_surfaces :: "tool_surface list" where
  "all_surfaces = [CLI, LOCAL_API, REMOTE_API, MCP_STDIO, MCP_SSE, MCP_HTTP, SWARM, SCHEDULER,
     BACKTEST_SUBPROCESS, LIVE_CONNECTOR, CHANNEL_BOT]"

datatype risk_level =
    R0_READ | R1_WRITE_LOCAL | R2_NETWORK | R3_TRADE_READ | R4_TRADE_WRITE | R5_SHELL | UNCLASSIFIED

datatype governance_mode = Off | Observe | Warn | Enforce

datatype policy_action = Allow | Warn_Only | Deny

record tool_manifest =
  mf_name :: string
  mf_surface :: tool_surface
  mf_readonly :: bool
  mf_repeatable :: bool
  mf_risk_level :: risk_level
  mf_requires_auth :: bool
  mf_requires_consent :: bool
  mf_allowed_modes :: "string list"
  mf_secret_access :: string
  mf_timeout_seconds :: int
  mf_side_effects :: "string list"
  mf_live_classification :: "string option"

section \<open>Configuration\<close>

definition get_governance_mode :: "string option \<Rightarrow> governance_mode \<Rightarrow> governance_mode" where
  "get_governance_mode env_value default_mode =
     (case env_value of
        None \<Rightarrow> default_mode
      | Some v \<Rightarrow>
          let v = lower (strip v) in
          if v = ''off'' then Off else if v = ''observe'' then Observe else if v = ''warn'' then Warn
          else if v = ''enforce'' then Enforce else default_mode)"

definition parse_surface :: "string option \<Rightarrow> tool_surface \<Rightarrow> tool_surface" where
  "parse_surface v default_surface =
     (case v of
        Some (c # cs) \<Rightarrow>
          (case find (\<lambda>s. surface_value s = c # cs) all_surfaces of Some s \<Rightarrow> s | None \<Rightarrow> default_surface)
      | _ \<Rightarrow> default_surface)"

section \<open>Classification\<close>

text \<open>What the classification reads of a tool object: its attributes, its class and its module.\<close>

record base_tool =
  bt_name :: string
  bt_class_name :: string
  bt_module :: string
  bt_description :: string
  bt_is_readonly :: bool
  bt_repeatable :: bool
  bt_timeout_seconds :: "int option"
  bt_live_classification :: "string option"

definition shell_tool_names :: "string list" where
  "shell_tool_names = [''bash'', ''background_run'']"

definition trade_write_terms :: "string list" where
  "trade_write_terms = [''place_order'', ''cancel_order'', ''modify_order'', ''submit_order'', ''flatten'',
     ''trade_write'', ''order_write'', ''select_connection'']"

definition trade_read_terms :: "string list" where
  "trade_read_terms = [''account'', ''balance'', ''broker'', ''connector'', ''order'', ''position'',
     ''portfolio'', ''trading'', ''history'', ''quote'', ''connection'']"

definition network_terms :: "string list" where
  "network_terms = [''market_data'', ''web_'', ''web.'', ''url'', ''news'', ''sec_'', ''sec.'', ''fred'',
     ''iwencai'', ''dragon_tiger'', ''northbound'', ''fund_flow'', ''financial_statements'',
     ''stock_profile'', ''research_reports'', ''macro'', ''media'', ''filing'', ''mcp_'']"

definition local_write_terms :: "string list" where
  "local_write_terms = [''write'', ''edit'', ''remember'', ''journal'', ''save'', ''create'', ''delete'', ''copy'']"

definition known_local_module_prefixes :: "string list" where
  "known_local_module_prefixes = [''src.tools.'', ''src.memory.'', ''src.goal.'', ''src.autopilot.'', ''src.live.'']"

definition contains_any :: "string \<Rightarrow> string list \<Rightarrow> bool" where
  "contains_any v terms = list_ex (contains v) terms"

definition starts_with_any :: "string \<Rightarrow> string list \<Rightarrow> bool" where
  "starts_with_any v ps = list_ex (\<lambda>p. take (length p) v = p) ps"

definition classify_risk :: "base_tool \<Rightarrow> risk_level" where
  "classify_risk t =
     (let name = lower (bt_name t); class_name = lower (bt_class_name t); module = lower (bt_module t);
          description = lower (bt_description t); readonly = bt_is_readonly t;
          combined = module @ ''.'' @ class_name @ ''.'' @ name @ ''.'' @ description
      in if name \<in> set shell_tool_names \<or> contains_any combined [''shell'', ''subprocess'', ''generated code'']
         then R5_SHELL
         else if contains_any combined trade_write_terms \<or> \<not> readonly \<and> contains module ''trading_connector''
         then R4_TRADE_WRITE
         else if contains_any combined trade_read_terms \<and>
                 contains_any combined [''trading'', ''broker'', ''connector''] then R3_TRADE_READ
         else if contains_any combined network_terms then R2_NETWORK
         else if \<not> readonly then
           (if starts_with_any module known_local_module_prefixes \<or> contains_any combined local_write_terms
            then R1_WRITE_LOCAL else UNCLASSIFIED)
         else if starts_with_any module known_local_module_prefixes then R0_READ
         else UNCLASSIFIED)"

definition looks_live_connector :: "base_tool \<Rightarrow> bool" where
  "looks_live_connector t =
     (let module = lower (bt_module t); name = lower (bt_name t)
      in contains module ''src.live.'' \<or> take 8 name = ''trading_'' \<or> contains (module @ ''.'' @ name) ''broker'')"

definition allowed_modes_for :: "risk_level \<Rightarrow> string list" where
  "allowed_modes_for risk =
     (if risk = R4_TRADE_WRITE then [''live'']
      else if risk = R3_TRADE_READ then [''research'', ''paper'', ''advisory'', ''live'']
      else [''research'', ''paper'', ''advisory''])"

definition secret_access_for :: "risk_level \<Rightarrow> string" where
  "secret_access_for risk =
     (if risk = R3_TRADE_READ \<or> risk = R4_TRADE_WRITE then ''broker''
      else if risk = R2_NETWORK then ''market_data_read'' else ''none'')"

definition side_effects_for :: "risk_level \<Rightarrow> bool \<Rightarrow> string list" where
  "side_effects_for risk readonly =
     (case risk of
        R5_SHELL \<Rightarrow> [''process_execution'']
      | R4_TRADE_WRITE \<Rightarrow> [''live_trade_write'']
      | R3_TRADE_READ \<Rightarrow> [''broker_read'']
      | R2_NETWORK \<Rightarrow> [''network'']
      | R1_WRITE_LOCAL \<Rightarrow> [''local_write'']
      | _ \<Rightarrow> if readonly then [] else [''unknown_write''])"

definition discover_tool_manifest :: "tool_surface \<Rightarrow> base_tool \<Rightarrow> tool_manifest" where
  "discover_tool_manifest surface t =
     (let risk = classify_risk t in
      \<lparr>mf_name = bt_name t, mf_surface = surface, mf_readonly = bt_is_readonly t,
       mf_repeatable = bt_repeatable t, mf_risk_level = risk,
       mf_requires_auth = (risk = R3_TRADE_READ \<or> risk = R4_TRADE_WRITE),
       mf_requires_consent = (risk = R4_TRADE_WRITE),
       mf_allowed_modes = allowed_modes_for risk, mf_secret_access = secret_access_for risk,
       mf_timeout_seconds = (case bt_timeout_seconds t of None \<Rightarrow> 30 | Some n \<Rightarrow> if n = 0 then 30 else n),
       mf_side_effects = side_effects_for risk (bt_is_readonly t),
       mf_live_classification =
         (case bt_live_classification t of
            Some c \<Rightarrow> Some c
          | None \<Rightarrow> if looks_live_connector t then Some (if bt_is_readonly t then ''READ'' else ''WRITE'')
                    else None)\<rparr>)"

text \<open>The cache holds no unclassified tool: such a tool counts as a local read or write.\<close>

definition cached_manifest :: "tool_surface \<Rightarrow> base_tool \<Rightarrow> tool_manifest" where
  "cached_manifest surface t =
     (let m = discover_tool_manifest surface t in
      if mf_risk_level m = UNCLASSIFIED
      then m\<lparr>mf_risk_level := (if mf_readonly m then R0_READ else R1_WRITE_LOCAL)\<rparr> else m)"

record manifest_cache =
  mc_surface :: tool_surface
  mc_manifests :: "(string \<times> tool_manifest) list"

definition cache_get :: "manifest_cache \<Rightarrow> string \<Rightarrow> tool_manifest" where
  "cache_get mc name =
     (case map_of (mc_manifests mc) name of
        Some m \<Rightarrow> m
      | None \<Rightarrow>
          \<lparr>mf_name = name, mf_surface = mc_surface mc, mf_readonly = False, mf_repeatable = False,
           mf_risk_level = UNCLASSIFIED, mf_requires_auth = False, mf_requires_consent = False,
           mf_allowed_modes = [''research''], mf_secret_access = ''none'', mf_timeout_seconds = 30,
           mf_side_effects = [''unknown''], mf_live_classification = None\<rparr>)"

definition cache_register :: "base_tool \<Rightarrow> manifest_cache \<Rightarrow> manifest_cache" where
  "cache_register t mc = mc\<lparr>mc_manifests :=
     AList.update (bt_name t) (cached_manifest (mc_surface mc) t) (mc_manifests mc)\<rparr>"

section \<open>The tool registry\<close>

text \<open>A registry maps names to tools; a tool runs on the world outside and returns a text or raises.\<close>

type_synonym 'w registry = "(string \<times> base_tool \<times> (pydict \<Rightarrow> 'w \<Rightarrow> (string + string) \<times> 'w)) list"

definition registry_get :: "'w registry \<Rightarrow> string \<Rightarrow> (base_tool \<times> (pydict \<Rightarrow> 'w \<Rightarrow> (string + string) \<times> 'w)) option" where
  "registry_get reg name = map_of reg name"

definition registry_register ::
    "base_tool \<times> (pydict \<Rightarrow> 'w \<Rightarrow> (string + string) \<times> 'w) \<Rightarrow> 'w registry \<Rightarrow> 'w registry" where
  "registry_register t reg = AList.update (bt_name (fst t)) t reg"

text \<open>The answers of the registry itself are JSON objects, given here by their fields.\<close>

datatype registry_answer = Answer string | Not_Found string | Failed_Tool string string

definition registry_execute :: "'w registry \<Rightarrow> string \<Rightarrow> pydict \<Rightarrow> 'w \<Rightarrow> registry_answer \<times> 'w" where
  "registry_execute reg name params w =
     (case registry_get reg name of
        None \<Rightarrow> (Not_Found name, w)
      | Some (t, run) \<Rightarrow>
          (case run params w of
             (Inr answer, w) \<Rightarrow> (Answer answer, w)
           | (Inl exc, w) \<Rightarrow> (Failed_Tool name exc, w)))"

text \<open>\<open>_filter_registry\<close> of \<open>tools/__init__.py\<close>.\<close>

fun filter_registry :: "'w registry \<Rightarrow> string list \<Rightarrow> 'w registry \<Rightarrow> 'w registry" where
  "filter_registry full [] acc = acc"
| "filter_registry full (name # names) acc =
     filter_registry full names
       (case registry_get full name of Some t \<Rightarrow> registry_register t acc | None \<Rightarrow> acc)"

fun cache_from :: "'w registry \<Rightarrow> (string \<times> base_tool \<times> (pydict \<Rightarrow> 'w \<Rightarrow> (string + string) \<times> 'w)) list \<Rightarrow>
    tool_surface \<Rightarrow> (string \<times> tool_manifest) list \<Rightarrow> (string \<times> tool_manifest) list" where
  "cache_from reg [] surface acc = acc"
| "cache_from reg ((name, _) # entries) surface acc =
     cache_from reg entries surface
       (case registry_get reg name of
          Some (t, _) \<Rightarrow> AList.update name (cached_manifest surface t) acc
        | None \<Rightarrow> acc)"

definition cache_from_registry :: "'w registry \<Rightarrow> tool_surface \<Rightarrow> manifest_cache" where
  "cache_from_registry reg surface = \<lparr>mc_surface = surface, mc_manifests = cache_from reg reg surface []\<rparr>"

end
