(* ===== verification/Policy_Engine.thy ===== *)
theory Policy_Engine
  imports Governance
begin

text \<open>
  The judgement of a tool call (\<open>governance/policy_engine.py\<close>, \<open>governance/decisions.py\<close>), the redaction
  of its parameters (\<open>reliability/redaction.py\<close>), the wrapper that enforces it
  (\<open>governance/runtime.py\<close>, \<open>governance/trace_adapter.py\<close>), and the call budgets (\<open>governance/budget.py\<close>).
\<close>

section \<open>Redaction\<close>

definition secret_key_fragments :: "string list" where
  "secret_key_fragments = [''secret'', ''token'', ''api_key'', ''apikey'', ''password'', ''credential'',
     ''broker'', ''authorization'', ''cookie'', ''session'', ''private_key'', ''refresh_token'', ''access_token'']"

definition key_is_secret_like :: "string \<Rightarrow> bool" where
  "key_is_secret_like key = list_ex (contains (lower key)) secret_key_fragments"

definition token_char :: "char \<Rightarrow> bool" where
  "token_char c \<longleftrightarrow> is_alnum c \<or> c \<in> set ''_-''"

text \<open>\<open>bearer\<close>, blanks, and at least sixteen characters of a token, between blanks.\<close>

definition bearer_like :: "string \<Rightarrow> bool" where
  "bearer_like v =
     (let t = strip v; r = drop 6 t; u = dropWhile is_space r
      in take 6 (lower t) = ''bearer'' \<and> r \<noteq> [] \<and> is_space (hd r) \<and> 16 \<le> length u \<and>
         list_all (\<lambda>c. token_char c \<or> c \<in> set ''.~+/='') u)"

definition key_prefix_like :: "string \<Rightarrow> bool" where
  "key_prefix_like v =
     (let t = strip v in
      list_ex (\<lambda>p. take (Suc (length p)) (lower t) = p @ ''-'' \<and>
                   20 \<le> length (drop (Suc (length p)) t) \<and> list_all token_char (drop (Suc (length p)) t))
        [''sk'', ''rk'', ''pk'', ''ghp'', ''gho'', ''ghu'', ''github_pat''])"

text \<open>One line feed may end the text.\<close>

definition long_random_like :: "string \<Rightarrow> bool" where
  "long_random_like v =
     (let t = (if v \<noteq> [] \<and> last v = CHR 0x0A then butlast v else v)
      in 40 \<le> length t \<and> list_all (\<lambda>c. token_char c \<or> c \<in> set ''+/='') t \<and>
         list_ex (\<lambda>c. is_alnum c \<and> \<not> is_digit c \<and> lower_char c \<noteq> c) t \<and>
         list_ex (\<lambda>c. is_alnum c \<and> \<not> is_digit c \<and> upper_char c \<noteq> c) t \<and> list_ex is_digit t)"

definition value_is_secret_like :: "string \<Rightarrow> bool" where
  "value_is_secret_like v \<longleftrightarrow> bearer_like v \<or> key_prefix_like v \<or> long_random_like v"

definition redacted_mark :: string where
  "redacted_mark = ''[REDACTED]''"

fun redact_secrets :: "pyval \<Rightarrow> pyval" where
  "redact_secrets (VDict d) = VDict (map (\<lambda>(k, v). (k, if key_is_secret_like k then VStr redacted_mark
                                                       else redact_secrets v)) d)"
| "redact_secrets (VList l) = VList (map redact_secrets l)"
| "redact_secrets (VStr s) = (if value_is_secret_like s then VStr redacted_mark else VStr s)"
| "redact_secrets v = v"

section \<open>Decisions\<close>

record gov_env =
  gv_repr :: "pyval \<Rightarrow> string"
  gv_digest :: "pyval \<Rightarrow> string"

text \<open>The preview stops at depth 6, at fifty entries and at texts that are not JSON values.\<close>

function json_safe :: "gov_env \<Rightarrow> nat \<Rightarrow> pyval \<Rightarrow> pyval" where
  "json_safe e depth v =
     (if 6 < depth then VStr (take 120 (gv_repr e v))
      else case v of
        VDict d \<Rightarrow> VDict (map (\<lambda>(k, x). (k, json_safe e (Suc depth) x)) (take 50 d))
      | VList l \<Rightarrow> VList (map (json_safe e (Suc depth)) (take 50 l))
      | _ \<Rightarrow> v)"
  by pat_completeness auto

termination by (relation "measure (\<lambda>(e, depth, v). 7 - depth)") auto

declare json_safe.simps [simp del]

record param_audit =
  pa_params_hash :: string
  pa_preview :: pydict

definition build_param_audit :: "gov_env \<Rightarrow> pydict \<Rightarrow> param_audit" where
  "build_param_audit e params =
     (case json_safe e 0 (redact_secrets (VDict params)) of
        VDict preview \<Rightarrow> \<lparr>pa_params_hash = gv_digest e (VDict preview), pa_preview = preview\<rparr>
      | v \<Rightarrow> \<lparr>pa_params_hash = gv_digest e (VDict [(''value'', v)]), pa_preview = [(''value'', v)]\<rparr>)"

record runtime_context =
  rx_surface :: tool_surface
  rx_mode :: governance_mode
  rx_user_auth_state :: pydict
  rx_live_state :: pydict
  rx_budget_state :: pydict

record policy_decision =
  pd_tool_name :: string
  pd_action :: policy_action
  pd_mode :: governance_mode
  pd_reasons :: "string list"
  pd_required_checks :: "string list"
  pd_rule_id :: string
  pd_params_hash :: string
  pd_params_preview :: pydict

section \<open>Rules\<close>

datatype rule_action = Rule_Allow | Rule_Warn | Rule_Deny | Allow_If_All

type_synonym rule_predicate = "string \<Rightarrow> pydict \<Rightarrow> tool_manifest \<Rightarrow> runtime_context \<Rightarrow> bool option"

record policy_rule =
  pr_priority :: int
  pr_rule_id :: string
  pr_description :: string
  pr_action :: rule_action
  pr_surfaces :: "tool_surface list option"
  pr_risk_levels :: "risk_level list option"
  pr_tool_names :: "string list option"
  pr_predicate :: "rule_predicate option"
  pr_required_checks :: "string list"

definition excluded :: "'a \<Rightarrow> 'a list option \<Rightarrow> bool" where
  "excluded x allowed = (case allowed of None \<Rightarrow> False | Some xs \<Rightarrow> x \<notin> set xs)"

definition rule_matches ::
    "policy_rule \<Rightarrow> string \<Rightarrow> pydict \<Rightarrow> tool_manifest \<Rightarrow> runtime_context \<Rightarrow> bool option" where
  "rule_matches r name params m ctx =
     (if excluded (rx_surface ctx) (pr_surfaces r) then Some False
      else if excluded (mf_risk_level m) (pr_risk_levels r) then Some False
      else if excluded name (pr_tool_names r) then Some False
      else case pr_predicate r of
        Some predicate \<Rightarrow> predicate name params m ctx
      | None \<Rightarrow> Some True)"

text \<open>The first matching rule; an exception of a predicate ends the search.\<close>

datatype rule_search = No_Match | Matched policy_rule | Raised

fun first_match ::
    "policy_rule list \<Rightarrow> string \<Rightarrow> pydict \<Rightarrow> tool_manifest \<Rightarrow> runtime_context \<Rightarrow> rule_search" where
  "first_match [] name params m ctx = No_Match"
| "first_match (r # rs) name params m ctx =
     (case rule_matches r name params m ctx of
        None \<Rightarrow> Raised
      | Some True \<Rightarrow> Matched r
      | Some False \<Rightarrow> first_match rs name params m ctx)"

definition check_state :: "runtime_context \<Rightarrow> string \<Rightarrow> bool" where
  "check_state ctx check =
     (case map_of (rx_live_state ctx) check of Some v \<Rightarrow> val_truthy v | None \<Rightarrow>
      case map_of (rx_user_auth_state ctx) check of Some v \<Rightarrow> val_truthy v | None \<Rightarrow>
      case map_of (rx_budget_state ctx) check of Some v \<Rightarrow> val_truthy v | None \<Rightarrow> False)"

definition must_fail_closed :: "tool_manifest \<Rightarrow> tool_surface \<Rightarrow> bool" where
  "must_fail_closed m surface \<longleftrightarrow> mf_risk_level m \<in> {R4_TRADE_WRITE, R5_SHELL} \<or>
     surface \<in> {REMOTE_API, MCP_SSE, MCP_HTTP, SWARM, SCHEDULER, LIVE_CONNECTOR, CHANNEL_BOT}"

definition make_decision ::
    "string \<Rightarrow> policy_action \<Rightarrow> runtime_context \<Rightarrow> string \<Rightarrow> string list \<Rightarrow> string list \<Rightarrow> param_audit \<Rightarrow>
     policy_decision" where
  "make_decision name action ctx rule_id reasons checks audit =
     \<lparr>pd_tool_name = name, pd_action = action, pd_mode = rx_mode ctx, pd_reasons = reasons,
      pd_required_checks = checks, pd_rule_id = rule_id, pd_params_hash = pa_params_hash audit,
      pd_params_preview = pa_preview audit\<rparr>"

fun plain_action :: "rule_action \<Rightarrow> policy_action" where
  "plain_action Rule_Allow = Allow"
| "plain_action Rule_Warn = Warn_Only"
| "plain_action _ = Deny"

fun comma_separated :: "string list \<Rightarrow> string" where
  "comma_separated [] = []"
| "comma_separated [x] = x"
| "comma_separated (x # xs) = x @ '', '' @ comma_separated xs"

definition decision_for_rule ::
    "policy_rule \<Rightarrow> string \<Rightarrow> runtime_context \<Rightarrow> param_audit \<Rightarrow> policy_decision" where
  "decision_for_rule r name ctx audit =
     (if pr_action r = Allow_If_All then
        (let missing = filter (\<lambda>check. \<not> check_state ctx check) (pr_required_checks r) in
         if missing \<noteq> []
         then make_decision name Deny ctx (pr_rule_id r)
                [pr_description r @ ''; missing required checks: '' @ comma_separated missing]
                (pr_required_checks r) audit
         else make_decision name Allow ctx (pr_rule_id r) [pr_description r] (pr_required_checks r) audit)
      else make_decision name
             (if pr_rule_id r = ''P900'' then (if rx_mode ctx = Enforce then Deny else Warn_Only)
              else plain_action (pr_action r))
             ctx (pr_rule_id r) [pr_description r] (pr_required_checks r) audit)"

definition evaluate ::
    "gov_env \<Rightarrow> policy_rule list \<Rightarrow> string \<Rightarrow> pydict \<Rightarrow> tool_manifest \<Rightarrow> runtime_context \<Rightarrow> policy_decision" where
  "evaluate e rules name params m ctx =
     (let audit = build_param_audit e params in
      case first_match (sort_key pr_priority rules) name params m ctx of
        Matched r \<Rightarrow> decision_for_rule r name ctx audit
      | No_Match \<Rightarrow> make_decision name Deny ctx ''no_match''
          [''No governance policy rule matched; fail-safe deny''] [] audit
      | Raised \<Rightarrow> make_decision name (if must_fail_closed m (rx_surface ctx) then Deny else Warn_Only) ctx
          ''policy_exception'' [''PolicyEngine exception handled fail-safe''] [] audit)"

definition live_write_checks :: "string list" where
  "live_write_checks = [''mandate_active'', ''kill_switch_clear'', ''explicit_user_consent'',
     ''live_order_guard'', ''connector_profile_selected'']"

definition rule :: "int \<Rightarrow> string \<Rightarrow> string \<Rightarrow> rule_action \<Rightarrow> policy_rule" where
  "rule priority rule_id description action =
     \<lparr>pr_priority = priority, pr_rule_id = rule_id, pr_description = description, pr_action = action,
      pr_surfaces = None, pr_risk_levels = None, pr_tool_names = None, pr_predicate = None,
      pr_required_checks = []\<rparr>"

definition p10_rule :: policy_rule where
  "p10_rule = (rule 10 ''P10'' ''UNKNOWN live connector tool is fail-closed'' Rule_Deny)
        \<lparr>pr_surfaces := Some [LIVE_CONNECTOR],
         pr_predicate := Some (\<lambda>name params m ctx. Some (mf_live_classification m = Some ''UNKNOWN''))\<rparr>"

definition p20_rule :: policy_rule where
  "p20_rule = (rule 20 ''P20''
         ''Remote API, MCP SSE/HTTP, and channel bots cannot execute shell tools by default'' Rule_Deny)
        \<lparr>pr_surfaces := Some [REMOTE_API, MCP_SSE, MCP_HTTP, CHANNEL_BOT], pr_risk_levels := Some [R5_SHELL]\<rparr>"

definition p30_rule :: policy_rule where
  "p30_rule = (rule 30 ''P30'' ''Scheduler cannot execute live write or shell tools by default'' Rule_Deny)
        \<lparr>pr_surfaces := Some [SCHEDULER], pr_risk_levels := Some [R4_TRADE_WRITE, R5_SHELL]\<rparr>"

definition p35_rule :: policy_rule where
  "p35_rule = (rule 35 ''P35'' ''Swarm workers cannot receive external MCP URLs from prompt input'' Rule_Deny)
        \<lparr>pr_surfaces := Some [SWARM],
         pr_predicate := Some (\<lambda>name params m ctx. Some (val_truthy (dget params ''external_mcp_url_from_prompt'')))\<rparr>"

definition p40_rule :: policy_rule where
  "p40_rule = (rule 40 ''P40''
         ''Live trade writes require mandate, clear kill switch, explicit consent, live guard, and connector profile''
         Allow_If_All)
        \<lparr>pr_risk_levels := Some [R4_TRADE_WRITE], pr_required_checks := live_write_checks\<rparr>"

definition p50_rule :: policy_rule where
  "p50_rule = (rule 50 ''P50'' ''Explicit local market data requests cannot silently fall back to network'' Rule_Deny)
        \<lparr>pr_tool_names := Some [''get_market_data''],
         pr_predicate := Some (\<lambda>name params m ctx. Some (val_truthy (dget params ''explicit_local'') \<and>
           val_truthy (dget params ''fallback_to_network'')))\<rparr>"

definition p100_rule :: policy_rule where
  "p100_rule = (rule 100 ''P100'' ''Read-only MCP stdio R0 tool allowed by default'' Rule_Allow)
        \<lparr>pr_surfaces := Some [MCP_STDIO], pr_risk_levels := Some [R0_READ],
         pr_predicate := Some (\<lambda>name params m ctx. Some (mf_readonly m))\<rparr>"

definition p900_rule :: policy_rule where
  "p900_rule = (rule 900 ''P900'' ''Unclassified tools require observation/manual review before enforcement'' Rule_Warn)
        \<lparr>pr_risk_levels := Some [UNCLASSIFIED]\<rparr>"

definition p999_rule :: policy_rule where
  "p999_rule = rule 999 ''P999'' ''No matching governance rule; fail-safe deny'' Rule_Deny"

definition builtin_rules :: "policy_rule list" where
  "builtin_rules = [p10_rule, p20_rule, p30_rule, p35_rule, p40_rule, p50_rule, p100_rule, p900_rule, p999_rule]"

section \<open>Records\<close>

datatype gov_record =
    Decision_Record policy_decision
  | Denied_Record string bool policy_decision

text \<open>The recorder keeps the decisions and all records, and passes each record on to a trace if it has one.\<close>

record recorder =
  rc_trace :: "gov_record list option"
  rc_decisions :: "policy_decision list"
  rc_records :: "gov_record list"

definition emit_record :: "gov_record \<Rightarrow> recorder \<Rightarrow> recorder" where
  "emit_record g rc = rc\<lparr>rc_records := rc_records rc @ [g], rc_trace := map_option (\<lambda>t. t @ [g]) (rc_trace rc)\<rparr>"

definition record_decision :: "policy_decision \<Rightarrow> recorder \<Rightarrow> recorder" where
  "record_decision d rc = emit_record (Decision_Record d) (rc\<lparr>rc_decisions := rc_decisions rc @ [d]\<rparr>)"

definition record_denied :: "policy_decision \<Rightarrow> string \<Rightarrow> bool \<Rightarrow> recorder \<Rightarrow> recorder" where
  "record_denied d trace_status shadow rc = emit_record (Denied_Record trace_status shadow d) rc"

section \<open>The governed registry\<close>

datatype policy_denied = Policy_Denied policy_decision bool

record 'w governed =
  gr_inner :: "'w registry"
  gr_cache :: manifest_cache
  gr_policy :: "string \<Rightarrow> pydict \<Rightarrow> tool_manifest \<Rightarrow> runtime_context \<Rightarrow> policy_decision option"
  gr_context :: runtime_context

definition high_risk_deny :: "risk_level list" where
  "high_risk_deny = [R4_TRADE_WRITE, R5_SHELL]"

definition exception_decision :: "gov_env \<Rightarrow> string \<Rightarrow> pydict \<Rightarrow> tool_manifest \<Rightarrow> runtime_context \<Rightarrow> policy_decision" where
  "exception_decision e name params m ctx =
     make_decision name (if must_fail_closed m (rx_surface ctx) then Deny else Warn_Only) ctx ''policy_exception''
       [''Policy evaluation failed fail-safe''] [] (build_param_audit e params)"

definition governed_execute ::
    "gov_env \<Rightarrow> 'w governed \<Rightarrow> string \<Rightarrow> pydict \<Rightarrow> recorder \<times> 'w \<Rightarrow>
     (policy_denied + registry_answer) \<times> recorder \<times> 'w" where
  "governed_execute e gr name params st =
     (let run = (\<lambda>(rc, w). let (answer, w) = registry_execute (gr_inner gr) name params w in (Inr answer, rc, w));
          ctx = gr_context gr in
      if rx_mode ctx = Off then run st
      else
        let m = cache_get (gr_cache gr) name;
            d = (case gr_policy gr name params m ctx of
                   Some d \<Rightarrow> d | None \<Rightarrow> exception_decision e name params m ctx);
            (rc, w) = st;
            rc = record_decision d rc
        in if pd_action d = Deny \<and> rx_mode ctx = Enforce
           then (Inl (Policy_Denied d False), record_denied d ''denied'' False rc, w)
           else if pd_action d = Deny \<and> mf_risk_level m \<in> set high_risk_deny
           then (Inl (Policy_Denied d True), record_denied d ''skipped'' True rc, w)
           else run (rc, w))"

definition default_policy ::
    "gov_env \<Rightarrow> string \<Rightarrow> pydict \<Rightarrow> tool_manifest \<Rightarrow> runtime_context \<Rightarrow> policy_decision option" where
  "default_policy e name params m ctx = Some (evaluate e builtin_rules name params m ctx)"

definition govern_registry ::
    "gov_env \<Rightarrow> 'w registry \<Rightarrow> tool_surface \<Rightarrow> runtime_context \<Rightarrow> 'w governed" where
  "govern_registry e reg surface ctx =
     \<lparr>gr_inner = reg, gr_cache = cache_from_registry reg surface, gr_policy = default_policy e, gr_context = ctx\<rparr>"

definition governed_register ::
    "base_tool \<times> (pydict \<Rightarrow> 'w \<Rightarrow> (string + string) \<times> 'w) \<Rightarrow> 'w governed \<Rightarrow> 'w governed" where
  "governed_register t gr =
     gr\<lparr>gr_inner := registry_register t (gr_inner gr), gr_cache := cache_register (fst t) (gr_cache gr)\<rparr>"

text \<open>\<open>build_swarm_registry\<close>: the whitelisted tools of a worker, governed on the swarm surface.\<close>

definition build_swarm_registry ::
    "gov_env \<Rightarrow> governance_mode \<Rightarrow> 'w registry \<Rightarrow> string list \<Rightarrow> 'w governed" where
  "build_swarm_registry e mode full tool_names =
     govern_registry e (filter_registry full tool_names []) SWARM
       \<lparr>rx_surface = SWARM, rx_mode = mode, rx_user_auth_state = [], rx_live_state = [], rx_budget_state = []\<rparr>"

end
