(* ===== verification/Governance_Properties.thy ===== *)
theory Governance_Properties
  imports Policy_Engine
begin

text \<open>The properties of the tool governance.\<close>

section \<open>First match\<close>




lemma decision_simps [simp]:
  "pd_action (make_decision name a ctx rid rs cs audit) = a"
  "pd_tool_name (make_decision name a ctx rid rs cs audit) = name"
  "pd_params_hash (make_decision name a ctx rid rs cs audit) = pa_params_hash audit"
  "pd_params_preview (make_decision name a ctx rid rs cs audit) = pa_preview audit"
  by (simp_all add: make_decision_def)

lemma decision_for_rule_simps [simp]:
  "pd_tool_name (decision_for_rule r name ctx audit) = name"
  "pd_params_hash (decision_for_rule r name ctx audit) = pa_params_hash audit"
  "pd_params_preview (decision_for_rule r name ctx audit) = pa_preview audit"
  by (simp_all add: decision_for_rule_def Let_def)

lemma evaluate_simps [simp]:
  "pd_tool_name (evaluate e rules name params m ctx) = name"
  "pd_params_hash (evaluate e rules name params m ctx) = pa_params_hash (build_param_audit e params)"
  "pd_params_preview (evaluate e rules name params m ctx) = pa_preview (build_param_audit e params)"
  by (simp_all add: evaluate_def Let_def split: rule_search.splits)

section \<open>The built-in rules\<close>

text \<open>The action of the first built-in rule that applies, written as a chain of conditions.\<close>

definition external_url :: "pydict \<Rightarrow> bool" where
  "external_url params = val_truthy (dget params ''external_mcp_url_from_prompt'')"

definition local_fallback :: "string \<Rightarrow> pydict \<Rightarrow> bool" where
  "local_fallback name params \<longleftrightarrow> name = ''get_market_data'' \<and>
     val_truthy (dget params ''explicit_local'') \<and> val_truthy (dget params ''fallback_to_network'')"

definition builtin_verdict :: "string \<Rightarrow> pydict \<Rightarrow> tool_manifest \<Rightarrow> runtime_context \<Rightarrow> policy_action" where
  "builtin_verdict name params m ctx =
     (if rx_surface ctx = LIVE_CONNECTOR \<and> mf_live_classification m = Some ''UNKNOWN'' then Deny
      else if rx_surface ctx \<in> {REMOTE_API, MCP_SSE, MCP_HTTP, CHANNEL_BOT} \<and> mf_risk_level m = R5_SHELL then Deny
      else if rx_surface ctx = SCHEDULER \<and> mf_risk_level m \<in> {R4_TRADE_WRITE, R5_SHELL} then Deny
      else if rx_surface ctx = SWARM \<and> external_url params then Deny
      else if mf_risk_level m = R4_TRADE_WRITE
      then (if list_all (check_state ctx) live_write_checks then Allow else Deny)
      else if local_fallback name params then Deny
      else if rx_surface ctx = MCP_STDIO \<and> mf_risk_level m = R0_READ \<and> mf_readonly m then Allow
      else if mf_risk_level m = UNCLASSIFIED then (if rx_mode ctx = Enforce then Deny else Warn_Only)
      else Deny)"

lemmas builtin_rule_defs = p10_rule_def p20_rule_def p30_rule_def p35_rule_def p40_rule_def p50_rule_def
  p100_rule_def p900_rule_def p999_rule_def

lemma builtin_rules_sorted: "sort_key pr_priority builtin_rules = builtin_rules"
  by (simp add: builtin_rules_def builtin_rule_defs rule_def)

lemma builtin_matches [simp]:
  "rule_matches p10_rule name params m ctx =
     Some (rx_surface ctx = LIVE_CONNECTOR \<and> mf_live_classification m = Some ''UNKNOWN'')"
  "rule_matches p20_rule name params m ctx =
     Some (rx_surface ctx \<in> {REMOTE_API, MCP_SSE, MCP_HTTP, CHANNEL_BOT} \<and> mf_risk_level m = R5_SHELL)"
  "rule_matches p30_rule name params m ctx =
     Some (rx_surface ctx = SCHEDULER \<and> mf_risk_level m \<in> {R4_TRADE_WRITE, R5_SHELL})"
  "rule_matches p35_rule name params m ctx = Some (rx_surface ctx = SWARM \<and> external_url params)"
  "rule_matches p40_rule name params m ctx = Some (mf_risk_level m = R4_TRADE_WRITE)"
  "rule_matches p50_rule name params m ctx = Some (local_fallback name params)"
  "rule_matches p100_rule name params m ctx =
     Some (rx_surface ctx = MCP_STDIO \<and> mf_risk_level m = R0_READ \<and> mf_readonly m)"
  "rule_matches p900_rule name params m ctx = Some (mf_risk_level m = UNCLASSIFIED)"
  "rule_matches p999_rule name params m ctx = Some True"
  by (simp_all add: rule_matches_def builtin_rule_defs rule_def excluded_def external_url_def local_fallback_def)

lemma missing_checks: "filter (\<lambda>c. \<not> P c) cs \<noteq> [] \<longleftrightarrow> \<not> list_all P cs"
  by (induction cs) auto

lemma builtin_actions [simp]:
  "pd_action (decision_for_rule p10_rule name ctx audit) = Deny"
  "pd_action (decision_for_rule p20_rule name ctx audit) = Deny"
  "pd_action (decision_for_rule p30_rule name ctx audit) = Deny"
  "pd_action (decision_for_rule p35_rule name ctx audit) = Deny"
  "pd_action (decision_for_rule p40_rule name ctx audit) =
     (if list_all (check_state ctx) live_write_checks then Allow else Deny)"
  "pd_action (decision_for_rule p50_rule name ctx audit) = Deny"
  "pd_action (decision_for_rule p100_rule name ctx audit) = Allow"
  "pd_action (decision_for_rule p900_rule name ctx audit) = (if rx_mode ctx = Enforce then Deny else Warn_Only)"
  "pd_action (decision_for_rule p999_rule name ctx audit) = Deny"
  by (simp_all add: decision_for_rule_def builtin_rule_defs rule_def missing_checks Let_def)

lemma first_match_if:
  "rule_matches r name params m ctx = Some b \<Longrightarrow>
     first_match (r # rs) name params m ctx = (if b then Matched r else first_match rs name params m ctx)"
  by (simp split: bool.splits)

definition search_action ::
    "string \<Rightarrow> tool_manifest \<Rightarrow> runtime_context \<Rightarrow> param_audit \<Rightarrow> rule_search \<Rightarrow> policy_action" where
  "search_action name m ctx audit found =
     (case found of
        Matched r \<Rightarrow> pd_action (decision_for_rule r name ctx audit)
      | No_Match \<Rightarrow> Deny
      | Raised \<Rightarrow> if must_fail_closed m (rx_surface ctx) then Deny else Warn_Only)"

lemma search_action_if [simp]:
  "search_action name m ctx audit (Matched r) = pd_action (decision_for_rule r name ctx audit)"
  "search_action name m ctx audit (if b then x else y) =
     (if b then search_action name m ctx audit x else search_action name m ctx audit y)"
  by (simp_all add: search_action_def)

lemma evaluate_action:
  "pd_action (evaluate e rules name params m ctx) =
     search_action name m ctx (build_param_audit e params) (first_match (sort_key pr_priority rules) name params m ctx)"
  by (simp add: evaluate_def search_action_def Let_def split: rule_search.splits)

lemma evaluate_builtin: "pd_action (evaluate e builtin_rules name params m ctx) = builtin_verdict name params m ctx"
  unfolding evaluate_action builtin_rules_sorted
  unfolding builtin_rules_def builtin_verdict_def
  by (simp only: first_match_if [OF builtin_matches(1)] first_match_if [OF builtin_matches(2)]
      first_match_if [OF builtin_matches(3)] first_match_if [OF builtin_matches(4)]
      first_match_if [OF builtin_matches(5)] first_match_if [OF builtin_matches(6)]
      first_match_if [OF builtin_matches(7)] first_match_if [OF builtin_matches(8)]
      first_match_if [OF builtin_matches(9)] search_action_if builtin_actions if_True)

section \<open>Calls\<close>

lemma map_of_update: "map_of (AList.update k v al) = (map_of al)(k \<mapsto> v)"
  by (rule update_conv')

lemma cache_from_get:
  "map_of (cache_from reg entries surface acc) name =
     (if name \<in> fst ` set entries \<and> registry_get reg name \<noteq> None
      then Some (cached_manifest surface (fst (the (registry_get reg name)))) else map_of acc name)"
proof (induction entries arbitrary: acc)
  case (Cons x entries)
  obtain n t where x: "x = (n, t)" by (cases x)
  show ?case
    by (cases "registry_get reg n") (auto simp: x Cons.IH map_of_update split: prod.splits)
qed simp

text \<open>The manifest of a registered tool is its classification; any other name is unclassified.\<close>

lemma cache_get_registry:
  "registry_get reg name = Some (t, run) \<Longrightarrow>
     cache_get (cache_from_registry reg surface) name = cached_manifest surface t"
  "registry_get reg name = None \<Longrightarrow>
     mf_risk_level (cache_get (cache_from_registry reg surface) name) = UNCLASSIFIED"
  by (auto simp: cache_get_def cache_from_registry_def cache_from_get registry_get_def
      dest: map_of_SomeD intro: rev_image_eqI split: option.splits)

lemma cached_manifest_simps [simp]:
  "mf_risk_level (cached_manifest surface t) =
     (if classify_risk t = UNCLASSIFIED then (if bt_is_readonly t then R0_READ else R1_WRITE_LOCAL)
      else classify_risk t)"
  "mf_readonly (cached_manifest surface t) = bt_is_readonly t"
  "mf_live_classification (cached_manifest surface t) = mf_live_classification (discover_tool_manifest surface t)"
  by (simp_all add: cached_manifest_def discover_tool_manifest_def Let_def)

lemma filter_registry_get:
  "(\<And>n x. registry_get full n = Some x \<Longrightarrow> bt_name (fst x) = n) \<Longrightarrow>
   registry_get (filter_registry full names acc) name =
     (if name \<in> set names \<and> registry_get full name \<noteq> None then registry_get full name
      else registry_get acc name)"
proof (induction names arbitrary: acc)
  case (Cons n names)
  show ?case
  proof (cases "registry_get full n")
    case None
    with Cons show ?thesis by auto
  next
    case (Some x)
    then have "bt_name (fst x) = n" by (rule Cons.prems)
    moreover obtain t run where "x = (t, run)" by (cases x)
    ultimately show ?thesis using Some Cons by (auto simp: registry_get_def registry_register_def map_of_update)
  qed
qed simp

text \<open>Which calls a governed registry with the built-in rules lets through.\<close>

definition live_write_allowed :: "pydict \<Rightarrow> tool_manifest \<Rightarrow> runtime_context \<Rightarrow> bool" where
  "live_write_allowed params m ctx \<longleftrightarrow> mf_risk_level m = R4_TRADE_WRITE \<and> rx_surface ctx \<noteq> SCHEDULER \<and>
     \<not> (rx_surface ctx = LIVE_CONNECTOR \<and> mf_live_classification m = Some ''UNKNOWN'') \<and>
     \<not> (rx_surface ctx = SWARM \<and> external_url params) \<and> list_all (check_state ctx) live_write_checks"

definition stdio_read :: "string \<Rightarrow> pydict \<Rightarrow> tool_manifest \<Rightarrow> runtime_context \<Rightarrow> bool" where
  "stdio_read name params m ctx \<longleftrightarrow> rx_surface ctx = MCP_STDIO \<and> mf_risk_level m = R0_READ \<and> mf_readonly m \<and>
     \<not> local_fallback name params"

definition may_run :: "string \<Rightarrow> pydict \<Rightarrow> tool_manifest \<Rightarrow> runtime_context \<Rightarrow> bool" where
  "may_run name params m ctx \<longleftrightarrow>
     (case rx_mode ctx of
        Off \<Rightarrow> True
      | Enforce \<Rightarrow> live_write_allowed params m ctx \<or> stdio_read name params m ctx
      | _ \<Rightarrow> live_write_allowed params m ctx \<or> mf_risk_level m \<notin> {R4_TRADE_WRITE, R5_SHELL})"

lemma builtin_verdict_deny:
  "builtin_verdict name params m ctx \<noteq> Deny \<longleftrightarrow>
     live_write_allowed params m ctx \<or> stdio_read name params m ctx \<or>
     rx_mode ctx \<noteq> Enforce \<and> mf_risk_level m = UNCLASSIFIED \<and> builtin_verdict name params m ctx = Warn_Only"
  by (auto simp: builtin_verdict_def live_write_allowed_def stdio_read_def)

lemma builtin_verdict_high_risk:
  "mf_risk_level m \<in> {R4_TRADE_WRITE, R5_SHELL} \<Longrightarrow>
     builtin_verdict name params m ctx \<noteq> Deny \<longleftrightarrow> live_write_allowed params m ctx"
  by (auto simp: builtin_verdict_def live_write_allowed_def)

text \<open>A call either runs the tool, or it is denied and the world stays as it is.\<close>

definition runs :: "(policy_denied + registry_answer) \<times> recorder \<times> 'w \<Rightarrow> bool" where
  "runs r \<longleftrightarrow> (case fst r of Inl _ \<Rightarrow> False | Inr _ \<Rightarrow> True)"

lemma governed_execute_cases:
  fixes gr :: "'w governed" and name :: string
  defines "m \<equiv> cache_get (gr_cache gr) name"
  assumes d: "gr_policy gr name params m (gr_context gr) = Some d" and on: "rx_mode (gr_context gr) \<noteq> Off"
  shows "governed_execute e gr name params (rc, w) =
    (if pd_action d = Deny \<and> (rx_mode (gr_context gr) = Enforce \<or> mf_risk_level m \<in> {R4_TRADE_WRITE, R5_SHELL})
     then (Inl (Policy_Denied d (rx_mode (gr_context gr) \<noteq> Enforce)),
           record_denied d (if rx_mode (gr_context gr) = Enforce then ''denied'' else ''skipped'')
             (rx_mode (gr_context gr) \<noteq> Enforce) (record_decision d rc), w)
     else (Inr (fst (registry_execute (gr_inner gr) name params w)), record_decision d rc,
           snd (registry_execute (gr_inner gr) name params w)))"
  using d on by (auto simp: governed_execute_def Let_def m_def high_risk_deny_def split: prod.splits)

lemma governed_off:
  "rx_mode (gr_context gr) = Off \<Longrightarrow> governed_execute e gr name params (rc, w) =
    (Inr (fst (registry_execute (gr_inner gr) name params w)), rc,
     snd (registry_execute (gr_inner gr) name params w))"
  by (simp add: governed_execute_def Let_def split: prod.splits)

section \<open>Secrets\<close>

text \<open>No text that looks like a secret, and under a key that looks like one only the mark.\<close>

fun secret_free :: "pyval \<Rightarrow> bool" where
  "secret_free (VDict d) = list_all (\<lambda>(k, v). if key_is_secret_like k then v = VStr redacted_mark else secret_free v) d"
| "secret_free (VList l) = list_all secret_free l"
| "secret_free (VStr s) = (\<not> value_is_secret_like s)"
| "secret_free v = True"

lemma mark_not_secret: "\<not> value_is_secret_like redacted_mark"
proof -
  have "strip redacted_mark = redacted_mark" by (simp add: redacted_mark_def strip_def is_space_def)
  then show ?thesis
    by (simp add: value_is_secret_like_def bearer_like_def key_prefix_like_def long_random_like_def
        redacted_mark_def lower_char_def)
qed

lemma redact_secret_free: "secret_free (redact_secrets v)"
  by (induction v rule: redact_secrets.induct)
    (auto simp: list_all_iff mark_not_secret split: if_splits)

lemma build_param_audit_redacted:
  "redact_secrets (VDict params) = redact_secrets (VDict params') \<Longrightarrow>
     build_param_audit e params = build_param_audit e params'"
  by (simp only: build_param_audit_def)

section \<open>Properties\<close>

text \<open>
  C27. With the built-in rules a governed call runs its tool exactly when governance is off, or the call is
  a live trade write with all five checks (not from the scheduler, not of an unknown live tool, not
  with a prompted URL in a swarm), or, when governance enforces, a read-only tool over MCP stdio, or,
  when it only observes, any tool that neither writes trades nor runs a shell. A call that does not
  run changes nothing outside.
\<close>

theorem governed_call_outcome:
  "(runs (governed_execute e (govern_registry e reg surface ctx) name params (rc, w)) \<longleftrightarrow>
      may_run name params (cache_get (cache_from_registry reg surface) name) ctx) \<and>
   snd (snd (governed_execute e (govern_registry e reg surface ctx) name params (rc, w))) =
     (if may_run name params (cache_get (cache_from_registry reg surface) name) ctx
      then snd (registry_execute reg name params w) else w)"
proof (cases "rx_mode ctx = Off")
  case True
  then show ?thesis by (simp add: governed_off govern_registry_def runs_def may_run_def)
next
  case False
  let ?m = "cache_get (cache_from_registry reg surface) name"
  let ?d = "evaluate e builtin_rules name params ?m ctx"
  have x: "governed_execute e (govern_registry e reg surface ctx) name params (rc, w) =
    (if pd_action ?d = Deny \<and> (rx_mode ctx = Enforce \<or> mf_risk_level ?m \<in> {R4_TRADE_WRITE, R5_SHELL})
     then (Inl (Policy_Denied ?d (rx_mode ctx \<noteq> Enforce)),
           record_denied ?d (if rx_mode ctx = Enforce then ''denied'' else ''skipped'') (rx_mode ctx \<noteq> Enforce)
             (record_decision ?d rc), w)
     else (Inr (fst (registry_execute reg name params w)), record_decision ?d rc,
           snd (registry_execute reg name params w)))"
    using governed_execute_cases [of "govern_registry e reg surface ctx" name params ?d e rc w] False
    by (simp add: govern_registry_def default_policy_def)
  have "(pd_action ?d = Deny \<and> (rx_mode ctx = Enforce \<or> mf_risk_level ?m \<in> {R4_TRADE_WRITE, R5_SHELL})) \<longleftrightarrow>
      \<not> may_run name params ?m ctx"
    using False builtin_verdict_deny [of name params ?m ctx] builtin_verdict_high_risk [of ?m name params ctx]
    unfolding may_run_def evaluate_builtin
    by (cases "rx_mode ctx") (auto simp: live_write_allowed_def stdio_read_def)
  then show ?thesis unfolding x by (simp add: runs_def)
qed

text \<open>
  Unless governance is off, whatever a swarm worker asks for leaves the world as it is, except a call
  of a whitelisted tool that is classified neither as a trade write nor as a shell, while governance
  does not enforce.
\<close>

theorem swarm_workers_are_confined:
  assumes names: "\<And>n x. registry_get full n = Some x \<Longrightarrow> bt_name (fst x) = n" and on: "mode \<noteq> Off"
    and changed: "snd (snd (governed_execute e (build_swarm_registry e mode full whitelist) name params (rc, w))) \<noteq> w"
  shows "mode \<noteq> Enforce \<and> name \<in> set whitelist \<and>
    (\<exists>t run. registry_get full name = Some (t, run) \<and> classify_risk t \<notin> {R4_TRADE_WRITE, R5_SHELL})"
proof -
  let ?reg = "filter_registry full whitelist []"
  let ?m = "cache_get (cache_from_registry ?reg SWARM) name"
  let ?ctx = "\<lparr>rx_surface = SWARM, rx_mode = mode, rx_user_auth_state = [], rx_live_state = [], rx_budget_state = []\<rparr>"
  have no_write: "\<not> live_write_allowed params ?m ?ctx"
    by (simp add: live_write_allowed_def live_write_checks_def check_state_def)
  have run: "may_run name params ?m ?ctx" "snd (registry_execute ?reg name params w) \<noteq> w"
    using changed governed_call_outcome [of e ?reg SWARM ?ctx name params rc w]
    by (auto simp: build_swarm_registry_def split: if_splits)
  then have risk: "mode \<noteq> Enforce" "mf_risk_level ?m \<notin> {R4_TRADE_WRITE, R5_SHELL}"
    using no_write on by (auto simp: may_run_def stdio_read_def split: governance_mode.splits)
  obtain t f where t: "registry_get ?reg name = Some (t, f)"
    using run(2) by (auto simp: registry_execute_def split: option.splits)
  then have full: "name \<in> set whitelist" "registry_get full name = Some (t, f)"
    using filter_registry_get [where names = whitelist and acc = "[]" and name = name, OF names] by (auto simp: registry_get_def split: if_splits)
  have "mf_risk_level ?m = mf_risk_level (cached_manifest SWARM t)" using cache_get_registry(1) [OF t] by simp
  with risk full show ?thesis by (auto split: if_splits)
qed

text \<open>A read-only tool of the agent that counts its calls, and a shell.\<close>

definition demo_tool :: "string \<Rightarrow> base_tool" where
  "demo_tool name = \<lparr>bt_name = name, bt_class_name = ''Demo'', bt_module = ''src.tools.demo'',
     bt_description = [], bt_is_readonly = True, bt_repeatable = True, bt_timeout_seconds = None,
     bt_live_classification = None\<rparr>"

definition demo_registry :: "nat registry" where
  "demo_registry = [(''bash'', demo_tool ''bash'', \<lambda>params n. (Inr ''done'', n + 1)),
     (''peek'', demo_tool ''peek'', \<lambda>params n. (Inr ''done'', n + 1))]"

definition demo_gov_env :: gov_env where
  "demo_gov_env = \<lparr>gv_repr = (\<lambda>v. ''value''), gv_digest = (\<lambda>v. ''digest'')\<rparr>"

definition empty_recorder :: recorder where
  "empty_recorder = \<lparr>rc_trace = None, rc_decisions = [], rc_records = []\<rparr>"

lemma demo_registry_names: "registry_get demo_registry n = Some x \<Longrightarrow> bt_name (fst x) = n"
  by (auto simp: registry_get_def demo_registry_def demo_tool_def split: if_splits)

lemma demo_bash: "classify_risk (demo_tool ''bash'') = R5_SHELL"
  by (simp add: classify_risk_def demo_tool_def shell_tool_names_def lower_char_def)

theorem swarm_workers_are_confined_witness:
  "snd (snd (governed_execute demo_gov_env (build_swarm_registry demo_gov_env Observe demo_registry [''bash'', ''peek''])
     ''bash'' [] (empty_recorder, 0))) = 0"
proof (rule ccontr)
  assume "snd (snd (governed_execute demo_gov_env (build_swarm_registry demo_gov_env Observe demo_registry
     [''bash'', ''peek'']) ''bash'' [] (empty_recorder, 0))) \<noteq> 0"
  from swarm_workers_are_confined [OF demo_registry_names _ this]
  show False by (auto simp: registry_get_def demo_registry_def demo_bash)
qed



text \<open>One rule that asks for a mandate, and one whose predicate raises for the other tools.\<close>

definition demo_rules :: "policy_rule list" where
  "demo_rules = [(rule 20 ''X'' ''raises'' Rule_Allow)\<lparr>pr_predicate := Some (\<lambda>name params m ctx. None)\<rparr>,
     (rule 10 ''M'' ''needs a mandate'' Allow_If_All)
       \<lparr>pr_tool_names := Some [''bash''], pr_required_checks := [''mandate_active'']\<rparr>]"

definition demo_governed :: "nat governed" where
  "demo_governed = \<lparr>gr_inner = demo_registry, gr_cache = cache_from_registry demo_registry CLI,
     gr_policy = (\<lambda>name params m ctx. Some (evaluate demo_gov_env demo_rules name params m ctx)),
     gr_context = \<lparr>rx_surface = CLI, rx_mode = Observe, rx_user_auth_state = [],
       rx_live_state = [(''mandate_active'', VBool True)], rx_budget_state = []\<rparr>\<rparr>"



text \<open>
  While governance is on, every call appends exactly one decision on it to the record. The decision
  shows of the parameters only what is left after redaction: parameters that agree after redaction give
  the same preview and the same digest, and the redacted parameters hold no secret.
\<close>

theorem calls_are_recorded_redacted:
  assumes "rx_mode ctx \<noteq> Off"
  shows "\<exists>d. rc_decisions (fst (snd (governed_execute e (govern_registry e reg surface ctx) name params (rc, w)))) =
      rc_decisions rc @ [d] \<and> pd_tool_name d = name \<and>
    secret_free (redact_secrets (VDict params)) \<and>
    (\<forall>params'. redact_secrets (VDict params') = redact_secrets (VDict params) \<longrightarrow>
       pd_params_preview d = pa_preview (build_param_audit e params') \<and>
       pd_params_hash d = pa_params_hash (build_param_audit e params'))"
proof -
  let ?d = "evaluate e builtin_rules name params (cache_get (cache_from_registry reg surface) name) ctx"
  have "rc_decisions (fst (snd (governed_execute e (govern_registry e reg surface ctx) name params (rc, w)))) =
      rc_decisions rc @ [?d]"
    using governed_execute_cases [of "govern_registry e reg surface ctx" name params ?d e rc w] assms
    by (simp add: govern_registry_def default_policy_def record_denied_def record_decision_def emit_record_def)
  then show ?thesis
    using build_param_audit_redacted redact_secret_free by (intro exI [of _ ?d]) (metis evaluate_simps)
qed

theorem calls_are_recorded_redacted_witness:
  "\<exists>d. rc_decisions (fst (snd (governed_execute demo_gov_env
       (govern_registry demo_gov_env demo_registry CLI (gr_context demo_governed)) ''bash''
       [(''api_key'', VStr ''a1'')] (empty_recorder, 0)))) = [d] \<and>
     pd_params_preview d = [(''api_key'', VStr redacted_mark)]"
proof -
  obtain d where d: "rc_decisions (fst (snd (governed_execute demo_gov_env
       (govern_registry demo_gov_env demo_registry CLI (gr_context demo_governed)) ''bash''
       [(''api_key'', VStr ''a1'')] (empty_recorder, 0)))) = rc_decisions empty_recorder @ [d]"
    and same: "\<And>params'. redact_secrets (VDict params') = redact_secrets (VDict [(''api_key'', VStr ''a1'')]) \<Longrightarrow>
       pd_params_preview d = pa_preview (build_param_audit demo_gov_env params')"
    using calls_are_recorded_redacted [of "gr_context demo_governed" demo_gov_env demo_registry CLI "''bash''"
        "[(''api_key'', VStr ''a1'')]" empty_recorder 0]
    by (auto simp: demo_governed_def)
  have key: "key_is_secret_like ''api_key''"
    by (simp add: key_is_secret_like_def secret_key_fragments_def lower_char_def)
  have "pd_params_preview d = [(''api_key'', VStr redacted_mark)]"
    using same [of "[(''api_key'', VStr ''a1'')]"] key by (simp add: build_param_audit_def json_safe.simps)
  with d show ?thesis by (simp add: empty_recorder_def)
qed

end
