(* ===== verification/Swarm_Tasks.thy ===== *)
theory Swarm_Tasks
  imports Py_Values "HOL-Library.List_Lexorder" "HOL-Library.Char_ord" "HOL-Library.AList"
begin

text \<open>
  The tasks of a swarm run, \<open>swarm/models.py\<close> and \<open>swarm/task_store.py\<close>: the task files, the removal of a
  completed task from the tasks that wait for it, the search for a cycle among the dependencies and the
  layers in which the tasks may run.

  The directory of a run is an association list from ids to tasks in the order the directory is listed.
  Dictionaries and sets of ids are lists too; the code iterates over the set of all ids in an order
  Python does not fix, which is the order of first occurrence here.
\<close>

section \<open>Data\<close>

datatype task_status = Pending | Blocked_Task | In_Progress | Completed | Failed | Cancelled_Task

fun task_status_value :: "task_status \<Rightarrow> string" where
  "task_status_value Pending = ''pending''"
| "task_status_value Blocked_Task = ''blocked''"
| "task_status_value In_Progress = ''in_progress''"
| "task_status_value Completed = ''completed''"
| "task_status_value Failed = ''failed''"
| "task_status_value Cancelled_Task = ''cancelled''"

record swarm_task =
  st_id :: string
  st_agent_id :: string
  st_prompt_template :: string
  st_depends_on :: "string list"
  st_blocked_by :: "string list"
  st_input_from :: "(string \<times> string) list"
  st_status :: task_status
  st_summary :: "string option"
  st_artifacts :: "string list"
  st_error :: "string option"
  st_started_at :: "string option"
  st_completed_at :: "string option"
  st_worker_iterations :: int

datatype swarm_exc =
    Unknown_Dependency string string
  | Cycle_Detected "string list"
  | Cycle_Left nat nat
  | File_Not_Found string
  | Swarm_Error string

section \<open>The task store\<close>

type_synonym task_store = "(string \<times> swarm_task) list"

definition save_task :: "swarm_task \<Rightarrow> task_store \<Rightarrow> task_store" where
  "save_task t store = AList.update (st_id t) t store"

definition load_task :: "string \<Rightarrow> task_store \<Rightarrow> swarm_exc + swarm_task" where
  "load_task tid store = (case map_of store tid of None \<Rightarrow> Inl (File_Not_Found tid) | Some t \<Rightarrow> Inr t)"

text \<open>The files are sorted by their names, which share the prefix \<open>task-\<close> and end in \<open>.json\<close>.\<close>

definition load_all :: "task_store \<Rightarrow> swarm_task list" where
  "load_all store = map snd (sort_key (\<lambda>(tid, t). tid @ ''.json'') store)"

text \<open>The keyword arguments of an update are the function that sets the fields.\<close>

definition update_task :: "string \<Rightarrow> task_status \<Rightarrow> (swarm_task \<Rightarrow> swarm_task) \<Rightarrow> task_store \<Rightarrow>
    swarm_exc + swarm_task \<times> task_store" where
  "update_task tid status set_fields store = rbind (load_task tid store) (\<lambda>t.
     let t = set_fields (t\<lparr>st_status := status\<rparr>) in Inr (t, save_task t store))"

definition unblock :: "string \<Rightarrow> swarm_task \<Rightarrow> swarm_task" where
  "unblock completed_id t =
     (if completed_id \<notin> set (st_blocked_by t) then t
      else let new_blocked_by = filter (\<lambda>tid. tid \<noteq> completed_id) (st_blocked_by t)
           in t\<lparr>st_blocked_by := new_blocked_by,
                st_status := (if new_blocked_by = [] \<and> st_status t = Blocked_Task then Pending else st_status t)\<rparr>)"

definition newly_unblocked :: "string \<Rightarrow> swarm_task \<Rightarrow> bool" where
  "newly_unblocked completed_id t \<longleftrightarrow> completed_id \<in> set (st_blocked_by t) \<and>
     filter (\<lambda>tid. tid \<noteq> completed_id) (st_blocked_by t) = [] \<and> st_status t = Blocked_Task"

definition resolve_dependencies :: "string \<Rightarrow> task_store \<Rightarrow> string list \<times> task_store" where
  "resolve_dependencies completed_id store =
     (map (\<lambda>(tid, t). st_id t) (filter (\<lambda>(tid, t). newly_unblocked completed_id t) store),
      map (\<lambda>(tid, t). (tid, unblock completed_id t)) store)"

section \<open>Cycle detection\<close>

text \<open>\<open>{t.id: list(t.depends_on) for t in tasks}\<close>: the last task of an id wins.\<close>

definition task_graph :: "swarm_task list \<Rightarrow> string \<Rightarrow> string list" where
  "task_graph tasks tid = (case map_of (rev (map (\<lambda>t. (st_id t, st_depends_on t)) tasks)) tid of
       None \<Rightarrow> [] | Some deps \<Rightarrow> deps)"

definition task_ids :: "swarm_task list \<Rightarrow> string list" where
  "task_ids tasks = rev (remdups (rev (map st_id tasks)))"

fun check_known :: "string list \<Rightarrow> string \<Rightarrow> string list \<Rightarrow> swarm_exc + unit" where
  "check_known ids tid [] = Inr ()"
| "check_known ids tid (dep # deps) =
     (if dep \<in> set ids then check_known ids tid deps else Inl (Unknown_Dependency tid dep))"

fun check_dependencies :: "string list \<Rightarrow> swarm_task list \<Rightarrow> swarm_exc + unit" where
  "check_dependencies ids [] = Inr ()"
| "check_dependencies ids (t # ts) =
     rbind (check_known ids (st_id t) (st_depends_on t)) (\<lambda>_. check_dependencies ids ts)"

datatype color = White | Gray | Black

text \<open>
  The depth-first search: the colors and the path of the nodes being visited. The first argument bounds
  the depth of the recursion; \<open>Out_Of_Depth\<close> is the answer when it is too small.
\<close>

datatype dfs_result = Found_Cycle "string list" | Out_Of_Depth | Visited "string \<Rightarrow> color"

definition cycle_of :: "string list \<Rightarrow> string \<Rightarrow> string list" where
  "cycle_of path neighbor = dropWhile (\<lambda>n. n \<noteq> neighbor) path @ [neighbor]"

function dfs :: "(string \<Rightarrow> string list) \<Rightarrow> nat \<Rightarrow> string \<Rightarrow> (string \<Rightarrow> color) \<Rightarrow> string list \<Rightarrow> dfs_result"
  and dfs_neighbors ::
    "(string \<Rightarrow> string list) \<Rightarrow> nat \<Rightarrow> string list \<Rightarrow> (string \<Rightarrow> color) \<Rightarrow> string list \<Rightarrow> dfs_result" where
  "dfs graph 0 node color path = Out_Of_Depth"
| "dfs graph (Suc n) node color path =
     (case dfs_neighbors graph n (graph node) (color(node := Gray)) (path @ [node]) of
        Visited color \<Rightarrow> Visited (color(node := Black))
      | r \<Rightarrow> r)"
| "dfs_neighbors graph n [] color path = Visited color"
| "dfs_neighbors graph n (neighbor # neighbors) color path =
     (if color neighbor = Gray then Found_Cycle (cycle_of path neighbor)
      else if color neighbor = White then
        (case dfs graph n neighbor color path of
           Visited color \<Rightarrow> dfs_neighbors graph n neighbors color path
         | r \<Rightarrow> r)
      else dfs_neighbors graph n neighbors color path)"
  by pat_completeness auto

termination
  by (relation "measures [\<lambda>x. case x of Inl (g, n, v, c, p) \<Rightarrow> n | Inr (g, n, vs, c, p) \<Rightarrow> n,
        \<lambda>x. case x of Inl (g, n, v, c, p) \<Rightarrow> 0 | Inr (g, n, vs, c, p) \<Rightarrow> Suc (length vs)]") auto

fun dfs_all :: "(string \<Rightarrow> string list) \<Rightarrow> nat \<Rightarrow> string list \<Rightarrow> (string \<Rightarrow> color) \<Rightarrow> dfs_result" where
  "dfs_all graph n [] color = Visited color"
| "dfs_all graph n (tid # tids) color =
     (if color tid = White then
        (case dfs graph n tid color [] of
           Visited color \<Rightarrow> dfs_all graph n tids color
         | r \<Rightarrow> r)
      else dfs_all graph n tids color)"

text \<open>The path holds every node at most once, so that the number of ids bounds the depth.\<close>

definition validate_dag :: "swarm_task list \<Rightarrow> swarm_exc + unit" where
  "validate_dag tasks =
     (let ids = task_ids tasks in
      rbind (check_dependencies ids tasks) (\<lambda>_.
        case dfs_all (task_graph tasks) (length ids) ids (\<lambda>_. White) of
          Visited _ \<Rightarrow> Inr ()
        | Found_Cycle cycle \<Rightarrow> Inl (Cycle_Detected cycle)
        | Out_Of_Depth \<Rightarrow> Inl (Swarm_Error ''depth'')))"

section \<open>Layers\<close>

text \<open>\<open>in_degree\<close> and \<open>dependents\<close>. The ids a task releases are ids of tasks, so that their degree is known.\<close>

definition in_degrees :: "swarm_task list \<Rightarrow> string \<Rightarrow> int option" where
  "in_degrees tasks = map_of (rev (map (\<lambda>t. (st_id t, int (length (st_depends_on t)))) tasks))"

definition dependents :: "swarm_task list \<Rightarrow> string \<Rightarrow> string list" where
  "dependents tasks dep = concat (map (\<lambda>t. map (\<lambda>_. st_id t) (filter (\<lambda>d. d = dep) (st_depends_on t))) tasks)"

fun release :: "string list \<Rightarrow> (string \<Rightarrow> int option) \<Rightarrow> string list \<Rightarrow> (string \<Rightarrow> int option) \<times> string list" where
  "release [] deg queue = (deg, queue)"
| "release (downstream # ds) deg queue =
     (let d = (case deg downstream of None \<Rightarrow> 0 | Some i \<Rightarrow> i) - 1
      in release ds (deg(downstream \<mapsto> d)) (if d = 0 then queue @ [downstream] else queue))"

fun release_layer ::
    "(string \<Rightarrow> string list) \<Rightarrow> string list \<Rightarrow> (string \<Rightarrow> int option) \<Rightarrow> string list \<Rightarrow>
     (string \<Rightarrow> int option) \<times> string list" where
  "release_layer deps [] deg queue = (deg, queue)"
| "release_layer deps (tid # tids) deg queue =
     (let (deg, queue) = release (deps tid) deg queue in release_layer deps tids deg queue)"

text \<open>The loop of Kahn's algorithm; the bound on its rounds is the number of tasks.\<close>

fun layer_loop ::
    "nat \<Rightarrow> (string \<Rightarrow> string list) \<Rightarrow> (string \<Rightarrow> int option) \<Rightarrow> string list \<Rightarrow> string list list option" where
  "layer_loop n deps deg [] = Some []"
| "layer_loop 0 deps deg queue = None"
| "layer_loop (Suc n) deps deg queue =
     (let (deg, queue') = release_layer deps queue deg []
      in map_option (\<lambda>layers. queue # layers) (layer_loop n deps deg queue'))"

definition topological_layers :: "swarm_task list \<Rightarrow> swarm_exc + string list list" where
  "topological_layers tasks =
     (let deg = in_degrees tasks;
          queue = filter (\<lambda>tid. deg tid = Some 0) (task_ids tasks)
      in case layer_loop (length tasks) (dependents tasks) deg queue of
        None \<Rightarrow> Inl (Swarm_Error ''rounds'')
      | Some layers \<Rightarrow>
          (let processed = length (concat layers)
           in if processed \<noteq> length tasks then Inl (Cycle_Left processed (length tasks)) else Inr layers))"

end
