(* ===== verification/Swarm_Runtime.thy ===== *)
theory Swarm_Runtime
  imports Swarm_Tasks
begin

text \<open>
  The scheduler of a swarm run, \<open>swarm/presets.py\<close> (the run of a preset), \<open>swarm/models.py\<close>,
  \<open>swarm/runtime.py\<close> and the path redaction of \<open>tools/redaction.py\<close>: layer after layer, the tasks whose
  dependencies are completed are handed to workers, their results are written to the task store, and the
  status of the run is derived.

  A worker is a function of the agent, the task, the upstream summaries and the number of the attempt; it
  may raise. The order in which the workers of a layer finish before its deadline and the layer boundary
  from which on the run is cancelled are parameters, and so is the text of a worker status in a message. The events of a worker thread (its retries) are
  placed where its result is collected. The grounding data and the user variables only reach the worker.
\<close>

section \<open>Data\<close>

datatype run_status = Run_Pending | Run_Running | Run_Completed | Run_Failed | Run_Cancelled

datatype worker_status = Worker_Completed | Worker_Failed | Worker_Timeout | Worker_Token_Limit | Worker_Incomplete

record agent_spec =
  ag_id :: string
  ag_role :: string
  ag_system_prompt :: string
  ag_tools :: "string list"
  ag_skills :: "string list"
  ag_max_iterations :: int
  ag_timeout_seconds :: int
  ag_model_name :: "string option"
  ag_max_retries :: int

record swarm_run =
  sr_id :: string
  sr_preset_name :: string
  sr_status :: run_status
  sr_user_vars :: "(string \<times> string) list"
  sr_agents :: "agent_spec list"
  sr_tasks :: "swarm_task list"
  sr_created_at :: string
  sr_completed_at :: "string option"
  sr_final_report :: "string option"
  sr_total_input_tokens :: int
  sr_total_output_tokens :: int
  sr_provider :: "string option"
  sr_model :: "string option"

record worker_result =
  wr_status :: worker_status
  wr_summary :: string
  wr_artifact_paths :: "string list"
  wr_iterations :: int
  wr_error :: "string option"
  wr_input_tokens :: int
  wr_output_tokens :: int
  wr_content_filter_warnings :: "string list"

definition failed_result :: "worker_status \<Rightarrow> string \<Rightarrow> worker_result" where
  "failed_result status err = \<lparr>wr_status = status, wr_summary = [], wr_artifact_paths = [], wr_iterations = 0,
     wr_error = Some err, wr_input_tokens = 0, wr_output_tokens = 0, wr_content_filter_warnings = []\<rparr>"

datatype swarm_event =
    Run_Started
  | Layer_Started nat "string list"
  | Task_Blocked string string "string list"
  | Task_Started string string
  | Task_Retry string string nat "string option"
  | Task_Completed string int int int
  | Task_Failed string string int int
  | Run_Error
  | Run_Finished run_status

section \<open>Presets\<close>

text \<open>The parsed YAML of a preset; an absent key is \<open>None\<close>.\<close>

record preset_agent =
  pt_agent :: string
  pt_role :: "string option"
  pt_system_prompt :: "string option"
  pt_tools :: "string list option"
  pt_skills :: "string list option"
  pt_max_iterations :: "int option"
  pt_timeout_seconds :: "int option"
  pt_model_name :: "string option"
  pt_max_retries :: "int option"

record preset_task =
  pt_id :: string
  pt_agent_id :: string
  pt_prompt_template :: "string option"
  pt_depends_on :: "string list option"
  pt_input_from :: "(string \<times> string) list option"

definition or_default :: "'a option \<Rightarrow> 'a \<Rightarrow> 'a" where
  "or_default v d = (case v of None \<Rightarrow> d | Some x \<Rightarrow> x)"

definition build_agent :: "preset_agent \<Rightarrow> agent_spec" where
  "build_agent a = \<lparr>ag_id = pt_agent a, ag_role = or_default (pt_role a) [],
     ag_system_prompt = or_default (pt_system_prompt a) [], ag_tools = or_default (pt_tools a) [],
     ag_skills = or_default (pt_skills a) [], ag_max_iterations = or_default (pt_max_iterations a) 25,
     ag_timeout_seconds = or_default (pt_timeout_seconds a) 300, ag_model_name = pt_model_name a,
     ag_max_retries = or_default (pt_max_retries a) 2\<rparr>"

definition build_task :: "preset_task \<Rightarrow> swarm_task" where
  "build_task t =
     (let depends_on = or_default (pt_depends_on t) [] in
      \<lparr>st_id = pt_id t, st_agent_id = pt_agent_id t, st_prompt_template = or_default (pt_prompt_template t) [],
       st_depends_on = depends_on, st_blocked_by = depends_on, st_input_from = or_default (pt_input_from t) [],
       st_status = (if depends_on \<noteq> [] then Blocked_Task else Pending), st_summary = None, st_artifacts = [],
       st_error = None, st_started_at = None, st_completed_at = None, st_worker_iterations = 0\<rparr>)"

definition build_run_from_preset ::
    "string \<Rightarrow> (string \<times> string) list \<Rightarrow> preset_agent list \<Rightarrow> preset_task list \<Rightarrow> string \<Rightarrow> string \<Rightarrow> swarm_run" where
  "build_run_from_preset preset_name user_vars agents tasks run_id now =
     \<lparr>sr_id = run_id, sr_preset_name = preset_name, sr_status = Run_Pending, sr_user_vars = user_vars,
      sr_agents = map build_agent agents, sr_tasks = map build_task tasks, sr_created_at = now,
      sr_completed_at = None, sr_final_report = None, sr_total_input_tokens = 0, sr_total_output_tokens = 0,
      sr_provider = None, sr_model = None\<rparr>"

section \<open>The environment and the state of a run\<close>

record swarm_env =
  se_worker :: "agent_spec \<Rightarrow> swarm_task \<Rightarrow> (string \<times> string) list \<Rightarrow> nat \<Rightarrow> string + worker_result"
  se_arrival :: "nat \<Rightarrow> string list"
  se_cancel_at :: "nat option"
  se_now :: "nat \<Rightarrow> string"
  se_internal_roots :: "string list"
  se_status_text :: "worker_status \<Rightarrow> string"

text \<open>
  \<open>sx_calls\<close> lists the workers that were started, with the upstream summaries each was given;
  \<open>sx_boundary\<close> counts the layer boundaries passed.
\<close>

record swarm_world =
  sx_run :: swarm_run
  sx_store :: task_store
  sx_events :: "swarm_event list"
  sx_summaries :: "(string \<times> string) list"
  sx_all_succeeded :: bool
  sx_boundary :: nat
  sx_calls :: "(string \<times> (string \<times> string) list) list"

type_synonym 'a swarm_op = "swarm_world \<Rightarrow> (swarm_exc + 'a) \<times> swarm_world"

definition emit :: "swarm_event \<Rightarrow> unit swarm_op" where
  "emit ev w = (Inr (), w\<lparr>sx_events := sx_events w @ [ev]\<rparr>)"

definition clock :: "swarm_env \<Rightarrow> swarm_world \<Rightarrow> string" where
  "clock e w = se_now e (length (sx_events w))"

definition cancelled :: "swarm_env \<Rightarrow> nat \<Rightarrow> bool" where
  "cancelled e i = (case se_cancel_at e of None \<Rightarrow> False | Some n \<Rightarrow> n \<le> i)"

definition set_task :: "string \<Rightarrow> task_status \<Rightarrow> (swarm_task \<Rightarrow> swarm_task) \<Rightarrow> unit swarm_op" where
  "set_task tid status set_fields w =
     (case update_task tid status set_fields (sx_store w) of
        Inl exc \<Rightarrow> (Inl exc, w) | Inr (t, store) \<Rightarrow> (Inr (), w\<lparr>sx_store := store\<rparr>))"

definition get_task :: "string \<Rightarrow> swarm_task swarm_op" where
  "get_task tid w = (load_task tid (sx_store w), w)"

section \<open>Redaction\<close>

text \<open>\<open>str.replace\<close> for a text that is not empty; the counter skips the rest of a match.\<close>

primrec replace_every :: "string \<Rightarrow> string \<Rightarrow> nat \<Rightarrow> string \<Rightarrow> string" where
  "replace_every old new k [] = []"
| "replace_every old new k (c # cs) =
     (if 0 < k then replace_every old new (k - 1) cs
      else if take (length old) (c # cs) = old then new @ replace_every old new (length old - 1) cs
      else c # replace_every old new 0 cs)"

definition redact_internal_paths :: "swarm_env \<Rightarrow> string option \<Rightarrow> string" where
  "redact_internal_paths e txt =
     (case txt of None \<Rightarrow> []
      | Some s \<Rightarrow> fold (\<lambda>base s. replace_every base ''<redacted>'' 0 s) (se_internal_roots e) s)"

section \<open>Workers\<close>

text \<open>The loop over the attempts that are left; tokens add up over the attempts.\<close>

fun attempts ::
    "swarm_env \<Rightarrow> agent_spec \<Rightarrow> swarm_task \<Rightarrow> (string \<times> string) list \<Rightarrow> nat \<Rightarrow> nat \<Rightarrow> int \<Rightarrow> int \<Rightarrow>
     worker_result option \<Rightarrow> swarm_event list \<times> (string + worker_result option)" where
  "attempts e a t upstream 0 attempt tin tout result =
     ([], Inr (map_option (\<lambda>r. r\<lparr>wr_input_tokens := tin, wr_output_tokens := tout\<rparr>) result))"
| "attempts e a t upstream (Suc n) attempt tin tout result =
     (let evs = (if 0 < attempt
                 then [Task_Retry (ag_id a) (st_id t) (attempt + 1) (Option.bind result wr_error)] else [])
      in case se_worker e a t upstream attempt of
           Inl msg \<Rightarrow> (evs, Inl msg)
         | Inr r \<Rightarrow>
             let tin = tin + wr_input_tokens r; tout = tout + wr_output_tokens r in
             if wr_status r \<noteq> Worker_Failed
             then (evs, Inr (Some (r\<lparr>wr_input_tokens := tin, wr_output_tokens := tout\<rparr>)))
             else let (evs', out) = attempts e a t upstream n (attempt + 1) tin tout (Some r) in (evs @ evs', out))"

definition run_worker_with_retries ::
    "swarm_env \<Rightarrow> agent_spec \<Rightarrow> swarm_task \<Rightarrow> (string \<times> string) list \<Rightarrow>
     swarm_event list \<times> (string + worker_result option)" where
  "run_worker_with_retries e a t upstream = attempts e a t upstream (nat (ag_max_retries a + 1)) 0 0 0 None"

section \<open>A layer\<close>

text \<open>The results of a layer so far, the workers that were submitted and the time budget.\<close>

record layer_state =
  ly_results :: "(string \<times> worker_result option) list"
  ly_futures :: "(string \<times> swarm_event list \<times> (string + worker_result option)) list"
  ly_budget :: int

definition blocked_upstreams :: "task_store \<Rightarrow> string list \<Rightarrow> (string \<times> string) list" where
  "blocked_upstreams store deps = concat (map (\<lambda>d.
     case load_task d store of
       Inl _ \<Rightarrow> [(d, ''missing'')]
     | Inr t \<Rightarrow> if st_status t \<noteq> Completed then [(d, task_status_value (st_status t))] else []) deps)"

definition blocked_reason :: "(string \<times> string) list \<Rightarrow> string" where
  "blocked_reason bs = concat (map (\<lambda>(i, d, s). (if i = 0 then [] else '', '') @ d @ ''='' @ s) (enumerate 0 bs))"

definition upstream_of :: "swarm_task \<Rightarrow> (string \<times> string) list \<Rightarrow> (string \<times> string) list" where
  "upstream_of t summaries = fold (\<lambda>(key, src) up.
     case map_of summaries src of None \<Rightarrow> up | Some s \<Rightarrow> AList.update key s up) (st_input_from t) []"

definition agent_map :: "swarm_run \<Rightarrow> string \<Rightarrow> agent_spec option" where
  "agent_map r = map_of (rev (map (\<lambda>a. (ag_id a, a)) (sr_agents r)))"

definition block_task :: "swarm_env \<Rightarrow> string \<Rightarrow> swarm_task \<Rightarrow> (string \<times> string) list \<Rightarrow> unit swarm_op" where
  "block_task e tid t bs w =
     wbind (set_task tid Blocked_Task (\<lambda>t. t\<lparr>
         st_error := Some (''Blocked: upstream not completed ('' @ blocked_reason bs @ '')''),
         st_blocked_by := map fst bs, st_completed_at := Some (clock e w)\<rparr>))
     (\<lambda>_. emit (Task_Blocked (st_agent_id t) tid (map fst bs))) w"

definition submit_task ::
    "swarm_env \<Rightarrow> string \<Rightarrow> swarm_task \<Rightarrow> agent_spec \<Rightarrow> layer_state \<Rightarrow> layer_state swarm_op" where
  "submit_task e tid t a ly w =
     wbind (set_task tid In_Progress (\<lambda>t. t\<lparr>st_started_at := Some (clock e w)\<rparr>)) (\<lambda>_.
     wbind (emit (Task_Started (ag_id a) tid)) (\<lambda>_ w.
       let upstream = upstream_of t (sx_summaries w) in
       (Inr (ly\<lparr>ly_futures := ly_futures ly @ [(tid, run_worker_with_retries e a t upstream)],
               ly_budget := max (ly_budget ly) (ag_timeout_seconds a * (ag_max_retries a + 1))\<rparr>),
        w\<lparr>sx_calls := sx_calls w @ [(tid, upstream)]\<rparr>))) w"

definition dispatch_task :: "swarm_env \<Rightarrow> string \<Rightarrow> layer_state \<Rightarrow> layer_state swarm_op" where
  "dispatch_task e tid ly =
     wbind (get_task tid) (\<lambda>t w.
       let bs = blocked_upstreams (sx_store w) (st_depends_on t) in
       if bs \<noteq> [] then wbind (block_task e tid t bs) (\<lambda>_. wlift (Inr ly)) w
       else case agent_map (sx_run w) (st_agent_id t) of
         None \<Rightarrow> (Inr (ly\<lparr>ly_results := AList.update tid (Some (failed_result Worker_Failed
                     (''Agent '' @ st_agent_id t @ '' not found in presets''))) (ly_results ly)\<rparr>), w)
       | Some a \<Rightarrow> submit_task e tid t a ly w)"

fun dispatch_layer :: "swarm_env \<Rightarrow> string list \<Rightarrow> layer_state \<Rightarrow> layer_state swarm_op" where
  "dispatch_layer e [] ly = wlift (Inr ly)"
| "dispatch_layer e (tid # tids) ly = wbind (dispatch_task e tid ly) (dispatch_layer e tids)"

text \<open>
  The workers that finish before the deadline, in their order; without a deadline, when the budget is 0,
  all of them do.
\<close>

definition arrivals :: "swarm_env \<Rightarrow> nat \<Rightarrow> layer_state \<Rightarrow> string list" where
  "arrivals e i ly =
     (let tids = map fst (ly_futures ly); early = filter (\<lambda>tid. tid \<in> set tids) (remdups (se_arrival e i))
      in if ly_budget ly = 0 then early @ filter (\<lambda>tid. tid \<notin> set early) tids else early)"

fun collect ::
    "string list \<Rightarrow> layer_state \<Rightarrow> (string \<times> worker_result option) list \<Rightarrow>
     (string \<times> worker_result option) list swarm_op" where
  "collect [] ly results = wlift (Inr results)"
| "collect (tid # tids) ly results =
     (case map_of (ly_futures ly) tid of
        None \<Rightarrow> collect tids ly results
      | Some (evs, out) \<Rightarrow> (\<lambda>w.
          collect tids ly
            (AList.update tid (case out of Inl msg \<Rightarrow> Some (failed_result Worker_Failed msg) | Inr r \<Rightarrow> r) results)
            (w\<lparr>sx_events := sx_events w @ evs\<rparr>)))"

text \<open>The workers that did not finish in time.\<close>

definition time_out ::
    "layer_state \<Rightarrow> (string \<times> worker_result option) list \<Rightarrow> (string \<times> worker_result option) list" where
  "time_out ly results = fold (\<lambda>tid results.
     if tid \<in> fst ` set results then results
     else AList.update tid (Some (failed_result Worker_Timeout ''Worker exceeded layer deadline'')) results)
     (map fst (ly_futures ly)) results"

definition execute_layer ::
    "swarm_env \<Rightarrow> nat \<Rightarrow> string list \<Rightarrow> (string \<times> worker_result option) list swarm_op" where
  "execute_layer e i tids =
     wbind (dispatch_layer e tids \<lparr>ly_results = [], ly_futures = [], ly_budget = 0\<rparr>) (\<lambda>ly.
     wbind (collect (arrivals e i ly) ly (ly_results ly)) (\<lambda>results. wlift (Inr (time_out ly results))))"

section \<open>A run\<close>

definition count_tokens :: "worker_result \<Rightarrow> swarm_world \<Rightarrow> swarm_world" where
  "count_tokens r w = w\<lparr>sx_run := sx_run w\<lparr>
     sr_total_input_tokens := sr_total_input_tokens (sx_run w) + wr_input_tokens r,
     sr_total_output_tokens := sr_total_output_tokens (sx_run w) + wr_output_tokens r\<rparr>\<rparr>"

definition task_done :: "swarm_env \<Rightarrow> string \<Rightarrow> worker_result \<Rightarrow> unit swarm_op" where
  "task_done e tid r w =
     wbind (set_task tid Completed (\<lambda>t. t\<lparr>st_summary := Some (wr_summary r), st_completed_at := Some (clock e w),
         st_artifacts := wr_artifact_paths r, st_worker_iterations := wr_iterations r\<rparr>)) (\<lambda>_ w.
       emit (Task_Completed tid (wr_iterations r) (wr_input_tokens r) (wr_output_tokens r))
         (w\<lparr>sx_store := snd (resolve_dependencies tid (sx_store w))\<rparr>))
     (w\<lparr>sx_summaries := AList.update tid (wr_summary r) (sx_summaries w)\<rparr>)"

definition task_failed :: "swarm_env \<Rightarrow> string \<Rightarrow> worker_result \<Rightarrow> unit swarm_op" where
  "task_failed e tid r w =
     (let err = redact_internal_paths e (wr_error r) in
      wbind (set_task tid Failed (\<lambda>t. t\<lparr>
          st_error := Some (if err \<noteq> [] then err
            else ''worker did not complete (status='' @ se_status_text e (wr_status r) @ '')''),
          st_completed_at := Some (clock e w), st_worker_iterations := wr_iterations r\<rparr>)) (\<lambda>_.
        emit (Task_Failed tid err (wr_input_tokens r) (wr_output_tokens r)))
      (w\<lparr>sx_all_succeeded := False\<rparr>))"

fun process_results :: "swarm_env \<Rightarrow> (string \<times> worker_result option) list \<Rightarrow> unit swarm_op" where
  "process_results e [] = wlift (Inr ())"
| "process_results e ((tid, None) # rs) = wlift (Inl (Swarm_Error ''AttributeError''))"
| "process_results e ((tid, Some r) # rs) = (\<lambda>w.
     wbind (if wr_status r = Worker_Completed then task_done e tid r else task_failed e tid r)
       (\<lambda>_. process_results e rs) (count_tokens r w))"

definition note_blocked :: "string list \<Rightarrow> (string \<times> worker_result option) list \<Rightarrow> swarm_world \<Rightarrow> swarm_world" where
  "note_blocked tids results w =
     (if list_ex (\<lambda>tid. tid \<notin> fst ` set results) tids then w\<lparr>sx_all_succeeded := False\<rparr> else w)"

definition sync_tasks :: "swarm_world \<Rightarrow> swarm_world" where
  "sync_tasks w = w\<lparr>sx_run := sx_run w\<lparr>sr_tasks := load_all (sx_store w)\<rparr>\<rparr>"

definition cancel_remaining_tasks :: "swarm_task list \<Rightarrow> swarm_world \<Rightarrow> swarm_world" where
  "cancel_remaining_tasks tasks w = fold (\<lambda>t w.
     if st_status t \<in> {Completed, Failed} then w else snd (set_task (st_id t) Cancelled_Task (\<lambda>t. t) w)) tasks w"

text \<open>One layer, from the event that starts it to the snapshot of the tasks.\<close>

definition layer_turn :: "swarm_env \<Rightarrow> nat \<Rightarrow> string list \<Rightarrow> unit swarm_op" where
  "layer_turn e i tids =
     wbind (emit (Layer_Started i tids)) (\<lambda>_.
     wbind (execute_layer e i tids) (\<lambda>results.
     wbind (process_results e results) (\<lambda>_ w. (Inr (), sync_tasks (note_blocked tids results w)))))"

fun layers_loop :: "swarm_env \<Rightarrow> nat \<Rightarrow> string list list \<Rightarrow> unit swarm_op" where
  "layers_loop e i [] = (\<lambda>w. (Inr (), w\<lparr>sx_boundary := i\<rparr>))"
| "layers_loop e i (tids # layers) = (\<lambda>w.
     if cancelled e i
     then (Inr (), (cancel_remaining_tasks (sr_tasks (sx_run w)) w)\<lparr>sx_all_succeeded := False, sx_boundary := i\<rparr>)
     else wbind (layer_turn e i tids) (\<lambda>_. layers_loop e (Suc i) layers) (w\<lparr>sx_boundary := Suc i\<rparr>))"

definition final_report :: "string list list \<Rightarrow> (string \<times> string) list \<Rightarrow> string option \<Rightarrow> string option" where
  "final_report layers summaries report =
     (if summaries = [] \<or> layers = [] then report
      else case find (\<lambda>tid. tid \<in> fst ` set summaries) (last layers) of
        None \<Rightarrow> report | Some tid \<Rightarrow> map_of summaries tid)"

definition finish_run :: "swarm_env \<Rightarrow> string list list \<Rightarrow> swarm_world \<Rightarrow> swarm_world" where
  "finish_run e layers w =
     (let status = (if cancelled e (sx_boundary w) then Run_Cancelled
                    else if sx_all_succeeded w then Run_Completed else Run_Failed)
      in w\<lparr>sx_run := sx_run w\<lparr>sr_status := status, sr_completed_at := Some (clock e w),
             sr_tasks := load_all (sx_store w),
             sr_final_report := final_report layers (sx_summaries w) (sr_final_report (sx_run w))\<rparr>,
           sx_events := sx_events w @ [Run_Finished status]\<rparr>)"

text \<open>The run is marked as running before the layers are computed, which may raise.\<close>

definition begin_run :: "swarm_run \<Rightarrow> swarm_world" where
  "begin_run r = \<lparr>sx_run = r\<lparr>sr_status := Run_Running\<rparr>, sx_store = fold save_task (sr_tasks r) [],
     sx_events = [Run_Started], sx_summaries = [], sx_all_succeeded = True, sx_boundary = 0, sx_calls = []\<rparr>"

definition execute_run :: "swarm_env \<Rightarrow> swarm_run \<Rightarrow> (swarm_exc + unit) \<times> swarm_world" where
  "execute_run e r =
     (let w = begin_run r in
      case topological_layers (sr_tasks r) of
        Inl exc \<Rightarrow> (Inl exc, w)
      | Inr layers \<Rightarrow>
          (case layers_loop e 0 layers w of
             (Inr _, w) \<Rightarrow> (Inr (), finish_run e layers w)
           | (Inl _, w) \<Rightarrow> (Inr (), finish_run e layers
               (w\<lparr>sx_all_succeeded := False, sx_events := sx_events w @ [Run_Error]\<rparr>))))"

definition start_run :: "swarm_env \<Rightarrow> swarm_run \<Rightarrow> swarm_exc + (swarm_exc + unit) \<times> swarm_world" where
  "start_run e r = rbind (validate_dag (sr_tasks r)) (\<lambda>_. Inr (execute_run e r))"

end
