(* ===== verification/Swarm_Dag.thy ===== *)
theory Swarm_Dag
  imports Swarm_Tasks
begin

text \<open>
  The two algorithms on the dependencies of a swarm: the depth-first search finds a cycle exactly when
  there is one, and the layers hold every task once, after all tasks it depends on, exactly when there
  is none.
\<close>

section \<open>Depth-first search\<close>

definition edges :: "(string \<Rightarrow> string list) \<Rightarrow> (string \<times> string) set" where
  "edges graph = {(a, b). b \<in> set (graph a)}"

definition is_cycle :: "(string \<Rightarrow> string list) \<Rightarrow> string list \<Rightarrow> bool" where
  "is_cycle graph cycle \<longleftrightarrow> 2 \<le> length cycle \<and> hd cycle = last cycle \<and>
     successively (\<lambda>a b. b \<in> set (graph a)) cycle"

lemma chain_trancl:
  "successively (\<lambda>a b. b \<in> set (graph a)) (x # xs) \<Longrightarrow> xs \<noteq> [] \<Longrightarrow> (x, last xs) \<in> (edges graph)\<^sup>+"
proof (induction xs arbitrary: x)
  case (Cons y ys)
  then have "(x, y) \<in> edges graph" by (auto simp: edges_def successively_Cons)
  with Cons show ?case
    by (cases "ys = []") (auto simp: successively_Cons intro: trancl_into_trancl2)
qed simp

lemma is_cycle_cyclic: "is_cycle graph cycle \<Longrightarrow> \<not> acyclic (edges graph)"
proof
  assume c: "is_cycle graph cycle" and a: "acyclic (edges graph)"
  obtain x xs where x: "cycle = x # xs" "xs \<noteq> []"
    using c by (cases cycle; cases "tl cycle") (auto simp: is_cycle_def)
  with c have "last xs = x" by (simp add: is_cycle_def split: if_splits)
  with chain_trancl [of graph x xs] c x a show False by (auto simp: is_cycle_def acyclic_def)
qed

definition dfs_inv :: "(string \<Rightarrow> string list) \<Rightarrow> (string \<Rightarrow> color) \<Rightarrow> string list \<Rightarrow> bool" where
  "dfs_inv graph color path \<longleftrightarrow> distinct path \<and> set path = {x. color x = Gray} \<and>
     successively (\<lambda>a b. b \<in> set (graph a)) path \<and>
     (\<forall>b. color b = Black \<longrightarrow> (\<forall>x \<in> set (graph b). color x = Black) \<and> (b, b) \<notin> (edges graph)\<^sup>+)"

definition keeps_colors :: "(string \<Rightarrow> color) \<Rightarrow> (string \<Rightarrow> color) \<Rightarrow> bool" where
  "keeps_colors c c' \<longleftrightarrow> (\<forall>x. c x \<noteq> White \<longrightarrow> c' x = c x)"

definition whites :: "string set \<Rightarrow> (string \<Rightarrow> color) \<Rightarrow> nat" where
  "whites ids c = card {x \<in> ids. c x = White}"

lemma keeps_colors_trans: "keeps_colors a b \<Longrightarrow> keeps_colors b c \<Longrightarrow> keeps_colors a c"
  by (simp add: keeps_colors_def)

lemma whites_mono: "finite ids \<Longrightarrow> keeps_colors c c' \<Longrightarrow> whites ids c' \<le> whites ids c"
  unfolding whites_def keeps_colors_def by (rule card_mono) auto

lemma whites_gray:
  assumes "finite ids" "node \<in> ids" "c node = White"
  shows "whites ids c = Suc (whites ids (c(node := Gray)))"
proof -
  have "{x \<in> ids. c x = White} = insert node {x \<in> ids. (c(node := Gray)) x = White}" using assms by auto
  then show ?thesis using assms(1) by (simp add: whites_def)
qed

lemma black_closed:
  assumes "dfs_inv graph c p" and "(a, b) \<in> (edges graph)\<^sup>*" and "c a = Black"
  shows "c b = Black"
  using assms(2,3) by (induction rule: rtrancl_induct) (use assms(1) in \<open>auto simp: dfs_inv_def edges_def\<close>)

lemma enter_node:
  assumes "dfs_inv graph c p" "c node = White" "p = [] \<or> node \<in> set (graph (last p))"
  shows "dfs_inv graph (c(node := Gray)) (p @ [node])"
  using assms by (auto simp: dfs_inv_def successively_append_iff)

lemma leave_node:
  assumes inv: "dfs_inv graph c (p @ [node])" and black: "\<forall>x \<in> set (graph node). c x = Black"
  shows "dfs_inv graph (c(node := Black)) p"
proof -
  have gray: "c node = Gray" using inv by (auto simp: dfs_inv_def)
  have "(node, node) \<notin> (edges graph)\<^sup>+"
  proof
    assume "(node, node) \<in> (edges graph)\<^sup>+"
    then obtain x where "x \<in> set (graph node)" "(x, node) \<in> (edges graph)\<^sup>*"
      by (auto dest!: tranclD simp: edges_def)
    with black black_closed [OF inv] gray show False by fastforce
  qed
  with inv black show ?thesis
    by (auto simp: dfs_inv_def successively_append_iff split: if_splits)
qed

lemma cycle_of_is_cycle:
  assumes inv: "dfs_inv graph c p" and "c neighbor = Gray" "neighbor \<in> set (graph (last p))"
  shows "is_cycle graph (cycle_of p neighbor)"
proof -
  have "neighbor \<in> set p" using assms(1,2) by (auto simp: dfs_inv_def)
  then obtain pre post where p: "p = pre @ neighbor # post" "neighbor \<notin> set pre"
    by (metis split_list_first)
  then have d: "cycle_of p neighbor = neighbor # post @ [neighbor]"
    by (auto simp: cycle_of_def dropWhile_append)
  have "successively (\<lambda>a b. b \<in> set (graph a)) (neighbor # post)"
    using inv by (auto simp: dfs_inv_def p successively_append_iff)
  moreover have "neighbor \<in> set (graph (last (neighbor # post)))" using assms(3) p by simp
  ultimately have "successively (\<lambda>a b. b \<in> set (graph a)) ((neighbor # post) @ [neighbor])"
    unfolding successively_append_iff by simp
  then show ?thesis unfolding is_cycle_def d by simp
qed

definition dfs_goal ::
    "(string \<Rightarrow> string list) \<Rightarrow> string set \<Rightarrow> nat \<Rightarrow> string set \<Rightarrow> (string \<Rightarrow> color) \<Rightarrow> string list \<Rightarrow> dfs_result \<Rightarrow> bool" where
  "dfs_goal graph ids n nodes c p r =
     (case r of
        Found_Cycle cycle \<Rightarrow> is_cycle graph cycle
      | Out_Of_Depth \<Rightarrow> n < whites ids c
      | Visited c' \<Rightarrow> dfs_inv graph c' p \<and> keeps_colors c c' \<and> (\<forall>x \<in> nodes. c' x = Black))"

lemma dfs_correct:
  assumes fin: "finite ids" and closed: "\<And>a. set (graph a) \<subseteq> ids"
  shows "dfs_inv graph c p \<Longrightarrow> c node = White \<Longrightarrow> node \<in> ids \<Longrightarrow> p = [] \<or> node \<in> set (graph (last p)) \<Longrightarrow>
      dfs_goal graph ids n {node} c p (dfs graph n node c p)"
    and "dfs_inv graph c p \<Longrightarrow> p \<noteq> [] \<Longrightarrow> set vs \<subseteq> set (graph (last p)) \<Longrightarrow>
      dfs_goal graph ids n (set vs) c p (dfs_neighbors graph n vs c p)"
  using closed
proof (induction graph n node c p and graph n vs c p rule: dfs_dfs_neighbors.induct)
  case (1 graph node color path)
  then have "whites ids color > 0" using fin by (auto simp: whites_def card_gt_0_iff)
  then show ?case by (simp add: dfs_goal_def)
next
  case (2 graph n node color path)
  let ?c = "color(node := Gray)"
  have inv: "dfs_inv graph ?c (path @ [node])" using enter_node 2 by blast
  have ih: "dfs_goal graph ids n (set (graph node)) ?c (path @ [node])
      (dfs_neighbors graph n (graph node) ?c (path @ [node]))"
    by (rule 2(1) [OF inv]) (use 2(6) in auto)
  have w: "whites ids color = Suc (whites ids ?c)" using whites_gray fin 2 by blast
  show ?case
  proof (cases "dfs_neighbors graph n (graph node) ?c (path @ [node])")
    case (Visited c')
    with ih have "dfs_inv graph c' (path @ [node])" "\<forall>x \<in> set (graph node). c' x = Black" "keeps_colors ?c c'"
      by (auto simp: dfs_goal_def)
    with leave_node [of graph c' path node] Visited 2(3) show ?thesis
      by (auto simp: dfs_goal_def keeps_colors_def)
  qed (use ih w in \<open>auto simp: dfs_goal_def\<close>)
next
  case (3 graph n color path)
  then show ?case by (simp add: dfs_goal_def keeps_colors_def)
next
  case (4 graph n neighbor neighbors color path)
  have nb: "neighbor \<in> set (graph (last path))" "neighbor \<in> ids" using 4(6,7) by auto
  consider (gray) "color neighbor = Gray" | (white) "color neighbor = White" | (black) "color neighbor = Black"
    by (cases "color neighbor") auto
  then show ?case
  proof cases
    case gray
    then show ?thesis using cycle_of_is_cycle [OF 4(4) gray nb(1)] by (simp add: dfs_goal_def)
  next
    case black
    with 4 show ?thesis by (auto simp: dfs_goal_def keeps_colors_def split: dfs_result.splits)
  next
    case white
    then have ih: "dfs_goal graph ids n {neighbor} color path (dfs graph n neighbor color path)"
      using 4 nb by auto
    show ?thesis
    proof (cases "dfs graph n neighbor color path")
      case (Visited c')
      with ih have c': "dfs_inv graph c' path" "keeps_colors color c'" "c' neighbor = Black"
        by (auto simp: dfs_goal_def)
      have "dfs_goal graph ids n (set neighbors) c' path (dfs_neighbors graph n neighbors c' path)"
        using 4(2) [OF _ white Visited c'(1)] 4(5-7) white by auto
      then show ?thesis
        using Visited white c' whites_mono [OF fin c'(2)] keeps_colors_trans [OF c'(2)]
        by (auto simp: dfs_goal_def keeps_colors_def split: dfs_result.splits)
    qed (use ih white in \<open>auto simp: dfs_goal_def\<close>)
  qed
qed

definition deps_known :: "swarm_task list \<Rightarrow> bool" where
  "deps_known tasks \<longleftrightarrow> (\<forall>t \<in> set tasks. set (st_depends_on t) \<subseteq> st_id ` set tasks)"

lemma set_task_ids [simp]: "set (task_ids tasks) = st_id ` set tasks"
  by (auto simp: task_ids_def)

lemma distinct_task_ids [simp]: "distinct (task_ids tasks)"
  by (simp add: task_ids_def)

lemma check_known_cases:
  "case check_known ids tid deps of Inr _ \<Rightarrow> set deps \<subseteq> set ids
   | Inl e \<Rightarrow> \<exists>d. e = Unknown_Dependency tid d \<and> d \<in> set deps \<and> d \<notin> set ids"
  by (induction ids tid deps rule: check_known.induct) (auto split: sum.splits)

lemma check_dependencies_cases:
  "case check_dependencies ids ts of Inr _ \<Rightarrow> \<forall>t \<in> set ts. set (st_depends_on t) \<subseteq> set ids
   | Inl e \<Rightarrow> \<exists>t d. e = Unknown_Dependency (st_id t) d \<and> t \<in> set ts \<and> d \<in> set (st_depends_on t) - set ids"
proof (induction ids ts rule: check_dependencies.induct)
  case (2 ids t ts)
  with check_known_cases [where ids = ids and tid = "st_id t" and deps = "st_depends_on t"] show ?case
    by (cases "check_known ids (st_id t) (st_depends_on t)") (fastforce split: sum.splits)+
qed simp

lemma task_graph_edges:
  assumes "d \<in> set (task_graph tasks a)"
  shows "\<exists>t \<in> set tasks. st_id t = a \<and> d \<in> set (st_depends_on t)"
proof -
  let ?m = "rev (map (\<lambda>t. (st_id t, st_depends_on t)) tasks)"
  obtain deps where "map_of ?m a = Some deps" "d \<in> set deps"
    using assms by (cases "map_of ?m a") (auto simp: task_graph_def)
  then show ?thesis by (auto dest!: map_of_SomeD)
qed

lemma task_graph_closed: "deps_known tasks \<Longrightarrow> set (task_graph tasks a) \<subseteq> st_id ` set tasks"
  using task_graph_edges [of _ tasks a] unfolding deps_known_def by blast

lemma dfs_all_correct:
  assumes fin: "finite ids" and closed: "\<And>a. set (graph a) \<subseteq> ids"
  shows "dfs_inv graph c [] \<Longrightarrow> set tids \<subseteq> ids \<Longrightarrow> whites ids c \<le> n \<Longrightarrow>
    (case dfs_all graph n tids c of
       Found_Cycle cycle \<Rightarrow> is_cycle graph cycle
     | Out_Of_Depth \<Rightarrow> False
     | Visited c' \<Rightarrow> dfs_inv graph c' [] \<and> keeps_colors c c' \<and> (\<forall>x \<in> set tids. c' x = Black))"
proof (induction tids arbitrary: c)
  case (Cons tid tids)
  have not_gray: "c tid \<noteq> Gray" using Cons.prems(1) by (auto simp: dfs_inv_def)
  show ?case
  proof (cases "c tid = White")
    case True
    then have d: "dfs_goal graph ids n {tid} c [] (dfs graph n tid c [])"
      using dfs_correct(1) [OF fin closed] Cons.prems by auto
    show ?thesis
    proof (cases "dfs graph n tid c []")
      case (Visited c')
      with d have c': "dfs_inv graph c' []" "keeps_colors c c'" "c' tid = Black" by (auto simp: dfs_goal_def)
      then have "whites ids c' \<le> n" using whites_mono [OF fin c'(2)] Cons.prems by simp
      with Cons.IH [of c'] Cons.prems c' True Visited keeps_colors_trans [OF c'(2)] show ?thesis
        by (auto simp: keeps_colors_def split: dfs_result.splits)
    qed (use d True Cons.prems in \<open>auto simp: dfs_goal_def\<close>)
  next
    case False
    with not_gray have "c tid = Black" by (cases "c tid") auto
    with Cons.IH [of c] Cons.prems show ?thesis by (auto simp: keeps_colors_def split: dfs_result.splits)
  qed
qed (simp add: keeps_colors_def)

lemma validate_dag_cases:
  "case validate_dag tasks of
     Inr _ \<Rightarrow> deps_known tasks \<and> acyclic (edges (task_graph tasks))
   | Inl (Unknown_Dependency tid d) \<Rightarrow>
       (\<exists>t. t \<in> set tasks \<and> st_id t = tid \<and> d \<in> set (st_depends_on t)) \<and> d \<notin> st_id ` set tasks
   | Inl (Cycle_Detected cycle) \<Rightarrow> deps_known tasks \<and> is_cycle (task_graph tasks) cycle
   | Inl _ \<Rightarrow> False"
proof (cases "check_dependencies (task_ids tasks) tasks")
  case (Inl e)
  with check_dependencies_cases [where ids = "task_ids tasks" and ts = tasks] show ?thesis
    by (auto simp: validate_dag_def Let_def)
next
  case (Inr u)
  let ?g = "task_graph tasks" and ?ids = "st_id ` set tasks"
  have known: "deps_known tasks"
    using check_dependencies_cases [where ids = "task_ids tasks" and ts = tasks] Inr by (simp add: deps_known_def)
  have inv: "dfs_inv ?g (\<lambda>_. White) []" by (simp add: dfs_inv_def)
  have w: "whites ?ids (\<lambda>_. White) \<le> length (task_ids tasks)"
    using distinct_card [OF distinct_task_ids, of tasks] by (simp add: whites_def)
  have all: "case dfs_all ?g (length (task_ids tasks)) (task_ids tasks) (\<lambda>_. White) of
      Found_Cycle cycle \<Rightarrow> is_cycle ?g cycle
    | Out_Of_Depth \<Rightarrow> False
    | Visited c \<Rightarrow> dfs_inv ?g c [] \<and> keeps_colors (\<lambda>_. White) c \<and> (\<forall>x \<in> set (task_ids tasks). c x = Black)"
    using dfs_all_correct [OF _ task_graph_closed [OF known] inv _ w, where tids = "task_ids tasks"] by simp
  show ?thesis
  proof (cases "dfs_all ?g (length (task_ids tasks)) (task_ids tasks) (\<lambda>_. White)")
    case (Visited c)
    with all have c: "dfs_inv ?g c []" "\<forall>x \<in> ?ids. c x = Black" by simp_all
    have "(a, a) \<notin> (edges ?g)\<^sup>+" for a
    proof
      assume a: "(a, a) \<in> (edges ?g)\<^sup>+"
      then obtain b where "b \<in> set (?g a)" by (auto dest!: tranclD simp: edges_def)
      then have "a \<in> ?ids" using task_graph_edges by blast
      then have "c a = Black" using c(2) by blast
      with a c(1) show False by (simp add: dfs_inv_def)
    qed
    with Visited Inr known show ?thesis by (simp add: validate_dag_def Let_def acyclic_def)
  qed (use all Inr known in \<open>simp_all add: validate_dag_def Let_def\<close>)
qed

section \<open>Layers\<close>

text \<open>
  The abstract layering: every layer holds only tasks whose dependencies are done, and is not empty.
\<close>

fun layered :: "(string \<Rightarrow> string list) \<Rightarrow> string set \<Rightarrow> string list list \<Rightarrow> bool" where
  "layered graph done_ids [] = True"
| "layered graph done_ids (layer # layers) =
     (layer \<noteq> [] \<and> (\<forall>x \<in> set layer. set (graph x) \<subseteq> done_ids) \<and>
      layered graph (done_ids \<union> set layer) layers)"

definition degree :: "(string \<Rightarrow> int option) \<Rightarrow> string \<Rightarrow> int" where
  "degree deg x = (case deg x of None \<Rightarrow> 0 | Some i \<Rightarrow> i)"

lemma degree_upd [simp]: "degree (deg(x \<mapsto> i)) y = (if y = x then i else degree deg y)"
  by (simp add: degree_def)

lemma release_eq:
  "release (d # ds) deg q = release ds (deg(d \<mapsto> degree deg d - 1)) (if degree deg d = 1 then q @ [d] else q)"
  by (simp add: degree_def Let_def)

text \<open>A release subtracts from every degree how often the id is released and enqueues those that reach 0.\<close>

lemma release_spec:
  assumes "release ds deg q = (deg', q')" and "\<And>x. x \<in> set ds \<Longrightarrow> int (count_list ds x) \<le> degree deg x"
    and "distinct q" and "\<And>x. x \<in> set q \<Longrightarrow> degree deg x = 0"
  shows "(\<forall>x. degree deg' x = degree deg x - int (count_list ds x)) \<and> distinct q' \<and>
    set q' = set q \<union> {x \<in> set ds. degree deg x = int (count_list ds x)}"
  using assms
proof (induction ds arbitrary: deg q)
  case (Cons d ds)
  let ?deg = "deg(d \<mapsto> degree deg d - 1)" and ?q = "if degree deg d = 1 then q @ [d] else q"
  have dq: "d \<notin> set q" using Cons.prems(2) [of d] Cons.prems(4) [of d] by auto
  have r: "release ds ?deg ?q = (deg', q')" using Cons.prems(1) unfolding release_eq .
  have le: "int (count_list ds x) \<le> degree ?deg x" if "x \<in> set ds" for x
    using Cons.prems(2) [of x] that by (auto split: if_splits)
  have z: "degree ?deg x = 0" if "x \<in> set ?q" for x
    using Cons.prems(4) [of x] that dq by (auto split: if_splits)
  have dist: "distinct ?q" using Cons.prems(3) dq by simp
  have last: "d \<notin> set ds" if "degree deg d = 1"
    using Cons.prems(2) [of d] that count_list_0_iff [of ds d] by simp
  from Cons.IH [OF r le dist z] last show ?case by (auto simp: count_list_0_iff simp del: fun_upd_apply)
qed auto

lemma release_layer_release:
  "release_layer deps tids deg q = release (concat (map deps tids)) deg q"
proof -
  have append: "release (xs @ ys) deg q = (let (deg, q) = release xs deg q in release ys deg q)" for xs ys deg q
    by (induction xs arbitrary: deg q) (auto simp: Let_def)
  show ?thesis by (induction tids arbitrary: deg q) (auto simp: append split: prod.splits)
qed

lemma map_of_distinct_ids:
  assumes "distinct (map st_id tasks)" and "t \<in> set tasks"
  shows "map_of (rev (map (\<lambda>t. (st_id t, f t)) tasks)) (st_id t) = Some (f t)"
proof (rule map_of_is_SomeI)
  have "map fst (rev (map (\<lambda>t. (st_id t, f t)) tasks)) = rev (map st_id tasks)"
    by (simp add: rev_map comp_def)
  then show "distinct (map fst (rev (map (\<lambda>t. (st_id t, f t)) tasks)))" using assms(1) by simp
qed (use assms(2) in simp)

lemma map_of_no_id:
  "x \<notin> st_id ` set tasks \<Longrightarrow> map_of (rev (map (\<lambda>t. (st_id t, f t)) tasks)) x = None"
  by (force simp: map_of_eq_None_iff)

lemma task_graph_id:
  "distinct (map st_id tasks) \<Longrightarrow> t \<in> set tasks \<Longrightarrow> task_graph tasks (st_id t) = st_depends_on t"
  by (simp add: task_graph_def map_of_distinct_ids)

lemma task_graph_no_id: "x \<notin> st_id ` set tasks \<Longrightarrow> task_graph tasks x = []"
  by (simp add: task_graph_def map_of_no_id)

lemma in_degrees_graph:
  assumes "distinct (map st_id tasks)"
  shows "degree (in_degrees tasks) x = int (length (task_graph tasks x))"
proof (cases "x \<in> st_id ` set tasks")
  case True
  then obtain t where "t \<in> set tasks" "x = st_id t" by auto
  then show ?thesis using assms by (simp add: degree_def in_degrees_def map_of_distinct_ids task_graph_id)
qed (simp add: degree_def in_degrees_def map_of_no_id task_graph_no_id)

lemma count_dependents:
  assumes "distinct (map st_id tasks)"
  shows "count_list (dependents tasks d) x = count_list (task_graph tasks x) d"
proof -
  have c: "count_list (map (\<lambda>_. st_id t) (filter (\<lambda>e. e = d) ds)) x = (if x = st_id t then count_list ds d else 0)"
    for t x ds by (induction ds) auto
  show ?thesis
  proof (cases "x \<in> st_id ` set tasks")
    case True
    then obtain ts t us where s: "tasks = ts @ t # us" "x = st_id t" by (auto dest: split_list)
    with assms have "x \<notin> st_id ` set ts" "x \<notin> st_id ` set us" by auto
    moreover have "x \<notin> st_id ` set us \<Longrightarrow> count_list (dependents us d) x = 0" for us
      by (induction us) (auto simp: dependents_def c)
    ultimately have "count_list (dependents tasks d) x = count_list (st_depends_on t) d"
      by (simp add: s dependents_def c)
    then show ?thesis using task_graph_id [OF assms, of t] s by simp
  next
    case False
    then show ?thesis by (induction tasks) (auto simp: dependents_def c task_graph_no_id)
  qed
qed

definition layer_inv ::
    "(string \<Rightarrow> string list) \<Rightarrow> string set \<Rightarrow> (string \<Rightarrow> int option) \<Rightarrow> string set \<Rightarrow> string list \<Rightarrow> bool" where
  "layer_inv graph ids deg done_ids queue \<longleftrightarrow> distinct queue \<and> done_ids \<subseteq> ids \<and>
     (\<forall>x \<in> done_ids. set (graph x) \<subseteq> done_ids) \<and>
     set queue = {x \<in> ids. x \<notin> done_ids \<and> set (graph x) \<subseteq> done_ids} \<and>
     (\<forall>x. degree deg x = int (length (filter (\<lambda>d. d \<notin> done_ids) (graph x))))"

lemma count_concat_dependents:
  assumes "\<And>d x. count_list (deps d) x = count_list (graph x) d" and "distinct queue"
  shows "count_list (concat (map deps queue)) x = length (filter (\<lambda>d. d \<in> set queue) (graph x))"
  using assms(2)
proof (induction queue)
  case (Cons d queue)
  have "length (filter (\<lambda>e. e \<in> set (d # queue)) ys) = count_list ys d + length (filter (\<lambda>e. e \<in> set queue) ys)"
    for ys using Cons.prems by (induction ys) auto
  with Cons show ?case by (simp add: assms(1))
qed simp

text \<open>One round keeps the invariant.\<close>

lemma layer_step:
  assumes inv: "layer_inv graph ids deg done_ids queue"
    and deps: "\<And>d x. count_list (deps d) x = count_list (graph x) d"
    and closed: "\<And>x. graph x \<noteq> [] \<Longrightarrow> x \<in> ids"
    and r: "release_layer deps queue deg [] = (deg', queue')"
  shows "layer_inv graph ids deg' (done_ids \<union> set queue) queue'"
proof -
  let ?ds = "concat (map deps queue)"
  have cnt: "count_list ?ds x = length (filter (\<lambda>d. d \<in> set queue) (graph x))" for x
    using count_concat_dependents [OF deps] inv by (simp add: layer_inv_def)
  have split: "length (filter (\<lambda>d. d \<notin> done_ids) ys) =
      length (filter (\<lambda>d. d \<in> set queue) ys) + length (filter (\<lambda>d. d \<notin> done_ids \<union> set queue) ys)" for ys
    using inv by (induction ys) (auto simp: layer_inv_def)
  have deg: "degree deg x = int (count_list ?ds x) + int (length (filter (\<lambda>d. d \<notin> done_ids \<union> set queue) (graph x)))"
    for x using inv split [of "graph x"] cnt [of x] unfolding layer_inv_def by simp
  have "release ?ds deg [] = (deg', queue')" using r by (simp add: release_layer_release)
  from release_spec [OF this] deg
  have r': "degree deg' x = degree deg x - int (count_list ?ds x)" "distinct queue'"
    "set queue' = {x \<in> set ?ds. degree deg x = int (count_list ?ds x)}" for x
    by auto
  have new: "x \<in> set ?ds \<longleftrightarrow> set (graph x) \<inter> set queue \<noteq> {}" for x
    using cnt [of x] count_list_0_iff [of ?ds x] by (auto simp: filter_empty_conv)
  have zero: "degree deg x = int (count_list ?ds x) \<longleftrightarrow> set (graph x) \<subseteq> done_ids \<union> set queue" for x
    unfolding deg by (auto simp: filter_empty_conv)
  have "set queue' = {x \<in> ids. x \<notin> done_ids \<union> set queue \<and> set (graph x) \<subseteq> done_ids \<union> set queue}"
    unfolding r'(3)
  proof (intro set_eqI iffI)
    fix x assume "x \<in> {x \<in> set ?ds. degree deg x = int (count_list ?ds x)}"
    then have x: "set (graph x) \<inter> set queue \<noteq> {}" "set (graph x) \<subseteq> done_ids \<union> set queue"
      using new zero by auto
    moreover have "x \<in> ids" using x(1) closed [of x] by (cases "graph x = []") auto
    moreover have "x \<notin> set queue" using x(1) inv by (auto simp: layer_inv_def)
    moreover have "x \<notin> done_ids" using x(1) inv by (auto simp: layer_inv_def)
    ultimately show "x \<in> {x \<in> ids. x \<notin> done_ids \<union> set queue \<and> set (graph x) \<subseteq> done_ids \<union> set queue}" by auto
  next
    fix x assume x: "x \<in> {x \<in> ids. x \<notin> done_ids \<union> set queue \<and> set (graph x) \<subseteq> done_ids \<union> set queue}"
    then have "\<not> set (graph x) \<subseteq> done_ids" using inv by (auto simp: layer_inv_def)
    with x show "x \<in> {x \<in> set ?ds. degree deg x = int (count_list ?ds x)}" using new zero by auto
  qed
  then show ?thesis using r' inv deg by (auto simp: layer_inv_def)
qed

lemma layer_loop_spec:
  assumes deps: "\<And>d x. count_list (deps d) x = count_list (graph x) d"
    and closed: "\<And>x. graph x \<noteq> [] \<Longrightarrow> x \<in> ids" and fin: "finite ids"
  shows "layer_inv graph ids deg done_ids queue \<Longrightarrow> card (ids - done_ids) \<le> n \<Longrightarrow>
    \<exists>layers. layer_loop n deps deg queue = Some layers \<and> layered graph done_ids layers \<and>
      distinct (concat layers) \<and> set (concat layers) \<subseteq> ids - done_ids \<and>
      (\<forall>x \<in> ids - done_ids - set (concat layers). \<not> set (graph x) \<subseteq> done_ids \<union> set (concat layers))"
proof (induction n arbitrary: deg done_ids queue)
  case 0
  then have "ids - done_ids = {}" using fin by simp
  with 0 have "queue = []" by (auto simp: layer_inv_def simp flip: set_empty)
  with \<open>ids - done_ids = {}\<close> show ?case by auto
next
  case (Suc n)
  show ?case
  proof (cases queue)
    case Nil
    with Suc.prems show ?thesis by (auto simp: layer_inv_def)
  next
    case (Cons q qs)
    obtain deg' queue' where r: "release_layer deps queue deg [] = (deg', queue')" by fastforce
    have inv': "layer_inv graph ids deg' (done_ids \<union> set queue) queue'"
      by (rule layer_step [OF Suc.prems(1) deps closed r])
    have q: "set queue \<subseteq> ids - done_ids" using Suc.prems(1) by (auto simp: layer_inv_def)
    then have "card (ids - (done_ids \<union> set queue)) < card (ids - done_ids)"
      using fin Cons by (intro psubset_card_mono) auto
    with Suc.prems(2) have "card (ids - (done_ids \<union> set queue)) \<le> n" by simp
    from Suc.IH [OF inv' this] obtain layers where l: "layer_loop n deps deg' queue' = Some layers"
      "layered graph (done_ids \<union> set queue) layers" "distinct (concat layers)"
      "set (concat layers) \<subseteq> ids - (done_ids \<union> set queue)"
      "\<forall>x \<in> ids - (done_ids \<union> set queue) - set (concat layers).
         \<not> set (graph x) \<subseteq> done_ids \<union> set queue \<union> set (concat layers)" by blast
    have loop: "layer_loop (Suc n) deps deg queue = Some (queue # layers)" using Cons r l(1) by simp
    have "queue \<noteq> []" "\<forall>x \<in> set queue. set (graph x) \<subseteq> done_ids"
      using Cons Suc.prems(1) by (simp, auto simp: layer_inv_def)
    then have "layered graph done_ids (queue # layers)" using l(2) by simp
    moreover have "distinct (concat (queue # layers))" using l(3,4) Suc.prems(1) by (auto simp: layer_inv_def)
    moreover have "set (concat (queue # layers)) \<subseteq> ids - done_ids" using l(4) q by auto
    moreover have "ids - done_ids - set (concat (queue # layers)) =
        ids - (done_ids \<union> set queue) - set (concat layers)"
      "done_ids \<union> set (concat (queue # layers)) = done_ids \<union> set queue \<union> set (concat layers)" by auto
    ultimately show ?thesis using loop l(5) by metis
  qed
qed

text \<open>If the layers hold every id, the dependencies have no cycle; if they do not, what is left has one.\<close>

lemma layered_acyclic:
  assumes "layered graph done_ids layers" and "\<forall>x \<in> done_ids. set (graph x) \<subseteq> done_ids \<and> (x, x) \<notin> (edges graph)\<^sup>+"
    and "set (concat layers) \<inter> done_ids = {}" and "distinct (concat layers)"
  shows "\<forall>x \<in> done_ids \<union> set (concat layers). (x, x) \<notin> (edges graph)\<^sup>+"
  using assms
proof (induction graph done_ids layers rule: layered.induct)
  case (2 graph done_ids layer layers)
  have stay: "b \<in> done_ids" if "(a, b) \<in> (edges graph)\<^sup>*" "a \<in> done_ids" for a b
    using that by (induction rule: rtrancl_induct) (use 2(3) in \<open>auto simp: edges_def\<close>)
  have "(x, x) \<notin> (edges graph)\<^sup>+" if "x \<in> set layer" for x
  proof
    assume "(x, x) \<in> (edges graph)\<^sup>+"
    then obtain y where y: "y \<in> set (graph x)" "(y, x) \<in> (edges graph)\<^sup>*"
      by (auto dest!: tranclD simp: edges_def)
    then have "x \<in> done_ids" using stay that 2(2) by auto
    with that 2(4) show False by auto
  qed
  moreover have "(set (concat layers)) \<inter> (done_ids \<union> set layer) = {}" using 2(4,5) by auto
  moreover have "\<forall>x \<in> done_ids \<union> set layer. set (graph x) \<subseteq> done_ids \<union> set layer"
    using 2(2,3) by auto
  ultimately have "\<forall>x \<in> (done_ids \<union> set layer) \<union> set (concat layers). (x, x) \<notin> (edges graph)\<^sup>+"
    using 2(2,3,5) by (intro 2(1)) auto
  then show ?case by (simp only: concat.simps set_append Un_assoc)
qed simp

lemma left_over_cyclic:
  assumes "finite ids" and "acyclic (edges graph)" and "\<And>x. set (graph x) \<subseteq> ids"
    and "\<forall>x \<in> ids - done_ids. \<not> set (graph x) \<subseteq> done_ids"
  shows "ids \<subseteq> done_ids"
proof (rule ccontr)
  let ?r = "{(b, a). (a, b) \<in> edges graph \<and> a \<in> ids}"
  assume "\<not> ids \<subseteq> done_ids"
  then obtain x where x: "x \<in> ids - done_ids" by auto
  have "?r \<subseteq> ids \<times> ids"
  proof
    fix e assume "e \<in> ?r"
    then obtain a b where e: "e = (b, a)" "b \<in> set (graph a)" "a \<in> ids" by (auto simp: edges_def)
    then show "e \<in> ids \<times> ids" using assms(3) [of a] by auto
  qed
  then have "finite ?r" using assms(1) by (meson finite_SigmaI finite_subset)
  moreover have "acyclic ((edges graph)\<inverse>)" using assms(2) by (simp add: acyclic_converse)
  then have "acyclic ?r" by (rule acyclic_subset) auto
  ultimately have "wf ?r" by (rule finite_acyclic_wf)
  then obtain z where z: "z \<in> ids - done_ids" "\<And>y. (y, z) \<in> ?r \<Longrightarrow> y \<notin> ids - done_ids"
    using x by (rule wfE_min) blast
  have "y \<in> done_ids" if "y \<in> set (graph z)" for y
    using z(2) [of y] z(1) that assms(3) [of z] by (auto simp: edges_def)
  then have "set (graph z) \<subseteq> done_ids" by blast
  with z(1) assms(4) show False by blast
qed

lemma topological_layers_cases:
  assumes "distinct (map st_id tasks)" and "deps_known tasks"
  shows "case topological_layers tasks of
     Inr layers \<Rightarrow> layered (task_graph tasks) {} layers \<and> distinct (concat layers) \<and>
       set (concat layers) = st_id ` set tasks \<and> acyclic (edges (task_graph tasks))
   | Inl (Cycle_Left k n) \<Rightarrow> k < n \<and> n = length tasks \<and> \<not> acyclic (edges (task_graph tasks))
   | Inl _ \<Rightarrow> False"
proof -
  let ?g = "task_graph tasks" and ?ids = "st_id ` set tasks"
  let ?q = "filter (\<lambda>tid. in_degrees tasks tid = Some 0) (task_ids tasks)"
  have closed: "x \<in> ?ids" if "?g x \<noteq> []" for x using that task_graph_no_id by metis
  have "in_degrees tasks x = Some 0 \<longleftrightarrow> ?g x = []" if "x \<in> ?ids" for x
    using that assms(1) by (auto simp: in_degrees_def map_of_distinct_ids task_graph_id)
  then have inv: "layer_inv ?g ?ids (in_degrees tasks) {} ?q"
    using in_degrees_graph [OF assms(1)] by (auto simp: layer_inv_def)
  have n: "card ?ids = length tasks" using assms(1) distinct_card by fastforce
  obtain layers where l: "layer_loop (length tasks) (dependents tasks) (in_degrees tasks) ?q = Some layers"
      "layered ?g {} layers" "distinct (concat layers)" "set (concat layers) \<subseteq> ?ids"
      "\<forall>x \<in> ?ids - set (concat layers). \<not> set (?g x) \<subseteq> set (concat layers)"
    using layer_loop_spec [OF count_dependents [OF assms(1)] closed _ inv, of "length tasks"] n by auto
  have c: "length (concat layers) = card (set (concat layers))" using distinct_card [OF l(3)] ..
  have le: "length (concat layers) \<le> length tasks" unfolding c n [symmetric] using l(4) by (intro card_mono) auto
  have all: "set (concat layers) = ?ids" if "length (concat layers) = length tasks"
    using card_subset_eq [of ?ids "set (concat layers)"] l(4) that c n by simp
  have some: "length (concat layers) = length tasks" if "acyclic (edges ?g)"
  proof -
    have "?ids \<subseteq> set (concat layers)"
      using left_over_cyclic [OF _ that task_graph_closed [OF assms(2)] l(5)] by simp
    with l(4) c n show ?thesis by (metis subset_antisym)
  qed
  show ?thesis
  proof (cases "length (concat layers) = length tasks")
    case True
    have "acyclic (edges ?g)"
    proof (rule acyclicI, rule allI, rule notI)
      fix x assume x: "(x, x) \<in> (edges ?g)\<^sup>+"
      then have "?g x \<noteq> []" by (auto dest!: tranclD simp: edges_def)
      then have "x \<in> set (concat layers)" using closed all [OF True] by blast
      with layered_acyclic [OF l(2) _ _ l(3)] x show False by auto
    qed
    with l all [OF True] True show ?thesis by (simp add: topological_layers_def Let_def)
  next
    case False
    with some le l(1) show ?thesis by (auto simp: topological_layers_def Let_def)
  qed
qed

end
