(* ===== verification/Swarm_Runs.thy ===== *)
theory Swarm_Runs
  imports Swarm_Runtime Swarm_Dag
begin

text \<open>
  What the scheduler does to the statuses of the tasks. The proofs only look at the signature of a task,
  its status, its summary and, while it is blocked, the ids that block it.
\<close>

section \<open>Signatures\<close>

type_synonym signature = "task_status \<times> string list \<times> string option"

definition task_sig :: "swarm_task \<Rightarrow> signature" where
  "task_sig t = (st_status t, if st_status t = Blocked_Task then st_blocked_by t else [], st_summary t)"

definition sig_at :: "task_store \<Rightarrow> string \<Rightarrow> signature option" where
  "sig_at store x = map_option task_sig (map_of store x)"

text \<open>The store holds exactly the tasks of the run; ids, dependencies and agents never change.\<close>

definition stored :: "swarm_task list \<Rightarrow> task_store \<Rightarrow> bool" where
  "stored tasks store \<longleftrightarrow> distinct (map fst store) \<and> fst ` set store = st_id ` set tasks \<and>
     (\<forall>x t. map_of store x = Some t \<longrightarrow> (\<exists>t0 \<in> set tasks. st_id t0 = x \<and> st_id t = x \<and>
        st_depends_on t = st_depends_on t0 \<and> st_agent_id t = st_agent_id t0 \<and> st_input_from t = st_input_from t0))"

lemma update_keys [simp]: "fst ` set (AList.update k v al) = insert k (fst ` set al)"
  by (induction al) auto

lemma update_subset: "set (AList.update k v al) \<subseteq> insert (k, v) (set al)"
  by (induction al) auto

lemma save_task_map [simp]: "map_of (save_task t store) = (map_of store)(st_id t \<mapsto> t)"
  by (simp add: save_task_def update_conv')

lemma stored_some: "stored tasks store \<Longrightarrow> x \<in> st_id ` set tasks \<Longrightarrow> \<exists>t. map_of store x = Some t"
  unfolding stored_def by (metis map_of_eq_None_iff not_None_eq)

lemma stored_save:
  assumes "stored tasks store" and "map_of store x = Some t" and "st_id t' = x"
    and "st_depends_on t' = st_depends_on t" "st_agent_id t' = st_agent_id t" "st_input_from t' = st_input_from t"
  shows "stored tasks (save_task t' store)"
proof -
  have x: "x \<in> fst ` set store" using assms(2) by (force dest: map_of_SomeD)
  have "distinct (map fst (save_task t' store))"
    using assms(1) by (simp add: save_task_def stored_def distinct_update)
  moreover have "fst ` set (save_task t' store) = fst ` set store"
    using x assms(3) by (auto simp: save_task_def update_conv' simp flip: dom_map_of_conv_image_fst)
  moreover have "\<exists>t0 \<in> set tasks. st_id t0 = x \<and> st_depends_on t = st_depends_on t0 \<and>
      st_agent_id t = st_agent_id t0 \<and> st_input_from t = st_input_from t0"
    using assms(1,2) unfolding stored_def by blast
  ultimately show ?thesis using assms unfolding stored_def by (auto simp: fun_upd_def)
qed

lemma update_task_Some:
  "map_of store x = Some t \<Longrightarrow>
   update_task x status f store = Inr (f (t\<lparr>st_status := status\<rparr>), save_task (f (t\<lparr>st_status := status\<rparr>)) store)"
  by (simp add: update_task_def load_task_def Let_def)

lemma resolve_map: "map_of (snd (resolve_dependencies c store)) x = map_option (unblock c) (map_of store x)"
  unfolding resolve_dependencies_def by (induction store) (auto split: prod.splits)

lemma unblock_frame [simp]:
  "st_id (unblock c t) = st_id t" "st_depends_on (unblock c t) = st_depends_on t"
  "st_agent_id (unblock c t) = st_agent_id t" "st_input_from (unblock c t) = st_input_from t"
  "st_summary (unblock c t) = st_summary t"
  by (simp_all add: unblock_def Let_def)

lemma unblock_other: "st_status t \<noteq> Blocked_Task \<Longrightarrow> task_sig (unblock c t) = task_sig t"
  by (simp add: unblock_def task_sig_def Let_def)

lemma unblock_away: "c \<notin> set (st_blocked_by t) \<Longrightarrow> unblock c t = t"
  by (simp add: unblock_def)

lemma stored_resolve:
  assumes "stored tasks store"
  shows "stored tasks (snd (resolve_dependencies c store))"
proof -
  have k: "map fst (snd (resolve_dependencies c store)) = map fst store"
    by (induction store) (auto simp: resolve_dependencies_def)
  then have "fst ` set (snd (resolve_dependencies c store)) = fst ` set store" by (metis list.set_map)
  with k assms show ?thesis by (auto simp: stored_def resolve_map)
qed

text \<open>A resolved id leaves alone every task that is not blocked by it.\<close>

lemma sig_resolve:
  assumes "\<And>bs s. sig_at store x = Some (Blocked_Task, bs, s) \<Longrightarrow> c \<notin> set bs"
  shows "sig_at (snd (resolve_dependencies c store)) x = sig_at store x"
proof (cases "map_of store x")
  case (Some t)
  show ?thesis
  proof (cases "st_status t = Blocked_Task")
    case True
    with Some assms have "c \<notin> set (st_blocked_by t)" by (simp add: sig_at_def task_sig_def)
    with Some show ?thesis by (simp add: sig_at_def resolve_map unblock_away)
  qed (simp add: Some sig_at_def resolve_map unblock_other)
qed (simp add: sig_at_def resolve_map)

section \<open>Dispatch\<close>

text \<open>Whether all dependencies of a task are completed.\<close>

definition completed_at :: "task_store \<Rightarrow> string \<Rightarrow> bool" where
  "completed_at store x \<longleftrightarrow> (\<exists>s. sig_at store x = Some (Completed, [], s))"

lemma completed_at_iff: "completed_at store x \<longleftrightarrow> (\<exists>t. map_of store x = Some t \<and> st_status t = Completed)"
  by (cases "map_of store x") (auto simp: completed_at_def sig_at_def task_sig_def)

lemma completed_resolve [simp]: "completed_at (snd (resolve_dependencies c store)) x = completed_at store x"
proof -
  have "st_status (unblock c t) = Completed \<longleftrightarrow> st_status t = Completed" for t
    by (simp add: unblock_def Let_def)
  then show ?thesis by (auto simp: completed_at_iff resolve_map)
qed

lemma completed_at_cong: "sig_at store' x = sig_at store x \<Longrightarrow> completed_at store' x = completed_at store x"
  by (simp add: completed_at_def)

definition upstream_done :: "swarm_task list \<Rightarrow> task_store \<Rightarrow> string \<Rightarrow> bool" where
  "upstream_done tasks store x \<longleftrightarrow> (\<forall>d \<in> set (task_graph tasks x). completed_at store d)"

lemma blocked_upstreams_spec:
  "set (map fst (blocked_upstreams store deps)) = {d \<in> set deps. \<not> completed_at store d}"
  by (induction deps)
    (auto simp: blocked_upstreams_def load_task_def completed_at_iff split: option.splits)

lemma stored_task:
  assumes "stored tasks store" and "distinct (map st_id tasks)" and "map_of store x = Some t"
  shows "st_id t = x" and "st_depends_on t = task_graph tasks x"
  using assms task_graph_id unfolding stored_def by fastforce+

text \<open>The agent that is to work on a task, if it is known.\<close>

definition agent_for :: "swarm_run \<Rightarrow> swarm_task list \<Rightarrow> string \<Rightarrow> agent_spec option" where
  "agent_for r tasks x =
     (case find (\<lambda>t. st_id t = x) tasks of None \<Rightarrow> None | Some t \<Rightarrow> agent_map r (st_agent_id t))"

lemma find_id:
  "distinct (map st_id tasks) \<Longrightarrow> t \<in> set tasks \<Longrightarrow> find (\<lambda>u. st_id u = st_id t) tasks = Some t"
  by (induction tasks) (auto simp: image_iff)

lemma stored_agent:
  assumes "stored tasks store" and "distinct (map st_id tasks)" and "map_of store x = Some t"
  shows "agent_map r (st_agent_id t) = agent_for r tasks x"
proof -
  obtain t0 where "t0 \<in> set tasks" "st_id t0 = x" "st_agent_id t = st_agent_id t0"
    using assms(1,3) unfolding stored_def by blast
  then show ?thesis using find_id [OF assms(2), of t0] by (simp add: agent_for_def)
qed

definition same_progress :: "swarm_world \<Rightarrow> swarm_world \<Rightarrow> bool" where
  "same_progress w w' \<longleftrightarrow> sx_run w' = sx_run w \<and> sx_summaries w' = sx_summaries w \<and>
     sx_all_succeeded w' = sx_all_succeeded w \<and> sx_boundary w' = sx_boundary w"

definition dispatchable :: "swarm_run \<Rightarrow> swarm_task list \<Rightarrow> task_store \<Rightarrow> string \<Rightarrow> bool" where
  "dispatchable r tasks store x \<longleftrightarrow> upstream_done tasks store x \<and> agent_for r tasks x \<noteq> None"

text \<open>What the worker of a task answered in the end.\<close>

definition worker_said ::
    "swarm_env \<Rightarrow> swarm_run \<Rightarrow> swarm_task list \<Rightarrow> (string \<times> (string \<times> string) list) list \<Rightarrow> string \<Rightarrow>
     string + worker_result option \<Rightarrow> bool" where
  "worker_said e r tasks calls x out \<longleftrightarrow> (\<exists>a t upstream. agent_for r tasks x = Some a \<and> st_id t = x \<and>
     (x, upstream) \<in> set calls \<and> out = snd (run_worker_with_retries e a t upstream))"

lemma set_task_Some:
  assumes "stored tasks (sx_store w)" and "map_of (sx_store w) x = Some t"
    and f: "\<And>t. st_id (f t) = st_id t" "\<And>t. st_depends_on (f t) = st_depends_on t"
      "\<And>t. st_agent_id (f t) = st_agent_id t" "\<And>t. st_input_from (f t) = st_input_from t"
      "\<And>t. st_status (f t) = st_status t"
  shows "\<exists>store'. set_task x status f w = (Inr (), w\<lparr>sx_store := store'\<rparr>) \<and> stored tasks store' \<and>
    (\<forall>y. y \<noteq> x \<longrightarrow> sig_at store' y = sig_at (sx_store w) y) \<and>
    sig_at store' x = Some (status, if status = Blocked_Task then st_blocked_by (f (t\<lparr>st_status := status\<rparr>)) else [],
      st_summary (f (t\<lparr>st_status := status\<rparr>)))"
proof -
  let ?t = "f (t\<lparr>st_status := status\<rparr>)"
  have "st_id t = x" using assms(1,2) unfolding stored_def by blast
  then have "st_id ?t = x" by (simp add: f)
  moreover from this have "stored tasks (save_task ?t (sx_store w))"
    by (intro stored_save [OF assms(1,2)]) (simp_all add: f)
  moreover have "sig_at (save_task ?t (sx_store w)) y = (if y = x then Some (task_sig ?t) else sig_at (sx_store w) y)" for y
    using calculation(1) by (simp add: sig_at_def)
  ultimately show ?thesis
    by (intro exI [of _ "save_task ?t (sx_store w)"]) (simp add: set_task_def update_task_Some [OF assms(2)] task_sig_def f)
qed

lemma dispatch_task_spec:
  assumes st: "stored tasks (sx_store w)" and dist: "distinct (map st_id tasks)" and x: "x \<in> st_id ` set tasks"
  shows "\<exists>ly' w'. dispatch_task e x ly w = (Inr ly', w') \<and> same_progress w w' \<and> stored tasks (sx_store w') \<and>
    (\<forall>y. y \<noteq> x \<longrightarrow> sig_at (sx_store w') y = sig_at (sx_store w) y) \<and>
    (if \<not> upstream_done tasks (sx_store w) x
     then ly' = ly \<and> sx_calls w' = sx_calls w \<and> (\<exists>bs s. sig_at (sx_store w') x = Some (Blocked_Task, bs, s) \<and>
        bs \<noteq> [] \<and> set bs \<subseteq> set (task_graph tasks x))
     else case agent_for (sx_run w) tasks x of
       None \<Rightarrow> sx_calls w' = sx_calls w \<and> (\<exists>msg.
         ly' = ly\<lparr>ly_results := AList.update x (Some (failed_result Worker_Failed msg)) (ly_results ly)\<rparr>)
     | Some a \<Rightarrow> (\<exists>t upstream n. st_id t = x \<and> sx_calls w' = sx_calls w @ [(x, upstream)] \<and>
         ly' = ly\<lparr>ly_futures := ly_futures ly @ [(x, run_worker_with_retries e a t upstream)], ly_budget := n\<rparr>))"
proof -
  obtain t where t: "map_of (sx_store w) x = Some t" using stored_some [OF st x] by blast
  have g: "st_id t = x" "st_depends_on t = task_graph tasks x" using stored_task [OF st dist t] by simp_all
  have ag: "agent_map (sx_run w) (st_agent_id t) = agent_for (sx_run w) tasks x" by (rule stored_agent [OF st dist t])
  let ?bs = "blocked_upstreams (sx_store w) (st_depends_on t)"
  have bs: "set (map fst ?bs) = {d \<in> set (task_graph tasks x). \<not> completed_at (sx_store w) d}"
    using blocked_upstreams_spec g(2) by simp
  then have up: "upstream_done tasks (sx_store w) x \<longleftrightarrow> ?bs = []"
    unfolding upstream_done_def by (cases ?bs) auto
  have get: "get_task x w = (Inr t, w)" using t by (simp add: get_task_def load_task_def)
  show ?thesis
  proof (cases "?bs = []")
    case False
    let ?f = "\<lambda>u. u\<lparr>st_error := Some (''Blocked: upstream not completed ('' @ blocked_reason ?bs @ '')''),
         st_blocked_by := map fst ?bs, st_completed_at := Some (clock e w)\<rparr>"
    obtain store' where s: "set_task x Blocked_Task ?f w = (Inr (), w\<lparr>sx_store := store'\<rparr>)" "stored tasks store'"
      "\<forall>y. y \<noteq> x \<longrightarrow> sig_at store' y = sig_at (sx_store w) y"
      "sig_at store' x = Some (Blocked_Task, map fst ?bs, st_summary t)"
      using set_task_Some [OF st t, of ?f Blocked_Task] by auto
    have "dispatch_task e x ly w = (Inr ly, w\<lparr>sx_store := store',
        sx_events := sx_events w @ [Task_Blocked (st_agent_id t) x (map fst ?bs)]\<rparr>)"
      using False s(1) get by (simp add: dispatch_task_def wbind_def block_task_def emit_def Let_def)
    with s False up bs show ?thesis by (auto simp: same_progress_def)
  next
    case True
    show ?thesis
    proof (cases "agent_for (sx_run w) tasks x")
      case None
      then have "dispatch_task e x ly w = (Inr (ly\<lparr>ly_results := AList.update x (Some (failed_result Worker_Failed
          (''Agent '' @ st_agent_id t @ '' not found in presets''))) (ly_results ly)\<rparr>), w)"
        using True ag get by (simp add: dispatch_task_def wbind_def Let_def)
      with None True up st show ?thesis by (auto simp: same_progress_def)
    next
      case (Some a)
      let ?f = "\<lambda>u. u\<lparr>st_started_at := Some (clock e w)\<rparr>"
      obtain store' where s: "set_task x In_Progress ?f w = (Inr (), w\<lparr>sx_store := store'\<rparr>)" "stored tasks store'"
        "\<forall>y. y \<noteq> x \<longrightarrow> sig_at store' y = sig_at (sx_store w) y"
        using set_task_Some [OF st t, of ?f In_Progress] by auto
      have "dispatch_task e x ly w = (Inr (ly\<lparr>
            ly_futures := ly_futures ly @ [(x, run_worker_with_retries e a t (upstream_of t (sx_summaries w)))],
            ly_budget := max (ly_budget ly) (ag_timeout_seconds a * (ag_max_retries a + 1))\<rparr>),
          w\<lparr>sx_store := store', sx_events := sx_events w @ [Task_Started (ag_id a) x],
            sx_calls := sx_calls w @ [(x, upstream_of t (sx_summaries w))]\<rparr>)"
        using True ag get Some s(1)
        by (simp add: dispatch_task_def wbind_def submit_task_def emit_def Let_def)
      with s Some True up g(1) show ?thesis by (auto simp: same_progress_def)
    qed
  qed
qed

lemma upstream_done_cong:
  "(\<And>d. d \<in> set (task_graph tasks x) \<Longrightarrow> sig_at store d = sig_at store' d) \<Longrightarrow>
   upstream_done tasks store x = upstream_done tasks store' x"
  by (simp add: upstream_done_def completed_at_def)

lemma worker_said_mono:
  "worker_said e r tasks calls x out \<Longrightarrow> set calls \<subseteq> set calls' \<Longrightarrow> worker_said e r tasks calls' x out"
  unfolding worker_said_def by blast

text \<open>The results and the workers of a layer, as far as the proofs need them.\<close>

definition layer_ok ::
    "swarm_env \<Rightarrow> swarm_run \<Rightarrow> swarm_task list \<Rightarrow> (string \<times> (string \<times> string) list) list \<Rightarrow> layer_state \<Rightarrow> bool" where
  "layer_ok e r tasks calls ly \<longleftrightarrow> distinct (map fst (ly_results ly)) \<and>
     (\<forall>(x, v) \<in> set (ly_results ly). \<exists>res. v = Some res \<and> wr_status res = Worker_Failed) \<and>
     (\<forall>(x, evs, out) \<in> set (ly_futures ly). worker_said e r tasks calls x out)"

lemma layer_ok_mono:
  "layer_ok e r tasks calls ly \<Longrightarrow> set calls \<subseteq> set calls' \<Longrightarrow> layer_ok e r tasks calls' ly"
  unfolding layer_ok_def by (fastforce intro: worker_said_mono)

lemma layer_ok_result:
  assumes "layer_ok e r tasks calls ly"
  shows "layer_ok e r tasks calls
    (ly\<lparr>ly_results := AList.update x (Some (failed_result Worker_Failed msg)) (ly_results ly)\<rparr>)"
  using assms by (auto simp: layer_ok_def failed_result_def distinct_update dest!: update_subset [THEN subsetD])

lemma dispatch_layer_spec:
  assumes dist: "distinct (map st_id tasks)"
  shows "stored tasks (sx_store w) \<Longrightarrow> distinct tids \<Longrightarrow> set tids \<subseteq> st_id ` set tasks \<Longrightarrow>
    \<forall>x \<in> set tids. set (task_graph tasks x) \<inter> set tids = {} \<Longrightarrow> layer_ok e (sx_run w) tasks (sx_calls w) ly \<Longrightarrow>
    \<exists>ly' w'. dispatch_layer e tids ly w = (Inr ly', w') \<and> same_progress w w' \<and> stored tasks (sx_store w') \<and>
      (\<forall>y. y \<notin> set tids \<longrightarrow> sig_at (sx_store w') y = sig_at (sx_store w) y) \<and>
      (\<forall>x \<in> set tids. \<not> upstream_done tasks (sx_store w) x \<longrightarrow> (\<exists>bs s.
         sig_at (sx_store w') x = Some (Blocked_Task, bs, s) \<and> bs \<noteq> [] \<and> set bs \<subseteq> set (task_graph tasks x))) \<and>
      map fst (sx_calls w') = map fst (sx_calls w) @ filter (dispatchable (sx_run w) tasks (sx_store w)) tids \<and>
      set (sx_calls w) \<subseteq> set (sx_calls w') \<and>
      map fst (ly_futures ly') = map fst (ly_futures ly) @ filter (dispatchable (sx_run w) tasks (sx_store w)) tids \<and>
      fst ` set (ly_results ly') = fst ` set (ly_results ly) \<union>
        {x \<in> set tids. upstream_done tasks (sx_store w) x \<and> agent_for (sx_run w) tasks x = None} \<and>
      layer_ok e (sx_run w) tasks (sx_calls w') ly'"
proof (induction tids arbitrary: w ly)
  case Nil
  then show ?case by (simp add: same_progress_def)
next
  case (Cons x tids)
  have x: "x \<in> st_id ` set tasks" using Cons.prems by simp
  obtain ly1 w1 where d: "dispatch_task e x ly w = (Inr ly1, w1)" "same_progress w w1" "stored tasks (sx_store w1)"
    "\<forall>y. y \<noteq> x \<longrightarrow> sig_at (sx_store w1) y = sig_at (sx_store w) y"
    and c: "if \<not> upstream_done tasks (sx_store w) x
     then ly1 = ly \<and> sx_calls w1 = sx_calls w \<and> (\<exists>bs s. sig_at (sx_store w1) x = Some (Blocked_Task, bs, s) \<and>
        bs \<noteq> [] \<and> set bs \<subseteq> set (task_graph tasks x))
     else case agent_for (sx_run w) tasks x of
       None \<Rightarrow> sx_calls w1 = sx_calls w \<and> (\<exists>msg.
         ly1 = ly\<lparr>ly_results := AList.update x (Some (failed_result Worker_Failed msg)) (ly_results ly)\<rparr>)
     | Some a \<Rightarrow> (\<exists>t upstream n. st_id t = x \<and> sx_calls w1 = sx_calls w @ [(x, upstream)] \<and>
         ly1 = ly\<lparr>ly_futures := ly_futures ly @ [(x, run_worker_with_retries e a t upstream)], ly_budget := n\<rparr>)"
    using dispatch_task_spec [OF Cons.prems(1) dist x, of e ly] by blast
  have run: "sx_run w1 = sx_run w" using d(2) by (simp add: same_progress_def)
  have up: "upstream_done tasks (sx_store w1) y = upstream_done tasks (sx_store w) y" if "y \<in> set tids" for y
    using that Cons.prems(4) d(4) by (intro upstream_done_cong) auto
  then have disp: "filter (dispatchable (sx_run w) tasks (sx_store w1)) tids =
      filter (dispatchable (sx_run w) tasks (sx_store w)) tids"
    by (auto simp: dispatchable_def intro: filter_cong)
  have sub: "set (sx_calls w) \<subseteq> set (sx_calls w1)" using c by (auto split: if_splits option.splits)
  have ok: "layer_ok e (sx_run w) tasks (sx_calls w1) ly1"
  proof (cases "dispatchable (sx_run w) tasks (sx_store w) x")
    case True
    then obtain a t upstream n where "agent_for (sx_run w) tasks x = Some a" "st_id t = x"
      "sx_calls w1 = sx_calls w @ [(x, upstream)]"
      "ly1 = ly\<lparr>ly_futures := ly_futures ly @ [(x, run_worker_with_retries e a t upstream)], ly_budget := n\<rparr>"
      using c by (auto simp: dispatchable_def)
    then show ?thesis using layer_ok_mono [OF Cons.prems(5) sub]
      by (auto simp: layer_ok_def worker_said_def split: prod.splits) (metis snd_conv)
  next
    case False
    then show ?thesis using c Cons.prems(5) layer_ok_result [OF Cons.prems(5)]
      by (auto simp: dispatchable_def split: if_splits option.splits)
  qed
  obtain ly2 w2 where l: "dispatch_layer e tids ly1 w1 = (Inr ly2, w2)" "same_progress w1 w2" "stored tasks (sx_store w2)"
    "\<forall>y. y \<notin> set tids \<longrightarrow> sig_at (sx_store w2) y = sig_at (sx_store w1) y"
    "\<forall>x \<in> set tids. \<not> upstream_done tasks (sx_store w1) x \<longrightarrow> (\<exists>bs s.
         sig_at (sx_store w2) x = Some (Blocked_Task, bs, s) \<and> bs \<noteq> [] \<and> set bs \<subseteq> set (task_graph tasks x))"
    "map fst (sx_calls w2) = map fst (sx_calls w1) @ filter (dispatchable (sx_run w) tasks (sx_store w)) tids"
    "set (sx_calls w1) \<subseteq> set (sx_calls w2)"
    "map fst (ly_futures ly2) = map fst (ly_futures ly1) @ filter (dispatchable (sx_run w) tasks (sx_store w)) tids"
    "fst ` set (ly_results ly2) = fst ` set (ly_results ly1) \<union>
        {x \<in> set tids. upstream_done tasks (sx_store w1) x \<and> agent_for (sx_run w) tasks x = None}"
    "layer_ok e (sx_run w) tasks (sx_calls w2) ly2"
    using Cons.IH [OF d(3), of ly1] Cons.prems ok unfolding run disp by auto
  have "x \<notin> set tids" using Cons.prems(2) by simp
  have "dispatch_layer e (x # tids) ly w = (Inr ly2, w2)" using d(1) l(1) by (simp add: wbind_def)
  moreover have "same_progress w w2" using d(2) l(2) by (simp add: same_progress_def)
  moreover have "\<forall>y. y \<notin> set (x # tids) \<longrightarrow> sig_at (sx_store w2) y = sig_at (sx_store w) y" using d(4) l(4) by simp
  moreover have "\<forall>z \<in> set (x # tids). \<not> upstream_done tasks (sx_store w) z \<longrightarrow> (\<exists>bs s.
      sig_at (sx_store w2) z = Some (Blocked_Task, bs, s) \<and> bs \<noteq> [] \<and> set bs \<subseteq> set (task_graph tasks z))"
    using c l(4,5) up \<open>x \<notin> set tids\<close> by auto
  moreover have "map fst (sx_calls w1) = map fst (sx_calls w) @ filter (dispatchable (sx_run w) tasks (sx_store w)) [x]"
    "map fst (ly_futures ly1) = map fst (ly_futures ly) @ filter (dispatchable (sx_run w) tasks (sx_store w)) [x]"
    "fst ` set (ly_results ly1) = fst ` set (ly_results ly) \<union>
        (if upstream_done tasks (sx_store w) x \<and> agent_for (sx_run w) tasks x = None then {x} else {})"
    using c by (cases "upstream_done tasks (sx_store w) x"; cases "agent_for (sx_run w) tasks x";
        clarsimp simp: dispatchable_def)+
  moreover have "{z \<in> set (x # tids). upstream_done tasks (sx_store w) z \<and> agent_for (sx_run w) tasks z = None} =
      (if upstream_done tasks (sx_store w) x \<and> agent_for (sx_run w) tasks x = None then {x} else {}) \<union>
      {z \<in> set tids. upstream_done tasks (sx_store w1) z \<and> agent_for (sx_run w) tasks z = None}"
    using up by auto
  ultimately show ?case using l sub by (intro exI [of _ ly2] exI [of _ w2]) (auto simp: Un_assoc)
qed

section \<open>The results of a layer\<close>

definition retries_ok :: "swarm_run \<Rightarrow> bool" where
  "retries_ok r \<longleftrightarrow> (\<forall>a \<in> set (sr_agents r). 0 \<le> ag_max_retries a)"

lemma attempts_answer: "0 < n \<or> result \<noteq> None \<Longrightarrow> snd (attempts e a t up n k tin tout result) \<noteq> Inr None"
proof (induction n arbitrary: k tin tout result)
  case (Suc n)
  have "snd (attempts e a t up n k tin tout (Some q)) \<noteq> Inr None" for k tin tout q using Suc.IH by simp
  then show ?case by (auto simp: Let_def prod.case_eq_if split: sum.splits)
qed simp

lemma agent_for_in: "agent_for r tasks x = Some a \<Longrightarrow> a \<in> set (sr_agents r)"
  by (auto simp: agent_for_def agent_map_def split: option.splits dest!: map_of_SomeD)

lemma worker_said_answer:
  assumes "worker_said e r tasks calls x out" and "retries_ok r"
  shows "out \<noteq> Inr None"
proof -
  obtain a t up where "agent_for r tasks x = Some a" and out: "out = snd (run_worker_with_retries e a t up)"
    using assms(1) by (auto simp: worker_said_def)
  then have "0 < nat (ag_max_retries a + 1)" using assms(2) agent_for_in by (fastforce simp: retries_ok_def)
  then show ?thesis unfolding out run_worker_with_retries_def by (intro attempts_answer) blast
qed

definition result_ok ::
    "swarm_env \<Rightarrow> swarm_run \<Rightarrow> swarm_task list \<Rightarrow> (string \<times> (string \<times> string) list) list \<Rightarrow>
     string \<times> worker_result option \<Rightarrow> bool" where
  "result_ok e r tasks calls p \<longleftrightarrow> (\<exists>res. snd p = Some res \<and>
     (wr_status res = Worker_Completed \<longrightarrow> worker_said e r tasks calls (fst p) (Inr (Some res))))"

lemma result_ok_failed [simp]:
  "st \<noteq> Worker_Completed \<Longrightarrow> result_ok e r tasks calls (x, Some (failed_result st msg))"
  by (simp add: result_ok_def failed_result_def)

lemma result_ok_update:
  "result_ok e r tasks calls (x, v) \<Longrightarrow> \<forall>p \<in> set ps. result_ok e r tasks calls p \<Longrightarrow>
   \<forall>p \<in> set (AList.update x v ps). result_ok e r tasks calls p"
  using update_subset [of x v ps] by blast

lemma collect_spec:
  assumes ok: "layer_ok e r tasks calls ly" and retries: "retries_ok r"
  shows "\<forall>p \<in> set results. result_ok e r tasks calls p \<Longrightarrow> distinct (map fst results) \<Longrightarrow>
    \<exists>results' evs. collect tids ly results w = (Inr results', w\<lparr>sx_events := evs\<rparr>) \<and>
      (\<forall>p \<in> set results'. result_ok e r tasks calls p) \<and> distinct (map fst results') \<and>
      fst ` set results' = fst ` set results \<union> (set tids \<inter> fst ` set (ly_futures ly))"
proof (induction tids arbitrary: results w)
  case Nil
  have "\<exists>evs. w = w\<lparr>sx_events := evs\<rparr>" by (rule exI [of _ "sx_events w"]) simp
  with Nil show ?case by auto
next
  case (Cons x tids)
  show ?case
  proof (cases "map_of (ly_futures ly) x")
    case None
    then have "x \<notin> fst ` set (ly_futures ly)" by (simp add: map_of_eq_None_iff)
    with Cons None show ?thesis by simp
  next
    case (Some f)
    obtain evs out where f: "f = (evs, out)" by fastforce
    have x: "x \<in> fst ` set (ly_futures ly)" using map_of_SomeD [OF Some] by force
    have said: "worker_said e r tasks calls x out"
      using ok map_of_SomeD [OF Some] unfolding layer_ok_def f by auto
    let ?v = "case out of Inl msg \<Rightarrow> Some (failed_result Worker_Failed msg) | Inr r \<Rightarrow> r"
    have "result_ok e r tasks calls (x, ?v)"
    proof (cases out)
      case (Inr v)
      with worker_said_answer [OF said retries] obtain res where "v = Some res" by auto
      with said Inr show ?thesis by (simp add: result_ok_def)
    qed simp
    from Cons.IH [OF result_ok_update [OF this Cons.prems(1)] distinct_update [OF Cons.prems(2)],
        of "w\<lparr>sx_events := sx_events w @ evs\<rparr>"] Some f x
    show ?thesis by auto
  qed
qed

lemma time_out_spec:
  assumes "\<forall>p \<in> set results. result_ok e r tasks calls p" "distinct (map fst results)"
  shows "(\<forall>p \<in> set (time_out ly results). result_ok e r tasks calls p) \<and> distinct (map fst (time_out ly results)) \<and>
    fst ` set (time_out ly results) = fst ` set results \<union> fst ` set (ly_futures ly)"
proof -
  let ?f = "\<lambda>tid results. if tid \<in> fst ` set results then results
     else AList.update tid (Some (failed_result Worker_Timeout ''Worker exceeded layer deadline'')) results"
  have "(\<forall>p \<in> set (fold ?f tids results). result_ok e r tasks calls p) \<and> distinct (map fst (fold ?f tids results)) \<and>
      fst ` set (fold ?f tids results) = fst ` set results \<union> set tids" for tids
    using assms
  proof (induction tids arbitrary: results)
    case (Cons x tids)
    have "(\<forall>p \<in> set (?f x results). result_ok e r tasks calls p) \<and> distinct (map fst (?f x results)) \<and>
        fst ` set (?f x results) = insert x (fst ` set results)"
      using Cons.prems result_ok_update [OF result_ok_failed Cons.prems(1), of Worker_Timeout x
          "''Worker exceeded layer deadline''"]
      by (simp add: distinct_update insert_absorb)
    with Cons.IH [of "?f x results"] show ?case by simp
  qed simp
  from this [of "map fst (ly_futures ly)"] show ?thesis by (simp add: time_out_def)
qed

lemma execute_layer_spec:
  assumes dist: "distinct (map st_id tasks)" and retries: "retries_ok (sx_run w)" and st: "stored tasks (sx_store w)"
    and tids: "distinct tids" "set tids \<subseteq> st_id ` set tasks"
      "\<forall>x \<in> set tids. set (task_graph tasks x) \<inter> set tids = {}"
  shows "\<exists>results w'. execute_layer e i tids w = (Inr results, w') \<and> same_progress w w' \<and> stored tasks (sx_store w') \<and>
    (\<forall>y. y \<notin> set tids \<longrightarrow> sig_at (sx_store w') y = sig_at (sx_store w) y) \<and>
    (\<forall>x \<in> set tids. \<not> upstream_done tasks (sx_store w) x \<longrightarrow> (\<exists>bs s.
       sig_at (sx_store w') x = Some (Blocked_Task, bs, s) \<and> bs \<noteq> [] \<and> set bs \<subseteq> set (task_graph tasks x))) \<and>
    map fst (sx_calls w') = map fst (sx_calls w) @ filter (dispatchable (sx_run w) tasks (sx_store w)) tids \<and>
    set (sx_calls w) \<subseteq> set (sx_calls w') \<and>
    distinct (map fst results) \<and> fst ` set results = {x \<in> set tids. upstream_done tasks (sx_store w) x} \<and>
    (\<forall>p \<in> set results. result_ok e (sx_run w) tasks (sx_calls w') p)"
proof -
  let ?ly0 = "\<lparr>ly_results = [], ly_futures = [], ly_budget = 0\<rparr>"
  have "layer_ok e (sx_run w) tasks (sx_calls w) ?ly0" by (simp add: layer_ok_def)
  from dispatch_layer_spec [OF dist st tids this] obtain ly w1 where
    d: "dispatch_layer e tids ?ly0 w = (Inr ly, w1)" "same_progress w w1" "stored tasks (sx_store w1)"
      "\<forall>y. y \<notin> set tids \<longrightarrow> sig_at (sx_store w1) y = sig_at (sx_store w) y"
      "\<forall>x \<in> set tids. \<not> upstream_done tasks (sx_store w) x \<longrightarrow> (\<exists>bs s.
         sig_at (sx_store w1) x = Some (Blocked_Task, bs, s) \<and> bs \<noteq> [] \<and> set bs \<subseteq> set (task_graph tasks x))"
      "map fst (sx_calls w1) = map fst (sx_calls w) @ filter (dispatchable (sx_run w) tasks (sx_store w)) tids"
      "set (sx_calls w) \<subseteq> set (sx_calls w1)"
      "map fst (ly_futures ly) = filter (dispatchable (sx_run w) tasks (sx_store w)) tids"
      "fst ` set (ly_results ly) = {x \<in> set tids. upstream_done tasks (sx_store w) x \<and> agent_for (sx_run w) tasks x = None}"
      "layer_ok e (sx_run w) tasks (sx_calls w1) ly" by auto
  have ok: "\<forall>p \<in> set (ly_results ly). result_ok e (sx_run w) tasks (sx_calls w1) p"
    using d(10) unfolding layer_ok_def result_ok_def by fastforce
  have dr: "distinct (map fst (ly_results ly))" using d(10) by (simp add: layer_ok_def)
  obtain results evs where c: "collect (arrivals e i ly) ly (ly_results ly) w1 = (Inr results, w1\<lparr>sx_events := evs\<rparr>)"
    "\<forall>p \<in> set results. result_ok e (sx_run w) tasks (sx_calls w1) p" "distinct (map fst results)"
    "fst ` set results = fst ` set (ly_results ly) \<union> (set (arrivals e i ly) \<inter> fst ` set (ly_futures ly))"
    using collect_spec [OF d(10) retries ok dr, of "arrivals e i ly" w1] by blast
  have "fst ` set (ly_futures ly) = set (map fst (ly_futures ly))" by simp
  then have f: "fst ` set (ly_futures ly) = {x \<in> set tids. dispatchable (sx_run w) tasks (sx_store w) x}"
    unfolding d(8) by auto
  have keys: "fst ` set (time_out ly results) = {x \<in> set tids. upstream_done tasks (sx_store w) x}"
    using time_out_spec [OF c(2,3), of ly] unfolding c(4) d(9) f by (auto simp: dispatchable_def)
  have "execute_layer e i tids w = (Inr (time_out ly results), w1\<lparr>sx_events := evs\<rparr>)"
    using d(1) c(1) by (simp add: execute_layer_def wbind_def)
  moreover have "same_progress w (w1\<lparr>sx_events := evs\<rparr>)" using d(2) by (simp add: same_progress_def)
  ultimately show ?thesis using d(3-7) keys time_out_spec [OF c(2,3), of ly]
    by (intro exI [of _ "time_out ly results"] exI [of _ "w1\<lparr>sx_events := evs\<rparr>"]) simp
qed

section \<open>Processing the results\<close>

text \<open>A task that is not blocked by the given ids.\<close>

definition unblockable :: "string set \<Rightarrow> task_store \<Rightarrow> string \<Rightarrow> bool" where
  "unblockable ids store y \<longleftrightarrow> (\<forall>bs s. sig_at store y = Some (Blocked_Task, bs, s) \<longrightarrow> set bs \<inter> ids = {})"

lemma task_done_spec:
  assumes st: "stored tasks (sx_store w)" and x: "x \<in> st_id ` set tasks"
  shows "\<exists>w'. task_done e x res w = (Inr (), w') \<and> stored tasks (sx_store w') \<and> sx_run w' = sx_run w \<and>
    sx_calls w' = sx_calls w \<and> sx_boundary w' = sx_boundary w \<and> sx_all_succeeded w' = sx_all_succeeded w \<and>
    sig_at (sx_store w') x = Some (Completed, [], Some (wr_summary res)) \<and>
    (\<forall>y. y \<noteq> x \<and> unblockable {x} (sx_store w) y \<longrightarrow> sig_at (sx_store w') y = sig_at (sx_store w) y) \<and>
    (\<forall>y. y \<noteq> x \<longrightarrow> completed_at (sx_store w') y = completed_at (sx_store w) y)"
proof -
  obtain t where t: "map_of (sx_store w) x = Some t" using stored_some [OF st x] by blast
  let ?w = "w\<lparr>sx_summaries := AList.update x (wr_summary res) (sx_summaries w)\<rparr>"
  let ?f = "\<lambda>t. t\<lparr>st_summary := Some (wr_summary res), st_completed_at := Some (clock e w),
         st_artifacts := wr_artifact_paths res, st_worker_iterations := wr_iterations res\<rparr>"
  obtain store' where s: "set_task x Completed ?f ?w = (Inr (), ?w\<lparr>sx_store := store'\<rparr>)" "stored tasks store'"
    "\<forall>y. y \<noteq> x \<longrightarrow> sig_at store' y = sig_at (sx_store w) y"
    "sig_at store' x = Some (Completed, [], Some (wr_summary res))"
    using set_task_Some [of tasks ?w x t ?f Completed] st t by auto
  have same: "sig_at (snd (resolve_dependencies x store')) y = sig_at store' y"
    if "y = x \<or> unblockable {x} (sx_store w) y" for y
    using that s(3,4) by (intro sig_resolve) (cases "y = x"; auto simp: unblockable_def)
  show ?thesis
    using s same stored_resolve [OF s(2), of x] completed_at_cong [of store' _ "sx_store w"]
    by (auto simp: task_done_def wbind_def emit_def)
qed

lemma task_failed_spec:
  assumes st: "stored tasks (sx_store w)" and x: "x \<in> st_id ` set tasks"
  shows "\<exists>w'. task_failed e x res w = (Inr (), w') \<and> stored tasks (sx_store w') \<and> sx_run w' = sx_run w \<and>
    sx_calls w' = sx_calls w \<and> sx_boundary w' = sx_boundary w \<and> \<not> sx_all_succeeded w' \<and>
    (\<exists>s. sig_at (sx_store w') x = Some (Failed, [], s)) \<and>
    (\<forall>y. y \<noteq> x \<longrightarrow> sig_at (sx_store w') y = sig_at (sx_store w) y) \<and>
    (\<forall>y. y \<noteq> x \<longrightarrow> completed_at (sx_store w') y = completed_at (sx_store w) y)"
proof -
  obtain t where t: "map_of (sx_store w) x = Some t" using stored_some [OF st x] by blast
  let ?w = "w\<lparr>sx_all_succeeded := False\<rparr>"
  let ?f = "\<lambda>t. t\<lparr>st_error := Some (if redact_internal_paths e (wr_error res) \<noteq> [] then redact_internal_paths e (wr_error res)
            else ''worker did not complete (status='' @ se_status_text e (wr_status res) @ '')''),
          st_completed_at := Some (clock e w), st_worker_iterations := wr_iterations res\<rparr>"
  obtain store' where s: "set_task x Failed ?f ?w = (Inr (), ?w\<lparr>sx_store := store'\<rparr>)" "stored tasks store'"
    "\<forall>y. y \<noteq> x \<longrightarrow> sig_at store' y = sig_at (sx_store w) y" "\<exists>s. sig_at store' x = Some (Failed, [], s)"
    using set_task_Some [of tasks ?w x t ?f Failed] st t by auto
  then show ?thesis by (auto simp: task_failed_def wbind_def emit_def Let_def completed_at_def)
qed

lemma process_results_spec:
  assumes "stored tasks (sx_store w)" and "distinct (map fst rs)" and "fst ` set rs \<subseteq> st_id ` set tasks"
    and "\<forall>p \<in> set rs. snd p \<noteq> None"
  shows "\<exists>w'. process_results e rs w = (Inr (), w') \<and> stored tasks (sx_store w') \<and>
    sr_agents (sx_run w') = sr_agents (sx_run w) \<and> sx_calls w' = sx_calls w \<and> sx_boundary w' = sx_boundary w \<and>
    (\<forall>y. y \<notin> fst ` set rs \<and> unblockable (fst ` set rs) (sx_store w) y \<longrightarrow>
       sig_at (sx_store w') y = sig_at (sx_store w) y) \<and>
    (\<forall>p \<in> set rs. \<exists>res. snd p = Some res \<and>
       (if wr_status res = Worker_Completed then sig_at (sx_store w') (fst p) = Some (Completed, [], Some (wr_summary res))
        else \<exists>s. sig_at (sx_store w') (fst p) = Some (Failed, [], s))) \<and>
    (sx_all_succeeded w' \<longleftrightarrow> sx_all_succeeded w \<and>
       (\<forall>p \<in> set rs. \<exists>res. snd p = Some res \<and> wr_status res = Worker_Completed)) \<and>
    (\<forall>y. y \<notin> fst ` set rs \<longrightarrow> completed_at (sx_store w') y = completed_at (sx_store w) y)"
  using assms
proof (induction rs arbitrary: w)
  case (Cons p rs)
  obtain x res where p: "p = (x, Some res)" using Cons.prems(4) by (cases p) auto
  have x: "x \<in> st_id ` set tasks" "x \<notin> fst ` set rs" using Cons.prems(2,3) p by auto
  let ?w = "count_tokens res w" and ?good = "wr_status res = Worker_Completed"
  have cw: "sx_store ?w = sx_store w" "sr_agents (sx_run ?w) = sr_agents (sx_run w)" "sx_calls ?w = sx_calls w"
    "sx_boundary ?w = sx_boundary w" "sx_all_succeeded ?w = sx_all_succeeded w" by (simp_all add: count_tokens_def)
  obtain w1 where w1: "(if ?good then task_done e x res else task_failed e x res) ?w = (Inr (), w1)"
    "stored tasks (sx_store w1)" "sr_agents (sx_run w1) = sr_agents (sx_run w)" "sx_calls w1 = sx_calls w"
    "sx_boundary w1 = sx_boundary w" "sx_all_succeeded w1 \<longleftrightarrow> sx_all_succeeded w \<and> ?good"
    "if ?good then sig_at (sx_store w1) x = Some (Completed, [], Some (wr_summary res))
     else \<exists>s. sig_at (sx_store w1) x = Some (Failed, [], s)"
    "\<forall>y. y \<noteq> x \<and> unblockable {x} (sx_store w) y \<longrightarrow> sig_at (sx_store w1) y = sig_at (sx_store w) y"
    "\<forall>y. y \<noteq> x \<longrightarrow> completed_at (sx_store w1) y = completed_at (sx_store w) y"
  proof (cases ?good)
    case True
    with task_done_spec [of tasks ?w x e res] Cons.prems(1) x that cw show ?thesis by auto
  next
    case False
    with task_failed_spec [of tasks ?w x e res] Cons.prems(1) x that cw
    show ?thesis by auto
  qed
  obtain w' where w': "process_results e rs w1 = (Inr (), w')" "stored tasks (sx_store w')"
    "sr_agents (sx_run w') = sr_agents (sx_run w)" "sx_calls w' = sx_calls w" "sx_boundary w' = sx_boundary w"
    "\<forall>y. y \<notin> fst ` set rs \<and> unblockable (fst ` set rs) (sx_store w1) y \<longrightarrow>
       sig_at (sx_store w') y = sig_at (sx_store w1) y"
    "\<forall>p \<in> set rs. \<exists>res. snd p = Some res \<and>
       (if wr_status res = Worker_Completed then sig_at (sx_store w') (fst p) = Some (Completed, [], Some (wr_summary res))
        else \<exists>s. sig_at (sx_store w') (fst p) = Some (Failed, [], s))"
    "sx_all_succeeded w' \<longleftrightarrow> sx_all_succeeded w1 \<and>
       (\<forall>p \<in> set rs. \<exists>res. snd p = Some res \<and> wr_status res = Worker_Completed)"
    "\<forall>y. y \<notin> fst ` set rs \<longrightarrow> completed_at (sx_store w') y = completed_at (sx_store w1) y"
    using Cons.IH [OF w1(2)] Cons.prems w1(3-5) by auto
  have "unblockable ids (sx_store w1) x" for ids using w1(7) by (auto simp: unblockable_def split: if_splits)
  then have keep: "sig_at (sx_store w') x = sig_at (sx_store w1) x" using w'(6) x(2) by blast
  have other: "sig_at (sx_store w') y = sig_at (sx_store w) y"
    if y: "y \<notin> fst ` set (p # rs)" "unblockable (fst ` set (p # rs)) (sx_store w) y" for y
  proof -
    have "unblockable {x} (sx_store w) y" using y(2) p by (auto simp: unblockable_def)
    then have s: "sig_at (sx_store w1) y = sig_at (sx_store w) y" using w1(8) y(1) p by auto
    then have "unblockable (fst ` set rs) (sx_store w1) y" using y(2) by (auto simp: unblockable_def)
    with s w'(6) y(1) show ?thesis by auto
  qed
  have "process_results e (p # rs) w = (Inr (), w')" using w1(1) w'(1) p by (simp add: wbind_def)
  then show ?case using w' w1(6,7,9) keep other p by (intro exI [of _ w']) auto
qed auto

section \<open>The invariant of the layers\<close>

text \<open>
  A task that is done is completed or failed after all its dependencies were completed, or blocked by
  some of them; a completed one carries the summary of its worker.
\<close>

definition settled :: "swarm_task list \<Rightarrow> string set \<Rightarrow> task_store \<Rightarrow> string \<Rightarrow> bool" where
  "settled tasks done_ids store x \<longleftrightarrow>
     (\<exists>bs s. sig_at store x = Some (Blocked_Task, bs, s) \<and> bs \<noteq> [] \<and> set bs \<subseteq> done_ids \<and>
        \<not> upstream_done tasks store x) \<or>
     (\<exists>st s. sig_at store x = Some (st, [], s) \<and> st \<in> {Completed, Failed} \<and> upstream_done tasks store x)"

definition backed ::
    "swarm_env \<Rightarrow> swarm_run \<Rightarrow> swarm_task list \<Rightarrow> (string \<times> (string \<times> string) list) list \<Rightarrow> task_store \<Rightarrow> string \<Rightarrow> bool" where
  "backed e r tasks calls store x \<longleftrightarrow> (\<forall>s. sig_at store x = Some (Completed, [], s) \<longrightarrow>
     (\<exists>res. s = Some (wr_summary res) \<and> wr_status res = Worker_Completed \<and>
        worker_said e r tasks calls x (Inr (Some res))))"

definition layers_inv :: "swarm_env \<Rightarrow> swarm_run \<Rightarrow> string set \<Rightarrow> swarm_world \<Rightarrow> bool" where
  "layers_inv e r done_ids w \<longleftrightarrow>
     stored (sr_tasks r) (sx_store w) \<and> sr_agents (sx_run w) = sr_agents r \<and>
     (\<forall>x \<in> done_ids. settled (sr_tasks r) done_ids (sx_store w) x \<and>
        backed e r (sr_tasks r) (sx_calls w) (sx_store w) x) \<and>
     (sx_all_succeeded w \<longleftrightarrow> (\<forall>x \<in> done_ids. completed_at (sx_store w) x)) \<and>
     fst ` set (sx_calls w) = {x \<in> done_ids. dispatchable r (sr_tasks r) (sx_store w) x} \<and>
     distinct (map fst (sx_calls w)) \<and> (\<forall>x. completed_at (sx_store w) x \<longrightarrow> x \<in> done_ids) \<and>
     (\<forall>t \<in> set (sr_tasks (sx_run w)). map_of (sx_store w) (st_id t) = Some t) \<and>
     distinct (map st_id (sr_tasks (sx_run w))) \<and> st_id ` set (sr_tasks (sx_run w)) = st_id ` set (sr_tasks r)"

lemma agent_for_cong: "sr_agents r = sr_agents r' \<Longrightarrow> agent_for r = agent_for r'"
  by (simp add: agent_for_def agent_map_def fun_eq_iff split: option.split)

lemma worker_said_cong: "sr_agents r = sr_agents r' \<Longrightarrow> worker_said e r = worker_said e r'"
  using agent_for_cong [of r r'] by (simp add: worker_said_def fun_eq_iff)

lemma dispatchable_cong: "sr_agents r = sr_agents r' \<Longrightarrow> dispatchable r = dispatchable r'"
  using agent_for_cong [of r r'] by (simp add: dispatchable_def fun_eq_iff)

lemma result_ok_cong: "sr_agents r = sr_agents r' \<Longrightarrow> result_ok e r = result_ok e r'"
  using worker_said_cong [of r r'] by (simp add: result_ok_def fun_eq_iff)

lemma retries_ok_cong: "sr_agents r = sr_agents r' \<Longrightarrow> retries_ok r = retries_ok r'"
  by (simp add: retries_ok_def)

lemma settled_cong:
  assumes "\<And>y. y \<in> insert x (set (task_graph tasks x)) \<Longrightarrow> sig_at store' y = sig_at store y"
    and "settled tasks done_ids store x" "done_ids \<subseteq> done_ids'"
  shows "settled tasks done_ids' store' x"
proof -
  have "upstream_done tasks store' x = upstream_done tasks store x" by (rule upstream_done_cong) (use assms(1) in auto)
  moreover have "sig_at store' x = sig_at store x" using assms(1) by simp
  ultimately show ?thesis using assms(2,3) by (auto simp: settled_def)
qed

lemma settled_unblockable: "settled tasks done_ids store x \<Longrightarrow> ids \<inter> done_ids = {} \<Longrightarrow> unblockable ids store x"
  by (auto simp: settled_def unblockable_def)

lemma set_load_all [simp]: "set (load_all store) = snd ` set store"
  by (simp add: load_all_def)

lemma sync_tasks_inv:
  assumes "stored tasks (sx_store w)"
  shows "(\<forall>t \<in> set (sr_tasks (sx_run (sync_tasks w))). map_of (sx_store (sync_tasks w)) (st_id t) = Some t) \<and>
    distinct (map st_id (sr_tasks (sx_run (sync_tasks w)))) \<and>
    st_id ` set (sr_tasks (sx_run (sync_tasks w))) = st_id ` set tasks"
proof -
  have ids: "st_id t = x \<and> map_of (sx_store w) x = Some t" if "(x, t) \<in> set (sx_store w)" for x t
    using assms that map_of_is_SomeI [of "sx_store w" x t] unfolding stored_def by blast
  then have "st_id ` snd ` set (sx_store w) = fst ` set (sx_store w)" by force
  moreover have "distinct (map st_id (load_all (sx_store w)))"
  proof -
    let ?l = "sort_key (\<lambda>(tid, t). tid @ ''.json'') (sx_store w)"
    have "map st_id (load_all (sx_store w)) = map fst ?l" using ids by (fastforce simp: load_all_def)
    moreover have "distinct (map fst ?l)" using assms by (simp add: stored_def distinct_map)
    ultimately show ?thesis by simp
  qed
  ultimately show ?thesis using ids assms by (auto simp: sync_tasks_def stored_def)
qed

lemma layer_turn_inv:
  assumes inv: "layers_inv e r done_ids w" and dist: "distinct (map st_id (sr_tasks r))" and retries: "retries_ok r"
    and tids: "distinct tids" "set tids \<subseteq> st_id ` set (sr_tasks r)" "set tids \<inter> done_ids = {}"
    and deps: "\<forall>x \<in> set tids. set (task_graph (sr_tasks r) x) \<subseteq> done_ids"
    and closed: "\<forall>x \<in> done_ids. set (task_graph (sr_tasks r) x) \<subseteq> done_ids"
  shows "\<exists>w'. layer_turn e i tids w = (Inr (), w') \<and> layers_inv e r (done_ids \<union> set tids) w' \<and>
    sx_boundary w' = sx_boundary w"
proof -
  let ?T = "sr_tasks r"
  let ?w = "w\<lparr>sx_events := sx_events w @ [Layer_Started i tids]\<rparr>"
  have ag: "sr_agents (sx_run w) = sr_agents r" and st: "stored ?T (sx_store w)" using inv by (simp_all add: layers_inv_def)
  have dj: "\<forall>x \<in> set tids. set (task_graph ?T x) \<inter> set tids = {}" using deps tids(3) by blast
  obtain results w1 where x: "execute_layer e i tids ?w = (Inr results, w1)" "same_progress ?w w1" "stored ?T (sx_store w1)"
    "\<forall>y. y \<notin> set tids \<longrightarrow> sig_at (sx_store w1) y = sig_at (sx_store w) y"
    "\<forall>x \<in> set tids. \<not> upstream_done ?T (sx_store w) x \<longrightarrow> (\<exists>bs s.
       sig_at (sx_store w1) x = Some (Blocked_Task, bs, s) \<and> bs \<noteq> [] \<and> set bs \<subseteq> set (task_graph ?T x))"
    "map fst (sx_calls w1) = map fst (sx_calls w) @ filter (dispatchable r ?T (sx_store w)) tids"
    "set (sx_calls w) \<subseteq> set (sx_calls w1)" "distinct (map fst results)"
    "fst ` set results = {x \<in> set tids. upstream_done ?T (sx_store w) x}"
    "\<forall>p \<in> set results. result_ok e r ?T (sx_calls w1) p"
    using execute_layer_spec [OF dist _ _ tids(1,2) dj, of ?w e i] retries st
      dispatchable_cong [OF ag] result_ok_cong [OF ag] retries_ok_cong [OF ag] by auto
  have keys: "fst ` set results \<subseteq> st_id ` set ?T" using x(9) tids(2) by auto
  have some: "\<forall>p \<in> set results. snd p \<noteq> None" using x(10) by (auto simp: result_ok_def)
  have w1: "sr_agents (sx_run w1) = sr_agents r" "sx_boundary w1 = sx_boundary w" "sx_all_succeeded w1 = sx_all_succeeded w"
    using x(2) ag by (simp_all add: same_progress_def)
  obtain w2 where p: "process_results e results w1 = (Inr (), w2)" "stored ?T (sx_store w2)"
    "sr_agents (sx_run w2) = sr_agents r" "sx_calls w2 = sx_calls w1" "sx_boundary w2 = sx_boundary w"
    "\<forall>y. y \<notin> fst ` set results \<and> unblockable (fst ` set results) (sx_store w1) y \<longrightarrow>
       sig_at (sx_store w2) y = sig_at (sx_store w1) y"
    "\<forall>p \<in> set results. \<exists>res. snd p = Some res \<and>
       (if wr_status res = Worker_Completed then sig_at (sx_store w2) (fst p) = Some (Completed, [], Some (wr_summary res))
        else \<exists>s. sig_at (sx_store w2) (fst p) = Some (Failed, [], s))"
    "sx_all_succeeded w2 \<longleftrightarrow> sx_all_succeeded w \<and>
       (\<forall>p \<in> set results. \<exists>res. snd p = Some res \<and> wr_status res = Worker_Completed)"
    "\<forall>y. y \<notin> fst ` set results \<longrightarrow> completed_at (sx_store w2) y = completed_at (sx_store w1) y"
    using process_results_spec [OF x(3,8) keys some, of e] unfolding w1 by blast
  let ?D = "done_ids \<union> set tids" and ?R = "fst ` set results"
  let ?w3 = "sync_tasks (note_blocked tids results w2)"
  have turn: "layer_turn e i tids w = (Inr (), ?w3)"
    using x(1) p(1) by (simp add: layer_turn_def wbind_def emit_def)
  have w3: "sx_store ?w3 = sx_store w2" "sx_calls ?w3 = sx_calls w1" "sx_boundary ?w3 = sx_boundary w"
      "sr_agents (sx_run ?w3) = sr_agents r"
    using p by (simp_all add: sync_tasks_def note_blocked_def)
  have R: "?R \<inter> done_ids = {}" using x(9) tids(3) by auto
  have settled: "settled ?T done_ids (sx_store w) y" "backed e r ?T (sx_calls w) (sx_store w) y" if "y \<in> done_ids" for y
    using inv that by (simp_all add: layers_inv_def)
  have old: "sig_at (sx_store w2) y = sig_at (sx_store w) y" if y: "y \<in> done_ids" for y
  proof -
    have s1: "sig_at (sx_store w1) y = sig_at (sx_store w) y" using x(4) y tids(3) by auto
    have "unblockable ?R (sx_store w) y" by (rule settled_unblockable [OF settled(1) [OF y] R])
    then have "unblockable ?R (sx_store w1) y" using s1 by (simp add: unblockable_def)
    moreover have "y \<notin> ?R" using y R by blast
    ultimately show ?thesis using p(6) s1 by simp
  qed
  have up: "upstream_done ?T (sx_store w2) y = upstream_done ?T (sx_store w) y" if "y \<in> ?D" for y
    using that old deps closed by (intro upstream_done_cong) auto
  have blocked: "\<exists>bs s. sig_at (sx_store w2) y = Some (Blocked_Task, bs, s) \<and> bs \<noteq> [] \<and> set bs \<subseteq> done_ids"
    if y: "y \<in> set tids" "\<not> upstream_done ?T (sx_store w) y" for y
  proof -
    obtain bs s where b: "sig_at (sx_store w1) y = Some (Blocked_Task, bs, s)" "bs \<noteq> []" "set bs \<subseteq> done_ids"
      using x(5) y deps by blast
    then have "unblockable ?R (sx_store w1) y" using R by (auto simp: unblockable_def)
    moreover have "y \<notin> ?R" using x(9) y by auto
    ultimately show ?thesis using p(6) b by auto
  qed
  have answered: "\<exists>res. (y, Some res) \<in> set results \<and>
      (if wr_status res = Worker_Completed then sig_at (sx_store w2) y = Some (Completed, [], Some (wr_summary res))
       else \<exists>s. sig_at (sx_store w2) y = Some (Failed, [], s))"
    if y: "y \<in> set tids" "upstream_done ?T (sx_store w) y" for y
  proof -
    obtain v where "(y, v) \<in> set results" using x(9) y by force
    with p(7) show ?thesis by fastforce
  qed
  have "settled ?T ?D (sx_store w2) y" if y: "y \<in> ?D" for y
  proof (cases "y \<in> done_ids")
    case True
    show ?thesis by (rule settled_cong [OF _ settled(1) [OF True]]) (use old True closed in auto)
  next
    case False
    then have "y \<in> set tids" using y by simp
    then show ?thesis using blocked [of y] answered [of y] up [OF y] unfolding settled_def
      by (cases "upstream_done ?T (sx_store w) y") (auto split: if_splits)
  qed
  moreover have "backed e r ?T (sx_calls w1) (sx_store w2) y" if y: "y \<in> ?D" for y
  proof (cases "y \<in> done_ids")
    case True
    then show ?thesis using settled(2) [OF True] old [OF True] worker_said_mono [OF _ x(7)]
      by (fastforce simp: backed_def)
  next
    case False
    then have t: "y \<in> set tids" using y by simp
    show ?thesis
    proof (cases "upstream_done ?T (sx_store w) y")
      case True
      from answered [OF t this] obtain res where "(y, Some res) \<in> set results"
        "if wr_status res = Worker_Completed then sig_at (sx_store w2) y = Some (Completed, [], Some (wr_summary res))
         else \<exists>s. sig_at (sx_store w2) y = Some (Failed, [], s)" by blast
      with x(10) show ?thesis by (fastforce simp: backed_def result_ok_def split: if_splits)
    next
      case False
      with blocked [OF t] show ?thesis by (auto simp: backed_def)
    qed
  qed
  moreover have "sx_all_succeeded ?w3 \<longleftrightarrow> (\<forall>y \<in> ?D. completed_at (sx_store w2) y)"
  proof -
    have "(\<forall>y \<in> set tids. completed_at (sx_store w2) y) \<longleftrightarrow>
        set tids \<subseteq> ?R \<and> (\<forall>p \<in> set results. \<exists>res. snd p = Some res \<and> wr_status res = Worker_Completed)"
    proof (intro iffI conjI ballI subsetI)
      fix y assume all: "\<forall>y \<in> set tids. completed_at (sx_store w2) y" and y: "y \<in> set tids"
      then have "\<exists>s. sig_at (sx_store w2) y = Some (Completed, [], s)" by (simp add: completed_at_def)
      then have "upstream_done ?T (sx_store w) y"
        using blocked [OF y] by (cases "upstream_done ?T (sx_store w) y") auto
      then show "y \<in> ?R" using x(9) y by simp
    next
      fix q assume all: "\<forall>y \<in> set tids. completed_at (sx_store w2) y" and q: "q \<in> set results"
      then have "fst q \<in> set tids" using x(9) by auto
      with all have "completed_at (sx_store w2) (fst q)" by simp
      moreover obtain res where "snd q = Some res"
        "if wr_status res = Worker_Completed then sig_at (sx_store w2) (fst q) = Some (Completed, [], Some (wr_summary res))
         else \<exists>s. sig_at (sx_store w2) (fst q) = Some (Failed, [], s)" using p(7) q by blast
      ultimately show "\<exists>res. snd q = Some res \<and> wr_status res = Worker_Completed"
        by (auto simp: completed_at_def split: if_splits)
    next
      fix y assume a: "set tids \<subseteq> ?R \<and> (\<forall>p \<in> set results. \<exists>res. snd p = Some res \<and> wr_status res = Worker_Completed)"
        and y: "y \<in> set tids"
      then obtain q where q: "q \<in> set results" "fst q = y" by auto
      then show "completed_at (sx_store w2) y" using a p(7) by (fastforce simp: completed_at_def)
    qed
    moreover have "(\<forall>y \<in> done_ids. completed_at (sx_store w2) y) \<longleftrightarrow> sx_all_succeeded w"
      using inv old by (simp add: layers_inv_def completed_at_def)
    moreover have "sx_all_succeeded ?w3 \<longleftrightarrow> sx_all_succeeded w2 \<and> set tids \<subseteq> ?R"
      by (auto simp: sync_tasks_def note_blocked_def list_ex_iff)
    ultimately show ?thesis using p(8) by auto
  qed
  moreover have "fst ` set (sx_calls w1) = {y \<in> ?D. dispatchable r ?T (sx_store w2) y}"
  proof -
    have "fst ` set (sx_calls w1) = set (map fst (sx_calls w1))" by simp
    also have "\<dots> = fst ` set (sx_calls w) \<union> {y \<in> set tids. dispatchable r ?T (sx_store w) y}" unfolding x(6) by auto
    also have "\<dots> = {y \<in> ?D. dispatchable r ?T (sx_store w) y}" using inv by (auto simp: layers_inv_def)
    finally show ?thesis using up by (auto simp: dispatchable_def)
  qed
  moreover have "distinct (map fst (sx_calls w1))"
  proof -
    have "set (map fst (sx_calls w)) \<subseteq> done_ids" "distinct (map fst (sx_calls w))" using inv by (auto simp: layers_inv_def)
    then show ?thesis unfolding x(6) using tids(1,3) by auto
  qed
  moreover have "y \<in> ?D" if y: "completed_at (sx_store w2) y" for y
  proof (rule ccontr)
    assume n: "y \<notin> ?D"
    then have "y \<notin> ?R" using x(9) by auto
    then have "completed_at (sx_store w1) y" using y p(9) by simp
    then have "completed_at (sx_store w) y" using completed_at_cong [of "sx_store w1" y "sx_store w"] x(4) n by simp
    with inv n show False by (auto simp: layers_inv_def)
  qed
  ultimately have "layers_inv e r ?D ?w3"
    using sync_tasks_inv [of ?T "note_blocked tids results w2"] p(2) w3
    by (auto simp: layers_inv_def note_blocked_def)
  with turn w3(3) show ?thesis by blast
qed

section \<open>The layers of a run\<close>

text \<open>After a cancellation the tasks that were neither completed nor failed are cancelled.\<close>

definition cancelled_store :: "task_store \<Rightarrow> task_store \<Rightarrow> bool" where
  "cancelled_store store store' \<longleftrightarrow> (\<forall>x. case sig_at store x of
     None \<Rightarrow> sig_at store' x = None
   | Some (st, bs, s) \<Rightarrow> sig_at store' x =
       (if st \<in> {Completed, Failed} then Some (st, bs, s) else Some (Cancelled_Task, [], s)))"

lemma cancel_remaining_spec:
  assumes "stored tasks (sx_store w)" and "\<forall>t \<in> set ts. map_of (sx_store w) (st_id t) = Some t"
    and "distinct (map st_id ts)"
  shows "\<exists>store'. cancel_remaining_tasks ts w = w\<lparr>sx_store := store'\<rparr> \<and> stored tasks store' \<and>
    (\<forall>y. y \<notin> st_id ` set ts \<longrightarrow> sig_at store' y = sig_at (sx_store w) y) \<and>
    (\<forall>t \<in> set ts. sig_at store' (st_id t) =
       (if st_status t \<in> {Completed, Failed} then Some (task_sig t) else Some (Cancelled_Task, [], st_summary t)))"
  using assms
proof (induction ts arbitrary: w)
  case Nil
  then show ?case by (intro exI [of _ "sx_store w"]) (simp add: cancel_remaining_tasks_def)
next
  case (Cons t ts)
  have t: "map_of (sx_store w) (st_id t) = Some t" using Cons.prems(2) by simp
  show ?case
  proof (cases "st_status t \<in> {Completed, Failed}")
    case True
    from Cons.IH [OF Cons.prems(1)] Cons.prems obtain store' where i:
      "cancel_remaining_tasks ts w = w\<lparr>sx_store := store'\<rparr>" "stored tasks store'"
      "\<forall>y. y \<notin> st_id ` set ts \<longrightarrow> sig_at store' y = sig_at (sx_store w) y"
      "\<forall>t \<in> set ts. sig_at store' (st_id t) =
         (if st_status t \<in> {Completed, Failed} then Some (task_sig t) else Some (Cancelled_Task, [], st_summary t))" by auto
    have "cancel_remaining_tasks (t # ts) w = w\<lparr>sx_store := store'\<rparr>"
      using i(1) True by (simp add: cancel_remaining_tasks_def)
    moreover have "sig_at store' (st_id t) = Some (task_sig t)"
      using i(3) t Cons.prems(3) by (auto simp: sig_at_def)
    ultimately show ?thesis using i True by (intro exI [of _ store']) auto
  next
    case False
    obtain store1 where s: "set_task (st_id t) Cancelled_Task (\<lambda>t. t) w = (Inr (), w\<lparr>sx_store := store1\<rparr>)"
      "stored tasks store1" "\<forall>y. y \<noteq> st_id t \<longrightarrow> sig_at store1 y = sig_at (sx_store w) y"
      "sig_at store1 (st_id t) = Some (Cancelled_Task, [], st_summary t)" and
      m: "\<forall>y. y \<noteq> st_id t \<longrightarrow> map_of store1 y = map_of (sx_store w) y"
    proof -
      obtain store1 where s: "set_task (st_id t) Cancelled_Task (\<lambda>t. t) w = (Inr (), w\<lparr>sx_store := store1\<rparr>)"
        "stored tasks store1" "\<forall>y. y \<noteq> st_id t \<longrightarrow> sig_at store1 y = sig_at (sx_store w) y"
        "sig_at store1 (st_id t) = Some (Cancelled_Task, [], st_summary t)"
        using set_task_Some [OF Cons.prems(1) t, of "\<lambda>t. t" Cancelled_Task] by auto
      have "sx_store (snd (set_task (st_id t) Cancelled_Task (\<lambda>t. t) w)) =
          save_task (t\<lparr>st_status := Cancelled_Task\<rparr>) (sx_store w)"
        by (simp add: set_task_def update_task_Some [OF t])
      then have "store1 = save_task (t\<lparr>st_status := Cancelled_Task\<rparr>) (sx_store w)" using s(1) by simp
      then show ?thesis using that s by simp
    qed
    have "\<forall>u \<in> set ts. map_of (sx_store (w\<lparr>sx_store := store1\<rparr>)) (st_id u) = Some u"
      using Cons.prems(2,3) m by (auto simp: image_iff)
    from Cons.IH [OF _ this] s(2) Cons.prems(3) obtain store' where i:
      "cancel_remaining_tasks ts (w\<lparr>sx_store := store1\<rparr>) = w\<lparr>sx_store := store'\<rparr>" "stored tasks store'"
      "\<forall>y. y \<notin> st_id ` set ts \<longrightarrow> sig_at store' y = sig_at store1 y"
      "\<forall>t \<in> set ts. sig_at store' (st_id t) =
         (if st_status t \<in> {Completed, Failed} then Some (task_sig t) else Some (Cancelled_Task, [], st_summary t))" by auto
    have "cancel_remaining_tasks (t # ts) w = w\<lparr>sx_store := store'\<rparr>"
      using i(1) False s(1) by (simp add: cancel_remaining_tasks_def)
    moreover have "sig_at store' (st_id t) = Some (Cancelled_Task, [], st_summary t)"
      using i(3) s(4) Cons.prems(3) by auto
    ultimately show ?thesis using i s(3) False by (intro exI [of _ store']) auto
  qed
qed

text \<open>How the loop over the layers ends: after the last one, or at the boundary where the run is cancelled.\<close>

inductive loop_end :: "swarm_env \<Rightarrow> swarm_run \<Rightarrow> string set \<Rightarrow> nat \<Rightarrow> string list list \<Rightarrow> swarm_world \<Rightarrow> bool"
  for e r where
  all_ran: "layers_inv e r done_ids w \<Longrightarrow> sx_boundary w = i \<Longrightarrow> loop_end e r done_ids i [] w"
| stopped: "cancelled e i \<Longrightarrow> layers_inv e r done_ids w \<Longrightarrow>
    cancel_remaining_tasks (sr_tasks (sx_run w)) w = w\<lparr>sx_store := store'\<rparr> \<Longrightarrow>
    loop_end e r done_ids i (layer # layers)
      (w\<lparr>sx_store := store', sx_all_succeeded := False, sx_boundary := i\<rparr>)"
| next_layer: "\<not> cancelled e i \<Longrightarrow> loop_end e r (done_ids \<union> set layer) (Suc i) layers w \<Longrightarrow>
    loop_end e r done_ids i (layer # layers) w"

lemma layers_loop_spec:
  assumes dist: "distinct (map st_id (sr_tasks r))" and retries: "retries_ok r"
  shows "layers_inv e r done_ids w \<Longrightarrow> layered (task_graph (sr_tasks r)) done_ids layers \<Longrightarrow>
    distinct (concat layers) \<Longrightarrow> set (concat layers) \<subseteq> st_id ` set (sr_tasks r) - done_ids \<Longrightarrow>
    \<forall>x \<in> done_ids. set (task_graph (sr_tasks r) x) \<subseteq> done_ids \<Longrightarrow>
    \<exists>w'. layers_loop e i layers w = (Inr (), w') \<and> loop_end e r done_ids i layers w'"
proof (induction layers arbitrary: i done_ids w)
  case Nil
  have "layers_inv e r done_ids (w\<lparr>sx_boundary := i\<rparr>)" using Nil(1) by (simp add: layers_inv_def)
  then show ?case by (auto intro: loop_end.all_ran)
next
  case (Cons tids layers)
  show ?case
  proof (cases "cancelled e i")
    case True
    obtain store' where c: "cancel_remaining_tasks (sr_tasks (sx_run w)) w = w\<lparr>sx_store := store'\<rparr>"
      using cancel_remaining_spec [of "sr_tasks r" w "sr_tasks (sx_run w)"] Cons.prems(1)
      by (auto simp: layers_inv_def)
    from loop_end.stopped [OF True Cons.prems(1) c] True c show ?thesis by simp
  next
    case False
    let ?w = "w\<lparr>sx_boundary := Suc i\<rparr>"
    have inv: "layers_inv e r done_ids ?w" using Cons.prems(1) by (simp add: layers_inv_def)
    have t: "set tids \<subseteq> st_id ` set (sr_tasks r)" "set tids \<inter> done_ids = {}" using Cons.prems(4) by auto
    obtain w1 where w1: "layer_turn e i tids ?w = (Inr (), w1)" "layers_inv e r (done_ids \<union> set tids) w1"
      using layer_turn_inv [OF inv dist retries _ t, of i] Cons.prems by auto
    have cl: "\<forall>x \<in> done_ids \<union> set tids. set (task_graph (sr_tasks r) x) \<subseteq> done_ids \<union> set tids"
      using Cons.prems(2,5) by auto
    have lay: "layered (task_graph (sr_tasks r)) (done_ids \<union> set tids) layers" "distinct (concat layers)"
      "set (concat layers) \<subseteq> st_id ` set (sr_tasks r) - (done_ids \<union> set tids)" using Cons.prems(2-4) by auto
    obtain w' where "layers_loop e (Suc i) layers w1 = (Inr (), w')" "loop_end e r (done_ids \<union> set tids) (Suc i) layers w'"
      using Cons.IH [OF w1(2) lay cl, of "Suc i"] by blast
    with w1(1) False show ?thesis by (auto simp: wbind_def intro: loop_end.next_layer)
  qed
qed

lemma loop_end_cases:
  "loop_end e r done_ids i layers w \<Longrightarrow>
   (layers_inv e r (done_ids \<union> set (concat layers)) w \<and> sx_boundary w = i + length layers) \<or>
   (\<exists>ran w1 store'. layers_inv e r (done_ids \<union> set (concat ran)) w1 \<and> (\<exists>rest. layers = ran @ rest) \<and>
      w = w1\<lparr>sx_store := store', sx_all_succeeded := False, sx_boundary := i + length ran\<rparr> \<and>
      cancel_remaining_tasks (sr_tasks (sx_run w1)) w1 = w1\<lparr>sx_store := store'\<rparr> \<and> cancelled e (i + length ran))"
proof (induction rule: loop_end.induct)
  case (stopped i done_ids w store' layer layers)
  then show ?case by (intro disjI2 exI [of _ "[]"]) auto
next
  case (next_layer i done_ids layer layers w)
  from next_layer.IH show ?case
  proof (elim disjE exE conjE, goal_cases)
    case (2 ran w1 store' rest)
    show ?case by (rule disjI2, rule exI [of _ "layer # ran"]) (use 2 in \<open>simp add: Un_assoc, blast\<close>)
  qed (simp add: Un_assoc)
qed simp

section \<open>A whole run\<close>

lemma save_all_tasks:
  "distinct (map fst store @ map st_id ts) \<Longrightarrow> fold save_task ts store = store @ map (\<lambda>t. (st_id t, t)) ts"
proof (induction ts arbitrary: store)
  case (Cons t ts)
  have "k \<notin> fst ` set al \<Longrightarrow> AList.update k v al = al @ [(k, v)]" for k :: string and v :: swarm_task and al
    by (induction al) auto
  with Cons.prems have "save_task t store = store @ [(st_id t, t)]" by (auto simp: save_task_def)
  with Cons show ?case by simp
qed simp

text \<open>The tasks of a new run, as \<open>build_run_from_preset\<close> makes them.\<close>

definition fresh_run :: "swarm_run \<Rightarrow> bool" where
  "fresh_run r \<longleftrightarrow> (\<forall>t \<in> set (sr_tasks r). st_status t \<in> {Pending, Blocked_Task})"

lemma build_run_fresh: "fresh_run (build_run_from_preset name vars agents tasks run_id now)"
  by (auto simp: fresh_run_def build_run_from_preset_def build_task_def Let_def)

lemma begin_run_inv:
  assumes "distinct (map st_id (sr_tasks r))" and "fresh_run r"
  shows "layers_inv e r {} (begin_run r)"
proof -
  let ?store = "map (\<lambda>t. (st_id t, t)) (sr_tasks r)"
  have store: "fold save_task (sr_tasks r) [] = ?store" using save_all_tasks [of "[]" "sr_tasks r"] assms by simp
  have keys: "map fst ?store = map st_id (sr_tasks r)" by (simp add: comp_def)
  have some: "map_of ?store (st_id t) = Some t" if "t \<in> set (sr_tasks r)" for t
    using that assms by (intro map_of_is_SomeI) (simp_all only: keys, auto)
  have "fst ` set ?store = st_id ` set (sr_tasks r)" by (simp add: image_image)
  moreover have "\<exists>t0 \<in> set (sr_tasks r). st_id t0 = x \<and> t = t0" if "map_of ?store x = Some t" for x t
    using map_of_SomeD [OF that] by auto
  ultimately have "stored (sr_tasks r) ?store" unfolding stored_def keys using assms by blast
  moreover have "\<not> completed_at ?store x" for x
    using assms(2) by (fastforce simp: completed_at_iff fresh_run_def dest: map_of_SomeD)
  ultimately show ?thesis using some assms by (simp add: layers_inv_def begin_run_def store)
qed

text \<open>What a run of a valid graph leaves behind: the state at the end of the loop, finished.\<close>

lemma execute_run_spec:
  assumes valid: "validate_dag (sr_tasks r) = Inr ()" and dist: "distinct (map st_id (sr_tasks r))"
    and retries: "retries_ok r" and fresh: "fresh_run r"
  shows "\<exists>layers w. topological_layers (sr_tasks r) = Inr layers \<and> set (concat layers) = st_id ` set (sr_tasks r) \<and>
    execute_run e r = (Inr (), finish_run e layers w) \<and> loop_end e r {} 0 layers w"
proof -
  let ?T = "sr_tasks r"
  have v: "deps_known ?T" "acyclic (edges (task_graph ?T))" using validate_dag_cases [of ?T] valid by simp_all
  obtain layers where l: "topological_layers ?T = Inr layers" "layered (task_graph ?T) {} layers"
    "distinct (concat layers)" "set (concat layers) = st_id ` set ?T"
    using topological_layers_cases [OF dist v(1)] v(2) by (auto split: sum.splits swarm_exc.splits)
  have sub: "set (concat layers) \<subseteq> st_id ` set ?T - {}" using l(4) by simp
  have c0: "\<forall>x \<in> {}. set (task_graph ?T x) \<subseteq> {}" by simp
  obtain w where w: "layers_loop e 0 layers (begin_run r) = (Inr (), w)" "loop_end e r {} 0 layers w"
    using layers_loop_spec [OF dist retries begin_run_inv [OF dist fresh] l(2,3) sub c0, where i = 0] by blast
  have "execute_run e r = (Inr (), finish_run e layers w)"
    using l(1) w(1) by (simp add: execute_run_def Let_def)
  with l w show ?thesis by blast
qed

end
