(* ===== verification/Swarm_Properties.thy ===== *)
theory Swarm_Properties
  imports Swarm_Runs
begin

text \<open>The properties of the swarm: its graph algorithms and its runs.\<close>

section \<open>The graph of the tasks\<close>

text \<open>
  C29. The validation accepts a graph exactly when every dependency is known and there is no cycle, and what
  it reports is true: an unknown dependency of a task, or a path of dependencies that ends where it
  starts. It never exceeds the depth it is given.
\<close>

theorem validation_is_exact:
  "case validate_dag tasks of
     Inr _ \<Rightarrow> deps_known tasks \<and> acyclic (edges (task_graph tasks))
   | Inl (Unknown_Dependency tid d) \<Rightarrow>
       (\<exists>t. t \<in> set tasks \<and> st_id t = tid \<and> d \<in> set (st_depends_on t)) \<and> d \<notin> st_id ` set tasks
   | Inl (Cycle_Detected cycle) \<Rightarrow> deps_known tasks \<and> is_cycle (task_graph tasks) cycle
   | Inl _ \<Rightarrow> False"
  by (rule validate_dag_cases)

text \<open>
  C30. For tasks with distinct ids and known dependencies the layers exist exactly when there is no cycle;
  then every task is in exactly one of them, no layer is empty and all dependencies of a task are in
  earlier layers. The bound on the rounds is never reached.
\<close>

theorem layers_order_tasks:
  assumes "distinct (map st_id tasks)" and "deps_known tasks"
  shows "case topological_layers tasks of
     Inr layers \<Rightarrow> layered (task_graph tasks) {} layers \<and> distinct (concat layers) \<and>
       set (concat layers) = st_id ` set tasks \<and> acyclic (edges (task_graph tasks))
   | Inl (Cycle_Left k n) \<Rightarrow> k < n \<and> n = length tasks \<and> \<not> acyclic (edges (task_graph tasks))
   | Inl _ \<Rightarrow> False"
  using assms by (rule topological_layers_cases)

definition demo_node :: "string \<Rightarrow> string list \<Rightarrow> swarm_task" where
  "demo_node tid deps = build_task \<lparr>pt_id = tid, pt_agent_id = ''x'', pt_prompt_template = None,
     pt_depends_on = Some deps, pt_input_from = None\<rparr>"

lemma demo_node_simps [simp]:
  "st_id (demo_node tid deps) = tid" "st_depends_on (demo_node tid deps) = deps"
  "st_agent_id (demo_node tid deps) = ''x''" "st_status (demo_node tid deps) \<in> {Pending, Blocked_Task}"
  by (simp_all add: demo_node_def build_task_def or_default_def Let_def)

definition demo_nodes :: "swarm_task list" where
  "demo_nodes = [demo_node ''b'' [''a''], demo_node ''a'' []]"

lemma demo_node_ids: "distinct (map st_id demo_nodes)" "deps_known demo_nodes"
  by (simp_all add: demo_nodes_def deps_known_def)

lemma demo_layers: "topological_layers demo_nodes = Inr [[''a''], [''b'']]"
  by (simp add: topological_layers_def demo_nodes_def in_degrees_def task_ids_def dependents_def Let_def)

theorem layers_order_tasks_witness:
  "layered (task_graph demo_nodes) {} [[''a''], [''b'']] \<and> acyclic (edges (task_graph demo_nodes))"
  using layers_order_tasks [OF demo_node_ids] by (simp add: demo_layers)

section \<open>Runs\<close>

lemma cancelled_parts:
  assumes inv: "layers_inv e r done_ids w"
    and c: "cancel_remaining_tasks (sr_tasks (sx_run w)) w = w\<lparr>sx_store := store'\<rparr>"
  shows "stored (sr_tasks r) store'" and "x \<in> st_id ` set (sr_tasks r) \<Longrightarrow>
      \<exists>st bs s. sig_at store' x = Some (st, bs, s) \<and> st \<in> {Completed, Failed, Cancelled_Task}"
    and "completed_at (sx_store w) x \<Longrightarrow> sig_at store' x = sig_at (sx_store w) x"
    and "completed_at store' x \<Longrightarrow> completed_at (sx_store w) x"
proof -
  have pre: "stored (sr_tasks r) (sx_store w)" "\<forall>t \<in> set (sr_tasks (sx_run w)). map_of (sx_store w) (st_id t) = Some t"
    "distinct (map st_id (sr_tasks (sx_run w)))" using inv by (simp_all add: layers_inv_def)
  obtain store1 where "cancel_remaining_tasks (sr_tasks (sx_run w)) w = w\<lparr>sx_store := store1\<rparr>" and s1:
    "stored (sr_tasks r) store1" "\<forall>y. y \<notin> st_id ` set (sr_tasks (sx_run w)) \<longrightarrow> sig_at store1 y = sig_at (sx_store w) y"
    "\<forall>t \<in> set (sr_tasks (sx_run w)). sig_at store1 (st_id t) =
       (if st_status t \<in> {Completed, Failed} then Some (task_sig t) else Some (Cancelled_Task, [], st_summary t))"
    using cancel_remaining_spec [OF pre] by (elim exE conjE) (rule that)
  moreover from this c have "w\<lparr>sx_store := store1\<rparr> = w\<lparr>sx_store := store'\<rparr>" by simp
  then have "store1 = store'" by (cases w) simp
  ultimately have s: "stored (sr_tasks r) store'"
    "\<forall>y. y \<notin> st_id ` set (sr_tasks (sx_run w)) \<longrightarrow> sig_at store' y = sig_at (sx_store w) y"
    "\<forall>t \<in> set (sr_tasks (sx_run w)). sig_at store' (st_id t) =
       (if st_status t \<in> {Completed, Failed} then Some (task_sig t) else Some (Cancelled_Task, [], st_summary t))" by simp_all
  have ids: "st_id ` set (sr_tasks (sx_run w)) = st_id ` set (sr_tasks r)" using inv by (simp add: layers_inv_def)
  have some: "sig_at (sx_store w) (st_id t) = Some (task_sig t)" if "t \<in> set (sr_tasks (sx_run w))" for t
    using inv that by (simp add: layers_inv_def sig_at_def)
  have here: "sig_at store' x = (if st_status t \<in> {Completed, Failed} then Some (task_sig t)
      else Some (Cancelled_Task, [], st_summary t)) \<and> sig_at (sx_store w) x = Some (task_sig t)"
    if "t \<in> set (sr_tasks (sx_run w))" "x = st_id t" for t
    using s(3) some that by blast
  show "stored (sr_tasks r) store'" by (rule s)
  show "\<exists>st bs s. sig_at store' x = Some (st, bs, s) \<and> st \<in> {Completed, Failed, Cancelled_Task}"
    if "x \<in> st_id ` set (sr_tasks r)"
  proof -
    from that obtain t where t: "t \<in> set (sr_tasks (sx_run w))" "x = st_id t" unfolding ids [symmetric] by (rule imageE)
    show ?thesis using here [OF t] by (cases "st_status t \<in> {Completed, Failed}") (auto simp: task_sig_def)
  qed
  have same: "completed_at (sx_store w) x \<or> completed_at store' x \<Longrightarrow> sig_at store' x = sig_at (sx_store w) x"
  proof (cases "x \<in> st_id ` set (sr_tasks (sx_run w))")
    case True
    then obtain t where t: "t \<in> set (sr_tasks (sx_run w))" "x = st_id t" by blast
    assume "completed_at (sx_store w) x \<or> completed_at store' x"
    with here [OF t] show ?thesis by (auto simp: completed_at_def task_sig_def split: if_splits)
  qed (use s(2) in blast)
  then show "completed_at (sx_store w) x \<Longrightarrow> sig_at store' x = sig_at (sx_store w) x" by blast
  from same show "completed_at store' x \<Longrightarrow> completed_at (sx_store w) x" by (simp add: completed_at_def)
qed

lemma finish_run_simps [simp]:
  "sx_store (finish_run e layers w) = sx_store w" "sx_calls (finish_run e layers w) = sx_calls w"
  "sr_status (sx_run (finish_run e layers w)) = (if cancelled e (sx_boundary w) then Run_Cancelled
     else if sx_all_succeeded w then Run_Completed else Run_Failed)"
  by (simp_all add: finish_run_def Let_def)

text \<open>
  C31. Whenever the run is cancelled: the run ends, no task is handed to two workers, and only after all its
  dependencies were completed. A task is completed only if its worker said so, with the summary the
  worker gave; and a run is completed only if all its tasks are.
\<close>

theorem workers_wait_for_upstream:
  assumes valid: "validate_dag (sr_tasks r) = Inr ()" "distinct (map st_id (sr_tasks r))" "retries_ok r" "fresh_run r"
  shows "\<exists>w. execute_run e r = (Inr (), w) \<and> distinct (map fst (sx_calls w)) \<and>
    (\<forall>x \<in> fst ` set (sx_calls w). upstream_done (sr_tasks r) (sx_store w) x) \<and>
    (\<forall>x t. map_of (sx_store w) x = Some t \<and> st_status t = Completed \<longrightarrow>
       (\<exists>res. worker_said e r (sr_tasks r) (sx_calls w) x (Inr (Some res)) \<and> wr_status res = Worker_Completed \<and>
          st_summary t = Some (wr_summary res))) \<and>
    (sr_status (sx_run w) = Run_Completed \<longrightarrow> (\<forall>x \<in> st_id ` set (sr_tasks r). completed_at (sx_store w) x))"
proof -
  let ?T = "sr_tasks r"
  obtain layers w where l: "set (concat layers) = st_id ` set ?T" "execute_run e r = (Inr (), finish_run e layers w)"
    "loop_end e r {} 0 layers w" using execute_run_spec [OF valid, of e] by blast
  have said: "\<exists>res. worker_said e r ?T (sx_calls w1) x (Inr (Some res)) \<and> wr_status res = Worker_Completed \<and>
      st_summary t = Some (wr_summary res)"
    if "layers_inv e r D w1" "completed_at (sx_store w1) x" "sig_at (sx_store w1) x = Some (task_sig t)" for D w1 x t
  proof -
    have "x \<in> D" using that(1,2) by (simp add: layers_inv_def)
    then have "backed e r ?T (sx_calls w1) (sx_store w1) x" using that(1) by (simp add: layers_inv_def)
    moreover have "sig_at (sx_store w1) x = Some (Completed, [], st_summary t)"
      using that(2,3) by (auto simp: completed_at_def task_sig_def)
    ultimately show ?thesis unfolding backed_def by blast
  qed
  have calls: "distinct (map fst (sx_calls w1)) \<and> (\<forall>x \<in> fst ` set (sx_calls w1). upstream_done ?T (sx_store w1) x)"
    if "layers_inv e r D w1" for D w1
    using that unfolding layers_inv_def dispatchable_def by auto
  from loop_end_cases [OF l(3)] show ?thesis
  proof (elim disjE exE conjE)
    assume inv: "layers_inv e r ({} \<union> set (concat layers)) w" and b: "sx_boundary w = 0 + length layers"
    have "sig_at (sx_store w) x = Some (task_sig t) \<and> completed_at (sx_store w) x"
      if "map_of (sx_store w) x = Some t" "st_status t = Completed" for x t
      using that by (auto simp: sig_at_def completed_at_iff)
    then have "\<forall>x t. map_of (sx_store w) x = Some t \<and> st_status t = Completed \<longrightarrow>
        (\<exists>res. worker_said e r ?T (sx_calls w) x (Inr (Some res)) \<and> wr_status res = Worker_Completed \<and>
          st_summary t = Some (wr_summary res))" using said [OF inv] by blast
    moreover have "sx_all_succeeded w \<longleftrightarrow> (\<forall>x \<in> st_id ` set ?T. completed_at (sx_store w) x)"
      using inv unfolding Un_empty_left l(1) by (simp add: layers_inv_def)
    ultimately show ?thesis using calls [OF inv] l(2)
      by (intro exI [of _ "finish_run e layers w"]) simp
  next
    fix ran w1 store' rest
    assume inv: "layers_inv e r ({} \<union> set (concat ran)) w1"
      and w: "w = w1\<lparr>sx_store := store', sx_all_succeeded := False, sx_boundary := 0 + length ran\<rparr>"
      and c: "cancel_remaining_tasks (sr_tasks (sx_run w1)) w1 = w1\<lparr>sx_store := store'\<rparr>"
    note parts = cancelled_parts [OF inv c]
    have "upstream_done ?T store' x" if "upstream_done ?T (sx_store w1) x" for x
      using that parts(3) by (auto simp: upstream_done_def completed_at_def)
    moreover have "sig_at (sx_store w1) x = Some (task_sig t) \<and> completed_at (sx_store w1) x"
      if "map_of store' x = Some t" "st_status t = Completed" for x t
      using that parts(3,4) [of x] by (auto simp: sig_at_def completed_at_iff)
    then have "\<forall>x t. map_of (sx_store w) x = Some t \<and> st_status t = Completed \<longrightarrow>
        (\<exists>res. worker_said e r ?T (sx_calls w) x (Inr (Some res)) \<and> wr_status res = Worker_Completed \<and>
          st_summary t = Some (wr_summary res))" using said [OF inv] w by fastforce
    ultimately show ?thesis using calls [OF inv] l(2) w
      by (intro exI [of _ "finish_run e layers w"]) simp
  qed
qed

text \<open>
  C32. A run that is not cancelled decides every task: it is completed or failed when all its dependencies
  are completed, and blocked otherwise. The workers started are those of the tasks of the first kind
  whose agent is known, and the run is completed exactly when all tasks are, else failed.
\<close>

theorem run_decides_every_task:
  assumes valid: "validate_dag (sr_tasks r) = Inr ()" "distinct (map st_id (sr_tasks r))" "retries_ok r" "fresh_run r"
    and no_cancel: "se_cancel_at e = None"
  shows "\<exists>w. execute_run e r = (Inr (), w) \<and>
    (\<forall>x \<in> st_id ` set (sr_tasks r). \<exists>t. map_of (sx_store w) x = Some t \<and>
       st_status t \<in> (if upstream_done (sr_tasks r) (sx_store w) x then {Completed, Failed} else {Blocked_Task})) \<and>
    fst ` set (sx_calls w) = {x \<in> st_id ` set (sr_tasks r). dispatchable r (sr_tasks r) (sx_store w) x} \<and>
    sr_status (sx_run w) =
      (if \<forall>x \<in> st_id ` set (sr_tasks r). completed_at (sx_store w) x then Run_Completed else Run_Failed)"
proof -
  let ?T = "sr_tasks r"
  obtain layers w where l: "set (concat layers) = st_id ` set ?T" "execute_run e r = (Inr (), finish_run e layers w)"
    "loop_end e r {} 0 layers w" using execute_run_spec [OF valid, of e] by blast
  have nc: "\<not> cancelled e i" for i using no_cancel by (simp add: cancelled_def)
  have inv: "layers_inv e r (st_id ` set ?T) w" using loop_end_cases [OF l(3)] nc l(1) by auto
  have "\<exists>t. map_of (sx_store w) x = Some t \<and>
      st_status t \<in> (if upstream_done ?T (sx_store w) x then {Completed, Failed} else {Blocked_Task})"
    if "x \<in> st_id ` set ?T" for x
    using inv that unfolding layers_inv_def settled_def by (fastforce simp: sig_at_def task_sig_def)
  with inv l(2) nc show ?thesis by (intro exI [of _ "finish_run e layers w"]) (auto simp: layers_inv_def)
qed

definition demo_swarm :: "int \<Rightarrow> swarm_run" where
  "demo_swarm retries = build_run_from_preset ''p'' []
     [\<lparr>pt_agent = ''x'', pt_role = None, pt_system_prompt = None, pt_tools = None, pt_skills = None,
       pt_max_iterations = None, pt_timeout_seconds = None, pt_model_name = None, pt_max_retries = Some retries\<rparr>]
     [\<lparr>pt_id = ''b'', pt_agent_id = ''x'', pt_prompt_template = None, pt_depends_on = Some [''a''], pt_input_from = None\<rparr>,
      \<lparr>pt_id = ''a'', pt_agent_id = ''x'', pt_prompt_template = None, pt_depends_on = Some [], pt_input_from = None\<rparr>]
     ''r'' ''t0''"

lemma demo_swarm_tasks_of: "sr_tasks (demo_swarm n) = demo_nodes"
  by (simp add: demo_swarm_def build_run_from_preset_def demo_nodes_def demo_node_def)

lemma demo_swarm_ok:
  "validate_dag (sr_tasks (demo_swarm 1)) = Inr ()" "distinct (map st_id (sr_tasks (demo_swarm 1)))"
  "retries_ok (demo_swarm 1)" "fresh_run (demo_swarm 1)"
proof -
  have "acyclic (edges (task_graph demo_nodes))"
    using topological_layers_cases [OF demo_node_ids] by (simp add: demo_layers)
  then have "\<not> is_cycle (task_graph demo_nodes) c" for c using is_cycle_cyclic by blast
  then show "validate_dag (sr_tasks (demo_swarm 1)) = Inr ()"
    using validate_dag_cases [of demo_nodes] demo_node_ids(2)
    by (auto simp: demo_swarm_tasks_of deps_known_def split: sum.splits swarm_exc.splits)
  show "retries_ok (demo_swarm 1)"
    by (simp add: retries_ok_def demo_swarm_def build_run_from_preset_def build_agent_def or_default_def)
  show "distinct (map st_id (sr_tasks (demo_swarm 1)))" by (simp add: demo_swarm_tasks_of demo_node_ids)
  show "fresh_run (demo_swarm 1)" unfolding demo_swarm_def by (rule build_run_fresh)
qed

text \<open>A worker that fails at its first attempt and a run that is cancelled after its first layer.\<close>

definition demo_swarm_env :: "nat option \<Rightarrow> swarm_env" where
  "demo_swarm_env cancel = \<lparr>
     se_worker = (\<lambda>a t upstream attempt. if attempt = 0 then Inl ''down''
       else Inr (failed_result Worker_Completed [])),
     se_arrival = (\<lambda>i. [''a'', ''b'']), se_cancel_at = cancel, se_now = (\<lambda>n. ''now''),
     se_internal_roots = [], se_status_text = (\<lambda>s. ''status'')\<rparr>"

theorem workers_wait_for_upstream_witness:
  "\<exists>w. execute_run (demo_swarm_env (Some 1)) (demo_swarm 1) = (Inr (), w) \<and> distinct (map fst (sx_calls w)) \<and>
     (sr_status (sx_run w) = Run_Completed \<longrightarrow> completed_at (sx_store w) ''a'' \<and> completed_at (sx_store w) ''b'')"
  using workers_wait_for_upstream [OF demo_swarm_ok, of "demo_swarm_env (Some 1)"]
  by (auto simp: demo_swarm_tasks_of demo_nodes_def)

theorem run_decides_every_task_witness:
  "\<exists>w. execute_run (demo_swarm_env None) (demo_swarm 1) = (Inr (), w) \<and> ''a'' \<in> fst ` set (sx_calls w) \<and>
     (\<exists>t. map_of (sx_store w) ''a'' = Some t \<and> st_status t \<in> {Completed, Failed})"
proof -
  have a: "upstream_done demo_nodes store ''a''" "agent_for (demo_swarm 1) demo_nodes ''a'' \<noteq> None" for store
    by (simp_all add: upstream_done_def task_graph_def demo_nodes_def agent_for_def agent_map_def demo_swarm_def
        build_run_from_preset_def build_agent_def)
  then have "\<exists>w. execute_run (demo_swarm_env None) (demo_swarm 1) = (Inr (), w) \<and>
    (\<forall>x \<in> st_id ` set demo_nodes. \<exists>t. map_of (sx_store w) x = Some t \<and>
       st_status t \<in> (if upstream_done demo_nodes (sx_store w) x then {Completed, Failed} else {Blocked_Task})) \<and>
    fst ` set (sx_calls w) = {x \<in> st_id ` set demo_nodes. dispatchable (demo_swarm 1) demo_nodes (sx_store w) x}"
    using run_decides_every_task [OF demo_swarm_ok, of "demo_swarm_env None"]
    by (simp only: demo_swarm_tasks_of demo_swarm_env_def swarm_env.simps) blast
  then obtain w where w: "execute_run (demo_swarm_env None) (demo_swarm 1) = (Inr (), w)"
    "\<forall>x \<in> st_id ` set demo_nodes. \<exists>t. map_of (sx_store w) x = Some t \<and>
       st_status t \<in> (if upstream_done demo_nodes (sx_store w) x then {Completed, Failed} else {Blocked_Task})"
    "fst ` set (sx_calls w) = {x \<in> st_id ` set demo_nodes. dispatchable (demo_swarm 1) demo_nodes (sx_store w) x}" by blast
  have "''a'' \<in> st_id ` set demo_nodes" by (simp add: demo_nodes_def)
  with w a show ?thesis by (intro exI [of _ w]) (auto simp: dispatchable_def)
qed

text \<open>
  Two tasks with the same id pass the validation, yet no layers are found: the run raises before it
  guards against exceptions, and stays running.
\<close>

lemma duplicate_ids_get_stuck:
  "validate_dag [demo_node ''a'' [], demo_node ''a'' []] = Inr () \<and>
   fst (execute_run e ((demo_swarm 1)\<lparr>sr_tasks := [demo_node ''a'' [], demo_node ''a'' []]\<rparr>)) = Inl (Cycle_Left 1 2) \<and>
   sr_status (sx_run (snd (execute_run e ((demo_swarm 1)\<lparr>sr_tasks := [demo_node ''a'' [], demo_node ''a'' []]\<rparr>)))) = Run_Running"
proof -
  have l: "topological_layers [demo_node ''a'' [], demo_node ''a'' []] = Inl (Cycle_Left 1 2)"
    by (simp add: topological_layers_def in_degrees_def task_ids_def dependents_def Let_def)
  have "validate_dag [demo_node ''a'' [], demo_node ''a'' []] = Inr ()"
    by (simp add: validate_dag_def task_ids_def task_graph_def Let_def)
  with l show ?thesis by (simp add: execute_run_def begin_run_def)
qed

end
