(* ===== verification/Swarm_Store.thy ===== *)
theory Swarm_Store
  imports Swarm_Runtime Path_Safety
begin

text \<open>
  The directory of swarm runs, \<open>swarm/store.py\<close>: run files written by an atomic replacement that is
  retried on Windows, the append-only event log, and the reconciliation that decides what a run whose
  host may have died looks like: the live task files are merged into it, a run whose tasks are all
  terminal gets its final status, and a run that has been silent for too long is failed.

  A run file holds a run or a text that is not one; a line of the log is blank, is not JSON, or is an
  object with a timestamp that may also be an event. Task files always hold tasks. The clock, the parsing
  of dates, of floats and of the outcomes of reading and replacing a file come from outside.
  Instants are microseconds of UTC. Temporary files are not part of the model.
\<close>

section \<open>Data\<close>

record log_event =
  le_type :: string
  le_agent_id :: "string option"
  le_task_id :: "string option"
  le_data :: "(string \<times> pyval) list"
  le_timestamp :: string

datatype log_line = Blank_Line | Broken_Line | Json_Line "string option" "log_event option"

datatype run_file = Stored_Run swarm_run | Corrupt_Run string

record run_folder =
  rf_run :: "run_file option"
  rf_tasks :: "task_store option"
  rf_events :: "log_line list option"

datatype base_entry = Plain_File | Folder run_folder

datatype os_error = Os_Error "nat option"

datatype store_exc =
    Bad_Run_Id string
  | Run_Exists string
  | Run_Not_Found string
  | Replace_Failed os_error
  | Load_Failed string
  | Bad_Event_Line

text \<open>
  \<open>so_replace\<close> answers the attempts of the n-th replacement, \<open>so_read_error\<close> the attempts to read the
  file of a run.
\<close>

record store_env =
  so_swarm :: swarm_env
  so_replace :: "nat \<Rightarrow> nat \<Rightarrow> os_error option"
  so_read_error :: "string \<Rightarrow> nat \<Rightarrow> string option"
  so_events_unreadable :: "string \<Rightarrow> bool"
  so_from_iso :: "string \<Rightarrow> (int \<times> int option) option"
  so_iso :: "int \<Rightarrow> string"
  so_now :: int
  so_event_now :: int
  so_heartbeat :: "string option"
  so_float :: "string \<Rightarrow> pyfloat option"

record store_world =
  sw_base :: "(string \<times> base_entry) list option"
  sw_replaced :: nat

type_synonym 'a store_op = "store_world \<Rightarrow> (store_exc + 'a) \<times> store_world"

definition entries :: "store_world \<Rightarrow> (string \<times> base_entry) list" where
  "entries w = (case sw_base w of None \<Rightarrow> [] | Some b \<Rightarrow> b)"

definition folder_of :: "string \<Rightarrow> store_world \<Rightarrow> run_folder option" where
  "folder_of rid w = (case map_of (entries w) rid of Some (Folder f) \<Rightarrow> Some f | _ \<Rightarrow> None)"

definition put_folder :: "string \<Rightarrow> run_folder \<Rightarrow> store_world \<Rightarrow> store_world" where
  "put_folder rid f w = w\<lparr>sw_base := Some (AList.update rid (Folder f) (entries w))\<rparr>"

section \<open>Times\<close>

definition parse_iso :: "store_env \<Rightarrow> string option \<Rightarrow> int option" where
  "parse_iso e value =
     (case value of None \<Rightarrow> None
      | Some s \<Rightarrow> if s = [] then None
         else case so_from_iso e (replace_every ''Z'' ''+00:00'' 0 s) of
           None \<Rightarrow> None
         | Some (t, offset) \<Rightarrow> Some (t - (case offset of None \<Rightarrow> 0 | Some d \<Rightarrow> d)))"

fun tail_timestamp :: "store_env \<Rightarrow> log_line list \<Rightarrow> int option" where
  "tail_timestamp e [] = None"
| "tail_timestamp e (Blank_Line # ls) = tail_timestamp e ls"
| "tail_timestamp e (Broken_Line # ls) = tail_timestamp e ls"
| "tail_timestamp e (Json_Line ts ev # ls) = parse_iso e ts"

definition last_event_timestamp :: "store_env \<Rightarrow> string \<Rightarrow> store_world \<Rightarrow> int option" where
  "last_event_timestamp e rid w =
     (case folder_of rid w of None \<Rightarrow> None
      | Some f \<Rightarrow> (case rf_events f of None \<Rightarrow> None
         | Some ls \<Rightarrow> if so_events_unreadable e rid then None else tail_timestamp e (rev ls)))"

section \<open>Files\<close>

definition transient_winerrors :: "nat list" where
  "transient_winerrors = [5, 32]"

definition replace_attempts :: nat where
  "replace_attempts = 6"

definition is_transient_windows_error :: "os_error \<Rightarrow> bool" where
  "is_transient_windows_error exc =
     (case exc of Os_Error None \<Rightarrow> False | Os_Error (Some n) \<Rightarrow> n \<in> set transient_winerrors)"

fun replace_loop :: "(nat \<Rightarrow> os_error option) \<Rightarrow> nat list \<Rightarrow> os_error + unit" where
  "replace_loop outcome [] = Inr ()"
| "replace_loop outcome (attempt # rest) =
     (case outcome attempt of
        None \<Rightarrow> Inr ()
      | Some exc \<Rightarrow>
          if \<not> is_transient_windows_error exc then Inl exc
          else if attempt = replace_attempts - 1 then Inl exc
          else replace_loop outcome rest)"

definition replace_with_retry :: "(nat \<Rightarrow> os_error option) \<Rightarrow> os_error + unit" where
  "replace_with_retry outcome = replace_loop outcome [0..<replace_attempts]"

text \<open>The target of an atomic write is the file \<open>run.json\<close> of a run.\<close>

definition atomic_write :: "store_env \<Rightarrow> string \<Rightarrow> swarm_run \<Rightarrow> unit store_op" where
  "atomic_write e rid r w =
     (case folder_of rid w of
        None \<Rightarrow> (Inl (Run_Not_Found rid), w)
      | Some f \<Rightarrow>
          (let w1 = w\<lparr>sw_replaced := Suc (sw_replaced w)\<rparr> in
           case replace_with_retry (so_replace e (sw_replaced w)) of
             Inl exc \<Rightarrow> (Inl (Replace_Failed exc), w1)
           | Inr _ \<Rightarrow> (Inr (), put_folder rid (f\<lparr>rf_run := Some (Stored_Run r)\<rparr>) w1)))"

text \<open>The name of the directory of a run, which \<open>run_dir\<close> checks.\<close>

definition run_dir :: "string \<Rightarrow> store_exc + string" where
  "run_dir run_id =
     (let candidate = path_of run_id;
          parts = (if pa_absolute candidate then [''/''] else []) @ pa_parts candidate
      in if strip run_id = [] \<or> pa_absolute candidate \<or> length parts \<noteq> 1 \<or>
            list_ex (\<lambda>part. part \<in> {'''', ''.'', ''..''}) parts \<or>
            CHR ''/'' \<in> set run_id \<or> CHR 0x5C \<in> set run_id
         then Inl (Bad_Run_Id run_id) else Inr (path_name candidate))"

definition create_run :: "store_env \<Rightarrow> swarm_run \<Rightarrow> string store_op" where
  "create_run e r = wbind (wlift (run_dir (sr_id r))) (\<lambda>rid w.
     if map_of (entries w) rid \<noteq> None then (Inl (Run_Exists rid), w)
     else wbind (atomic_write e rid r) (\<lambda>_. wlift (Inr rid))
            (put_folder rid \<lparr>rf_run = None, rf_tasks = Some [], rf_events = None\<rparr> w))"

fun read_loop :: "store_env \<Rightarrow> string \<Rightarrow> run_file \<Rightarrow> string \<Rightarrow> nat list \<Rightarrow> string + swarm_run" where
  "read_loop e rid content err [] = Inl err"
| "read_loop e rid content err (attempt # rest) =
     (case so_read_error e rid attempt of
        Some err \<Rightarrow> read_loop e rid content err rest
      | None \<Rightarrow> (case content of
            Stored_Run r \<Rightarrow> Inr r
          | Corrupt_Run err \<Rightarrow> read_loop e rid content err rest))"

definition load_run :: "store_env \<Rightarrow> string \<Rightarrow> swarm_run option store_op" where
  "load_run e run_id = wbind (wlift (run_dir run_id)) (\<lambda>rid w.
     (case Option.bind (folder_of rid w) rf_run of
        None \<Rightarrow> (Inr None, w)
      | Some content \<Rightarrow>
          (case read_loop e rid content [] [0..<replace_attempts] of
             Inr r \<Rightarrow> (Inr (Some r), w)
           | Inl err \<Rightarrow> (Inl (Load_Failed (redact_internal_paths (so_swarm e) (Some err))), w))))"

definition update_run :: "store_env \<Rightarrow> swarm_run \<Rightarrow> unit store_op" where
  "update_run e r = wbind (wlift (run_dir (sr_id r))) (\<lambda>rid w.
     if map_of (entries w) rid = None then (Inl (Run_Not_Found rid), w) else atomic_write e rid r w)"

text \<open>\<open>runs.sort(key=..., reverse=True)\<close> keeps the order of runs with equal keys; a negative limit counts from the end.\<close>

definition readable_run :: "base_entry \<Rightarrow> swarm_run option" where
  "readable_run d = (case d of Folder f \<Rightarrow> (case rf_run f of Some (Stored_Run r) \<Rightarrow> Some r | _ \<Rightarrow> None)
     | Plain_File \<Rightarrow> None)"

definition list_runs :: "int \<Rightarrow> store_world \<Rightarrow> swarm_run list" where
  "list_runs limit w =
     (let runs = List.map_filter (\<lambda>(n, d). readable_run d) (entries w);
          runs = rev (sort_key sr_created_at (rev runs))
      in take (nat (if limit < 0 then int (length runs) + limit else limit)) runs)"

section \<open>The event log\<close>

definition append_event :: "string \<Rightarrow> log_event \<Rightarrow> unit store_op" where
  "append_event run_id ev = wbind (wlift (run_dir run_id)) (\<lambda>rid w.
     (case folder_of rid w of
        None \<Rightarrow> (Inl (Run_Not_Found rid), w)
      | Some f \<Rightarrow> (Inr (), put_folder rid (f\<lparr>rf_events :=
            Some ((case rf_events f of None \<Rightarrow> [] | Some ls \<Rightarrow> ls) @ [Json_Line (Some (le_timestamp ev)) (Some ev)])\<rparr>) w)))"

fun parse_events :: "log_line list \<Rightarrow> store_exc + log_event list" where
  "parse_events [] = Inr []"
| "parse_events (Blank_Line # ls) = parse_events ls"
| "parse_events (Json_Line ts (Some ev) # ls) = rbind (parse_events ls) (\<lambda>evs. Inr (ev # evs))"
| "parse_events (_ # ls) = Inl Bad_Event_Line"

definition strip_lines :: "log_line list \<Rightarrow> log_line list" where
  "strip_lines ls = rev (dropWhile (\<lambda>l. l = Blank_Line) (rev (dropWhile (\<lambda>l. l = Blank_Line) ls)))"

definition read_events :: "string \<Rightarrow> nat \<Rightarrow> store_world \<Rightarrow> store_exc + log_event list" where
  "read_events run_id after_index w = rbind (run_dir run_id) (\<lambda>rid.
     case Option.bind (folder_of rid w) rf_events of
       None \<Rightarrow> Inr []
     | Some ls \<Rightarrow> parse_events (drop after_index (strip_lines ls)))"

section \<open>Reconciliation\<close>

definition merge_tasks :: "swarm_task list \<Rightarrow> swarm_task list \<Rightarrow> swarm_task list" where
  "merge_tasks tasks live =
     (let by_id = fold (\<lambda>t d. AList.update (st_id t) t d) live [];
          merged = map (\<lambda>t. case map_of by_id (st_id t) of None \<Rightarrow> t | Some l \<Rightarrow> l) tasks;
          seen = map st_id merged
      in merged @ map snd (filter (\<lambda>(tid, t). tid \<notin> set seen) by_id))"

definition hydrate_run :: "swarm_run \<Rightarrow> store_world \<Rightarrow> store_exc + swarm_run" where
  "hydrate_run r w = rbind (run_dir (sr_id r)) (\<lambda>rid.
     case Option.bind (folder_of rid w) rf_tasks of
       None \<Rightarrow> Inr r
     | Some files \<Rightarrow>
         let live = load_all files in
         if live = [] then Inr r else Inr (r\<lparr>sr_tasks := merge_tasks (sr_tasks r) live\<rparr>))"

definition agent_budget :: "agent_spec \<Rightarrow> int" where
  "agent_budget a = max 1 (if ag_timeout_seconds a = 0 then 300 else ag_timeout_seconds a) *
     (max 0 (ag_max_retries a) + 1)"

definition retry_ceiling :: "swarm_run \<Rightarrow> int" where
  "retry_ceiling r = (let budgets = map agent_budget (sr_agents r)
     in (if budgets \<noteq> [] then Max (set budgets) else 300) + 60)"

definition compute_stale_threshold :: "store_env \<Rightarrow> swarm_run \<Rightarrow> pyfloat" where
  "compute_stale_threshold e r =
     (let interval = (case so_heartbeat e of None \<Rightarrow> Fin 3
                      | Some s \<Rightarrow> (case so_float e s of None \<Rightarrow> Fin 3 | Some x \<Rightarrow> x));
          heartbeat_floor = fmax (Fin 60) (fmul interval (Fin 10));
          ceiling = Fin (of_int (retry_ceiling r))
      in fmax (Fin 60) (if flt ceiling heartbeat_floor then ceiling else heartbeat_floor))"

definition whole_seconds :: "pyfloat \<Rightarrow> int" where
  "whole_seconds x = (case x of Fin q \<Rightarrow> \<lfloor>q\<rfloor> | _ \<Rightarrow> 0)"

definition is_run_stale :: "store_env \<Rightarrow> swarm_run \<Rightarrow> store_world \<Rightarrow> store_exc + bool" where
  "is_run_stale e r w =
     (if sr_status r \<noteq> Run_Running then Inr False
      else rbind (run_dir (sr_id r)) (\<lambda>rid.
        let last_activity = (case last_event_timestamp e rid w of Some t \<Rightarrow> Some t
                             | None \<Rightarrow> parse_iso e (Some (sr_created_at r)))
        in case last_activity of
             None \<Rightarrow> Inr False
           | Some t \<Rightarrow> Inr (flt (compute_stale_threshold e r) (Fin (of_int (so_now e - t) / 1000000)))))"

definition terminal_run :: "run_status \<Rightarrow> bool" where
  "terminal_run s \<longleftrightarrow> s \<in> {Run_Completed, Run_Failed, Run_Cancelled}"

definition terminal_task :: "task_status \<Rightarrow> bool" where
  "terminal_task s \<longleftrightarrow> s \<in> {Completed, Failed, Cancelled_Task}"

definition recover_terminal :: "store_env \<Rightarrow> swarm_run \<Rightarrow> swarm_run" where
  "recover_terminal e r =
     (let statuses = set (map st_status (sr_tasks r));
          new_status = (if statuses \<subseteq> {Completed} then Run_Completed
                        else if Failed \<in> statuses then Run_Failed
                        else if statuses \<subseteq> {Cancelled_Task, Completed} then Run_Cancelled
                        else Run_Failed);
          no_text = (\<lambda>s. s = None \<or> s = Some []);
          report = (if new_status = Run_Completed \<and> no_text (sr_final_report r)
                    then (case find (\<lambda>t. \<not> no_text (st_summary t)) (rev (sr_tasks r)) of
                            None \<Rightarrow> sr_final_report r | Some t \<Rightarrow> st_summary t)
                    else sr_final_report r)
      in r\<lparr>sr_status := new_status,
           sr_completed_at := (if no_text (sr_completed_at r) then Some (so_iso e (so_now e)) else sr_completed_at r),
           sr_final_report := report\<rparr>)"

definition reap_stale_run :: "store_env \<Rightarrow> swarm_run \<Rightarrow> store_world \<Rightarrow> store_exc + swarm_run" where
  "reap_stale_run e r w = rbind (run_dir (sr_id r)) (\<lambda>rid.
     let error_msg = ''Run reaped: no event for >'' @ int_str (whole_seconds (compute_stale_threshold e r)) @
           ''s (last event at '' @ (case last_event_timestamp e rid w of None \<Rightarrow> ''never'' | Some t \<Rightarrow> so_iso e t) @
           ''); host process likely exited before completion.'';
         updated_tasks = map (\<lambda>t. if terminal_task (st_status t) then t
           else t\<lparr>st_status := Failed, st_error := Some error_msg, st_completed_at := Some (so_iso e (so_now e))\<rparr>)
           (sr_tasks r)
     in Inr (recover_terminal e (r\<lparr>sr_tasks := updated_tasks\<rparr>)))"

text \<open>\<open>TaskStore(run_dir)\<close> creates the directory of the tasks; the tasks are then saved one by one.\<close>

definition save_tasks :: "string \<Rightarrow> swarm_task list \<Rightarrow> store_world \<Rightarrow> store_world option" where
  "save_tasks rid tasks w =
     (case map_of (entries w) rid of
        Some Plain_File \<Rightarrow> None
      | Some (Folder f) \<Rightarrow>
          Some (put_folder rid (f\<lparr>rf_tasks := Some (fold save_task tasks (or_default (rf_tasks f) []))\<rparr>) w)
      | None \<Rightarrow> Some (put_folder rid \<lparr>rf_run = None, rf_tasks = Some (fold save_task tasks []), rf_events = None\<rparr> w))"

definition persist_recovery ::
    "store_env \<Rightarrow> swarm_run \<Rightarrow> string \<Rightarrow> (string \<times> pyval) list \<Rightarrow> unit store_op" where
  "persist_recovery e r kind event_data w =
     (case run_dir (sr_id r) of Inl _ \<Rightarrow> (Inr (), w)
      | Inr rid \<Rightarrow> (case save_tasks rid (sr_tasks r) w of
          None \<Rightarrow> (Inr (), w)
        | Some w \<Rightarrow> (case update_run e r w of
            (Inl _, w) \<Rightarrow> (Inr (), w)
          | (Inr _, w) \<Rightarrow> (case read_events (sr_id r) 0 w of
              Inl exc \<Rightarrow> (Inl exc, w)
            | Inr existing \<Rightarrow>
                if list_ex (\<lambda>ev. le_type ev = kind) existing then (Inr (), w)
                else (Inr (), snd (append_event (sr_id r)
                  \<lparr>le_type = kind, le_agent_id = None, le_task_id = None, le_data = event_data,
                   le_timestamp = so_iso e (so_event_now e)\<rparr> w))))))"

definition reconcile_run :: "store_env \<Rightarrow> swarm_run \<Rightarrow> bool \<Rightarrow> swarm_run store_op" where
  "reconcile_run e r write w =
     (case hydrate_run r w of
        Inl exc \<Rightarrow> (Inl exc, w)
      | Inr hydrated \<Rightarrow>
          if terminal_run (sr_status hydrated) then (Inr hydrated, w)
          else if sr_tasks hydrated \<noteq> [] \<and> list_all (\<lambda>t. terminal_task (st_status t)) (sr_tasks hydrated) then
            (let recovered = recover_terminal e hydrated in
             if write then wbind (persist_recovery e recovered ''run_recovered_terminal''
                 [(''reason'', VStr ''all tasks terminal'')]) (\<lambda>_. wlift (Inr recovered)) w
             else (Inr recovered, w))
          else case is_run_stale e hydrated w of
            Inl exc \<Rightarrow> (Inl exc, w)
          | Inr stale \<Rightarrow>
              if \<not> stale then (Inr hydrated, w)
              else (case reap_stale_run e hydrated w of
                Inl exc \<Rightarrow> (Inl exc, w)
              | Inr reaped \<Rightarrow>
                  if write then
                    let threshold = whole_seconds (compute_stale_threshold e hydrated) in
                    wbind (persist_recovery e reaped ''run_reaped''
                      [(''reason'', VStr (''no event for >'' @ int_str threshold @ ''s; host process likely exited'')),
                       (''stale_seconds'', VInt threshold)]) (\<lambda>_. wlift (Inr reaped)) w
                  else (Inr reaped, w)))"

text \<open>The sweep over the directory, in the order it is listed.\<close>

fun reap_entries :: "store_env \<Rightarrow> (string \<times> base_entry) list \<Rightarrow> string list \<Rightarrow> string list store_op" where
  "reap_entries e [] reaped = wlift (Inr reaped)"
| "reap_entries e ((n, Plain_File) # ds) reaped = reap_entries e ds reaped"
| "reap_entries e ((n, Folder f) # ds) reaped =
     wbind (load_run e n) (\<lambda>loaded.
       case loaded of
         None \<Rightarrow> reap_entries e ds reaped
       | Some r \<Rightarrow>
           if sr_status r \<noteq> Run_Running then reap_entries e ds reaped
           else wbind (reconcile_run e r True) (\<lambda>reconciled.
             reap_entries e ds (if sr_status reconciled \<noteq> Run_Running then reaped @ [sr_id r] else reaped)))"

definition reap_stale_running_runs :: "store_env \<Rightarrow> string list store_op" where
  "reap_stale_running_runs e w = reap_entries e (entries w) [] w"

end
