(* ===== verification/Swarm_Recovery.thy ===== *)
theory Swarm_Recovery
  imports Swarm_Store Swarm_Runs
begin

text \<open>What the run store guarantees: the reconciliation of runs, the liveness threshold and the files.\<close>

section \<open>Names and files\<close>

lemma split_on_without: "c \<notin> set s \<Longrightarrow> split_on c s = [s]"
  by (induction s) auto

lemma run_dir_name:
  assumes "run_dir rid = Inr d"
  shows "d = rid" and "CHR ''/'' \<notin> set rid" and "rid \<notin> {[], ''.'', ''..''}"
proof -
  have c: "CHR ''/'' \<notin> set rid" "strip rid \<noteq> []" "length (pa_parts (path_of rid)) = 1"
      "\<not> list_ex (\<lambda>part. part \<in> {'''', ''.'', ''..''}) (pa_parts (path_of rid))" "d = path_name (path_of rid)"
    using assms by (auto simp: run_dir_def Let_def split: if_splits)
  have p: "pa_parts (path_of rid) = filter (\<lambda>w. w \<notin> {'''', ''.''}) [rid]"
    using c(1) by (simp add: path_of_def split_on_without)
  show "d = rid" and "CHR ''/'' \<notin> set rid" and "rid \<notin> {[], ''.'', ''..''}"
    using c p by (auto simp: path_name_def split: if_splits)
qed

lemma folder_put_folder [simp]: "folder_of rid (put_folder x f w) = (if rid = x then Some f else folder_of rid w)"
  by (auto simp: folder_of_def put_folder_def entries_def update_conv' split: option.splits)

lemma map_of_put_folder [simp]:
  "map_of (entries (put_folder x f w)) rid = (if rid = x then Some (Folder f) else map_of (entries w) rid)"
  by (auto simp: put_folder_def entries_def update_conv' split: option.splits)

lemma folder_of_replaced [simp]: "folder_of rid (w\<lparr>sw_replaced := n\<rparr>) = folder_of rid w"
  by (simp add: folder_of_def entries_def)

text \<open>The replacement gives up at the first error that is not transient, or after the last attempt.\<close>

lemma replace_loop_ok:
  "replace_loop outcome [i..<replace_attempts] = Inr () \<longleftrightarrow> replace_attempts \<le> i \<or>
     (\<exists>k\<ge>i. k < replace_attempts \<and> outcome k = None \<and>
        (\<forall>j. i \<le> j \<and> j < k \<longrightarrow> (\<exists>exc. outcome j = Some exc \<and> is_transient_windows_error exc)))"
  (is "?L i \<longleftrightarrow> _ \<or> ?R i")
proof (induction "replace_attempts - i" arbitrary: i)
  case 0
  then show ?case by simp
next
  case (Suc n)
  then have i: "i < replace_attempts" "[i..<replace_attempts] = i # [Suc i..<replace_attempts]"
    by (simp_all add: upt_conv_Cons)
  have IH: "?L (Suc i) \<longleftrightarrow> replace_attempts \<le> Suc i \<or> ?R (Suc i)" using Suc by (intro Suc(1)) simp
  have R: "?R i \<longleftrightarrow> outcome i = None \<or>
      (\<exists>exc. outcome i = Some exc \<and> is_transient_windows_error exc) \<and> ?R (Suc i)"
  proof
    assume "?R i"
    then obtain k where k: "i \<le> k" "k < replace_attempts" "outcome k = None"
      "\<And>j. i \<le> j \<Longrightarrow> j < k \<Longrightarrow> \<exists>exc. outcome j = Some exc \<and> is_transient_windows_error exc" by blast
    show "outcome i = None \<or> (\<exists>exc. outcome i = Some exc \<and> is_transient_windows_error exc) \<and> ?R (Suc i)"
    proof (cases "k = i")
      case True
      with k(3) show ?thesis by simp
    next
      case False
      with k have "?R (Suc i)" by (intro exI [of _ k]) simp
      with k(1) k(4) [of i] False show ?thesis by simp
    qed
  next
    assume "outcome i = None \<or> (\<exists>exc. outcome i = Some exc \<and> is_transient_windows_error exc) \<and> ?R (Suc i)"
    then show "?R i"
    proof
      assume "outcome i = None"
      with i(1) show ?thesis by (intro exI [of _ i]) auto
    next
      assume a: "(\<exists>exc. outcome i = Some exc \<and> is_transient_windows_error exc) \<and> ?R (Suc i)"
      then obtain k where k: "Suc i \<le> k" "k < replace_attempts" "outcome k = None"
        "\<And>j. Suc i \<le> j \<Longrightarrow> j < k \<Longrightarrow> \<exists>exc. outcome j = Some exc \<and> is_transient_windows_error exc" by blast
      have "\<exists>exc. outcome j = Some exc \<and> is_transient_windows_error exc" if "i \<le> j" "j < k" for j
        using a k(4) [of j] that by (cases "j = i") simp_all
      with k show ?thesis by (intro exI [of _ k]) simp
    qed
  qed
  show ?case
    using i IH unfolding R by (cases "outcome i") auto
qed

lemma replace_with_retry_ok:
  "replace_with_retry outcome = Inr () \<longleftrightarrow> (\<exists>k<replace_attempts. outcome k = None \<and>
     (\<forall>j<k. \<exists>exc. outcome j = Some exc \<and> is_transient_windows_error exc))"
  using replace_loop_ok [of outcome 0] by (simp add: replace_with_retry_def replace_attempts_def)

section \<open>The threshold\<close>

lemma agent_budget_pos: "1 \<le> agent_budget a"
proof -
  have "1 * 1 \<le> agent_budget a" unfolding agent_budget_def by (rule mult_mono) auto
  then show ?thesis by simp
qed

lemma retry_ceiling_ge: "61 \<le> retry_ceiling r"
proof (cases "sr_agents r")
  case Nil
  then show ?thesis by (simp add: retry_ceiling_def)
next
  case (Cons a as)
  then have "agent_budget a \<le> Max (set (map agent_budget (sr_agents r)))" by simp
  with agent_budget_pos [of a] have "1 \<le> Max (set (map agent_budget (sr_agents r)))" by linarith
  with Cons show ?thesis by (simp add: retry_ceiling_def)
qed

lemma threshold_bounds:
  "\<exists>q. compute_stale_threshold e r = Fin q \<and> 60 \<le> q \<and> q \<le> of_int (retry_ceiling r)"
proof -
  define x where "x = (case so_heartbeat e of None \<Rightarrow> Fin 3
                      | Some s \<Rightarrow> (case so_float e s of None \<Rightarrow> Fin 3 | Some x \<Rightarrow> x))"
  have c: "(61::rat) \<le> of_int (retry_ceiling r)"
    using retry_ceiling_ge [of r] by (metis of_int_le_iff of_int_numeral)
  show ?thesis
    unfolding compute_stale_threshold_def x_def [symmetric] Let_def
    using c by (cases x) (auto simp: fmax_def fsign_def)
qed

section \<open>Merging the task files\<close>

text \<open>Every task file is named after its task.\<close>

definition named_files :: "task_store \<Rightarrow> bool" where
  "named_files files \<longleftrightarrow> distinct (map fst files) \<and> (\<forall>(tid, t) \<in> set files. st_id t = tid)"

lemma named_filesD: "named_files files \<Longrightarrow> map_of files tid = Some t \<Longrightarrow> st_id t = tid"
  by (auto simp: named_files_def dest: map_of_SomeD)

lemma named_save: "named_files files \<Longrightarrow> named_files (save_task t files)"
proof -
  assume n: "named_files files"
  have d: "distinct (map fst (save_task t files))" using n by (simp add: named_files_def save_task_def distinct_update)
  have "st_id u = tid" if "(tid, u) \<in> set (save_task t files)" for tid u
  proof -
    from d that have "map_of (save_task t files) tid = Some u" by (rule map_of_is_SomeI)
    then show ?thesis using named_filesD [OF n] by (auto split: if_splits)
  qed
  with d show ?thesis by (auto simp: named_files_def)
qed

lemma named_save_all: "named_files files \<Longrightarrow> named_files (fold save_task ts files)"
  by (induction ts arbitrary: files) (simp_all add: named_save)

lemma named_Nil [simp]: "named_files []"
  by (simp add: named_files_def)

lemma saved_all:
  "map_of (fold save_task ts files) tid =
     (case find (\<lambda>t. st_id t = tid) (rev ts) of None \<Rightarrow> map_of files tid | Some t \<Rightarrow> Some t)"
proof (induction ts arbitrary: files)
  case Nil
  show ?case by simp
next
  case (Cons t ts)
  have app: "find P (xs @ [y]) = (case find P xs of None \<Rightarrow> if P y then Some y else None | Some z \<Rightarrow> Some z)"
    for P :: "swarm_task \<Rightarrow> bool" and xs y by (induction xs) auto
  show ?case using Cons by (auto simp: app split: option.splits)
qed

lemma find_saved:
  fixes ts :: "swarm_task list"
  assumes "distinct (map st_id ts)"
  shows "find (\<lambda>t. st_id t = tid) (rev ts) = Some t \<longleftrightarrow> t \<in> set ts \<and> st_id t = tid"
proof -
  have "find (\<lambda>t. st_id t = tid) ts = Some t \<longleftrightarrow> t \<in> set ts \<and> st_id t = tid"
    if "distinct (map st_id ts)" for ts and t :: swarm_task
    using that by (induction ts) (auto split: if_splits)
  from this [of "rev ts" t] assms show ?thesis by (simp flip: rev_map)
qed

lemma load_all_empty: "load_all files = [] \<longleftrightarrow> files = []"
proof -
  have "length (load_all files) = length files" by (simp add: load_all_def)
  then show ?thesis by (metis length_0_conv)
qed

text \<open>\<open>by_id\<close> of the live tasks is the content of the task files.\<close>

lemma live_map:
  assumes "named_files files"
  shows "map_of (fold save_task (load_all files) []) = map_of files"
proof
  fix tid
  have d: "distinct (map st_id (load_all files))"
  proof -
    let ?l = "sort_key (\<lambda>(tid, t). tid @ ''.json'') files"
    have "map st_id (load_all files) = map fst ?l"
      using assms by (fastforce simp: load_all_def named_files_def)
    moreover have "distinct (map fst ?l)" using assms by (simp add: named_files_def distinct_map)
    ultimately show ?thesis by simp
  qed
  have m: "t \<in> set (load_all files) \<and> st_id t = tid \<longleftrightarrow> map_of files tid = Some t" for t
  proof -
    have "t \<in> snd ` set files \<and> st_id t = tid \<longleftrightarrow> (tid, t) \<in> set files"
      using assms by (force simp: named_files_def image_iff)
    with assms show ?thesis by (simp add: named_files_def map_of_eq_Some_iff)
  qed
  let ?find = "find (\<lambda>t. st_id t = tid) (rev (load_all files))"
  have "?find = Some t \<longleftrightarrow> map_of files tid = Some t" for t
    using find_saved [OF d, of tid t] m [of t] by simp
  then have "?find = map_of files tid" by (metis option.exhaust)
  then show "map_of (fold save_task (load_all files) []) tid = map_of files tid"
    by (simp add: saved_all split: option.splits)
qed

lemma by_id_saves: "fold (\<lambda>t d. AList.update (st_id t) t d) live [] = fold save_task live []"
proof -
  have "save_task = (\<lambda>t d. AList.update (st_id t) t d)" by (intro ext) (simp add: save_task_def)
  then show ?thesis by simp
qed

text \<open>A run that holds every task of its files is not changed by the merge.\<close>

lemma merge_same:
  assumes "named_files files" and "\<And>t. t \<in> set ts \<Longrightarrow> map_of files (st_id t) \<in> {None, Some t}"
    and "fst ` set files \<subseteq> st_id ` set ts"
  shows "merge_tasks ts (load_all files) = ts"
proof -
  let ?by_id = "fold save_task (load_all files) []"
  note b = by_id_saves [of "load_all files"]
  have m: "map (\<lambda>t. case map_of ?by_id (st_id t) of None \<Rightarrow> t | Some l \<Rightarrow> l) ts = ts"
    using assms(2) by (intro map_idI) (auto simp: live_map [OF assms(1)] split: option.splits dest!: assms(2))
  have "tid \<in> st_id ` set ts" if "(tid, t) \<in> set ?by_id" for tid t
  proof -
    have "named_files ?by_id" by (rule named_save_all) simp
    with that have "map_of ?by_id tid = Some t" by (simp add: named_files_def)
    with live_map [OF assms(1)] assms(3) show ?thesis by (force dest: map_of_SomeD)
  qed
  then have "filter (\<lambda>(tid, t). tid \<notin> st_id ` set ts) ?by_id = []" by (auto simp: filter_empty_conv)
  with m show ?thesis unfolding merge_tasks_def b Let_def by simp
qed

lemma merge_ids:
  assumes "named_files files" and "distinct (map st_id ts)"
  shows "distinct (map st_id (merge_tasks ts (load_all files)))"
    and "fst ` set files \<subseteq> st_id ` set (merge_tasks ts (load_all files))"
proof -
  let ?by_id = "fold save_task (load_all files) []"
  let ?m = "map (\<lambda>t. case map_of ?by_id (st_id t) of None \<Rightarrow> t | Some l \<Rightarrow> l) ts"
  let ?extra = "map snd (filter (\<lambda>(tid, t). tid \<notin> st_id ` set ts) ?by_id)"
  have n: "named_files ?by_id" by (rule named_save_all) simp
  then have dom: "fst ` set files = fst ` set ?by_id"
    using live_map [OF assms(1)] by (metis dom_map_of_conv_image_fst)
  have ids: "map st_id ?m = map st_id ts"
    using named_filesD [OF assms(1)] by (auto simp: live_map [OF assms(1)] split: option.splits)
  have eq: "merge_tasks ts (load_all files) = ?m @ ?extra"
    unfolding merge_tasks_def by_id_saves Let_def ids by simp
  have ext: "map st_id ?extra = filter (\<lambda>tid. tid \<notin> st_id ` set ts) (map fst ?by_id)"
    using n by (auto simp: named_files_def filter_map comp_def case_prod_unfold intro!: map_cong)
  have "distinct (map st_id ts @ filter (\<lambda>tid. tid \<notin> st_id ` set ts) (map fst ?by_id))"
    using assms(2) n by (auto simp: named_files_def)
  then show "distinct (map st_id (merge_tasks ts (load_all files)))"
    unfolding eq map_append ids ext .
  have "st_id ` set (merge_tasks ts (load_all files)) = set (map st_id ?m @ map st_id ?extra)"
    unfolding eq by auto
  also have "\<dots> = st_id ` set ts \<union> {tid \<in> fst ` set ?by_id. tid \<notin> st_id ` set ts}"
    unfolding ids ext by auto
  finally show "fst ` set files \<subseteq> st_id ` set (merge_tasks ts (load_all files))"
    unfolding dom by auto
qed

section \<open>Recovery\<close>

lemma recover_terminal_simps [simp]:
  "sr_id (recover_terminal e r) = sr_id r"
  "sr_tasks (recover_terminal e r) = sr_tasks r"
  "terminal_run (sr_status (recover_terminal e r))"
  by (simp_all add: recover_terminal_def Let_def terminal_run_def)

text \<open>The status a run with terminal tasks gets.\<close>

definition settled_run :: "swarm_run \<Rightarrow> bool" where
  "settled_run r \<longleftrightarrow> (\<forall>t \<in> set (sr_tasks r). terminal_task (st_status t)) \<and>
     sr_status r = (if \<exists>t \<in> set (sr_tasks r). st_status t = Failed then Run_Failed
                    else if \<exists>t \<in> set (sr_tasks r). st_status t = Cancelled_Task then Run_Cancelled
                    else Run_Completed)"

lemma recover_settles:
  assumes "\<And>t. t \<in> set (sr_tasks r) \<Longrightarrow> terminal_task (st_status t)"
  shows "settled_run (recover_terminal e r)"
proof -
  have "st_status t \<in> {Completed, Failed, Cancelled_Task}" if "t \<in> set (sr_tasks r)" for t
    using assms [OF that] by (simp add: terminal_task_def)
  then show ?thesis
    using assms unfolding settled_run_def by (auto simp: recover_terminal_def Let_def)
qed

text \<open>Reaping fails the open tasks and keeps the others.\<close>

definition keeps_terminal :: "swarm_task list \<Rightarrow> swarm_task list \<Rightarrow> bool" where
  "keeps_terminal ts ts' \<longleftrightarrow> list_all2 (\<lambda>t t'. st_id t' = st_id t \<and>
     (if terminal_task (st_status t) then t' = t else st_status t' = Failed)) ts ts'"

lemma reap_facts:
  assumes "reap_stale_run e r w = Inr r'"
  shows "sr_id r' = sr_id r" and "settled_run r'" and "keeps_terminal (sr_tasks r) (sr_tasks r')"
  using assms unfolding keeps_terminal_def
  by (auto simp: reap_stale_run_def Let_def ok_iff terminal_task_def list_all2_map2 list_all2_same intro!: recover_settles
    split: if_splits)

lemma keeps_ids: "keeps_terminal ts ts' \<Longrightarrow> map st_id ts' = map st_id ts"
  unfolding keeps_terminal_def by (induction rule: list_all2_induct) auto

lemma keeps_refl: "(\<And>t. t \<in> set ts \<Longrightarrow> terminal_task (st_status t)) \<Longrightarrow> keeps_terminal ts ts"
  by (simp add: keeps_terminal_def list_all2_same)

lemma hydrate_fields:
  assumes "hydrate_run r w = Inr h"
  shows "sr_status h = sr_status r" and "sr_id h = sr_id r"
  using assms by (auto simp: hydrate_run_def ok_iff Let_def split: option.splits if_splits)

definition persisted :: "store_env \<Rightarrow> bool \<Rightarrow> swarm_run \<Rightarrow> store_world \<Rightarrow> store_world \<Rightarrow> bool" where
  "persisted e write r w w' \<longleftrightarrow>
     (if write then \<exists>kind event_data. persist_recovery e r kind event_data w = (Inr (), w') else w' = w)"

lemma reconcile_cases:
  assumes "reconcile_run e r write w = (Inr r', w')" and "hydrate_run r w = Inr h"
  shows "r' = h \<and> w' = w \<and> (terminal_run (sr_status h) \<or> is_run_stale e h w = Inr False) \<or>
    \<not> terminal_run (sr_status h) \<and> settled_run r' \<and> sr_id r' = sr_id h \<and> keeps_terminal (sr_tasks h) (sr_tasks r') \<and>
    terminal_run (sr_status r') \<and> persisted e write r' w w'"
proof (cases "terminal_run (sr_status h)")
  case True
  with assms show ?thesis by (simp add: reconcile_run_def)
next
  case running: False
  show ?thesis
  proof (cases "sr_tasks h \<noteq> [] \<and> list_all (\<lambda>t. terminal_task (st_status t)) (sr_tasks h)")
    case True
    then have t: "\<And>t. t \<in> set (sr_tasks h) \<Longrightarrow> terminal_task (st_status t)" by (simp add: list_all_iff)
    have "r' = recover_terminal e h \<and> persisted e write r' w w'"
      using assms running True
      by (auto simp: reconcile_run_def persisted_def Let_def ok_iff wlift_def split: if_splits)
    with running t show ?thesis by (auto simp: recover_settles keeps_refl)
  next
    case False
    from assms running False obtain stale where s: "is_run_stale e h w = Inr stale"
      by (auto simp: reconcile_run_def split: sum.splits if_splits)
    show ?thesis
    proof (cases stale)
      case stale: True
      have "reap_stale_run e h w = Inr r' \<and> persisted e write r' w w'"
        using assms running False s stale unfolding reconcile_run_def persisted_def
        by (auto simp: Let_def ok_iff wlift_def split: sum.splits if_splits)
      moreover from this have "terminal_run (sr_status r')" by (auto simp: reap_stale_run_def Let_def ok_iff)
      ultimately show ?thesis using running reap_facts by blast
    next
      case fresh: False
      with assms running False s show ?thesis by (auto simp: reconcile_run_def)
    qed
  qed
qed

lemma reconcile_view:
  assumes "reconcile_run e r write w = (Inr r', w')"
  shows "reconcile_run e r False w = (Inr r', w)"
  using assms unfolding reconcile_run_def
  by (auto simp: Let_def ok_iff wlift_def split: sum.splits if_splits)

text \<open>What a recovery leaves in the directory of the run.\<close>

lemma persist_facts:
  assumes "persist_recovery e r kind event_data w = (Inr (), w')" and "run_dir (sr_id r) = Inr rid"
    and "folder_of rid w = Some f" and "\<And>n. replace_with_retry (so_replace e n) = Inr ()"
  shows "\<exists>f'. folder_of rid w' = Some f' \<and> rf_run f' = Some (Stored_Run r) \<and>
    rf_tasks f' = Some (fold save_task (sr_tasks r) (or_default (rf_tasks f) []))"
proof -
  have e: "map_of (entries w) rid = Some (Folder f)"
    using assms(3) by (auto simp: folder_of_def split: option.splits base_entry.splits)
  show ?thesis
    using assms(1) assms(2-4) e
    by (auto simp: persist_recovery_def save_tasks_def update_run_def atomic_write_def append_event_def
        wlift_def wbind_def Let_def split: sum.splits if_splits)
qed

section \<open>An abandoned run\<close>

definition demo_store_env :: store_env where
  "demo_store_env = \<lparr>so_swarm = \<lparr>se_worker = \<lambda>a t up n. Inl [], se_arrival = \<lambda>i. [], se_cancel_at = None,
       se_now = \<lambda>n. [], se_internal_roots = [], se_status_text = \<lambda>s. []\<rparr>,
     so_replace = \<lambda>n attempt. None, so_read_error = \<lambda>rid attempt. None, so_events_unreadable = \<lambda>rid. False,
     so_from_iso = \<lambda>s. Some (0, None), so_iso = \<lambda>t. ''now'', so_now = 120000000, so_event_now = 120000001,
     so_heartbeat = None, so_float = \<lambda>s. None\<rparr>"

definition demo_open_task :: swarm_task where
  "demo_open_task = \<lparr>st_id = ''b'', st_agent_id = ''x'', st_prompt_template = [], st_depends_on = [],
     st_blocked_by = [], st_input_from = [], st_status = In_Progress, st_summary = None, st_artifacts = [],
     st_error = None, st_started_at = None, st_completed_at = None, st_worker_iterations = 0\<rparr>"

definition demo_closed_task :: swarm_task where
  "demo_closed_task = demo_open_task\<lparr>st_id := ''a'', st_status := Completed, st_summary := Some ''ok''\<rparr>"

definition demo_silent_run :: swarm_run where
  "demo_silent_run = \<lparr>sr_id = ''r'', sr_preset_name = [], sr_status = Run_Running, sr_user_vars = [], sr_agents = [],
     sr_tasks = [demo_open_task, demo_open_task\<lparr>st_id := ''a''\<rparr>], sr_created_at = ''c'', sr_completed_at = None,
     sr_final_report = None, sr_total_input_tokens = 0, sr_total_output_tokens = 0, sr_provider = None, sr_model = None\<rparr>"

definition demo_runs :: store_world where
  "demo_runs = \<lparr>sw_base = Some [(''r'', Folder \<lparr>rf_run = Some (Stored_Run demo_silent_run),
     rf_tasks = Some [(''a'', demo_closed_task), (''b'', demo_open_task)], rf_events = None\<rparr>)], sw_replaced = 0\<rparr>"

definition demo_hydrated :: swarm_run where
  "demo_hydrated = demo_silent_run\<lparr>sr_tasks := [demo_open_task, demo_closed_task]\<rparr>"

lemma demo_run_dir: "run_dir (sr_id demo_silent_run) = Inr ''r''"
  by code_simp

lemma demo_hydrate: "hydrate_run demo_silent_run demo_runs = Inr demo_hydrated"
  by code_simp

lemma demo_stale: "is_run_stale demo_store_env demo_hydrated demo_runs = Inr True"
  by code_simp

section \<open>Properties\<close>

text \<open>
  C33. Reconciliation never changes a finished run; any other run either stays as its task files show it,
  not being stale, or ends: its finished tasks are kept, its open tasks are failed, and its status is
  failed, cancelled or completed by its tasks. The view without writing is the same.
\<close>

theorem reconcile_settles:
  assumes "reconcile_run e r write w = (Inr r', w')" and "hydrate_run r w = Inr h"
  shows "(terminal_run (sr_status h) \<longrightarrow> r' = h \<and> w' = w) \<and>
    (r' = h \<and> \<not> terminal_run (sr_status h) \<longrightarrow> is_run_stale e h w = Inr False) \<and>
    (r' = h \<or> settled_run r' \<and> sr_id r' = sr_id r \<and> keeps_terminal (sr_tasks h) (sr_tasks r')) \<and>
    reconcile_run e r False w = (Inr r', w)"
  using reconcile_cases [OF assms] reconcile_view [OF assms(1)] hydrate_fields(2) [OF assms(2)] by auto

lemma demo_reconciled:
  "\<exists>r' w'. reconcile_run demo_store_env demo_silent_run True demo_runs = (Inr r', w') \<and> sr_status r' = Run_Failed"
proof -
  have "case reconcile_run demo_store_env demo_silent_run True demo_runs of
      (Inr r', w') \<Rightarrow> sr_status r' = Run_Failed | _ \<Rightarrow> False" by code_simp
  then show ?thesis by (auto split: prod.splits sum.splits)
qed

theorem reconcile_settles_witness:
  "\<exists>r' w'. reconcile_run demo_store_env demo_silent_run True demo_runs = (Inr r', w') \<and>
     settled_run r' \<and> keeps_terminal [demo_open_task, demo_closed_task] (sr_tasks r')"
proof -
  obtain r' w' where r: "reconcile_run demo_store_env demo_silent_run True demo_runs = (Inr r', w')"
    "sr_status r' = Run_Failed" using demo_reconciled by blast
  have "sr_status demo_hydrated = Run_Running" "sr_tasks demo_hydrated = [demo_open_task, demo_closed_task]"
    by (simp_all add: demo_hydrated_def demo_silent_run_def)
  with r reconcile_settles [OF r(1) demo_hydrate] show ?thesis by auto
qed

text \<open>
  C34. A recovered run is on disk: when the writes succeed, the run file loads as the recovered run, and
  reconciling it again changes neither the run nor the files.
\<close>

theorem recovered_run_is_stable:
  assumes "reconcile_run e r True w = (Inr r', w')" and "hydrate_run r w = Inr h" and "r' \<noteq> h"
    and "run_dir (sr_id r) = Inr rid" and "folder_of rid w = Some f"
    and "named_files (or_default (rf_tasks f) [])" and "distinct (map st_id (sr_tasks r))"
    and "\<And>n. replace_with_retry (so_replace e n) = Inr ()" and "\<And>n. so_read_error e rid n = None"
  shows "load_run e (sr_id r) w' = (Inr (Some r'), w') \<and> reconcile_run e r' True w' = (Inr r', w')"
proof -
  let ?files = "or_default (rf_tasks f) []"
  from reconcile_cases [OF assms(1,2)] assms(3) hydrate_fields(2) [OF assms(2)]
  obtain kind event_data where r': "settled_run r'" "sr_id r' = sr_id r" "keeps_terminal (sr_tasks h) (sr_tasks r')"
    "terminal_run (sr_status r')" "persist_recovery e r' kind event_data w = (Inr (), w')"
    by (auto simp: persisted_def)
  obtain f' where f': "folder_of rid w' = Some f'" "rf_run f' = Some (Stored_Run r')"
    "rf_tasks f' = Some (fold save_task (sr_tasks r') ?files)"
    using persist_facts [OF r'(5) _ assms(5,8)] assms(4) r'(2) by auto
  have load: "load_run e (sr_id r) w' = (Inr (Some r'), w')"
    using assms(4,9) f'(1,2) by (simp add: load_run_def replace_attempts_def upt_rec wbind_def wlift_def)
  have h: "sr_tasks h = merge_tasks (sr_tasks r) (load_all ?files) \<or> ?files = [] \<and> h = r"
    using assms(2,4,5) by (auto simp: hydrate_run_def or_default_def Let_def load_all_empty split: option.splits if_splits)
  have ids: "distinct (map st_id (sr_tasks r'))" "fst ` set ?files \<subseteq> st_id ` set (sr_tasks r')"
    using h merge_ids [OF assms(6,7)] assms(7) keeps_ids [OF r'(3)] by (metis set_map empty_set image_empty empty_subsetI)+
  have m: "map_of (fold save_task (sr_tasks r') ?files) (st_id t) = Some t" if "t \<in> set (sr_tasks r')" for t
    using find_saved [OF ids(1), of "st_id t" t] that by (simp add: saved_all)
  have "fst ` set (fold save_task (sr_tasks r') ?files) \<subseteq> st_id ` set (sr_tasks r')"
  proof
    fix tid assume "tid \<in> fst ` set (fold save_task (sr_tasks r') ?files)"
    then have m: "map_of (fold save_task (sr_tasks r') ?files) tid \<noteq> None" by (simp add: map_of_eq_None_iff)
    show "tid \<in> st_id ` set (sr_tasks r')"
    proof (cases "find (\<lambda>t. st_id t = tid) (rev (sr_tasks r'))")
      case None
      with m have "map_of ?files tid \<noteq> None" by (simp add: saved_all)
      with ids(2) show ?thesis by (metis map_of_eq_None_iff subsetD)
    next
      case (Some t)
      with find_saved [OF ids(1), of tid t] have "t \<in> set (sr_tasks r')" "tid = st_id t" by simp_all
      then show ?thesis by simp
    qed
  qed
  then have "merge_tasks (sr_tasks r') (load_all (fold save_task (sr_tasks r') ?files)) = sr_tasks r'"
    using m named_save_all [OF assms(6)] by (intro merge_same) auto
  then have "hydrate_run r' w' = Inr r'"
    using f' r'(2) assms(4) by (simp add: hydrate_run_def Let_def)
  with load r'(4) show ?thesis by (simp add: reconcile_run_def)
qed

theorem recovered_run_is_stable_witness:
  "\<exists>r' w'. reconcile_run demo_store_env demo_silent_run True demo_runs = (Inr r', w') \<and>
     load_run demo_store_env ''r'' w' = (Inr (Some r'), w') \<and> reconcile_run demo_store_env r' True w' = (Inr r', w')"
proof -
  obtain r' w' where r: "reconcile_run demo_store_env demo_silent_run True demo_runs = (Inr r', w')"
    "sr_status r' = Run_Failed" using demo_reconciled by blast
  let ?f = "\<lparr>rf_run = Some (Stored_Run demo_silent_run),
     rf_tasks = Some [(''a'', demo_closed_task), (''b'', demo_open_task)], rf_events = None\<rparr>"
  have ne: "r' \<noteq> demo_hydrated" using r(2) by (auto simp: demo_hydrated_def demo_silent_run_def)
  have f: "folder_of ''r'' demo_runs = Some ?f" by (simp add: folder_of_def entries_def demo_runs_def)
  have n: "named_files (or_default (rf_tasks ?f) [])"
    by (simp add: named_files_def or_default_def demo_closed_task_def demo_open_task_def)
  have d: "distinct (map st_id (sr_tasks demo_silent_run))" by (simp add: demo_silent_run_def demo_open_task_def)
  have "replace_with_retry (so_replace demo_store_env n) = Inr ()" "so_read_error demo_store_env ''r'' n = None" for n
    by (simp_all add: replace_with_retry_ok replace_attempts_def demo_store_env_def exI [of _ 0])
  from recovered_run_is_stable [OF r(1) demo_hydrate ne demo_run_dir f n d this]
  have "load_run demo_store_env (sr_id demo_silent_run) w' = (Inr (Some r'), w')"
    "reconcile_run demo_store_env r' True w' = (Inr r', w')" by simp_all
  with r(1) show ?thesis by (auto simp: demo_silent_run_def)
qed

text \<open>
  However the heartbeat is configured, a running run is not stale during the minute after its last
  activity, and it is stale once it has been silent for longer than its agents may take for all their
  attempts and a minute.
\<close>

theorem silence_decides_staleness:
  assumes "sr_status r = Run_Running" and "run_dir (sr_id r) = Inr rid"
    and "last_event_timestamp e rid w = Some t \<or>
         last_event_timestamp e rid w = None \<and> parse_iso e (Some (sr_created_at r)) = Some t"
  shows "(so_now e - t \<le> 60 * 1000000 \<longrightarrow> is_run_stale e r w = Inr False) \<and>
    (retry_ceiling r * 1000000 < so_now e - t \<longrightarrow> is_run_stale e r w = Inr True)"
proof -
  obtain q where q: "compute_stale_threshold e r = Fin q" "60 \<le> q" "q \<le> of_int (retry_ceiling r)"
    using threshold_bounds by blast
  have s: "is_run_stale e r w = Inr (q < of_int (so_now e - t) / 1000000)"
    using assms q(1) by (auto simp: is_run_stale_def Let_def)
  have "of_int (so_now e - t) / 1000000 \<le> q" if "so_now e - t \<le> 60 * 1000000"
  proof -
    from that have "of_int (so_now e - t) \<le> (of_int (60 * 1000000) :: rat)" by (rule of_int_le_iff [THEN iffD2])
    with q(2) show ?thesis by simp
  qed
  moreover have "q < of_int (so_now e - t) / 1000000" if "retry_ceiling r * 1000000 < so_now e - t"
  proof -
    from that have "of_int (retry_ceiling r * 1000000) < (of_int (so_now e - t) :: rat)" by (rule of_int_less_iff [THEN iffD2])
    with q(3) show ?thesis by simp
  qed
  ultimately show ?thesis unfolding s by auto
qed

theorem silence_decides_staleness_witness:
  "is_run_stale demo_store_env demo_hydrated demo_runs = Inr True \<and>
   is_run_stale (demo_store_env\<lparr>so_now := 60000000\<rparr>) demo_hydrated demo_runs = Inr False"
proof -
  have l: "last_event_timestamp e ''r'' demo_runs = None" for e
    by (simp add: last_event_timestamp_def folder_of_def entries_def demo_runs_def)
  have p: "parse_iso (demo_store_env\<lparr>so_now := n\<rparr>) (Some (sr_created_at demo_hydrated)) = Some 0" for n
    by (simp add: parse_iso_def demo_store_env_def demo_hydrated_def demo_silent_run_def)
  have r: "sr_status demo_hydrated = Run_Running" "run_dir (sr_id demo_hydrated) = Inr ''r''"
    using demo_run_dir by (simp_all add: demo_hydrated_def demo_silent_run_def)
  have "is_run_stale (demo_store_env\<lparr>so_now := 60000000\<rparr>) demo_hydrated demo_runs = Inr False"
    using silence_decides_staleness [OF r, of "demo_store_env\<lparr>so_now := 60000000\<rparr>" demo_runs 0] l p by simp
  then show ?thesis using demo_stale by simp
qed

text \<open>
  One corrupt run file stops the sweep over the directory: the exception of \<open>load_run\<close> is not caught, so
  that the runs listed after it are not reconciled, while \<open>list_runs\<close> skips such a file.
\<close>

theorem corrupt_run_stops_sweep:
  assumes "entries w = (n, Folder f) # ds" and "rf_run f = Some (Corrupt_Run msg)" and "run_dir n = Inr n"
  shows "\<exists>exc. reap_stale_running_runs e w = (Inl exc, w)"
    and "list_runs limit w = list_runs limit (w\<lparr>sw_base := Some ds\<rparr>)"
proof -
  have l: "\<exists>err'. read_loop e n (Corrupt_Run msg) err as = Inl err'" for err as
    by (induction as arbitrary: err) (auto split: option.splits)
  have "folder_of n w = Some f" using assms(1) by (simp add: folder_of_def)
  with assms(2,3) l [of "[]" "[0..<replace_attempts]"] have "\<exists>exc. load_run e n w = (Inl exc, w)"
    by (auto simp: load_run_def wbind_def wlift_def)
  then show "\<exists>exc. reap_stale_running_runs e w = (Inl exc, w)"
    using assms(1) by (auto simp: reap_stale_running_runs_def wbind_def)
  show "list_runs limit w = list_runs limit (w\<lparr>sw_base := Some ds\<rparr>)"
    using assms(1,2) by (simp add: list_runs_def readable_run_def entries_def List.map_filter_simps)
qed

end
