(* ===== verification/Live_Store.thy ===== *)
theory Live_Store
  imports Py_Values
begin

text \<open>
  The files of the live-trading channel (\<open>agent/src/live\<close>): the keys of \<open>paths.py\<close>, the kill switch of
  \<open>halt.py\<close>, the counter of \<open>daily_count.py\<close>, the redaction of \<open>tools/redaction.py\<close> and the ledger of
  \<open>audit.py\<close>. A file is the JSON value it holds; a file that is missing, unreadable or not JSON is
  \<open>None\<close>, except that a sentinel's existence is kept apart from its contents. Of the writes only the
  ledger's is taken to fail.
\<close>

section \<open>The store\<close>

record live_store =
  lv_halt :: "string option \<Rightarrow> pyval option option"
  lv_mandate :: "string \<Rightarrow> pyval option"
  lv_counter :: "string \<Rightarrow> pyval option"
  lv_proposals :: "string \<Rightarrow> string \<Rightarrow> pyval option"
  lv_consents :: "string \<Rightarrow> string \<Rightarrow> pyval option"
  lv_ledger :: "pydict list"
  lv_ledger_writable :: bool
  lv_draws :: nat

definition broker_key :: "string \<Rightarrow> string live" where
  "broker_key broker =
     (let key = lower (strip broker)
      in if key = [] then Inl (Value_Error ''broker key must not be empty'')
         else if CHR ''/'' \<in> set key \<or> CHR 0x5C \<in> set key \<or> contains key ''..''
         then Inl (Value_Error ''invalid broker key'')
         else Inr key)"

definition new_hex :: "py_env \<Rightarrow> string \<Rightarrow> live_store \<Rightarrow> string \<times> live_store" where
  "new_hex e prefix s = (prefix @ ''_'' @ pe_uuid_hex e (lv_draws s), s\<lparr>lv_draws := Suc (lv_draws s)\<rparr>)"

section \<open>The kill switch\<close>

definition halt_key :: "string option \<Rightarrow> string option live" where
  "halt_key broker = (case broker of None \<Rightarrow> Inr None | Some b \<Rightarrow> rbind (broker_key b) (\<lambda>k. Inr (Some k)))"

definition trip_halt ::
  "py_env \<Rightarrow> string \<Rightarrow> string \<Rightarrow> string option \<Rightarrow> live_store \<Rightarrow> live_store live" where
  "trip_halt e origin reason broker s =
     rbind (halt_key broker) (\<lambda>k.
       Inr (s\<lparr>lv_halt := (lv_halt s)(k := Some (Some (VDict
         [(''tripped_at'', VStr (pe_iso e (pe_now e))), (''by'', VStr origin), (''reason'', VStr reason)])))\<rparr>))"

definition clear_halt :: "string option \<Rightarrow> live_store \<Rightarrow> (bool \<times> live_store) live" where
  "clear_halt broker s =
     rbind (halt_key broker) (\<lambda>k.
       Inr (case lv_halt s k of None \<Rightarrow> (False, s)
            | Some c \<Rightarrow> (True, s\<lparr>lv_halt := (lv_halt s)(k := None)\<rparr>)))"

definition halt_flag_set :: "string option \<Rightarrow> live_store \<Rightarrow> bool" where
  "halt_flag_set broker s =
     (if lv_halt s None \<noteq> None then True
      else case broker of
        None \<Rightarrow> False
      | Some b \<Rightarrow> (case broker_key b of Inl e \<Rightarrow> True | Inr k \<Rightarrow> lv_halt s (Some k) \<noteq> None))"

definition read_halt :: "string option \<Rightarrow> live_store \<Rightarrow> pydict option live" where
  "read_halt broker s =
     rbind (halt_key broker) (\<lambda>k.
       Inr (case lv_halt s k of
              None \<Rightarrow> None
            | Some (Some (VDict d)) \<Rightarrow> Some d
            | Some c \<Rightarrow> Some []))"

text \<open>The actions a runner registers for a halt, by broker; \<open>None\<close> is the fallback.\<close>

type_synonym 'r halt_actions = "string option \<Rightarrow> (string \<Rightarrow> 'r) option"

definition register_halt_action ::
  "(string \<Rightarrow> 'r) \<Rightarrow> string option \<Rightarrow> 'r halt_actions \<Rightarrow> 'r halt_actions" where
  "register_halt_action action broker acts = acts(broker := Some action)"

definition unregister_halt_action :: "string option \<Rightarrow> 'r halt_actions \<Rightarrow> bool \<times> 'r halt_actions" where
  "unregister_halt_action broker acts = (acts broker \<noteq> None, acts(broker := None))"

definition on_halt_action :: "string \<Rightarrow> 'r halt_actions \<Rightarrow> 'r option" where
  "on_halt_action broker acts =
     (case (case acts (Some broker) of Some a \<Rightarrow> Some a | None \<Rightarrow> acts None) of
        None \<Rightarrow> None
      | Some action \<Rightarrow> Some (action broker))"

section \<open>The daily counter\<close>

definition read_daily_count :: "py_env \<Rightarrow> string \<Rightarrow> live_store \<Rightarrow> int live" where
  "read_daily_count e broker s =
     rbind (broker_key broker) (\<lambda>k.
       case lv_counter s k of
         Some (VDict raw) \<Rightarrow>
           if dget raw ''date'' \<noteq> VStr (utc_today e) then Inr 0
           else (case py_int (dget_or raw ''count'' (VInt 0)) of
                   Inl Overflow_Error \<Rightarrow> Inl Overflow_Error
                 | Inl x \<Rightarrow> Inr 0
                 | Inr n \<Rightarrow> Inr n)
       | _ \<Rightarrow> Inr 0)"

definition increment_daily_count :: "py_env \<Rightarrow> string \<Rightarrow> live_store \<Rightarrow> (int \<times> live_store) live" where
  "increment_daily_count e broker s =
     rbind (read_daily_count e broker s) (\<lambda>n.
     rbind (broker_key broker) (\<lambda>k.
       Inr (n + 1, s\<lparr>lv_counter := (lv_counter s)(k := Some (VDict
         [(''date'', VStr (utc_today e)), (''count'', VInt (n + 1))]))\<rparr>)))"

section \<open>Redaction\<close>

definition pii_exact_keys :: "string list" where
  "pii_exact_keys =
     [''account_number'', ''account_id'', ''account_no'', ''account_num'',
      ''brokerage_account_number'', ''brokerage_account_id'', ''account_url'',
      ''rhs_account_number'', ''ssn'', ''social_security_number'', ''tax_id'',
      ''taxpayer_id'', ''tin'', ''routing_number'', ''bank_account_number'']"

definition sensitive_arg_keys :: "string list" where
  "sensitive_arg_keys =
     [''api_key'', ''authorization'', ''content'', ''env'', ''headers'', ''passphrase'',
      ''password'', ''secret'', ''token''] @ pii_exact_keys"

definition sensitive_arg_markers :: "string list" where
  "sensitive_arg_markers =
     [''api_key'', ''authorization'', ''password'', ''secret'', ''token'']"

definition fold_key :: "string \<Rightarrow> string" where
  "fold_key name = filter is_alnum (lower name)"

definition is_sensitive_arg :: "string \<Rightarrow> bool" where
  "is_sensitive_arg name =
     (let normalized = lower (strip name); folded = fold_key name
      in normalized \<in> set sensitive_arg_keys \<or> list_ex (contains normalized) sensitive_arg_markers \<or>
         folded \<in> set (map fold_key sensitive_arg_keys) \<or>
         list_ex (contains folded) (map fold_key sensitive_arg_markers))"

fun redact_payload :: "pyval \<Rightarrow> pyval" where
  "redact_payload (VDict d) =
     VDict (map (\<lambda>(k, v). (k, if is_sensitive_arg k then VStr ''[redacted]'' else redact_payload v)) d)"
| "redact_payload (VList l) = VList (map redact_payload l)"
| "redact_payload v = v"

section \<open>The ledger\<close>

datatype action_kind =
    Order_Placed | Order_Cancelled | Order_Rejected | Mandate_Committed | Breach_Kind
  | Halt_Tripped | Halt_Cleared

datatype action_outcome = Accepted | Filled_Outcome | Rejected | Error_Outcome | Blocked

fun kind_text :: "action_kind \<Rightarrow> string" where
  "kind_text Order_Placed = ''order_placed''"
| "kind_text Order_Cancelled = ''order_cancelled''"
| "kind_text Order_Rejected = ''order_rejected''"
| "kind_text Mandate_Committed = ''mandate_committed''"
| "kind_text Breach_Kind = ''breach''"
| "kind_text Halt_Tripped = ''halt_tripped''"
| "kind_text Halt_Cleared = ''halt_cleared''"

fun outcome_text :: "action_outcome \<Rightarrow> string" where
  "outcome_text Accepted = ''accepted''"
| "outcome_text Filled_Outcome = ''filled''"
| "outcome_text Rejected = ''rejected''"
| "outcome_text Error_Outcome = ''error''"
| "outcome_text Blocked = ''blocked''"

record live_action_event =
  le_kind :: action_kind
  le_session_id :: string
  le_outcome :: action_outcome
  le_server :: string
  le_remote_tool :: "string option"
  le_intent_normalized :: "string option"
  le_mandate_snapshot_ref :: "string option"
  le_consent_record_ref :: "string option"
  le_broker_request :: "pydict option"
  le_broker_response :: "pydict option"
  le_gate_decision :: "pydict option"
  le_error :: "string option"

definition opt_str :: "string option \<Rightarrow> pyval" where
  "opt_str x = (case x of None \<Rightarrow> VNone | Some s \<Rightarrow> VStr s)"

definition opt_dict :: "pydict option \<Rightarrow> pyval" where
  "opt_dict x = (case x of None \<Rightarrow> VNone | Some d \<Rightarrow> VDict d)"

definition to_record :: "string \<Rightarrow> string \<Rightarrow> live_action_event \<Rightarrow> pydict" where
  "to_record audit_id ts ev =
     map (\<lambda>(k, v). (k, if is_sensitive_arg k then VStr ''[redacted]'' else redact_payload v))
      [(''audit_id'', VStr audit_id), (''ts'', VStr ts), (''session_id'', VStr (le_session_id ev)),
       (''kind'', VStr (kind_text (le_kind ev))),
       (''intent_normalized'', opt_str (le_intent_normalized ev)),
       (''mandate_snapshot_ref'', opt_str (le_mandate_snapshot_ref ev)),
       (''consent_record_ref'', opt_str (le_consent_record_ref ev)),
       (''broker_request'', opt_dict (le_broker_request ev)),
       (''broker_response'', opt_dict (le_broker_response ev)),
       (''outcome'', VStr (outcome_text (le_outcome ev))),
       (''gate_decision'', opt_dict (le_gate_decision ev)), (''server'', VStr (le_server ev)),
       (''remote_tool'', opt_str (le_remote_tool ev)), (''error'', opt_str (le_error ev))]"

text \<open>
  \<open>write_live_action\<close> as the gates call it: without trace and callback, and with any exception turned into
  \<open>None\<close>.
\<close>

definition write_live_action :: "py_env \<Rightarrow> live_action_event \<Rightarrow> live_store \<Rightarrow> pydict option \<times> live_store" where
  "write_live_action e ev s =
     (let (audit_id, s) = new_hex e ''la'' s; r = to_record audit_id (pe_iso e (pe_now e)) ev
      in if lv_ledger_writable s then (Some r, s\<lparr>lv_ledger := lv_ledger s @ [r]\<rparr>) else (None, s))"

section \<open>Facts about the store\<close>

lemma broker_key_idem [simp]:
  assumes "broker_key b = Inr k"
  shows "k \<noteq> []"
  using assms by (auto simp: broker_key_def Let_def split: if_splits)

lemma trip_halt_flag:
  assumes "trip_halt e origin reason broker s = Inr t"
  shows "halt_flag_set broker t" and "broker = None \<Longrightarrow> halt_flag_set b t"
  using assms by (auto simp: trip_halt_def halt_key_def rbind_Inr_iff halt_flag_set_def split: option.splits)

lemma trip_halt_frame [frame]:
  assumes "trip_halt e origin reason broker s = Inr t"
  shows "lv_mandate t = lv_mandate s" "lv_counter t = lv_counter s" "lv_ledger t = lv_ledger s"
  using assms by (auto simp: trip_halt_def rbind_Inr_iff)

lemma read_after_increment:
  assumes "increment_daily_count e broker s = Inr (n, t)"
  shows "read_daily_count e broker t = Inr n" and "read_daily_count e broker s = Inr (n - 1)"
  using assms
  by (auto simp: increment_daily_count_def read_daily_count_def rbind_Inr_iff dget_def dget_or_def py_int_def)

lemma write_live_action_frame [frame, simp]:
  "lv_mandate (snd (write_live_action e ev s)) = lv_mandate s"
  "lv_counter (snd (write_live_action e ev s)) = lv_counter s"
  "lv_halt (snd (write_live_action e ev s)) = lv_halt s"
  "lv_ledger_writable (snd (write_live_action e ev s)) = lv_ledger_writable s"
  by (simp_all add: write_live_action_def new_hex_def Let_def)

lemma write_live_action_ledger:
  "lv_ledger_writable s \<Longrightarrow> \<exists>r. write_live_action e ev s = (Some r, snd (write_live_action e ev s)) \<and>
     lv_ledger (snd (write_live_action e ev s)) = lv_ledger s @ [r]"
  by (simp add: write_live_action_def new_hex_def Let_def)

text \<open>A payload is clean when no sensitive key has a value of its own left.\<close>

fun redacted :: "pyval \<Rightarrow> bool" where
  "redacted (VDict d) = list_all (\<lambda>(k, v). if is_sensitive_arg k then v = VStr ''[redacted]'' else redacted v) d"
| "redacted (VList l) = list_all redacted l"
| "redacted v = True"

lemma redact_payload_redacted [simp]: "redacted (redact_payload v)"
  by (induction v rule: redact_payload.induct) (auto simp: list_all_iff)

lemma redact_payload_redacted_id: "redacted v \<Longrightarrow> redact_payload v = v"
  by (induction v rule: redact_payload.induct) (force simp: list_all_iff intro!: map_idI split: if_splits)+

end
