(* ===== verification/Goal_Context.thy ===== *)
theory Goal_Context
  imports Goal_Store
begin

text \<open>
  What the agent loop reads of a research goal, \<open>goal/context.py\<close>: the block that shows the goal to the
  model, the progress of a goal and the prompt that continues it. A snapshot is the record of
  \<open>Goal_Store\<close>; its keys are always there, so that the defaults of \<open>get\<close> do not show.
\<close>

section \<open>Texts\<close>

definition newline :: string where
  "newline = [char_of (10 :: nat)]"

fun join_lines :: "string list \<Rightarrow> string" where
  "join_lines [] = []"
| "join_lines [l] = l"
| "join_lines (l # m # ls) = l @ newline @ join_lines (m # ls)"

fun risk_tier_value :: "risk_tier \<Rightarrow> string" where
  "risk_tier_value RESEARCH_GENERAL = ''research_general''"
| "risk_tier_value MARKET_SPECIFIC_SHORT_TERM = ''market_specific_short_term''"
| "risk_tier_value PERSONALIZED_ADVICE_OR_POSITION_SIZING = ''personalized_advice_or_position_sizing''"
| "risk_tier_value LIVE_TRADING_OR_EXECUTION = ''live_trading_or_execution''"

definition or_text :: "string option \<Rightarrow> string \<Rightarrow> string" where
  "or_text v d = (case v of None \<Rightarrow> d | Some s \<Rightarrow> if s = [] then d else s)"

section \<open>Progress\<close>

definition open_criterion_statuses :: "string list" where
  "open_criterion_statuses = ['''', ''pending'', ''open'', ''unsatisfied'', ''missing'', ''stale'', ''too_weak'']"

definition continuable_goal_statuses :: "string list" where
  "continuable_goal_statuses = [''active'', ''needs_refresh'', ''insufficient_evidence'']"

definition criterion_is_covered :: "goal_snapshot \<Rightarrow> goal_criterion \<Rightarrow> bool" where
  "criterion_is_covered s c =
     (if lower (cr_status c) \<notin> set open_criterion_statuses then True
      else list_ex (\<lambda>v. ev_criterion_id v = Some (cr_criterion_id c)) (sn_evidence s))"

definition goal_progress_tuple :: "goal_snapshot \<Rightarrow> nat \<times> nat" where
  "goal_progress_tuple s =
     (length (filter (criterion_is_covered s) (sn_criteria s)),
      if sn_evidence_count s \<noteq> 0 then sn_evidence_count s else length (sn_evidence s))"

definition goal_needs_continuation :: "goal_snapshot \<Rightarrow> bool" where
  "goal_needs_continuation s \<longleftrightarrow> goal_status_value (go_status (sn_goal s)) \<in> set continuable_goal_statuses"

text \<open>Comparison of tuples.\<close>

definition progress_le :: "nat \<times> nat \<Rightarrow> nat \<times> nat \<Rightarrow> bool" where
  "progress_le p q \<longleftrightarrow> fst p < fst q \<or> fst p = fst q \<and> snd p \<le> snd q"

section \<open>The prompts\<close>

definition evidence_for :: "goal_snapshot \<Rightarrow> goal_criterion \<Rightarrow> nat" where
  "evidence_for s c = length (filter (\<lambda>v. ev_criterion_id v = Some (cr_criterion_id c)) (sn_evidence s))"

definition goal_lines :: "goal_record \<Rightarrow> string list" where
  "goal_lines g = [''goal_id: '' @ go_goal_id g, ''expected_goal_id: '' @ go_goal_id g,
     ''status: '' @ goal_status_value (go_status g), ''objective: '' @ go_objective g]"

definition format_goal_context :: "goal_snapshot \<Rightarrow> string" where
  "format_goal_context s = join_lines (
     [''<current-research-goal>''] @ goal_lines (sn_goal s) @
     [''risk_tier: '' @ risk_tier_value (go_risk_tier (sn_goal s)),
      ''evidence_count: '' @ nat_str (sn_evidence_count s), ''criteria:''] @
     map (\<lambda>(i, c). ''- '' @ nat_str i @ ''. ['' @ cr_status c @ ''] '' @ cr_criterion_id c @ '': '' @ cr_text c @
            '' (evidence='' @ nat_str (evidence_for s c) @ '')'')
       (enumerate 1 (sn_criteria s)) @
     [''instructions:'',
      ''- Continue this goal unless the user explicitly replaces or cancels it.'',
      ''- Use get_research_goal before mutating if you need the freshest snapshot.'',
      ''- Add evidence with add_goal_evidence after tool-backed or concrete research steps.'',
      ''- Do not treat a normal answer as finished while the goal status is still active.'',
      ''- If all criteria are covered, audit the ledger and use update_research_goal_status.'',
      ''- Complete or block the goal with update_research_goal_status only after an audit.'',
      ''</current-research-goal>''])"

definition open_items :: "goal_snapshot \<Rightarrow> string list" where
  "open_items s =
     (let items = map (\<lambda>c. ''- '' @ cr_criterion_id c @ '': '' @ cr_text c)
            (filter (\<lambda>c. cr_required c \<and> \<not> criterion_is_covered s c) (sn_criteria s))
      in if items = []
         then [''- All criteria appear covered; audit evidence and update goal status if completion is justified.'']
         else items)"

definition or_none_line :: "string list \<Rightarrow> string list" where
  "or_none_line ls = (if ls = [] then [''- none''] else ls)"

text \<open>\<open>str.rstrip\<close>.\<close>

definition rstrip :: "string \<Rightarrow> string" where
  "rstrip s = rev (dropWhile is_space (rev s))"

definition prior_block :: "string \<Rightarrow> string" where
  "prior_block previous_answer =
     (let prior = strip previous_answer
      in if prior = [] then [] else newline @ ''Previous assistant text:'' @ newline @ take 1200 prior @ newline)"

definition criterion_line :: "goal_snapshot \<Rightarrow> goal_criterion \<Rightarrow> string" where
  "criterion_line s c = ''- '' @ cr_criterion_id c @ '': '' @ cr_text c @ '' | status='' @ cr_status c @
     '' | coverage='' @ (if criterion_is_covered s c then ''covered'' else ''open'') @
     '' | evidence='' @ nat_str (evidence_for s c)"

definition claim_line :: "goal_claim \<Rightarrow> string" where
  "claim_line c = ''- '' @ cl_claim_id c @ '': '' @ cl_claim_type c @ '' | '' @ cl_status c @ '' | '' @ cl_text c"

definition evidence_line :: "evidence_record \<Rightarrow> string" where
  "evidence_line v = ''- '' @ ev_evidence_id v @ '': criterion='' @ or_text (ev_criterion_id v) ''none'' @
     '' | provider='' @ or_text (ev_source_provider v) (or_text (ev_source_type v) ''unknown'') @
     '' | as_of='' @ or_text (ev_data_as_of v) ''unknown'' @
     '' | verification='' @ or_text (Some (ev_verification_status v)) ''unknown'' @
     '' | text='' @ take 240 (ev_text v)"

definition format_goal_continuation_prompt :: "goal_snapshot \<Rightarrow> string \<Rightarrow> string" where
  "format_goal_continuation_prompt s previous_answer =
     (let (covered, total) = goal_progress_tuple s in join_lines (
     [''<goal-continuation>''] @ goal_lines (sn_goal s) @
     [''snapshot_progress: covered_criteria='' @ nat_str covered @ ''/'' @ nat_str (length (sn_criteria s)) @
        ''; evidence_count='' @ nat_str total,
      ''claims_snapshot:''] @ or_none_line (map claim_line (take 8 (sn_claims s))) @
     [''criteria_snapshot:''] @ or_none_line (map (criterion_line s) (sn_criteria s)) @
     [''recent_evidence_snapshot:''] @
     or_none_line (map evidence_line (drop (length (sn_evidence s) - 6) (sn_evidence s))) @
     [''open_required_items:''] @ open_items s @
     [rstrip (prior_block previous_answer),
      ''Rules:'',
      ''- Drive the next step from the snapshot above, not from the objective alone.'',
      ''- Prefer the highest-priority open criterion with zero evidence.'',
      ''- Use available tools when fresh or artifact-backed evidence is needed; reuse existing artifacts only when they answer the open criterion.'',
      ''- After concrete research progress, call add_goal_evidence and link the exact criterion_id.'',
      ''- If the ledger is sufficient, call update_research_goal_status with a completion audit.'',
      ''- If progress is impossible, set a blocker/insufficient-evidence status instead of stopping silently.'',
      ''</goal-continuation>'']))"

text \<open>The active goal of a session and its block; there is none without a session or a current goal.\<close>

definition get_current_goal_context :: "string \<Rightarrow> goal_db \<Rightarrow> goal_exc + string \<times> string option" where
  "get_current_goal_context session_id db =
     (if strip session_id = [] then Inr ([], None)
      else rbind (get_current_snapshot session_id db) (\<lambda>found. case found of
        None \<Rightarrow> Inr ([], None)
      | Some s \<Rightarrow> Inr (format_goal_context s, Some (go_goal_id (sn_goal s)))))"

end
