(* ===== verification/Agent_Loop.thy ===== *)
theory Agent_Loop
  imports Governance Live_Store Goal_Context
begin

text \<open>
  The loop of the agent, \<open>agent/loop.py\<close>: it asks the model, executes the tool calls of its answer and
  appends their results, compresses the conversation when it grows, skips filtered answers, keeps working
  on a research goal and ends with an answer, by cancellation, by an error or at its iteration limit.

  The model, the tools, the files and the clock come from outside; the answers of the model may depend on
  how often it was asked and on the conversation. A cancellation is the number of polls of the flag after
  which it is set. The tools of a parallel batch are read-only; their effects are taken in the order of
  their submission. The events for the user interface, the timing of tools and the signatures that Gemini
  attaches to tool calls have no influence on the loop and are left out.
\<close>

section \<open>Messages\<close>

datatype msg_role = System_Role | User_Role | Assistant_Role | Tool_Role

record call_ref =
  cf_id :: string
  cf_name :: string
  cf_arguments :: string

record message =
  ms_role :: msg_role
  ms_content :: "string option"
  ms_calls :: "call_ref list"
  ms_call_id :: string
  ms_name :: string
  ms_reasoning :: "string option"

definition text_message :: "msg_role \<Rightarrow> string \<Rightarrow> message" where
  "text_message r txt = \<lparr>ms_role = r, ms_content = Some txt, ms_calls = [], ms_call_id = [], ms_name = [],
     ms_reasoning = None\<rparr>"

definition format_tool_result :: "string \<Rightarrow> string \<Rightarrow> string \<Rightarrow> message" where
  "format_tool_result tool_call_id tool_name result = \<lparr>ms_role = Tool_Role, ms_content = Some result,
     ms_calls = [], ms_call_id = tool_call_id, ms_name = tool_name, ms_reasoning = None\<rparr>"

record tool_request =
  tq_id :: string
  tq_name :: string
  tq_arguments :: pydict

definition is_tool_msg :: "message \<Rightarrow> bool" where
  "is_tool_msg m \<longleftrightarrow> ms_role m = Tool_Role"

section \<open>Compaction without the model\<close>

definition keep_recent :: nat where "keep_recent = 3"

definition collapse_preserve_recent :: nat where "collapse_preserve_recent = 6"

definition collapse_text_min :: nat where "collapse_text_min = 2400"

definition collapse_head :: nat where "collapse_head = 900"

definition collapse_tail :: nat where "collapse_tail = 500"

definition tail_token_budget :: nat where "tail_token_budget = 20000"

definition tool_result_limit :: nat where "tool_result_limit = 10000"

text \<open>All tool messages but the last three lose a long content; the number counts those still to prune.\<close>

definition clear_content :: "message \<Rightarrow> message" where
  "clear_content m = (case ms_content m of
       Some c \<Rightarrow> if 100 < length c then m\<lparr>ms_content := Some ''[cleared]''\<rparr> else m
     | None \<Rightarrow> m)"

fun clear_first :: "nat \<Rightarrow> message list \<Rightarrow> message list" where
  "clear_first n [] = []"
| "clear_first 0 ms = ms"
| "clear_first (Suc n) (m # ms) =
     (if is_tool_msg m then clear_content m # clear_first n ms else m # clear_first (Suc n) ms)"

definition microcompact :: "message list \<Rightarrow> message list" where
  "microcompact ms = clear_first (length (filter is_tool_msg ms) - keep_recent) ms"

definition collapse_content :: "message \<Rightarrow> message" where
  "collapse_content m = (case ms_content m of
       None \<Rightarrow> m
     | Some c \<Rightarrow>
         if length c \<le> collapse_text_min then m
         else if c = ''[cleared]'' then m
         else m\<lparr>ms_content := Some (take collapse_head c @ newline @ newline @ ''...['' @
                nat_str (length c - collapse_head - collapse_tail) @ '' chars collapsed]...'' @ newline @ newline @
                drop (length c - collapse_tail) c)\<rparr>)"

definition context_collapse :: "message list \<Rightarrow> message list" where
  "context_collapse ms =
     (if length ms \<le> collapse_preserve_recent + 1 then ms
      else let n = length ms - collapse_preserve_recent
           in take 1 ms @ map collapse_content (drop 1 (take n ms)) @ drop n ms)"

section \<open>Tool calls and their results\<close>

definition message_call_ids :: "message \<Rightarrow> string list" where
  "message_call_ids m = (if ms_role m = Assistant_Role then filter (\<lambda>i. i \<noteq> []) (map cf_id (ms_calls m)) else [])"

definition call_ids :: "message list \<Rightarrow> string list" where
  "call_ids ms = concat (map message_call_ids ms)"

definition drop_orphans :: "message list \<Rightarrow> message list" where
  "drop_orphans ms = (let ids = call_ids ms in filter (\<lambda>m. \<not> (is_tool_msg m \<and> ms_call_id m \<notin> set ids)) ms)"

definition result_ids :: "message list \<Rightarrow> string list" where
  "result_ids ms = filter (\<lambda>i. i \<noteq> []) (map ms_call_id (filter is_tool_msg ms))"

definition stub_result :: "call_ref \<Rightarrow> message" where
  "stub_result c = format_tool_result (cf_id c) (cf_name c) ''[Result from earlier context - see summary above]''"

text \<open>The stubs with their positions; the ids that have a result grow with each stub.\<close>

fun call_stubs :: "nat \<Rightarrow> call_ref list \<Rightarrow> string list \<Rightarrow> (nat \<times> message) list \<times> string list" where
  "call_stubs idx [] ids = ([], ids)"
| "call_stubs idx (c # cs) ids =
     (if cf_id c \<noteq> [] \<and> cf_id c \<notin> set ids
      then (let (inserts, ids') = call_stubs idx cs (cf_id c # ids) in ((idx + 1, stub_result c) # inserts, ids'))
      else call_stubs idx cs ids)"

fun stub_inserts :: "nat \<Rightarrow> message list \<Rightarrow> string list \<Rightarrow> (nat \<times> message) list" where
  "stub_inserts idx [] ids = []"
| "stub_inserts idx (m # ms) ids =
     (if ms_role m \<noteq> Assistant_Role then stub_inserts (idx + 1) ms ids
      else let (inserts, ids) = call_stubs idx (ms_calls m) ids in inserts @ stub_inserts (idx + 1) ms ids)"

definition insert_at :: "nat \<Rightarrow> 'a \<Rightarrow> 'a list \<Rightarrow> 'a list" where
  "insert_at pos x xs = take pos xs @ x # drop pos xs"

definition fix_tool_pairs :: "message list \<Rightarrow> message list" where
  "fix_tool_pairs ms =
     (let ms = drop_orphans ms; inserts = stub_inserts 0 ms (result_ids ms)
      in fold (\<lambda>(pos, stub) ms. insert_at pos stub ms) (rev inserts) ms)"

section \<open>The environment and the state\<close>

datatype loop_exc = Provider_Stream_Error bool string | Agent_Error string

record chat_response =
  rs_content :: "string option"
  rs_calls :: "tool_request list"
  rs_reasoning :: "string option"
  rs_thinking :: string
  rs_usage :: pyval
  rs_content_filter_triggered :: bool

datatype summary_request =
    Fresh_Summary pyval string
  | Update_Summary string string pyval

datatype tool_outcome = Returned "string option" | Policy_Denied string | Raised string

record bg_notification =
  bn_task_id :: string
  bn_status :: string
  bn_result :: string

text \<open>
  \<open>ae_late n\<close> tells whether the n-th tool takes longer than the timeout, \<open>ae_goal_effect\<close> what it does to
  the goal store. \<open>ae_dumped\<close> is the JSON text of a list of messages.
\<close>

record loop_env =
  ae_stream :: "nat \<Rightarrow> message list \<Rightarrow> bool \<Rightarrow> loop_exc + chat_response"
  ae_chat :: "nat \<Rightarrow> summary_request \<Rightarrow> loop_exc + string option"
  ae_registry :: "string \<Rightarrow> base_tool option"
  ae_tool :: "nat \<Rightarrow> string \<Rightarrow> pydict \<Rightarrow> tool_outcome"
  ae_late :: "nat \<Rightarrow> bool"
  ae_goal_effect :: "nat \<Rightarrow> goal_db \<Rightarrow> goal_db"
  ae_tool_timeout :: rat
  ae_timeout_label :: string
  ae_cancel :: "nat option"
  ae_notifications :: "nat \<Rightarrow> bg_notification list"
  ae_loads :: "string \<Rightarrow> pyval option"
  ae_dumps :: "pyval \<Rightarrow> string"
  ae_dumped :: "message list \<Rightarrow> string"
  ae_resolve_under :: "string \<Rightarrow> string \<Rightarrow> string"
  ae_str :: "pyval \<Rightarrow> string"
  ae_token_threshold :: nat
  ae_max_iterations :: nat
  ae_goal_max_continuations :: nat
  ae_session_id :: string
  ae_goal_id :: "string option"
  ae_run_dir :: string
  ae_transcript :: "nat \<Rightarrow> string"
  ae_now :: "nat \<Rightarrow> string"
  ae_metrics_exist :: bool
  ae_filter_threshold :: pyfloat

datatype trace_entry =
    Tr_Cancelled
  | Tr_Forced_Text_Only nat
  | Tr_Thinking nat string
  | Tr_Filter_Breaker nat nat
  | Tr_Filter_Skipped nat
  | Tr_Empty_Response nat
  | Tr_Goal_Suppressed nat "nat \<times> nat" nat
  | Tr_Goal_Intermediate nat "nat \<times> nat" string
  | Tr_Assistant nat string
  | Tr_Answer nat string
  | Tr_Compact_Requested nat
  | Tr_Tool_Skipped nat string
  | Tr_Tool_Call nat string string pyval
  | Tr_Tool_Result nat string string string bool
  | Tr_Policy_Denied nat string string pyval bool
  | Tr_Compact nat nat pyval string

datatype react_entry =
    Re_Answer string
  | Re_Intermediate string
  | Re_Tool_Skipped string
  | Re_Tool_Call string string

record usage_totals =
  ut_input :: int
  ut_output :: int
  ut_total :: int
  ut_calls :: nat
  ut_per_iteration :: "(nat \<times> int \<times> int \<times> int) list"

text \<open>
  The last four fields record what was asked of the outside: the conversations sent to the model with
  whether tools were offered, the requests for summaries, and the tools that were started.
\<close>

record loop_state =
  al_messages :: "message list"
  al_called_ok :: "string list"
  al_counters :: "(string \<times> nat) list"
  al_previous_summary :: string
  al_trace :: "trace_entry list"
  al_react :: "react_entry list"
  al_usage :: usage_totals
  al_goals :: goal_db
  al_turn_accounted :: bool
  al_continuations :: nat
  al_last_progress :: "(nat \<times> nat) option"
  al_filtered :: nat
  al_consecutive_filtered :: nat
  al_breaker :: bool
  al_empty_iter :: "nat option"
  al_final :: string
  al_iteration :: nat
  al_polls :: nat
  al_prompts :: "(message list \<times> bool) list"
  al_summaries :: "summary_request list"
  al_executed :: "(string \<times> pydict) list"

type_synonym 'a loop_op = "loop_state \<Rightarrow> (loop_exc + 'a) \<times> loop_state"

definition add_trace :: "trace_entry \<Rightarrow> loop_state \<Rightarrow> loop_state" where
  "add_trace t s = s\<lparr>al_trace := al_trace s @ [t]\<rparr>"

definition add_react :: "react_entry \<Rightarrow> loop_state \<Rightarrow> loop_state" where
  "add_react t s = s\<lparr>al_react := al_react s @ [t]\<rparr>"

definition append_message :: "message \<Rightarrow> loop_state \<Rightarrow> loop_state" where
  "append_message m s = s\<lparr>al_messages := al_messages s @ [m]\<rparr>"

text \<open>\<open>_cancel_event.is_set()\<close>.\<close>

definition is_cancelled :: "loop_env \<Rightarrow> loop_state \<Rightarrow> bool" where
  "is_cancelled e s = (case ae_cancel e of None \<Rightarrow> False | Some k \<Rightarrow> k \<le> al_polls s)"

definition poll :: "loop_state \<Rightarrow> loop_state" where
  "poll s = s\<lparr>al_polls := Suc (al_polls s)\<rparr>"

section \<open>Results of tools\<close>

definition is_tool_success :: "loop_env \<Rightarrow> string \<Rightarrow> bool" where
  "is_tool_success e result = (case ae_loads e result of
       Some (VDict d) \<Rightarrow> dget d ''status'' \<noteq> VStr ''error''
     | _ \<Rightarrow> True)"

definition policy_denied_payload :: "loop_env \<Rightarrow> string \<Rightarrow> pydict option" where
  "policy_denied_payload e result = (case ae_loads e result of
       Some (VDict d) \<Rightarrow> if dget d ''error_code'' = VStr ''policy_denied'' then Some d else None
     | _ \<Rightarrow> None)"

definition redact_trace_result :: "loop_env \<Rightarrow> string \<Rightarrow> string" where
  "redact_trace_result e result = (case ae_loads e result of
       None \<Rightarrow> result
     | Some v \<Rightarrow> ae_dumps e (redact_payload v))"

text \<open>A relative \<open>run_dir\<close> is resolved under the run directory.\<close>

definition normalize_tool_run_dir :: "loop_env \<Rightarrow> pydict \<Rightarrow> pydict" where
  "normalize_tool_run_dir e args =
     (if ae_run_dir e = [] then args
      else case map_of args ''run_dir'' of
        None \<Rightarrow> dict_set ''run_dir'' (VStr (ae_run_dir e)) args
      | Some v \<Rightarrow>
          let value = strip (ae_str e v) in
          if value = [] then dict_set ''run_dir'' (VStr (ae_run_dir e)) args
          else if hd value \<noteq> CHR ''/''
          then dict_set ''run_dir'' (VStr (ae_resolve_under e (ae_run_dir e) value)) args
          else args)"

definition is_tool_readonly :: "loop_env \<Rightarrow> string \<Rightarrow> bool" where
  "is_tool_readonly e name = (case ae_registry e name of None \<Rightarrow> False | Some t \<Rightarrow> bt_is_readonly t)"

definition is_repeatable :: "loop_env \<Rightarrow> string \<Rightarrow> bool" where
  "is_repeatable e name = (case ae_registry e name of None \<Rightarrow> False | Some t \<Rightarrow> bt_repeatable t)"

definition timeout_result :: "loop_env \<Rightarrow> string \<Rightarrow> string" where
  "timeout_result e name = ae_dumps e (VDict [(''status'', VStr ''error''), (''error_code'', VStr ''tool_timeout''),
     (''tool'', VStr name), (''timeout_seconds'', VFloat (Fin (ae_tool_timeout e))),
     (''message'', VStr (''Tool exceeded '' @ ae_timeout_label e @ '' timeout''))])"

text \<open>A read-only tool that is late is given up; a write tool is awaited.\<close>

definition invoke_tool :: "loop_env \<Rightarrow> string \<Rightarrow> pydict \<Rightarrow> string loop_op" where
  "invoke_tool e name args s =
     (let n = length (al_executed s);
          s = s\<lparr>al_executed := al_executed s @ [(name, args)], al_goals := ae_goal_effect e n (al_goals s)\<rparr>
      in if is_tool_readonly e name \<and> 0 < ae_tool_timeout e \<and> ae_late e n then (Inr (timeout_result e name), s)
         else case ae_tool e n name args of
           Returned None \<Rightarrow> (Inr [], s)
         | Returned (Some r) \<Rightarrow> (Inr r, s)
         | Policy_Denied m \<Rightarrow> (Inr m, s)
         | Raised m \<Rightarrow> (Inl (Agent_Error m), s))"

definition increment :: "string \<Rightarrow> (string \<times> nat) list \<Rightarrow> (string \<times> nat) list" where
  "increment key counters =
     AList.update key ((case map_of counters key of None \<Rightarrow> 0 | Some n \<Rightarrow> n) + 1) counters"

definition finalize_tool_result :: "loop_env \<Rightarrow> nat \<Rightarrow> tool_request \<Rightarrow> string \<Rightarrow> loop_state \<Rightarrow> loop_state" where
  "finalize_tool_result e iter tc result s =
     (let policy = policy_denied_payload e result;
          success = (if policy \<noteq> None then False else is_tool_success e result);
          trace_result = redact_trace_result e result;
          s = s\<lparr>al_counters := increment (tq_name tc) (al_counters s),
                al_called_ok := (if success then List.insert (tq_name tc) (al_called_ok s) else al_called_ok s)\<rparr>;
          s = append_message (format_tool_result (tq_id tc) (tq_name tc) (take tool_result_limit result)) s;
          s = add_trace (Tr_Tool_Result iter (tq_id tc) (tq_name tc) trace_result success) s;
          s = (case policy of None \<Rightarrow> s
               | Some d \<Rightarrow> add_trace (Tr_Policy_Denied iter (tq_name tc) (tq_id tc)
                   (dget_or d ''trace_status'' (VStr ''denied'')) (val_truthy (dget d ''shadow''))) s)
      in add_react (Re_Tool_Call (tq_name tc) (take 200 trace_result)) s)"

definition announce_call :: "loop_env \<Rightarrow> nat \<Rightarrow> tool_request \<Rightarrow> loop_state \<Rightarrow> loop_state" where
  "announce_call e iter tc s = add_trace (Tr_Tool_Call iter (tq_name tc) (tq_id tc)
     (redact_payload (VDict (normalize_tool_run_dir e (tq_arguments tc))))) s"

definition execute_single :: "loop_env \<Rightarrow> nat \<Rightarrow> tool_request \<Rightarrow> unit loop_op" where
  "execute_single e iter tc s =
     wbind (invoke_tool e (tq_name tc) (normalize_tool_run_dir e (tq_arguments tc)))
       (\<lambda>result s. (Inr (), finalize_tool_result e iter tc result s)) (announce_call e iter tc s)"

text \<open>All calls are announced and submitted before the results are recorded in the order of the calls.\<close>

fun invoke_all :: "loop_env \<Rightarrow> tool_request list \<Rightarrow> loop_state \<Rightarrow> (tool_request \<times> string) list \<times> loop_state" where
  "invoke_all e [] s = ([], s)"
| "invoke_all e (tc # tcs) s =
     (let (r, s) = invoke_tool e (tq_name tc) (normalize_tool_run_dir e (tq_arguments tc)) s;
          result = (case r of Inr txt \<Rightarrow> txt
             | Inl exc \<Rightarrow> ae_dumps e (VDict [(''status'', VStr ''error''),
                 (''error'', VStr (case exc of Agent_Error m \<Rightarrow> m | Provider_Stream_Error _ m \<Rightarrow> m))]));
          (rs, s) = invoke_all e tcs s
      in ((tc, result) # rs, s))"

definition execute_parallel :: "loop_env \<Rightarrow> nat \<Rightarrow> tool_request list \<Rightarrow> loop_state \<Rightarrow> loop_state" where
  "execute_parallel e iter tcs s =
     (let s = fold (announce_call e iter) tcs s;
          (results, s) = invoke_all e tcs s
      in fold (\<lambda>(tc, result). finalize_tool_result e iter tc result) results s)"

fun execute_each :: "loop_env \<Rightarrow> nat \<Rightarrow> tool_request list \<Rightarrow> unit loop_op" where
  "execute_each e iter [] = wlift (Inr ())"
| "execute_each e iter (tc # tcs) = wbind (execute_single e iter tc) (\<lambda>_. execute_each e iter tcs)"

text \<open>Consecutive read-only calls form a parallel batch, a write call a batch of its own.\<close>

fun split_batches :: "loop_env \<Rightarrow> tool_request list \<Rightarrow> tool_request list \<Rightarrow> (bool \<times> tool_request list) list" where
  "split_batches e current_ro [] = (if current_ro \<noteq> [] then [(True, current_ro)] else [])"
| "split_batches e current_ro (tc # tcs) =
     (if is_tool_readonly e (tq_name tc) then split_batches e (current_ro @ [tc]) tcs
      else (if current_ro \<noteq> [] then [(True, current_ro)] else []) @ (False, [tc]) # split_batches e [] tcs)"

fun run_batches :: "loop_env \<Rightarrow> nat \<Rightarrow> (bool \<times> tool_request list) list \<Rightarrow> unit loop_op" where
  "run_batches e iter [] = wlift (Inr ())"
| "run_batches e iter ((par, batch) # batches) = (\<lambda>s.
     if is_cancelled e s then (Inr (), poll s)
     else if par \<and> 1 < length batch
     then run_batches e iter batches (execute_parallel e iter batch (poll s))
     else wbind (execute_each e iter batch) (\<lambda>_. run_batches e iter batches) (poll s))"

definition batch_execute :: "loop_env \<Rightarrow> nat \<Rightarrow> tool_request list \<Rightarrow> unit loop_op" where
  "batch_execute e iter tcs = run_batches e iter (split_batches e [] tcs)"

definition skip_message :: "loop_env \<Rightarrow> string \<Rightarrow> string" where
  "skip_message e name = ae_dumps e (VDict [(''skipped'', VBool True),
     (''reason'', VStr (name @ '' already completed successfully. Use the previous result.''))])"

text \<open>The calls to execute, whether a compaction is requested and its topic.\<close>

record selection =
  sl_compact :: bool
  sl_topic :: pyval
  sl_calls :: "tool_request list"

fun select_calls :: "loop_env \<Rightarrow> nat \<Rightarrow> tool_request list \<Rightarrow> selection \<Rightarrow> loop_state \<Rightarrow> selection \<times> loop_state" where
  "select_calls e iter [] sel s = (sel, s)"
| "select_calls e iter (tc # tcs) sel s =
     (if tq_name tc = ''compact'' then
        select_calls e iter tcs
          (sel\<lparr>sl_compact := True, sl_topic := dget_or (tq_arguments tc) ''focus_topic'' (VStr [])\<rparr>)
          (add_trace (Tr_Compact_Requested iter) (append_message (format_tool_result (tq_id tc) ''compact''
             ([CHR 0x7B, CHR 0x22] @ ''status'' @ [CHR 0x22, CHR 0x3A, CHR 0x22] @ ''ok'' @ [CHR 0x22, CHR 0x2C, CHR 0x22] @
              ''message'' @ [CHR 0x22, CHR 0x3A, CHR 0x22] @ ''Compressing...'' @ [CHR 0x22, CHR 0x7D])) s))
      else if tq_name tc \<in> set (al_called_ok s) \<and> \<not> is_repeatable e (tq_name tc) then
        select_calls e iter tcs sel
          (add_react (Re_Tool_Skipped (tq_name tc)) (add_trace (Tr_Tool_Skipped iter (tq_name tc))
             (append_message (format_tool_result (tq_id tc) (tq_name tc) (skip_message e (tq_name tc))) s)))
      else select_calls e iter tcs (sel\<lparr>sl_calls := sl_calls sel @ [tc]\<rparr>) s)"

definition process_tool_calls :: "loop_env \<Rightarrow> nat \<Rightarrow> tool_request list \<Rightarrow> (bool \<times> pyval) loop_op" where
  "process_tool_calls e iter tcs s =
     (if is_cancelled e s then (Inr (False, VStr []), poll s)
      else let (sel, s) = select_calls e iter tcs \<lparr>sl_compact = False, sl_topic = VStr [], sl_calls = []\<rparr> (poll s);
               answer = (sl_compact sel, sl_topic sel)
           in case sl_calls sel of
             [] \<Rightarrow> (Inr answer, s)
           | [tc] \<Rightarrow> wbind (execute_single e iter tc) (\<lambda>_. wlift (Inr answer)) s
           | tcs \<Rightarrow> wbind (batch_execute e iter tcs) (\<lambda>_. wlift (Inr answer)) s)"

end
