(* ===== verification/Agent_Run.thy ===== *)
theory Agent_Run
  imports Agent_Loop
begin

text \<open>
  The loop itself, \<open>agent/loop.py\<close>, \<open>agent/memory.py\<close> and \<open>providers/content_filter.py\<close>: compaction by the
  model, usage, one iteration, the iterations of a run and its result.
\<close>

section \<open>Compaction by the model\<close>

definition estimate_tokens :: "loop_env \<Rightarrow> message list \<Rightarrow> nat" where
  "estimate_tokens e ms = length (ae_dumped e ms) div 4"

text \<open>\<open>str(None)\<close> has four characters.\<close>

definition message_tokens :: "message \<Rightarrow> nat" where
  "message_tokens m = (case ms_content m of None \<Rightarrow> 4 | Some c \<Rightarrow> length c) div 4 + 10"

text \<open>The walk from the end of the body: how many messages stay in front of the tail.\<close>

fun tail_cut :: "message list \<Rightarrow> nat \<Rightarrow> nat" where
  "tail_cut [] accumulated = 0"
| "tail_cut (m # before) accumulated =
     (if accumulated + message_tokens m > tail_token_budget then length before + 1
      else tail_cut before (accumulated + message_tokens m))"

function skip_results :: "message list \<Rightarrow> nat \<Rightarrow> nat" where
  "skip_results body cut_idx =
     (if 0 < cut_idx \<and> cut_idx < length body \<and> is_tool_msg (body ! cut_idx)
      then skip_results body (cut_idx + 1) else cut_idx)"
  by pat_completeness auto

termination
  by (relation "measure (\<lambda>(body, cut_idx). length body - cut_idx)") auto

declare skip_results.simps [simp del]

text \<open>The messages to compress and those to keep, unless there is nothing to compress.\<close>

definition split_body :: "message list \<Rightarrow> (message list \<times> message list) option" where
  "split_body body =
     (let cut_idx = skip_results body (tail_cut (rev body) 0) in
      if take cut_idx body \<noteq> [] then Some (take cut_idx body, drop cut_idx body)
      else if 2 < length body
      then (let cut_idx = max 1 (length body div 2) in Some (take cut_idx body, drop cut_idx body))
      else None)"

definition to_summary :: "string \<Rightarrow> (string \<times> nat) list \<Rightarrow> string" where
  "to_summary run_dir counters =
     (let ls = (if run_dir \<noteq> [] then [''- run_dir: '' @ run_dir] else []) @
               (if counters \<noteq> [] then [''- counters: '' @ concat (map (\<lambda>(i, k, v).
                  (if i = 0 then [] else '', '') @ k @ ''='' @ nat_str v) (enumerate 0 counters))] else [])
      in if ls \<noteq> [] then join_lines ls else ''(empty state)'')"

definition compressed_message :: "loop_env \<Rightarrow> string \<Rightarrow> loop_state \<Rightarrow> message" where
  "compressed_message e summary s =
     (let state_summary = to_summary (ae_run_dir e) (al_counters s);
          compressed = ''[Conversation compressed - handoff summary. Transcript: '' @
            ae_transcript e (length (al_summaries s)) @ '']'' @ newline @ newline @ summary @
            (if state_summary \<noteq> [] \<and> state_summary \<noteq> ''(empty state)''
             then newline @ newline @ ''Current agent state:'' @ newline @ state_summary else [])
      in text_message User_Role (compressed @ newline @ newline @ ''<system>Continue from the summary above.</system>''))"

definition auto_compact :: "loop_env \<Rightarrow> nat \<Rightarrow> pyval \<Rightarrow> unit loop_op" where
  "auto_compact e iter focus_topic s =
     (case split_body (tl (al_messages s)) of
        None \<Rightarrow> (Inr (), s)
      | Some (front, tail) \<Rightarrow>
          let topic = (if val_truthy focus_topic then focus_topic else VNone);
              conv_text = take 80000 (ae_dumped e front);
              request = (if al_previous_summary s \<noteq> [] then Update_Summary (al_previous_summary s) conv_text topic
                         else Fresh_Summary topic conv_text)
          in case ae_chat e (length (al_summaries s)) request of
               Inl exc \<Rightarrow> (Inl exc, s\<lparr>al_summaries := al_summaries s @ [request]\<rparr>)
             | Inr content \<Rightarrow>
                 let summary = or_text content [];
                     s1 = s\<lparr>al_previous_summary := summary, al_summaries := al_summaries s @ [request]\<rparr>;
                     s1 = add_trace (Tr_Compact iter (estimate_tokens e (al_messages s))
                            (if val_truthy focus_topic then focus_topic else VStr ''(none)'') summary) s1
                 in (Inr (), s1\<lparr>al_messages :=
                       fix_tool_pairs (hd (al_messages s) # compressed_message e summary s # tail)\<rparr>))"

section \<open>Usage\<close>

definition coerce_usage_int :: "pyval \<Rightarrow> loop_exc + int" where
  "coerce_usage_int v = (case py_int (val_or v (VInt 0)) of
       Inr i \<Rightarrow> Inr (max 0 i)
     | Inl Overflow_Error \<Rightarrow> Inl (Agent_Error ''cannot convert float infinity to integer'')
     | Inl _ \<Rightarrow> Inr 0)"

text \<open>Usage that is not a dict is \<open>None\<close> or something \<open>dict\<close> refuses.\<close>

definition normalize_llm_usage :: "pyval \<Rightarrow> loop_exc + (int \<times> int \<times> int) option" where
  "normalize_llm_usage usage = (case usage of
       VDict d \<Rightarrow>
         rbind (coerce_usage_int (dget d ''input_tokens'')) (\<lambda>input_tokens.
         rbind (coerce_usage_int (dget d ''output_tokens'')) (\<lambda>output_tokens.
         rbind (coerce_usage_int (dget d ''total_tokens'')) (\<lambda>total_tokens.
           let total_tokens = (if total_tokens = 0 \<and> (input_tokens \<noteq> 0 \<or> output_tokens \<noteq> 0)
                               then input_tokens + output_tokens else total_tokens)
           in Inr (if input_tokens = 0 \<and> output_tokens = 0 \<and> total_tokens = 0 then None
                   else Some (input_tokens, output_tokens, total_tokens)))))
     | _ \<Rightarrow> Inr None)"

definition record_llm_usage :: "pyval \<Rightarrow> nat \<Rightarrow> (int \<times> int \<times> int) option loop_op" where
  "record_llm_usage usage iter s =
     (case normalize_llm_usage usage of
        Inl exc \<Rightarrow> (Inl exc, s)
      | Inr None \<Rightarrow> (Inr None, s)
      | Inr (Some (i, out, sum_tokens)) \<Rightarrow> (Inr (Some (i, out, sum_tokens)), s\<lparr>al_usage := (al_usage s)\<lparr>
            ut_input := ut_input (al_usage s) + i, ut_output := ut_output (al_usage s) + out,
            ut_total := ut_total (al_usage s) + sum_tokens, ut_calls := ut_calls (al_usage s) + 1,
            ut_per_iteration := ut_per_iteration (al_usage s) @ [(iter, i, out, sum_tokens)]\<rparr>\<rparr>))"

text \<open>The usage of a turn is charged to the goal; an exception of the goal store is swallowed.\<close>

definition account_goal :: "loop_env \<Rightarrow> (int \<times> int \<times> int) option \<Rightarrow> loop_state \<Rightarrow> loop_state" where
  "account_goal e usage_delta s =
     (case ae_goal_id e of None \<Rightarrow> s
      | Some gid \<Rightarrow>
          if gid = [] \<or> ae_session_id e = [] then s
          else let token_delta = (case usage_delta of None \<Rightarrow> 0 | Some (i, out, sum_tokens) \<Rightarrow> sum_tokens);
                   turn_delta = (if al_turn_accounted s then 0 else 1)
               in if token_delta = 0 \<and> turn_delta = 0 then s
                  else case account_usage (ae_now e (al_iteration s)) (ae_session_id e) gid gid token_delta 0 turn_delta
                         (al_goals s) of
                    (Inl _, db) \<Rightarrow> s\<lparr>al_goals := db\<rparr>
                  | (Inr _, db) \<Rightarrow> s\<lparr>al_goals := db, al_turn_accounted := True\<rparr>)"

section \<open>One iteration\<close>

datatype loop_signal = Continue_Loop | Break_Loop

definition wrap_up_at :: "nat \<Rightarrow> nat" where
  "wrap_up_at n = max 1 (n * 4 div 5)"

definition microcompact_threshold :: "nat \<Rightarrow> nat" where
  "microcompact_threshold n = n div 2"

definition collapse_threshold :: "nat \<Rightarrow> nat" where
  "collapse_threshold n = n * 7 div 10"

definition max_consecutive_content_filter_skips :: nat where
  "max_consecutive_content_filter_skips = 10"

definition content_filter_skip_message :: string where
  "content_filter_skip_message = ''[SYSTEM] The previous response was blocked by content moderation. '' @
     ''Skip the current item and continue with the next one. Do not retry the same content.''"

definition inject_notifications :: "loop_env \<Rightarrow> nat \<Rightarrow> loop_state \<Rightarrow> loop_state" where
  "inject_notifications e iteration s =
     (let notifs = ae_notifications e iteration in
      if notifs = [] then s
      else append_message (text_message User_Role (''<background-results>'' @ newline @
        join_lines (map (\<lambda>n. ''[bg:'' @ bn_task_id n @ ''] '' @ bn_status n @ '': '' @ bn_result n) notifs) @ newline @
        ''</background-results>'' @ newline @ newline @
        ''<system>Continue processing with the background results above.</system>'')) s)"

definition shrink_messages :: "loop_env \<Rightarrow> nat \<Rightarrow> unit loop_op" where
  "shrink_messages e iter s =
     (let ms = al_messages s;
          ms = (if microcompact_threshold (ae_token_threshold e) < estimate_tokens e ms then microcompact ms else ms);
          ms = (if collapse_threshold (ae_token_threshold e) < estimate_tokens e ms then context_collapse ms else ms);
          s = s\<lparr>al_messages := ms\<rparr>
      in if ae_token_threshold e < estimate_tokens e ms then auto_compact e iter (VStr []) s else (Inr (), s))"

definition wrap_up_nudge :: "loop_env \<Rightarrow> nat \<Rightarrow> loop_state \<Rightarrow> loop_state" where
  "wrap_up_nudge e iteration s =
     (if iteration = wrap_up_at (ae_max_iterations e) \<and> 1 < iteration \<and> iteration < ae_max_iterations e
      then append_message (text_message User_Role (''[SYSTEM] You have '' @ nat_str (ae_max_iterations e - iteration) @
        '' iterations remaining out of '' @ nat_str (ae_max_iterations e) @ ''. Please wrap up your work. '' @
        ''Stop calling tools and provide your final answer as plain text. '' @
        ''If you have partial results, summarize what you have so far.'')) s
      else s)"

text \<open>One request to the model, and one retry after an error of the stream that allows it.\<close>

definition stream_once :: "loop_env \<Rightarrow> bool \<Rightarrow> chat_response loop_op" where
  "stream_once e offered s =
     (ae_stream e (length (al_prompts s)) (al_messages s) offered,
      s\<lparr>al_prompts := al_prompts s @ [(al_messages s, offered)]\<rparr>)"

definition stream_chat :: "loop_env \<Rightarrow> bool \<Rightarrow> chat_response loop_op" where
  "stream_chat e offered s =
     (case stream_once e offered s of
        (Inl (Provider_Stream_Error True msg), s) \<Rightarrow> stream_once e offered s
      | r \<Rightarrow> r)"

definition note_thinking :: "nat \<Rightarrow> string \<Rightarrow> loop_state \<Rightarrow> loop_state" where
  "note_thinking iter thinking s = (if thinking \<noteq> [] then add_trace (Tr_Thinking iter thinking) s else s)"

definition filtered_response :: "nat \<Rightarrow> loop_state \<Rightarrow> loop_signal \<times> loop_state" where
  "filtered_response iter s =
     (let s = s\<lparr>al_filtered := al_filtered s + 1, al_consecutive_filtered := al_consecutive_filtered s + 1\<rparr> in
      if max_consecutive_content_filter_skips \<le> al_consecutive_filtered s
      then (Break_Loop, (add_trace (Tr_Filter_Breaker iter (al_filtered s)) s)\<lparr>al_breaker := True\<rparr>)
      else (Continue_Loop, append_message (text_message System_Role content_filter_skip_message)
                             (add_trace (Tr_Filter_Skipped iter) s)))"

text \<open>The snapshot of a goal that should be continued; no snapshot after an exception.\<close>

definition continuation_snapshot :: "loop_env \<Rightarrow> loop_state \<Rightarrow> goal_snapshot option" where
  "continuation_snapshot e s =
     (case ae_goal_id e of None \<Rightarrow> None
      | Some gid \<Rightarrow>
          if gid = [] \<or> ae_session_id e = [] \<or> ae_goal_max_continuations e = 0 then None
          else case get_goal_snapshot gid (Some 50) (al_goals s) of
            Inr (Some sn) \<Rightarrow> if goal_needs_continuation sn then Some sn else None
          | _ \<Rightarrow> None)"

definition answer_response :: "loop_env \<Rightarrow> nat \<Rightarrow> nat \<Rightarrow> chat_response \<Rightarrow> loop_state \<Rightarrow> loop_signal \<times> loop_state" where
  "answer_response e iteration iter r s =
     (let content = or_text (rs_content r) [];
          s = s\<lparr>al_final := content\<rparr>;
          finish = (\<lambda>s. (Break_Loop, add_react (Re_Answer (take 500 content))
            (add_trace (Tr_Assistant iter content) (add_trace (Tr_Answer iter content) s))))
      in if content = [] then (Break_Loop, (add_trace (Tr_Empty_Response iter) s)\<lparr>al_empty_iter := Some iteration\<rparr>)
         else case continuation_snapshot e s of
           None \<Rightarrow> finish s
         | Some sn \<Rightarrow>
             let progress = goal_progress_tuple sn;
                 no_new_progress = (case al_last_progress s of None \<Rightarrow> False | Some p \<Rightarrow> progress_le progress p)
             in if ae_goal_max_continuations e \<le> al_continuations s \<or> no_new_progress \<and> 0 < al_continuations s
                then finish (add_trace (Tr_Goal_Suppressed iter progress (al_continuations s)) s)
                else (Continue_Loop,
                  let s = add_trace (Tr_Assistant iter content) (add_trace (Tr_Goal_Intermediate iter progress content) s);
                      s = append_message (text_message Assistant_Role content) (add_react (Re_Intermediate (take 500 content)) s);
                      s = append_message (text_message User_Role (format_goal_continuation_prompt sn content)) s
                  in s\<lparr>al_last_progress := Some progress, al_continuations := al_continuations s + 1\<rparr>))"

definition assistant_message :: "loop_env \<Rightarrow> chat_response \<Rightarrow> message" where
  "assistant_message e r = \<lparr>ms_role = Assistant_Role, ms_content = rs_content r,
     ms_calls = map (\<lambda>tc. \<lparr>cf_id = tq_id tc, cf_name = tq_name tc, cf_arguments = ae_dumps e (VDict (tq_arguments tc))\<rparr>)
                  (rs_calls r),
     ms_call_id = [], ms_name = [],
     ms_reasoning = (let txt = or_text (rs_reasoning r) (rs_thinking r) in if txt = [] then None else Some txt)\<rparr>"

definition tool_response :: "loop_env \<Rightarrow> nat \<Rightarrow> chat_response \<Rightarrow> loop_signal loop_op" where
  "tool_response e iter r s =
     wbind (process_tool_calls e iter (rs_calls r)) (\<lambda>(compact_requested, focus_topic).
       if compact_requested then wbind (auto_compact e iter focus_topic) (\<lambda>_. wlift (Inr Continue_Loop))
       else wlift (Inr Continue_Loop))
     (append_message (assistant_message e r) s)"

definition handle_response :: "loop_env \<Rightarrow> nat \<Rightarrow> nat \<Rightarrow> chat_response \<Rightarrow> loop_signal loop_op" where
  "handle_response e iteration iter r =
     wbind (record_llm_usage (rs_usage r) iter) (\<lambda>usage_delta s.
       let s = note_thinking iter (rs_thinking r) (account_goal e usage_delta s) in
       if rs_content_filter_triggered r then (let (sig, s) = filtered_response iter s in (Inr sig, s))
       else let s = s\<lparr>al_consecutive_filtered := 0\<rparr> in
            if rs_calls r = [] then (let (sig, s) = answer_response e iteration iter r s in (Inr sig, s))
            else tool_response e iter r s)"

definition loop_iteration :: "loop_env \<Rightarrow> nat \<Rightarrow> loop_signal loop_op" where
  "loop_iteration e iteration s =
     (let s = inject_notifications e iteration (s\<lparr>al_iteration := al_iteration s + 1\<rparr>); iter = al_iteration s in
      wbind (shrink_messages e iter) (\<lambda>_ s.
        let s = wrap_up_nudge e iteration s;
            is_last_iteration = (iteration = ae_max_iterations e);
            s = (if is_last_iteration then add_trace (Tr_Forced_Text_Only iter) s else s)
        in wbind (stream_chat e (\<not> is_last_iteration)) (\<lambda>r s.
             if is_cancelled e s then (Inr Break_Loop, poll s)
             else handle_response e iteration iter r (poll s)) s) s)"

section \<open>A run\<close>

text \<open>The loop over the iterations that are left.\<close>

fun react_loop :: "loop_env \<Rightarrow> nat \<Rightarrow> nat loop_op" where
  "react_loop e 0 = (\<lambda>s. (Inr (ae_max_iterations e), s))"
| "react_loop e (Suc n) = (\<lambda>s.
     let iteration = ae_max_iterations e - n in
     if is_cancelled e s then (Inr (iteration - 1), add_trace Tr_Cancelled (poll s))
     else wbind (loop_iteration e iteration) (\<lambda>sig.
       case sig of Break_Loop \<Rightarrow> wlift (Inr iteration) | Continue_Loop \<Rightarrow> react_loop e n) (poll s))"

definition build_messages :: "string \<Rightarrow> message list \<Rightarrow> string \<Rightarrow> message list" where
  "build_messages system_prompt history enriched =
     text_message System_Role system_prompt # history @ [text_message User_Role enriched]"

definition initial_state :: "message list \<Rightarrow> goal_db \<Rightarrow> (string \<times> nat) list \<Rightarrow> nat \<Rightarrow> loop_state" where
  "initial_state ms db counters iter = \<lparr>al_messages = ms, al_called_ok = [], al_counters = counters,
     al_previous_summary = [], al_trace = [], al_react = [],
     al_usage = \<lparr>ut_input = 0, ut_output = 0, ut_total = 0, ut_calls = 0, ut_per_iteration = []\<rparr>,
     al_goals = db, al_turn_accounted = False, al_continuations = 0, al_last_progress = None, al_filtered = 0,
     al_consecutive_filtered = 0, al_breaker = False, al_empty_iter = None, al_final = [], al_iteration = iter,
     al_polls = 0, al_prompts = [], al_summaries = [], al_executed = []\<rparr>"

datatype run_end =
    Run_Error_End loop_exc
  | Cancelled_End
  | Filtered_End
  | Success_End
  | Empty_End nat
  | Exhausted_End

definition run_end_status :: "run_end \<Rightarrow> string" where
  "run_end_status r = (case r of Cancelled_End \<Rightarrow> ''cancelled'' | Success_End \<Rightarrow> ''success'' | _ \<Rightarrow> ''failed'')"

definition error_code :: "loop_exc \<Rightarrow> string" where
  "error_code exc = (case exc of Provider_Stream_Error _ _ \<Rightarrow> ''provider_stream_error'' | Agent_Error _ \<Rightarrow> ''agent_loop_error'')"

definition final_end :: "loop_env \<Rightarrow> loop_state \<Rightarrow> run_end" where
  "final_end e s =
     (if is_cancelled e s then Cancelled_End
      else if al_breaker s then Filtered_End
      else if ae_metrics_exist e \<or> al_final s \<noteq> [] then Success_End
      else case al_empty_iter s of Some i \<Rightarrow> Empty_End i | None \<Rightarrow> Exhausted_End)"

definition content_filter_warnings :: "loop_env \<Rightarrow> nat \<Rightarrow> nat \<Rightarrow> bool" where
  "content_filter_warnings e count iterations =
     (if count = 0 then False
      else flt (ae_filter_threshold e) (Fin (of_nat count / of_nat (max 1 iterations))))"

record run_result =
  rr_end :: run_end
  rr_content :: string
  rr_iterations :: nat
  rr_filter_warning :: bool

text \<open>The iterations an error result reports are those that were started.\<close>

definition run_agent :: "loop_env \<Rightarrow> loop_state \<Rightarrow> run_result \<times> loop_state" where
  "run_agent e s =
     (case react_loop e (ae_max_iterations e) s of
        (Inl exc, s') \<Rightarrow> (\<lparr>rr_end = Run_Error_End exc, rr_content = [], rr_iterations = al_iteration s' - al_iteration s,
            rr_filter_warning = False\<rparr>, s')
      | (Inr iterations, s') \<Rightarrow> (\<lparr>rr_end = final_end e s', rr_content = al_final s', rr_iterations = iterations,
            rr_filter_warning = content_filter_warnings e (al_filtered s') (max 1 iterations)\<rparr>, poll s'))"

text \<open>
  From the message of the user to the run: the block of the current goal goes in front of it, and the
  text is enriched with recalled memories, which come from outside.
\<close>

definition run_message ::
    "loop_env \<Rightarrow> string \<Rightarrow> message list \<Rightarrow> (string \<Rightarrow> string) \<Rightarrow> string \<Rightarrow> goal_db \<Rightarrow> (string \<times> nat) list \<Rightarrow> nat \<Rightarrow>
     goal_exc + run_result \<times> loop_state" where
  "run_message e system_prompt history recall user_message db counters iter =
     rbind (if ae_session_id e = [] then Inr ([], None) else get_current_goal_context (ae_session_id e) db)
       (\<lambda>(goal_context, active_goal_id).
         let llm_user_message = (if goal_context = [] then user_message
               else goal_context @ newline @ newline @ ''<user-message>'' @ newline @ user_message @ newline @
                    ''</user-message>'')
         in Inr (run_agent (e\<lparr>ae_goal_id := active_goal_id\<rparr>)
              (initial_state (build_messages system_prompt history (recall llm_user_message)) db counters iter)))"

end
