(* ===== verification/Agent_Pairs.thy ===== *)
theory Agent_Pairs
  imports Agent_Run
begin

text \<open>
  Tool calls and their results in a conversation: what the repair of a compressed conversation does, and
  that the steps of the loop keep every call answered.
\<close>

section \<open>Paired conversations\<close>

definition answered_ids :: "message list \<Rightarrow> string set" where
  "answered_ids ms = ms_call_id ` {m \<in> set ms. is_tool_msg m}"

text \<open>Every result belongs to a call and every call has a result.\<close>

definition paired :: "message list \<Rightarrow> bool" where
  "paired ms \<longleftrightarrow> answered_ids ms = set (call_ids ms)"

lemma call_ids_simps [simp]:
  "call_ids [] = []"
  "call_ids (m # ms) = message_call_ids m @ call_ids ms"
  "call_ids (ms @ ns) = call_ids ms @ call_ids ns"
  by (simp_all add: call_ids_def)

lemma answered_ids_simps [simp]:
  "answered_ids [] = {}"
  "answered_ids (m # ms) = (if is_tool_msg m then {ms_call_id m} else {}) \<union> answered_ids ms"
  "answered_ids (ms @ ns) = answered_ids ms \<union> answered_ids ns"
  by (auto simp: answered_ids_def)

lemma tool_has_no_calls [simp]: "is_tool_msg m \<Longrightarrow> message_call_ids m = []"
  by (simp add: is_tool_msg_def message_call_ids_def)

lemma stub_simps [simp]: "is_tool_msg (stub_result c)" "ms_call_id (stub_result c) = cf_id c"
  by (simp_all add: stub_result_def format_tool_result_def is_tool_msg_def)

lemma call_ids_tools: "(\<And>m. m \<in> set ms \<Longrightarrow> is_tool_msg m) \<Longrightarrow> call_ids ms = []"
  by (induction ms) auto

section \<open>The repair\<close>

lemma call_ids_filter_tools: "(\<And>m. \<not> is_tool_msg m \<Longrightarrow> P m) \<Longrightarrow> call_ids (filter P ms) = call_ids ms"
  by (induction ms) (auto, metis tool_has_no_calls)

lemma call_ids_drop_orphans [simp]: "call_ids (drop_orphans ms) = call_ids ms"
  by (simp add: drop_orphans_def Let_def call_ids_filter_tools)

text \<open>The stubs in place, and the calls of a message that get one.\<close>

fun new_calls :: "call_ref list \<Rightarrow> string set \<Rightarrow> call_ref list" where
  "new_calls [] ids = []"
| "new_calls (c # cs) ids =
     (if cf_id c \<noteq> [] \<and> cf_id c \<notin> ids then c # new_calls cs (insert (cf_id c) ids) else new_calls cs ids)"

fun with_stubs :: "message list \<Rightarrow> string set \<Rightarrow> message list" where
  "with_stubs [] ids = []"
| "with_stubs (m # ms) ids =
     (if ms_role m \<noteq> Assistant_Role then m # with_stubs ms ids
      else m # map stub_result (new_calls (ms_calls m) ids) @
             with_stubs ms (ids \<union> set (map cf_id (new_calls (ms_calls m) ids))))"

lemma call_stubs_eq:
  "call_stubs idx cs ids = (map (\<lambda>c. (idx + 1, stub_result c)) (new_calls cs (set ids)),
     rev (map cf_id (new_calls cs (set ids))) @ ids)"
  by (induction cs arbitrary: ids) auto

lemma insert_stubs:
  "length front = p \<Longrightarrow>
   fold (\<lambda>(pos, stub) ms. insert_at pos stub ms) (rev (map (\<lambda>c. (p, f c)) cs)) (front @ rest) = front @ map f cs @ rest"
proof (induction cs arbitrary: rest rule: rev_induct)
  case Nil
  then show ?case by simp
next
  case (snoc c cs)
  have "insert_at p (f c) (front @ rest) = front @ (f c # rest)" using snoc.prems by (simp add: insert_at_def)
  with snoc.IH [OF snoc.prems, of "f c # rest"] show ?case by simp
qed

lemma stub_inserts_eq:
  "fold (\<lambda>(pos, stub) ms. insert_at pos stub ms) (rev (stub_inserts (length front) ms ids)) (front @ ms) =
     front @ with_stubs ms (set ids)"
proof (induction ms arbitrary: front ids)
  case Nil
  show ?case by simp
next
  case (Cons m ms)
  have app: "front @ m # xs = (front @ [m]) @ xs" for xs by simp
  show ?case
  proof (cases "ms_role m = Assistant_Role")
    case False
    with Cons.IH [of "front @ [m]" ids] show ?thesis by simp
  next
    case True
    let ?new = "new_calls (ms_calls m) (set ids)"
    have "set (rev (map cf_id ?new) @ ids) = set ids \<union> set (map cf_id ?new)" by auto
    with Cons.IH [of "front @ [m]" "rev (map cf_id ?new) @ ids"]
    have "fold (\<lambda>(pos, stub) ms. insert_at pos stub ms)
        (rev (stub_inserts (length front + 1) ms (rev (map cf_id ?new) @ ids))) (front @ m # ms) =
        (front @ [m]) @ with_stubs ms (set ids \<union> set (map cf_id ?new))" by simp
    with True insert_stubs [of "front @ [m]" "length front + 1" stub_result ?new] show ?thesis
      by (simp add: call_stubs_eq)
  qed
qed

lemma fix_tool_pairs_eq: "fix_tool_pairs ms = with_stubs (drop_orphans ms) (set (result_ids (drop_orphans ms)))"
  using stub_inserts_eq [of "[]" "drop_orphans ms"] by (simp add: fix_tool_pairs_def Let_def)

lemma new_calls_ids:
  "set (map cf_id (new_calls cs ids)) = {i \<in> cf_id ` set cs. i \<noteq> [] \<and> i \<notin> ids}"
  by (induction cs arbitrary: ids) auto

lemma with_stubs_others: "filter (\<lambda>m. \<not> is_tool_msg m) (with_stubs ms ids) = filter (\<lambda>m. \<not> is_tool_msg m) ms"
  by (induction ms arbitrary: ids) (auto simp: filter_empty_conv)

lemma call_ids_stubs [simp]: "call_ids (map stub_result cs) = []"
  by (induction cs) simp_all

lemma with_stubs_calls: "call_ids (with_stubs ms ids) = call_ids ms"
  by (induction ms arbitrary: ids) simp_all

lemma with_stubs_answers:
  "answered_ids (with_stubs ms ids) = answered_ids ms \<union> (set (call_ids ms) - ids)"
proof (induction ms arbitrary: ids)
  case Nil
  show ?case by simp
next
  case (Cons m ms)
  have map: "answered_ids (map stub_result cs) = cf_id ` set cs" for cs by (induction cs) auto
  show ?case
    using Cons new_calls_ids [of "ms_calls m" ids]
    by (auto simp: map message_call_ids_def is_tool_msg_def)
qed

lemma with_stubs_none: "set (call_ids ms) \<subseteq> ids \<Longrightarrow> with_stubs ms ids = ms"
proof (induction ms arbitrary: ids)
  case Nil
  show ?case by simp
next
  case (Cons m ms)
  have "new_calls cs ids = []" if "{i \<in> cf_id ` set cs. i \<noteq> []} \<subseteq> ids" for cs ids
    using that by (induction cs) auto
  with Cons show ?case by (auto simp: message_call_ids_def)
qed

lemma drop_orphans_answers: "answered_ids (drop_orphans ms) = answered_ids ms \<inter> set (call_ids ms)"
  by (auto simp: drop_orphans_def answered_ids_def Let_def)

lemma call_ids_not_empty: "i \<in> set (call_ids ms) \<Longrightarrow> i \<noteq> []"
  by (induction ms) (auto simp: message_call_ids_def split: if_splits)

lemma result_ids_set: "set (result_ids ms) = {i \<in> answered_ids ms. i \<noteq> []}"
  by (auto simp: result_ids_def answered_ids_def)

lemma fix_tool_pairs_facts:
  "paired (fix_tool_pairs ms)"
  "filter (\<lambda>m. \<not> is_tool_msg m) (fix_tool_pairs ms) = filter (\<lambda>m. \<not> is_tool_msg m) ms"
  "paired ms \<Longrightarrow> fix_tool_pairs ms = ms"
proof -
  show "paired (fix_tool_pairs ms)"
    using call_ids_not_empty [of _ ms]
    by (auto simp: paired_def fix_tool_pairs_eq with_stubs_answers with_stubs_calls drop_orphans_answers result_ids_set)
  show "filter (\<lambda>m. \<not> is_tool_msg m) (fix_tool_pairs ms) = filter (\<lambda>m. \<not> is_tool_msg m) ms"
    by (auto simp: fix_tool_pairs_eq with_stubs_others drop_orphans_def Let_def intro!: filter_cong)
  assume p: "paired ms"
  then have "drop_orphans ms = ms"
    by (auto simp: drop_orphans_def Let_def paired_def answered_ids_def filter_id_conv)
  with p show "fix_tool_pairs ms = ms"
    using call_ids_not_empty [of _ ms]
    by (auto simp: fix_tool_pairs_eq paired_def result_ids_set intro!: with_stubs_none)
qed

end
