(* ===== verification/Agent_Steps.thy ===== *)
theory Agent_Steps
  imports Agent_Pairs
begin

text \<open>
  What the steps of the agent loop do to its state: which fields they leave alone, how the tools of a turn
  answer its calls, and when tools are started at all.
\<close>

section \<open>Simple updates\<close>

lemma update_simps [simp]:
  "al_messages (add_trace t s) = al_messages s" "al_prompts (add_trace t s) = al_prompts s"
  "al_executed (add_trace t s) = al_executed s" "al_called_ok (add_trace t s) = al_called_ok s"
  "al_polls (add_trace t s) = al_polls s" "al_continuations (add_trace t s) = al_continuations s"
  "al_messages (add_react r s) = al_messages s" "al_prompts (add_react r s) = al_prompts s"
  "al_executed (add_react r s) = al_executed s" "al_called_ok (add_react r s) = al_called_ok s"
  "al_polls (add_react r s) = al_polls s" "al_continuations (add_react r s) = al_continuations s"
  "al_messages (append_message m s) = al_messages s @ [m]" "al_prompts (append_message m s) = al_prompts s"
  "al_executed (append_message m s) = al_executed s" "al_called_ok (append_message m s) = al_called_ok s"
  "al_polls (append_message m s) = al_polls s" "al_continuations (append_message m s) = al_continuations s"
  "al_messages (poll s) = al_messages s" "al_prompts (poll s) = al_prompts s"
  "al_executed (poll s) = al_executed s" "al_called_ok (poll s) = al_called_ok s"
  "al_polls (poll s) = Suc (al_polls s)" "al_continuations (poll s) = al_continuations s"
  by (simp_all add: add_trace_def add_react_def append_message_def poll_def)

text \<open>The flag stays set: it depends on the polls only, which never decrease.\<close>

definition later :: "loop_state \<Rightarrow> loop_state \<Rightarrow> bool" where
  "later s t \<longleftrightarrow> al_polls s \<le> al_polls t \<and> set (al_called_ok s) \<subseteq> set (al_called_ok t)"

lemma later_refl [simp, intro]: "later s s"
  by (simp add: later_def)

lemma later_trans [trans]: "later s t \<Longrightarrow> later t u \<Longrightarrow> later s u"
  by (auto simp: later_def)

lemma cancelled_later: "is_cancelled e s \<Longrightarrow> later s t \<Longrightarrow> is_cancelled e t"
  by (auto simp: is_cancelled_def later_def split: option.splits)

lemma cancelled_update [simp]:
  "is_cancelled e (add_trace t s) = is_cancelled e s" "is_cancelled e (add_react r s) = is_cancelled e s"
  "is_cancelled e (append_message m s) = is_cancelled e s"
  by (simp_all add: is_cancelled_def split: option.splits)

lemma cancelled_poll: "is_cancelled e s \<Longrightarrow> is_cancelled e (poll s)"
  by (auto simp: is_cancelled_def split: option.splits)

section \<open>Answers\<close>

text \<open>
  A step of the tools: it sends no prompt, starts the given tools, and appends results only, which answer
  the given calls.
\<close>

definition tool_progress :: "string list \<Rightarrow> string set \<Rightarrow> loop_state \<Rightarrow> loop_state \<Rightarrow> bool" where
  "tool_progress names ids s t \<longleftrightarrow> later s t \<and> al_prompts t = al_prompts s \<and>
     al_continuations t = al_continuations s \<and>
     (\<exists>rs. al_messages t = al_messages s @ rs \<and> (\<forall>m \<in> set rs. is_tool_msg m) \<and> ms_call_id ` set rs = ids) \<and>
     (\<exists>calls. al_executed t = al_executed s @ calls \<and> map fst calls = names)"

lemma tool_progressI:
  assumes "later s t" "al_prompts t = al_prompts s" "al_continuations t = al_continuations s"
    "al_messages t = al_messages s @ rs" "\<And>m. m \<in> set rs \<Longrightarrow> is_tool_msg m" "ms_call_id ` set rs = ids"
    "al_executed t = al_executed s @ calls" "map fst calls = names"
  shows "tool_progress names ids s t"
  using assms by (auto simp: tool_progress_def)

lemma tool_progress_refl [simp, intro]: "tool_progress [] {} s s"
  by (auto simp: tool_progress_def)

lemma tool_progress_trans [trans]:
  assumes "tool_progress ns is s t" and "tool_progress ms js t u"
  shows "tool_progress (ns @ ms) (is \<union> js) s u"
proof -
  obtain rs cs where t: "later s t" "al_prompts t = al_prompts s" "al_continuations t = al_continuations s"
    "al_messages t = al_messages s @ rs" "\<forall>m \<in> set rs. is_tool_msg m" "ms_call_id ` set rs = is"
    "al_executed t = al_executed s @ cs" "map fst cs = ns" using assms(1) by (auto simp: tool_progress_def)
  obtain rs' cs' where u: "later t u" "al_prompts u = al_prompts t" "al_continuations u = al_continuations t"
    "al_messages u = al_messages t @ rs'" "\<forall>m \<in> set rs'. is_tool_msg m" "ms_call_id ` set rs' = js"
    "al_executed u = al_executed t @ cs'" "map fst cs' = ms" using assms(2) by (auto simp: tool_progress_def)
  show ?thesis
    using t u later_trans [OF t(1) u(1)] by (intro tool_progressI [where rs = "rs @ rs'" and calls = "cs @ cs'"]) auto
qed

lemma tool_progress_poll: "tool_progress [] {} s (poll s)"
  by (auto simp: tool_progress_def later_def)

lemma finalize_progress: "tool_progress [] {tq_id tc} s (finalize_tool_result e iter tc result s)"
  by (rule tool_progressI [where rs = "[format_tool_result (tq_id tc) (tq_name tc) (take tool_result_limit result)]" and calls = "[]"])
     (auto simp: finalize_tool_result_def Let_def later_def is_tool_msg_def format_tool_result_def
       split: option.splits)

lemma announce_progress: "tool_progress [] {} s (announce_call e iter tc s)"
  by (auto simp: tool_progress_def announce_call_def later_def)

lemma invoke_progress:
  assumes "invoke_tool e name args s = (r, t)"
  shows "tool_progress [name] {} s t"
proof (rule tool_progressI [where rs = "[]" and calls = "[(name, args)]"])
  show "al_executed t = al_executed s @ [(name, args)]"
    using assms by (auto simp: invoke_tool_def Let_def split: if_splits tool_outcome.splits option.splits)
qed (use assms in \<open>auto simp: invoke_tool_def Let_def later_def split: if_splits tool_outcome.splits option.splits\<close>)

text \<open>A call that raises leaves its turn without a result, and ends the run.\<close>

definition started :: "string list \<Rightarrow> loop_state \<Rightarrow> loop_state \<Rightarrow> bool" where
  "started names s t \<longleftrightarrow> (\<exists>ids ns. tool_progress ns ids s t \<and> set ns \<subseteq> set names)"

lemma startedI: "tool_progress ns ids s t \<Longrightarrow> set ns \<subseteq> set names \<Longrightarrow> started names s t"
  by (auto simp: started_def)

lemma started_mono: "started ns s t \<Longrightarrow> set ns \<subseteq> set ms \<Longrightarrow> started ms s t"
  unfolding started_def by blast

lemma started_trans: "tool_progress ns ids s t \<Longrightarrow> started ms t u \<Longrightarrow> started (ns @ ms) s u"
  unfolding started_def by (metis (no_types, lifting) set_append sup.mono order_refl tool_progress_trans)

lemma execute_single_progress:
  assumes "execute_single e iter tc s = (r, t)"
  shows "r = Inr () \<Longrightarrow> tool_progress [tq_name tc] {tq_id tc} s t" and "started [tq_name tc] s t"
proof -
  let ?args = "normalize_tool_run_dir e (tq_arguments tc)"
  obtain r1 s1 where i: "invoke_tool e (tq_name tc) ?args (announce_call e iter tc s) = (r1, s1)"
    by (cases "invoke_tool e (tq_name tc) ?args (announce_call e iter tc s)")
  have p: "tool_progress [tq_name tc] {} s s1"
    using tool_progress_trans [OF announce_progress invoke_progress [OF i]] by simp
  show ok: "tool_progress [tq_name tc] {tq_id tc} s t" if "r = Inr ()"
  proof -
    have "\<exists>result. t = finalize_tool_result e iter tc result s1"
      using assms that i by (auto simp: execute_single_def wbind_def split: sum.splits)
    then show ?thesis using tool_progress_trans [OF p finalize_progress] by auto
  qed
  show "started [tq_name tc] s t"
  proof (cases r)
    case (Inl exc)
    with assms i have "t = s1" by (auto simp: execute_single_def wbind_def split: sum.splits)
    with p show ?thesis by (auto intro: startedI)
  qed (use ok in \<open>auto intro: startedI\<close>)
qed

lemma execute_each_progress:
  assumes "execute_each e iter tcs s = (r, t)"
  shows "(r = Inr () \<longrightarrow> tool_progress (map tq_name tcs) (tq_id ` set tcs) s t) \<and> started (map tq_name tcs) s t"
  using assms
proof (induction tcs arbitrary: s)
  case Nil
  then show ?case by (auto intro: startedI)
next
  case (Cons tc tcs)
  obtain r1 s1 where s1: "execute_single e iter tc s = (r1, s1)" by (cases "execute_single e iter tc s")
  note p = execute_single_progress [OF s1]
  show ?case
  proof (cases r1)
    case (Inl exc)
    with Cons.prems s1 have "r = Inl exc" "t = s1" by (auto simp: wbind_def)
    with p(2) show ?thesis unfolding started_def by auto
  next
    case (Inr u)
    with Cons.prems s1 have "execute_each e iter tcs s1 = (r, t)" by (simp add: wbind_def)
    from Cons.IH [OF this] Inr p(1) tool_progress_trans [OF p(1)] started_trans [OF p(1)] show ?thesis by force
  qed
qed

lemma announce_all_progress: "tool_progress [] {} s (fold (announce_call e iter) tcs s)"
proof (induction tcs arbitrary: s)
  case (Cons tc tcs)
  from tool_progress_trans [OF announce_progress this] show ?case by simp
qed simp

lemma invoke_all_progress:
  "invoke_all e tcs s = (results, t) \<Longrightarrow> tool_progress (map tq_name tcs) {} s t \<and> map fst results = tcs"
proof (induction tcs arbitrary: s t results)
  case Nil
  then show ?case by simp
next
  case (Cons tc tcs)
  obtain r1 s1 where s1: "invoke_tool e (tq_name tc) (normalize_tool_run_dir e (tq_arguments tc)) s = (r1, s1)"
    by (cases "invoke_tool e (tq_name tc) (normalize_tool_run_dir e (tq_arguments tc)) s")
  obtain rs s2 where s2: "invoke_all e tcs s1 = (rs, s2)" by (cases "invoke_all e tcs s1")
  from Cons.prems s1 s2 have "t = s2" "\<exists>result. results = (tc, result) # rs" by (auto simp: Let_def)
  with Cons.IH [OF s2] tool_progress_trans [OF invoke_progress [OF s1]] show ?case by fastforce
qed

lemma finalize_all_progress:
  "tool_progress [] (tq_id ` fst ` set results) s
     (fold (\<lambda>(tc, result). finalize_tool_result e iter tc result) results s)"
proof (induction results arbitrary: s)
  case (Cons x results)
  obtain tc result where x: "x = (tc, result)" by (cases x)
  from tool_progress_trans [OF finalize_progress Cons.IH] show ?case by (simp add: x)
qed simp

lemma execute_parallel_progress:
  "tool_progress (map tq_name tcs) (tq_id ` set tcs) s (execute_parallel e iter tcs s)"
proof -
  obtain results t where i: "invoke_all e tcs (fold (announce_call e iter) tcs s) = (results, t)"
    by (cases "invoke_all e tcs (fold (announce_call e iter) tcs s)")
  note p = invoke_all_progress [OF i]
  from p have ids: "fst ` set results = set tcs" by (metis set_map)
  from p have "tool_progress (map tq_name tcs) {} s t"
    using tool_progress_trans [OF announce_all_progress] by fastforce
  from tool_progress_trans [OF this finalize_all_progress [of results t e iter]] show ?thesis
    by (simp add: execute_parallel_def Let_def i ids)
qed

section \<open>Batches\<close>

lemma split_batches_calls: "concat (map snd (split_batches e ro tcs)) = ro @ tcs"
  by (induction tcs arbitrary: ro) auto

lemma run_batches_progress:
  assumes "run_batches e iter batches s = (r, t)"
  shows "(r = Inr () \<longrightarrow> is_cancelled e t \<or>
      tool_progress (map tq_name (concat (map snd batches))) (tq_id ` set (concat (map snd batches))) s t) \<and>
    started (map tq_name (concat (map snd batches))) s t"
  using assms
proof (induction batches arbitrary: s)
  case Nil
  then show ?case by (auto intro: startedI)
next
  case (Cons b batches)
  obtain par batch where b: "b = (par, batch)" by (cases b)
  show ?case
  proof (cases "is_cancelled e s")
    case True
    with Cons.prems b have "r = Inr ()" "t = poll s" by simp_all
    with True show ?thesis using cancelled_poll startedI [OF tool_progress_poll] by simp
  next
    case running: False
    show ?thesis
    proof (cases "par \<and> 1 < length batch")
      case True
      let ?s1 = "execute_parallel e iter batch (poll s)"
      have p: "tool_progress (map tq_name batch) (tq_id ` set batch) s ?s1"
        using tool_progress_trans [OF tool_progress_poll execute_parallel_progress] by simp
      have "run_batches e iter batches ?s1 = (r, t)" using Cons.prems b running True by simp
      from Cons.IH [OF this] tool_progress_trans [OF p] started_trans [OF p] show ?thesis
        by (auto simp: b image_Un)
    next
      case False
      obtain r1 s1 where s1: "execute_each e iter batch (poll s) = (r1, s1)" by (cases "execute_each e iter batch (poll s)")
      note p = execute_each_progress [OF s1]
      show ?thesis
      proof (cases r1)
        case (Inl exc)
        with Cons.prems b running False s1 have "r = Inl exc" "t = s1" by (auto simp: wbind_def)
        have "started (map tq_name batch) s s1"
          using p started_trans [OF tool_progress_poll, of "map tq_name batch" s s1] by simp
        then have "started (map tq_name (concat (map snd ((par, batch) # batches)))) s s1"
          by (rule started_mono) auto
        with \<open>r = Inl exc\<close> \<open>t = s1\<close> show ?thesis by (simp add: b)
      next
        case (Inr u)
        with p have q: "tool_progress (map tq_name batch) (tq_id ` set batch) s s1"
          using tool_progress_trans [OF tool_progress_poll, of "map tq_name batch" "tq_id ` set batch" s s1] by simp
        from Inr Cons.prems b running False s1 have "run_batches e iter batches s1 = (r, t)"
          by (auto simp: wbind_def split: if_splits)
        from Cons.IH [OF this] tool_progress_trans [OF q] started_trans [OF q] show ?thesis
          by (auto simp: b image_Un)
      qed
    qed
  qed
qed

lemma batch_execute_progress:
  assumes "batch_execute e iter tcs s = (r, t)"
  shows "(r = Inr () \<longrightarrow> is_cancelled e t \<or> tool_progress (map tq_name tcs) (tq_id ` set tcs) s t) \<and>
    started (map tq_name tcs) s t"
  using run_batches_progress [OF assms [unfolded batch_execute_def]] by (simp add: split_batches_calls)

section \<open>The calls of a turn\<close>

text \<open>The calls that are skipped are answered at once; the others are neither compactions nor repeated.\<close>

lemma select_calls_progress:
  assumes "select_calls e iter tcs sel s = (sel', t)"
  shows "\<exists>tcs' A. sl_calls sel' = sl_calls sel @ tcs' \<and> set tcs' \<subseteq> set tcs \<and>
    tool_progress [] A s t \<and> A \<union> tq_id ` set tcs' = tq_id ` set tcs \<and>
    (\<forall>tc \<in> set tcs'. tq_name tc \<noteq> ''compact'' \<and> (tq_name tc \<in> set (al_called_ok s) \<longrightarrow> is_repeatable e (tq_name tc))) \<and>
    al_called_ok t = al_called_ok s"
  using assms
proof (induction tcs arbitrary: sel s)
  case Nil
  then show ?case by auto
next
  case (Cons tc tcs)
  have skip: ?case if "select_calls e iter tcs sel1 s1 = (sel', t)" "sl_calls sel1 = sl_calls sel"
      "tool_progress [] {tq_id tc} s s1" "al_called_ok s1 = al_called_ok s" for sel1 s1
  proof -
    from Cons.IH [OF that(1)] that(2,4) obtain tcs' A where i: "sl_calls sel' = sl_calls sel @ tcs'" "set tcs' \<subseteq> set tcs"
      "tool_progress [] A s1 t" "A \<union> tq_id ` set tcs' = tq_id ` set tcs"
      "\<forall>tc \<in> set tcs'. tq_name tc \<noteq> ''compact'' \<and> (tq_name tc \<in> set (al_called_ok s) \<longrightarrow> is_repeatable e (tq_name tc))"
      "al_called_ok t = al_called_ok s" by auto
    from tool_progress_trans [OF that(3) i(3)] have "tool_progress [] ({tq_id tc} \<union> A) s t" by simp
    with i show ?thesis by (intro exI [of _ tcs'] exI [of _ "{tq_id tc} \<union> A"]) auto
  qed
  have tool: "is_tool_msg (format_tool_result i n c)" "ms_call_id (format_tool_result i n c) = i" for i n c
    by (simp_all add: format_tool_result_def is_tool_msg_def)
  have msg: "tool_progress [] {tq_id tc} s (add_trace tr (append_message (format_tool_result (tq_id tc) n c) s))"
    "tool_progress [] {tq_id tc} s (add_react re (add_trace tr (append_message (format_tool_result (tq_id tc) n c) s)))"
    for tr re n c
    by (auto simp: tool_progress_def later_def tool)
  show ?case
  proof (cases "tq_name tc = ''compact''")
    case True
    from Cons.prems [unfolded select_calls.simps if_P [OF True]] show ?thesis
      by (rule skip) (simp_all add: msg)
  next
    case other: False
    show ?thesis
    proof (cases "tq_name tc \<in> set (al_called_ok s) \<and> \<not> is_repeatable e (tq_name tc)")
      case True
      from Cons.prems [unfolded select_calls.simps if_not_P [OF other] if_P [OF True]] show ?thesis
        by (rule skip) (simp_all add: msg)
    next
      case False
      with other Cons.prems have "select_calls e iter tcs (sel\<lparr>sl_calls := sl_calls sel @ [tc]\<rparr>) s = (sel', t)" by auto
      from Cons.IH [OF this] obtain tcs' A where i: "sl_calls sel' = (sl_calls sel @ [tc]) @ tcs'" "set tcs' \<subseteq> set tcs"
        "tool_progress [] A s t" "A \<union> tq_id ` set tcs' = tq_id ` set tcs"
        "\<forall>tc \<in> set tcs'. tq_name tc \<noteq> ''compact'' \<and> (tq_name tc \<in> set (al_called_ok s) \<longrightarrow> is_repeatable e (tq_name tc))"
        "al_called_ok t = al_called_ok s" by auto
      with other False show ?thesis by (intro exI [of _ "tc # tcs'"] exI [of _ A]) auto
    qed
  qed
qed

text \<open>
  What a turn starts: tools of its calls, none twice after a success in an earlier turn unless repeatable.
  Unless it is cancelled or raises, it answers all its calls.
\<close>

definition fresh_names :: "loop_env \<Rightarrow> tool_request list \<Rightarrow> loop_state \<Rightarrow> string set" where
  "fresh_names e tcs s = {n \<in> tq_name ` set tcs. n \<noteq> ''compact'' \<and> (n \<in> set (al_called_ok s) \<longrightarrow> is_repeatable e n)}"

lemma process_tool_calls_progress:
  assumes "process_tool_calls e iter tcs s = (r, t)"
  shows "(\<exists>names. set names \<subseteq> fresh_names e tcs s \<and> started names s t) \<and>
    (is_cancelled e s \<longrightarrow> t = poll s) \<and>
    (r \<in> range Inr \<longrightarrow> is_cancelled e t \<or> (\<exists>names. tool_progress names (tq_id ` set tcs) s t))"
proof (cases "is_cancelled e s")
  case True
  with assms have "t = poll s" by (simp add: process_tool_calls_def)
  with True cancelled_poll startedI [OF tool_progress_poll, of "[]"] show ?thesis
    by (metis empty_set empty_subsetI order_refl)
next
  case running: False
  let ?sel = "\<lparr>sl_compact = False, sl_topic = VStr [], sl_calls = []\<rparr>"
  obtain sel s1 where s1: "select_calls e iter tcs ?sel (poll s) = (sel, s1)" by (cases "select_calls e iter tcs ?sel (poll s)")
  from select_calls_progress [OF s1] obtain tcs' A where i: "sl_calls sel = tcs'" "set tcs' \<subseteq> set tcs"
    "tool_progress [] A (poll s) s1" "A \<union> tq_id ` set tcs' = tq_id ` set tcs"
    "\<forall>tc \<in> set tcs'. tq_name tc \<noteq> ''compact'' \<and> (tq_name tc \<in> set (al_called_ok s) \<longrightarrow> is_repeatable e (tq_name tc))"
    by auto
  have A: "tool_progress [] A s s1" using tool_progress_trans [OF tool_progress_poll i(3)] by simp
  have names: "set (map tq_name tcs') \<subseteq> fresh_names e tcs s" using i(2,5) by (auto simp: fresh_names_def)
  have finish: ?thesis
    if "started (map tq_name tcs') s1 t"
      "r \<in> range Inr \<longrightarrow> is_cancelled e t \<or> tool_progress (map tq_name tcs') (tq_id ` set tcs') s1 t"
    using that running names started_trans [OF A that(1)] tool_progress_trans [OF A] i(4) by (metis append_Nil)
  show ?thesis
  proof (cases "tcs' = []")
    case True
    with assms s1 i(1) running have "t = s1" by (simp add: process_tool_calls_def Let_def)
    with True show ?thesis by (intro finish) (auto intro: startedI)
  next
    case False
    show ?thesis
    proof (cases "tl tcs' = []")
      case True
      with False obtain tc where tc: "tcs' = [tc]" by (cases tcs') auto
      obtain r2 t2 where e: "execute_single e iter tc s1 = (r2, t2)" by (cases "execute_single e iter tc s1")
      with assms s1 i(1) running tc have "t = t2" "r \<in> range Inr \<longrightarrow> r2 = Inr ()"
        by (auto simp: process_tool_calls_def Let_def wbind_def wlift_def split: sum.splits)
      with execute_single_progress [OF e] show ?thesis by (intro finish) (auto simp: tc)
    next
      case more: False
      with False obtain tc tc2 rest where tc: "tcs' = tc # tc2 # rest" by (cases tcs'; cases "tl tcs'") auto
      obtain r2 t2 where e: "batch_execute e iter tcs' s1 = (r2, t2)" by (cases "batch_execute e iter tcs' s1")
      with assms s1 i(1) running tc have "t = t2" "r \<in> range Inr \<longrightarrow> r2 = Inr ()"
        by (auto simp: process_tool_calls_def Let_def wbind_def wlift_def split: sum.splits)
      with batch_execute_progress [OF e] show ?thesis by (intro finish) auto
    qed
  qed
qed

end
