(* ===== verification/Agent_Properties.thy ===== *)
theory Agent_Properties
  imports Agent_Steps
begin

text \<open>What a run of the agent guarantees, whatever the model answers and the tools return.\<close>

section \<open>Shrinking\<close>

definition shape :: "message \<Rightarrow> msg_role \<times> call_ref list \<times> string" where
  "shape m = (ms_role m, ms_calls m, ms_call_id m)"

lemma paired_shape: "map shape ms = map shape ns \<Longrightarrow> paired ms \<longleftrightarrow> paired ns"
proof -
  assume s: "map shape ms = map shape ns"
  have "call_ids ms = call_ids ns \<and> answered_ids ms = answered_ids ns"
    using s
  proof (induction ms arbitrary: ns)
    case Nil
    then show ?case by simp
  next
    case (Cons m ms)
    then obtain n ns' where n: "ns = n # ns'" "shape n = shape m" "map shape ms = map shape ns'" by (cases ns) auto
    from n(2) have "message_call_ids n = message_call_ids m" "is_tool_msg n = is_tool_msg m" "ms_call_id n = ms_call_id m"
      by (simp_all add: shape_def message_call_ids_def is_tool_msg_def)
    with Cons.IH [OF n(3)] n(1) show ?case by simp
  qed
  then show ?thesis by (simp add: paired_def)
qed

lemma shape_contents [simp]: "shape (clear_content m) = shape m" "shape (collapse_content m) = shape m"
  by (auto simp: shape_def clear_content_def collapse_content_def split: option.splits)

lemma microcompact_shape: "map shape (microcompact ms) = map shape ms"
proof -
  have "map shape (clear_first n ms) = map shape ms" for n by (induction n ms rule: clear_first.induct) auto
  then show ?thesis by (simp add: microcompact_def)
qed

lemma context_collapse_shape: "map shape (context_collapse ms) = map shape ms"
proof (cases "length ms \<le> collapse_preserve_recent + 1")
  case True
  then show ?thesis by (simp add: context_collapse_def)
next
  case False
  define n where "n = length ms - collapse_preserve_recent"
  have n: "1 \<le> n" using False by (simp add: n_def)
  have "take 1 ms @ drop 1 (take n ms) @ drop n ms = ms"
    using n by (metis append_assoc append_take_drop_id min.absorb_iff1 take_take)
  then have "map shape (take 1 ms @ drop 1 (take n ms) @ drop n ms) = map shape ms" by simp
  moreover have "map shape (map collapse_content xs) = map shape xs" for xs by simp
  ultimately show ?thesis using False unfolding context_collapse_def n_def Let_def by (simp only: if_False map_append)
qed

lemma text_message_simps [simp]:
  "r \<noteq> Tool_Role \<Longrightarrow> \<not> is_tool_msg (text_message r txt)" "message_call_ids (text_message r txt) = []"
  by (simp_all add: text_message_def is_tool_msg_def message_call_ids_def)

lemma paired_append_text: "r \<noteq> Tool_Role \<Longrightarrow> paired (ms @ [text_message r txt]) \<longleftrightarrow> paired ms"
  by (simp add: paired_def)

section \<open>Frames\<close>

text \<open>A step that asks nothing and starts nothing.\<close>

definition quiet :: "loop_state \<Rightarrow> loop_state \<Rightarrow> bool" where
  "quiet s t \<longleftrightarrow> al_polls t = al_polls s \<and> al_prompts t = al_prompts s \<and> al_executed t = al_executed s \<and>
     al_called_ok t = al_called_ok s \<and> al_continuations t = al_continuations s"

lemma quiet_refl [simp, intro]: "quiet s s"
  by (simp add: quiet_def)

lemma quiet_trans [trans]: "quiet s t \<Longrightarrow> quiet t u \<Longrightarrow> quiet s u"
  by (simp add: quiet_def)

lemma quiet_cancelled: "quiet s t \<Longrightarrow> is_cancelled e t = is_cancelled e s"
  by (auto simp: quiet_def is_cancelled_def split: option.splits)

lemma inject_quiet:
  "quiet s (inject_notifications e i s)" "paired (al_messages (inject_notifications e i s)) = paired (al_messages s)"
  by (auto simp: inject_notifications_def Let_def quiet_def paired_append_text)

lemma nudge_quiet:
  "quiet s (wrap_up_nudge e i s)" "paired (al_messages (wrap_up_nudge e i s)) = paired (al_messages s)"
  by (auto simp: wrap_up_nudge_def quiet_def paired_append_text)

lemma auto_compact_quiet:
  assumes "auto_compact e iter topic s = (r, t)" and "paired (al_messages s)"
  shows "quiet s t \<and> paired (al_messages t)"
  using assms(1,2)
  by (auto simp: auto_compact_def Let_def quiet_def fix_tool_pairs_facts(1) split: option.splits sum.splits)

lemma auto_compact_repairs:
  assumes "auto_compact e iter topic s = (r, t)"
  shows "quiet s t"
  using assms by (auto simp: auto_compact_def Let_def quiet_def split: option.splits sum.splits)

lemma shrink_quiet:
  assumes "shrink_messages e iter s = (r, t)" and "paired (al_messages s)"
  shows "quiet s t \<and> paired (al_messages t)"
proof -
  let ?th = "ae_token_threshold e"
  define ms1 where "ms1 = (if microcompact_threshold ?th < estimate_tokens e (al_messages s) then microcompact (al_messages s) else al_messages s)"
  define ms2 where "ms2 = (if collapse_threshold ?th < estimate_tokens e ms1 then context_collapse ms1 else ms1)"
  have "map shape ms2 = map shape (al_messages s)"
    by (simp add: ms1_def ms2_def microcompact_shape context_collapse_shape)
  from paired_shape [OF this] assms(2) have p: "paired (al_messages (s\<lparr>al_messages := ms2\<rparr>))" by simp
  have q: "quiet s (s\<lparr>al_messages := ms2\<rparr>)" by (simp add: quiet_def)
  have "(if ?th < estimate_tokens e ms2 then auto_compact e iter (VStr []) (s\<lparr>al_messages := ms2\<rparr>)
         else (Inr (), s\<lparr>al_messages := ms2\<rparr>)) = (r, t)"
    using assms(1) unfolding shrink_messages_def Let_def ms1_def [symmetric] ms2_def [symmetric] .
  then show ?thesis
    using auto_compact_quiet [OF _ p] p q by (auto split: if_splits intro: quiet_trans)
qed

lemma usage_quiet:
  assumes "record_llm_usage u iter s = (r, t)"
  shows "quiet s t \<and> al_messages t = al_messages s"
  using assms by (auto simp: record_llm_usage_def quiet_def split: sum.splits option.splits)

lemma account_quiet: "quiet s (account_goal e u s) \<and> al_messages (account_goal e u s) = al_messages s"
  by (auto simp: account_goal_def quiet_def Let_def split: option.splits sum.splits prod.splits)

lemma thinking_quiet: "quiet s (note_thinking iter th s) \<and> al_messages (note_thinking iter th s) = al_messages s"
  by (auto simp: note_thinking_def quiet_def)

lemma filtered_quiet:
  "quiet s (snd (filtered_response iter s)) \<and>
   (paired (al_messages s) \<longrightarrow> paired (al_messages (snd (filtered_response iter s))))"
  by (auto simp: filtered_response_def Let_def quiet_def add_trace_def append_message_def paired_append_text)

text \<open>An answer may continue a goal, as long as continuations are left.\<close>

lemma answer_facts:
  assumes "answer_response e iteration iter r s = (sig, t)"
  shows "al_polls t = al_polls s" "al_prompts t = al_prompts s" "al_executed t = al_executed s"
    "al_called_ok t = al_called_ok s" "paired (al_messages s) \<Longrightarrow> paired (al_messages t)"
    "al_continuations s \<le> ae_goal_max_continuations e \<Longrightarrow> al_continuations t \<le> ae_goal_max_continuations e"
  using assms
  by (auto simp: answer_response_def Let_def add_trace_def add_react_def append_message_def paired_def
      split: if_splits option.splits)

section \<open>Responses\<close>

text \<open>The state after a response: what it started, and whether the conversation can be sent again.\<close>

definition starts_fresh :: "loop_env \<Rightarrow> loop_state \<Rightarrow> loop_state \<Rightarrow> bool" where
  "starts_fresh e s t \<longleftrightarrow> (\<exists>calls. al_executed t = al_executed s @ calls \<and>
     (\<forall>n \<in> fst ` set calls. n \<noteq> ''compact'' \<and> (n \<in> set (al_called_ok s) \<longrightarrow> is_repeatable e n)))"

definition bounded_goal :: "loop_env \<Rightarrow> loop_state \<Rightarrow> bool" where
  "bounded_goal e s \<longleftrightarrow> al_continuations s \<le> ae_goal_max_continuations e"

definition responded :: "loop_env \<Rightarrow> loop_state \<Rightarrow> loop_state \<Rightarrow> bool" where
  "responded e s t \<longleftrightarrow> later s t \<and> al_prompts t = al_prompts s \<and> starts_fresh e s t \<and>
     (bounded_goal e s \<longrightarrow> bounded_goal e t)"

definition sendable :: "loop_env \<Rightarrow> loop_state \<Rightarrow> bool" where
  "sendable e s \<longleftrightarrow> is_cancelled e s \<or> paired (al_messages s)"

lemma quiet_responded: "quiet s t \<Longrightarrow> responded e s t"
  by (auto simp: quiet_def responded_def later_def starts_fresh_def bounded_goal_def)

lemma quiet_responded_trans: "quiet s t \<Longrightarrow> responded e t u \<Longrightarrow> responded e s u"
  by (auto simp: quiet_def responded_def later_def starts_fresh_def bounded_goal_def)

lemma responded_quiet_trans: "responded e s t \<Longrightarrow> quiet t u \<Longrightarrow> responded e s u"
  by (auto simp: quiet_def responded_def later_def starts_fresh_def bounded_goal_def)

lemma assistant_append:
  "quiet s (append_message m s)"
  "message_call_ids (assistant_message e r) = filter (\<lambda>i. i \<noteq> []) (map tq_id (rs_calls r))"
  "\<not> is_tool_msg (assistant_message e r)"
  by (auto simp: quiet_def assistant_message_def message_call_ids_def is_tool_msg_def comp_def)

lemma process_responded:
  assumes "process_tool_calls e iter tcs s = (r, t)"
  shows "responded e s t"
proof -
  from process_tool_calls_progress [OF assms] obtain names ids ns where
    n: "set names \<subseteq> fresh_names e tcs s" "tool_progress ns ids s t" "set ns \<subseteq> set names"
    by (auto simp: started_def)
  from n(2) obtain calls where c: "later s t" "al_prompts t = al_prompts s" "al_continuations t = al_continuations s"
    "al_executed t = al_executed s @ calls" "map fst calls = ns" by (auto simp: tool_progress_def)
  have "fst ` set calls \<subseteq> fresh_names e tcs s" using c(5) n(1,3) by (metis order_trans set_map)
  with c show ?thesis by (auto simp: responded_def starts_fresh_def bounded_goal_def fresh_names_def)
qed

lemma tool_response_facts:
  assumes "tool_response e iter r s = (res, t)" and "paired (al_messages s)"
    and "\<And>tc. tc \<in> set (rs_calls r) \<Longrightarrow> tq_id tc \<noteq> []"
  shows "responded e s t \<and> (res \<in> range Inr \<longrightarrow> sendable e t)"
proof -
  let ?s1 = "append_message (assistant_message e r) s"
  obtain r2 s2 where p: "process_tool_calls e iter (rs_calls r) ?s1 = (r2, s2)"
    by (cases "process_tool_calls e iter (rs_calls r) ?s1")
  have resp: "responded e s s2"
    using quiet_responded_trans [OF assistant_append(1) process_responded [OF p]] .
  have send: "sendable e s2" if "r2 \<in> range Inr"
  proof -
    from process_tool_calls_progress [OF p] that consider "is_cancelled e s2"
      | names where "tool_progress names (tq_id ` set (rs_calls r)) ?s1 s2" by auto
    then show ?thesis
    proof cases
      case 2
      then obtain rs where rs: "al_messages s2 = al_messages s @ [assistant_message e r] @ rs"
        "\<And>m. m \<in> set rs \<Longrightarrow> is_tool_msg m" "ms_call_id ` set rs = tq_id ` set (rs_calls r)"
        by (auto simp: tool_progress_def)
      have "{m \<in> set rs. is_tool_msg m} = set rs" using rs(2) by auto
      then have "answered_ids rs = tq_id ` set (rs_calls r)" using rs(3) by (simp add: answered_ids_def)
      moreover have "call_ids rs = []" using rs(2) by (rule call_ids_tools)
      ultimately have "paired (al_messages s2)"
        using assms(2,3) assistant_append(2,3) [of e r] by (auto simp: rs(1) paired_def)
      then show ?thesis by (simp add: sendable_def)
    qed (simp add: sendable_def)
  qed
  show ?thesis
  proof (cases r2)
    case (Inl exc)
    with assms(1) p have "res = Inl exc" "t = s2" by (auto simp: tool_response_def wbind_def)
    with resp show ?thesis by auto
  next
    case (Inr x)
    then obtain compact topic where x: "r2 = Inr (compact, topic)" by (cases x) auto
    show ?thesis
    proof (cases compact)
      case False
      with assms(1) p x have "res = Inr Continue_Loop" "t = s2" by (auto simp: tool_response_def wbind_def wlift_def)
      with resp send x show ?thesis by auto
    next
      case True
      obtain r3 s3 where c: "auto_compact e iter topic s2 = (r3, s3)" by (cases "auto_compact e iter topic s2")
      from assms(1) p x True c have t: "t = s3" "res \<in> range Inr \<longrightarrow> r3 \<in> range Inr"
        by (auto simp: tool_response_def wbind_def wlift_def split: sum.splits)
      have q: "quiet s2 s3" using auto_compact_repairs [OF c] .
      have "sendable e s3"
        using send x auto_compact_quiet [OF c] quiet_cancelled [OF q] by (auto simp: sendable_def)
      with t q responded_quiet_trans [OF resp q] show ?thesis by auto
    qed
  qed
qed

lemma handle_response_facts:
  assumes "handle_response e iteration iter r s = (res, t)" and "paired (al_messages s)"
    and "\<And>tc. tc \<in> set (rs_calls r) \<Longrightarrow> tq_id tc \<noteq> []"
  shows "responded e s t \<and> (res \<in> range Inr \<longrightarrow> sendable e t)"
proof -
  obtain r1 s1 where u: "record_llm_usage (rs_usage r) iter s = (r1, s1)" by (cases "record_llm_usage (rs_usage r) iter s")
  note q1 = usage_quiet [OF u]
  show ?thesis
  proof (cases r1)
    case (Inl exc)
    with assms(1) u have "res = Inl exc" "t = s1" by (auto simp: handle_response_def wbind_def)
    with q1 show ?thesis by (auto intro: quiet_responded)
  next
    case (Inr delta)
    define s2 where "s2 = note_thinking iter (rs_thinking r) (account_goal e delta s1)"
    have q2: "quiet s s2 \<and> paired (al_messages s2)"
      using q1 assms(2) account_quiet [of s1 e delta] thinking_quiet [of "account_goal e delta s1" iter "rs_thinking r"]
      by (auto simp: s2_def intro: quiet_trans)
    let ?s3 = "s2\<lparr>al_consecutive_filtered := 0\<rparr>"
    have q3: "quiet s ?s3 \<and> paired (al_messages ?s3)" using q2 by (simp add: quiet_def)
    have eq: "(if rs_content_filter_triggered r then (let (sig, s) = filtered_response iter s2 in (Inr sig, s))
        else if rs_calls r = [] then (let (sig, s) = answer_response e iteration iter r ?s3 in (Inr sig, s))
             else tool_response e iter r ?s3) = (res, t)"
      using assms(1) unfolding handle_response_def wbind_def u Inr s2_def Let_def by simp
    show ?thesis
    proof (cases "rs_content_filter_triggered r")
      case True
      with eq have "t = snd (filtered_response iter s2)" by (auto split: prod.splits)
      with q2 filtered_quiet [of s2 iter] show ?thesis
        by (auto simp: sendable_def intro: quiet_responded quiet_trans)
    next
      case unfiltered: False
      show ?thesis
      proof (cases "rs_calls r = []")
        case True
        obtain sig t' where a: "answer_response e iteration iter r ?s3 = (sig, t')"
          by (cases "answer_response e iteration iter r ?s3")
        with eq unfiltered True have t: "t = t'" by simp
        note f = answer_facts [OF a]
        have "responded e ?s3 t"
          using f(1-4,6) by (auto simp: t responded_def later_def starts_fresh_def bounded_goal_def)
        with quiet_responded_trans [OF conjunct1 [OF q3]] f(5) q3 show ?thesis by (auto simp: t sendable_def)
      next
        case False
        with eq unfiltered have "tool_response e iter r ?s3 = (res, t)" by simp
        from tool_response_facts [OF this _ assms(3)] q3 quiet_responded_trans show ?thesis by blast
      qed
    qed
  qed
qed

section \<open>Iterations\<close>

text \<open>The prompts of an iteration: at most two, paired, and without tools in the last iteration only.\<close>

definition asks :: "loop_env \<Rightarrow> nat \<Rightarrow> loop_state \<Rightarrow> loop_state \<Rightarrow> bool" where
  "asks e iteration s t \<longleftrightarrow> (\<exists>ps. al_prompts t = al_prompts s @ ps \<and> length ps \<le> 2 \<and>
     (\<forall>(ms, offered) \<in> set ps. paired ms \<and> offered = (iteration \<noteq> ae_max_iterations e)))"

definition advances :: "loop_env \<Rightarrow> nat \<Rightarrow> loop_state \<Rightarrow> loop_state \<Rightarrow> bool" where
  "advances e iteration s t \<longleftrightarrow> later s t \<and> asks e iteration s t \<and> starts_fresh e s t \<and>
     (bounded_goal e s \<longrightarrow> bounded_goal e t)"

lemma stream_chat_facts:
  assumes "stream_chat e offered s = (r, t)"
  shows "\<exists>ps. al_prompts t = al_prompts s @ ps \<and> length ps \<le> 2 \<and> set ps \<subseteq> {(al_messages s, offered)} \<and>
    t = s\<lparr>al_prompts := al_prompts t\<rparr>" and "r = Inr resp \<Longrightarrow> \<exists>n ms. ae_stream e n ms offered = Inr resp"
  using assms by (auto simp: stream_chat_def stream_once_def split: sum.splits loop_exc.splits bool.splits)

text \<open>Every call the model makes has an id.\<close>

definition calls_have_ids :: "loop_env \<Rightarrow> bool" where
  "calls_have_ids e \<longleftrightarrow> (\<forall>n ms offered r. ae_stream e n ms offered = Inr r \<longrightarrow>
     (\<forall>tc \<in> set (rs_calls r). tq_id tc \<noteq> []))"

lemma loop_iteration_facts:
  assumes "loop_iteration e iteration s = (res, t)" and "paired (al_messages s)" and "calls_have_ids e"
  shows "advances e iteration s t \<and> (res \<in> range Inr \<longrightarrow> sendable e t)"
    and "is_cancelled e s \<Longrightarrow> al_executed t = al_executed s \<and> res \<noteq> Inr Continue_Loop"
proof -
  let ?s0 = "inject_notifications e iteration (s\<lparr>al_iteration := al_iteration s + 1\<rparr>)"
  have "quiet s (s\<lparr>al_iteration := al_iteration s + 1\<rparr>)" by (simp add: quiet_def)
  then have q0: "quiet s ?s0" using inject_quiet(1) by (rule quiet_trans)
  have p0: "paired (al_messages ?s0)" using assms(2) inject_quiet(2) by simp
  define iter where "iter = al_iteration ?s0"
  obtain r1 s1 where s1: "shrink_messages e iter ?s0 = (r1, s1)" by (cases "shrink_messages e iter ?s0")
  from shrink_quiet [OF s1 p0] q0 have q1: "quiet s s1" "paired (al_messages s1)" by (auto intro: quiet_trans)
  have quiet_adv: "advances e iteration s u" if "quiet s u" for u
    using that by (auto simp: advances_def asks_def quiet_def later_def starts_fresh_def bounded_goal_def)
  have "(advances e iteration s t \<and> (res \<in> range Inr \<longrightarrow> sendable e t)) \<and>
    (is_cancelled e s \<longrightarrow> al_executed t = al_executed s \<and> res \<noteq> Inr Continue_Loop)"
  proof (cases r1)
    case (Inl exc)
    with assms(1) s1 have "res = Inl exc" "t = s1" by (auto simp: loop_iteration_def wbind_def Let_def iter_def)
    with quiet_adv q1 show ?thesis by (auto simp: quiet_def)
  next
    case (Inr x)
    let ?last = "iteration = ae_max_iterations e"
    define s3 where "s3 = (let u = wrap_up_nudge e iteration s1 in if ?last then add_trace (Tr_Forced_Text_Only iter) u else u)"
    have q3: "quiet s s3" "paired (al_messages s3)"
      using q1 nudge_quiet [where e = e and i = iteration and s = s1] by (auto simp: s3_def Let_def quiet_def)
    obtain r4 s4 where s4: "stream_chat e (\<not> ?last) s3 = (r4, s4)" by (cases "stream_chat e (\<not> ?last) s3")
    from stream_chat_facts(1) [OF s4] obtain ps where ps: "al_prompts s4 = al_prompts s3 @ ps" "length ps \<le> 2"
      "set ps \<subseteq> {(al_messages s3, \<not> ?last)}" "s4 = s3\<lparr>al_prompts := al_prompts s4\<rparr>" by blast
    have fields: "al_messages s4 = al_messages s3" "al_polls s4 = al_polls s3" "al_executed s4 = al_executed s3"
      "al_called_ok s4 = al_called_ok s3" "al_continuations s4 = al_continuations s3"
      using arg_cong [OF ps(4), of al_messages] arg_cong [OF ps(4), of al_polls] arg_cong [OF ps(4), of al_executed]
        arg_cong [OF ps(4), of al_called_ok] arg_cong [OF ps(4), of al_continuations] by simp_all
    have c4: "is_cancelled e s4 = is_cancelled e s" using q3(1) fields(2) by (auto simp: is_cancelled_def quiet_def split: option.splits)
    have adv: "advances e iteration s u" if "responded e s4 u" for u
    proof -
      have "asks e iteration s u"
        using that ps q3 by (auto simp: asks_def responded_def quiet_def intro!: exI [of _ ps])
      with that fields q3(1) show ?thesis
        by (auto simp: advances_def responded_def later_def quiet_def starts_fresh_def bounded_goal_def)
    qed
    have eq: "(case r4 of Inl exc \<Rightarrow> (Inl exc, s4) | Inr r \<Rightarrow>
        if is_cancelled e s4 then (Inr Break_Loop, poll s4) else handle_response e iteration iter r (poll s4)) = (res, t)"
      using assms(1) unfolding loop_iteration_def Let_def iter_def [symmetric] wbind_def s1 Inr
      by (auto simp: s4 [unfolded s3_def Let_def] split: sum.splits)
    have poll4: "responded e s4 (poll s4)" by (auto simp: responded_def later_def starts_fresh_def bounded_goal_def)
    show ?thesis
    proof (cases r4)
      case (Inl exc)
      with eq have "res = Inl exc" "t = s4" by simp_all
      with adv [of s4] fields q3(1) show ?thesis
        by (auto simp: responded_def later_def starts_fresh_def bounded_goal_def quiet_def)
    next
      case (Inr r)
      show ?thesis
      proof (cases "is_cancelled e s4")
        case True
        with eq Inr have "res = Inr Break_Loop" "t = poll s4" by simp_all
        with adv [OF poll4] True cancelled_poll fields q3(1) show ?thesis by (auto simp: sendable_def quiet_def)
      next
        case False
        from eq Inr False have h: "handle_response e iteration iter r (poll s4) = (res, t)" by simp
        have ids: "tq_id tc \<noteq> []" if "tc \<in> set (rs_calls r)" for tc
          using stream_chat_facts(2) [OF s4] Inr assms(3) that by (auto simp: calls_have_ids_def)
        from handle_response_facts [OF h _ ids] q3(2) fields(1)
        have "responded e (poll s4) t" "res \<in> range Inr \<longrightarrow> sendable e t" by auto
        moreover from this(1) have "responded e s4 t"
          by (auto simp: responded_def later_def starts_fresh_def bounded_goal_def)
        ultimately show ?thesis using adv False c4 by simp
      qed
    qed
  qed
  then show "advances e iteration s t \<and> (res \<in> range Inr \<longrightarrow> sendable e t)"
    and "is_cancelled e s \<Longrightarrow> al_executed t = al_executed s \<and> res \<noteq> Inr Continue_Loop" by blast+
qed

section \<open>Runs\<close>






section \<open>A small run\<close>

definition demo_look_tool :: base_tool where
  "demo_look_tool = \<lparr>bt_name = ''look'', bt_class_name = ''Look'', bt_module = [], bt_description = [], bt_is_readonly = True,
     bt_repeatable = False, bt_timeout_seconds = None, bt_live_classification = None\<rparr>"

definition demo_call :: chat_response where
  "demo_call = \<lparr>rs_content = None, rs_calls = [\<lparr>tq_id = ''c1'', tq_name = ''look'', tq_arguments = []\<rparr>,
       \<lparr>tq_id = ''c2'', tq_name = ''look'', tq_arguments = []\<rparr>],
     rs_reasoning = None, rs_thinking = [], rs_usage = VNone, rs_content_filter_triggered = False\<rparr>"

definition demo_answer :: chat_response where
  "demo_answer = \<lparr>rs_content = Some ''fine'', rs_calls = [], rs_reasoning = None, rs_thinking = [], rs_usage = VNone,
     rs_content_filter_triggered = False\<rparr>"

definition demo_loop_env :: loop_env where
  "demo_loop_env = \<lparr>ae_stream = (\<lambda>n ms offered. Inr (if n = 0 then demo_call else demo_answer)),
     ae_chat = (\<lambda>n q. Inr None), ae_registry = (\<lambda>n. if n = ''look'' then Some demo_look_tool else None),
     ae_tool = (\<lambda>n name args. Returned (Some ''seen'')), ae_late = (\<lambda>n. False), ae_goal_effect = (\<lambda>n db. db),
     ae_tool_timeout = 10, ae_timeout_label = ''10s'', ae_cancel = None, ae_notifications = (\<lambda>n. []),
     ae_loads = (\<lambda>txt. None), ae_dumps = (\<lambda>v. []), ae_dumped = (\<lambda>ms. []), ae_resolve_under = (\<lambda>a b. b),
     ae_str = (\<lambda>v. []), ae_token_threshold = 100, ae_max_iterations = Suc (Suc (Suc 0)), ae_goal_max_continuations = 3,
     ae_session_id = [], ae_goal_id = None, ae_run_dir = [], ae_transcript = (\<lambda>n. []), ae_now = (\<lambda>n. []),
     ae_metrics_exist = False, ae_filter_threshold = Fin (1 / 20)\<rparr>"

lemma demo_calls_have_ids: "calls_have_ids demo_loop_env"
  by (auto simp: calls_have_ids_def demo_loop_env_def demo_call_def demo_answer_def)

definition demo_start :: loop_state where
  "demo_start = initial_state (build_messages ''s'' [] ''hi'') empty_goal_db [] 0"



section \<open>Properties\<close>

text \<open>
  C36. The repair of a compressed conversation leaves exactly one kind of conversation: every result belongs to
  a call and every call has a result. It keeps all other messages and changes nothing that is paired.
\<close>

theorem fix_tool_pairs_repairs:
  "paired (fix_tool_pairs ms) \<and>
   filter (\<lambda>m. \<not> is_tool_msg m) (fix_tool_pairs ms) = filter (\<lambda>m. \<not> is_tool_msg m) ms \<and>
   (fix_tool_pairs ms = ms \<longleftrightarrow> paired ms)"
  using fix_tool_pairs_facts by metis







text \<open>
  C38. A cancellation is final: once the flag is set, no checkpoint lets a tool start. The loop ends, a turn
  after its request ends the loop, the calls of a turn and the batches that are left are not executed.
\<close>

theorem cancellation_stops_tools:
  assumes "is_cancelled e s" and "calls_have_ids e" and "paired (al_messages s)"
  shows "al_executed (snd (react_loop e n s)) = al_executed s \<and>
    al_executed (snd (loop_iteration e iteration s)) = al_executed s \<and>
    al_executed (snd (process_tool_calls e iter tcs s)) = al_executed s \<and>
    al_executed (snd (run_batches e iter batches s)) = al_executed s"
proof -
  have "al_executed (snd (react_loop e n s)) = al_executed s"
    using assms(1) by (cases n) (simp_all add: Let_def)
  moreover have "al_executed (snd (loop_iteration e iteration s)) = al_executed s"
    using loop_iteration_facts(2) [OF _ assms(3,2,1)] by (metis prod.collapse)
  moreover have "al_executed (snd (process_tool_calls e iter tcs s)) = al_executed s"
    using assms(1) by (simp add: process_tool_calls_def)
  moreover have "al_executed (snd (run_batches e iter batches s)) = al_executed s"
    using assms(1) by (cases batches rule: list.exhaust) auto
  ultimately show ?thesis by blast
qed

theorem cancellation_stops_tools_witness:
  "al_executed (snd (loop_iteration (demo_loop_env\<lparr>ae_cancel := Some 0\<rparr>) 1 demo_start)) = []"
proof -
  have c: "is_cancelled (demo_loop_env\<lparr>ae_cancel := Some 0\<rparr>) demo_start" "calls_have_ids (demo_loop_env\<lparr>ae_cancel := Some 0\<rparr>)"
    "paired (al_messages demo_start)" "al_executed demo_start = []"
    using demo_calls_have_ids
    by (simp_all add: is_cancelled_def calls_have_ids_def demo_start_def initial_state_def build_messages_def paired_def)
  from cancellation_stops_tools [OF c(1-3), of 0 1 0 "[]" "[]"] c(4) show ?thesis by simp
qed



end
