(* ===== verification/Agent_Batches.thy ===== *)
theory Agent_Batches
  imports Agent_Properties
begin

text \<open>
  Executing a turn in batches and executing its calls one after the other leave the same state, up to the
  order of the trace, as long as no tool raises.
\<close>

section \<open>The effect of a call\<close>


text \<open>The state without its trace and its polls.\<close>

definition core :: "loop_state \<Rightarrow> loop_state" where
  "core s = s\<lparr>al_trace := [], al_polls := 0\<rparr>"

definition tool_text :: "loop_env \<Rightarrow> nat \<Rightarrow> string \<Rightarrow> pydict \<Rightarrow> string" where
  "tool_text e n name args =
     (if is_tool_readonly e name \<and> 0 < ae_tool_timeout e \<and> ae_late e n then timeout_result e name
      else case ae_tool e n name args of Returned (Some r) \<Rightarrow> r | Policy_Denied m \<Rightarrow> m | _ \<Rightarrow> [])"


definition result_of :: "loop_env \<Rightarrow> tool_request \<Rightarrow> loop_state \<Rightarrow> string" where
  "result_of e tc s = tool_text e (length (al_executed s)) (tq_name tc) (normalize_tool_run_dir e (tq_arguments tc))"




lemma result_of_finalized [simp]: "result_of e tc (finalize_tool_result e iter tc' r s) = result_of e tc s"
  by (simp add: result_of_def finalize_tool_result_def Let_def append_message_def add_trace_def add_react_def split: option.splits)






lemma core_simps [simp]: "core (announce_call e iter tc s) = core s" "core (poll s) = core s"
  by (simp_all add: core_def announce_call_def add_trace_def poll_def)

lemma core_announce_all [simp]: "core (fold (announce_call e iter) tcs s) = core s"
  by (induction tcs arbitrary: s) simp_all

section \<open>One by one\<close>



section \<open>In parallel\<close>










end
