(* ===== verification/Domain.thy ===== *)
theory Domain
  imports Kernel_Prelude
begin

text \<open>
  The domain layer: the enumerations of \<open>domain/enums.py\<close>, the order state machine of
  \<open>domain/state_machine.py\<close> and the validated schemas of \<open>domain/schemas.py\<close>. A pydantic model is a
  record together with the predicate its validators decide; building one is the \<open>make\<close> function,
  which raises \<open>ValidationError\<close> where the predicate fails.
\<close>

section \<open>Enumerations\<close>

datatype order_side = BUY | SELL

datatype order_type = MARKET | LIMIT | LIMIT_IF_TOUCHED | STOP_LIMIT

datatype time_in_force = DAY | GTC

datatype order_status =
    CREATED | RISK_REJECTED | RISK_APPROVED | SUBMITTING | SUBMITTED | PARTIALLY_FILLED
  | FILLED | CANCEL_PENDING | CANCELLED | FAILED | RECONCILING

datatype risk_decision_status = APPROVED | REJECTED | REQUIRES_MANUAL_REVIEW

datatype outbox_status = OB_PENDING | OB_PUBLISHED | OB_FAILED

datatype trade_action = TA_BUY | TA_SELL | TA_HOLD

datatype llm_trading_run_status = AWAITING_APPROVAL | RUN_REJECTED | NO_ACTION | COMPLETED

text \<open>The \<open>value\<close> of the members whose text the code uses.\<close>

fun side_value :: "order_side \<Rightarrow> string" where
  "side_value BUY = ''BUY''"
| "side_value SELL = ''SELL''"

fun type_value :: "order_type \<Rightarrow> string" where
  "type_value MARKET = ''MARKET''"
| "type_value LIMIT = ''LIMIT''"
| "type_value LIMIT_IF_TOUCHED = ''LIMIT_IF_TOUCHED''"
| "type_value STOP_LIMIT = ''STOP_LIMIT''"

fun tif_value :: "time_in_force \<Rightarrow> string" where
  "tif_value DAY = ''DAY''"
| "tif_value GTC = ''GTC''"

fun status_value :: "order_status \<Rightarrow> string" where
  "status_value CREATED = ''CREATED''"
| "status_value RISK_REJECTED = ''RISK_REJECTED''"
| "status_value RISK_APPROVED = ''RISK_APPROVED''"
| "status_value SUBMITTING = ''SUBMITTING''"
| "status_value SUBMITTED = ''SUBMITTED''"
| "status_value PARTIALLY_FILLED = ''PARTIALLY_FILLED''"
| "status_value FILLED = ''FILLED''"
| "status_value CANCEL_PENDING = ''CANCEL_PENDING''"
| "status_value CANCELLED = ''CANCELLED''"
| "status_value FAILED = ''FAILED''"
| "status_value RECONCILING = ''RECONCILING''"

fun action_value :: "trade_action \<Rightarrow> string" where
  "action_value TA_BUY = ''BUY''"
| "action_value TA_SELL = ''SELL''"
| "action_value TA_HOLD = ''HOLD''"

text \<open>
  The statuses are an enumerated type, so that a statement over all of them is decided by
  evaluation.
\<close>

lemma all_order_status:
  "(\<forall>s. P s) \<longleftrightarrow> list_all P [CREATED, RISK_REJECTED, RISK_APPROVED, SUBMITTING,
     SUBMITTED, PARTIALLY_FILLED, FILLED, CANCEL_PENDING, CANCELLED, FAILED, RECONCILING]"
proof
  assume P: "list_all P [CREATED, RISK_REJECTED, RISK_APPROVED, SUBMITTING,
     SUBMITTED, PARTIALLY_FILLED, FILLED, CANCEL_PENDING, CANCELLED, FAILED, RECONCILING]"
  show "\<forall>s. P s"
  proof
    show "P s" for s using P by (cases s) simp_all
  qed
qed simp

lemma ex_order_status:
  "(\<exists>s. P s) \<longleftrightarrow> list_ex P [CREATED, RISK_REJECTED, RISK_APPROVED, SUBMITTING,
     SUBMITTED, PARTIALLY_FILLED, FILLED, CANCEL_PENDING, CANCELLED, FAILED, RECONCILING]"
  using all_order_status [of "\<lambda>s. \<not> P s"] by auto

instantiation order_status :: enum
begin

definition enum_order_status :: "order_status list" where
  "enum_order_status = [CREATED, RISK_REJECTED, RISK_APPROVED, SUBMITTING, SUBMITTED,
     PARTIALLY_FILLED, FILLED, CANCEL_PENDING, CANCELLED, FAILED, RECONCILING]"

definition enum_all_order_status :: "(order_status \<Rightarrow> bool) \<Rightarrow> bool" where
  "enum_all_order_status P = list_all P [CREATED, RISK_REJECTED, RISK_APPROVED, SUBMITTING,
     SUBMITTED, PARTIALLY_FILLED, FILLED, CANCEL_PENDING, CANCELLED, FAILED, RECONCILING]"

definition enum_ex_order_status :: "(order_status \<Rightarrow> bool) \<Rightarrow> bool" where
  "enum_ex_order_status P = list_ex P [CREATED, RISK_REJECTED, RISK_APPROVED, SUBMITTING,
     SUBMITTED, PARTIALLY_FILLED, FILLED, CANCEL_PENDING, CANCELLED, FAILED, RECONCILING]"

instance
proof
  show "(UNIV :: order_status set) = set enum_class.enum"
  proof (rule UNIV_eq_I)
    show "x \<in> set enum_class.enum" for x :: order_status
      by (cases x) (simp_all add: enum_order_status_def)
  qed
  show "distinct (enum_class.enum :: order_status list)"
    by (simp add: enum_order_status_def)
  show "enum_class.enum_all P = Ball UNIV P" for P :: "order_status \<Rightarrow> bool"
    unfolding enum_all_order_status_def all_order_status [symmetric] by simp
  show "enum_class.enum_ex P = Bex UNIV P" for P :: "order_status \<Rightarrow> bool"
    unfolding enum_ex_order_status_def ex_order_status [symmetric] by simp
qed

end

section \<open>Exceptions\<close>

text \<open>
  The exceptions the kernel raises. \<open>RiskRefused\<close> and \<open>BrokerRefused\<close> are the two \<open>RuntimeError\<close>s
  of the trade executor, which carry the reason code and the broker's message; \<open>RuntimeError\<close> is any
  other one; \<open>IntegrityError\<close> is
  a table constraint refused by the database on a flush; \<open>DetachedInstance\<close> is an operation on an
  order that is not an object of the session.
\<close>

datatype py_exc =
    InvalidOrderTransition order_status order_status
  | ValueError string
  | ValidationError string
  | RiskRefused string
  | BrokerRefused string
  | IntegrityError
  | InvalidOperation
  | DetachedInstance string
  | RuntimeError string
  | AttributeError string

type_synonym 'a result = "py_exc + 'a"

section \<open>The order state machine\<close>

fun allowed_order_transitions :: "order_status \<Rightarrow> order_status set" where
  "allowed_order_transitions CREATED = {RISK_APPROVED, RISK_REJECTED, FAILED}"
| "allowed_order_transitions RISK_REJECTED = {}"
| "allowed_order_transitions RISK_APPROVED = {SUBMITTING, FAILED}"
| "allowed_order_transitions SUBMITTING = {SUBMITTED, FAILED, RECONCILING}"
| "allowed_order_transitions SUBMITTED =
     {PARTIALLY_FILLED, FILLED, CANCEL_PENDING, CANCELLED, FAILED, RECONCILING}"
| "allowed_order_transitions PARTIALLY_FILLED = {FILLED, CANCEL_PENDING, CANCELLED, RECONCILING}"
| "allowed_order_transitions FILLED = {}"
| "allowed_order_transitions CANCEL_PENDING = {CANCELLED, PARTIALLY_FILLED, FILLED, RECONCILING}"
| "allowed_order_transitions CANCELLED = {}"
| "allowed_order_transitions FAILED = {RECONCILING}"
| "allowed_order_transitions RECONCILING = {SUBMITTED, PARTIALLY_FILLED, FILLED, CANCELLED, FAILED}"

definition assert_order_transition :: "order_status \<Rightarrow> order_status \<Rightarrow> unit result" where
  "assert_order_transition current target =
     (if target \<notin> allowed_order_transitions current
      then Inl (InvalidOrderTransition current target) else Inr ())"

lemma assert_order_transition_ok [ok_iff]:
  "assert_order_transition c t = Inr u \<longleftrightarrow> t \<in> allowed_order_transitions c"
  by (simp add: assert_order_transition_def)

text \<open>
  \<open>lives_from s ts\<close>: the statuses \<open>ts\<close> can follow \<open>s\<close>, one allowed transition at a time.
\<close>

fun lives_from :: "order_status \<Rightarrow> order_status list \<Rightarrow> bool" where
  "lives_from s [] = True"
| "lives_from s (t # ts) = (t \<in> allowed_order_transitions s \<and> lives_from t ts)"

definition terminal_status :: "order_status \<Rightarrow> bool" where
  "terminal_status s = (allowed_order_transitions s = {})"

text \<open>The statuses an order has only after it was handed to a broker.\<close>

definition at_broker :: "order_status \<Rightarrow> bool" where
  "at_broker s = (s \<in> {SUBMITTING, SUBMITTED, PARTIALLY_FILLED, FILLED, CANCEL_PENDING, CANCELLED})"

lemma lives_from_append:
  "lives_from s (ts @ us) \<longleftrightarrow> lives_from s ts \<and> lives_from (last (s # ts)) us"
  by (induction ts arbitrary: s) auto

lemma lives_from_snoc:
  "lives_from s (ts @ [t]) \<longleftrightarrow> lives_from s ts \<and> t \<in> allowed_order_transitions (last (s # ts))"
  by (simp add: lives_from_append)

lemma terminal_statuses: "terminal_status s \<longleftrightarrow> s \<in> {RISK_REJECTED, FILLED, CANCELLED}"
  by (cases s) (simp_all add: terminal_status_def)

lemma terminal_lives_from: "terminal_status s \<Longrightarrow> lives_from s ts \<Longrightarrow> ts = []"
  by (cases ts) (auto simp: terminal_status_def)

text \<open>
  Before the first \<open>FAILED\<close> a life that starts in \<open>CREATED\<close> or \<open>RISK_APPROVED\<close> cannot reach the
  broker other than through the approval.
\<close>

lemma created_life_cases:
  assumes "lives_from CREATED (t # ts)"
  shows "t = RISK_APPROVED \<or> t = FAILED \<or> t = RISK_REJECTED \<and> ts = []"
  using assms terminal_lives_from [of RISK_REJECTED ts] by (auto simp: terminal_statuses)

section \<open>Snapshots\<close>

text \<open>
  The JSON values of the snapshot columns. \<open>JDec q\<close> is the text \<open>str(q)\<close> of the decimal \<open>q\<close>: pydantic's
  \<open>model_dump(mode="json")\<close> and the code's own \<open>str(...)\<close> write a decimal as its text.
\<close>

datatype json =
    JNull
  | JBool bool
  | JInt int
  | JDec rat
  | JStr string
  | JList "json list"
  | JObj "(string \<times> json) list"

type_synonym snapshot = "(string \<times> json) list"

definition json_opt :: "('a \<Rightarrow> json) \<Rightarrow> 'a option \<Rightarrow> json" where
  "json_opt f x = (case x of None \<Rightarrow> JNull | Some v \<Rightarrow> f v)"

section \<open>Schemas\<close>

definition opt_positive :: "rat option \<Rightarrow> bool" where
  "opt_positive x = (case x of None \<Rightarrow> True | Some v \<Rightarrow> 0 < v)"

record order_intent =
  oi_account_id :: string
  oi_symbol :: string
  oi_side :: order_side
  oi_order_type :: order_type
  oi_quantity :: rat
  oi_limit_price :: "rat option"
  oi_time_in_force :: time_in_force
  oi_source_signal_id :: "string option"
  oi_strategy_name :: "string option"
  oi_trigger_price :: "rat option"

definition valid_order_intent :: "order_intent \<Rightarrow> bool" where
  "valid_order_intent i \<longleftrightarrow>
     0 < oi_quantity i \<and> opt_positive (oi_limit_price i) \<and> opt_positive (oi_trigger_price i) \<and>
     (oi_order_type i \<in> {LIMIT, LIMIT_IF_TOUCHED, STOP_LIMIT} \<longrightarrow> oi_limit_price i \<noteq> None)"

definition make_order_intent :: "order_intent \<Rightarrow> order_intent result" where
  "make_order_intent i =
     (if valid_order_intent i then Inr i else Inl (ValidationError ''OrderIntent''))"

definition intent_dump :: "order_intent \<Rightarrow> snapshot" where
  "intent_dump i =
     [(''account_id'', JStr (oi_account_id i)),
      (''symbol'', JStr (oi_symbol i)),
      (''side'', JStr (side_value (oi_side i))),
      (''order_type'', JStr (type_value (oi_order_type i))),
      (''quantity'', JDec (oi_quantity i)),
      (''limit_price'', json_opt JDec (oi_limit_price i)),
      (''time_in_force'', JStr (tif_value (oi_time_in_force i))),
      (''source_signal_id'', json_opt JStr (oi_source_signal_id i)),
      (''strategy_name'', json_opt JStr (oi_strategy_name i)),
      (''trigger_price'', json_opt JDec (oi_trigger_price i))]"

record risk_check_result =
  rr_approved :: bool
  rr_reason_code :: string
  rr_message :: string
  rr_checked_rules :: "string list"
  rr_input_snapshot :: snapshot

record risk_config =
  max_single_order_value :: rat
  max_daily_loss :: rat
  max_daily_order_count :: int
  duplicate_order_cooldown_seconds :: int
  max_limit_price_deviation_ratio :: rat
  require_market_session :: bool
  max_position_ratio_per_symbol :: "rat option"

definition default_risk_config :: risk_config where
  "default_risk_config =
     \<lparr>max_single_order_value = 1000000, max_daily_loss = 3000, max_daily_order_count = 50,
      duplicate_order_cooldown_seconds = 60, max_limit_price_deviation_ratio = 3 / 100,
      require_market_session = True, max_position_ratio_per_symbol = None\<rparr>"

record local_sim_config =
  commission_rate :: rat
  minimum_commission :: rat

definition valid_local_sim_config :: "local_sim_config \<Rightarrow> bool" where
  "valid_local_sim_config c \<longleftrightarrow> 0 \<le> commission_rate c \<and> 0 \<le> minimum_commission c"

record market_quote =
  mq_symbol :: string
  mq_last_price :: rat
  mq_bid_price :: "rat option"
  mq_ask_price :: "rat option"

definition valid_market_quote :: "market_quote \<Rightarrow> bool" where
  "valid_market_quote q \<longleftrightarrow>
     0 < mq_last_price q \<and> opt_positive (mq_bid_price q) \<and> opt_positive (mq_ask_price q)"

definition make_market_quote :: "market_quote \<Rightarrow> market_quote result" where
  "make_market_quote q =
     (if valid_market_quote q then Inr q else Inl (ValidationError ''MarketQuote''))"

record broker_order_result =
  br_accepted :: bool
  br_broker_order_id :: "string option"
  br_message :: string

record llm_trade_proposal =
  tp_action :: trade_action
  tp_symbol :: string
  tp_confidence :: rat
  tp_quantity :: rat
  tp_order_type :: order_type
  tp_limit_price :: "rat option"
  tp_take_profit_price :: "rat option"
  tp_stop_loss_price :: "rat option"
  tp_rationale :: string
  tp_risk_notes :: "string list"

definition valid_llm_trade_proposal :: "llm_trade_proposal \<Rightarrow> bool" where
  "valid_llm_trade_proposal p \<longleftrightarrow>
     tp_symbol p \<noteq> [] \<and> 0 \<le> tp_confidence p \<and> tp_confidence p \<le> 1 \<and> 0 \<le> tp_quantity p \<and>
     tp_rationale p \<noteq> [] \<and>
     (if tp_action p = TA_HOLD then tp_quantity p = 0 \<and> tp_limit_price p = None
      else 0 < tp_quantity p \<and> (tp_order_type p = LIMIT \<longrightarrow> tp_limit_price p \<noteq> None))"

record human_approval_decision =
  ha_approved :: bool
  ha_reviewer :: string
  ha_reason :: string

record llm_trading_run_result =
  lr_thread_id :: string
  lr_trace_id :: string
  lr_status :: llm_trading_run_status
  lr_proposal :: llm_trade_proposal
  lr_reviewer :: "string option"
  lr_order_id :: "string option"
  lr_risk_decision_id :: "string option"
  lr_broker_order_id :: "string option"
  lr_order_status :: "order_status option"
  lr_take_profit_order_id :: "string option"
  lr_take_profit_broker_order_id :: "string option"
  lr_stop_loss_order_id :: "string option"
  lr_stop_loss_broker_order_id :: "string option"
  lr_message :: string

lemma make_order_intent_ok [ok_iff]:
  "make_order_intent i = Inr j \<longleftrightarrow> valid_order_intent i \<and> j = i"
  by (auto simp: make_order_intent_def)

lemma make_market_quote_ok [ok_iff]:
  "make_market_quote q = Inr r \<longleftrightarrow> valid_market_quote q \<and> r = q"
  by (auto simp: make_market_quote_def)

lemma valid_market_quote_prices:
  assumes "valid_market_quote q"
  shows "0 < or_else (mq_ask_price q) (mq_last_price q)"
    and "0 < or_else (mq_bid_price q) (mq_last_price q)"
  using assms by (auto simp: valid_market_quote_def opt_positive_def intro!: or_else_pos)

lemma intent_dump_trigger: "map_of (intent_dump i) ''trigger_price'' = Some (json_opt JDec (oi_trigger_price i))"
  by (simp add: intent_dump_def)

end
