(* ===== verification/Storage.thy ===== *)
theory Storage
  imports Domain
begin

text \<open>
  The tables of \<open>storage/models.py\<close> and the SQLAlchemy session the kernel works on. A table is the
  list of its rows, a row is a record with the columns of the model class (the \<open>created_at\<close> of an
  order is the only timestamp column any query reads, so it is the only one kept).

  \<^item> \<open>s_orders\<close> holds the order objects of the session, \<open>s_db_orders\<close> the rows the database has:
    the objects as they were at the last flush. A query runs on the database, so with
    \<open>autoflush=False\<close> (the \<open>SessionLocal\<close> of \<open>storage/session.py\<close>) it does not see pending rows; with
    SQLAlchemy's default \<open>autoflush=True\<close> (the sessions of the tests) a query flushes first.
    Positions are flushed by the only code that creates them before any query can follow, and the
    columns a query compares never change, so one list is enough for them.
  \<^item> \<open>s_uuids\<close> is the tape of \<open>uuid4().hex\<close> values and \<open>s_uuid_next\<close> how many were drawn.
  \<^item> \<open>s_now\<close> is the reading of the UTC clock in microseconds since the epoch.
  \<^item> \<open>s_enforce_fk\<close> tells whether the backend checks foreign keys (MySQL does, SQLite does not by
    default).
\<close>

section \<open>Tables\<close>

record account =
  acc_account_id :: string
  acc_base_currency :: string
  acc_cash_available :: rat
  acc_cash_frozen :: rat
  acc_equity :: rat
  acc_realized_pnl :: rat
  acc_unrealized_pnl :: rat

record position =
  pos_account_id :: string
  pos_symbol :: string
  pos_quantity :: rat
  pos_available_quantity :: rat
  pos_avg_cost :: rat
  pos_market_price :: rat
  pos_market_value :: rat
  pos_unrealized_pnl :: rat

record strategy_signal =
  sig_signal_id :: string
  sig_trace_id :: string
  sig_strategy_name :: string
  sig_strategy_version :: string
  sig_symbol :: string
  sig_side :: order_side
  sig_confidence :: rat
  sig_target_quantity :: rat
  sig_order_type :: order_type
  sig_limit_price :: "rat option"
  sig_reason :: "string option"
  sig_raw_payload :: snapshot

record risk_decision =
  rd_risk_decision_id :: string
  rd_trace_id :: string
  rd_signal_id :: "string option"
  rd_decision :: risk_decision_status
  rd_reason_code :: string
  rd_message :: string
  rd_checked_rules :: "string list"
  rd_input_snapshot :: snapshot

record trade_order =
  ord_order_id :: string
  ord_client_order_id :: string
  ord_broker_order_id :: "string option"
  ord_account_id :: string
  ord_symbol :: string
  ord_side :: order_side
  ord_order_type :: order_type
  ord_status :: order_status
  ord_quantity :: rat
  ord_filled_quantity :: rat
  ord_limit_price :: "rat option"
  ord_avg_fill_price :: "rat option"
  ord_time_in_force :: time_in_force
  ord_source_signal_id :: "string option"
  ord_risk_decision_id :: "string option"
  ord_idempotency_key :: string
  ord_raw_request :: snapshot
  ord_created_at :: int

record fill =
  fl_fill_id :: string
  fl_order_id :: string
  fl_broker_fill_id :: "string option"
  fl_symbol :: string
  fl_side :: order_side
  fl_quantity :: rat
  fl_price :: rat
  fl_commission :: rat
  fl_time :: int

record cash_ledger =
  cl_ledger_id :: string
  cl_account_id :: string
  cl_order_id :: "string option"
  cl_fill_id :: "string option"
  cl_event_type :: string
  cl_amount :: rat
  cl_currency :: string
  cl_balance_after :: rat

record audit_log =
  au_audit_id :: string
  au_trace_id :: string
  au_actor_type :: string
  au_actor_name :: string
  au_event_type :: string
  au_input_snapshot :: snapshot
  au_output_snapshot :: snapshot
  au_previous_state :: "order_status option"
  au_next_state :: "order_status option"

record outbox_event =
  ob_event_id :: string
  ob_trace_id :: string
  ob_event_type :: string
  ob_aggregate_type :: string
  ob_aggregate_id :: string
  ob_payload :: snapshot
  ob_status :: outbox_status
  ob_attempts :: int
  ob_last_error :: "string option"

record broker_event =
  be_broker_event_id :: string
  be_trace_id :: "string option"
  be_broker_name :: string
  be_broker_order_id :: "string option"
  be_broker_fill_id :: "string option"
  be_event_type :: string
  be_raw_payload :: snapshot
  be_processed_at :: "int option"

section \<open>The session\<close>

record session =
  s_autoflush :: bool
  s_enforce_fk :: bool
  s_now :: int
  s_uuids :: "nat \<Rightarrow> string"
  s_uuid_next :: nat
  s_accounts :: "account list"
  s_positions :: "position list"
  s_signals :: "strategy_signal list"
  s_risk_decisions :: "risk_decision list"
  s_orders :: "trade_order list"
  s_db_orders :: "trade_order list"
  s_fills :: "fill list"
  s_cash_ledger :: "cash_ledger list"
  s_audit_logs :: "audit_log list"
  s_outbox_events :: "outbox_event list"
  s_broker_events :: "broker_event list"

text \<open>\<open>new_id\<close> of \<open>domain/ids.py\<close>.\<close>

definition new_id :: "string \<Rightarrow> session \<Rightarrow> string \<times> session" where
  "new_id prefix s =
     (prefix @ ''_'' @ s_uuids s (s_uuid_next s), s\<lparr>s_uuid_next := Suc (s_uuid_next s)\<rparr>)"

abbreviation pos_key :: "position \<Rightarrow> string \<times> string" where
  "pos_key p \<equiv> (pos_account_id p, pos_symbol p)"

definition find_account :: "session \<Rightarrow> string \<Rightarrow> account option" where
  "find_account s a = row_at acc_account_id a (s_accounts s)"

definition put_account :: "account \<Rightarrow> session \<Rightarrow> session" where
  "put_account a s = s\<lparr>s_accounts := put_row acc_account_id a (s_accounts s)\<rparr>"

definition find_position :: "session \<Rightarrow> string \<times> string \<Rightarrow> position option" where
  "find_position s k = row_at pos_key k (s_positions s)"

definition put_position :: "position \<Rightarrow> session \<Rightarrow> session" where
  "put_position p s = s\<lparr>s_positions := put_row pos_key p (s_positions s)\<rparr>"

definition find_order :: "session \<Rightarrow> string \<Rightarrow> trade_order option" where
  "find_order s oid = row_at ord_order_id oid (s_orders s)"

definition put_order :: "trade_order \<Rightarrow> session \<Rightarrow> session" where
  "put_order ord s = s\<lparr>s_orders := put_row ord_order_id ord (s_orders s)\<rparr>"

definition get_order :: "session \<Rightarrow> string \<Rightarrow> trade_order result" where
  "get_order s oid =
     (case find_order s oid of None \<Rightarrow> Inl (DetachedInstance oid) | Some ord \<Rightarrow> Inr ord)"

definition visible_orders :: "session \<Rightarrow> trade_order list" where
  "visible_orders s = (if s_autoflush s then s_orders s else s_db_orders s)"

text \<open>
  A query for orders returns the session's own objects for the rows the database selects.
\<close>

definition query_orders :: "session \<Rightarrow> (trade_order \<Rightarrow> bool) \<Rightarrow> trade_order list" where
  "query_orders s P =
     concat (map (\<lambda>row. case find_order s (ord_order_id row) of None \<Rightarrow> [] | Some ord \<Rightarrow> [ord])
       (filter P (visible_orders s)))"

definition count_orders :: "session \<Rightarrow> (trade_order \<Rightarrow> bool) \<Rightarrow> int" where
  "count_orders s P = int (length (filter P (visible_orders s)))"

text \<open>The unique and foreign-key constraints of the tables the kernel writes to.\<close>

definition unique_ok :: "session \<Rightarrow> bool" where
  "unique_ok s \<longleftrightarrow>
     distinct (map ord_order_id (s_orders s)) \<and>
     distinct (map ord_client_order_id (s_orders s)) \<and>
     distinct (List.map_filter ord_broker_order_id (s_orders s)) \<and>
     distinct (map ord_idempotency_key (s_orders s)) \<and>
     distinct (map pos_key (s_positions s))"

definition fk_ok :: "session \<Rightarrow> bool" where
  "fk_ok s \<longleftrightarrow>
     list_all (\<lambda>ord. ord_account_id ord \<in> acc_account_id ` set (s_accounts s) \<and>
       (case ord_source_signal_id ord of None \<Rightarrow> True
        | Some g \<Rightarrow> g \<in> sig_signal_id ` set (s_signals s))) (s_orders s) \<and>
     list_all (\<lambda>d. case rd_signal_id d of None \<Rightarrow> True
        | Some g \<Rightarrow> g \<in> sig_signal_id ` set (s_signals s)) (s_risk_decisions s) \<and>
     list_all (\<lambda>p. pos_account_id p \<in> acc_account_id ` set (s_accounts s)) (s_positions s)"

definition flush :: "session \<Rightarrow> session result" where
  "flush s =
     (if unique_ok s \<and> (s_enforce_fk s \<longrightarrow> fk_ok s)
      then Inr (s\<lparr>s_db_orders := s_orders s\<rparr>) else Inl IntegrityError)"

lemma flush_ok [ok_iff]:
  "flush s = Inr t \<longleftrightarrow>
     unique_ok s \<and> (s_enforce_fk s \<longrightarrow> fk_ok s) \<and> t = s\<lparr>s_db_orders := s_orders s\<rparr>"
  by (auto simp: flush_def)

lemma get_order_ok [ok_iff]: "get_order s oid = Inr ord \<longleftrightarrow> find_order s oid = Some ord"
  by (auto simp: get_order_def split: option.splits)

section \<open>The contract of a table\<close>

text \<open>
  What the code relies on when it loads an object, changes it and reads it back: the object under a
  key is the one written last, the others are as they were.
\<close>

locale row_store =
  fixes get :: "'s \<Rightarrow> 'k \<Rightarrow> 'r option"
    and put :: "'r \<Rightarrow> 's \<Rightarrow> 's"
    and key :: "'r \<Rightarrow> 'k"
  assumes get_put: "get (put r s) k =
      (case get s k of None \<Rightarrow> None | Some x \<Rightarrow> Some (if k = key r then r else x))"
    and put_put: "key r = key r' \<Longrightarrow> put r (put r' s) = put r s"
    and get_key: "get s k = Some r \<Longrightarrow> key r = k"
begin

lemma get_put_same: "get s (key r) = Some x \<Longrightarrow> get (put r s) (key r) = Some r"
  by (simp add: get_put)

lemma get_put_other: "k \<noteq> key r \<Longrightarrow> get (put r s) k = get s k"
  by (simp add: get_put split: option.split)

lemma get_put_None: "get (put r s) k = None \<longleftrightarrow> get s k = None"
  by (simp add: get_put split: option.split)

lemma get_put_at: "get s k = Some x \<Longrightarrow> key r = k \<Longrightarrow> get (put r s) k = Some r"
  by (simp add: get_put)

lemma put_overwrites: "get s k = Some x \<Longrightarrow> key r = k \<Longrightarrow> key r' = k \<Longrightarrow>
    get (put r' (put r s)) k = Some r'"
  by (simp add: put_put get_put)

end

interpretation account_store: row_store find_account put_account acc_account_id
  by unfold_locales
    (auto simp: find_account_def put_account_def row_at_put_row put_row_put_row dest: row_at_SomeD)

interpretation position_store: row_store find_position put_position pos_key
  by unfold_locales
    (auto simp: find_position_def put_position_def row_at_put_row put_row_put_row dest: row_at_SomeD)

interpretation order_store: row_store find_order put_order ord_order_id
  by unfold_locales
    (auto simp: find_order_def put_order_def row_at_put_row put_row_put_row dest: row_at_SomeD)

lemma get_order_id: "get_order s oid = Inr ord \<Longrightarrow> ord_order_id ord = oid"
  by (simp add: get_order_ok order_store.get_key)

lemma find_order_mem: "find_order s oid = Some ord \<Longrightarrow> ord \<in> set (s_orders s)"
  by (auto simp: find_order_def dest: row_at_SomeD)

lemma query_orders_mem:
  "ord \<in> set (query_orders s P) \<Longrightarrow> find_order s (ord_order_id ord) = Some ord"
  by (auto simp: query_orders_def split: option.splits) (metis order_store.get_key)

end
