(* ===== verification/Risk_Engine.thy ===== *)
theory Risk_Engine
  imports Storage
begin

text \<open>
  The pre-trade risk engine of \<open>risk/engine.py\<close>: \<open>risk_check\<close> is \<open>RiskEngine.check\<close> with its early
  returns in source order. It reads the session and changes nothing. \<open>risk_rules\<close> is the reference
  definition: the rules as a table of reason codes and the conditions that violate them, of which
  the first violated one is the verdict.
\<close>

section \<open>The engine\<close>

definition estimate_order_value :: "order_intent \<Rightarrow> market_quote option \<Rightarrow> rat" where
  "estimate_order_value i quote =
     (let price = (case oi_limit_price i of
          Some p \<Rightarrow> Some p
        | None \<Rightarrow> (case quote of
            None \<Rightarrow> None
          | Some q \<Rightarrow> (if oi_side i = BUY
                     then Some (or_else (mq_ask_price q) (mq_last_price q))
                     else Some (or_else (mq_bid_price q) (mq_last_price q)))))
      in case price of Some p \<Rightarrow> oi_quantity i * p | None \<Rightarrow> 0)"

definition rejected :: "string \<Rightarrow> string \<Rightarrow> string list \<Rightarrow> snapshot \<Rightarrow> risk_check_result" where
  "rejected reason_code message checked_rules input_snapshot =
     \<lparr>rr_approved = False, rr_reason_code = reason_code, rr_message = message,
      rr_checked_rules = checked_rules, rr_input_snapshot = input_snapshot\<rparr>"

definition day_start :: "int \<Rightarrow> int" where
  "day_start now = now - now mod 86400000000"

definition open_statuses :: "order_status set" where
  "open_statuses = {CREATED, RISK_APPROVED, SUBMITTING, SUBMITTED, PARTIALLY_FILLED}"

definition counts_today :: "order_intent \<Rightarrow> string option \<Rightarrow> int \<Rightarrow> trade_order \<Rightarrow> bool" where
  "counts_today i exclude now ord \<longleftrightarrow>
     ord_account_id ord = oi_account_id i \<and> day_start now \<le> ord_created_at ord \<and>
     (case exclude of None \<Rightarrow> True | Some x \<Rightarrow> x = [] \<or> ord_order_id ord \<noteq> x)"

definition similar_order :: "order_intent \<Rightarrow> string option \<Rightarrow> trade_order \<Rightarrow> bool" where
  "similar_order i exclude ord \<longleftrightarrow>
     ord_account_id ord = oi_account_id i \<and> ord_symbol ord = oi_symbol i \<and>
     ord_side ord = oi_side i \<and>
     (case exclude of None \<Rightarrow> True | Some x \<Rightarrow> ord_order_id ord \<noteq> x)"

definition risk_check ::
  "risk_config \<Rightarrow> session \<Rightarrow> order_intent \<Rightarrow> string option \<Rightarrow> market_quote option \<Rightarrow>
   bool option \<Rightarrow> int option \<Rightarrow> risk_check_result" where
  "risk_check cfg s i exclude quote market_is_open checked_at =
     (let rules = [''account_exists'']; snap = intent_dump i;
          now = (case checked_at of None \<Rightarrow> s_now s | Some t \<Rightarrow> t)
      in case find_account s (oi_account_id i) of
        None \<Rightarrow> rejected ''ACCOUNT_NOT_FOUND''
          (''Account '' @ oi_account_id i @ '' does not exist'') rules snap
      | Some account \<Rightarrow>
        if (case quote of None \<Rightarrow> False | Some q \<Rightarrow> mq_symbol q \<noteq> oi_symbol i)
        then rejected ''QUOTE_SYMBOL_MISMATCH'' ''Quote symbol does not match order intent''
          (rules @ [''quote_symbol'']) snap
        else if require_market_session cfg \<and> market_is_open = Some False
        then rejected ''MARKET_CLOSED''
          ''Orders are not allowed outside the configured market session''
          (rules @ [''market_session'']) snap
        else
        let rules = (if market_is_open \<noteq> None then rules @ [''market_session''] else rules);
            estimated_value = estimate_order_value i quote;
            snap = snap @ [(''estimated_value'', JDec estimated_value),
                           (''cash_available'', JDec (acc_cash_available account))];
            rules = rules @ [''max_single_order_value'']
        in if max_single_order_value cfg < estimated_value
        then rejected ''MAX_SINGLE_ORDER_VALUE_EXCEEDED''
          ''Order value exceeds max single order value'' rules snap
        else
        let rules = rules @ [''cash_available'']
        in if oi_side i = BUY \<and> acc_cash_available account < estimated_value
        then rejected ''INSUFFICIENT_CASH'' ''Available cash is not enough for this order'' rules snap
        else
        let position = find_position s (oi_account_id i, oi_symbol i);
            available_quantity =
              (case position of None \<Rightarrow> 0 | Some p \<Rightarrow> pos_available_quantity p);
            rules = (if oi_side i = SELL then rules @ [''position_available''] else rules);
            snap = (if oi_side i = SELL
                    then snap @ [(''available_quantity'', JDec available_quantity)] else snap)
        in if oi_side i = SELL \<and> available_quantity < oi_quantity i
        then rejected ''INSUFFICIENT_POSITION''
          ''Available position is not enough for this sell order'' rules snap
        else
        let rules = rules @ [''daily_loss_limit''];
            snap = snap @ [(''realized_pnl'', JDec (acc_realized_pnl account))]
        in if acc_realized_pnl account \<le> - max_daily_loss cfg
        then rejected ''DAILY_LOSS_LIMIT_EXCEEDED''
          ''Account loss has reached the configured daily limit'' rules snap
        else
        let rules = rules @ [''daily_order_count''];
            daily_order_count = count_orders s (counts_today i exclude now);
            snap = snap @ [(''daily_order_count'', JInt daily_order_count)]
        in if max_daily_order_count cfg \<le> daily_order_count
        then rejected ''MAX_DAILY_ORDER_COUNT_EXCEEDED''
          ''Account has reached the maximum daily order count'' rules snap
        else
        let ratio_rule = oi_side i = BUY \<and> max_position_ratio_per_symbol cfg \<noteq> None \<and>
              0 < acc_equity account;
            existing_market_value = (case position of None \<Rightarrow> 0 | Some p \<Rightarrow> pos_market_value p);
            projected_ratio = (existing_market_value + estimated_value) / acc_equity account;
            rules = (if ratio_rule then rules @ [''max_position_ratio_per_symbol''] else rules);
            snap = (if ratio_rule
                    then snap @ [(''projected_symbol_position_ratio'', JDec projected_ratio)]
                    else snap)
        in if ratio_rule \<and> the (max_position_ratio_per_symbol cfg) < projected_ratio
        then rejected ''MAX_POSITION_RATIO_EXCEEDED''
          ''Projected position value for this symbol exceeds the configured ratio of account equity''
          rules snap
        else
        let deviation = (case (oi_limit_price i, quote) of
                (Some p, Some q) \<Rightarrow> Some (\<bar>p - mq_last_price q\<bar> / mq_last_price q)
              | _ \<Rightarrow> None);
            rules = (if deviation \<noteq> None then rules @ [''limit_price_deviation''] else rules);
            snap = (case deviation of
                None \<Rightarrow> snap
              | Some d \<Rightarrow> snap @ [(''limit_price_deviation_ratio'', JDec d)])
        in if (case deviation of
                 None \<Rightarrow> False | Some d \<Rightarrow> max_limit_price_deviation_ratio cfg < d)
        then rejected ''LIMIT_PRICE_DEVIATION_EXCEEDED''
          ''Limit price deviates too far from the latest market price'' rules snap
        else
        let rules = rules @ [''open_order_duplicate''];
            duplicate_count = count_orders s
              (\<lambda>ord. similar_order i exclude ord \<and> ord_status ord \<in> open_statuses);
            snap = snap @ [(''similar_open_orders'', JInt duplicate_count)]
        in if duplicate_count \<noteq> 0
        then rejected ''DUPLICATE_OPEN_ORDER'' ''A similar open order already exists'' rules snap
        else
        let rules = rules @ [''duplicate_order_cooldown''];
            cooldown_start = now - duplicate_order_cooldown_seconds cfg * 1000000;
            recent_duplicate_count = count_orders s
              (\<lambda>ord. similar_order i exclude ord \<and> cooldown_start \<le> ord_created_at ord);
            snap = snap @ [(''recent_similar_orders'', JInt recent_duplicate_count)]
        in if recent_duplicate_count \<noteq> 0
        then rejected ''DUPLICATE_ORDER_COOLDOWN''
          ''A similar order was created within the configured cooldown period'' rules snap
        else \<lparr>rr_approved = True, rr_reason_code = ''OK'', rr_message = ''Risk checks passed'',
              rr_checked_rules = rules, rr_input_snapshot = snap\<rparr>)"

section \<open>The rules as a table\<close>

definition available_position :: "session \<Rightarrow> order_intent \<Rightarrow> rat" where
  "available_position s i =
     (case find_position s (oi_account_id i, oi_symbol i) of
        None \<Rightarrow> 0 | Some p \<Rightarrow> pos_available_quantity p)"

definition projected_ratio :: "session \<Rightarrow> account \<Rightarrow> order_intent \<Rightarrow> market_quote option \<Rightarrow> rat" where
  "projected_ratio s account i quote =
     ((case find_position s (oi_account_id i, oi_symbol i) of
         None \<Rightarrow> 0 | Some p \<Rightarrow> pos_market_value p) + estimate_order_value i quote)
       / acc_equity account"

definition risk_rules ::
  "risk_config \<Rightarrow> session \<Rightarrow> account \<Rightarrow> order_intent \<Rightarrow> string option \<Rightarrow> market_quote option \<Rightarrow>
   bool option \<Rightarrow> int \<Rightarrow> (string \<times> bool) list" where
  "risk_rules cfg s account i exclude quote market_is_open now =
     [(''QUOTE_SYMBOL_MISMATCH'',
        \<exists>q. quote = Some q \<and> mq_symbol q \<noteq> oi_symbol i),
      (''MARKET_CLOSED'', require_market_session cfg \<and> market_is_open = Some False),
      (''MAX_SINGLE_ORDER_VALUE_EXCEEDED'',
        max_single_order_value cfg < estimate_order_value i quote),
      (''INSUFFICIENT_CASH'',
        oi_side i = BUY \<and> acc_cash_available account < estimate_order_value i quote),
      (''INSUFFICIENT_POSITION'', oi_side i = SELL \<and> available_position s i < oi_quantity i),
      (''DAILY_LOSS_LIMIT_EXCEEDED'', acc_realized_pnl account \<le> - max_daily_loss cfg),
      (''MAX_DAILY_ORDER_COUNT_EXCEEDED'',
        max_daily_order_count cfg \<le> count_orders s (counts_today i exclude now)),
      (''MAX_POSITION_RATIO_EXCEEDED'',
        oi_side i = BUY \<and> 0 < acc_equity account \<and>
        (\<exists>m. max_position_ratio_per_symbol cfg = Some m \<and> m < projected_ratio s account i quote)),
      (''LIMIT_PRICE_DEVIATION_EXCEEDED'',
        \<exists>p q. oi_limit_price i = Some p \<and> quote = Some q \<and>
          max_limit_price_deviation_ratio cfg < \<bar>p - mq_last_price q\<bar> / mq_last_price q),
      (''DUPLICATE_OPEN_ORDER'',
        count_orders s (\<lambda>ord. similar_order i exclude ord \<and> ord_status ord \<in> open_statuses) \<noteq> 0),
      (''DUPLICATE_ORDER_COOLDOWN'',
        count_orders s (\<lambda>ord. similar_order i exclude ord \<and>
          now - duplicate_order_cooldown_seconds cfg * 1000000 \<le> ord_created_at ord) \<noteq> 0)]"

definition risk_verdict :: "(string \<times> bool) list \<Rightarrow> string" where
  "risk_verdict rules = (case find snd rules of None \<Rightarrow> ''OK'' | Some (code, _) \<Rightarrow> code)"

lemma risk_verdict_simps [simp]:
  "risk_verdict [] = ''OK''"
  "risk_verdict ((c, b) # rs) = (if b then c else risk_verdict rs)"
  by (simp_all add: risk_verdict_def)

lemma rejected_simps [simp]:
  "rr_reason_code (rejected c m r sn) = c"
  "rr_approved (rejected c m r sn) = False"
  by (simp_all add: rejected_def)

text \<open>The three conditions that the code and the table write differently.\<close>

lemma symbol_rule_iff:
  "(case quote of None \<Rightarrow> False | Some q \<Rightarrow> mq_symbol q \<noteq> oi_symbol i) \<longleftrightarrow>
     (\<exists>q. quote = Some q \<and> mq_symbol q \<noteq> oi_symbol i)"
  by (cases quote) auto

lemma ratio_rule_iff:
  "(b \<and> m \<noteq> None \<and> e) \<and> the m < (r::rat) \<longleftrightarrow> b \<and> e \<and> (\<exists>x. m = Some x \<and> x < r)"
  by (cases m) auto

lemma deviation_rule_iff:
  "(case (case (lp, quote) of
        (Some p, Some q) \<Rightarrow> Some (\<bar>p - mq_last_price q\<bar> / mq_last_price q) | _ \<Rightarrow> None) of
      None \<Rightarrow> False | Some d \<Rightarrow> c < d) \<longleftrightarrow>
     (\<exists>p q. lp = Some p \<and> quote = Some q \<and> c < \<bar>p - mq_last_price q\<bar> / mq_last_price q)"
  by (cases lp; cases quote) auto

lemmas risk_check_cases = symbol_rule_iff ratio_rule_iff deviation_rule_iff

lemma risk_reason_code:
  assumes "find_account s (oi_account_id i) = Some account"
  shows "rr_reason_code (risk_check cfg s i exclude quote market_is_open checked_at) =
     risk_verdict (risk_rules cfg s account i exclude quote market_is_open
       (case checked_at of None \<Rightarrow> s_now s | Some t \<Rightarrow> t))"
  unfolding risk_check_def risk_rules_def Let_def assms option.case risk_check_cases
    if_distrib [of rr_reason_code] rejected_simps risk_verdict_simps
    risk_check_result.select_convs available_position_def projected_ratio_def
  by (rule refl)

lemma if_False_iff: "(if b then False else c) \<longleftrightarrow> \<not> b \<and> c"
  by simp

lemma risk_approved:
  assumes "find_account s (oi_account_id i) = Some account"
  shows "rr_approved (risk_check cfg s i exclude quote market_is_open checked_at) \<longleftrightarrow>
     list_all (\<lambda>r. \<not> snd r) (risk_rules cfg s account i exclude quote market_is_open
       (case checked_at of None \<Rightarrow> s_now s | Some t \<Rightarrow> t))"
  unfolding risk_check_def risk_rules_def Let_def assms option.case risk_check_cases
    if_distrib [of rr_approved] rejected_simps list.pred_inject snd_conv if_False_iff
    risk_check_result.select_convs available_position_def projected_ratio_def
  by (simp only: list.pred_inject)

end
