(* ===== verification/Order_Service.thy ===== *)
theory Order_Service
  imports Risk_Engine
begin

text \<open>
  The order service of \<open>harness/order_service.py\<close>: creation of an order from an intent, the risk
  check of a stored order, the single place where an order changes status, and the two append-only
  logs (audit trail and outbox). An operation on an order takes the order's id, which stands for the
  object of the session.

  \<open>os_sha256\<close> is \<open>hashlib.sha256(...).hexdigest()\<close> and \<open>os_str_decimal\<close> is \<open>str\<close> on decimals.
\<close>

record order_service =
  os_risk_config :: risk_config
  os_sha256 :: "string \<Rightarrow> string"
  os_str_decimal :: "rat \<Rightarrow> string"

section \<open>Audit trail and outbox\<close>

definition audit ::
  "string \<Rightarrow> string \<Rightarrow> snapshot \<Rightarrow> snapshot \<Rightarrow> order_status option \<Rightarrow> order_status option \<Rightarrow>
   session \<Rightarrow> session" where
  "audit trace event inp out prev nxt s =
     (let (aid, s) = new_id ''audit'' s
      in s\<lparr>s_audit_logs := s_audit_logs s @
           [\<lparr>au_audit_id = aid, au_trace_id = trace, au_actor_type = ''HARNESS'',
             au_actor_name = ''OrderService'', au_event_type = event, au_input_snapshot = inp,
             au_output_snapshot = out, au_previous_state = prev, au_next_state = nxt\<rparr>]\<rparr>)"

definition record_event :: "string \<Rightarrow> string \<Rightarrow> snapshot \<Rightarrow> snapshot \<Rightarrow> session \<Rightarrow> session" where
  "record_event trace event inp out s = audit trace event inp out None None s"

definition enqueue_event ::
  "string \<Rightarrow> string \<Rightarrow> string \<Rightarrow> string \<Rightarrow> snapshot \<Rightarrow> session \<Rightarrow> session" where
  "enqueue_event trace event aggregate_type aggregate_id payload s =
     (let (eid, s) = new_id ''evt'' s
      in s\<lparr>s_outbox_events := s_outbox_events s @
           [\<lparr>ob_event_id = eid, ob_trace_id = trace, ob_event_type = event,
             ob_aggregate_type = aggregate_type, ob_aggregate_id = aggregate_id,
             ob_payload = payload, ob_status = OB_PENDING, ob_attempts = 0,
             ob_last_error = None\<rparr>]\<rparr>)"

section \<open>Status transitions\<close>

definition transition_order ::
  "string \<Rightarrow> string \<Rightarrow> order_status \<Rightarrow> string \<Rightarrow> session \<Rightarrow> session result" where
  "transition_order trace oid target event s =
     rbind (get_order s oid) (\<lambda>ord.
     rbind (assert_order_transition (ord_status ord) target) (\<lambda>_.
     Inr (audit trace event [(''order_id'', JStr (ord_order_id ord))]
            [(''status'', JStr (status_value target))] (Some (ord_status ord)) (Some target)
            (put_order (ord\<lparr>ord_status := target\<rparr>) s))))"

section \<open>Creation\<close>

fun join_with :: "string \<Rightarrow> string list \<Rightarrow> string" where
  "join_with sep [] = []"
| "join_with sep [x] = x"
| "join_with sep (x # xs) = x @ sep @ join_with sep xs"

definition idempotency_key :: "order_service \<Rightarrow> order_intent \<Rightarrow> string" where
  "idempotency_key svc i =
     os_sha256 svc (join_with ''|''
       [oi_account_id i,
        case_option [] id (oi_strategy_name i),
        case_option [] id (oi_source_signal_id i),
        oi_symbol i,
        side_value (oi_side i),
        os_str_decimal svc (oi_quantity i),
        (if truthy (oi_limit_price i) then os_str_decimal svc (the (oi_limit_price i)) else [])])"

definition create_order_from_intent ::
  "order_service \<Rightarrow> string \<Rightarrow> order_intent \<Rightarrow> session \<Rightarrow> string \<times> session" where
  "create_order_from_intent svc trace i s =
     (let key = idempotency_key svc i
      in case query_orders s (\<lambda>row. ord_idempotency_key row = key) of
        existing # _ \<Rightarrow>
          (ord_order_id existing,
           audit trace ''ORDER_IDEMPOTENCY_HIT'' [(''idempotency_key'', JStr key)]
             [(''order_id'', JStr (ord_order_id existing))]
             (Some (ord_status existing)) (Some (ord_status existing)) s)
      | [] \<Rightarrow>
          let (oid, s) = new_id ''ord'' s;
              (cid, s) = new_id ''client'' s;
              ord = \<lparr>ord_order_id = oid, ord_client_order_id = cid, ord_broker_order_id = None,
                ord_account_id = oi_account_id i, ord_symbol = oi_symbol i, ord_side = oi_side i,
                ord_order_type = oi_order_type i, ord_status = CREATED,
                ord_quantity = oi_quantity i, ord_filled_quantity = 0,
                ord_limit_price = oi_limit_price i, ord_avg_fill_price = None,
                ord_time_in_force = oi_time_in_force i,
                ord_source_signal_id = oi_source_signal_id i, ord_risk_decision_id = None,
                ord_idempotency_key = key, ord_raw_request = intent_dump i,
                ord_created_at = s_now s\<rparr>
          in (oid,
              audit trace ''ORDER_CREATED'' (intent_dump i)
                [(''order_id'', JStr oid), (''client_order_id'', JStr cid)] None (Some CREATED)
                (s\<lparr>s_orders := s_orders s @ [ord]\<rparr>)))"

section \<open>Risk check of a stored order\<close>

definition intent_of_order :: "trade_order \<Rightarrow> order_intent" where
  "intent_of_order ord =
     \<lparr>oi_account_id = ord_account_id ord, oi_symbol = ord_symbol ord, oi_side = ord_side ord,
      oi_order_type = ord_order_type ord, oi_quantity = ord_quantity ord,
      oi_limit_price = ord_limit_price ord, oi_time_in_force = ord_time_in_force ord,
      oi_source_signal_id = ord_source_signal_id ord, oi_strategy_name = None,
      oi_trigger_price = None\<rparr>"

definition add_risk_decision :: "risk_decision \<Rightarrow> session \<Rightarrow> session" where
  "add_risk_decision d s = s\<lparr>s_risk_decisions := s_risk_decisions s @ [d]\<rparr>"

definition set_risk_decision_id :: "string \<Rightarrow> string \<Rightarrow> session \<Rightarrow> session result" where
  "set_risk_decision_id oid rid s =
     rbind (get_order s oid) (\<lambda>ord. Inr (put_order (ord\<lparr>ord_risk_decision_id := Some rid\<rparr>) s))"

definition run_risk_check ::
  "order_service \<Rightarrow> string \<Rightarrow> string \<Rightarrow> market_quote option \<Rightarrow> bool option \<Rightarrow> session \<Rightarrow>
   (risk_decision \<times> session) result" where
  "run_risk_check svc trace oid quote market_is_open s =
     rbind (get_order s oid) (\<lambda>ord.
     rbind (make_order_intent (intent_of_order ord)) (\<lambda>i.
     let r = risk_check (os_risk_config svc) s i (Some (ord_order_id ord)) quote
               market_is_open None;
         (rid, s) = new_id ''risk'' s;
         d = \<lparr>rd_risk_decision_id = rid, rd_trace_id = trace,
              rd_signal_id = ord_source_signal_id ord,
              rd_decision = (if rr_approved r then APPROVED else REJECTED),
              rd_reason_code = rr_reason_code r, rd_message = rr_message r,
              rd_checked_rules = rr_checked_rules r, rd_input_snapshot = rr_input_snapshot r\<rparr>
     in rbind (flush (add_risk_decision d s)) (\<lambda>s.
        rbind (set_risk_decision_id oid rid s) (\<lambda>s.
        rbind (transition_order trace oid
                 (if rr_approved r then RISK_APPROVED else RISK_REJECTED)
                 ''RISK_CHECK_COMPLETED'' s) (\<lambda>s.
        Inr (d, if rr_approved r
                then enqueue_event trace ''ORDER_READY_TO_SUBMIT'' ''ORDER'' (ord_order_id ord)
                       [(''order_id'', JStr (ord_order_id ord)),
                        (''client_order_id'', JStr (ord_client_order_id ord))] s
                else s))))))"

section \<open>What the primitives change\<close>

lemma new_id_frame [simp]:
  "s_autoflush (snd (new_id p s)) = s_autoflush s"
  "s_enforce_fk (snd (new_id p s)) = s_enforce_fk s"
  "s_now (snd (new_id p s)) = s_now s"
  "s_uuids (snd (new_id p s)) = s_uuids s"
  "s_accounts (snd (new_id p s)) = s_accounts s"
  "s_positions (snd (new_id p s)) = s_positions s"
  "s_signals (snd (new_id p s)) = s_signals s"
  "s_risk_decisions (snd (new_id p s)) = s_risk_decisions s"
  "s_orders (snd (new_id p s)) = s_orders s"
  "s_db_orders (snd (new_id p s)) = s_db_orders s"
  "s_fills (snd (new_id p s)) = s_fills s"
  "s_cash_ledger (snd (new_id p s)) = s_cash_ledger s"
  "s_audit_logs (snd (new_id p s)) = s_audit_logs s"
  "s_outbox_events (snd (new_id p s)) = s_outbox_events s"
  "s_broker_events (snd (new_id p s)) = s_broker_events s"
  "s_uuid_next (snd (new_id p s)) = Suc (s_uuid_next s)"
  by (simp_all add: new_id_def)

lemma fst_new_id: "fst (new_id p s) = p @ ''_'' @ s_uuids s (s_uuid_next s)"
  by (simp add: new_id_def)

lemma audit_frame [simp]:
  "s_autoflush (audit tr ev i out pr nx s) = s_autoflush s"
  "s_enforce_fk (audit tr ev i out pr nx s) = s_enforce_fk s"
  "s_now (audit tr ev i out pr nx s) = s_now s"
  "s_uuids (audit tr ev i out pr nx s) = s_uuids s"
  "s_accounts (audit tr ev i out pr nx s) = s_accounts s"
  "s_positions (audit tr ev i out pr nx s) = s_positions s"
  "s_signals (audit tr ev i out pr nx s) = s_signals s"
  "s_risk_decisions (audit tr ev i out pr nx s) = s_risk_decisions s"
  "s_orders (audit tr ev i out pr nx s) = s_orders s"
  "s_db_orders (audit tr ev i out pr nx s) = s_db_orders s"
  "s_fills (audit tr ev i out pr nx s) = s_fills s"
  "s_cash_ledger (audit tr ev i out pr nx s) = s_cash_ledger s"
  "s_outbox_events (audit tr ev i out pr nx s) = s_outbox_events s"
  "s_broker_events (audit tr ev i out pr nx s) = s_broker_events s"
  by (simp_all add: audit_def new_id_def Let_def)

lemma audit_logs_audit:
  "s_audit_logs (audit tr ev i out pr nx s) = s_audit_logs s @
     [\<lparr>au_audit_id = ''audit_'' @ s_uuids s (s_uuid_next s), au_trace_id = tr,
       au_actor_type = ''HARNESS'', au_actor_name = ''OrderService'', au_event_type = ev,
       au_input_snapshot = i, au_output_snapshot = out, au_previous_state = pr,
       au_next_state = nx\<rparr>]"
  "s_uuid_next (audit tr ev i out pr nx s) = Suc (s_uuid_next s)"
  by (simp_all add: audit_def new_id_def Let_def)

lemma enqueue_event_frame [simp]:
  "s_autoflush (enqueue_event tr ev aty aid pl s) = s_autoflush s"
  "s_enforce_fk (enqueue_event tr ev aty aid pl s) = s_enforce_fk s"
  "s_now (enqueue_event tr ev aty aid pl s) = s_now s"
  "s_uuids (enqueue_event tr ev aty aid pl s) = s_uuids s"
  "s_accounts (enqueue_event tr ev aty aid pl s) = s_accounts s"
  "s_positions (enqueue_event tr ev aty aid pl s) = s_positions s"
  "s_signals (enqueue_event tr ev aty aid pl s) = s_signals s"
  "s_risk_decisions (enqueue_event tr ev aty aid pl s) = s_risk_decisions s"
  "s_orders (enqueue_event tr ev aty aid pl s) = s_orders s"
  "s_db_orders (enqueue_event tr ev aty aid pl s) = s_db_orders s"
  "s_fills (enqueue_event tr ev aty aid pl s) = s_fills s"
  "s_cash_ledger (enqueue_event tr ev aty aid pl s) = s_cash_ledger s"
  "s_audit_logs (enqueue_event tr ev aty aid pl s) = s_audit_logs s"
  "s_broker_events (enqueue_event tr ev aty aid pl s) = s_broker_events s"
  by (simp_all add: enqueue_event_def new_id_def Let_def)

lemma put_order_frame [simp]:
  "s_autoflush (put_order ord s) = s_autoflush s"
  "s_enforce_fk (put_order ord s) = s_enforce_fk s"
  "s_now (put_order ord s) = s_now s"
  "s_uuids (put_order ord s) = s_uuids s"
  "s_accounts (put_order ord s) = s_accounts s"
  "s_positions (put_order ord s) = s_positions s"
  "s_signals (put_order ord s) = s_signals s"
  "s_risk_decisions (put_order ord s) = s_risk_decisions s"
  "s_db_orders (put_order ord s) = s_db_orders s"
  "s_fills (put_order ord s) = s_fills s"
  "s_cash_ledger (put_order ord s) = s_cash_ledger s"
  "s_audit_logs (put_order ord s) = s_audit_logs s"
  "s_outbox_events (put_order ord s) = s_outbox_events s"
  "s_broker_events (put_order ord s) = s_broker_events s"
  "s_uuid_next (put_order ord s) = s_uuid_next s"
  by (simp_all add: put_order_def)

lemma put_account_frame [simp]:
  "s_autoflush (put_account acc s) = s_autoflush s"
  "s_enforce_fk (put_account acc s) = s_enforce_fk s"
  "s_now (put_account acc s) = s_now s"
  "s_uuids (put_account acc s) = s_uuids s"
  "s_positions (put_account acc s) = s_positions s"
  "s_signals (put_account acc s) = s_signals s"
  "s_risk_decisions (put_account acc s) = s_risk_decisions s"
  "s_orders (put_account acc s) = s_orders s"
  "s_db_orders (put_account acc s) = s_db_orders s"
  "s_fills (put_account acc s) = s_fills s"
  "s_cash_ledger (put_account acc s) = s_cash_ledger s"
  "s_audit_logs (put_account acc s) = s_audit_logs s"
  "s_outbox_events (put_account acc s) = s_outbox_events s"
  "s_broker_events (put_account acc s) = s_broker_events s"
  "s_uuid_next (put_account acc s) = s_uuid_next s"
  by (simp_all add: put_account_def)

lemma put_position_frame [simp]:
  "s_autoflush (put_position p s) = s_autoflush s"
  "s_enforce_fk (put_position p s) = s_enforce_fk s"
  "s_now (put_position p s) = s_now s"
  "s_uuids (put_position p s) = s_uuids s"
  "s_accounts (put_position p s) = s_accounts s"
  "s_signals (put_position p s) = s_signals s"
  "s_risk_decisions (put_position p s) = s_risk_decisions s"
  "s_orders (put_position p s) = s_orders s"
  "s_db_orders (put_position p s) = s_db_orders s"
  "s_fills (put_position p s) = s_fills s"
  "s_cash_ledger (put_position p s) = s_cash_ledger s"
  "s_audit_logs (put_position p s) = s_audit_logs s"
  "s_outbox_events (put_position p s) = s_outbox_events s"
  "s_broker_events (put_position p s) = s_broker_events s"
  "s_uuid_next (put_position p s) = s_uuid_next s"
  by (simp_all add: put_position_def)

lemma add_risk_decision_frame [simp]:
  "s_autoflush (add_risk_decision d s) = s_autoflush s"
  "s_enforce_fk (add_risk_decision d s) = s_enforce_fk s"
  "s_now (add_risk_decision d s) = s_now s"
  "s_uuids (add_risk_decision d s) = s_uuids s"
  "s_accounts (add_risk_decision d s) = s_accounts s"
  "s_positions (add_risk_decision d s) = s_positions s"
  "s_signals (add_risk_decision d s) = s_signals s"
  "s_orders (add_risk_decision d s) = s_orders s"
  "s_db_orders (add_risk_decision d s) = s_db_orders s"
  "s_fills (add_risk_decision d s) = s_fills s"
  "s_cash_ledger (add_risk_decision d s) = s_cash_ledger s"
  "s_audit_logs (add_risk_decision d s) = s_audit_logs s"
  "s_outbox_events (add_risk_decision d s) = s_outbox_events s"
  "s_broker_events (add_risk_decision d s) = s_broker_events s"
  "s_uuid_next (add_risk_decision d s) = s_uuid_next s"
  by (simp_all add: add_risk_decision_def)

lemma s_risk_decisions_add [simp]:
  "s_risk_decisions (add_risk_decision d s) = s_risk_decisions s @ [d]"
  by (simp add: add_risk_decision_def)

lemma s_orders_put_order [simp]: "s_orders (put_order ord s) = put_row ord_order_id ord (s_orders s)"
  by (simp add: put_order_def)

lemma s_accounts_put_account [simp]:
  "s_accounts (put_account acc s) = put_row acc_account_id acc (s_accounts s)"
  by (simp add: put_account_def)

lemma s_positions_put_position [simp]:
  "s_positions (put_position p s) = put_row pos_key p (s_positions s)"
  by (simp add: put_position_def)

lemmas finds = find_account_def find_position_def find_order_def

text \<open>A lookup reads one table, so that equal tables give equal lookups.\<close>

lemma find_cong:
  "s_accounts t = s_accounts s \<Longrightarrow> find_account t = find_account s"
  "s_positions t = s_positions s \<Longrightarrow> find_position t = find_position s"
  "s_orders t = s_orders s \<Longrightarrow> find_order t = find_order s"
  by (simp_all add: finds fun_eq_iff)

lemma find_frame [simp]:
  "find_account (audit tr ev i out pr nx s) = find_account s"
  "find_position (audit tr ev i out pr nx s) = find_position s"
  "find_order (audit tr ev i out pr nx s) = find_order s"
  "find_account (enqueue_event tr ev aty aid pl s) = find_account s"
  "find_position (enqueue_event tr ev aty aid pl s) = find_position s"
  "find_order (enqueue_event tr ev aty aid pl s) = find_order s"
  "find_account (snd (new_id p s)) = find_account s"
  "find_position (snd (new_id p s)) = find_position s"
  "find_order (snd (new_id p s)) = find_order s"
  "find_account (put_order ord s) = find_account s"
  "find_position (put_order ord s) = find_position s"
  "find_position (put_account acc s) = find_position s"
  "find_order (put_account acc s) = find_order s"
  "find_account (put_position ps s) = find_account s"
  "find_order (put_position ps s) = find_order s"
  "find_order (add_risk_decision d s) = find_order s"
  "find_account (add_risk_decision d s) = find_account s"
  "find_position (add_risk_decision d s) = find_position s"
  by (rule find_cong; simp)+

lemma find_db_orders [simp]:
  "find_account (s\<lparr>s_db_orders := x\<rparr>) = find_account s"
  "find_position (s\<lparr>s_db_orders := x\<rparr>) = find_position s"
  "find_order (s\<lparr>s_db_orders := x\<rparr>) = find_order s"
  by (rule find_cong; simp)+

lemma transition_order_ok [ok_iff]:
  "transition_order tr oid tgt ev s = Inr t \<longleftrightarrow>
     (\<exists>ord. find_order s oid = Some ord \<and> tgt \<in> allowed_order_transitions (ord_status ord) \<and>
        t = audit tr ev [(''order_id'', JStr oid)] [(''status'', JStr (status_value tgt))]
              (Some (ord_status ord)) (Some tgt) (put_order (ord\<lparr>ord_status := tgt\<rparr>) s))"
  by (auto simp: transition_order_def ok_iff order_store.get_key)

lemma set_risk_decision_id_ok [ok_iff]:
  "set_risk_decision_id oid rid s = Inr t \<longleftrightarrow>
     (\<exists>ord. find_order s oid = Some ord \<and> t = put_order (ord\<lparr>ord_risk_decision_id := Some rid\<rparr>) s)"
  by (auto simp: set_risk_decision_id_def ok_iff)

section \<open>What creation does\<close>

definition order_of_intent ::
  "order_service \<Rightarrow> order_intent \<Rightarrow> string \<Rightarrow> string \<Rightarrow> int \<Rightarrow> trade_order" where
  "order_of_intent svc i oid cid now =
     \<lparr>ord_order_id = oid, ord_client_order_id = cid, ord_broker_order_id = None,
      ord_account_id = oi_account_id i, ord_symbol = oi_symbol i, ord_side = oi_side i,
      ord_order_type = oi_order_type i, ord_status = CREATED, ord_quantity = oi_quantity i,
      ord_filled_quantity = 0, ord_limit_price = oi_limit_price i, ord_avg_fill_price = None,
      ord_time_in_force = oi_time_in_force i, ord_source_signal_id = oi_source_signal_id i,
      ord_risk_decision_id = None, ord_idempotency_key = idempotency_key svc i,
      ord_raw_request = intent_dump i, ord_created_at = now\<rparr>"

definition fresh_order_id :: "session \<Rightarrow> string" where
  "fresh_order_id s = ''ord_'' @ s_uuids s (s_uuid_next s)"

definition fresh_client_order_id :: "session \<Rightarrow> string" where
  "fresh_client_order_id s = ''client_'' @ s_uuids s (Suc (s_uuid_next s))"

lemma create_order_new:
  assumes "query_orders s (\<lambda>row. ord_idempotency_key row = idempotency_key svc i) = []"
  shows "create_order_from_intent svc tr i s =
    (fresh_order_id s,
     audit tr ''ORDER_CREATED'' (intent_dump i)
       [(''order_id'', JStr (fresh_order_id s)), (''client_order_id'', JStr (fresh_client_order_id s))]
       None (Some CREATED)
       (s\<lparr>s_uuid_next := s_uuid_next s + 2,
          s_orders := s_orders s @ [order_of_intent svc i (fresh_order_id s)
             (fresh_client_order_id s) (s_now s)]\<rparr>))"
  using assms
  by (simp add: create_order_from_intent_def new_id_def Let_def order_of_intent_def
      fresh_order_id_def fresh_client_order_id_def)

lemma create_order_hit:
  assumes "query_orders s (\<lambda>row. ord_idempotency_key row = idempotency_key svc i) = ord # rest"
  shows "create_order_from_intent svc tr i s =
    (ord_order_id ord,
     audit tr ''ORDER_IDEMPOTENCY_HIT'' [(''idempotency_key'', JStr (idempotency_key svc i))]
       [(''order_id'', JStr (ord_order_id ord))] (Some (ord_status ord)) (Some (ord_status ord)) s)"
  using assms by (simp add: create_order_from_intent_def Let_def)

lemmas create_order_cases = create_order_new create_order_hit

text \<open>The risk check of a stored order, taken apart at its success.\<close>

lemma run_risk_check_okE:
  assumes "run_risk_check svc tr oid q mo s = Inr (d, t)"
  obtains ord r s1 s2 s3 where
    "find_order s oid = Some ord" "valid_order_intent (intent_of_order ord)"
    "r = risk_check (os_risk_config svc) s (intent_of_order ord) (Some oid) q mo None"
    "rd_reason_code d = rr_reason_code r"
    "rd_decision d = (if rr_approved r then APPROVED else REJECTED)"
    "flush (add_risk_decision d (snd (new_id ''risk'' s))) = Inr s1"
    "set_risk_decision_id oid (rd_risk_decision_id d) s1 = Inr s2"
    "transition_order tr oid (if rr_approved r then RISK_APPROVED else RISK_REJECTED)
       ''RISK_CHECK_COMPLETED'' s2 = Inr s3"
    "t = (if rr_approved r
          then enqueue_event tr ''ORDER_READY_TO_SUBMIT'' ''ORDER'' oid
            [(''order_id'', JStr oid), (''client_order_id'', JStr (ord_client_order_id ord))] s3
          else s3)"
  using assms
  by (auto simp: run_risk_check_def Let_def case_prod_unfold rbind_Inr_iff get_order_ok
      make_order_intent_ok order_store.get_key)

end
