(* ===== verification/Local_Sim.thy ===== *)
theory Local_Sim
  imports Order_Service
begin

text \<open>
  The local simulated broker of \<open>broker/local_sim.py\<close>: reservation of cash and positions, matching of
  an order against a quote, settlement of a fill with its ledger entries, and cancellation.
\<close>

section \<open>Prices, commission and reservations\<close>

definition ls_commission :: "local_sim_config \<Rightarrow> rat \<Rightarrow> rat" where
  "ls_commission cfg gross =
     (if commission_rate cfg = 0 then 0
      else max (gross * commission_rate cfg) (minimum_commission cfg))"

definition reserved_cash ::
  "local_sim_config \<Rightarrow> trade_order \<Rightarrow> market_quote option \<Rightarrow> rat option \<Rightarrow> rat result" where
  "reserved_cash cfg ord quote execution_price =
     rbind (case ord_limit_price ord of
         Some p \<Rightarrow> Inr (ord_quantity ord * p)
       | None \<Rightarrow> (case quote of
           Some q \<Rightarrow> Inr (ord_quantity ord * or_else (mq_ask_price q) (mq_last_price q))
         | None \<Rightarrow> (case execution_price of
             Some x \<Rightarrow> Inr (ord_quantity ord * x)
           | None \<Rightarrow> Inl (ValueError ''Market order reservation requires a quote''))))
       (\<lambda>gross. Inr (gross + ls_commission cfg gross))"

definition is_bracket_order :: "trade_order \<Rightarrow> bool" where
  "is_bracket_order ord \<longleftrightarrow>
     ord_side ord = SELL \<and> ord_order_type ord \<in> {LIMIT_IF_TOUCHED, STOP_LIMIT}"

definition ls_fill_price :: "trade_order \<Rightarrow> market_quote \<Rightarrow> rat option" where
  "ls_fill_price ord q =
     (let ask = or_else (mq_ask_price q) (mq_last_price q);
          bid = or_else (mq_bid_price q) (mq_last_price q)
      in if ord_order_type ord = MARKET
         then Some (if ord_side ord = BUY then ask else bid)
         else case ord_limit_price ord of
           None \<Rightarrow> None
         | Some limit \<Rightarrow>
             if ord_order_type ord = LIMIT_IF_TOUCHED \<and> ord_side ord = SELL
             then (if limit \<le> bid then Some bid else None)
             else if ord_order_type ord = STOP_LIMIT \<and> ord_side ord = SELL
             then (if bid \<le> limit then Some bid else None)
             else if ord_side ord = BUY
             then (if ask \<le> limit then Some ask else None)
             else (if limit \<le> bid then Some bid else None))"

definition weighted_avg_cost :: "rat \<Rightarrow> rat \<Rightarrow> rat \<Rightarrow> rat \<Rightarrow> rat" where
  "weighted_avg_cost current_quantity current_avg_cost fill_quantity fill_cost =
     (let total_quantity = current_quantity + fill_quantity
      in if total_quantity \<le> 0 then 0
         else (current_quantity * current_avg_cost + fill_cost) / total_quantity)"

definition total_market_value :: "session \<Rightarrow> string \<Rightarrow> rat" where
  "total_market_value s a =
     row_sum pos_market_value (filter (\<lambda>p. pos_account_id p = a) (s_positions s))"

definition total_unrealized_pnl :: "session \<Rightarrow> string \<Rightarrow> rat" where
  "total_unrealized_pnl s a =
     row_sum pos_unrealized_pnl (filter (\<lambda>p. pos_account_id p = a) (s_positions s))"

definition record_broker_event ::
  "string \<Rightarrow> string \<Rightarrow> string option \<Rightarrow> string \<Rightarrow> snapshot \<Rightarrow> string option \<Rightarrow> session \<Rightarrow> session" where
  "record_broker_event broker_name trace broker_order_id event payload broker_fill_id s =
     (let (bid, s) = new_id ''broker_evt'' s
      in s\<lparr>s_broker_events := s_broker_events s @
           [\<lparr>be_broker_event_id = bid, be_trace_id = Some trace, be_broker_name = broker_name,
             be_broker_order_id = broker_order_id, be_broker_fill_id = broker_fill_id,
             be_event_type = event, be_raw_payload = payload,
             be_processed_at = Some (s_now s)\<rparr>]\<rparr>)"

section \<open>Reserving and releasing\<close>

definition reserve_resources ::
  "local_sim_config \<Rightarrow> string \<Rightarrow> trade_order \<Rightarrow> market_quote \<Rightarrow> session \<Rightarrow>
   (string option \<times> session) result" where
  "reserve_resources cfg trace ord q s =
     (let done = (\<lambda>out s. Inr (None, record_event trace ''LOCAL_SIM_RESOURCES_RESERVED''
            [(''order_id'', JStr (ord_order_id ord)), (''side'', JStr (side_value (ord_side ord)))]
            out s))
      in case find_account s (ord_account_id ord) of
        None \<Rightarrow> Inr (Some (''Account '' @ ord_account_id ord @ '' does not exist''), s)
      | Some account \<Rightarrow>
          if ord_side ord = BUY then
            rbind (reserved_cash cfg ord (Some q) None) (\<lambda>reserved.
              if acc_cash_available account < reserved
              then Inr (Some ''Available cash is not enough to reserve this order'', s)
              else
                let account = account\<lparr>
                      acc_cash_available := acc_cash_available account - reserved,
                      acc_cash_frozen := acc_cash_frozen account + reserved\<rparr>
                in done [(''cash_available'', JDec (acc_cash_available account)),
                         (''cash_frozen'', JDec (acc_cash_frozen account))]
                     (put_account account s))
          else if is_bracket_order ord
          then done [(''bracket'', JStr (type_value (ord_order_type ord)))] s
          else case find_position s (ord_account_id ord, ord_symbol ord) of
              None \<Rightarrow> Inr (Some ''Available position is not enough to reserve this order'', s)
            | Some p \<Rightarrow>
                if pos_available_quantity p < ord_quantity ord
                then Inr (Some ''Available position is not enough to reserve this order'', s)
                else
                  let p = p\<lparr>pos_available_quantity :=
                            pos_available_quantity p - ord_quantity ord\<rparr>
                  in done [(''available_quantity'', JDec (pos_available_quantity p))]
                       (put_position p s))"

definition release_resources ::
  "local_sim_config \<Rightarrow> string \<Rightarrow> trade_order \<Rightarrow> session \<Rightarrow> session result" where
  "release_resources cfg trace ord s =
     (let done = (\<lambda>out s. Inr (record_event trace ''LOCAL_SIM_RESOURCES_RELEASED''
            [(''order_id'', JStr (ord_order_id ord))] out s))
      in case find_account s (ord_account_id ord) of
        None \<Rightarrow> Inl (ValueError (''Account '' @ ord_account_id ord @ '' does not exist''))
      | Some account \<Rightarrow>
          if ord_side ord = BUY then
            rbind (reserved_cash cfg ord None None) (\<lambda>reserved.
              let account = account\<lparr>
                    acc_cash_frozen := acc_cash_frozen account - reserved,
                    acc_cash_available := acc_cash_available account + reserved\<rparr>
              in done [(''cash_available'', JDec (acc_cash_available account)),
                       (''cash_frozen'', JDec (acc_cash_frozen account))]
                   (put_account account s))
          else if is_bracket_order ord
          then done [(''bracket'', JStr (type_value (ord_order_type ord)))] s
          else case find_position s (ord_account_id ord, ord_symbol ord) of
              None \<Rightarrow> Inl (ValueError (''Position '' @ ord_account_id ord @ ''/'' @
                        ord_symbol ord @ '' does not exist''))
            | Some p \<Rightarrow>
                let p = p\<lparr>pos_available_quantity :=
                      pos_available_quantity p + (ord_quantity ord - ord_filled_quantity ord)\<rparr>
                in done [(''available_quantity'', JDec (pos_available_quantity p))]
                     (put_position p s))"

section \<open>Settlement of a fill\<close>

definition get_or_create_position :: "trade_order \<Rightarrow> session \<Rightarrow> position \<times> session" where
  "get_or_create_position ord s =
     (case find_position s (ord_account_id ord, ord_symbol ord) of
        Some p \<Rightarrow> (p, s)
      | None \<Rightarrow>
          let p = \<lparr>pos_account_id = ord_account_id ord, pos_symbol = ord_symbol ord,
                pos_quantity = 0, pos_available_quantity = 0, pos_avg_cost = 0,
                pos_market_price = 0, pos_market_value = 0, pos_unrealized_pnl = 0\<rparr>
          in (p, s\<lparr>s_positions := s_positions s @ [p]\<rparr>))"

text \<open>
  The two branches of \<open>_apply_fill\<close> on the side of the order: the account and position after the
  settlement, the amount of the cash-ledger row and its event type.
\<close>

definition settle ::
  "local_sim_config \<Rightarrow> trade_order \<Rightarrow> rat \<Rightarrow> account \<Rightarrow> position \<Rightarrow>
   (account \<times> position \<times> rat \<times> string) result" where
  "settle cfg ord fill_price account p =
     (let gross = ord_quantity ord * fill_price;
          commission = ls_commission cfg gross
      in if ord_side ord = BUY then
           rbind (reserved_cash cfg ord None (Some fill_price)) (\<lambda>reserved.
           let total_cost = gross + commission
           in Inr (account\<lparr>acc_cash_frozen := acc_cash_frozen account - reserved,
                     acc_cash_available := acc_cash_available account + (reserved - total_cost)\<rparr>,
                   p\<lparr>pos_avg_cost := weighted_avg_cost (pos_quantity p) (pos_avg_cost p)
                       (ord_quantity ord) total_cost,
                     pos_quantity := pos_quantity p + ord_quantity ord,
                     pos_available_quantity := pos_available_quantity p + ord_quantity ord\<rparr>,
                   - total_cost, ''BUY_FILL''))
         else
           let net_proceeds = gross - commission;
               realized_pnl = (fill_price - pos_avg_cost p) * ord_quantity ord - commission;
               quantity = pos_quantity p - ord_quantity ord
           in Inr (account\<lparr>acc_cash_available := acc_cash_available account + net_proceeds,
                     acc_realized_pnl := acc_realized_pnl account + realized_pnl\<rparr>,
                   (if quantity \<le> 0 then p\<lparr>pos_quantity := 0, pos_avg_cost := 0\<rparr>
                    else p\<lparr>pos_quantity := quantity\<rparr>),
                   net_proceeds, ''SELL_FILL''))"

definition mark_position :: "rat \<Rightarrow> position \<Rightarrow> position" where
  "mark_position fill_price p =
     p\<lparr>pos_market_price := fill_price,
       pos_market_value := pos_quantity p * fill_price,
       pos_unrealized_pnl := pos_quantity p * fill_price - pos_quantity p * pos_avg_cost p\<rparr>"

definition add_fill :: "fill \<Rightarrow> session \<Rightarrow> session" where
  "add_fill f s = s\<lparr>s_fills := s_fills s @ [f]\<rparr>"

definition add_cash_ledger :: "cash_ledger \<Rightarrow> session \<Rightarrow> session" where
  "add_cash_ledger l s = s\<lparr>s_cash_ledger := s_cash_ledger s @ [l]\<rparr>"

definition apply_fill ::
  "local_sim_config \<Rightarrow> string \<Rightarrow> string \<Rightarrow> rat \<Rightarrow> session \<Rightarrow> session result" where
  "apply_fill cfg trace oid fill_price s =
     rbind (get_order s oid) (\<lambda>ord.
     case find_account s (ord_account_id ord) of
       None \<Rightarrow> Inl (ValueError (''Account '' @ ord_account_id ord @ '' does not exist''))
     | Some account \<Rightarrow>
       let (fid, s) = new_id ''fill'' s;
           (bfid, s) = new_id ''ls_fill'' s;
           commission = ls_commission cfg (ord_quantity ord * fill_price);
           s = add_fill \<lparr>fl_fill_id = fid, fl_order_id = ord_order_id ord,
                 fl_broker_fill_id = Some bfid, fl_symbol = ord_symbol ord,
                 fl_side = ord_side ord, fl_quantity = ord_quantity ord,
                 fl_price = fill_price, fl_commission = commission, fl_time = s_now s\<rparr> s;
           (p, s) = get_or_create_position ord s
       in rbind (settle cfg ord fill_price account p) (\<lambda>(account, p, cash_amount, ledger_event).
       let p = mark_position fill_price p;
           s = put_order (ord\<lparr>ord_filled_quantity := ord_quantity ord,
                              ord_avg_fill_price := Some fill_price\<rparr>)
                 (put_position p (put_account account s))
       in rbind (flush s) (\<lambda>s.
       let account = account\<lparr>acc_unrealized_pnl := total_unrealized_pnl s (acc_account_id account),
             acc_equity := acc_cash_available account + acc_cash_frozen account
               + total_market_value s (acc_account_id account)\<rparr>;
           (lid, s) = new_id ''cash'' (put_account account s);
           s = add_cash_ledger \<lparr>cl_ledger_id = lid, cl_account_id = ord_account_id ord,
                 cl_order_id = Some (ord_order_id ord), cl_fill_id = Some fid,
                 cl_event_type = ledger_event, cl_amount = cash_amount,
                 cl_currency = acc_base_currency account,
                 cl_balance_after = acc_cash_available account\<rparr> s
       in rbind (transition_order trace oid FILLED ''LOCAL_SIM_ORDER_FILLED'' s) (\<lambda>s.
       let s = record_event trace ''LOCAL_SIM_LEDGER_UPDATED''
                 [(''order_id'', JStr (ord_order_id ord)), (''fill_id'', JStr fid)]
                 [(''cash_available'', JDec (acc_cash_available account)),
                  (''position_quantity'', JDec (pos_quantity p)),
                  (''realized_pnl'', JDec (acc_realized_pnl account)),
                  (''unrealized_pnl'', JDec (acc_unrealized_pnl account))] s;
           s = record_broker_event ''local_sim'' trace (ord_broker_order_id ord) ''FILL''
                 [(''fill_id'', JStr fid), (''quantity'', JDec (ord_quantity ord)),
                  (''price'', JDec fill_price), (''commission'', JDec commission)] (Some bfid) s;
           s = enqueue_event trace ''ORDER_FILLED'' ''ORDER'' (ord_order_id ord)
                 [(''order_id'', JStr (ord_order_id ord)), (''fill_id'', JStr fid)] s;
           s = enqueue_event trace ''POSITION_UPDATED'' ''POSITION''
                 (ord_account_id ord @ '':'' @ ord_symbol ord)
                 [(''account_id'', JStr (ord_account_id ord)),
                  (''symbol'', JStr (ord_symbol ord))] s
       in Inr s))))"

section \<open>Broker operations\<close>

definition set_broker_order_id :: "string \<Rightarrow> string \<Rightarrow> session \<Rightarrow> session result" where
  "set_broker_order_id oid bid s =
     rbind (get_order s oid) (\<lambda>ord. Inr (put_order (ord\<lparr>ord_broker_order_id := Some bid\<rparr>) s))"

definition ls_submit_order ::
  "local_sim_config \<Rightarrow> string \<Rightarrow> string \<Rightarrow> market_quote \<Rightarrow> session \<Rightarrow>
   (broker_order_result \<times> session) result" where
  "ls_submit_order cfg trace oid q s =
     rbind (get_order s oid) (\<lambda>ord.
     if ord_status ord \<noteq> RISK_APPROVED
     then Inr (\<lparr>br_accepted = False, br_broker_order_id = None,
                br_message = ''Order status '' @ status_value (ord_status ord) @
                  '' is not submittable''\<rparr>, s)
     else if mq_symbol q \<noteq> ord_symbol ord
     then rbind (transition_order trace oid FAILED ''LOCAL_SIM_SYMBOL_MISMATCH'' s) (\<lambda>s.
          Inr (\<lparr>br_accepted = False, br_broker_order_id = None,
                br_message = ''Quote symbol does not match order''\<rparr>, s))
     else rbind (reserve_resources cfg trace ord q s) (\<lambda>(err, s).
     case err of
       Some message \<Rightarrow>
         rbind (transition_order trace oid FAILED ''LOCAL_SIM_RESERVATION_FAILED'' s) (\<lambda>s.
         Inr (\<lparr>br_accepted = False, br_broker_order_id = None, br_message = message\<rparr>, s))
     | None \<Rightarrow>
         let (bid, s) = new_id ''ls_order'' s
         in rbind (transition_order trace oid SUBMITTING ''LOCAL_SIM_ORDER_SUBMITTING'' s) (\<lambda>s.
         rbind (set_broker_order_id oid bid s) (\<lambda>s.
         rbind (transition_order trace oid SUBMITTED ''LOCAL_SIM_ORDER_SUBMITTED'' s) (\<lambda>s.
         let s = record_broker_event ''local_sim'' trace (Some bid) ''ORDER_ACCEPTED''
                   [(''client_order_id'', JStr (ord_client_order_id ord))] None s
         in rbind (case ls_fill_price ord q of
                None \<Rightarrow> Inr s
              | Some fill_price \<Rightarrow> apply_fill cfg trace oid fill_price s) (\<lambda>s.
            Inr (\<lparr>br_accepted = True, br_broker_order_id = Some bid,
                  br_message = ''Order accepted by local simulator''\<rparr>, s)))))))"

definition ls_cancel_order ::
  "local_sim_config \<Rightarrow> string \<Rightarrow> string \<Rightarrow> session \<Rightarrow> (broker_order_result \<times> session) result" where
  "ls_cancel_order cfg trace oid s =
     rbind (get_order s oid) (\<lambda>ord.
     if ord_status ord \<noteq> SUBMITTED
     then Inr (\<lparr>br_accepted = False, br_broker_order_id = ord_broker_order_id ord,
                br_message = ''Order status '' @ status_value (ord_status ord) @
                  '' is not cancellable''\<rparr>, s)
     else
       rbind (transition_order trace oid CANCEL_PENDING ''LOCAL_SIM_CANCEL_PENDING'' s) (\<lambda>s.
       rbind (release_resources cfg trace ord s) (\<lambda>s.
       rbind (transition_order trace oid CANCELLED ''LOCAL_SIM_ORDER_CANCELLED'' s) (\<lambda>s.
       let s = record_broker_event ''local_sim'' trace (ord_broker_order_id ord) ''ORDER_CANCELLED''
                 [(''order_id'', JStr (ord_order_id ord))] None s;
           s = enqueue_event trace ''ORDER_CANCELLED'' ''ORDER'' (ord_order_id ord)
                 [(''order_id'', JStr (ord_order_id ord))] s
       in Inr (\<lparr>br_accepted = True, br_broker_order_id = ord_broker_order_id ord,
                br_message = ''Order cancelled by local simulator''\<rparr>, s)))))"

text \<open>
  \<open>process_quote\<close>: the orders are selected once, before the loop; each pass of the loop looks at
  the order as the passes before have left it.
\<close>

fun match_orders ::
  "local_sim_config \<Rightarrow> string \<Rightarrow> market_quote \<Rightarrow> string list \<Rightarrow> session \<Rightarrow>
   (string list \<times> session) result" where
  "match_orders cfg trace q [] s = Inr ([], s)"
| "match_orders cfg trace q (oid # oids) s =
     rbind (get_order s oid) (\<lambda>ord.
     case ls_fill_price ord q of
       None \<Rightarrow> match_orders cfg trace q oids s
     | Some fill_price \<Rightarrow>
         rbind (apply_fill cfg trace oid fill_price s) (\<lambda>s.
         rbind (match_orders cfg trace q oids s) (\<lambda>(filled, s).
         Inr (oid # filled, s))))"

definition process_quote ::
  "local_sim_config \<Rightarrow> string \<Rightarrow> market_quote \<Rightarrow> session \<Rightarrow> (string list \<times> session) result" where
  "process_quote cfg trace q s =
     match_orders cfg trace q
       (map ord_order_id (query_orders s
          (\<lambda>row. ord_symbol row = mq_symbol q \<and> ord_status row = SUBMITTED))) s"

section \<open>What the primitives change\<close>

lemma record_broker_event_frame [simp]:
  "s_autoflush (record_broker_event n tr b ev pl bf s) = s_autoflush s"
  "s_enforce_fk (record_broker_event n tr b ev pl bf s) = s_enforce_fk s"
  "s_now (record_broker_event n tr b ev pl bf s) = s_now s"
  "s_uuids (record_broker_event n tr b ev pl bf s) = s_uuids s"
  "s_accounts (record_broker_event n tr b ev pl bf s) = s_accounts s"
  "s_positions (record_broker_event n tr b ev pl bf s) = s_positions s"
  "s_signals (record_broker_event n tr b ev pl bf s) = s_signals s"
  "s_risk_decisions (record_broker_event n tr b ev pl bf s) = s_risk_decisions s"
  "s_orders (record_broker_event n tr b ev pl bf s) = s_orders s"
  "s_db_orders (record_broker_event n tr b ev pl bf s) = s_db_orders s"
  "s_fills (record_broker_event n tr b ev pl bf s) = s_fills s"
  "s_cash_ledger (record_broker_event n tr b ev pl bf s) = s_cash_ledger s"
  "s_audit_logs (record_broker_event n tr b ev pl bf s) = s_audit_logs s"
  "s_outbox_events (record_broker_event n tr b ev pl bf s) = s_outbox_events s"
  by (simp_all add: record_broker_event_def new_id_def Let_def)

lemma record_event_frame [simp]:
  "s_autoflush (record_event tr ev i out s) = s_autoflush s"
  "s_enforce_fk (record_event tr ev i out s) = s_enforce_fk s"
  "s_now (record_event tr ev i out s) = s_now s"
  "s_uuids (record_event tr ev i out s) = s_uuids s"
  "s_accounts (record_event tr ev i out s) = s_accounts s"
  "s_positions (record_event tr ev i out s) = s_positions s"
  "s_signals (record_event tr ev i out s) = s_signals s"
  "s_risk_decisions (record_event tr ev i out s) = s_risk_decisions s"
  "s_orders (record_event tr ev i out s) = s_orders s"
  "s_db_orders (record_event tr ev i out s) = s_db_orders s"
  "s_fills (record_event tr ev i out s) = s_fills s"
  "s_cash_ledger (record_event tr ev i out s) = s_cash_ledger s"
  "s_outbox_events (record_event tr ev i out s) = s_outbox_events s"
  "s_broker_events (record_event tr ev i out s) = s_broker_events s"
  by (simp_all add: record_event_def)

lemma add_fill_frame [simp]:
  "s_autoflush (add_fill f s) = s_autoflush s"
  "s_enforce_fk (add_fill f s) = s_enforce_fk s"
  "s_now (add_fill f s) = s_now s"
  "s_uuids (add_fill f s) = s_uuids s"
  "s_accounts (add_fill f s) = s_accounts s"
  "s_positions (add_fill f s) = s_positions s"
  "s_signals (add_fill f s) = s_signals s"
  "s_risk_decisions (add_fill f s) = s_risk_decisions s"
  "s_orders (add_fill f s) = s_orders s"
  "s_db_orders (add_fill f s) = s_db_orders s"
  "s_cash_ledger (add_fill f s) = s_cash_ledger s"
  "s_audit_logs (add_fill f s) = s_audit_logs s"
  "s_outbox_events (add_fill f s) = s_outbox_events s"
  "s_broker_events (add_fill f s) = s_broker_events s"
  by (simp_all add: add_fill_def)

lemma add_cash_ledger_frame [simp]:
  "s_autoflush (add_cash_ledger l s) = s_autoflush s"
  "s_enforce_fk (add_cash_ledger l s) = s_enforce_fk s"
  "s_now (add_cash_ledger l s) = s_now s"
  "s_uuids (add_cash_ledger l s) = s_uuids s"
  "s_accounts (add_cash_ledger l s) = s_accounts s"
  "s_positions (add_cash_ledger l s) = s_positions s"
  "s_signals (add_cash_ledger l s) = s_signals s"
  "s_risk_decisions (add_cash_ledger l s) = s_risk_decisions s"
  "s_orders (add_cash_ledger l s) = s_orders s"
  "s_db_orders (add_cash_ledger l s) = s_db_orders s"
  "s_fills (add_cash_ledger l s) = s_fills s"
  "s_audit_logs (add_cash_ledger l s) = s_audit_logs s"
  "s_outbox_events (add_cash_ledger l s) = s_outbox_events s"
  "s_broker_events (add_cash_ledger l s) = s_broker_events s"
  by (simp_all add: add_cash_ledger_def)

lemma appended_rows [simp]:
  "s_fills (add_fill f s) = s_fills s @ [f]"
  "s_cash_ledger (add_cash_ledger l s) = s_cash_ledger s @ [l]"
  by (simp_all add: add_fill_def add_cash_ledger_def)

lemma find_frame_sim [simp]:
  "find_account (record_broker_event n tr b ev pl bf s) = find_account s"
  "find_position (record_broker_event n tr b ev pl bf s) = find_position s"
  "find_order (record_broker_event n tr b ev pl bf s) = find_order s"
  "find_account (record_event tr ev i out s) = find_account s"
  "find_position (record_event tr ev i out s) = find_position s"
  "find_order (record_event tr ev i out s) = find_order s"
  "find_account (add_fill f s) = find_account s"
  "find_position (add_fill f s) = find_position s"
  "find_order (add_fill f s) = find_order s"
  "find_account (add_cash_ledger l s) = find_account s"
  "find_position (add_cash_ledger l s) = find_position s"
  "find_order (add_cash_ledger l s) = find_order s"
  by (rule find_cong; simp)+

lemma set_broker_order_id_ok [ok_iff]:
  "set_broker_order_id oid bid s = Inr t \<longleftrightarrow>
     (\<exists>ord. find_order s oid = Some ord \<and> t = put_order (ord\<lparr>ord_broker_order_id := Some bid\<rparr>) s)"
  by (auto simp: set_broker_order_id_def ok_iff)

section \<open>The operations taken apart\<close>

lemma apply_fill_okE:
  assumes "apply_fill cfg tr oid fp s = Inr t"
  obtains ord account f p s1 account1 p1 amount ev s2 account2 l s3 s4 where
    "find_order s oid = Some ord"
    "find_account s (ord_account_id ord) = Some account"
    "f = \<lparr>fl_fill_id = ''fill_'' @ s_uuids s (s_uuid_next s), fl_order_id = oid,
          fl_broker_fill_id = Some (''ls_fill_'' @ s_uuids s (Suc (s_uuid_next s))),
          fl_symbol = ord_symbol ord, fl_side = ord_side ord, fl_quantity = ord_quantity ord,
          fl_price = fp, fl_commission = ls_commission cfg (ord_quantity ord * fp),
          fl_time = s_now s\<rparr>"
    "get_or_create_position ord (add_fill f (snd (new_id ''ls_fill'' (snd (new_id ''fill'' s))))) =
       (p, s1)"
    "settle cfg ord fp account p = Inr (account1, p1, amount, ev)"
    "flush (put_order (ord\<lparr>ord_filled_quantity := ord_quantity ord, ord_avg_fill_price := Some fp\<rparr>)
       (put_position (mark_position fp p1) (put_account account1 s1))) = Inr s2"
    "account2 = account1\<lparr>acc_unrealized_pnl := total_unrealized_pnl s2 (acc_account_id account1),
       acc_equity := acc_cash_available account1 + acc_cash_frozen account1
         + total_market_value s2 (acc_account_id account1)\<rparr>"
    "l = \<lparr>cl_ledger_id = ''cash_'' @ s_uuids s2 (s_uuid_next s2), cl_account_id = ord_account_id ord,
          cl_order_id = Some oid, cl_fill_id = Some (fl_fill_id f), cl_event_type = ev,
          cl_amount = amount, cl_currency = acc_base_currency account1,
          cl_balance_after = acc_cash_available account1\<rparr>"
    "transition_order tr oid FILLED ''LOCAL_SIM_ORDER_FILLED''
       (add_cash_ledger l (snd (new_id ''cash'' (put_account account2 s2)))) = Inr s3"
    "s4 = record_broker_event ''local_sim'' tr (ord_broker_order_id ord) ''FILL''
       [(''fill_id'', JStr (fl_fill_id f)), (''quantity'', JDec (ord_quantity ord)),
        (''price'', JDec fp), (''commission'', JDec (fl_commission f))] (fl_broker_fill_id f)
       (record_event tr ''LOCAL_SIM_LEDGER_UPDATED''
         [(''order_id'', JStr oid), (''fill_id'', JStr (fl_fill_id f))]
         [(''cash_available'', JDec (acc_cash_available account2)),
          (''position_quantity'', JDec (pos_quantity (mark_position fp p1))),
          (''realized_pnl'', JDec (acc_realized_pnl account2)),
          (''unrealized_pnl'', JDec (acc_unrealized_pnl account2))] s3)"
    "t = enqueue_event tr ''POSITION_UPDATED'' ''POSITION''
       (ord_account_id ord @ '':'' @ ord_symbol ord)
       [(''account_id'', JStr (ord_account_id ord)), (''symbol'', JStr (ord_symbol ord))]
       (enqueue_event tr ''ORDER_FILLED'' ''ORDER'' oid
         [(''order_id'', JStr oid), (''fill_id'', JStr (fl_fill_id f))] s4)"
proof -
  from assms obtain ord where ord: "find_order s oid = Some ord"
    by (auto simp: apply_fill_def rbind_Inr_iff get_order_ok)
  from ord have oid [simp]: "ord_order_id ord = oid" by (rule order_store.get_key)
  from ord have [simp]: "get_order s oid = Inr ord" by (simp add: get_order_def)
  from assms show thesis
    by (auto simp: apply_fill_def rbind_Inr_iff Let_def case_prod_unfold ord fst_new_id
        split: option.splits intro!: that)
qed

text \<open>The position a fill works on: the stored one, or the zero row of a first fill.\<close>

definition fill_position :: "session \<Rightarrow> trade_order \<Rightarrow> position" where
  "fill_position s ord =
     (case find_position s (ord_account_id ord, ord_symbol ord) of
        Some p \<Rightarrow> p
      | None \<Rightarrow> \<lparr>pos_account_id = ord_account_id ord, pos_symbol = ord_symbol ord,
          pos_quantity = 0, pos_available_quantity = 0, pos_avg_cost = 0, pos_market_price = 0,
          pos_market_value = 0, pos_unrealized_pnl = 0\<rparr>)"

definition positions_with :: "session \<Rightarrow> trade_order \<Rightarrow> position list" where
  "positions_with s ord =
     (case find_position s (ord_account_id ord, ord_symbol ord) of
        Some _ \<Rightarrow> s_positions s
      | None \<Rightarrow> s_positions s @ [fill_position s ord])"

lemma get_or_create_position_eq:
  "get_or_create_position ord s = (fill_position s ord, s\<lparr>s_positions := positions_with s ord\<rparr>)"
  by (simp add: get_or_create_position_def fill_position_def positions_with_def Let_def
      split: option.split)

lemma fill_position_cong:
  "s_positions t = s_positions s \<Longrightarrow> fill_position t ord = fill_position s ord"
  "s_positions t = s_positions s \<Longrightarrow> positions_with t ord = positions_with s ord"
  by (simp_all add: fill_position_def positions_with_def find_position_def split: option.split)

lemma settle_ids:
  assumes "settle cfg ord fp account p = Inr (account1, p1, amount, ev)"
  shows "acc_account_id account1 = acc_account_id account" and "pos_key p1 = pos_key p"
    and "acc_base_currency account1 = acc_base_currency account"
  using assms by (auto simp: settle_def Let_def rbind_Inr_iff split: if_splits)

lemma fill_position_key [simp]: "pos_key (fill_position s ord) = (ord_account_id ord, ord_symbol ord)"
  using position_store.get_key
  by (fastforce simp: fill_position_def split: option.split)

lemma mark_position_simps [simp]:
  "pos_account_id (mark_position fp p) = pos_account_id p"
  "pos_symbol (mark_position fp p) = pos_symbol p"
  "pos_quantity (mark_position fp p) = pos_quantity p"
  "pos_available_quantity (mark_position fp p) = pos_available_quantity p"
  "pos_market_value (mark_position fp p) = pos_quantity p * fp"
  by (simp_all add: mark_position_def)

text \<open>The net effect of a fill on the tables.\<close>

lemma apply_fill_effectE:
  assumes "apply_fill cfg tr oid fp s = Inr t"
  obtains ord account account1 p1 amount ev f l where
    "find_order s oid = Some ord" "FILLED \<in> allowed_order_transitions (ord_status ord)"
    "find_account s (ord_account_id ord) = Some account"
    "settle cfg ord fp account (fill_position s ord) = Inr (account1, p1, amount, ev)"
    "s_orders t = put_row ord_order_id (ord\<lparr>ord_filled_quantity := ord_quantity ord,
       ord_avg_fill_price := Some fp, ord_status := FILLED\<rparr>) (s_orders s)"
    "s_positions t = put_row pos_key (mark_position fp p1) (positions_with s ord)"
    "s_accounts t = put_row acc_account_id
       (account1\<lparr>acc_unrealized_pnl := total_unrealized_pnl t (ord_account_id ord),
         acc_equity := acc_cash_available account1 + acc_cash_frozen account1
           + total_market_value t (ord_account_id ord)\<rparr>) (s_accounts s)"
    "s_fills t = s_fills s @ [f]" "fl_order_id f = oid" "fl_quantity f = ord_quantity ord"
    "fl_price f = fp" "fl_commission f = ls_commission cfg (ord_quantity ord * fp)"
    "s_cash_ledger t = s_cash_ledger s @ [l]" "cl_account_id l = ord_account_id ord"
    "cl_amount l = amount" "cl_balance_after l = acc_cash_available account1"
    "distinct (map ord_order_id (s_orders t))" "distinct (map pos_key (s_positions t))"
proof (cases rule: apply_fill_okE [OF assms])
  case (1 ord account f p s1 account1 p1 amount ev s2 account2 l s3 s4)
  note ord = 1(1) and account = 1(2) and pos = 1(4) and settle = 1(5) and flush = 1(6)
    and account2 = 1(7) and tr = 1(9)
  have f: "fl_order_id f = oid" "fl_quantity f = ord_quantity ord" "fl_price f = fp"
      "fl_commission f = ls_commission cfg (ord_quantity ord * fp)"
    and l: "cl_account_id l = ord_account_id ord" "cl_amount l = amount"
      "cl_balance_after l = acc_cash_available account1"
    by (simp_all add: 1(3) 1(8))
  have t: "s_orders t = s_orders s3" "s_positions t = s_positions s3"
      "s_accounts t = s_accounts s3" "s_fills t = s_fills s3" "s_cash_ledger t = s_cash_ledger s3"
    by (simp_all add: 1(10,11))
  have oid: "ord_order_id ord = oid" using ord by (rule order_store.get_key)
  have aid: "acc_account_id account1 = ord_account_id ord"
    using settle_ids(1) [OF settle] account_store.get_key [OF account] by simp
  let ?s0 = "add_fill f (snd (new_id ''ls_fill'' (snd (new_id ''fill'' s))))"
  have "s_positions ?s0 = s_positions s" by simp
  note cong = fill_position_cong [OF this]
  have p: "p = fill_position s ord"
    and s1: "s_positions s1 = positions_with s ord" "s_orders s1 = s_orders s"
      "s_accounts s1 = s_accounts s" "s_fills s1 = s_fills s @ [f]"
      "s_cash_ledger s1 = s_cash_ledger s"
    using pos by (auto simp: get_or_create_position_eq cong)
  let ?ord = "ord\<lparr>ord_filled_quantity := ord_quantity ord, ord_avg_fill_price := Some fp\<rparr>"
  have s2: "s_orders s2 = put_row ord_order_id ?ord (s_orders s)"
      "s_positions s2 = put_row pos_key (mark_position fp p1) (positions_with s ord)"
      "s_accounts s2 = put_row acc_account_id account1 (s_accounts s)"
      "s_fills s2 = s_fills s @ [f]" "s_cash_ledger s2 = s_cash_ledger s"
      "distinct (map ord_order_id (s_orders s2))" "distinct (map pos_key (s_positions s2))"
    using flush by (auto simp: flush_ok s1 unique_ok_def)
  have "find_order s2 oid = Some ?ord"
    using ord oid by (simp add: find_order_def s2 row_at_put_row)
  then have st: "FILLED \<in> allowed_order_transitions (ord_status ord)"
    and s3: "s_orders s3 = put_row ord_order_id (?ord\<lparr>ord_status := FILLED\<rparr>) (s_orders s2)"
      "s_positions s3 = s_positions s2" "s_fills s3 = s_fills s2"
      "s_cash_ledger s3 = s_cash_ledger s2 @ [l]"
      "s_accounts s3 = put_row acc_account_id account2 (s_accounts s2)"
    using tr by (auto simp: transition_order_ok)
  have totals: "total_unrealized_pnl t = total_unrealized_pnl s2"
      "total_market_value t = total_market_value s2"
    by (simp_all add: fun_eq_iff total_unrealized_pnl_def total_market_value_def t s3)
  show thesis
  proof (rule that [OF ord st account settle [unfolded p] _ _ _ _ f _ l])
    show "distinct (map ord_order_id (s_orders t))" "distinct (map pos_key (s_positions t))"
      using s2 by (simp_all add: t s3)
  qed (simp_all add: t s3 s2 put_row_put_row account2 aid totals)
qed

text \<open>The net effect of a reservation and of its release.\<close>

lemma reserve_resources_cases:
  assumes "reserve_resources cfg tr ord q s = Inr (err, t)"
  obtains
    (refused) m where "err = Some m" "t = s"
  | (buy) account reserved i out where "err = None" "ord_side ord = BUY"
      "find_account s (ord_account_id ord) = Some account"
      "reserved_cash cfg ord (Some q) None = Inr reserved"
      "reserved \<le> acc_cash_available account"
      "t = record_event tr ''LOCAL_SIM_RESOURCES_RESERVED'' i out (put_account
        (account\<lparr>acc_cash_available := acc_cash_available account - reserved,
                 acc_cash_frozen := acc_cash_frozen account + reserved\<rparr>) s)"
  | (bracket) account i out where "err = None" "is_bracket_order ord"
      "find_account s (ord_account_id ord) = Some account"
      "t = record_event tr ''LOCAL_SIM_RESOURCES_RESERVED'' i out s"
  | (sell) account p i out where "err = None" "ord_side ord = SELL" "\<not> is_bracket_order ord"
      "find_account s (ord_account_id ord) = Some account"
      "find_position s (ord_account_id ord, ord_symbol ord) = Some p"
      "ord_quantity ord \<le> pos_available_quantity p"
      "t = record_event tr ''LOCAL_SIM_RESOURCES_RESERVED'' i out (put_position
        (p\<lparr>pos_available_quantity := pos_available_quantity p - ord_quantity ord\<rparr>) s)"
proof (cases "ord_side ord")
  case BUY
  with assms show thesis
    by (auto simp: reserve_resources_def Let_def rbind_Inr_iff not_less
        split: option.splits if_splits intro: refused buy)
next
  case SELL
  with assms show thesis
    by (auto simp: reserve_resources_def Let_def not_less
        split: option.splits if_splits intro: refused bracket sell)
qed

lemma release_resources_cases:
  assumes "release_resources cfg tr ord s = Inr t"
  obtains
    (buy) account reserved i out where "ord_side ord = BUY"
      "find_account s (ord_account_id ord) = Some account"
      "reserved_cash cfg ord None None = Inr reserved"
      "t = record_event tr ''LOCAL_SIM_RESOURCES_RELEASED'' i out (put_account
        (account\<lparr>acc_cash_frozen := acc_cash_frozen account - reserved,
                 acc_cash_available := acc_cash_available account + reserved\<rparr>) s)"
  | (bracket) account i out where "is_bracket_order ord"
      "find_account s (ord_account_id ord) = Some account"
      "t = record_event tr ''LOCAL_SIM_RESOURCES_RELEASED'' i out s"
  | (sell) account p i out where "ord_side ord = SELL" "\<not> is_bracket_order ord"
      "find_account s (ord_account_id ord) = Some account"
      "find_position s (ord_account_id ord, ord_symbol ord) = Some p"
      "t = record_event tr ''LOCAL_SIM_RESOURCES_RELEASED'' i out (put_position
        (p\<lparr>pos_available_quantity :=
            pos_available_quantity p + (ord_quantity ord - ord_filled_quantity ord)\<rparr>) s)"
proof (cases "ord_side ord")
  case BUY
  with assms show thesis
    by (auto simp: release_resources_def Let_def rbind_Inr_iff
        split: option.splits if_splits intro: buy)
next
  case SELL
  with assms show thesis
    by (auto simp: release_resources_def Let_def
        split: option.splits if_splits intro: bracket sell)
qed

lemma ls_submit_order_cases:
  assumes "ls_submit_order cfg tr oid q s = Inr (r, t)"
  obtains
    (not_submittable) ord where "find_order s oid = Some ord" "ord_status ord \<noteq> RISK_APPROVED"
      "\<not> br_accepted r" "t = s"
  | (failed) ord ev where "find_order s oid = Some ord" "ord_status ord = RISK_APPROVED"
      "transition_order tr oid FAILED ev s = Inr t" "ev \<noteq> ''ORDER_IDEMPOTENCY_HIT''"
      "\<not> br_accepted r"
  | (accepted) ord bid s1 s2 s3 s4 s5 where "find_order s oid = Some ord"
      "ord_status ord = RISK_APPROVED" "mq_symbol q = ord_symbol ord" "br_accepted r"
      "br_broker_order_id r = Some bid" "bid = fst (new_id ''ls_order'' s1)"
      "reserve_resources cfg tr ord q s = Inr (None, s1)"
      "transition_order tr oid SUBMITTING ''LOCAL_SIM_ORDER_SUBMITTING''
         (snd (new_id ''ls_order'' s1)) = Inr s2"
      "set_broker_order_id oid bid s2 = Inr s3"
      "transition_order tr oid SUBMITTED ''LOCAL_SIM_ORDER_SUBMITTED'' s3 = Inr s4"
      "s5 = record_broker_event ''local_sim'' tr (Some bid) ''ORDER_ACCEPTED''
         [(''client_order_id'', JStr (ord_client_order_id ord))] None s4"
      "(case ls_fill_price ord q of None \<Rightarrow> Inr s5 | Some fp \<Rightarrow> apply_fill cfg tr oid fp s5) = Inr t"
proof -
  from assms obtain ord where ord: "find_order s oid = Some ord"
    by (auto simp: ls_submit_order_def rbind_Inr_iff get_order_ok)
  then have [simp]: "get_order s oid = Inr ord" by (simp add: get_order_def)
  show thesis
  proof (cases "ord_status ord = RISK_APPROVED \<and> mq_symbol q = ord_symbol ord")
    case False
    with assms show thesis
      by (auto simp: ls_submit_order_def rbind_Inr_iff ord split: if_splits
          intro: not_submittable [OF ord] failed [OF ord])
  next
    case True
    with assms obtain err s1 where res: "reserve_resources cfg tr ord q s = Inr (err, s1)"
      by (auto simp: ls_submit_order_def rbind_Inr_iff)
    show thesis
    proof (cases err)
      case None
      let ?bid = "fst (new_id ''ls_order'' s1)"
      from None True assms res obtain s2 s3 s4 where
        "transition_order tr oid SUBMITTING ''LOCAL_SIM_ORDER_SUBMITTING''
           (snd (new_id ''ls_order'' s1)) = Inr s2"
        "set_broker_order_id oid ?bid s2 = Inr s3"
        "transition_order tr oid SUBMITTED ''LOCAL_SIM_ORDER_SUBMITTED'' s3 = Inr s4"
        "(case ls_fill_price ord q of
            None \<Rightarrow> Inr (record_broker_event ''local_sim'' tr (Some ?bid) ''ORDER_ACCEPTED''
              [(''client_order_id'', JStr (ord_client_order_id ord))] None s4)
          | Some fp \<Rightarrow> apply_fill cfg tr oid fp (record_broker_event ''local_sim'' tr (Some ?bid)
              ''ORDER_ACCEPTED'' [(''client_order_id'', JStr (ord_client_order_id ord))] None s4))
          = Inr t"
        "br_accepted r" "br_broker_order_id r = Some ?bid"
        by (auto simp: ls_submit_order_def rbind_Inr_iff Let_def case_prod_unfold)
      with None True res show thesis by (intro accepted [OF ord]) auto
    next
      case (Some m)
      with res have [simp]: "s1 = s" by (auto elim: reserve_resources_cases)
      from True Some assms res show thesis
        by (auto simp: ls_submit_order_def rbind_Inr_iff ord intro: failed [OF ord])
    qed
  qed
qed

lemma ls_cancel_order_cases:
  assumes "ls_cancel_order cfg tr oid s = Inr (r, t)"
  obtains
    (not_cancellable) ord where "find_order s oid = Some ord" "ord_status ord \<noteq> SUBMITTED"
      "\<not> br_accepted r" "t = s"
  | (cancelled) ord s1 s2 s3 where "find_order s oid = Some ord" "ord_status ord = SUBMITTED"
      "br_accepted r"
      "transition_order tr oid CANCEL_PENDING ''LOCAL_SIM_CANCEL_PENDING'' s = Inr s1"
      "release_resources cfg tr ord s1 = Inr s2"
      "transition_order tr oid CANCELLED ''LOCAL_SIM_ORDER_CANCELLED'' s2 = Inr s3"
      "t = enqueue_event tr ''ORDER_CANCELLED'' ''ORDER'' oid [(''order_id'', JStr oid)]
         (record_broker_event ''local_sim'' tr (ord_broker_order_id ord) ''ORDER_CANCELLED''
            [(''order_id'', JStr oid)] None s3)"
proof -
  from assms obtain ord where ord: "find_order s oid = Some ord"
    by (auto simp: ls_cancel_order_def rbind_Inr_iff get_order_ok)
  then have [simp]: "get_order s oid = Inr ord" "ord_order_id ord = oid"
    by (simp_all add: get_order_def order_store.get_key)
  from assms show thesis
    by (auto simp: ls_cancel_order_def rbind_Inr_iff ord Let_def split: if_splits
        intro: not_cancellable [OF ord] cancelled [OF ord])
qed

end
