(* ===== verification/Session_Invariants.thy ===== *)
theory Session_Invariants
  imports Local_Sim
begin

text \<open>
  The interface between the order service and everything built on it: a property of sessions that
  the primitive writes keep is kept by every operation of the order service and of the simulated
  broker. The audit-trail invariant, proved here for the primitives, is the main instance: the audit
  log of an order replays its life.
\<close>

section \<open>Properties kept by the primitive writes\<close>

text \<open>A rewrite of an order that leaves everything but its fill and its risk decision alone.\<close>

definition same_order :: "trade_order \<Rightarrow> trade_order \<Rightarrow> bool" where
  "same_order ord ord' \<longleftrightarrow>
     ord' = ord\<lparr>ord_filled_quantity := ord_filled_quantity ord',
                ord_avg_fill_price := ord_avg_fill_price ord',
                ord_risk_decision_id := ord_risk_decision_id ord'\<rparr>"

lemma same_orderD:
  assumes "same_order ord ord'"
  shows "ord_order_id ord' = ord_order_id ord" "ord_status ord' = ord_status ord"
    "ord_broker_order_id ord' = ord_broker_order_id ord"
    "intent_of_order ord' = intent_of_order ord"
  by (subst assms [unfolded same_order_def], simp add: intent_of_order_def)+

locale session_invariant =
  fixes I :: "session \<Rightarrow> bool"
  assumes I_new_id: "I s \<Longrightarrow> I (snd (new_id p s))"
    and I_record: "I s \<Longrightarrow> I (record_event tr ev inp out s)"
    and I_enqueue: "I s \<Longrightarrow> I (enqueue_event tr ev aty aid pl s)"
    and I_broker_event: "I s \<Longrightarrow> I (record_broker_event n tr bo ev pl bf s)"
    and I_account: "I s \<Longrightarrow> I (put_account a s)"
    and I_position: "I s \<Longrightarrow> I (put_position ps s)"
    and I_positions: "I s \<Longrightarrow> I (s\<lparr>s_positions := pss\<rparr>)"
    and I_fill: "I s \<Longrightarrow> I (add_fill f s)"
    and I_ledger: "I s \<Longrightarrow> I (add_cash_ledger l s)"
    and I_decision: "I s \<Longrightarrow> I (add_risk_decision d s)"
    and I_audit_row: "I s \<Longrightarrow> au_next_state row = None \<Longrightarrow>
      I (s\<lparr>s_audit_logs := s_audit_logs s @ [row]\<rparr>)"
    and I_signals: "I s \<Longrightarrow> I (s\<lparr>s_signals := g\<rparr>)"
    and I_synced: "I s \<Longrightarrow> I (s\<lparr>s_db_orders := s_orders s\<rparr>)"
    and I_order: "I s \<Longrightarrow> find_order s (ord_order_id ord) = Some ord \<Longrightarrow> same_order ord ord' \<Longrightarrow>
      I (put_order ord' s)"
    and I_broker_id: "I s \<Longrightarrow> find_order s (ord_order_id ord) = Some ord \<Longrightarrow>
      ord_status ord \<noteq> CREATED \<Longrightarrow> I (put_order (ord\<lparr>ord_broker_order_id := Some b\<rparr>) s)"
    and I_transition: "I s \<Longrightarrow> transition_order tr oid tgt ev s = Inr t \<Longrightarrow>
      ev \<noteq> ''ORDER_IDEMPOTENCY_HIT'' \<Longrightarrow>
      (\<And>ord. find_order s oid = Some ord \<Longrightarrow> ord_status ord = CREATED \<Longrightarrow> tgt \<noteq> FAILED) \<Longrightarrow> I t"
    and I_create: "I s \<Longrightarrow> valid_order_intent i \<Longrightarrow> I (snd (create_order_from_intent svc tr i s))"
begin

lemma I_flush: "I s \<Longrightarrow> flush s = Inr t \<Longrightarrow> I t"
  by (auto simp: flush_ok intro: I_synced)

lemma I_set_broker_id:
  "I s \<Longrightarrow> set_broker_order_id oid b s = Inr t \<Longrightarrow>
   (\<And>ord. find_order s oid = Some ord \<Longrightarrow> ord_status ord \<noteq> CREATED) \<Longrightarrow> I t"
  by (auto simp: set_broker_order_id_ok order_store.get_key intro: I_broker_id)

lemma I_same_order: "I s \<Longrightarrow> find_order s oid = Some ord \<Longrightarrow> same_order ord ord' \<Longrightarrow> I (put_order ord' s)"
  using I_order [of s ord ord'] order_store.get_key [of s oid ord] by auto

lemma I_run_risk_check:
  assumes "I s" and "run_risk_check svc tr oid q mo s = Inr (d, t)"
  shows "I t"
proof (cases rule: run_risk_check_okE [OF assms(2)])
  case (1 ord r s1 s2 s3)
  have "I s1" by (rule I_flush [OF I_decision [OF I_new_id [OF assms(1)]] 1(6)])
  then have "I s2"
    using 1(7) by (auto simp: set_risk_decision_id_ok same_order_def intro: I_same_order)
  then have "I s3" using 1(8) by (rule I_transition) auto
  then show ?thesis by (simp add: 1(9) I_enqueue)
qed

lemma I_apply_fill:
  assumes "I s" and "apply_fill cfg tr oid fp s = Inr t"
  shows "I t"
proof (cases rule: apply_fill_okE [OF assms(2)])
  case (1 ord account f p s1 account1 p1 amount ev s2 account2 l s3 s4)
  have "I (add_fill f (snd (new_id ''ls_fill'' (snd (new_id ''fill'' s)))))"
    by (intro I_fill I_new_id assms(1))
  then have "I s1" using 1(4) by (auto simp: get_or_create_position_eq intro: I_positions)
  then have "I (put_position (mark_position fp p1) (put_account account1 s1))"
    by (intro I_position I_account)
  moreover have "find_order (put_position (mark_position fp p1) (put_account account1 s1)) oid =
      Some ord"
    using 1(1,4) by (auto simp: get_or_create_position_eq finds)
  ultimately have "I (put_order
      (ord\<lparr>ord_filled_quantity := ord_quantity ord, ord_avg_fill_price := Some fp\<rparr>)
      (put_position (mark_position fp p1) (put_account account1 s1)))"
    by (rule I_same_order) (simp add: same_order_def)
  then have "I s2" using 1(6) by (rule I_flush)
  then have "I (add_cash_ledger l (snd (new_id ''cash'' (put_account account2 s2))))"
    by (intro I_ledger I_new_id I_account)
  then have "I s3" using 1(9) by (rule I_transition) simp_all
  then show ?thesis by (simp add: 1(10,11) I_enqueue I_broker_event I_record)
qed

lemma I_reserve:
  assumes "I s" and "reserve_resources cfg tr ord q s = Inr (err, t)"
  shows "I t"
  using assms(2) by (cases rule: reserve_resources_cases)
    (simp_all add: assms(1) I_record I_account I_position)

lemma I_release:
  assumes "I s" and "release_resources cfg tr ord s = Inr t"
  shows "I t"
  using assms(2) by (cases rule: release_resources_cases)
    (simp_all add: assms(1) I_record I_account I_position)

lemma I_ls_submit_order:
  assumes "I s" and "ls_submit_order cfg tr oid q s = Inr (r, t)"
  shows "I t"
  using assms(2)
proof (cases rule: ls_submit_order_cases)
  case not_submittable
  with assms(1) show ?thesis by simp
next
  case failed
  with assms(1) show ?thesis by (auto intro: I_transition)
next
  case (accepted ord bid s1 s2 s3 s4 s5)
  have "I s1" using assms(1) accepted(7) by (rule I_reserve)
  then have "I s2" using accepted(8) by (auto intro: I_transition I_new_id)
  moreover have "ord_status ord' = SUBMITTING" if "find_order s2 oid = Some ord'" for ord'
    using accepted(8) that by (auto simp: transition_order_ok order_store.get_put order_store.get_key)
  ultimately have "I s3" using accepted(9) by (force intro: I_set_broker_id)
  then have "I s4" using accepted(10) by (rule I_transition) auto
  then have "I s5" by (simp add: accepted(11) I_broker_event)
  with accepted(12) show ?thesis by (auto split: option.splits intro: I_apply_fill)
qed

lemma I_ls_cancel_order:
  assumes "I s" and "ls_cancel_order cfg tr oid s = Inr (r, t)"
  shows "I t"
  using assms(2)
proof (cases rule: ls_cancel_order_cases)
  case not_cancellable
  with assms(1) show ?thesis by simp
next
  case (cancelled ord s1 s2 s3)
  have "I s1" using assms(1) cancelled(4) by (rule I_transition) auto
  then have "I s2" using cancelled(5) by (rule I_release)
  then have "I s3" using cancelled(6) by (rule I_transition) auto
  then show ?thesis by (simp add: cancelled(7) I_enqueue I_broker_event)
qed

lemma I_match_orders: "I s \<Longrightarrow> match_orders cfg tr q oids s = Inr (filled, t) \<Longrightarrow> I t"
proof (induction oids arbitrary: s filled)
  case Nil
  then show ?case by simp
next
  case (Cons oid oids)
  from Cons.prems(2) obtain ord where ord: "get_order s oid = Inr ord"
    by (auto simp: rbind_Inr_iff)
  show ?case
  proof (cases "ls_fill_price ord q")
    case None
    with Cons ord show ?thesis by simp
  next
    case (Some fp)
    with Cons.prems(2) ord obtain s1 ids where "apply_fill cfg tr oid fp s = Inr s1"
      and "match_orders cfg tr q oids s1 = Inr (ids, t)"
      by (auto simp: rbind_Inr_iff)
    with Cons show ?thesis by (blast intro: I_apply_fill)
  qed
qed

lemma I_process_quote: "I s \<Longrightarrow> process_quote cfg tr q s = Inr (filled, t) \<Longrightarrow> I t"
  unfolding process_quote_def by (rule I_match_orders)

end

section \<open>The audit trail of an order\<close>

definition about_order :: "string \<Rightarrow> audit_log \<Rightarrow> bool" where
  "about_order oid a \<longleftrightarrow>
     au_event_type a \<noteq> ''ORDER_IDEMPOTENCY_HIT'' \<and>
     (map_of (au_input_snapshot a) ''order_id'' = Some (JStr oid) \<or>
      map_of (au_output_snapshot a) ''order_id'' = Some (JStr oid))"

text \<open>The statuses the audit log records for an order, oldest first.\<close>

definition order_trail :: "session \<Rightarrow> string \<Rightarrow> order_status list" where
  "order_trail s oid =
     concat (map (\<lambda>a. if about_order oid a then (case au_next_state a of None \<Rightarrow> [] | Some x \<Rightarrow> [x])
                     else []) (s_audit_logs s))"

text \<open>
  The trail is a life of the state machine that ends in the order's status, goes through the risk
  decision first, and is not just the creation once the order has a broker's id.
\<close>

definition replays :: "trade_order \<Rightarrow> order_status list \<Rightarrow> bool" where
  "replays ord trail \<longleftrightarrow>
     (case trail of [] \<Rightarrow> False
      | c # ts \<Rightarrow> c = CREATED \<and> lives_from CREATED ts \<and> last (CREATED # ts) = ord_status ord \<and>
          (ts \<noteq> [] \<longrightarrow> hd ts \<in> {RISK_APPROVED, RISK_REJECTED}) \<and>
          (ord_broker_order_id ord \<noteq> None \<longrightarrow> ts \<noteq> []))"

lemma replays_approved:
  assumes "replays ord trail" and "ord_status ord \<notin> {CREATED, RISK_REJECTED}"
  shows "\<exists>ts. trail = CREATED # RISK_APPROVED # ts"
proof -
  from assms(1) obtain us where us: "trail = CREATED # us" "lives_from CREATED us"
    "last (CREATED # us) = ord_status ord" "us \<noteq> [] \<longrightarrow> hd us \<in> {RISK_APPROVED, RISK_REJECTED}"
    by (auto simp: replays_def split: list.splits)
  then obtain t ts where "us = t # ts" using assms(2) by (cases us) auto
  with us assms(2) created_life_cases [of t ts] show ?thesis by auto
qed

definition ids_fresh :: "session \<Rightarrow> bool" where
  "ids_fresh s \<longleftrightarrow> inj (s_uuids s) \<and>
     (\<forall>n \<ge> s_uuid_next s. find_order s (''ord_'' @ s_uuids s n) = None)"

definition trail_inv :: "session \<Rightarrow> bool" where
  "trail_inv s \<longleftrightarrow> ids_fresh s \<and>
     (\<forall>oid. find_order s oid = None \<longrightarrow> order_trail s oid = []) \<and>
     (\<forall>oid ord. find_order s oid = Some ord \<longrightarrow> replays ord (order_trail s oid))"

lemma order_trail_audit:
  "order_trail (audit tr ev inp out pr nx s) oid =
     order_trail s oid @
       (if ev \<noteq> ''ORDER_IDEMPOTENCY_HIT'' \<and>
           (map_of inp ''order_id'' = Some (JStr oid) \<or> map_of out ''order_id'' = Some (JStr oid))
        then (case nx of None \<Rightarrow> [] | Some x \<Rightarrow> [x]) else [])"
  by (simp add: order_trail_def audit_logs_audit about_order_def)

lemma order_trail_cong: "s_audit_logs t = s_audit_logs s \<Longrightarrow> order_trail t = order_trail s"
  by (simp add: order_trail_def fun_eq_iff)

lemma order_trail_frame [simp]:
  "order_trail (snd (new_id p s)) = order_trail s"
  "order_trail (enqueue_event tr ev aty aid pl s) = order_trail s"
  "order_trail (record_broker_event n tr b ev pl bf s) = order_trail s"
  "order_trail (put_order ord s) = order_trail s"
  "order_trail (put_account a s) = order_trail s"
  "order_trail (put_position ps s) = order_trail s"
  "order_trail (add_fill f s) = order_trail s"
  "order_trail (add_cash_ledger l s) = order_trail s"
  "order_trail (add_risk_decision d s) = order_trail s"
  by (rule order_trail_cong; simp)+

lemma uuid_next_mono:
  "s_uuid_next (record_event tr ev inp out s) = Suc (s_uuid_next s)"
  "s_uuid_next (enqueue_event tr ev aty aid pl s) = Suc (s_uuid_next s)"
  "s_uuid_next (record_broker_event n tr b ev pl bf s) = Suc (s_uuid_next s)"
  by (simp_all add: record_event_def audit_logs_audit enqueue_event_def record_broker_event_def
      new_id_def Let_def)

text \<open>A write that touches neither the orders nor the states in the audit log keeps the invariant.\<close>

lemma trail_inv_cong:
  assumes "trail_inv s" and "find_order t = find_order s" and "order_trail t = order_trail s"
    and "s_uuids t = s_uuids s" and "s_uuid_next s \<le> s_uuid_next t"
  shows "trail_inv t"
  using assms by (simp add: trail_inv_def ids_fresh_def)

lemma ids_fresh_put_order: "ids_fresh (put_order ord s) \<longleftrightarrow> ids_fresh s"
  by (simp add: ids_fresh_def order_store.get_put_None)

lemma replays_move:
  assumes "replays ord trail" and "tgt \<in> allowed_order_transitions (ord_status ord)"
    and "ord_status ord = CREATED \<Longrightarrow> tgt \<noteq> FAILED"
  shows "replays (ord\<lparr>ord_status := tgt\<rparr>) (trail @ [tgt])"
proof -
  from assms(1) obtain ts where trail: "trail = CREATED # ts" and life: "lives_from CREATED ts"
    and last: "last (CREATED # ts) = ord_status ord"
    and hd: "ts \<noteq> [] \<longrightarrow> hd ts \<in> {RISK_APPROVED, RISK_REJECTED}"
    by (auto simp: replays_def split: list.splits)
  have "lives_from CREATED (ts @ [tgt])"
    using life last assms(2) by (simp add: lives_from_snoc)
  moreover have "hd (ts @ [tgt]) \<in> {RISK_APPROVED, RISK_REJECTED}"
  proof (cases ts)
    case Nil
    with last have "ord_status ord = CREATED" by simp
    with assms(2,3) Nil show ?thesis by auto
  next
    case Cons
    with hd show ?thesis by simp
  qed
  ultimately show ?thesis by (simp add: replays_def trail)
qed

lemma trail_inv_transition:
  assumes inv: "trail_inv s" and step: "transition_order tr oid tgt ev s = Inr t"
    and ev: "ev \<noteq> ''ORDER_IDEMPOTENCY_HIT''"
    and start: "\<And>ord. find_order s oid = Some ord \<Longrightarrow> ord_status ord = CREATED \<Longrightarrow> tgt \<noteq> FAILED"
  shows "trail_inv t"
proof -
  from step obtain ord where ord: "find_order s oid = Some ord"
    and tgt: "tgt \<in> allowed_order_transitions (ord_status ord)"
    and t: "t = audit tr ev [(''order_id'', JStr oid)] [(''status'', JStr (status_value tgt))]
              (Some (ord_status ord)) (Some tgt) (put_order (ord\<lparr>ord_status := tgt\<rparr>) s)"
    by (auto simp: transition_order_ok)
  have id: "ord_order_id ord = oid" using ord by (rule order_store.get_key)
  have old: "replays ord (order_trail s oid)"
    using inv ord by (simp add: trail_inv_def)
  have trail: "order_trail t k = order_trail s k @ (if k = oid then [tgt] else [])" for k
    using ev by (simp add: t order_trail_audit)
  have find: "find_order t k =
      (if k = oid then Some (ord\<lparr>ord_status := tgt\<rparr>) else find_order s k)" for k
    using ord id by (simp add: t order_store.get_put split: option.split)
  have "ids_fresh t"
    using inv by (auto simp: trail_inv_def t ids_fresh_def order_store.get_put_None
        audit_logs_audit)
  moreover have "find_order t k = None \<longrightarrow> order_trail t k = []"
      "\<forall>x. find_order t k = Some x \<longrightarrow> replays x (order_trail t k)" for k
    using inv replays_move [OF old tgt] start ord by (simp_all add: find trail trail_inv_def)
  ultimately show ?thesis by (simp add: trail_inv_def)
qed

lemma trail_inv_put_order:
  assumes "trail_inv s" and "find_order s (ord_order_id ord) = Some ord"
    and "ord_order_id ord' = ord_order_id ord"
    and "replays ord (order_trail s (ord_order_id ord)) \<Longrightarrow>
      replays ord' (order_trail s (ord_order_id ord))"
  shows "trail_inv (put_order ord' s)"
proof -
  have "replays ord (order_trail s (ord_order_id ord))"
    using assms(1,2) by (simp add: trail_inv_def)
  with assms show ?thesis
    by (auto simp: trail_inv_def ids_fresh_put_order order_store.get_put split: option.splits)
qed

lemma trail_inv_create:
  assumes inv: "trail_inv s"
  shows "trail_inv (snd (create_order_from_intent svc tr i s))"
proof (cases "query_orders s (\<lambda>row. ord_idempotency_key row = idempotency_key svc i)")
  case (Cons ord rest)
  show ?thesis unfolding create_order_hit [OF Cons] snd_conv
    by (rule trail_inv_cong [OF inv])
      (simp_all add: fun_eq_iff order_trail_audit audit_logs_audit)
next
  case Nil
  let ?oid = "fresh_order_id s" and ?cid = "fresh_client_order_id s"
  let ?ord = "order_of_intent svc i ?oid ?cid (s_now s)"
  let ?t = "snd (create_order_from_intent svc tr i s)"
  have fresh: "find_order s ?oid = None"
    using inv by (simp add: trail_inv_def ids_fresh_def fresh_order_id_def)
  have find: "find_order ?t k = (if k = ?oid then Some ?ord else find_order s k)" for k
    using fresh
    by (auto simp: create_order_new [OF Nil] find_order_def row_at_append order_of_intent_def
        split: option.splits)
  have no_id: "map_of (intent_dump i) ''order_id'' = None"
    by (simp add: intent_dump_def)
  have trail: "order_trail ?t k = order_trail s k @ (if k = ?oid then [CREATED] else [])" for k
    by (simp add: create_order_new [OF Nil] order_trail_audit no_id)
      (simp add: order_trail_def)
  have "order_trail s ?oid = []"
    using inv fresh by (simp add: trail_inv_def)
  then have "find_order ?t k = None \<longrightarrow> order_trail ?t k = []"
      "\<forall>x. find_order ?t k = Some x \<longrightarrow> replays x (order_trail ?t k)" for k
    using inv by (simp_all add: find trail trail_inv_def) (simp add: replays_def order_of_intent_def)
  moreover have "ids_fresh ?t"
    unfolding ids_fresh_def
  proof (intro conjI allI impI)
    show "inj (s_uuids ?t)"
      using inv by (simp add: trail_inv_def ids_fresh_def create_order_new [OF Nil])
    fix n assume n: "s_uuid_next ?t \<le> n"
    then have le: "s_uuid_next s < n"
      by (simp add: create_order_new [OF Nil] audit_logs_audit)
    have "s_uuids s n \<noteq> s_uuids s (s_uuid_next s)"
      using inv le by (auto simp: trail_inv_def ids_fresh_def dest: injD)
    then have "''ord_'' @ s_uuids s n \<noteq> ?oid" by (simp add: fresh_order_id_def)
    moreover have "find_order s (''ord_'' @ s_uuids s n) = None"
      using inv le by (simp add: trail_inv_def ids_fresh_def)
    moreover have "s_uuids ?t = s_uuids s" by (simp add: create_order_new [OF Nil])
    ultimately show "find_order ?t (''ord_'' @ s_uuids ?t n) = None"
      by (simp add: find)
  qed
  ultimately show ?thesis by (simp add: trail_inv_def)
qed

interpretation trail: session_invariant trail_inv
proof unfold_locales
  fix s :: session
  assume inv: "trail_inv s"
  show "trail_inv (snd (new_id p s))" for p by (rule trail_inv_cong [OF inv]) simp_all
  show "trail_inv (record_event tr ev inp out s)" for tr ev inp out
    by (rule trail_inv_cong [OF inv])
      (simp_all add: fun_eq_iff record_event_def order_trail_audit audit_logs_audit)
  show "trail_inv (enqueue_event tr ev aty aid pl s)" for tr ev aty aid pl
    by (rule trail_inv_cong [OF inv]) (simp_all add: uuid_next_mono)
  show "trail_inv (record_broker_event n tr bo ev pl bf s)" for n tr bo ev pl bf
    by (rule trail_inv_cong [OF inv]) (simp_all add: uuid_next_mono)
  show "trail_inv (put_account a s)" for a by (rule trail_inv_cong [OF inv]) simp_all
  show "trail_inv (put_position ps s)" for ps by (rule trail_inv_cong [OF inv]) simp_all
  show "trail_inv (s\<lparr>s_positions := pss\<rparr>)" for pss
    by (rule trail_inv_cong [OF inv]) (simp_all add: order_trail_def fun_eq_iff finds)
  show "trail_inv (add_fill f s)" for f
    by (rule trail_inv_cong [OF inv]) (simp_all, simp add: add_fill_def)
  show "trail_inv (add_cash_ledger l s)" for l
    by (rule trail_inv_cong [OF inv]) (simp_all, simp add: add_cash_ledger_def)
  show "trail_inv (add_risk_decision d s)" for d by (rule trail_inv_cong [OF inv]) simp_all
  show "trail_inv (s\<lparr>s_audit_logs := s_audit_logs s @ [a]\<rparr>)" if "au_next_state a = None" for a
    using that
    by (intro trail_inv_cong [OF inv]) (simp_all add: order_trail_def fun_eq_iff finds)
  show "trail_inv (s\<lparr>s_signals := g\<rparr>)" for g
    by (rule trail_inv_cong [OF inv]) (simp_all add: order_trail_def fun_eq_iff finds)
  show "trail_inv (s\<lparr>s_db_orders := s_orders s\<rparr>)"
    by (rule trail_inv_cong [OF inv]) (simp_all add: order_trail_def fun_eq_iff)
  show "trail_inv (put_order ord' s)"
    if "find_order s (ord_order_id ord) = Some ord" "same_order ord ord'" for ord ord'
    using same_orderD [OF that(2)]
    by (intro trail_inv_put_order [OF inv that(1)]) (auto simp: replays_def split: list.splits)
  show "trail_inv (put_order (ord\<lparr>ord_broker_order_id := Some b\<rparr>) s)"
    if "find_order s (ord_order_id ord) = Some ord" "ord_status ord \<noteq> CREATED" for ord b
    using that(2)
    by (intro trail_inv_put_order [OF inv that(1)]) (auto simp: replays_def split: list.splits)
qed (blast intro: trail_inv_transition trail_inv_create)+

end
