(* ===== verification/Longbridge.thy ===== *)
theory Longbridge
  imports Session_Invariants
begin

text \<open>
  The Longbridge broker of \<open>broker/longbridge/adapter.py\<close>: the safety switches, submission and
  cancellation through the gateway with their unknown outcomes, and the handler of order pushes.

  The gateway is the world outside the database: \<open>gw_calls\<close> is what has been sent to it, and its
  answer to a call may depend on everything sent before. An answer is the gateway's value or one of
  the exceptions the adapter tells apart.
\<close>

section \<open>Configuration and gateway\<close>

record longbridge_config =
  lb_mode :: string
  lb_enable_order_submission :: bool
  lb_enable_live_trading :: bool

definition default_longbridge_config :: longbridge_config where
  "default_longbridge_config =
     \<lparr>lb_mode = ''paper'', lb_enable_order_submission = False, lb_enable_live_trading = False\<rparr>"

record submit_request =
  rq_client_order_id :: string
  rq_symbol :: string
  rq_side :: order_side
  rq_order_type :: order_type
  rq_quantity :: rat
  rq_time_in_force :: time_in_force
  rq_limit_price :: "rat option"
  rq_trigger_price :: "rat option"

datatype gateway_error = Gw_Timeout string | Gw_Connection string | Gw_Other string

datatype gateway_call = Gw_Submit submit_request | Gw_Cancel string

record gateway =
  gw_calls :: "gateway_call list"
  gw_submit_answer :: "gateway_call list \<Rightarrow> submit_request \<Rightarrow> gateway_error + string"
  gw_cancel_answer :: "gateway_call list \<Rightarrow> string \<Rightarrow> gateway_error + unit"

definition gw_submit_order :: "submit_request \<Rightarrow> gateway \<Rightarrow> (gateway_error + string) \<times> gateway" where
  "gw_submit_order rq g =
     (gw_submit_answer g (gw_calls g) rq, g\<lparr>gw_calls := gw_calls g @ [Gw_Submit rq]\<rparr>)"

definition gw_cancel_order :: "string \<Rightarrow> gateway \<Rightarrow> (gateway_error + unit) \<times> gateway" where
  "gw_cancel_order bid g =
     (gw_cancel_answer g (gw_calls g) bid, g\<lparr>gw_calls := gw_calls g @ [Gw_Cancel bid]\<rparr>)"

section \<open>Submission\<close>

definition submission_safety_error :: "longbridge_config \<Rightarrow> string option" where
  "submission_safety_error cfg =
     (let mode = lower (lb_mode cfg)
      in if mode \<notin> {''paper'', ''live''} then Some (''Unsupported Longbridge mode: '' @ lb_mode cfg)
         else if \<not> lb_enable_order_submission cfg then Some ''External order submission is disabled''
         else if mode = ''live'' \<and> \<not> lb_enable_live_trading cfg then Some ''Live trading is disabled''
         else None)"

text \<open>
  The trigger price kept in the stored request: the text of a decimal is parsed back, any other text
  and the text of a boolean are not a decimal, other values are ignored.
\<close>

definition trigger_price_of :: "snapshot \<Rightarrow> rat option result" where
  "trigger_price_of raw =
     (case map_of raw ''trigger_price'' of
        Some (JDec q) \<Rightarrow> Inr (Some q)
      | Some (JInt n) \<Rightarrow> Inr (Some (of_int n))
      | Some (JStr _) \<Rightarrow> Inl InvalidOperation
      | Some (JBool _) \<Rightarrow> Inl InvalidOperation
      | _ \<Rightarrow> Inr None)"

definition request_of :: "trade_order \<Rightarrow> rat option \<Rightarrow> submit_request" where
  "request_of ord trigger_price =
     \<lparr>rq_client_order_id = ord_client_order_id ord, rq_symbol = ord_symbol ord,
      rq_side = ord_side ord, rq_order_type = ord_order_type ord, rq_quantity = ord_quantity ord,
      rq_time_in_force = ord_time_in_force ord, rq_limit_price = ord_limit_price ord,
      rq_trigger_price = trigger_price\<rparr>"

text \<open>What happens before the gateway is called: an early answer, or the request to send.\<close>

definition lb_prepare_submit ::
  "longbridge_config \<Rightarrow> string \<Rightarrow> string \<Rightarrow> session \<Rightarrow>
   ((broker_order_result + submit_request) \<times> session) result" where
  "lb_prepare_submit cfg trace oid s =
     rbind (get_order s oid) (\<lambda>ord.
     if ord_status ord \<noteq> RISK_APPROVED
     then Inr (Inl \<lparr>br_accepted = False, br_broker_order_id = None,
            br_message = ''Order status '' @ status_value (ord_status ord) @ '' is not submittable''\<rparr>, s)
     else case submission_safety_error cfg of
       Some safety_error \<Rightarrow>
         Inr (Inl \<lparr>br_accepted = False, br_broker_order_id = None, br_message = safety_error\<rparr>,
              record_event trace ''LONGBRIDGE_SUBMISSION_BLOCKED''
                [(''order_id'', JStr (ord_order_id ord)), (''mode'', JStr (lb_mode cfg))]
                [(''reason'', JStr safety_error)] s)
     | None \<Rightarrow>
         rbind (transition_order trace oid SUBMITTING ''LONGBRIDGE_ORDER_SUBMITTING'' s) (\<lambda>s.
         rbind (trigger_price_of (ord_raw_request ord)) (\<lambda>trigger_price.
         Inr (Inr (request_of ord trigger_price), s))))"

definition lb_record_event :: "string \<Rightarrow> string \<Rightarrow> string \<Rightarrow> snapshot \<Rightarrow> session \<Rightarrow> session result" where
  "lb_record_event trace oid event payload s =
     rbind (get_order s oid) (\<lambda>ord.
     Inr (record_broker_event ''longbridge'' trace (ord_broker_order_id ord) event payload None s))"

text \<open>What the adapter does with the gateway's answer.\<close>

definition lb_finish_submit ::
  "longbridge_config \<Rightarrow> string \<Rightarrow> string \<Rightarrow> gateway_error + string \<Rightarrow> session \<Rightarrow>
   (broker_order_result \<times> session) result" where
  "lb_finish_submit cfg trace oid answer s =
     rbind (get_order s oid) (\<lambda>ord.
     let unknown = (\<lambda>exc.
           rbind (transition_order trace oid RECONCILING ''LONGBRIDGE_SUBMIT_RESULT_UNKNOWN'' s) (\<lambda>s.
           rbind (lb_record_event trace oid ''SUBMIT_UNKNOWN''
             [(''error'', JStr exc), (''client_order_id'', JStr (ord_client_order_id ord))] s) (\<lambda>s.
           Inr (\<lparr>br_accepted = False, br_broker_order_id = None,
             br_message = ''Longbridge submit result is unknown; reconciliation required''\<rparr>, s))))
     in case answer of
       Inl (Gw_Timeout exc) \<Rightarrow> unknown exc
     | Inl (Gw_Connection exc) \<Rightarrow> unknown exc
     | Inl (Gw_Other exc) \<Rightarrow>
         rbind (transition_order trace oid FAILED ''LONGBRIDGE_ORDER_FAILED'' s) (\<lambda>s.
         rbind (lb_record_event trace oid ''SUBMIT_FAILED''
           [(''error'', JStr exc), (''client_order_id'', JStr (ord_client_order_id ord))] s) (\<lambda>s.
         Inr (\<lparr>br_accepted = False, br_broker_order_id = None,
           br_message = ''Longbridge rejected order: '' @ exc\<rparr>, s)))
     | Inr bid \<Rightarrow>
         rbind (set_broker_order_id oid bid s) (\<lambda>s.
         rbind (transition_order trace oid SUBMITTED ''LONGBRIDGE_ORDER_SUBMITTED'' s) (\<lambda>s.
         rbind (lb_record_event trace oid ''ORDER_ACCEPTED''
           [(''broker_order_id'', JStr bid), (''client_order_id'', JStr (ord_client_order_id ord)),
            (''mode'', JStr (lb_mode cfg))] s) (\<lambda>s.
         Inr (\<lparr>br_accepted = True, br_broker_order_id = Some bid,
           br_message = ''Order accepted by Longbridge '' @ lb_mode cfg @ '' account''\<rparr>, s)))))"

definition lb_submit_order ::
  "longbridge_config \<Rightarrow> string \<Rightarrow> string \<Rightarrow> market_quote \<Rightarrow> session \<Rightarrow> gateway \<Rightarrow>
   (broker_order_result \<times> session) result \<times> gateway" where
  "lb_submit_order cfg trace oid quote s =
     wbind (wlift (lb_prepare_submit cfg trace oid s)) (\<lambda>(prepared, s).
     case prepared of
       Inl early \<Rightarrow> wlift (Inr (early, s))
     | Inr rq \<Rightarrow> (\<lambda>g. let (answer, g) = gw_submit_order rq g
                  in (lb_finish_submit cfg trace oid answer s, g)))"

section \<open>Cancellation\<close>

definition lb_prepare_cancel ::
  "string \<Rightarrow> string \<Rightarrow> session \<Rightarrow> ((broker_order_result + string) \<times> session) result" where
  "lb_prepare_cancel trace oid s =
     rbind (get_order s oid) (\<lambda>ord.
     if ord_status ord \<notin> {SUBMITTED, PARTIALLY_FILLED}
     then Inr (Inl \<lparr>br_accepted = False, br_broker_order_id = ord_broker_order_id ord,
            br_message = ''Order status '' @ status_value (ord_status ord) @ '' is not cancellable''\<rparr>, s)
     else case ord_broker_order_id ord of
       None \<Rightarrow> Inr (Inl \<lparr>br_accepted = False, br_broker_order_id = None,
                  br_message = ''Missing broker order id''\<rparr>, s)
     | Some bid \<Rightarrow>
         rbind (transition_order trace oid CANCEL_PENDING ''LONGBRIDGE_CANCEL_PENDING'' s) (\<lambda>s.
         Inr (Inr bid, s)))"

definition lb_finish_cancel ::
  "string \<Rightarrow> string \<Rightarrow> string \<Rightarrow> gateway_error + unit \<Rightarrow> session \<Rightarrow>
   (broker_order_result \<times> session) result" where
  "lb_finish_cancel trace oid bid answer s =
     (let failed = (\<lambda>event message.
           rbind (transition_order trace oid RECONCILING event s) (\<lambda>s.
           Inr (\<lparr>br_accepted = False, br_broker_order_id = Some bid, br_message = message\<rparr>, s)))
      in case answer of
        Inl (Gw_Timeout exc) \<Rightarrow>
          failed ''LONGBRIDGE_CANCEL_RESULT_UNKNOWN'' (''Longbridge cancel result is unknown: '' @ exc)
      | Inl (Gw_Connection exc) \<Rightarrow>
          failed ''LONGBRIDGE_CANCEL_RESULT_UNKNOWN'' (''Longbridge cancel result is unknown: '' @ exc)
      | Inl (Gw_Other exc) \<Rightarrow>
          failed ''LONGBRIDGE_CANCEL_FAILED'' (''Longbridge cancel failed: '' @ exc)
      | Inr _ \<Rightarrow>
          rbind (lb_record_event trace oid ''CANCEL_REQUESTED''
            [(''broker_order_id'', JStr bid)] s) (\<lambda>s.
          Inr (\<lparr>br_accepted = True, br_broker_order_id = Some bid,
            br_message = ''Longbridge cancel request accepted''\<rparr>, s)))"

definition lb_cancel_order ::
  "string \<Rightarrow> string \<Rightarrow> session \<Rightarrow> gateway \<Rightarrow> (broker_order_result \<times> session) result \<times> gateway" where
  "lb_cancel_order trace oid s =
     wbind (wlift (lb_prepare_cancel trace oid s)) (\<lambda>(prepared, s).
     case prepared of
       Inl early \<Rightarrow> wlift (Inr (early, s))
     | Inr bid \<Rightarrow> (\<lambda>g. let (answer, g) = gw_cancel_order bid g
                   in (lb_finish_cancel trace oid bid answer s, g)))"

section \<open>Order pushes\<close>

definition status_mapping :: "(string \<times> order_status) list" where
  "status_mapping =
     [(''NEW'', SUBMITTED), (''NOTREPORTED'', SUBMITTING), (''REPLACEDNOTREPORTED'', SUBMITTING),
      (''PROTECTEDNOTREPORTED'', SUBMITTING), (''VARIETIESNOTREPORTED'', SUBMITTING),
      (''WAITTONEW'', SUBMITTING), (''PENDINGNEW'', SUBMITTING), (''WAITTOREPLACE'', SUBMITTED),
      (''PENDINGREPLACE'', SUBMITTED), (''REPLACED'', SUBMITTED),
      (''PARTIALFILLED'', PARTIALLY_FILLED), (''PARTIALLYFILLED'', PARTIALLY_FILLED),
      (''FILLED'', FILLED), (''WAITTOCANCEL'', CANCEL_PENDING), (''PENDINGCANCEL'', CANCEL_PENDING),
      (''CANCELED'', CANCELLED), (''CANCELLED'', CANCELLED), (''REJECTED'', FAILED),
      (''EXPIRED'', CANCELLED), (''PARTIALWITHDRAWAL'', CANCELLED)]"

definition normalized :: "string \<Rightarrow> string" where
  "normalized value = filter is_alnum (map upper_char value)"

definition map_order_status :: "string option \<Rightarrow> order_status option" where
  "map_order_status value =
     (case value of
        None \<Rightarrow> None
      | Some v \<Rightarrow> (case map_of status_mapping (normalized v) of
            Some st \<Rightarrow> Some st
          | None \<Rightarrow> map_option snd (find (\<lambda>(name, _). ends_with (normalized v) name) status_mapping)))"

fun payload_value :: "snapshot \<Rightarrow> string list \<Rightarrow> json option" where
  "payload_value payload [] = None"
| "payload_value payload (name # names) =
     (case map_of payload name of
        Some JNull \<Rightarrow> None
      | Some v \<Rightarrow> Some v
      | None \<Rightarrow> payload_value payload names)"

text \<open>
  \<open>str\<close> of a payload value; \<open>lb_repr\<close> is Python's \<open>str\<close> on lists and dictionaries and on decimals'
  text it is the text itself.
\<close>

definition payload_str :: "order_service \<Rightarrow> (json \<Rightarrow> string) \<Rightarrow> json \<Rightarrow> string" where
  "payload_str svc lb_repr v =
     (case v of
        JNull \<Rightarrow> ''None''
      | JBool b \<Rightarrow> (if b then ''True'' else ''False'')
      | JInt n \<Rightarrow> int_str n
      | JDec q \<Rightarrow> os_str_decimal svc q
      | JStr t \<Rightarrow> t
      | _ \<Rightarrow> lb_repr v)"

definition handle_order_event ::
  "order_service \<Rightarrow> (json \<Rightarrow> string) \<Rightarrow> snapshot \<Rightarrow> string option \<Rightarrow> session \<Rightarrow>
   (string option \<times> session) result" where
  "handle_order_event svc lb_repr payload trace_id s =
     (let text = payload_str svc lb_repr;
          broker_order_id = map_option text (payload_value payload [''order_id'', ''broker_order_id'']);
          (trace, s) = (case trace_id of
              Some (c # cs) \<Rightarrow> (c # cs, s) | _ \<Rightarrow> new_id ''trace_push'' s);
          found = query_orders s (\<lambda>row. ord_broker_order_id row =
            Some (case broker_order_id of None \<Rightarrow> ''None'' | Some b \<Rightarrow> b));
          s = record_broker_event ''longbridge'' trace broker_order_id ''ORDER_CHANGED'' payload
                (map_option text (payload_value payload [''trade_id'', ''broker_fill_id''])) s
      in case found of
        [] \<Rightarrow> Inr (None, s)
      | ord # _ \<Rightarrow>
        let oid = ord_order_id ord;
            ids = [(''order_id'', JStr oid), (''broker_order_id'', json_opt JStr (ord_broker_order_id ord))]
        in case map_order_status (map_option text (payload_value payload [''status'', ''order_status''])) of
          None \<Rightarrow> Inr (Some oid, s)
        | Some target \<Rightarrow>
            if target = ord_status ord then Inr (Some oid, s)
            else rbind (transition_order trace oid target ''LONGBRIDGE_ORDER_PUSH'' s) (\<lambda>s.
              Inr (Some oid,
                if target = FILLED then enqueue_event trace ''ORDER_FILLED'' ''ORDER'' oid ids s
                else if target = CANCELLED then enqueue_event trace ''ORDER_CANCELLED'' ''ORDER'' oid ids s
                else s)))"

text \<open>
  The push handler registered with the SDK: every push has a session of its own on the committed
  database \<open>db\<close>, which is committed at success and rolled back at an exception.
\<close>

definition on_order_push ::
  "order_service \<Rightarrow> (json \<Rightarrow> string) \<Rightarrow> snapshot \<Rightarrow> session \<Rightarrow> unit result \<times> session" where
  "on_order_push svc lb_repr payload db =
     (case rbind (handle_order_event svc lb_repr payload None db) (\<lambda>(_, s). flush s) of
        Inl e \<Rightarrow> (Inl e, db)
      | Inr s \<Rightarrow> (Inr (), s))"


section \<open>What a submission does\<close>

text \<open>The switches that let an order out.\<close>

definition submission_enabled :: "longbridge_config \<Rightarrow> bool" where
  "submission_enabled cfg \<longleftrightarrow>
     lb_enable_order_submission cfg \<and>
     (lower (lb_mode cfg) = ''paper'' \<or> lower (lb_mode cfg) = ''live'' \<and> lb_enable_live_trading cfg)"

lemma submission_safety_error_None: "submission_safety_error cfg = None \<longleftrightarrow> submission_enabled cfg"
  by (auto simp: submission_safety_error_def submission_enabled_def Let_def)

lemma submission_blocked:
  "\<not> submission_enabled cfg \<Longrightarrow> \<exists>m. submission_safety_error cfg = Some m"
  by (cases "submission_safety_error cfg") (auto simp: submission_safety_error_None)

lemma lb_prepare_cases:
  assumes "find_order s oid = Some ord"
  obtains
    (refused) r where "ord_status ord \<noteq> RISK_APPROVED" "\<not> br_accepted r"
      "lb_prepare_submit cfg tr oid s = Inr (Inl r, s)"
  | (blocked) r inp out where "ord_status ord = RISK_APPROVED" "\<not> submission_enabled cfg" "\<not> br_accepted r"
      "lb_prepare_submit cfg tr oid s =
         Inr (Inl r, record_event tr ''LONGBRIDGE_SUBMISSION_BLOCKED'' inp out s)"
  | (bad_trigger) "ord_status ord = RISK_APPROVED" "submission_enabled cfg"
      "trigger_price_of (ord_raw_request ord) = Inl InvalidOperation"
      "lb_prepare_submit cfg tr oid s = Inl InvalidOperation"
  | (send) tp s1 where "ord_status ord = RISK_APPROVED" "submission_enabled cfg"
      "trigger_price_of (ord_raw_request ord) = Inr tp"
      "transition_order tr oid SUBMITTING ''LONGBRIDGE_ORDER_SUBMITTING'' s = Inr s1"
      "find_order s1 oid = Some (ord\<lparr>ord_status := SUBMITTING\<rparr>)"
      "lb_prepare_submit cfg tr oid s = Inr (Inr (request_of ord tp), s1)"
proof -
  have get: "get_order s oid = Inr ord" and id: "ord_order_id ord = oid"
    using assms by (simp_all add: get_order_ok order_store.get_key)
  show thesis
  proof (cases "ord_status ord = RISK_APPROVED \<and> submission_enabled cfg")
    case False
    show thesis
    proof (cases "ord_status ord = RISK_APPROVED")
      case True
      with False obtain m where "submission_safety_error cfg = Some m"
        using submission_blocked by auto
      with True False get show thesis
        by (intro blocked [of "\<lparr>br_accepted = False, br_broker_order_id = None, br_message = m\<rparr>"])
          (auto simp: lb_prepare_submit_def)
    next
      case False
      with get show thesis by (intro refused) (auto simp: lb_prepare_submit_def)
    qed
  next
    case True
    then have none: "submission_safety_error cfg = None" by (simp add: submission_safety_error_None)
    obtain s1 where s1: "transition_order tr oid SUBMITTING ''LONGBRIDGE_ORDER_SUBMITTING'' s = Inr s1"
      "find_order s1 oid = Some (ord\<lparr>ord_status := SUBMITTING\<rparr>)"
      using True assms id by (auto simp: transition_order_ok order_store.get_put)
    show thesis
    proof (cases "trigger_price_of (ord_raw_request ord)")
      case (Inl e)
      then have "e = InvalidOperation"
        by (auto simp: trigger_price_of_def split: option.splits json.splits)
      with Inl True s1 get none show thesis by (auto simp: lb_prepare_submit_def intro: bad_trigger)
    next
      case (Inr tp)
      with True s1 get none show thesis by (intro send) (auto simp: lb_prepare_submit_def)
    qed
  qed
qed

text \<open>The outcome the adapter records for an answer of the gateway.\<close>

definition submit_outcome :: "gateway_error + string \<Rightarrow> order_status" where
  "submit_outcome answer =
     (case answer of Inl (Gw_Other _) \<Rightarrow> FAILED | Inl _ \<Rightarrow> RECONCILING | Inr _ \<Rightarrow> SUBMITTED)"

lemma lb_finish_submit_total:
  assumes "find_order s oid = Some ord" and "ord_status ord = SUBMITTING"
  shows "\<exists>r t ord'. lb_finish_submit cfg tr oid answer s = Inr (r, t) \<and>
     find_order t oid = Some ord' \<and> ord_status ord' = submit_outcome answer \<and>
     (br_accepted r \<longleftrightarrow> (\<exists>bid. answer = Inr bid)) \<and>
     (\<forall>bid. answer = Inr bid \<longrightarrow> br_broker_order_id r = Some bid \<and> ord_broker_order_id ord' = Some bid)"
proof -
  have get: "get_order s oid = Inr ord" and id: "ord_order_id ord = oid"
    using assms by (simp_all add: get_order_ok order_store.get_key)
  have st: "{SUBMITTED, FAILED, RECONCILING} \<subseteq> allowed_order_transitions (ord_status ord)"
    using assms(2) by simp
  show ?thesis
  proof (cases answer)
    case (Inl e)
    with get id st assms(1) show ?thesis
      by (cases e) (simp_all add: lb_finish_submit_def Let_def transition_order_def
          assert_order_transition_def lb_record_event_def get_order_def order_store.get_put
          submit_outcome_def)
  next
    case (Inr bid)
    with get id st assms(1) show ?thesis
      by (simp add: lb_finish_submit_def Let_def transition_order_def assert_order_transition_def
          lb_record_event_def get_order_def order_store.get_put set_broker_order_id_def
          submit_outcome_def)
  qed
qed

lemma lb_submit_order_cases:
  assumes "find_order s oid = Some ord"
  obtains
    (refused) r where "ord_status ord \<noteq> RISK_APPROVED" "\<not> br_accepted r"
      "lb_submit_order cfg tr oid q s g = (Inr (r, s), g)"
  | (blocked) r inp out where "ord_status ord = RISK_APPROVED" "\<not> submission_enabled cfg" "\<not> br_accepted r"
      "lb_submit_order cfg tr oid q s g =
         (Inr (r, record_event tr ''LONGBRIDGE_SUBMISSION_BLOCKED'' inp out s), g)"
  | (bad_trigger) "ord_status ord = RISK_APPROVED" "submission_enabled cfg"
      "trigger_price_of (ord_raw_request ord) = Inl InvalidOperation"
      "lb_submit_order cfg tr oid q s g = (Inl InvalidOperation, g)"
  | (sent) tp s1 r t ord' where "ord_status ord = RISK_APPROVED" "submission_enabled cfg"
      "trigger_price_of (ord_raw_request ord) = Inr tp"
      "transition_order tr oid SUBMITTING ''LONGBRIDGE_ORDER_SUBMITTING'' s = Inr s1"
      "lb_finish_submit cfg tr oid (gw_submit_answer g (gw_calls g) (request_of ord tp)) s1 = Inr (r, t)"
      "lb_submit_order cfg tr oid q s g =
         (Inr (r, t), g\<lparr>gw_calls := gw_calls g @ [Gw_Submit (request_of ord tp)]\<rparr>)"
      "find_order s1 oid = Some (ord\<lparr>ord_status := SUBMITTING\<rparr>)"
      "find_order t oid = Some ord'"
      "ord_status ord' = submit_outcome (gw_submit_answer g (gw_calls g) (request_of ord tp))"
      "br_accepted r \<longleftrightarrow> (\<exists>bid. gw_submit_answer g (gw_calls g) (request_of ord tp) = Inr bid)"
      "\<forall>bid. gw_submit_answer g (gw_calls g) (request_of ord tp) = Inr bid \<longrightarrow>
         br_broker_order_id r = Some bid \<and> ord_broker_order_id ord' = Some bid"
  using assms
proof (cases rule: lb_prepare_cases [where cfg = cfg and tr = tr])
  case (send tp s1)
  from lb_finish_submit_total [OF send(5), of cfg tr "gw_submit_answer g (gw_calls g) (request_of ord tp)"]
  obtain r t ord' where fin:
    "lb_finish_submit cfg tr oid (gw_submit_answer g (gw_calls g) (request_of ord tp)) s1 = Inr (r, t)"
    "find_order t oid = Some ord'"
    "ord_status ord' = submit_outcome (gw_submit_answer g (gw_calls g) (request_of ord tp))"
    "br_accepted r \<longleftrightarrow> (\<exists>bid. gw_submit_answer g (gw_calls g) (request_of ord tp) = Inr bid)"
    "\<forall>bid. gw_submit_answer g (gw_calls g) (request_of ord tp) = Inr bid \<longrightarrow>
       br_broker_order_id r = Some bid \<and> ord_broker_order_id ord' = Some bid"
    by auto
  show thesis
    by (rule sent [OF send(1-4) fin(1) _ send(5) fin(2-5)])
      (simp add: lb_submit_order_def send(6) gw_submit_order_def fin(1))
qed (auto simp: lb_submit_order_def intro: refused blocked bad_trigger)


section \<open>Properties kept by the Longbridge broker\<close>

text \<open>
  A session in which every order is committed: the state a session of the push handler starts in.
\<close>

definition committed :: "session \<Rightarrow> bool" where
  "committed s \<longleftrightarrow> visible_orders s = s_orders s \<and> distinct (map ord_order_id (s_orders s))"

lemma query_committed:
  assumes "committed s" and "ord \<in> set (query_orders s P)"
  shows "P ord" and "find_order s (ord_order_id ord) = Some ord"
proof -
  show "find_order s (ord_order_id ord) = Some ord" using assms(2) by (rule query_orders_mem)
  obtain row where "row \<in> set (s_orders s)" "P row" "find_order s (ord_order_id row) = Some ord"
    using assms by (auto simp: query_orders_def committed_def split: option.splits)
  moreover then have "find_order s (ord_order_id row) = Some row"
    using assms(1) row_at_mem by (force simp: committed_def find_order_def)
  ultimately show "P ord" by simp
qed

context session_invariant
begin

lemma I_lb_record_event: "I s \<Longrightarrow> lb_record_event tr oid ev pl s = Inr t \<Longrightarrow> I t"
  by (auto simp: lb_record_event_def rbind_Inr_iff intro: I_broker_event)

lemma I_lb_finish_submit:
  assumes "I s" and "find_order s oid = Some ord" "ord_status ord = SUBMITTING"
    and "lb_finish_submit cfg tr oid answer s = Inr (r, t)"
  shows "I t"
proof -
  have tr: "I u" if "transition_order tr oid st ev s = Inr u" "ev \<noteq> ''ORDER_IDEMPOTENCY_HIT''" for st ev u
    using assms(2,3) by (intro I_transition [OF assms(1) that(1) that(2)]) simp
  consider (unknown) s1 pl where
      "transition_order tr oid RECONCILING ''LONGBRIDGE_SUBMIT_RESULT_UNKNOWN'' s = Inr s1"
      "lb_record_event tr oid ''SUBMIT_UNKNOWN'' pl s1 = Inr t"
    | (failed) s1 pl where "transition_order tr oid FAILED ''LONGBRIDGE_ORDER_FAILED'' s = Inr s1"
      "lb_record_event tr oid ''SUBMIT_FAILED'' pl s1 = Inr t"
    | (ok) bid s1 s2 pl where "set_broker_order_id oid bid s = Inr s1"
      "transition_order tr oid SUBMITTED ''LONGBRIDGE_ORDER_SUBMITTED'' s1 = Inr s2"
      "lb_record_event tr oid ''ORDER_ACCEPTED'' pl s2 = Inr t"
    using assms(4)
    by (cases answer; (cases "projl answer")?)
      (auto simp: lb_finish_submit_def Let_def rbind_Inr_iff split: gateway_error.splits)
  then show ?thesis
  proof cases
    case unknown
    then show ?thesis by (intro I_lb_record_event [OF tr [OF unknown(1)]]) auto
  next
    case failed
    then show ?thesis by (intro I_lb_record_event [OF tr [OF failed(1)]]) auto
  next
    case ok
    have "I s1" using assms(2,3) by (intro I_set_broker_id [OF assms(1) ok(1)]) auto
    then have "I s2" using ok(2) by (rule I_transition) auto
    then show ?thesis using ok(3) by (rule I_lb_record_event)
  qed
qed

lemma I_lb_submit_order:
  assumes "I s" and "lb_submit_order cfg tr oid q s g = (Inr (r, t), g')"
  shows "I t"
proof -
  obtain ord where ord: "find_order s oid = Some ord"
    using assms(2)
    by (cases "find_order s oid") (auto simp: lb_submit_order_def lb_prepare_submit_def get_order_def)
  then show ?thesis
  proof (cases rule: lb_submit_order_cases [where cfg = cfg and tr = tr and q = q and g = g])
    case (sent tp s1 r t ord')
    have "I s1" using assms(1) sent(4) by (rule I_transition) auto
    then have "I t" using sent(7) _ sent(5) by (rule I_lb_finish_submit) simp
    with sent(6) assms(2) show ?thesis by simp
  qed (use assms in \<open>auto intro: I_record\<close>)
qed

lemma I_lb_cancel_order:
  assumes "I s" and "lb_cancel_order tr oid s g = (Inr (r, t), g')"
  shows "I t"
proof -
  have tr: "I u" if "I v" "transition_order tr oid RECONCILING ev v = Inr u"
      "ev \<noteq> ''ORDER_IDEMPOTENCY_HIT''" for v ev u
    using that by (intro I_transition [OF that(1,2)]) simp_all
  obtain x s1 where prep: "lb_prepare_cancel tr oid s = Inr (x, s1)"
    using assms(2) by (cases "lb_prepare_cancel tr oid s") (auto simp: lb_cancel_order_def)
  have fin: "x = Inl r \<and> t = s1 \<or> (\<exists>bid answer. lb_finish_cancel tr oid bid answer s1 = Inr (r, t))"
    using assms(2) by (cases x) (auto simp: lb_cancel_order_def prep gw_cancel_order_def Let_def)
  have s1: "I s1" using prep assms(1)
    by (auto simp: lb_prepare_cancel_def rbind_Inr_iff split: if_splits option.splits
        intro: I_transition)
  from fin show ?thesis
  proof
    assume "\<exists>bid answer. lb_finish_cancel tr oid bid answer s1 = Inr (r, t)"
    then obtain bid answer where fin: "lb_finish_cancel tr oid bid answer s1 = Inr (r, t)" by blast
    show ?thesis
    proof (cases answer)
      case (Inl e)
      with fin show ?thesis
        by (cases e) (auto simp: lb_finish_cancel_def Let_def rbind_Inr_iff intro: tr [OF s1])
    next
      case Inr
      with fin show ?thesis
        by (auto simp: lb_finish_cancel_def Let_def rbind_Inr_iff intro: I_lb_record_event [OF s1])
    qed
  qed (use s1 in simp)
qed

end

text \<open>What pushes rely on: an order the broker knows has left the status \<open>CREATED\<close>.\<close>

locale placed_invariant = session_invariant +
  assumes I_placed: "I s \<Longrightarrow> find_order s oid = Some ord \<Longrightarrow> ord_broker_order_id ord \<noteq> None \<Longrightarrow>
    ord_status ord \<noteq> CREATED"
begin

lemma I_handle_order_event:
  assumes "I s" and "committed s" and "handle_order_event svc lb_repr payload trace_id s = Inr (found, t)"
  shows "I t"
proof -
  define tr s1 where "tr = fst (case trace_id of Some (c # cs) \<Rightarrow> (c # cs, s) | _ \<Rightarrow> new_id ''trace_push'' s)"
    and "s1 = snd (case trace_id of Some (c # cs) \<Rightarrow> (c # cs, s) | _ \<Rightarrow> new_id ''trace_push'' s)"
  have s1: "I s1" "committed s1"
    using assms(1,2) by (auto simp: s1_def committed_def visible_orders_def I_new_id
        split: option.splits list.splits)
  define bo where "bo = map_option (payload_str svc lb_repr)
    (payload_value payload [''order_id'', ''broker_order_id''])"
  define b where "b = (case bo of None \<Rightarrow> ''None'' | Some b \<Rightarrow> b)"
  let ?q = "query_orders s1 (\<lambda>row. ord_broker_order_id row = Some b)"
  define bf where "bf = map_option (payload_str svc lb_repr)
    (payload_value payload [''trade_id'', ''broker_fill_id''])"
  define st where "st = map_order_status (map_option (payload_str svc lb_repr)
    (payload_value payload [''status'', ''order_status'']))"
  note eval = assms(3) [unfolded handle_order_event_def Let_def case_prod_unfold,
    folded bo_def bf_def st_def tr_def s1_def, folded b_def]
  have cases: "t = record_broker_event ''longbridge'' tr bo ''ORDER_CHANGED'' payload bf s1 \<or>
    (\<exists>ord target u. ord \<in> set ?q \<and>
      transition_order tr (ord_order_id ord) target ''LONGBRIDGE_ORDER_PUSH''
        (record_broker_event ''longbridge'' tr bo ''ORDER_CHANGED'' payload bf s1) = Inr u \<and>
      (t = u \<or> (\<exists>ev pl. t = enqueue_event tr ev ''ORDER'' (ord_order_id ord) pl u)))"
  proof (cases ?q)
    case Nil
    with eval show ?thesis by simp
  next
    case (Cons ord rest)
    show ?thesis
    proof (cases "st = None \<or> st = Some (ord_status ord)")
      case True
      with eval Cons show ?thesis by auto
    next
      case False
      then obtain target where st: "st = Some target" "target \<noteq> ord_status ord" by auto
      then obtain u where u: "transition_order tr (ord_order_id ord) target ''LONGBRIDGE_ORDER_PUSH''
          (record_broker_event ''longbridge'' tr bo ''ORDER_CHANGED'' payload bf s1) = Inr u"
        and "t = (if target = FILLED then enqueue_event tr ''ORDER_FILLED'' ''ORDER'' (ord_order_id ord)
               [(''order_id'', JStr (ord_order_id ord)),
                (''broker_order_id'', json_opt JStr (ord_broker_order_id ord))] u
             else if target = CANCELLED then enqueue_event tr ''ORDER_CANCELLED'' ''ORDER''
               (ord_order_id ord) [(''order_id'', JStr (ord_order_id ord)),
                (''broker_order_id'', json_opt JStr (ord_broker_order_id ord))] u else u)"
        using eval Cons by (auto simp: rbind_Inr_iff)
      then have "t = u \<or> (\<exists>ev pl. t = enqueue_event tr ev ''ORDER'' (ord_order_id ord) pl u)"
        by (simp split: if_splits) blast+
      moreover have "ord \<in> set ?q" by (simp add: Cons)
      ultimately show ?thesis using u by blast
    qed
  qed
  from cases show ?thesis
  proof (elim disjE exE conjE)
    fix ord target u
    assume q: "ord \<in> set ?q" and step: "transition_order tr (ord_order_id ord) target ''LONGBRIDGE_ORDER_PUSH''
        (record_broker_event ''longbridge'' tr bo ''ORDER_CHANGED'' payload bf s1) = Inr u"
    have "ord_status ord \<noteq> CREATED"
      using query_committed [OF s1(2) q] by (intro I_placed [OF s1(1)]) auto
    then have u: "I u"
      using query_committed(2) [OF s1(2) q]
      by (intro I_transition [OF I_broker_event [OF s1(1)] step]) auto
    then show "t = u \<Longrightarrow> I t" and "\<And>ev pl. t = enqueue_event tr ev ''ORDER'' (ord_order_id ord) pl u \<Longrightarrow> I t"
      by (auto intro: I_enqueue)
  qed (use s1 in \<open>auto intro: I_broker_event\<close>)
qed

end

lemma created_initial: "CREATED \<notin> allowed_order_transitions s"
  by (cases s) simp_all

lemma lives_from_not_created: "lives_from s ts \<Longrightarrow> ts \<noteq> [] \<Longrightarrow> last ts \<noteq> CREATED"
  by (induction s ts rule: lives_from.induct) (auto simp: created_initial)

interpretation placed: placed_invariant trail_inv
proof unfold_locales
  fix s oid ord
  assume "trail_inv s" "find_order s oid = Some ord" "ord_broker_order_id ord \<noteq> None"
  then have "replays ord (order_trail s oid)" by (simp add: trail_inv_def)
  with \<open>ord_broker_order_id ord \<noteq> None\<close> obtain ts where "lives_from CREATED ts" "ts \<noteq> []"
    "last (CREATED # ts) = ord_status ord"
    by (auto simp: replays_def split: list.splits)
  then show "ord_status ord \<noteq> CREATED" using lives_from_not_created by fastforce
qed

end
