(* ===== verification/Trading_Book.thy ===== *)
theory Trading_Book
  imports Local_Sim
begin

text \<open>
  The abstract specification of the simulated broker: a book of accounts, positions, orders, fills
  and cash movements, without the logs, the identifiers and the flushes. Its steps say what the
  broker promises about money and shares; the invariants of the ledger are proved for the book, and
  the theory \<open>Sim_Refinement\<close> shows that the operations of \<open>broker/local_sim.py\<close> perform book steps.
\<close>

section \<open>The book\<close>

record book =
  bk_accounts :: "account list"
  bk_positions :: "position list"
  bk_orders :: "trade_order list"
  bk_fills :: "fill list"
  bk_ledger :: "cash_ledger list"

definition bk_account :: "book \<Rightarrow> string \<Rightarrow> account option" where
  "bk_account b a = row_at acc_account_id a (bk_accounts b)"

definition bk_position :: "book \<Rightarrow> string \<times> string \<Rightarrow> position option" where
  "bk_position b k = row_at pos_key k (bk_positions b)"

definition bk_order :: "book \<Rightarrow> string \<Rightarrow> trade_order option" where
  "bk_order b oid = row_at ord_order_id oid (bk_orders b)"

definition bk_put_account :: "account \<Rightarrow> book \<Rightarrow> book" where
  "bk_put_account a b = b\<lparr>bk_accounts := put_row acc_account_id a (bk_accounts b)\<rparr>"

definition bk_put_position :: "position \<Rightarrow> book \<Rightarrow> book" where
  "bk_put_position p b = b\<lparr>bk_positions := put_row pos_key p (bk_positions b)\<rparr>"

definition bk_put_order :: "trade_order \<Rightarrow> book \<Rightarrow> book" where
  "bk_put_order ord b = b\<lparr>bk_orders := put_row ord_order_id ord (bk_orders b)\<rparr>"

interpretation bk_account_store: row_store bk_account bk_put_account acc_account_id
  by unfold_locales
    (auto simp: bk_account_def bk_put_account_def row_at_put_row put_row_put_row dest: row_at_SomeD)

interpretation bk_position_store: row_store bk_position bk_put_position pos_key
  by unfold_locales
    (auto simp: bk_position_def bk_put_position_def row_at_put_row put_row_put_row dest: row_at_SomeD)

interpretation bk_order_store: row_store bk_order bk_put_order ord_order_id
  by unfold_locales
    (auto simp: bk_order_def bk_put_order_def row_at_put_row put_row_put_row dest: row_at_SomeD)

abbreviation ord_key :: "trade_order \<Rightarrow> string \<times> string" where
  "ord_key ord \<equiv> (ord_account_id ord, ord_symbol ord)"

definition zero_position :: "string \<times> string \<Rightarrow> position" where
  "zero_position k =
     \<lparr>pos_account_id = fst k, pos_symbol = snd k, pos_quantity = 0, pos_available_quantity = 0,
      pos_avg_cost = 0, pos_market_price = 0, pos_market_value = 0, pos_unrealized_pnl = 0\<rparr>"

definition open_position :: "string \<times> string \<Rightarrow> book \<Rightarrow> book" where
  "open_position k b =
     (case bk_position b k of
        None \<Rightarrow> b\<lparr>bk_positions := bk_positions b @ [zero_position k]\<rparr> | Some _ \<Rightarrow> b)"

definition account_sum :: "(position \<Rightarrow> rat) \<Rightarrow> string \<Rightarrow> position list \<Rightarrow> rat" where
  "account_sum f a ps = row_sum f (filter (\<lambda>p. pos_account_id p = a) ps)"

text \<open>The reservation of a resting buy order.\<close>

definition order_reserve :: "local_sim_config \<Rightarrow> trade_order \<Rightarrow> rat" where
  "order_reserve cfg ord =
     (case ord_limit_price ord of
        None \<Rightarrow> 0
      | Some p \<Rightarrow> ord_quantity ord * p + ls_commission cfg (ord_quantity ord * p))"

section \<open>Steps of the book\<close>

text \<open>
  The settlement of one order at one price: the account and position after \<open>settle\<close>, the position
  marked to the fill price, the account's totals recomputed from all its positions, one fill row and
  one ledger row with the amount that moved.
\<close>

definition book_fill :: "local_sim_config \<Rightarrow> trade_order \<Rightarrow> rat \<Rightarrow> book \<Rightarrow> book \<Rightarrow> bool" where
  "book_fill cfg ord fp b b' \<longleftrightarrow>
     (\<exists>a p a1 p1 amount ev f l ps.
        bk_account b (ord_account_id ord) = Some a \<and>
        bk_position (open_position (ord_key ord) b) (ord_key ord) = Some p \<and>
        settle cfg ord fp a p = Inr (a1, p1, amount, ev) \<and>
        fl_order_id f = ord_order_id ord \<and> fl_quantity f = ord_quantity ord \<and> fl_price f = fp \<and>
        cl_account_id l = ord_account_id ord \<and> cl_amount l = amount \<and>
        cl_balance_after l = acc_cash_available a1 \<and>
        ps = put_row pos_key (mark_position fp p1) (bk_positions (open_position (ord_key ord) b)) \<and>
        b' = b\<lparr>bk_accounts := put_row acc_account_id
                 (a1\<lparr>acc_unrealized_pnl := account_sum pos_unrealized_pnl (ord_account_id ord) ps,
                     acc_equity := acc_cash_available a1 + acc_cash_frozen a1
                       + account_sum pos_market_value (ord_account_id ord) ps\<rparr>) (bk_accounts b),
               bk_positions := ps,
               bk_orders := put_row ord_order_id (ord\<lparr>ord_filled_quantity := ord_quantity ord,
                 ord_avg_fill_price := Some fp, ord_status := FILLED\<rparr>) (bk_orders b),
               bk_fills := bk_fills b @ [f],
               bk_ledger := bk_ledger b @ [l]\<rparr>)"

text \<open>The setting aside of cash or shares before an order rests or crosses.\<close>

definition book_reserve ::
  "local_sim_config \<Rightarrow> trade_order \<Rightarrow> market_quote \<Rightarrow> book \<Rightarrow> book \<Rightarrow> bool" where
  "book_reserve cfg ord q b b' \<longleftrightarrow>
     (\<exists>a. bk_account b (ord_account_id ord) = Some a \<and>
       (if ord_side ord = BUY
        then \<exists>r. reserved_cash cfg ord (Some q) None = Inr r \<and> r \<le> acc_cash_available a \<and>
               b' = bk_put_account (a\<lparr>acc_cash_available := acc_cash_available a - r,
                      acc_cash_frozen := acc_cash_frozen a + r\<rparr>) b
        else if is_bracket_order ord then b' = b
        else \<exists>p. bk_position b (ord_key ord) = Some p \<and>
               ord_quantity ord \<le> pos_available_quantity p \<and>
               b' = bk_put_position (p\<lparr>pos_available_quantity :=
                      pos_available_quantity p - ord_quantity ord\<rparr>) b))"

definition book_release :: "local_sim_config \<Rightarrow> trade_order \<Rightarrow> book \<Rightarrow> book \<Rightarrow> bool" where
  "book_release cfg ord b b' \<longleftrightarrow>
     (\<exists>a. bk_account b (ord_account_id ord) = Some a \<and>
       (if ord_side ord = BUY
        then \<exists>r. reserved_cash cfg ord None None = Inr r \<and>
               b' = bk_put_account (a\<lparr>acc_cash_frozen := acc_cash_frozen a - r,
                      acc_cash_available := acc_cash_available a + r\<rparr>) b
        else if is_bracket_order ord then b' = b
        else \<exists>p. bk_position b (ord_key ord) = Some p \<and>
               b' = bk_put_position (p\<lparr>pos_available_quantity := pos_available_quantity p
                      + (ord_quantity ord - ord_filled_quantity ord)\<rparr>) b))"

definition submitted :: "trade_order \<Rightarrow> string option \<Rightarrow> trade_order" where
  "submitted ord bid = ord\<lparr>ord_status := SUBMITTED, ord_broker_order_id := bid\<rparr>"

text \<open>What a status change that moves neither money nor shares may do to an order.\<close>

definition relabelled :: "trade_order \<Rightarrow> trade_order \<Rightarrow> bool" where
  "relabelled ord ord' \<longleftrightarrow>
     ord_status ord \<in> {CREATED, RISK_APPROVED} \<and>
     ord_status ord' \<in> {RISK_APPROVED, RISK_REJECTED, FAILED} \<and>
     ord' = ord\<lparr>ord_status := ord_status ord', ord_risk_decision_id := ord_risk_decision_id ord'\<rparr>"

inductive book_step ::
  "(order_intent \<Rightarrow> bool) \<Rightarrow> local_sim_config \<Rightarrow> book \<Rightarrow> book \<Rightarrow> bool" for P cfg where
  new: "ord_status ord = CREATED \<Longrightarrow> ord_filled_quantity ord = 0 \<Longrightarrow>
    valid_order_intent (intent_of_order ord) \<Longrightarrow> P (intent_of_order ord) \<Longrightarrow>
    bk_order b (ord_order_id ord) = None \<Longrightarrow>
    ord_order_id ord \<notin> fl_order_id ` set (bk_fills b) \<Longrightarrow>
    book_step P cfg b (b\<lparr>bk_orders := bk_orders b @ [ord]\<rparr>)"
| relabel: "bk_order b oid = Some ord \<Longrightarrow> relabelled ord ord' \<Longrightarrow>
    book_step P cfg b (bk_put_order ord' b)"
| rest: "bk_order b oid = Some ord \<Longrightarrow> ord_status ord = RISK_APPROVED \<Longrightarrow>
    ord_order_type ord \<noteq> MARKET \<Longrightarrow> valid_market_quote q \<Longrightarrow> book_reserve cfg ord q b b1 \<Longrightarrow>
    book_step P cfg b (bk_put_order (submitted ord bid) b1)"
| cross: "bk_order b oid = Some ord \<Longrightarrow> ord_status ord = RISK_APPROVED \<Longrightarrow>
    ord_order_type ord = MARKET \<Longrightarrow> valid_market_quote q \<Longrightarrow> book_reserve cfg ord q b b1 \<Longrightarrow>
    ls_fill_price ord q = Some fp \<Longrightarrow>
    book_fill cfg (submitted ord bid) fp (bk_put_order (submitted ord bid) b1) b2 \<Longrightarrow>
    book_step P cfg b b2"
| fill: "bk_order b oid = Some ord \<Longrightarrow> ord_status ord = SUBMITTED \<Longrightarrow> valid_market_quote q \<Longrightarrow>
    ls_fill_price ord q = Some fp \<Longrightarrow> book_fill cfg ord fp b b1 \<Longrightarrow> book_step P cfg b b1"
| cancel: "bk_order b oid = Some ord \<Longrightarrow> ord_status ord = SUBMITTED \<Longrightarrow>
    book_release cfg ord b b1 \<Longrightarrow>
    book_step P cfg b (bk_put_order (ord\<lparr>ord_status := CANCELLED\<rparr>) b1)"

section \<open>What the steps change\<close>

lemma bk_put_simps [simp]:
  "bk_accounts (bk_put_order ord b) = bk_accounts b"
  "bk_positions (bk_put_order ord b) = bk_positions b"
  "bk_fills (bk_put_order ord b) = bk_fills b"
  "bk_ledger (bk_put_order ord b) = bk_ledger b"
  "bk_orders (bk_put_order ord b) = put_row ord_order_id ord (bk_orders b)"
  "bk_accounts (bk_put_account a b) = put_row acc_account_id a (bk_accounts b)"
  "bk_positions (bk_put_account a b) = bk_positions b"
  "bk_orders (bk_put_account a b) = bk_orders b"
  "bk_fills (bk_put_account a b) = bk_fills b"
  "bk_ledger (bk_put_account a b) = bk_ledger b"
  "bk_accounts (bk_put_position p b) = bk_accounts b"
  "bk_positions (bk_put_position p b) = put_row pos_key p (bk_positions b)"
  "bk_orders (bk_put_position p b) = bk_orders b"
  "bk_fills (bk_put_position p b) = bk_fills b"
  "bk_ledger (bk_put_position p b) = bk_ledger b"
  by (simp_all add: bk_put_order_def bk_put_account_def bk_put_position_def)

lemma bk_find_frame [simp]:
  "bk_account (bk_put_order ord b) = bk_account b"
  "bk_position (bk_put_order ord b) = bk_position b"
  "bk_position (bk_put_account a b) = bk_position b"
  "bk_order (bk_put_account a b) = bk_order b"
  "bk_account (bk_put_position p b) = bk_account b"
  "bk_order (bk_put_position p b) = bk_order b"
  by (simp_all add: fun_eq_iff bk_account_def bk_position_def bk_order_def)

lemma open_position_frame [simp]:
  "bk_accounts (open_position k b) = bk_accounts b"
  "bk_orders (open_position k b) = bk_orders b"
  "bk_fills (open_position k b) = bk_fills b"
  "bk_ledger (open_position k b) = bk_ledger b"
  by (simp_all add: open_position_def split: option.split)

lemma pos_key_zero [simp]: "pos_key (zero_position k) = k"
  by (simp add: zero_position_def)

lemma bk_position_open:
  "bk_position (open_position k b) j =
     (if j = k then Some (case bk_position b k of None \<Rightarrow> zero_position k | Some p \<Rightarrow> p)
      else bk_position b j)"
  by (auto simp: open_position_def bk_position_def row_at_append split: option.split)

lemma distinct_open_position:
  "distinct (map pos_key (bk_positions b)) \<Longrightarrow> distinct (map pos_key (bk_positions (open_position k b)))"
  by (auto simp: open_position_def bk_position_def row_at_None_iff split: option.split)

lemma submitted_simps [simp]:
  "ord_order_id (submitted ord bid) = ord_order_id ord"
  "ord_account_id (submitted ord bid) = ord_account_id ord"
  "ord_symbol (submitted ord bid) = ord_symbol ord"
  "ord_side (submitted ord bid) = ord_side ord"
  "ord_order_type (submitted ord bid) = ord_order_type ord"
  "ord_status (submitted ord bid) = SUBMITTED"
  "ord_quantity (submitted ord bid) = ord_quantity ord"
  "ord_filled_quantity (submitted ord bid) = ord_filled_quantity ord"
  "ord_limit_price (submitted ord bid) = ord_limit_price ord"
  "intent_of_order (submitted ord bid) = intent_of_order ord"
  "is_bracket_order (submitted ord bid) = is_bracket_order ord"
  by (simp_all add: submitted_def intent_of_order_def is_bracket_order_def)

lemma relabelledD:
  assumes "relabelled ord ord'"
  shows "ord_order_id ord' = ord_order_id ord" "intent_of_order ord' = intent_of_order ord"
    "ord_filled_quantity ord' = ord_filled_quantity ord"
    "ord_status ord \<in> {CREATED, RISK_APPROVED}"
    "ord_status ord' \<in> {RISK_APPROVED, RISK_REJECTED, FAILED}"
proof -
  obtain st rid where e: "ord' = ord\<lparr>ord_status := st, ord_risk_decision_id := rid\<rparr>"
    using assms unfolding relabelled_def by blast
  show "ord_order_id ord' = ord_order_id ord" "intent_of_order ord' = intent_of_order ord"
    "ord_filled_quantity ord' = ord_filled_quantity ord"
    by (simp_all add: e intent_of_order_def)
qed (use assms in \<open>auto simp: relabelled_def\<close>)

lemma valid_intent_of_order:
  assumes "valid_order_intent (intent_of_order ord)"
  shows "0 < ord_quantity ord" "opt_positive (ord_limit_price ord)"
    "ord_order_type ord \<noteq> MARKET \<Longrightarrow> ord_limit_price ord \<noteq> None"
  using assms by (cases "ord_order_type ord"; auto simp: valid_order_intent_def intent_of_order_def)+

section \<open>Well-formed books\<close>

definition order_wf :: "(order_intent \<Rightarrow> bool) \<Rightarrow> trade_order \<Rightarrow> bool" where
  "order_wf P ord \<longleftrightarrow>
     valid_order_intent (intent_of_order ord) \<and> P (intent_of_order ord) \<and>
     (ord_status ord = SUBMITTED \<longrightarrow> ord_order_type ord \<noteq> MARKET) \<and>
     (ord_status ord \<noteq> FILLED \<longrightarrow> ord_filled_quantity ord = 0) \<and>
     ord_status ord \<notin> {SUBMITTING, PARTIALLY_FILLED, CANCEL_PENDING, RECONCILING}"

definition book_wf :: "(order_intent \<Rightarrow> bool) \<Rightarrow> book \<Rightarrow> bool" where
  "book_wf P b \<longleftrightarrow>
     distinct (map ord_order_id (bk_orders b)) \<and> distinct (map pos_key (bk_positions b)) \<and>
     (\<forall>f \<in> set (bk_fills b). fl_order_id f \<in> ord_order_id ` set (bk_orders b)) \<and>
     (\<forall>ord \<in> set (bk_orders b). order_wf P ord)"

lemma bk_order_mem: "bk_order b oid = Some ord \<Longrightarrow> ord \<in> set (bk_orders b)"
  by (auto simp: bk_order_def dest: row_at_SomeD)

lemma book_wf_order: "book_wf P b \<Longrightarrow> bk_order b oid = Some ord \<Longrightarrow> order_wf P ord"
  by (auto simp: book_wf_def dest!: bk_order_mem)

lemma book_wf_put_order:
  assumes "book_wf P b" and "order_wf P ord"
  shows "book_wf P (bk_put_order ord b)"
  using assms by (auto simp: book_wf_def dest!: set_put_rowD)

lemma book_wf_cong:
  "book_wf P b \<Longrightarrow> bk_orders b' = bk_orders b \<Longrightarrow> bk_fills b' = bk_fills b \<Longrightarrow>
   map pos_key (bk_positions b') = map pos_key (bk_positions b)
   \<Longrightarrow> book_wf P b'"
  by (simp add: book_wf_def)

lemma book_reserve_frame:
  assumes "book_reserve cfg ord q b b1"
  shows "bk_orders b1 = bk_orders b" "bk_fills b1 = bk_fills b" "bk_ledger b1 = bk_ledger b"
    "map pos_key (bk_positions b1) = map pos_key (bk_positions b)"
  using assms by (auto simp: book_reserve_def split: if_splits)

lemma book_release_frame:
  assumes "book_release cfg ord b b1"
  shows "bk_orders b1 = bk_orders b" "bk_fills b1 = bk_fills b" "bk_ledger b1 = bk_ledger b"
    "map pos_key (bk_positions b1) = map pos_key (bk_positions b)"
  using assms by (auto simp: book_release_def split: if_splits)

text \<open>A release reads no order, so it commutes with the writes of orders.\<close>

lemma release_put_order:
  assumes "book_release cfg ord (bk_put_order x b) b2"
  shows "\<exists>b1. book_release cfg ord b b1 \<and> b2 = bk_put_order x b1"
proof -
  have comm: "bk_put_account a (bk_put_order x b) = bk_put_order x (bk_put_account a b)"
    "bk_put_position p (bk_put_order x b) = bk_put_order x (bk_put_position p b)" for a p
    by (simp_all add: bk_put_order_def bk_put_account_def bk_put_position_def)
  show ?thesis
  proof (cases "ord_side ord = BUY")
    case True
    with assms show ?thesis by (auto simp: book_release_def comm)
  next
    case False
    with assms show ?thesis by (cases "is_bracket_order ord") (auto simp: book_release_def comm)
  qed
qed

lemma book_fill_wf:
  assumes "distinct (map ord_order_id (bk_orders b))" and "distinct (map pos_key (bk_positions b))"
    and others: "\<And>x. x \<in> set (bk_orders b) \<Longrightarrow> ord_order_id x \<noteq> ord_order_id ord \<Longrightarrow> order_wf P x"
    and "valid_order_intent (intent_of_order ord)" and "P (intent_of_order ord)"
    and "(\<forall>f \<in> set (bk_fills b). fl_order_id f \<in> ord_order_id ` set (bk_orders b))"
    and "ord_order_id ord \<in> ord_order_id ` set (bk_orders b)"
    and fill: "book_fill cfg ord fp b b1"
  shows "book_wf P b1"
proof -
  have "intent_of_order (ord\<lparr>ord_filled_quantity := x, ord_avg_fill_price := y,
      ord_status := z\<rparr>) = intent_of_order ord" for x y z
    by (simp add: intent_of_order_def)
  then have "order_wf P (ord\<lparr>ord_filled_quantity := x, ord_avg_fill_price := y,
      ord_status := FILLED\<rparr>)" for x y
    using assms(4,5) by (simp add: order_wf_def)
  then show ?thesis
    using assms(1-3,6,7) fill distinct_open_position
    by (auto simp: book_wf_def book_fill_def dest!: set_put_rowD)
qed

lemma book_step_wf:
  assumes "book_wf P b" and "book_step P cfg b b'"
  shows "book_wf P b'"
  using assms(2)
proof cases
  case (new ord)
  with assms(1) show ?thesis
    by (auto simp: book_wf_def bk_order_def row_at_None_iff order_wf_def)
next
  case (relabel oid ord ord')
  then have "order_wf P ord'"
    using relabelledD [OF relabel(3)] book_wf_order [OF assms(1) relabel(2)]
    by (auto simp: order_wf_def)
  then show ?thesis unfolding relabel(1) using assms(1) by (intro book_wf_put_order)
next
  case (rest oid ord q b1 bid)
  note fr = book_reserve_frame [OF rest(6)]
  have wf1: "book_wf P b1" using assms(1) fr(1,2,4) by (rule book_wf_cong)
  have "order_wf P (submitted ord bid)"
    using book_wf_order [OF assms(1) rest(2)] rest(3,4) by (simp add: order_wf_def)
  then show ?thesis unfolding rest(1) using wf1 by (intro book_wf_put_order)
next
  case (cross oid ord q b1 fp bid)
  note fr = book_reserve_frame [OF cross(5)]
  have wf1: "book_wf P b1" using assms(1) fr(1,2,4) by (rule book_wf_cong)
  show ?thesis
  proof (rule book_fill_wf [OF _ _ _ _ _ _ _ cross(7), rotated 2])
    show "order_wf P x"
      if "x \<in> set (bk_orders (bk_put_order (submitted ord bid) b1))"
        "ord_order_id x \<noteq> ord_order_id (submitted ord bid)" for x
      using that wf1 by (auto simp: book_wf_def dest!: set_put_rowD)
  qed (use book_wf_order [OF assms(1) cross(1)] wf1 bk_order_mem [OF cross(1)] fr(1) in
      \<open>simp_all add: book_wf_def order_wf_def\<close>)
next
  case (fill oid ord q fp)
  show ?thesis using fill(5)
    by (rule book_fill_wf [rotated 7])
      (use assms(1) book_wf_order [OF assms(1) fill(1)] bk_order_mem [OF fill(1)] in \<open>auto simp: book_wf_def order_wf_def\<close>)
next
  case (cancel oid ord b1)
  note fr = book_release_frame [OF cancel(4)]
  have wf1: "book_wf P b1" using assms(1) fr(1,2,4) by (rule book_wf_cong)
  have "order_wf P (ord\<lparr>ord_status := CANCELLED\<rparr>)"
    using book_wf_order [OF assms(1) cancel(2)] cancel(3)
    by (simp add: order_wf_def intent_of_order_def)
  then show ?thesis unfolding cancel(1) using wf1 by (intro book_wf_put_order)
qed

end
