(* ===== verification/Book_Invariants.thy ===== *)
theory Book_Invariants
  imports Trading_Book
begin

text \<open>
  The ledger invariants of the book: cash moves only with ledger rows, frozen cash is the sum of the
  reservations of the resting buy orders, shares are either available or set aside by a resting sell
  order, cash stays non-negative, the equity of an account is its cash plus the value of its
  positions, and an order is filled exactly when it has its one full fill.

  Each is proved from what the three building blocks (reserve, release, fill) do to the numbers
  involved.
\<close>

section \<open>The numbers of a book\<close>

definition acc_view :: "(account \<Rightarrow> rat) \<Rightarrow> book \<Rightarrow> string \<Rightarrow> rat" where
  "acc_view f b a = (case bk_account b a of None \<Rightarrow> 0 | Some x \<Rightarrow> f x)"

definition pos_view :: "(position \<Rightarrow> rat) \<Rightarrow> book \<Rightarrow> string \<times> string \<Rightarrow> rat" where
  "pos_view f b k = (case bk_position b k of None \<Rightarrow> 0 | Some p \<Rightarrow> f p)"

definition ledger_total :: "book \<Rightarrow> string \<Rightarrow> rat" where
  "ledger_total b a = row_sum cl_amount (filter (\<lambda>l. cl_account_id l = a) (bk_ledger b))"

definition resting :: "order_side \<Rightarrow> trade_order \<Rightarrow> bool" where
  "resting sd ord \<longleftrightarrow> ord_status ord = SUBMITTED \<and> ord_side ord = sd"

definition frozen_by :: "local_sim_config \<Rightarrow> string \<Rightarrow> trade_order \<Rightarrow> rat" where
  "frozen_by cfg a ord =
     (if resting BUY ord \<and> ord_account_id ord = a then order_reserve cfg ord else 0)"

definition shares_by :: "string \<times> string \<Rightarrow> trade_order \<Rightarrow> rat" where
  "shares_by k ord = (if resting SELL ord \<and> ord_key ord = k then ord_quantity ord else 0)"

abbreviation cash_total :: "book \<Rightarrow> string \<Rightarrow> rat" where
  "cash_total b a \<equiv> acc_view acc_cash_available b a + acc_view acc_cash_frozen b a"

text \<open>What a fill moves: the amount booked, and the reservation it dissolves.\<close>

definition fill_amount :: "local_sim_config \<Rightarrow> trade_order \<Rightarrow> rat \<Rightarrow> rat" where
  "fill_amount cfg ord fp =
     (let gross = ord_quantity ord * fp
      in if ord_side ord = BUY then - (gross + ls_commission cfg gross)
         else gross - ls_commission cfg gross)"

definition fill_reserve :: "local_sim_config \<Rightarrow> trade_order \<Rightarrow> rat \<Rightarrow> rat" where
  "fill_reserve cfg ord fp =
     (if ord_side ord = BUY
      then let gross = ord_quantity ord * (case ord_limit_price ord of Some p \<Rightarrow> p | None \<Rightarrow> fp)
           in gross + ls_commission cfg gross
      else 0)"

lemma acc_view_put_account:
  assumes "bk_account b (acc_account_id a) = Some x"
  shows "acc_view f (bk_put_account a b) y = (if y = acc_account_id a then f a else acc_view f b y)"
  using assms by (auto simp: acc_view_def bk_account_store.get_put split: option.split)

lemma pos_view_put_position:
  assumes "bk_position b (pos_key p) = Some x"
  shows "pos_view f (bk_put_position p b) k = (if k = pos_key p then f p else pos_view f b k)"
  using assms by (auto simp: pos_view_def bk_position_store.get_put split: option.split)

lemma view_cong [simp]:
  "acc_view f (bk_put_order ord b) = acc_view f b"
  "acc_view f (bk_put_position p b) = acc_view f b"
  "pos_view g (bk_put_order ord b) = pos_view g b"
  "pos_view g (bk_put_account a b) = pos_view g b"
  "acc_view f (b\<lparr>bk_orders := os\<rparr>) = acc_view f b"
  "pos_view g (b\<lparr>bk_orders := os\<rparr>) = pos_view g b"
  by (simp_all add: fun_eq_iff acc_view_def pos_view_def bk_account_def bk_position_def)

lemma ledger_total_cong: "bk_ledger b' = bk_ledger b \<Longrightarrow> ledger_total b' = ledger_total b"
  by (simp add: ledger_total_def fun_eq_iff)

lemma row_sum_put_order:
  assumes "distinct (map ord_order_id os)" and "row_at ord_order_id (ord_order_id ord) os = Some old"
  shows "row_sum g (put_row ord_order_id ord os) = row_sum g os - g old + g ord"
  using assms by (rule row_sum_put_row)

lemma account_sum_put_other:
  "pos_account_id p \<noteq> x \<Longrightarrow> account_sum g x (put_row pos_key p ps) = account_sum g x ps"
  by (induction ps) (auto simp: account_sum_def)

lemma account_sum_open_other:
  "fst k \<noteq> x \<Longrightarrow>
     account_sum g x (bk_positions (open_position k b)) = account_sum g x (bk_positions b)"
  by (simp add: open_position_def account_sum_def zero_position_def split: option.split)

section \<open>What the building blocks do to the numbers\<close>

lemma settle_amounts:
  assumes "settle cfg ord fp a p = Inr (a1, p1, amount, ev)"
  shows "amount = fill_amount cfg ord fp"
    and "acc_cash_frozen a1 = acc_cash_frozen a - fill_reserve cfg ord fp"
    and "acc_cash_available a1 = acc_cash_available a + fill_reserve cfg ord fp + amount"
    and "pos_quantity p1 = (if ord_side ord = BUY then pos_quantity p + ord_quantity ord
           else max 0 (pos_quantity p - ord_quantity ord))"
    and "pos_available_quantity p1 = pos_available_quantity p +
           (if ord_side ord = BUY then ord_quantity ord else 0)"
  using assms
  by (auto simp: settle_def fill_amount_def fill_reserve_def reserved_cash_def Let_def rbind_Inr_iff
      split: if_splits option.splits)

lemma book_fillE:
  assumes "book_fill cfg ord fp b b'"
  obtains f where
    "\<And>x. acc_view acc_cash_frozen b' x = acc_view acc_cash_frozen b x -
       (if x = ord_account_id ord then fill_reserve cfg ord fp else 0)"
    "\<And>x. acc_view acc_cash_available b' x = acc_view acc_cash_available b x +
       (if x = ord_account_id ord then fill_reserve cfg ord fp + fill_amount cfg ord fp else 0)"
    "\<And>x. ledger_total b' x = ledger_total b x +
       (if x = ord_account_id ord then fill_amount cfg ord fp else 0)"
    "\<And>k. pos_view pos_quantity b' k =
       (if k \<noteq> ord_key ord then pos_view pos_quantity b k
        else if ord_side ord = BUY then pos_view pos_quantity b k + ord_quantity ord
        else max 0 (pos_view pos_quantity b k - ord_quantity ord))"
    "\<And>k. pos_view pos_available_quantity b' k = pos_view pos_available_quantity b k +
       (if k = ord_key ord \<and> ord_side ord = BUY then ord_quantity ord else 0)"
    "bk_orders b' = put_row ord_order_id (ord\<lparr>ord_filled_quantity := ord_quantity ord,
       ord_avg_fill_price := Some fp, ord_status := FILLED\<rparr>) (bk_orders b)"
    "bk_fills b' = bk_fills b @ [f]" "fl_order_id f = ord_order_id ord"
    "fl_quantity f = ord_quantity ord" "fl_price f = fp"
    "acc_view acc_equity b' (ord_account_id ord) = cash_total b' (ord_account_id ord) +
       account_sum pos_market_value (ord_account_id ord) (bk_positions b')"
    "\<And>x. x \<noteq> ord_account_id ord \<Longrightarrow> acc_view acc_equity b' x = acc_view acc_equity b x"
    "\<And>x g. x \<noteq> ord_account_id ord \<Longrightarrow>
       account_sum g x (bk_positions b') = account_sum g x (bk_positions b)"
proof -
  from assms obtain a p a1 p1 amount ev f l ps where
    a: "bk_account b (ord_account_id ord) = Some a" and
    p: "bk_position (open_position (ord_key ord) b) (ord_key ord) = Some p" and
    settle: "settle cfg ord fp a p = Inr (a1, p1, amount, ev)" and
    f: "fl_order_id f = ord_order_id ord" "fl_quantity f = ord_quantity ord" "fl_price f = fp" and
    l: "cl_account_id l = ord_account_id ord" "cl_amount l = amount" and
    ps: "ps = put_row pos_key (mark_position fp p1) (bk_positions (open_position (ord_key ord) b))" and
    b': "b' = b\<lparr>bk_accounts := put_row acc_account_id
             (a1\<lparr>acc_unrealized_pnl := account_sum pos_unrealized_pnl (ord_account_id ord) ps,
                 acc_equity := acc_cash_available a1 + acc_cash_frozen a1
                   + account_sum pos_market_value (ord_account_id ord) ps\<rparr>) (bk_accounts b),
           bk_positions := ps,
           bk_orders := put_row ord_order_id (ord\<lparr>ord_filled_quantity := ord_quantity ord,
             ord_avg_fill_price := Some fp, ord_status := FILLED\<rparr>) (bk_orders b),
           bk_fills := bk_fills b @ [f],
           bk_ledger := bk_ledger b @ [l]\<rparr>"
    by (auto simp: book_fill_def)
  note amounts = settle_amounts [OF settle]
  have aid: "acc_account_id a1 = ord_account_id ord"
    using settle_ids(1) [OF settle] bk_account_store.get_key [OF a] by simp
  have key: "pos_key p1 = ord_key ord"
    using settle_ids(2) [OF settle] bk_position_store.get_key [OF p] by simp
  have pz: "p = (case bk_position b (ord_key ord) of None \<Rightarrow> zero_position (ord_key ord) | Some p \<Rightarrow> p)"
    using p by (simp add: bk_position_open)
  have find: "bk_position b' k = (if k = ord_key ord then Some (mark_position fp p1)
      else bk_position b k)" for k
    using key p bk_position_open [of "ord_key ord" b k]
    by (auto simp: b' ps bk_position_def row_at_put_row split: option.splits)
  have acc: "bk_account b' x = (if x = ord_account_id ord
      then Some (a1\<lparr>acc_unrealized_pnl := account_sum pos_unrealized_pnl (ord_account_id ord) ps,
                 acc_equity := acc_cash_available a1 + acc_cash_frozen a1
                   + account_sum pos_market_value (ord_account_id ord) ps\<rparr>)
      else bk_account b x)" for x
    using a aid by (auto simp: b' bk_account_def row_at_put_row split: option.split)
  have fields: "bk_positions b' = ps" "bk_fills b' = bk_fills b @ [f]"
      "bk_orders b' = put_row ord_order_id (ord\<lparr>ord_filled_quantity := ord_quantity ord,
         ord_avg_fill_price := Some fp, ord_status := FILLED\<rparr>) (bk_orders b)"
    by (simp_all add: b')
  show thesis
  proof (rule that [of f])
    show "account_sum g x (bk_positions b') = account_sum g x (bk_positions b)"
      if "x \<noteq> ord_account_id ord" for x g
      using that key
      by (auto simp: b' ps account_sum_put_other account_sum_open_other)
    show "pos_view pos_quantity b' k =
       (if k \<noteq> ord_key ord then pos_view pos_quantity b k
        else if ord_side ord = BUY then pos_view pos_quantity b k + ord_quantity ord
        else max 0 (pos_view pos_quantity b k - ord_quantity ord))" for k
      using amounts(4) pz by (auto simp: pos_view_def find zero_position_def split: option.splits)
    show "pos_view pos_available_quantity b' k = pos_view pos_available_quantity b k +
       (if k = ord_key ord \<and> ord_side ord = BUY then ord_quantity ord else 0)" for k
      using amounts(5) pz by (auto simp: pos_view_def find zero_position_def split: option.splits)
    show "ledger_total b' x = ledger_total b x +
       (if x = ord_account_id ord then fill_amount cfg ord fp else 0)" for x
      using amounts(1) l by (simp add: ledger_total_def b')
  qed (use a amounts fields in \<open>simp_all add: acc_view_def acc f\<close>)
qed


lemma fill_reserve_limit:
  "ord_limit_price ord \<noteq> None \<Longrightarrow>
     fill_reserve cfg ord fp = (if ord_side ord = BUY then order_reserve cfg ord else 0)"
  by (auto simp: fill_reserve_def order_reserve_def Let_def)

lemma account_sum_put_same:
  assumes "distinct (map pos_key ps)" and "row_at pos_key (pos_key p) ps = Some old" and "g p = g old"
  shows "account_sum g x (put_row pos_key p ps) = account_sum g x ps"
  using assms
proof (induction ps)
  case (Cons q qs)
  then show ?case
    by (cases "pos_key q = pos_key p") (auto simp: account_sum_def put_row_fresh)
qed simp

text \<open>What a reservation sets aside, in cash and in shares.\<close>

definition set_aside :: "trade_order \<Rightarrow> string \<times> string \<Rightarrow> rat" where
  "set_aside ord k =
     (if k = ord_key ord \<and> ord_side ord = SELL \<and> \<not> is_bracket_order ord
      then ord_quantity ord else 0)"

lemma book_reserveE:
  assumes "book_reserve cfg ord q b b1" and "distinct (map pos_key (bk_positions b))"
  obtains r where
    "r = fill_reserve cfg ord (or_else (mq_ask_price q) (mq_last_price q))"
    "\<And>x. acc_view acc_cash_frozen b1 x = acc_view acc_cash_frozen b x +
       (if x = ord_account_id ord then r else 0)"
    "\<And>x. acc_view acc_cash_available b1 x = acc_view acc_cash_available b x -
       (if x = ord_account_id ord then r else 0)"
    "ord_side ord = BUY \<Longrightarrow> r \<le> acc_view acc_cash_available b (ord_account_id ord)"
    "pos_view pos_quantity b1 = pos_view pos_quantity b"
    "\<And>k. pos_view pos_available_quantity b1 k = pos_view pos_available_quantity b k - set_aside ord k"
    "ord_side ord = SELL \<Longrightarrow> \<not> is_bracket_order ord \<Longrightarrow>
       ord_quantity ord \<le> pos_view pos_available_quantity b (ord_key ord)"
    "acc_view acc_equity b1 = acc_view acc_equity b"
    "\<And>x. account_sum pos_market_value x (bk_positions b1) =
       account_sum pos_market_value x (bk_positions b)"
proof -
  from assms(1) obtain a where a: "bk_account b (ord_account_id ord) = Some a"
    by (auto simp: book_reserve_def)
  then have aid: "acc_account_id a = ord_account_id ord" by (rule bk_account_store.get_key)
  let ?r = "fill_reserve cfg ord (or_else (mq_ask_price q) (mq_last_price q))"
  consider (buy) "ord_side ord = BUY" "?r \<le> acc_cash_available a"
      "b1 = bk_put_account (a\<lparr>acc_cash_available := acc_cash_available a - ?r,
         acc_cash_frozen := acc_cash_frozen a + ?r\<rparr>) b"
    | (bracket) "ord_side ord = SELL" "is_bracket_order ord" "b1 = b"
    | (sell) p where "ord_side ord = SELL" "\<not> is_bracket_order ord"
        "bk_position b (ord_key ord) = Some p" "ord_quantity ord \<le> pos_available_quantity p"
        "b1 = bk_put_position (p\<lparr>pos_available_quantity :=
           pos_available_quantity p - ord_quantity ord\<rparr>) b"
    using assms(1) a
    by (cases "ord_side ord")
      (auto simp: book_reserve_def reserved_cash_def fill_reserve_def rbind_Inr_iff Let_def
        split: if_splits option.splits)
  then show thesis
  proof cases
    case buy
    then show thesis
      using a aid acc_view_put_account [of b "a\<lparr>acc_cash_available := acc_cash_available a - ?r,
         acc_cash_frozen := acc_cash_frozen a + ?r\<rparr>"]
      by (intro that [of ?r]) (auto simp: set_aside_def acc_view_def fun_eq_iff)
  next
    case bracket
    then show thesis by (intro that [of ?r]) (auto simp: set_aside_def fill_reserve_def)
  next
    case (sell p)
    have key: "pos_key p = ord_key ord" using sell(3) by (rule bk_position_store.get_key)
    show thesis
      using sell key pos_view_put_position [of b "p\<lparr>pos_available_quantity :=
           pos_available_quantity p - ord_quantity ord\<rparr>"] assms(2)
      by (intro that [of ?r])
        (auto simp: set_aside_def fill_reserve_def pos_view_def fun_eq_iff
          bk_position_def account_sum_put_same)
  qed
qed

lemma book_releaseE:
  assumes "book_release cfg ord b b1" and "distinct (map pos_key (bk_positions b))"
  obtains
    "ord_side ord = BUY \<Longrightarrow> ord_limit_price ord \<noteq> None"
    "\<And>x. acc_view acc_cash_frozen b1 x = acc_view acc_cash_frozen b x -
       (if x = ord_account_id ord \<and> ord_side ord = BUY then order_reserve cfg ord else 0)"
    "\<And>x. acc_view acc_cash_available b1 x = acc_view acc_cash_available b x +
       (if x = ord_account_id ord \<and> ord_side ord = BUY then order_reserve cfg ord else 0)"
    "pos_view pos_quantity b1 = pos_view pos_quantity b"
    "\<And>k. ord_filled_quantity ord = 0 \<Longrightarrow>
       pos_view pos_available_quantity b1 k = pos_view pos_available_quantity b k + set_aside ord k"
    "acc_view acc_equity b1 = acc_view acc_equity b"
    "\<And>x. account_sum pos_market_value x (bk_positions b1) =
       account_sum pos_market_value x (bk_positions b)"
proof -
  from assms(1) obtain a where a: "bk_account b (ord_account_id ord) = Some a"
    by (auto simp: book_release_def)
  then have aid: "acc_account_id a = ord_account_id ord" by (rule bk_account_store.get_key)
  let ?r = "order_reserve cfg ord"
  consider (buy) "ord_side ord = BUY" "ord_limit_price ord \<noteq> None"
      "b1 = bk_put_account (a\<lparr>acc_cash_frozen := acc_cash_frozen a - ?r,
         acc_cash_available := acc_cash_available a + ?r\<rparr>) b"
    | (bracket) "ord_side ord = SELL" "is_bracket_order ord" "b1 = b"
    | (sell) p where "ord_side ord = SELL" "\<not> is_bracket_order ord"
        "bk_position b (ord_key ord) = Some p"
        "b1 = bk_put_position (p\<lparr>pos_available_quantity := pos_available_quantity p +
           (ord_quantity ord - ord_filled_quantity ord)\<rparr>) b"
    using assms(1) a
    by (cases "ord_side ord")
      (auto simp: book_release_def reserved_cash_def order_reserve_def rbind_Inr_iff
        split: if_splits option.splits)
  then show thesis
  proof cases
    case buy
    then show thesis
      using a aid acc_view_put_account [of b "a\<lparr>acc_cash_frozen := acc_cash_frozen a - ?r,
         acc_cash_available := acc_cash_available a + ?r\<rparr>"]
      by (intro that) (auto simp: set_aside_def acc_view_def fun_eq_iff)
  next
    case bracket
    then show thesis by (intro that) (auto simp: set_aside_def)
  next
    case (sell p)
    have key: "pos_key p = ord_key ord" using sell(3) by (rule bk_position_store.get_key)
    show thesis
      using sell key pos_view_put_position [of b "p\<lparr>pos_available_quantity :=
           pos_available_quantity p + (ord_quantity ord - ord_filled_quantity ord)\<rparr>"] assms(2)
      by (intro that)
        (auto simp: set_aside_def pos_view_def fun_eq_iff bk_position_def account_sum_put_same)
  qed
qed


section \<open>The net effect of a step\<close>

text \<open>
  \<open>order_moves ord ord'\<close>: the step replaced the order \<open>ord\<close> by \<open>ord'\<close>; the cash of its account, the
  shares of its position and the ledger changed by what the two states of the order account for.
\<close>

definition traded :: "trade_order \<Rightarrow> rat" where
  "traded ord = (if ord_status ord \<noteq> FILLED then 0
     else if ord_side ord = BUY then ord_quantity ord else - ord_quantity ord)"

definition order_moves ::
  "local_sim_config \<Rightarrow> trade_order \<Rightarrow> trade_order \<Rightarrow> rat \<Rightarrow> book \<Rightarrow> book \<Rightarrow> bool" where
  "order_moves cfg ord ord' amount b b' \<longleftrightarrow>
     bk_order b (ord_order_id ord) = Some ord \<and> ord_status ord \<noteq> FILLED \<and>
     ord_order_id ord' = ord_order_id ord \<and> intent_of_order ord' = intent_of_order ord \<and>
     bk_orders b' = put_row ord_order_id ord' (bk_orders b) \<and>
     (\<forall>x. acc_view acc_cash_frozen b' x = acc_view acc_cash_frozen b x +
        (frozen_by cfg x ord' - frozen_by cfg x ord)) \<and>
     (\<forall>x. acc_view acc_cash_available b' x = acc_view acc_cash_available b x +
        (if x = ord_account_id ord then amount else 0) - (frozen_by cfg x ord' - frozen_by cfg x ord)) \<and>
     (\<forall>x. ledger_total b' x = ledger_total b x + (if x = ord_account_id ord then amount else 0)) \<and>
     (ord_status ord' \<noteq> FILLED \<longrightarrow> amount = 0) \<and>
     (\<forall>k. pos_view pos_quantity b' k =
        (if k = ord_key ord \<and> ord_status ord' = FILLED
         then (if ord_side ord = BUY then pos_view pos_quantity b k + ord_quantity ord
               else max 0 (pos_view pos_quantity b k - ord_quantity ord))
         else pos_view pos_quantity b k)) \<and>
     (\<not> is_bracket_order ord \<longrightarrow> (\<forall>k. pos_view pos_available_quantity b' k =
        pos_view pos_available_quantity b k + (if k = ord_key ord then traded ord' else 0)
          - (shares_by k ord' - shares_by k ord))) \<and>
     (\<not> is_bracket_order ord \<longrightarrow> ord_side ord = SELL \<longrightarrow> ord_status ord \<noteq> SUBMITTED \<longrightarrow>
        ord_status ord' \<in> {SUBMITTED, FILLED} \<longrightarrow>
        ord_quantity ord \<le> pos_view pos_available_quantity b (ord_key ord))"

lemma intent_of_order_eqD:
  assumes "intent_of_order ord' = intent_of_order ord"
  shows "ord_account_id ord' = ord_account_id ord" "ord_symbol ord' = ord_symbol ord"
    "ord_side ord' = ord_side ord" "ord_order_type ord' = ord_order_type ord"
    "ord_quantity ord' = ord_quantity ord" "ord_limit_price ord' = ord_limit_price ord"
  using assms by (simp_all add: intent_of_order_def)

lemma order_wf_reserve:
  assumes "order_wf P ord" and "ord_order_type ord \<noteq> MARKET"
  shows "fill_reserve cfg ord fp = (if ord_side ord = BUY then order_reserve cfg ord else 0)"
  using assms valid_intent_of_order(3) [of ord]
  by (simp add: order_wf_def fill_reserve_limit del: not_None_eq)

lemma intent_of_order_upd [simp]:
  "intent_of_order (ord\<lparr>ord_status := st\<rparr>) = intent_of_order ord"
  "intent_of_order (ord\<lparr>ord_filled_quantity := q\<rparr>) = intent_of_order ord"
  "intent_of_order (ord\<lparr>ord_avg_fill_price := p\<rparr>) = intent_of_order ord"
  by (simp_all add: intent_of_order_def)

lemma moves_relabel:
  assumes "bk_order b oid = Some ord" and "relabelled ord ord'"
  shows "order_moves cfg ord ord' 0 b (bk_put_order ord' b)"
  using assms relabelledD [OF assms(2)] bk_order_store.get_key [OF assms(1)]
    intent_of_order_eqD [OF relabelledD(2) [OF assms(2)]]
  by (auto simp: order_moves_def frozen_by_def shares_by_def resting_def traded_def
      intro: ledger_total_cong [THEN fun_cong])

lemma moves_rest:
  assumes wf: "book_wf P b" and ord: "bk_order b oid = Some ord"
    and st: "ord_status ord = RISK_APPROVED" "ord_order_type ord \<noteq> MARKET"
    and res: "book_reserve cfg ord q b b1"
  shows "order_moves cfg ord (submitted ord bid) 0 b (bk_put_order (submitted ord bid) b1)"
proof -
  have owf: "order_wf P ord" using wf ord by (rule book_wf_order)
  have dist: "distinct (map pos_key (bk_positions b))" using wf by (simp add: book_wf_def)
  have id: "ord_order_id ord = oid" using ord by (rule bk_order_store.get_key)
  have reserve: "order_reserve cfg (submitted ord bid) = order_reserve cfg ord"
    by (simp add: order_reserve_def split: option.split)
  note fr = book_reserve_frame [OF res]
  from book_reserveE [OF res dist] show ?thesis
  proof cases
    case (1 r)
    show ?thesis unfolding order_moves_def
      by (intro conjI; cases "ord_side ord")
        (use ord id st fr in \<open>simp_all add: 1 order_wf_reserve [OF owf st(2)] reserve frozen_by_def
          shares_by_def resting_def traded_def set_aside_def ledger_total_def\<close>)
  qed
qed

lemma moves_fill:
  assumes wf: "book_wf P b" and ord: "bk_order b oid = Some ord"
    and st: "ord_status ord = SUBMITTED" and fill: "book_fill cfg ord fp b b'"
  shows "\<exists>ord'. order_moves cfg ord ord' (fill_amount cfg ord fp) b b' \<and> ord_status ord' = FILLED"
proof (intro exI conjI)
  let ?ord = "ord\<lparr>ord_filled_quantity := ord_quantity ord, ord_avg_fill_price := Some fp,
       ord_status := FILLED\<rparr>"
  have owf: "order_wf P ord" using wf ord by (rule book_wf_order)
  then have type: "ord_order_type ord \<noteq> MARKET" using st by (simp add: order_wf_def)
  have id: "ord_order_id ord = oid" using ord by (rule bk_order_store.get_key)
  from book_fillE [OF fill] show "order_moves cfg ord ?ord (fill_amount cfg ord fp) b b'"
  proof cases
    case (1 f)
    show ?thesis unfolding order_moves_def
      by (intro conjI; cases "ord_side ord")
        (use ord id st in \<open>simp_all add: 1 order_wf_reserve [OF owf type] frozen_by_def
          shares_by_def resting_def traded_def\<close>)
  qed
qed simp

lemma moves_cancel:
  assumes wf: "book_wf P b" and ord: "bk_order b oid = Some ord"
    and st: "ord_status ord = SUBMITTED" and rel: "book_release cfg ord b b1"
  shows "order_moves cfg ord (ord\<lparr>ord_status := CANCELLED\<rparr>) 0 b
           (bk_put_order (ord\<lparr>ord_status := CANCELLED\<rparr>) b1)"
proof -
  have owf: "order_wf P ord" using wf ord by (rule book_wf_order)
  then have filled: "ord_filled_quantity ord = 0" using st by (simp add: order_wf_def)
  have dist: "distinct (map pos_key (bk_positions b))" using wf by (simp add: book_wf_def)
  have id: "ord_order_id ord = oid" using ord by (rule bk_order_store.get_key)
  note fr = book_release_frame [OF rel]
  from book_releaseE [OF rel dist] show ?thesis
  proof cases
    case 1
    show ?thesis unfolding order_moves_def
      by (intro conjI; cases "ord_side ord")
        (use ord id st fr in \<open>simp_all add: 1 filled frozen_by_def shares_by_def resting_def
          traded_def set_aside_def ledger_total_def\<close>)
  qed
qed


lemma fill_reserve_submitted:
  assumes "ord_order_type ord = MARKET" and "ls_fill_price ord q = Some fp"
  shows "fill_reserve cfg (submitted ord bid) fp =
    fill_reserve cfg ord (or_else (mq_ask_price q) (mq_last_price q))"
  using assms by (auto simp: fill_reserve_def ls_fill_price_def Let_def)

lemma moves_cross:
  assumes wf: "book_wf P b" and ord: "bk_order b oid = Some ord"
    and st: "ord_status ord = RISK_APPROVED" "ord_order_type ord = MARKET"
    and res: "book_reserve cfg ord q b b1" and fp: "ls_fill_price ord q = Some fp"
    and fill: "book_fill cfg (submitted ord bid) fp (bk_put_order (submitted ord bid) b1) b2"
  shows "\<exists>ord'. order_moves cfg ord ord' (fill_amount cfg ord fp) b b2 \<and> ord_status ord' = FILLED"
proof (intro exI conjI)
  let ?ord = "(submitted ord bid)\<lparr>ord_filled_quantity := ord_quantity ord,
       ord_avg_fill_price := Some fp, ord_status := FILLED\<rparr>"
  have dist: "distinct (map pos_key (bk_positions b))" using wf by (simp add: book_wf_def)
  have id: "ord_order_id ord = oid" using ord by (rule bk_order_store.get_key)
  have amount: "fill_amount cfg (submitted ord bid) fp = fill_amount cfg ord fp"
    by (simp add: fill_amount_def)
  have nb: "\<not> is_bracket_order ord" using st by (simp add: is_bracket_order_def)
  note fr = book_reserve_frame [OF res]
  have ledger: "ledger_total (bk_put_order (submitted ord bid) b1) = ledger_total b"
    by (rule ledger_total_cong) (simp add: fr)
  from book_reserveE [OF res dist] show "order_moves cfg ord ?ord (fill_amount cfg ord fp) b b2"
  proof cases
    case r: (1 r)
    from book_fillE [OF fill] show ?thesis
    proof cases
      case (1 f)
      show ?thesis unfolding order_moves_def
        by (intro conjI; cases "ord_side ord")
          (use ord id st fr nb in \<open>simp_all add: 1 r fill_reserve_submitted [OF st(2) fp] amount
            ledger frozen_by_def shares_by_def resting_def traded_def set_aside_def
            put_row_put_row\<close>)
    qed
  qed
qed simp

text \<open>Every step is the creation of an order or the move of one order.\<close>

lemma book_step_moves:
  assumes "book_wf P b" and "book_step P cfg b b'"
  obtains
    (created) ord where "ord_status ord = CREATED" "bk_order b (ord_order_id ord) = None"
      "b' = b\<lparr>bk_orders := bk_orders b @ [ord]\<rparr>"
  | (moved) ord ord' amount where "order_moves cfg ord ord' amount b b'" "order_wf P ord"
  using assms(2)
proof cases
  case (new ord)
  then show thesis by (intro created)
next
  case (relabel oid ord ord')
  have "order_moves cfg ord ord' 0 b b'" unfolding relabel(1) using relabel(2,3) by (rule moves_relabel)
  then show thesis using book_wf_order [OF assms(1) relabel(2)] by (rule moved)
next
  case (rest oid ord q b1 bid)
  have "order_moves cfg ord (submitted ord bid) 0 b b'"
    unfolding rest(1) using assms(1) rest(2,3,4,6) by (rule moves_rest)
  then show thesis using book_wf_order [OF assms(1) rest(2)] by (rule moved)
next
  case (cross oid ord q b1 fp bid)
  then show thesis using moves_cross [OF assms(1)] book_wf_order [OF assms(1)] by (blast intro: moved)
next
  case (fill oid ord q fp)
  then show thesis using moves_fill [OF assms(1)] book_wf_order [OF assms(1)] by (blast intro: moved)
next
  case (cancel oid ord b1)
  have "order_moves cfg ord (ord\<lparr>ord_status := CANCELLED\<rparr>) 0 b b'"
    unfolding cancel(1) using assms(1) cancel(2,3,4) by (rule moves_cancel)
  then show thesis using book_wf_order [OF assms(1) cancel(2)] by (rule moved)
qed

section \<open>Cash moves with the ledger\<close>

definition cash_booked :: "(string \<Rightarrow> rat) \<Rightarrow> book \<Rightarrow> bool" where
  "cash_booked base b \<longleftrightarrow> (\<forall>a. cash_total b a = base a + ledger_total b a)"

lemma cash_booked_step:
  assumes "book_wf P b" and "cash_booked base b" and "book_step P cfg b b'"
  shows "cash_booked base b'"
  using assms(1,3)
proof (cases rule: book_step_moves)
  case created
  with assms(2) show ?thesis by (simp add: cash_booked_def ledger_total_def)
next
  case (moved ord ord' amount)
  with assms(2) show ?thesis by (auto simp: cash_booked_def order_moves_def)
qed

section \<open>Frozen cash backs the resting buy orders\<close>

definition frozen_backed :: "local_sim_config \<Rightarrow> book \<Rightarrow> bool" where
  "frozen_backed cfg b \<longleftrightarrow>
     (\<forall>a. acc_view acc_cash_frozen b a = row_sum (frozen_by cfg a) (bk_orders b))"

lemma moved_row_sum:
  assumes "book_wf P b" and "order_moves cfg ord ord' amount b b'"
  shows "row_sum g (bk_orders b') = row_sum g (bk_orders b) - g ord + g ord'"
proof -
  have "distinct (map ord_order_id (bk_orders b))" using assms(1) by (simp add: book_wf_def)
  moreover have "row_at ord_order_id (ord_order_id ord') (bk_orders b) = Some ord"
    and "bk_orders b' = put_row ord_order_id ord' (bk_orders b)"
    using assms(2) by (simp_all add: order_moves_def bk_order_def)
  ultimately show ?thesis by (simp add: row_sum_put_order)
qed

lemma frozen_backed_step:
  assumes "book_wf P b" and "frozen_backed cfg b" and "book_step P cfg b b'"
  shows "frozen_backed cfg b'"
  using assms(1,3)
proof (cases rule: book_step_moves)
  case (created ord)
  with assms(2) show ?thesis by (simp add: frozen_backed_def frozen_by_def resting_def)
next
  case (moved ord ord' amount)
  with assms(2) moved_row_sum [OF assms(1) moved(1)] show ?thesis
    by (simp add: frozen_backed_def order_moves_def)
qed

section \<open>Shares are available or set aside\<close>

definition no_bracket :: "order_intent \<Rightarrow> bool" where
  "no_bracket i \<longleftrightarrow> \<not> (oi_side i = SELL \<and> oi_order_type i \<in> {LIMIT_IF_TOUCHED, STOP_LIMIT})"

definition shares_backed :: "book \<Rightarrow> bool" where
  "shares_backed b \<longleftrightarrow>
     (\<forall>k. pos_view pos_quantity b k =
        pos_view pos_available_quantity b k + row_sum (shares_by k) (bk_orders b) \<and>
        0 \<le> pos_view pos_available_quantity b k)"

lemma no_bracket_iff: "no_bracket (intent_of_order ord) \<longleftrightarrow> \<not> is_bracket_order ord"
  by (simp add: no_bracket_def is_bracket_order_def intent_of_order_def)

lemma shares_by_nonneg: "order_wf P ord \<Longrightarrow> 0 \<le> shares_by k ord"
  using valid_intent_of_order(1) by (force simp: order_wf_def shares_by_def)

lemma resting_shares_le:
  assumes "book_wf P b" and "bk_order b oid = Some ord" and "resting SELL ord"
  shows "ord_quantity ord \<le> row_sum (shares_by (ord_key ord)) (bk_orders b)"
proof -
  have "shares_by (ord_key ord) ord \<le> row_sum (shares_by (ord_key ord)) (bk_orders b)"
    using assms(1) bk_order_mem [OF assms(2)]
    by (intro row_sum_member_le) (auto simp: book_wf_def intro: shares_by_nonneg)
  with assms(3) show ?thesis by (simp add: shares_by_def)
qed


lemma row_shares_nonneg: "book_wf P b \<Longrightarrow> 0 \<le> row_sum (shares_by k) (bk_orders b)"
  by (auto simp: book_wf_def intro!: row_sum_nonneg shares_by_nonneg)

lemma shares_backed_moves:
  assumes wf: "book_wf P b" and inv: "shares_backed b" and mv: "order_moves cfg ord ord' amount b b'"
    and nb: "\<not> is_bracket_order ord" and owf: "order_wf P ord"
  shows "shares_backed b'"
  unfolding shares_backed_def
proof (rule allI)
  fix k
  have q: "0 < ord_quantity ord" using owf valid_intent_of_order(1) by (auto simp: order_wf_def)
  have same: "ord_side ord' = ord_side ord" "ord_key ord' = ord_key ord"
      "ord_quantity ord' = ord_quantity ord" "ord_status ord \<noteq> FILLED"
      "bk_order b (ord_order_id ord) = Some ord"
    using mv intent_of_order_eqD [of ord' ord] by (simp_all add: order_moves_def)
  have av: "pos_view pos_available_quantity b' k = pos_view pos_available_quantity b k
      + (if k = ord_key ord then traded ord' else 0) - (shares_by k ord' - shares_by k ord)"
    and qt: "pos_view pos_quantity b' k =
        (if k = ord_key ord \<and> ord_status ord' = FILLED
         then (if ord_side ord = BUY then pos_view pos_quantity b k + ord_quantity ord
               else max 0 (pos_view pos_quantity b k - ord_quantity ord))
         else pos_view pos_quantity b k)"
    and le: "ord_side ord = SELL \<Longrightarrow> ord_status ord \<noteq> SUBMITTED \<Longrightarrow>
        ord_status ord' \<in> {SUBMITTED, FILLED} \<Longrightarrow>
        ord_quantity ord \<le> pos_view pos_available_quantity b (ord_key ord)"
    using mv nb unfolding order_moves_def by blast+
  have old: "pos_view pos_quantity b k = pos_view pos_available_quantity b k
      + row_sum (shares_by k) (bk_orders b)" "0 \<le> pos_view pos_available_quantity b k"
    using inv unfolding shares_backed_def by blast+
  note sums = moved_row_sum [OF wf mv, of "shares_by k"] row_shares_nonneg [OF wf, of k]
  have rest: "ord_quantity ord \<le> row_sum (shares_by k) (bk_orders b)"
    if "k = ord_key ord" "ord_side ord = SELL" "ord_status ord = SUBMITTED"
    using resting_shares_le [OF wf same(5)] that by (simp add: resting_def)
  show "pos_view pos_quantity b' k =
        pos_view pos_available_quantity b' k + row_sum (shares_by k) (bk_orders b') \<and>
        0 \<le> pos_view pos_available_quantity b' k"
  proof (cases "ord_side ord")
    case BUY
    with q old sums same av qt show ?thesis
      by (auto simp: shares_by_def resting_def traded_def)
  next
    case SELL
    then show ?thesis
      using q old sums same le rest av qt
      by (cases "k = ord_key ord"; cases "ord_status ord' = FILLED"; cases "ord_status ord = SUBMITTED")
        (auto simp: shares_by_def resting_def traded_def max_def)
  qed
qed

lemma shares_backed_step:
  assumes "book_wf P b" and "shares_backed b" and "book_step P cfg b b'"
    and "\<And>i. P i \<Longrightarrow> no_bracket i"
  shows "shares_backed b'"
  using assms(1,3)
proof (cases rule: book_step_moves)
  case (created ord)
  with assms(2) show ?thesis by (simp add: shares_backed_def shares_by_def resting_def)
next
  case (moved ord ord' amount)
  then have "\<not> is_bracket_order ord" using assms(4) no_bracket_iff by (auto simp: order_wf_def)
  then show ?thesis using assms(1,2) moved by (blast intro: shares_backed_moves)
qed

section \<open>Cash stays non-negative\<close>

definition fair_commission :: "local_sim_config \<Rightarrow> bool" where
  "fair_commission cfg \<longleftrightarrow> 0 \<le> commission_rate cfg \<and>
     (commission_rate cfg = 0 \<or> commission_rate cfg \<le> 1 \<and> minimum_commission cfg = 0)"

definition unpriced_market :: "order_intent \<Rightarrow> bool" where
  "unpriced_market i \<longleftrightarrow> (oi_order_type i = MARKET \<longrightarrow> oi_limit_price i = None)"

lemma commission_bounds:
  assumes "fair_commission cfg" and "0 \<le> g"
  shows "0 \<le> ls_commission cfg g" and "ls_commission cfg g \<le> g"
    and "g \<le> h \<Longrightarrow> ls_commission cfg g \<le> ls_commission cfg h"
proof -
  have "g * commission_rate cfg \<le> g * 1" if "commission_rate cfg \<le> 1"
    using assms(2) that by (intro mult_left_mono)
  then show "0 \<le> ls_commission cfg g" "ls_commission cfg g \<le> g"
    using assms by (auto simp: fair_commission_def ls_commission_def)
  show "ls_commission cfg g \<le> ls_commission cfg h" if "g \<le> h"
    using assms that mult_right_mono [of g h "commission_rate cfg"]
    by (auto simp: fair_commission_def ls_commission_def max_def)
qed

lemma fill_price_pos: "valid_market_quote q \<Longrightarrow> ls_fill_price ord q = Some fp \<Longrightarrow> 0 < fp"
  using valid_market_quote_prices [of q]
  by (auto simp: ls_fill_price_def Let_def split: if_splits option.splits)

lemma fill_price_submitted [simp]: "ls_fill_price (submitted ord bid) = ls_fill_price ord"
  by (cases "ord_limit_price ord") (simp_all add: fun_eq_iff ls_fill_price_def Let_def)

lemma fill_price_buy_limit:
  "ls_fill_price ord q = Some fp \<Longrightarrow> ord_side ord = BUY \<Longrightarrow> ord_order_type ord \<noteq> MARKET \<Longrightarrow>
     \<exists>p. ord_limit_price ord = Some p \<and> fp \<le> p"
  by (auto simp: ls_fill_price_def Let_def split: if_splits option.splits)

text \<open>
  A buy never costs more than its reservation, and a sell never costs anything, when commissions
  are fair and a market order is unpriced.
\<close>

lemma fill_covered:
  assumes "fair_commission cfg" and "valid_order_intent (intent_of_order ord)"
    and "unpriced_market (intent_of_order ord)"
    and "valid_market_quote q" and "ls_fill_price ord q = Some fp"
  shows "0 \<le> fill_reserve cfg ord fp + fill_amount cfg ord fp"
proof -
  have q: "0 < ord_quantity ord" using assms(2) by (rule valid_intent_of_order)
  have fp: "0 < fp" using assms(4,5) by (rule fill_price_pos)
  then have g: "0 \<le> ord_quantity ord * fp" using q by simp
  show ?thesis
  proof (cases "ord_side ord")
    case BUY
    obtain p where p: "(case ord_limit_price ord of Some p \<Rightarrow> p | None \<Rightarrow> fp) = p" "fp \<le> p"
    proof (cases "ord_order_type ord = MARKET")
      case True
      then show thesis
        using assms(3) by (intro that [of fp]) (simp_all add: unpriced_market_def intent_of_order_def)
    next
      case False
      then show thesis using fill_price_buy_limit [OF assms(5) BUY] that by auto
    qed
    then have "ord_quantity ord * fp \<le> ord_quantity ord * p" using q by simp
    with commission_bounds(3) [OF assms(1) g] BUY p(1) show ?thesis
      by (fastforce simp: fill_reserve_def fill_amount_def Let_def)
  next
    case SELL
    with commission_bounds(2) [OF assms(1) g] show ?thesis
      by (simp add: fill_reserve_def fill_amount_def Let_def)
  qed
qed

definition cash_nonneg :: "book \<Rightarrow> bool" where
  "cash_nonneg b \<longleftrightarrow> (\<forall>a. 0 \<le> acc_view acc_cash_available b a)"

lemma order_reserve_nonneg:
  assumes "fair_commission cfg" and "valid_order_intent (intent_of_order ord)"
  shows "0 \<le> order_reserve cfg ord"
proof (cases "ord_limit_price ord")
  case (Some p)
  then have "0 \<le> ord_quantity ord * p"
    using valid_intent_of_order [OF assms(2)] by (simp add: opt_positive_def)
  with Some commission_bounds(1) [OF assms(1)] show ?thesis by (simp add: order_reserve_def)
qed (simp add: order_reserve_def)


lemma cash_nonneg_step:
  assumes wf: "book_wf P b" and inv: "cash_nonneg b" and step: "book_step P cfg b b'"
    and fair: "fair_commission cfg" and plain: "\<And>i. P i \<Longrightarrow> unpriced_market i"
  shows "cash_nonneg b'"
proof -
  have dist: "distinct (map pos_key (bk_positions b))" using wf by (simp add: book_wf_def)
  from step show ?thesis
  proof cases
    case new
    with inv show ?thesis by (simp add: cash_nonneg_def)
  next
    case relabel
    with inv show ?thesis by (simp add: cash_nonneg_def)
  next
    case (rest oid ord q b1 bid)
    from book_reserveE [OF rest(6) dist] show ?thesis
    proof cases
      case (1 r)
      then have "0 \<le> acc_view acc_cash_available b1 x" for x
        using inv by (cases "ord_side ord") (auto simp: cash_nonneg_def fill_reserve_def)
      then show ?thesis by (simp add: rest(1) cash_nonneg_def)
    qed
  next
    case (cross oid ord q b1 fp bid)
    have owf: "order_wf P ord" using wf cross(1) by (rule book_wf_order)
    have cov: "0 \<le> fill_reserve cfg (submitted ord bid) fp + fill_amount cfg (submitted ord bid) fp"
      using owf plain [of "intent_of_order ord"] cross(6)
      by (intro fill_covered [OF fair _ _ cross(4)]) (auto simp: order_wf_def)
    from book_reserveE [OF cross(5) dist] show ?thesis
    proof cases
      case r: (1 r)
      then have "0 \<le> acc_view acc_cash_available b1 x" for x
        using inv by (cases "ord_side ord") (auto simp: cash_nonneg_def fill_reserve_def)
      with cov show ?thesis by - (rule book_fillE [OF cross(7)], auto simp: cash_nonneg_def)
    qed
  next
    case (fill oid ord q fp)
    have owf: "order_wf P ord" using wf fill(1) by (rule book_wf_order)
    have "0 \<le> fill_reserve cfg ord fp + fill_amount cfg ord fp"
      using owf plain by (intro fill_covered [OF fair _ _ fill(3,4)]) (auto simp: order_wf_def)
    with inv show ?thesis by - (rule book_fillE [OF fill(5)], auto simp: cash_nonneg_def)
  next
    case (cancel oid ord b1)
    have "0 \<le> order_reserve cfg ord"
      using book_wf_order [OF wf cancel(2)] by (intro order_reserve_nonneg [OF fair]) (simp add: order_wf_def)
    with inv show ?thesis unfolding cancel(1)
      by - (rule book_releaseE [OF cancel(4) dist], auto simp: cash_nonneg_def)
  qed
qed

section \<open>Equity\<close>

definition equity_marked :: "book \<Rightarrow> bool" where
  "equity_marked b \<longleftrightarrow> (\<forall>a. acc_view acc_equity b a =
     cash_total b a + account_sum pos_market_value a (bk_positions b))"

lemma equity_marked_fill:
  assumes "equity_marked b" and "book_fill cfg ord fp b b'"
  shows "equity_marked b'"
proof (cases rule: book_fillE [OF assms(2)])
  case (1 f)
  have "acc_view acc_equity b' x =
      cash_total b' x + account_sum pos_market_value x (bk_positions b')" for x
    using assms(1) by (cases "x = ord_account_id ord") (simp_all add: 1 equity_marked_def)
  then show ?thesis by (simp add: equity_marked_def)
qed

lemma equity_marked_step:
  assumes wf: "book_wf P b" and inv: "equity_marked b" and step: "book_step P cfg b b'"
  shows "equity_marked b'"
proof -
  have dist: "distinct (map pos_key (bk_positions b))" using wf by (simp add: book_wf_def)
  have res: "equity_marked (bk_put_order ord' b1)" if "book_reserve cfg ord q b b1" for ord ord' q b1
    using inv by - (rule book_reserveE [OF that dist], auto simp: equity_marked_def)
  from step show ?thesis
  proof cases
    case (cancel oid ord b1)
    with inv show ?thesis by - (rule book_releaseE [OF cancel(4) dist], auto simp: equity_marked_def)
  next
    case (cross oid ord q b1 fp bid)
    then show ?thesis using res equity_marked_fill by blast
  next
    case (fill oid ord q fp)
    then show ?thesis using inv equity_marked_fill by blast
  qed (use inv res in \<open>auto simp: equity_marked_def\<close>)
qed

section \<open>Fills\<close>

text \<open>An order has one fill, of its whole quantity at its average price, when it is filled, and none otherwise.\<close>

definition fills_of :: "book \<Rightarrow> string \<Rightarrow> fill list" where
  "fills_of b oid = filter (\<lambda>f. fl_order_id f = oid) (bk_fills b)"

definition order_filled :: "trade_order \<Rightarrow> fill list \<Rightarrow> bool" where
  "order_filled ord fs \<longleftrightarrow>
     (if ord_status ord = FILLED
      then map fl_quantity fs = [ord_quantity ord] \<and> ord_filled_quantity ord = ord_quantity ord \<and>
           map (Some \<circ> fl_price) fs = [ord_avg_fill_price ord]
      else fs = [] \<and> ord_filled_quantity ord = 0)"

definition fills_match :: "book \<Rightarrow> bool" where
  "fills_match b \<longleftrightarrow>
     (\<forall>oid ord. bk_order b oid = Some ord \<longrightarrow> order_filled ord (fills_of b oid))"

lemma fills_match_put:
  assumes "fills_match b" and "bk_orders b' = put_row ord_order_id ord' (bk_orders b)"
    and "bk_fills b' = bk_fills b" and "bk_order b (ord_order_id ord') = Some ord"
    and "ord_status ord \<noteq> FILLED" and "ord_status ord' \<noteq> FILLED"
    and "ord_filled_quantity ord' = ord_filled_quantity ord"
  shows "fills_match b'"
proof -
  have "fills_of b' = fills_of b" by (simp add: fills_of_def fun_eq_iff assms(3))
  moreover have "order_filled ord' (fills_of b (ord_order_id ord'))"
    using assms by (force simp: fills_match_def order_filled_def)
  ultimately show ?thesis
    using assms(1,2)
    by (auto simp: fills_match_def bk_order_def row_at_put_row split: option.splits if_splits)
qed

lemma fills_match_fill:
  assumes "fills_match b" and "bk_order b (ord_order_id ord) = Some old"
    and "ord_status old \<noteq> FILLED" and "book_fill cfg ord fp b0 b'"
    and "bk_fills b0 = bk_fills b" and "bk_orders b0 = put_row ord_order_id ord (bk_orders b)"
  shows "fills_match b'"
proof (cases rule: book_fillE [OF assms(4)])
  case (1 f)
  have "fills_of b (ord_order_id ord) = []"
    using assms(1-3) by (force simp: fills_match_def order_filled_def)
  then show ?thesis
    using assms(1,2) 1
    by (auto simp: fills_match_def bk_order_def row_at_put_row fills_of_def order_filled_def
        assms(5,6) put_row_put_row split: option.splits)
qed

lemma fills_match_step:
  assumes wf: "book_wf P b" and inv: "fills_match b" and step: "book_step P cfg b b'"
  shows "fills_match b'"
  using step
proof cases
  case (new ord)
  have "fills_of b (ord_order_id ord) = []"
    using new(7) by (force simp: fills_of_def filter_empty_conv)
  then have "order_filled ord (fills_of b (ord_order_id ord))"
    using new by (simp add: order_filled_def)
  moreover have "fills_of b' = fills_of b" by (simp add: fun_eq_iff fills_of_def new(1))
  ultimately show ?thesis
    using inv by (auto simp: fills_match_def bk_order_def row_at_append new(1)
        split: option.splits if_splits)
next
  case (relabel oid ord ord')
  have "ord_order_id ord = oid" using relabel(2) by (rule bk_order_store.get_key)
  with relabel relabelledD [OF relabel(3)] show ?thesis
    by (intro fills_match_put [OF inv, of _ ord' ord]) auto
next
  case (rest oid ord q b1 bid)
  have "ord_order_id ord = oid" using rest(2) by (rule bk_order_store.get_key)
  with rest book_reserve_frame [OF rest(6)] show ?thesis
    by (intro fills_match_put [OF inv, of _ "submitted ord bid" ord]) auto
next
  case (cross oid ord q b1 fp bid)
  have "ord_order_id ord = oid" using cross(1) by (rule bk_order_store.get_key)
  with cross book_reserve_frame [OF cross(5)] show ?thesis
    by (intro fills_match_fill [OF inv _ _ cross(7), of ord]) auto
next
  case (fill oid ord q fp)
  have "bk_orders b = put_row ord_order_id ord (bk_orders b)"
    using wf fill(1) by (simp add: book_wf_def bk_order_def put_row_same)
  moreover have "ord_order_id ord = oid" using fill(1) by (rule bk_order_store.get_key)
  ultimately show ?thesis
    using fill(1,2) by (intro fills_match_fill [OF inv _ _ fill(5), of ord]) auto
next
  case (cancel oid ord b1)
  have "ord_order_id ord = oid" using cancel(2) by (rule bk_order_store.get_key)
  with cancel book_release_frame [OF cancel(4)] show ?thesis
    by (intro fills_match_put [OF inv, of _ "ord\<lparr>ord_status := CANCELLED\<rparr>" ord]) auto
qed

section \<open>Runs of the book\<close>

interpretation wf_run: step_invariant "book_step P cfg" "book_wf P" for P cfg
  by unfold_locales (rule book_step_wf)

interpretation ledger_run: step_invariant "book_step P cfg"
  "\<lambda>b. book_wf P b \<and> cash_booked base b \<and> frozen_backed cfg b" for P cfg base
  by unfold_locales (blast intro: book_step_wf cash_booked_step frozen_backed_step)

interpretation equity_run: step_invariant "book_step P cfg"
  "\<lambda>b. book_wf P b \<and> equity_marked b" for P cfg
  by unfold_locales (blast intro: book_step_wf equity_marked_step)

interpretation fills_run: step_invariant "book_step P cfg"
  "\<lambda>b. book_wf P b \<and> fills_match b" for P cfg
  by unfold_locales (blast intro: book_step_wf fills_match_step)

interpretation shares_run: step_invariant "book_step no_bracket cfg"
  "\<lambda>b. book_wf no_bracket b \<and> shares_backed b" for cfg
  by unfold_locales (blast intro: book_step_wf shares_backed_step)

interpretation cash_run: step_invariant "book_step unpriced_market cfg"
  "\<lambda>b. fair_commission cfg \<and> book_wf unpriced_market b \<and> cash_nonneg b" for cfg
  by unfold_locales (blast intro: book_step_wf cash_nonneg_step)

end
