(* ===== verification/Sim_Refinement.thy ===== *)
theory Sim_Refinement
  imports Book_Invariants Session_Invariants
begin

text \<open>
  The simulated broker refines the book. \<open>sim_step\<close> is one operation of the order service or of the
  simulated broker that returned, or a reading of the clock; \<open>book_of\<close> forgets the logs, the ids and
  the state of the database. Every operation performs a (possibly empty) sequence of book steps, so
  the ledger invariants of the book hold of every session the operations produce.
\<close>

definition book_of :: "session \<Rightarrow> book" where
  "book_of s = \<lparr>bk_accounts = s_accounts s, bk_positions = s_positions s, bk_orders = s_orders s,
     bk_fills = s_fills s, bk_ledger = s_cash_ledger s\<rparr>"

text \<open>What the order row keeps of an intent.\<close>

definition stored_intent :: "order_intent \<Rightarrow> order_intent" where
  "stored_intent i = i\<lparr>oi_strategy_name := None, oi_trigger_price := None\<rparr>"

inductive sim_step ::
  "(order_intent \<Rightarrow> bool) \<Rightarrow> order_service \<Rightarrow> local_sim_config \<Rightarrow> session \<Rightarrow> session \<Rightarrow> bool"
  for P svc cfg where
  create: "valid_order_intent i \<Longrightarrow> P (stored_intent i) \<Longrightarrow>
    create_order_from_intent svc tr i s = (oid, t) \<Longrightarrow> sim_step P svc cfg s t"
| risk: "run_risk_check svc tr oid q mo s = Inr (d, t) \<Longrightarrow> sim_step P svc cfg s t"
| approve: "transition_order tr oid RISK_APPROVED ''BRACKET_AUTO_APPROVED'' s = Inr t \<Longrightarrow>
    sim_step P svc cfg s t"
| submit: "valid_market_quote q \<Longrightarrow> ls_submit_order cfg tr oid q s = Inr (r, t) \<Longrightarrow>
    sim_step P svc cfg s t"
| quote: "valid_market_quote q \<Longrightarrow> process_quote cfg tr q s = Inr (ids, t) \<Longrightarrow>
    sim_step P svc cfg s t"
| cancel: "ls_cancel_order cfg tr oid s = Inr (r, t) \<Longrightarrow> sim_step P svc cfg s t"
| sync: "flush s = Inr t \<Longrightarrow> sim_step P svc cfg s t"
| tick: "s_now s \<le> n \<Longrightarrow> sim_step P svc cfg s (s\<lparr>s_now := n\<rparr>)"

definition sim_inv :: "(order_intent \<Rightarrow> bool) \<Rightarrow> session \<Rightarrow> bool" where
  "sim_inv P s \<longleftrightarrow> trail_inv s \<and> book_wf P (book_of s)"

section \<open>The abstraction and the primitive writes\<close>

lemma book_of_simps [simp]:
  "bk_accounts (book_of s) = s_accounts s"
  "bk_positions (book_of s) = s_positions s"
  "bk_orders (book_of s) = s_orders s"
  "bk_fills (book_of s) = s_fills s"
  "bk_ledger (book_of s) = s_cash_ledger s"
  by (simp_all add: book_of_def)

lemma bk_find_book_of [simp]:
  "bk_account (book_of s) = find_account s"
  "bk_position (book_of s) = find_position s"
  "bk_order (book_of s) = find_order s"
  by (simp_all add: fun_eq_iff bk_account_def bk_position_def bk_order_def finds)

lemma book_of_frame [simp]:
  "book_of (audit tr ev inp out pr nx s) = book_of s"
  "book_of (record_event tr ev inp out s) = book_of s"
  "book_of (enqueue_event tr ev aty aid pl s) = book_of s"
  "book_of (record_broker_event n tr bo ev pl bf s) = book_of s"
  "book_of (snd (new_id p s)) = book_of s"
  "book_of (add_risk_decision d s) = book_of s"
  "book_of (s\<lparr>s_db_orders := x\<rparr>) = book_of s"
  "book_of (s\<lparr>s_now := now\<rparr>) = book_of s"
  by (simp_all add: book_of_def)

lemma book_of_put [simp]:
  "book_of (put_order ord s) = bk_put_order ord (book_of s)"
  "book_of (put_account a s) = bk_put_account a (book_of s)"
  "book_of (put_position p s) = bk_put_position p (book_of s)"
  by (simp_all add: book_of_def bk_put_order_def bk_put_account_def bk_put_position_def)

lemma intent_of_order_of_intent:
  "intent_of_order (order_of_intent svc i oid cid now) = stored_intent i"
  by (simp add: intent_of_order_def order_of_intent_def stored_intent_def)

lemma valid_stored_intent: "valid_order_intent i \<Longrightarrow> valid_order_intent (stored_intent i)"
  by (simp add: valid_order_intent_def stored_intent_def opt_positive_def)

lemma transition_book:
  "transition_order tr oid tgt ev s = Inr t \<Longrightarrow> \<exists>ord. find_order s oid = Some ord \<and>
     tgt \<in> allowed_order_transitions (ord_status ord) \<and>
     book_of t = bk_put_order (ord\<lparr>ord_status := tgt\<rparr>) (book_of s)"
  by (auto simp: transition_order_ok)

section \<open>The operations as book steps\<close>

lemma create_steps:
  assumes inv: "sim_inv P s" and "valid_order_intent i" and "P (stored_intent i)"
    and "create_order_from_intent svc tr i s = (oid, t)"
  shows "(book_step P cfg)\<^sup>*\<^sup>* (book_of s) (book_of t)"
proof (cases "query_orders s (\<lambda>row. ord_idempotency_key row = idempotency_key svc i)")
  case (Cons ord rest)
  with assms(4) show ?thesis by (auto simp: create_order_hit [OF Cons])
next
  case Nil
  let ?ord = "order_of_intent svc i (fresh_order_id s) (fresh_client_order_id s) (s_now s)"
  have t: "book_of t = (book_of s)\<lparr>bk_orders := bk_orders (book_of s) @ [?ord]\<rparr>"
    using assms(4) by (auto simp: create_order_new [OF Nil] book_of_def)
  have id: "ord_order_id ?ord = fresh_order_id s" by (simp add: order_of_intent_def)
  have fresh: "find_order s (fresh_order_id s) = None"
    using inv by (simp add: sim_inv_def trail_inv_def ids_fresh_def fresh_order_id_def)
  then have "fresh_order_id s \<notin> ord_order_id ` set (s_orders s)"
    by (simp add: find_order_def row_at_None_iff)
  then have "fresh_order_id s \<notin> fl_order_id ` set (s_fills s)"
    using inv by (auto simp: sim_inv_def book_wf_def)
  then have "book_step P cfg (book_of s) (book_of t)"
    unfolding t using assms(2,3) fresh
    by (intro book_step.new)
      (simp_all add: id intent_of_order_of_intent valid_stored_intent, simp_all add: order_of_intent_def)
  then show ?thesis ..
qed

lemma risk_steps:
  assumes "run_risk_check svc tr oid q mo s = Inr (d, t)"
  shows "(book_step P cfg)\<^sup>*\<^sup>* (book_of s) (book_of t)"
proof (cases rule: run_risk_check_okE [OF assms])
  case (1 ord r s1 s2 s3)
  let ?st = "if rr_approved r then RISK_APPROVED else RISK_REJECTED"
  let ?ord = "ord\<lparr>ord_risk_decision_id := Some (rd_risk_decision_id d)\<rparr>"
  have id: "ord_order_id ord = oid" using 1(1) by (rule order_store.get_key)
  have s1: "book_of s1 = book_of s" "find_order s1 = find_order s"
    using 1(6) by (auto simp: flush_ok)
  have s2: "s2 = put_order ?ord s1" using 1(1,7) s1 by (auto simp: set_risk_decision_id_ok)
  then have "find_order s2 oid = Some ?ord" using 1(1) s1 id by (simp add: order_store.get_put)
  then have st: "?st \<in> allowed_order_transitions (ord_status ord)"
    and s3: "book_of s3 = bk_put_order (?ord\<lparr>ord_status := ?st\<rparr>) (book_of s2)"
    using transition_book [OF 1(8)] by auto
  have "book_of t = bk_put_order (?ord\<lparr>ord_status := ?st\<rparr>) (book_of s)"
    by (simp add: 1(9) s3 s2 s1 bk_order_store.put_put)
  moreover have "relabelled ord (?ord\<lparr>ord_status := ?st\<rparr>)"
    using st by (cases "ord_status ord") (auto simp: relabelled_def split: if_splits)
  ultimately have "book_step P cfg (book_of s) (book_of t)"
    using 1(1) by (auto intro: book_step.relabel)
  then show ?thesis ..
qed

lemma relabel_steps:
  assumes "transition_order tr oid tgt ev s = Inr t" and "tgt \<in> {RISK_APPROVED, FAILED}"
    and "\<And>ord. find_order s oid = Some ord \<Longrightarrow> ord_status ord \<in> {CREATED, RISK_APPROVED}"
  shows "(book_step P cfg)\<^sup>*\<^sup>* (book_of s) (book_of t)"
proof -
  obtain ord where ord: "find_order s oid = Some ord"
    and t: "book_of t = bk_put_order (ord\<lparr>ord_status := tgt\<rparr>) (book_of s)"
    using transition_book [OF assms(1)] by auto
  have "relabelled ord (ord\<lparr>ord_status := tgt\<rparr>)"
    using assms(2) assms(3) [OF ord] by (auto simp: relabelled_def)
  then have "book_step P cfg (book_of s) (book_of t)"
    unfolding t using ord by (auto intro: book_step.relabel)
  then show ?thesis ..
qed

lemma positions_with_book: "positions_with s ord = bk_positions (open_position (ord_key ord) (book_of s))"
  by (simp add: positions_with_def open_position_def fill_position_def zero_position_def
      split: option.split)

lemma fill_position_book:
  "bk_position (open_position (ord_key ord) (book_of s)) (ord_key ord) = Some (fill_position s ord)"
  by (simp add: bk_position_open fill_position_def zero_position_def split: option.split)

lemma totals_book:
  "total_market_value s a = account_sum pos_market_value a (s_positions s)"
  "total_unrealized_pnl s a = account_sum pos_unrealized_pnl a (s_positions s)"
  by (simp_all add: total_market_value_def total_unrealized_pnl_def account_sum_def)

lemma apply_fill_book:
  assumes "apply_fill cfg tr oid fp s = Inr t" and "find_order s oid = Some ord"
  shows "book_fill cfg ord fp (book_of s) (book_of t)"
    and "FILLED \<in> allowed_order_transitions (ord_status ord)"
proof -
  show "book_fill cfg ord fp (book_of s) (book_of t)"
  proof (cases rule: apply_fill_effectE [OF assms(1)])
    case (1 ord' account account1 p1 amount ev f l)
    then have [simp]: "ord' = ord" using assms(2) by simp
    have id: "ord_order_id ord = oid" using assms(2) by (rule order_store.get_key)
    have t: "book_of t = (book_of s)\<lparr>bk_accounts := put_row acc_account_id
        (account1\<lparr>acc_unrealized_pnl := account_sum pos_unrealized_pnl (ord_account_id ord) (s_positions t),
           acc_equity := acc_cash_available account1 + acc_cash_frozen account1
             + account_sum pos_market_value (ord_account_id ord) (s_positions t)\<rparr>) (s_accounts s),
        bk_positions := s_positions t,
        bk_orders := put_row ord_order_id (ord\<lparr>ord_filled_quantity := ord_quantity ord,
          ord_avg_fill_price := Some fp, ord_status := FILLED\<rparr>) (s_orders s),
        bk_fills := s_fills s @ [f], bk_ledger := s_cash_ledger s @ [l]\<rparr>"
      using 1 by (simp add: book_of_def totals_book)
    show ?thesis unfolding book_fill_def t
      by (rule exI [of _ account], rule exI [of _ "fill_position s ord"], rule exI [of _ account1],
          rule exI [of _ p1], rule exI [of _ amount], rule exI [of _ ev], rule exI [of _ f],
          rule exI [of _ l], rule exI [of _ "s_positions t"])
        (use 1 in \<open>simp add: fill_position_book id positions_with_book\<close>)
  qed
  show "FILLED \<in> allowed_order_transitions (ord_status ord)"
    using assms by (auto elim!: apply_fill_effectE)
qed


lemma reserve_book:
  assumes "reserve_resources cfg tr ord q s = Inr (None, t)"
  shows "book_reserve cfg ord q (book_of s) (book_of t)"
  using assms
proof (cases rule: reserve_resources_cases)
  case bracket
  then show ?thesis by (simp add: book_reserve_def is_bracket_order_def)
qed (simp_all add: book_reserve_def)

lemma release_book:
  assumes "release_resources cfg tr ord s = Inr t"
  shows "book_release cfg ord (book_of s) (book_of t)"
  using assms
proof (cases rule: release_resources_cases)
  case bracket
  then show ?thesis by (simp add: book_release_def is_bracket_order_def)
qed (simp_all add: book_release_def)

lemma reserve_orders:
  "reserve_resources cfg tr ord q s = Inr (err, t) \<Longrightarrow> find_order t = find_order s"
  by (erule reserve_resources_cases) simp_all

lemma release_orders: "release_resources cfg tr ord s = Inr t \<Longrightarrow> find_order t = find_order s"
  by (erule release_resources_cases) simp_all

lemma market_fill_price: "ord_order_type ord = MARKET \<Longrightarrow> ls_fill_price ord q \<noteq> None"
  by (simp add: ls_fill_price_def Let_def)

text \<open>The handover to the broker: the three writes of the order leave it submitted.\<close>

lemma handover_book:
  assumes ord: "find_order s1 oid = Some ord"
    and sub: "transition_order tr oid SUBMITTING ev1 (snd (new_id p s1)) = Inr s2"
    and bid: "set_broker_order_id oid bid s2 = Inr s3"
    and acc: "transition_order tr oid SUBMITTED ev2 s3 = Inr s4"
  shows "book_of s4 = bk_put_order (submitted ord (Some bid)) (book_of s1)"
    and "find_order s4 oid = Some (submitted ord (Some bid))"
proof -
  have id: "ord_order_id ord = oid" using ord by (rule order_store.get_key)
  have s2: "book_of s2 = bk_put_order (ord\<lparr>ord_status := SUBMITTING\<rparr>) (book_of s1)"
    "find_order s2 oid = Some (ord\<lparr>ord_status := SUBMITTING\<rparr>)"
    using sub ord id by (auto simp: transition_order_ok order_store.get_put)
  have s3: "book_of s3 = bk_put_order (ord\<lparr>ord_status := SUBMITTING, ord_broker_order_id := Some bid\<rparr>)
      (book_of s1)"
    "find_order s3 oid = Some (ord\<lparr>ord_status := SUBMITTING, ord_broker_order_id := Some bid\<rparr>)"
    using bid s2 id by (auto simp: set_broker_order_id_ok order_store.get_put bk_order_store.put_put)
  have upd: "ord\<lparr>ord_broker_order_id := Some bid, ord_status := SUBMITTED\<rparr> = submitted ord (Some bid)"
    by (simp add: submitted_def)
  show "book_of s4 = bk_put_order (submitted ord (Some bid)) (book_of s1)"
    and "find_order s4 oid = Some (submitted ord (Some bid))"
    using acc s3 id upd by (auto simp: transition_order_ok order_store.get_put bk_order_store.put_put)
qed

lemma submit_steps:
  assumes "valid_market_quote q" and "ls_submit_order cfg tr oid q s = Inr (r, t)"
  shows "(book_step P cfg)\<^sup>*\<^sup>* (book_of s) (book_of t)"
  using assms(2)
proof (cases rule: ls_submit_order_cases)
  case not_submittable
  then show ?thesis by simp
next
  case (failed ord ev)
  then show ?thesis by (intro relabel_steps) auto
next
  case (accepted ord bid s1 s2 s3 s4 s5)
  have res: "book_reserve cfg ord q (book_of s) (book_of s1)" using accepted(7) by (rule reserve_book)
  have "find_order s1 oid = Some ord" using accepted(1) reserve_orders [OF accepted(7)] by simp
  note hand = handover_book [OF this accepted(8-10)]
  have s5: "book_of s5 = bk_put_order (submitted ord (Some bid)) (book_of s1)"
    "find_order s5 oid = Some (submitted ord (Some bid))"
    by (simp_all add: accepted(11) hand)
  have rest: "book_step P cfg (book_of s) (book_of s5)" if "ord_order_type ord \<noteq> MARKET"
    unfolding s5(1) using accepted(1,2) that assms(1) res by (intro book_step.rest) simp_all
  show ?thesis
  proof (cases "ls_fill_price ord q")
    case None
    then have "t = s5" and "ord_order_type ord \<noteq> MARKET"
      using accepted(12) market_fill_price [of ord q] by auto
    then show ?thesis using rest by auto
  next
    case (Some fp)
    then have "apply_fill cfg tr oid fp s5 = Inr t" using accepted(12) by simp
    then have fill: "book_fill cfg (submitted ord (Some bid)) fp (book_of s5) (book_of t)"
      using s5(2) by (rule apply_fill_book)
    show ?thesis
    proof (cases "ord_order_type ord = MARKET")
      case True
      then have "book_step P cfg (book_of s) (book_of t)"
        using accepted(1,2) assms(1) res Some fill [unfolded s5(1)] by (intro book_step.cross) simp_all
      then show ?thesis ..
    next
      case False
      have "book_step P cfg (book_of s5) (book_of t)"
        using s5(2) assms(1) Some fill by (intro book_step.fill) simp_all
      with rest [OF False] show ?thesis by (auto intro: converse_rtranclp_into_rtranclp)
    qed
  qed
qed

lemma match_steps:
  assumes q: "valid_market_quote q"
  shows "match_orders cfg tr q oids s = Inr (ids, t) \<Longrightarrow> book_wf P (book_of s) \<Longrightarrow>
     (book_step P cfg)\<^sup>*\<^sup>* (book_of s) (book_of t)"
proof (induction oids arbitrary: s ids)
  case Nil
  then show ?case by simp
next
  case (Cons oid oids)
  from Cons.prems(1) obtain ord where ord: "find_order s oid = Some ord"
    by (auto simp: rbind_Inr_iff get_order_ok)
  then have get: "get_order s oid = Inr ord" by (simp add: get_order_ok)
  show ?case
  proof (cases "ls_fill_price ord q")
    case None
    with Cons get show ?thesis by simp
  next
    case (Some fp)
    with Cons.prems(1) get obtain s1 ids1 where fill: "apply_fill cfg tr oid fp s = Inr s1"
      and rest: "match_orders cfg tr q oids s1 = Inr (ids1, t)"
      by (auto simp: rbind_Inr_iff)
    note book = apply_fill_book [OF fill ord]
    have "order_wf P ord" using Cons.prems(2) ord by (auto intro: book_wf_order)
    then have "ord_status ord = SUBMITTED"
      using book(2) by (cases "ord_status ord") (auto simp: order_wf_def)
    then have step: "book_step P cfg (book_of s) (book_of s1)"
      using ord q Some book(1) by (intro book_step.fill) simp_all
    then have "book_wf P (book_of s1)" using Cons.prems(2) by (blast intro: book_step_wf)
    with Cons.IH rest step show ?thesis by (blast intro: converse_rtranclp_into_rtranclp)
  qed
qed

lemma cancel_steps:
  assumes "ls_cancel_order cfg tr oid s = Inr (r, t)"
  shows "(book_step P cfg)\<^sup>*\<^sup>* (book_of s) (book_of t)"
  using assms
proof (cases rule: ls_cancel_order_cases)
  case not_cancellable
  then show ?thesis by simp
next
  case (cancelled ord s1 s2 s3)
  have id: "ord_order_id ord = oid" using cancelled(1) by (rule order_store.get_key)
  let ?pend = "ord\<lparr>ord_status := CANCEL_PENDING\<rparr>"
  have s1: "book_of s1 = bk_put_order ?pend (book_of s)" "find_order s1 oid = Some ?pend"
    using cancelled(1,4) id by (auto simp: transition_order_ok order_store.get_put)
  obtain b1 where b1: "book_release cfg ord (book_of s) b1" "book_of s2 = bk_put_order ?pend b1"
    using release_book [OF cancelled(5)] release_put_order unfolding s1(1) by blast
  have "find_order s2 oid = Some ?pend" using s1 release_orders [OF cancelled(5)] by simp
  then have "book_of s3 = bk_put_order (ord\<lparr>ord_status := CANCELLED\<rparr>) b1"
    using cancelled(6) id b1(2) by (auto simp: transition_order_ok bk_order_store.put_put)
  then have "book_step P cfg (book_of s) (book_of t)"
    using cancelled(1,2) b1(1) by (auto simp: cancelled(7) intro: book_step.cancel)
  then show ?thesis ..
qed

section \<open>The simulation\<close>

lemma sim_step_trail:
  assumes "trail_inv s" and "sim_step P svc cfg s t"
  shows "trail_inv t"
  using assms(2)
proof cases
  case (create i tr oid)
  then show ?thesis using trail.I_create [OF assms(1), of i svc tr] by simp
next
  case (approve tr oid)
  then show ?thesis by (rule trail.I_transition [OF assms(1)]) simp_all
next
  case (tick n)
  then show ?thesis
    by (auto intro!: trail_inv_cong [OF assms(1)] simp: finds order_trail_def fun_eq_iff)
next
  case risk
  then show ?thesis by (rule trail.I_run_risk_check [OF assms(1)])
next
  case submit
  then show ?thesis by (intro trail.I_ls_submit_order [OF assms(1)])
next
  case quote
  then show ?thesis by (intro trail.I_process_quote [OF assms(1)])
next
  case cancel
  then show ?thesis by (rule trail.I_ls_cancel_order [OF assms(1)])
next
  case sync
  then show ?thesis by (rule trail.I_flush [OF assms(1)])
qed

lemma sim_step_book:
  assumes "sim_inv P s" and "sim_step P svc cfg s t"
  shows "(book_step P cfg)\<^sup>*\<^sup>* (book_of s) (book_of t)"
  using assms(2)
proof cases
  case (create i tr oid)
  with assms(1) show ?thesis by (blast intro: create_steps)
next
  case risk
  then show ?thesis by (rule risk_steps)
next
  case (approve tr oid)
  then show ?thesis
  proof (rule relabel_steps)
    show "ord_status ord \<in> {CREATED, RISK_APPROVED}" if "find_order s oid = Some ord" for ord
      using transition_book [OF approve] that by (cases "ord_status ord") auto
  qed simp
next
  case submit
  then show ?thesis by (rule submit_steps)
next
  case quote
  with assms(1) show ?thesis by (auto simp: process_quote_def sim_inv_def intro: match_steps)
next
  case cancel
  then show ?thesis by (rule cancel_steps)
next
  case sync
  then show ?thesis by (auto simp: flush_ok)
next
  case tick
  then show ?thesis by simp
qed

lemma sim_step_inv:
  assumes "sim_inv P s" and "sim_step P svc cfg s t"
  shows "sim_inv P t"
  using assms wf_run.inv_run [OF sim_step_book [OF assms]] sim_step_trail [of s P svc cfg t]
  by (simp add: sim_inv_def)

interpretation sim_run: step_invariant "sim_step P svc cfg" "sim_inv P" for P svc cfg
  by unfold_locales (rule sim_step_inv)

lemma sim_refines_book:
  assumes "(sim_step P svc cfg)\<^sup>*\<^sup>* s t" and "sim_inv P s"
  shows "(book_step P cfg)\<^sup>*\<^sup>* (book_of s) (book_of t)"
  using assms
proof (induction rule: rtranclp_induct)
  case (step u t)
  then have "sim_inv P u" by (blast intro: sim_run.inv_run)
  with step show ?case by (blast intro: sim_step_book rtranclp_trans)
qed simp

lemma sim_run_book_wf:
  "(sim_step P svc cfg)\<^sup>*\<^sup>* s t \<Longrightarrow> sim_inv P s \<Longrightarrow> book_wf P (book_of t)"
  using sim_run.inv_run by (auto simp: sim_inv_def)

text \<open>An invariant of the book steps holds of the book of every session of a run.\<close>

lemma sim_run_invariant:
  assumes "(sim_step P svc cfg)\<^sup>*\<^sup>* s t" and "sim_inv P s"
    and "\<And>b b'. book_wf P b \<Longrightarrow> I b \<Longrightarrow> book_step P cfg b b' \<Longrightarrow> I b'"
    and "I (book_of s)"
  shows "I (book_of t)"
proof -
  have "(book_step P cfg)\<^sup>*\<^sup>* (book_of s) (book_of t)" using assms(1,2) by (rule sim_refines_book)
  then have "book_wf P (book_of t) \<and> I (book_of t)"
  proof (induction rule: rtranclp_induct)
    case base
    then show ?case using assms(2,4) by (simp add: sim_inv_def)
  next
    case (step b b')
    then show ?case using assms(3) book_step_wf by blast
  qed
  then show ?thesis ..
qed

end
