(* ===== verification/Broker_Adapter.thy ===== *)
theory Broker_Adapter
  imports Longbridge Sim_Refinement
begin

text \<open>
  The interface \<open>BrokerAdapter\<close> of \<open>broker/base.py\<close> with the contract the trade executor relies on,
  its two implementations, and the factory of \<open>broker/factory.py\<close>. \<open>'w\<close> is the world a broker acts on
  besides the session: the gateway for Longbridge, nothing for the simulated broker.
\<close>

section \<open>The contract\<close>

locale broker_adapter =
  fixes submit :: "string \<Rightarrow> string \<Rightarrow> market_quote \<Rightarrow> session \<Rightarrow> 'w \<Rightarrow>
      (broker_order_result \<times> session) result \<times> 'w"
    and cancel :: "string \<Rightarrow> string \<Rightarrow> session \<Rightarrow> 'w \<Rightarrow> (broker_order_result \<times> session) result \<times> 'w"
  assumes submit_unknown: "find_order s oid = None \<Longrightarrow> \<exists>e. submit tr oid q s w = (Inl e, w)"
    and submit_refuses: "find_order s oid = Some ord \<Longrightarrow> ord_status ord \<noteq> RISK_APPROVED \<Longrightarrow>
      \<exists>r. submit tr oid q s w = (Inr (r, s), w) \<and> \<not> br_accepted r"
    and submit_accepts: "submit tr oid q s w = (Inr (r, t), w') \<Longrightarrow> br_accepted r \<Longrightarrow>
      \<exists>bid ord. br_broker_order_id r = Some bid \<and> find_order t oid = Some ord \<and>
        ord_broker_order_id ord = Some bid \<and> ord_status ord \<in> {SUBMITTED, FILLED}"
    and submit_trail: "trail_inv s \<Longrightarrow> submit tr oid q s w = (Inr (r, t), w') \<Longrightarrow> trail_inv t"
    and cancel_trail: "trail_inv s \<Longrightarrow> cancel tr oid s w = (Inr (r, t), w') \<Longrightarrow> trail_inv t"
    and cancel_refuses: "find_order s oid = Some ord \<Longrightarrow> terminal_status (ord_status ord) \<Longrightarrow>
      \<exists>r. cancel tr oid s w = (Inr (r, s), w) \<and> \<not> br_accepted r"
begin

text \<open>Only an approved order is accepted, and it is accepted once.\<close>

lemma accepts_approved:
  assumes "submit tr oid q s w = (Inr (r, t), w')" and "br_accepted r"
  shows "\<exists>ord. find_order s oid = Some ord \<and> ord_status ord = RISK_APPROVED"
proof (cases "find_order s oid")
  case None
  then show ?thesis using submit_unknown [of s oid tr q w] assms(1) by auto
next
  case (Some ord)
  then show ?thesis using submit_refuses [of s oid ord tr q w] assms by auto
qed

lemma accepts_once:
  assumes "submit tr oid q s w = (Inr (r, t), w')" and "br_accepted r"
  shows "\<exists>r'. submit tr' oid q' t w' = (Inr (r', t), w') \<and> \<not> br_accepted r'"
proof -
  obtain ord where "find_order t oid = Some ord" "ord_status ord \<in> {SUBMITTED, FILLED}"
    using submit_accepts [OF assms] by auto
  then show ?thesis by (intro submit_refuses) auto
qed

end

section \<open>The simulated broker\<close>

definition local_sim_submit ::
  "local_sim_config \<Rightarrow> string \<Rightarrow> string \<Rightarrow> market_quote \<Rightarrow> session \<Rightarrow> 'w \<Rightarrow>
   (broker_order_result \<times> session) result \<times> 'w" where
  "local_sim_submit cfg tr oid q s = wlift (ls_submit_order cfg tr oid q s)"

definition local_sim_cancel ::
  "local_sim_config \<Rightarrow> string \<Rightarrow> string \<Rightarrow> session \<Rightarrow> 'w \<Rightarrow>
   (broker_order_result \<times> session) result \<times> 'w" where
  "local_sim_cancel cfg tr oid s = wlift (ls_cancel_order cfg tr oid s)"

lemma ls_submit_accepted:
  assumes "ls_submit_order cfg tr oid q s = Inr (r, t)" and "br_accepted r"
  shows "\<exists>bid ord. br_broker_order_id r = Some bid \<and> find_order t oid = Some ord \<and>
    ord_broker_order_id ord = Some bid \<and> ord_status ord \<in> {SUBMITTED, FILLED}"
  using assms(1)
proof (cases rule: ls_submit_order_cases)
  case (accepted ord bid s1 s2 s3 s4 s5)
  have "find_order s1 oid = Some ord" using accepted(1) reserve_orders [OF accepted(7)] by simp
  from handover_book(2) [OF this accepted(8-10)]
  have s5: "find_order s5 oid = Some (submitted ord (Some bid))" by (simp add: accepted(11))
  have bid: "ord_broker_order_id (submitted ord (Some bid)) = Some bid" by (simp add: submitted_def)
  have id: "ord_order_id ord = oid" using accepted(1) by (rule order_store.get_key)
  show ?thesis
  proof (cases "ls_fill_price ord q")
    case None
    then have "t = s5" using accepted(12) by simp
    with s5 accepted(5) bid show ?thesis by auto
  next
    case (Some fp)
    then have "apply_fill cfg tr oid fp s5 = Inr t" using accepted(12) by simp
    then show ?thesis
    proof (cases rule: apply_fill_effectE)
      case (1 ord' account account1 p1 amount ev f l)
      then show ?thesis
        using s5 accepted(5) bid id by (auto simp: find_order_def row_at_put_row)
    qed
  qed
qed (use assms(2) in auto)

interpretation local_sim: broker_adapter "local_sim_submit cfg" "local_sim_cancel cfg" for cfg
proof unfold_locales
  show "\<exists>e. local_sim_submit cfg tr oid q s w = (Inl e, w)" if "find_order s oid = None"
    for s oid tr q and w :: 'w
    using that by (simp add: local_sim_submit_def ls_submit_order_def get_order_def)
  show "\<exists>r. local_sim_submit cfg tr oid q s w = (Inr (r, s), w) \<and> \<not> br_accepted r"
    if "find_order s oid = Some ord" "ord_status ord \<noteq> RISK_APPROVED" for s oid ord tr q and w :: 'w
    using that by (simp add: local_sim_submit_def ls_submit_order_def get_order_def)
  show "\<exists>r. local_sim_cancel cfg tr oid s w = (Inr (r, s), w) \<and> \<not> br_accepted r"
    if "find_order s oid = Some ord" "terminal_status (ord_status ord)" for s oid ord tr and w :: 'w
    using that by (auto simp: local_sim_cancel_def ls_cancel_order_def get_order_def terminal_statuses)
qed (auto simp: local_sim_submit_def local_sim_cancel_def dest: ls_submit_accepted
      intro: trail.I_ls_submit_order trail.I_ls_cancel_order)

section \<open>Longbridge\<close>

interpretation longbridge: broker_adapter "lb_submit_order cfg" lb_cancel_order for cfg
proof unfold_locales
  show "\<exists>e. lb_submit_order cfg tr oid q s w = (Inl e, w)" if "find_order s oid = None" for s oid tr q w
    using that by (simp add: lb_submit_order_def lb_prepare_submit_def get_order_def)
  show "\<exists>r. lb_submit_order cfg tr oid q s w = (Inr (r, s), w) \<and> \<not> br_accepted r"
    if "find_order s oid = Some ord" "ord_status ord \<noteq> RISK_APPROVED" for s oid ord tr q w
    using that by (simp add: lb_submit_order_def lb_prepare_submit_def get_order_def)
  show "\<exists>bid ord. br_broker_order_id r = Some bid \<and> find_order t oid = Some ord \<and>
        ord_broker_order_id ord = Some bid \<and> ord_status ord \<in> {SUBMITTED, FILLED}"
    if "lb_submit_order cfg tr oid q s w = (Inr (r, t), w')" "br_accepted r" for tr oid q s w r t w'
  proof -
    note sub = that
    obtain ord where "find_order s oid = Some ord"
      using sub(1)
      by (cases "find_order s oid") (auto simp: lb_submit_order_def lb_prepare_submit_def get_order_def)
    then show ?thesis
    proof (cases rule: lb_submit_order_cases [where cfg = cfg and tr = tr and q = q and g = w])
      case (sent tp s1 r' t' ord')
      then show ?thesis using that by (auto simp: submit_outcome_def)
    qed (use that in auto)
  qed
  show "\<exists>r. lb_cancel_order tr oid s w = (Inr (r, s), w) \<and> \<not> br_accepted r"
    if "find_order s oid = Some ord" "terminal_status (ord_status ord)" for s oid ord tr w
    using that by (auto simp: lb_cancel_order_def lb_prepare_cancel_def get_order_def terminal_statuses)
qed (blast intro: trail.I_lb_submit_order trail.I_lb_cancel_order)+

section \<open>The factory\<close>

record settings =
  set_broker_type :: string
  set_longbridge_mode :: string
  set_enable_external_order_submission :: bool
  set_enable_live_trading :: bool
  set_longbridge_app_key :: "string option"
  set_longbridge_app_secret :: "string option"
  set_longbridge_access_token :: "string option"

definition default_settings :: settings where
  "default_settings =
     \<lparr>set_broker_type = ''local_sim'', set_longbridge_mode = ''paper'',
      set_enable_external_order_submission = False, set_enable_live_trading = False,
      set_longbridge_app_key = None, set_longbridge_app_secret = None,
      set_longbridge_access_token = None\<rparr>"

datatype broker = Local_Sim_Broker local_sim_config | Longbridge_Broker longbridge_config

text \<open>
  The names of the missing credentials; the value of a present one is blank when nothing is left
  after stripping.
\<close>

definition missing_credentials :: "settings \<Rightarrow> string list" where
  "missing_credentials st =
     map fst (filter (\<lambda>(_, v). case v of None \<Rightarrow> True | Some x \<Rightarrow> strip x = [])
       [(''LONGBRIDGE_APP_KEY'', set_longbridge_app_key st),
        (''LONGBRIDGE_APP_SECRET'', set_longbridge_app_secret st),
        (''LONGBRIDGE_ACCESS_TOKEN'', set_longbridge_access_token st)])"

text \<open>\<open>build_broker\<close>; \<open>gateway_given\<close> tells whether the caller injects a gateway.\<close>

definition build_broker :: "settings \<Rightarrow> bool \<Rightarrow> broker result" where
  "build_broker st gateway_given =
     (let broker_type = lower (set_broker_type st)
      in if broker_type = ''local_sim''
         then Inr (Local_Sim_Broker \<lparr>commission_rate = 0, minimum_commission = 0\<rparr>)
         else if broker_type = ''longbridge''
         then if \<not> gateway_given \<and> missing_credentials st \<noteq> []
              then Inl (ValueError (''Missing Longbridge environment variables: '' @
                          join_with '', '' (missing_credentials st)))
              else Inr (Longbridge_Broker \<lparr>lb_mode = set_longbridge_mode st,
                     lb_enable_order_submission = set_enable_external_order_submission st,
                     lb_enable_live_trading = set_enable_live_trading st\<rparr>)
         else Inl (ValueError (''Unsupported BROKER_TYPE: '' @ set_broker_type st)))"

definition broker_submit ::
  "broker \<Rightarrow> string \<Rightarrow> string \<Rightarrow> market_quote \<Rightarrow> session \<Rightarrow> gateway \<Rightarrow>
   (broker_order_result \<times> session) result \<times> gateway" where
  "broker_submit b = (case b of
     Local_Sim_Broker cfg \<Rightarrow> local_sim_submit cfg | Longbridge_Broker cfg \<Rightarrow> lb_submit_order cfg)"

definition broker_cancel ::
  "broker \<Rightarrow> string \<Rightarrow> string \<Rightarrow> session \<Rightarrow> gateway \<Rightarrow>
   (broker_order_result \<times> session) result \<times> gateway" where
  "broker_cancel b = (case b of
     Local_Sim_Broker cfg \<Rightarrow> local_sim_cancel cfg | Longbridge_Broker _ \<Rightarrow> lb_cancel_order)"

interpretation any_broker: broker_adapter "broker_submit b" "broker_cancel b" for b
  by (cases b) (simp_all add: broker_submit_def broker_cancel_def local_sim.broker_adapter_axioms
      longbridge.broker_adapter_axioms)

end
