(* ===== verification/Trade_Executor.thy ===== *)
theory Trade_Executor
  imports Broker_Adapter
begin

text \<open>
  The trade executor of \<open>harness/trade_executor.py\<close>: one transaction that records the signal,
  creates the order, has it checked, submits it and, for a buy with exit prices, submits the
  take-profit and stop-loss orders. The broker is a parameter, the operation \<open>submit\<close> of a
  \<open>broker_adapter\<close>.
\<close>

record executor =
  ex_order_service :: order_service
  ex_strategy_name :: string
  ex_strategy_version :: string
  ex_signal_raw_extras :: snapshot

section \<open>Dumps of the inputs\<close>

definition proposal_dump :: "llm_trade_proposal \<Rightarrow> snapshot" where
  "proposal_dump p =
     [(''action'', JStr (action_value (tp_action p))), (''symbol'', JStr (tp_symbol p)),
      (''confidence'', JDec (tp_confidence p)), (''quantity'', JDec (tp_quantity p)),
      (''order_type'', JStr (type_value (tp_order_type p))),
      (''limit_price'', json_opt JDec (tp_limit_price p)),
      (''take_profit_price'', json_opt JDec (tp_take_profit_price p)),
      (''stop_loss_price'', json_opt JDec (tp_stop_loss_price p)),
      (''rationale'', JStr (tp_rationale p)), (''risk_notes'', JList (map JStr (tp_risk_notes p)))]"

definition approval_dump :: "human_approval_decision \<Rightarrow> snapshot" where
  "approval_dump d =
     [(''approved'', JBool (ha_approved d)), (''reviewer'', JStr (ha_reviewer d)),
      (''reason'', JStr (ha_reason d))]"

text \<open>\<open>{**base, **extras}\<close>.\<close>

definition dict_merge :: "snapshot \<Rightarrow> snapshot \<Rightarrow> snapshot" where
  "dict_merge base extras =
     map (\<lambda>(k, v). (k, case map_of extras k of None \<Rightarrow> v | Some x \<Rightarrow> x)) base @
     filter (\<lambda>(k, _). k \<notin> fst ` set base) extras"

text \<open>\<open>OrderSide(action.value)\<close>: there is no side for \<open>HOLD\<close>.\<close>

definition order_side_of :: "trade_action \<Rightarrow> order_side result" where
  "order_side_of a =
     (case a of TA_BUY \<Rightarrow> Inr BUY | TA_SELL \<Rightarrow> Inr SELL
      | TA_HOLD \<Rightarrow> Inl (ValueError ''HOLD is not a valid OrderSide''))"

section \<open>Steps of the transaction\<close>

definition build_signal ::
  "executor \<Rightarrow> string \<Rightarrow> string \<Rightarrow> string \<Rightarrow> llm_trade_proposal \<Rightarrow> human_approval_decision \<Rightarrow>
   strategy_signal result" where
  "build_signal ex signal_id trace market_url p decision =
     rbind (order_side_of (tp_action p)) (\<lambda>side.
     Inr \<lparr>sig_signal_id = signal_id, sig_trace_id = trace,
       sig_strategy_name = ex_strategy_name ex, sig_strategy_version = ex_strategy_version ex,
       sig_symbol = tp_symbol p, sig_side = side, sig_confidence = tp_confidence p,
       sig_target_quantity = tp_quantity p, sig_order_type = tp_order_type p,
       sig_limit_price = tp_limit_price p, sig_reason = Some (tp_rationale p),
       sig_raw_payload = dict_merge
         [(''market_url'', JStr market_url), (''proposal'', JObj (proposal_dump p)),
          (''human_approval'', JObj (approval_dump decision))] (ex_signal_raw_extras ex)\<rparr>)"

definition add_signal :: "strategy_signal \<Rightarrow> session \<Rightarrow> session" where
  "add_signal g s = s\<lparr>s_signals := s_signals s @ [g]\<rparr>"

definition find_existing_order :: "executor \<Rightarrow> string \<Rightarrow> string \<Rightarrow> session \<Rightarrow> trade_order option" where
  "find_existing_order ex trace symbol s =
     (case query_orders s (\<lambda>row. list_ex (\<lambda>g. ord_source_signal_id row = Some (sig_signal_id g) \<and>
          sig_trace_id g = trace \<and> sig_strategy_name g = ex_strategy_name ex \<and>
          sig_symbol g = symbol) (s_signals s)) of
        [] \<Rightarrow> None | ord # _ \<Rightarrow> Some ord)"

definition add_agent_audit :: "string \<Rightarrow> string \<Rightarrow> snapshot \<Rightarrow> snapshot \<Rightarrow> session \<Rightarrow> session" where
  "add_agent_audit trace event inp out s =
     (let (aid, s) = new_id ''audit'' s
      in s\<lparr>s_audit_logs := s_audit_logs s @
           [\<lparr>au_audit_id = aid, au_trace_id = trace, au_actor_type = ''AGENT'',
             au_actor_name = ''TradeExecutor'', au_event_type = event, au_input_snapshot = inp,
             au_output_snapshot = out, au_previous_state = None, au_next_state = None\<rparr>]\<rparr>)"

definition bracket_intent ::
  "executor \<Rightarrow> string \<Rightarrow> string \<Rightarrow> rat \<Rightarrow> order_type \<Rightarrow> rat \<Rightarrow> string \<Rightarrow> order_intent" where
  "bracket_intent ex account_id symbol quantity ty trigger_price signal_id =
     \<lparr>oi_account_id = account_id, oi_symbol = symbol, oi_side = SELL, oi_order_type = ty,
      oi_quantity = quantity, oi_limit_price = Some trigger_price, oi_time_in_force = DAY,
      oi_source_signal_id = Some signal_id, oi_strategy_name = Some (ex_strategy_name ex),
      oi_trigger_price = Some trigger_price\<rparr>"

definition quote_at :: "string \<Rightarrow> rat \<Rightarrow> market_quote" where
  "quote_at symbol price =
     \<lparr>mq_symbol = symbol, mq_last_price = price, mq_bid_price = Some price, mq_ask_price = Some price\<rparr>"

definition submit_bracket_order ::
  "executor \<Rightarrow> (string \<Rightarrow> string \<Rightarrow> market_quote \<Rightarrow> session \<Rightarrow> 'w \<Rightarrow>
     (broker_order_result \<times> session) result \<times> 'w) \<Rightarrow>
   string \<Rightarrow> string \<Rightarrow> string \<Rightarrow> rat \<Rightarrow> order_type \<Rightarrow> rat \<Rightarrow> string \<Rightarrow> session \<Rightarrow> 'w \<Rightarrow>
   ((string \<times> broker_order_result) \<times> session) result \<times> 'w" where
  "submit_bracket_order ex submit trace account_id symbol quantity ty trigger_price signal_id s =
     wbind (wlift (make_order_intent
       (bracket_intent ex account_id symbol quantity ty trigger_price signal_id))) (\<lambda>intent.
     let (oid, s) = create_order_from_intent (ex_order_service ex) trace intent s
     in wbind (wlift (transition_order trace oid RISK_APPROVED ''BRACKET_AUTO_APPROVED'' s)) (\<lambda>s.
     wbind (wlift (make_market_quote (quote_at symbol trigger_price))) (\<lambda>quote.
     wbind (submit trace oid quote s) (\<lambda>(r, s).
     wlift (Inr ((oid, r), s))))))"

text \<open>One exit order of a buy, when its price is given.\<close>

definition exit_order ::
  "executor \<Rightarrow> (string \<Rightarrow> string \<Rightarrow> market_quote \<Rightarrow> session \<Rightarrow> 'w \<Rightarrow>
     (broker_order_result \<times> session) result \<times> 'w) \<Rightarrow>
   string \<Rightarrow> string \<Rightarrow> llm_trade_proposal \<Rightarrow> order_type \<Rightarrow> rat option \<Rightarrow> string \<Rightarrow> session \<Rightarrow> 'w \<Rightarrow>
   ((string option \<times> string option) \<times> session) result \<times> 'w" where
  "exit_order ex submit trace account_id p ty price signal_id s =
     (if tp_action p = TA_BUY \<and> truthy price
      then wbind (submit_bracket_order ex submit trace account_id (tp_symbol p) (tp_quantity p) ty
             (the price) signal_id s) (\<lambda>((oid, r), s).
           wlift (Inr ((Some oid, br_broker_order_id r), s)))
      else wlift (Inr ((None, None), s)))"

definition proposal_intent ::
  "executor \<Rightarrow> string \<Rightarrow> llm_trade_proposal \<Rightarrow> order_side \<Rightarrow> string \<Rightarrow> order_intent" where
  "proposal_intent ex account_id p side signal_id =
     \<lparr>oi_account_id = account_id, oi_symbol = tp_symbol p, oi_side = side,
      oi_order_type = tp_order_type p, oi_quantity = tp_quantity p,
      oi_limit_price = tp_limit_price p, oi_time_in_force = DAY,
      oi_source_signal_id = Some signal_id, oi_strategy_name = Some (ex_strategy_name ex),
      oi_trigger_price = None\<rparr>"

text \<open>
  The first half of \<open>_do_execute\<close>, up to the call of the broker: signal, order and risk decision.
\<close>

definition prepare_order ::
  "executor \<Rightarrow> llm_trade_proposal \<Rightarrow> human_approval_decision \<Rightarrow> string \<Rightarrow> string \<Rightarrow> string \<Rightarrow>
   bool option \<Rightarrow> session \<Rightarrow> ((string \<times> string \<times> market_quote \<times> risk_decision) \<times> session) result" where
  "prepare_order ex p decision account_id trace market_url market_is_open s =
     (let (signal_id, s) = new_id ''sig'' s
      in rbind (build_signal ex signal_id trace market_url p decision) (\<lambda>g.
      rbind (flush (add_signal g s)) (\<lambda>s.
      rbind (order_side_of (tp_action p)) (\<lambda>side.
      rbind (make_order_intent (proposal_intent ex account_id p side signal_id)) (\<lambda>intent.
      let (oid, s) = create_order_from_intent (ex_order_service ex) trace intent s
      in rbind (make_market_quote (quote_at (tp_symbol p) (or_else (tp_limit_price p) 0))) (\<lambda>quote.
      rbind (run_risk_check (ex_order_service ex) trace oid (Some quote) market_is_open s) (\<lambda>(d, s).
      rbind (get_order s oid) (\<lambda>ord.
      if ord_status ord \<noteq> RISK_APPROVED then Inl (RiskRefused (rd_reason_code d))
      else Inr ((signal_id, oid, quote, d), s)))))))))"

definition do_execute ::
  "executor \<Rightarrow> (string \<Rightarrow> string \<Rightarrow> market_quote \<Rightarrow> session \<Rightarrow> 'w \<Rightarrow>
     (broker_order_result \<times> session) result \<times> 'w) \<Rightarrow>
   llm_trade_proposal \<Rightarrow> human_approval_decision \<Rightarrow> string \<Rightarrow> string \<Rightarrow> string \<Rightarrow> string \<Rightarrow>
   bool option \<Rightarrow> session \<Rightarrow> 'w \<Rightarrow> (llm_trading_run_result \<times> session) result \<times> 'w" where
  "do_execute ex submit p decision account_id trace thread market_url market_is_open s =
     (case find_existing_order ex trace (tp_symbol p) s of
       Some existing \<Rightarrow>
         wlift (Inr (\<lparr>lr_thread_id = thread, lr_trace_id = trace, lr_status = COMPLETED,
           lr_proposal = p, lr_reviewer = Some (ha_reviewer decision),
           lr_order_id = Some (ord_order_id existing),
           lr_risk_decision_id = ord_risk_decision_id existing,
           lr_broker_order_id = ord_broker_order_id existing,
           lr_order_status = Some (ord_status existing), lr_take_profit_order_id = None,
           lr_take_profit_broker_order_id = None, lr_stop_loss_order_id = None,
           lr_stop_loss_broker_order_id = None,
           lr_message = ''Idempotency hit: existing approved order reused''\<rparr>, s))
     | None \<Rightarrow>
         wbind (wlift (prepare_order ex p decision account_id trace market_url market_is_open s))
           (\<lambda>((signal_id, oid, quote, d), s).
         wbind (submit trace oid quote s) (\<lambda>(r, s).
         if \<not> br_accepted r then wlift (Inl (BrokerRefused (br_message r)))
         else
         wbind (exit_order ex submit trace account_id p LIMIT_IF_TOUCHED (tp_take_profit_price p)
                  signal_id s) (\<lambda>((tp_oid, tp_bid), s).
         wbind (exit_order ex submit trace account_id p STOP_LIMIT (tp_stop_loss_price p)
                  signal_id s) (\<lambda>((sl_oid, sl_bid), s).
         wbind (wlift (get_order s oid)) (\<lambda>ord.
         wlift (Inr (\<lparr>lr_thread_id = thread, lr_trace_id = trace, lr_status = COMPLETED,
           lr_proposal = p, lr_reviewer = Some (ha_reviewer decision),
           lr_order_id = Some oid, lr_risk_decision_id = Some (rd_risk_decision_id d),
           lr_broker_order_id = br_broker_order_id r,
           lr_order_status = Some (ord_status ord), lr_take_profit_order_id = tp_oid,
           lr_take_profit_broker_order_id = tp_bid, lr_stop_loss_order_id = sl_oid,
           lr_stop_loss_broker_order_id = sl_bid, lr_message = br_message r\<rparr>,
           add_agent_audit trace ''TRADE_APPROVED'' [(''proposal'', JObj (proposal_dump p))]
             [(''approval'', JObj (approval_dump decision)), (''order_id'', JStr oid),
              (''order_status'', JStr (status_value (ord_status ord))),
              (''take_profit_order_id'', json_opt JStr tp_oid),
              (''stop_loss_order_id'', json_opt JStr sl_oid)] s))))))))"

text \<open>
  The whole call, on the committed database \<open>db\<close>: the session of the transaction starts from it; a
  commit makes the flushed session the new database, an exception leaves the old one, and what the
  broker did meanwhile stays done. (Ids drawn by a rolled back transaction are drawn again in the
  model.)
\<close>

definition fresh_id :: "string \<Rightarrow> string option \<Rightarrow> session \<Rightarrow> string \<times> session" where
  "fresh_id prefix given s =
     (case given of Some (c # cs) \<Rightarrow> (c # cs, s) | _ \<Rightarrow> new_id prefix s)"

definition execute ::
  "executor \<Rightarrow> (string \<Rightarrow> string \<Rightarrow> market_quote \<Rightarrow> session \<Rightarrow> 'w \<Rightarrow>
     (broker_order_result \<times> session) result \<times> 'w) \<Rightarrow>
   llm_trade_proposal \<Rightarrow> human_approval_decision \<Rightarrow> string \<Rightarrow> string option \<Rightarrow> string option \<Rightarrow> string \<Rightarrow>
   bool option \<Rightarrow> session \<Rightarrow> 'w \<Rightarrow> llm_trading_run_result result \<times> session \<times> 'w" where
  "execute ex submit p decision account_id trace_id thread_id market_url market_is_open db w =
     (let (trace, s) = fresh_id ''trace'' trace_id db;
          (thread, s) = fresh_id ''thread'' thread_id s;
          (r, w) = do_execute ex submit p decision account_id trace thread market_url market_is_open s w
      in case rbind r (\<lambda>(res, s). rbind (flush s) (\<lambda>s. Inr (res, s))) of
           Inl e \<Rightarrow> (Inl e, db, w)
         | Inr (res, s) \<Rightarrow> (Inr res, s, w))"

section \<open>Proposals without a price\<close>

lemma prepare_order_unpriced:
  assumes "tp_limit_price p = None"
  shows "\<exists>e. prepare_order ex p decision acc tr url mo s = Inl e"
proof (cases "prepare_order ex p decision acc tr url mo s")
  case (Inr y)
  then have "valid_market_quote (quote_at (tp_symbol p) (or_else (tp_limit_price p) 0))"
    by (auto simp: prepare_order_def rbind_Inr_iff Let_def case_prod_unfold make_market_quote_ok)
  with assms show ?thesis by (simp add: quote_at_def or_else_def valid_market_quote_def)
qed simp

end
