(* ===== verification/Kernel_Runs.thy ===== *)
theory Kernel_Runs
  imports Trade_Executor
begin

text \<open>
  The kernel as a whole: \<open>kernel_step\<close> is one call of the order service, of the configured broker, of
  the push handler or one of the writes of the trade executor, on the session and the gateway. The
  trade executor only takes such steps, so the audit-trail invariant covers it with either broker.
\<close>

section \<open>Steps of the kernel\<close>

inductive kernel_step ::
  "order_service \<Rightarrow> broker \<Rightarrow> session \<times> gateway \<Rightarrow> session \<times> gateway \<Rightarrow> bool" for svc b where
  create: "valid_order_intent i \<Longrightarrow> create_order_from_intent svc tr i s = (oid, t) \<Longrightarrow>
    kernel_step svc b (s, g) (t, g)"
| risk: "run_risk_check svc tr oid q mo s = Inr (d, t) \<Longrightarrow> kernel_step svc b (s, g) (t, g)"
| approve: "transition_order tr oid RISK_APPROVED ''BRACKET_AUTO_APPROVED'' s = Inr t \<Longrightarrow>
    kernel_step svc b (s, g) (t, g)"
| submit: "broker_submit b tr oid q s g = (Inr (r, t), g') \<Longrightarrow> kernel_step svc b (s, g) (t, g')"
| cancel: "broker_cancel b tr oid s g = (Inr (r, t), g') \<Longrightarrow> kernel_step svc b (s, g) (t, g')"
| quote: "b = Local_Sim_Broker cfg \<Longrightarrow> process_quote cfg tr q s = Inr (ids, t) \<Longrightarrow>
    kernel_step svc b (s, g) (t, g)"
| push: "committed s \<Longrightarrow> handle_order_event svc lb_repr payload trace_id s = Inr (found, t) \<Longrightarrow>
    kernel_step svc b (s, g) (t, g)"
| signal: "kernel_step svc b (s, g) (add_signal sg s, g)"
| remark: "kernel_step svc b (s, g) (add_agent_audit tr ev inp out s, g)"
| draw: "kernel_step svc b (s, g) (snd (new_id p s), g)"
| sync: "flush s = Inr t \<Longrightarrow> kernel_step svc b (s, g) (t, g)"
| tick: "s_now s \<le> n \<Longrightarrow> kernel_step svc b (s, g) (s\<lparr>s_now := n\<rparr>, g)"

lemma add_agent_audit_trail: "trail_inv s \<Longrightarrow> trail_inv (add_agent_audit tr ev inp out s)"
  using trail.I_audit_row [OF trail.I_new_id]
  by (simp add: add_agent_audit_def case_prod_unfold Let_def)

lemma kernel_step_trail:
  assumes "trail_inv (fst x)" and "kernel_step svc b x y"
  shows "trail_inv (fst y)"
  using assms(2,1)
proof (induction rule: kernel_step.induct)
  case (create i tr s oid t g)
  then show ?case using trail.I_create [of s i svc tr] by simp
next
  case (risk tr oid q mo s d t g)
  then show ?case by (auto intro: trail.I_run_risk_check)
next
  case (approve tr oid s t g)
  then show ?case by (auto intro: trail.I_transition)
next
  case (submit tr oid q s g r t g')
  then show ?case by (auto intro: any_broker.submit_trail)
next
  case (cancel tr oid s g r t g')
  then show ?case by (auto intro: any_broker.cancel_trail)
next
  case (quote cfg tr q s ids t g)
  then show ?case by (auto intro: trail.I_process_quote)
next
  case (push s lb_repr payload trace_id found t g)
  then show ?case by (auto intro: placed.I_handle_order_event)
next
  case (signal s g sg)
  then show ?case by (simp add: add_signal_def trail.I_signals)
next
  case (remark s g tr ev inp out)
  then show ?case by (simp add: add_agent_audit_trail)
next
  case (draw s g p)
  then show ?case by (simp add: trail.I_new_id)
next
  case (sync s t g)
  then show ?case by (auto intro: trail.I_flush)
next
  case (tick s n g)
  then show ?case
    by (auto intro!: trail_inv_cong [of s] simp: finds order_trail_def fun_eq_iff)
qed

interpretation kernel_run: step_invariant "kernel_step svc b" "\<lambda>x. trail_inv (fst x)" for svc b
  by unfold_locales (rule kernel_step_trail)

section \<open>The executor takes kernel steps\<close>

lemmas run_into = rtranclp.rtrancl_into_rtrancl

lemma exit_order_run:
  assumes "exit_order ex (broker_submit b) tr acc p ty price sig s g = (Inr (x, t), g')"
  shows "(kernel_step (ex_order_service ex) b)\<^sup>*\<^sup>* (s, g) (t, g')"
proof (cases "tp_action p = TA_BUY \<and> truthy price")
  case True
  let ?i = "bracket_intent ex acc (tp_symbol p) (tp_quantity p) ty (the price) sig"
  let ?c = "create_order_from_intent (ex_order_service ex) tr ?i s"
  from True assms obtain s1 q r where valid: "valid_order_intent ?i"
    and app: "transition_order tr (fst ?c) RISK_APPROVED ''BRACKET_AUTO_APPROVED'' (snd ?c) = Inr s1"
    and sub: "broker_submit b tr (fst ?c) q s1 g = (Inr (r, t), g')"
    by (auto simp: exit_order_def submit_bracket_order_def wbind_Inr_iff Let_def case_prod_unfold
        make_order_intent_ok)
  have "kernel_step (ex_order_service ex) b (s, g) (snd ?c, g)"
    using valid by (intro kernel_step.create [where oid = "fst ?c"]) simp_all
  moreover have "kernel_step (ex_order_service ex) b (snd ?c, g) (s1, g)"
    using app by (rule kernel_step.approve)
  moreover have "kernel_step (ex_order_service ex) b (s1, g) (t, g')"
    using sub by (rule kernel_step.submit)
  ultimately show ?thesis by (meson converse_rtranclp_into_rtranclp rtranclp.rtrancl_refl)
next
  case False
  with assms show ?thesis by (auto simp: exit_order_def)
qed

lemma prepare_order_run:
  assumes "prepare_order ex p decision acc tr url mo s = Inr ((sig, oid, q, d), t)"
  shows "(kernel_step (ex_order_service ex) b)\<^sup>*\<^sup>* (s, g) (t, g)"
    and "\<exists>ord. find_order t oid = Some ord \<and> ord_status ord = RISK_APPROVED"
proof -
  let ?n = "new_id ''sig'' s"
  let ?c = "\<lambda>i s1. create_order_from_intent (ex_order_service ex) tr i s1"
  from assms obtain sg s1 i where flush: "flush (add_signal sg (snd ?n)) = Inr s1"
    and valid: "valid_order_intent i" and oid: "oid = fst (?c i s1)"
    and risk: "run_risk_check (ex_order_service ex) tr oid (Some q) mo (snd (?c i s1)) = Inr (d, t)"
    and ord: "\<exists>ord. find_order t oid = Some ord \<and> ord_status ord = RISK_APPROVED"
    by (auto simp: prepare_order_def rbind_Inr_iff Let_def case_prod_unfold make_order_intent_ok
        get_order_ok split: if_splits)
  show "\<exists>ord. find_order t oid = Some ord \<and> ord_status ord = RISK_APPROVED" by (rule ord)
  note kernel_step.draw [of "ex_order_service ex" b s g "''sig''"]
  moreover note kernel_step.signal [of "ex_order_service ex" b "snd ?n" g sg]
  moreover note kernel_step.sync [OF flush, of "ex_order_service ex" b g]
  moreover have "kernel_step (ex_order_service ex) b (s1, g) (snd (?c i s1), g)"
    using valid by (intro kernel_step.create [where oid = oid]) (simp_all add: oid)
  moreover note kernel_step.risk [OF risk, of b g]
  ultimately show "(kernel_step (ex_order_service ex) b)\<^sup>*\<^sup>* (s, g) (t, g)"
    by (meson converse_rtranclp_into_rtranclp rtranclp.rtrancl_refl)
qed

lemma do_execute_run:
  assumes "do_execute ex (broker_submit b) p decision acc tr th url mo s g = (Inr (res, t), g')"
  shows "(kernel_step (ex_order_service ex) b)\<^sup>*\<^sup>* (s, g) (t, g')"
proof (cases "find_existing_order ex tr (tp_symbol p) s")
  case (Some ord)
  with assms show ?thesis by (simp add: do_execute_def)
next
  case None
  with assms obtain sig oid q d s1 r s2 g2 x s3 g3 y s4 out where
    prep: "prepare_order ex p decision acc tr url mo s = Inr ((sig, oid, q, d), s1)"
    and sub: "broker_submit b tr oid q s1 g = (Inr (r, s2), g2)"
    and tp: "exit_order ex (broker_submit b) tr acc p LIMIT_IF_TOUCHED (tp_take_profit_price p) sig s2 g2
       = (Inr (x, s3), g3)"
    and sl: "exit_order ex (broker_submit b) tr acc p STOP_LIMIT (tp_stop_loss_price p) sig s3 g3
       = (Inr (y, s4), g')"
    and t: "t = add_agent_audit tr ''TRADE_APPROVED'' [(''proposal'', JObj (proposal_dump p))] out s4"
    by (auto simp: do_execute_def wbind_Inr_iff split: if_splits)
  have "(kernel_step (ex_order_service ex) b)\<^sup>*\<^sup>* (s, g) (s2, g2)"
    using prepare_order_run(1) [OF prep] kernel_step.submit [OF sub] by (rule run_into)
  moreover have "(kernel_step (ex_order_service ex) b)\<^sup>*\<^sup>* (s4, g') (t, g')"
    unfolding t by (intro r_into_rtranclp kernel_step.remark)
  ultimately show ?thesis
    using exit_order_run [OF tp] exit_order_run [OF sl] by (meson rtranclp_trans)
qed

text \<open>A call of \<open>execute\<close> leaves the database as it was, or takes it through a run of the kernel.\<close>

lemma execute_run:
  assumes "execute ex (broker_submit b) p decision acc trace_id thread_id url mo db g = (r, db', g')"
  shows "(\<exists>e. r = Inl e \<and> db' = db) \<or>
    (\<exists>res. r = Inr res \<and> (kernel_step (ex_order_service ex) b)\<^sup>*\<^sup>* (db, g) (db', g'))"
proof -
  have fresh: "(kernel_step (ex_order_service ex) b)\<^sup>*\<^sup>* (s, g) (snd (fresh_id pre given s), g)" for s pre given
    by (auto simp: fresh_id_def split: option.splits list.splits intro: kernel_step.draw)
  define tr s1 where "tr = fst (fresh_id ''trace'' trace_id db)" and "s1 = snd (fresh_id ''trace'' trace_id db)"
  define th s2 where "th = fst (fresh_id ''thread'' thread_id s1)" and "s2 = snd (fresh_id ''thread'' thread_id s1)"
  obtain x g1 where exec: "do_execute ex (broker_submit b) p decision acc tr th url mo s2 g = (x, g1)"
    by fastforce
  note eval = assms [unfolded execute_def Let_def case_prod_unfold, folded tr_def s1_def,
    folded th_def s2_def, unfolded exec fst_conv snd_conv]
  have start: "(kernel_step (ex_order_service ex) b)\<^sup>*\<^sup>* (db, g) (s2, g)"
    using fresh [of db "''trace''" trace_id] fresh [of s1 "''thread''" thread_id]
    by (simp add: s1_def [symmetric] s2_def [symmetric])
  show ?thesis
  proof (cases "rbind x (\<lambda>(res, s). rbind (flush s) (\<lambda>s. Inr (res, s)))")
    case (Inl e)
    with eval show ?thesis by (auto simp: case_prod_unfold)
  next
    case (Inr y)
    then obtain res s3 where x: "x = Inr (res, s3)" and fl: "flush s3 = Inr (snd y)" and y: "fst y = res"
      by (auto simp: rbind_Inr_iff)
    have "(kernel_step (ex_order_service ex) b)\<^sup>*\<^sup>* (s2, g) (snd y, g1)"
      using do_execute_run [OF exec [unfolded x]] kernel_step.sync [OF fl] by (rule run_into)
    with start have "(kernel_step (ex_order_service ex) b)\<^sup>*\<^sup>* (db, g) (snd y, g1)" by (rule rtranclp_trans)
    moreover have "r = Inr res" "db' = snd y" "g' = g1"
      using eval Inr y by (auto simp: case_prod_unfold)
    ultimately show ?thesis by blast
  qed
qed

end
