(* ===== verification/Order_Properties.thy ===== *)
theory Order_Properties
  imports Sim_Refinement
begin

text \<open>
  Properties of single operations of the order service and the simulated broker that the invariants
  of runs do not give: creation is idempotent, the risk check decides every new order, a resting
  order can be cancelled and the cancellation gives back exactly what the submission set aside.
\<close>

section \<open>Creation\<close>

lemma query_orders_hit:
  assumes "find_order s oid = Some ord" and "ord \<in> set (visible_orders s)" and "P ord"
    and "distinct (map ord_order_id (visible_orders s))"
    and "\<And>x. x \<in> set (visible_orders s) \<Longrightarrow> P x \<Longrightarrow> ord_order_id x = oid"
  shows "query_orders s P = [ord]"
proof -
  have id: "ord_order_id ord = oid" using assms(1) by (rule order_store.get_key)
  have "set (filter P (visible_orders s)) = {ord}"
    using assms id row_at_mem [OF assms(4)] by (auto, metis option.inject)
  moreover have "distinct (filter P (visible_orders s))"
    using assms(4) by (simp add: distinct_map)
  ultimately have "filter P (visible_orders s) = [ord]"
    by (metis distinct_card length_0_conv length_Suc_conv card.empty card_insert_disjoint
        empty_iff finite.emptyI list.set_intros(1) singletonD One_nat_def)
  then show ?thesis using assms(1) id by (simp add: query_orders_def)
qed

lemma create_order_idempotent:
  assumes "query_orders s (\<lambda>row. ord_idempotency_key row = idempotency_key svc i) = []"
    and "find_order s (fresh_order_id s) = None"
    and "create_order_from_intent svc tr i s = (oid, s1)" and "flush s1 = Inr s2"
    and "create_order_from_intent svc tr' i s2 = (oid', s3)"
  shows "oid' = oid \<and> s_orders s3 = s_orders s1 \<and> (\<exists>ord. find_order s3 oid = Some ord \<and>
     ord_status ord = CREATED \<and> intent_of_order ord = stored_intent i)"
proof -
  let ?ord = "order_of_intent svc i (fresh_order_id s) (fresh_client_order_id s) (s_now s)"
  let ?key = "\<lambda>row. ord_idempotency_key row = idempotency_key svc i"
  have id: "ord_order_id ?ord = fresh_order_id s" by (simp add: order_of_intent_def)
  have oid: "oid = fresh_order_id s" and s1: "s_orders s1 = s_orders s @ [?ord]"
    using assms(3) by (auto simp: create_order_new [OF assms(1)])
  have s2: "s_orders s2 = s_orders s1" "visible_orders s2 = s_orders s1" "unique_ok s1"
    using assms(4) by (auto simp: flush_ok visible_orders_def)
  have find: "find_order s2 oid = Some ?ord"
    using assms(2) by (simp add: find_order_def s2 s1 row_at_append oid id)
  have "query_orders s2 ?key = [?ord]"
  proof (rule query_orders_hit [OF find])
    show "?key ?ord" by (simp add: order_of_intent_def)
    show "distinct (map ord_order_id (visible_orders s2))" using s2 by (simp add: unique_ok_def)
    have "distinct (map ord_idempotency_key (s_orders s1))" using s2 by (simp add: unique_ok_def)
    moreover have mem: "?ord \<in> set (s_orders s1)" by (simp add: s1)
    ultimately show "ord_order_id x = oid" if "x \<in> set (visible_orders s2)" "?key x" for x
      using that s2(2) row_at_mem [of ord_idempotency_key "s_orders s1"] id oid
      by (metis (no_types, lifting) option.inject order_of_intent_def trade_order.select_convs(16))
    show "?ord \<in> set (visible_orders s2)" using mem s2 by simp
  qed
  then have "oid' = ord_order_id ?ord" and s3: "s_orders s3 = s_orders s2" "find_order s3 = find_order s2"
    using assms(5) by (auto simp: create_order_hit)
  moreover have "ord_status ?ord = CREATED" by (simp add: order_of_intent_def)
  ultimately show ?thesis
    using find s2(1) id oid by (simp add: intent_of_order_of_intent)
qed

section \<open>The risk check decides\<close>

lemma run_risk_check_decides:
  assumes "find_order s oid = Some ord" and "ord_status ord = CREATED"
    and "valid_order_intent (intent_of_order ord)" and "unique_ok s"
    and "s_enforce_fk s \<Longrightarrow> fk_ok s"
  shows "\<exists>d t. run_risk_check svc tr oid q mo s = Inr (d, t) \<and> d \<in> set (s_risk_decisions t) \<and>
     find_order t oid = Some (ord\<lparr>ord_risk_decision_id := Some (rd_risk_decision_id d),
       ord_status := (if rr_approved (risk_check (os_risk_config svc) s (intent_of_order ord)
         (Some oid) q mo None) then RISK_APPROVED else RISK_REJECTED)\<rparr>)"
proof -
  have id: "ord_order_id ord = oid" using assms(1) by (rule order_store.get_key)
  have get: "get_order s oid = Inr ord" using assms(1) by (simp add: get_order_ok)
  let ?s = "\<lambda>d. add_risk_decision d (snd (new_id ''risk'' s))"
  have "unique_ok (?s d)" for d using assms(4) by (simp add: unique_ok_def)
  moreover have "fk_ok (?s d)" if "rd_signal_id d = ord_source_signal_id ord" "s_enforce_fk s" for d
    using assms(5) that find_order_mem [OF assms(1)]
    unfolding fk_ok_def add_risk_decision_frame new_id_frame s_risk_decisions_add
    by (simp add: list_all_iff)
  ultimately have flush: "flush (?s d) = Inr ((?s d)\<lparr>s_db_orders := s_orders s\<rparr>)"
    if "rd_signal_id d = ord_source_signal_id ord" for d
    using that by (simp add: flush_def)
  show ?thesis
    using assms(1-3) id
    by (simp add: run_risk_check_def get make_order_intent_def Let_def case_prod_unfold flush
        set_risk_decision_id_def get_order_def transition_order_def assert_order_transition_def
        order_store.get_put)
qed

section \<open>Submission and cancellation\<close>

lemma release_after_reserve:
  assumes res: "reserve_resources cfg tr ord q s = Inr (None, s1)"
    and tables: "s_accounts s2 = s_accounts s1" "s_positions s2 = s_positions s1"
    and limit: "ord_limit_price ord \<noteq> None" and filled: "ord_filled_quantity ord = 0"
    and same: "intent_of_order ord' = intent_of_order ord"
      "ord_filled_quantity ord' = ord_filled_quantity ord"
    and dist: "distinct (map acc_account_id (s_accounts s))" "distinct (map pos_key (s_positions s))"
  shows "\<exists>t. release_resources cfg tr' ord' s2 = Inr t \<and> s_accounts t = s_accounts s \<and>
     s_positions t = s_positions s \<and> find_order t = find_order s2"
proof -
  note eq = intent_of_order_eqD [OF same(1)]
  note fnd = find_cong(1) [OF tables(1)] find_cong(2) [OF tables(2)]
  have br: "is_bracket_order ord' = is_bracket_order ord" by (simp add: is_bracket_order_def eq)
  from res show ?thesis
  proof (cases rule: reserve_resources_cases)
    case (buy account reserved i out)
    have aid: "acc_account_id account = ord_account_id ord"
      using buy(3) by (rule account_store.get_key)
    have "find_account s2 (ord_account_id ord) = Some (account\<lparr>
        acc_cash_available := acc_cash_available account - reserved,
        acc_cash_frozen := acc_cash_frozen account + reserved\<rparr>)"
      using buy(3) aid by (simp add: fnd buy(6) account_store.get_put)
    moreover have "reserved_cash cfg ord' None None = Inr reserved"
      using buy(4) limit by (auto simp: reserved_cash_def eq)
    moreover have "put_row acc_account_id account (s_accounts s) = s_accounts s"
      using dist(1) buy(3) by (auto simp: find_account_def intro: put_row_same)
    ultimately show ?thesis
      using buy(2) aid
      by (simp add: release_resources_def eq Let_def tables buy(6) put_row_put_row)
  next
    case (bracket account i out)
    then show ?thesis
      by (auto simp: release_resources_def eq br Let_def tables fnd is_bracket_order_def)
  next
    case (sell account p i out)
    have key: "pos_key p = (ord_account_id ord, ord_symbol ord)"
      using sell(5) by (rule position_store.get_key)
    have "find_position s2 (ord_account_id ord, ord_symbol ord) =
        Some (p\<lparr>pos_available_quantity := pos_available_quantity p - ord_quantity ord\<rparr>)"
      using sell(5) key by (simp add: fnd sell(7) position_store.get_put)
    moreover have "find_account s2 (ord_account_id ord) = Some account"
      using sell(4) by (simp add: fnd sell(7))
    moreover have "put_row pos_key p (s_positions s) = s_positions s"
      using dist(2) sell(5) by (auto simp: find_position_def intro: put_row_same)
    ultimately show ?thesis
      using sell(2,3) key filled same(2)
      by (simp add: release_resources_def eq br Let_def tables sell(7) put_row_put_row)
  qed simp
qed

lemma submit_cancel_roundtrip:
  assumes sub: "ls_submit_order cfg tr oid q s = Inr (r, s1)" and acc: "br_accepted r"
    and ord: "find_order s oid = Some ord" and rest: "ls_fill_price ord q = None"
    and wf: "valid_order_intent (intent_of_order ord)" "ord_filled_quantity ord = 0"
    and dist: "distinct (map acc_account_id (s_accounts s))" "distinct (map pos_key (s_positions s))"
  shows "\<exists>r' t ord'. ls_cancel_order cfg tr' oid s1 = Inr (r', t) \<and> br_accepted r' \<and>
     s_accounts t = s_accounts s \<and> s_positions t = s_positions s \<and>
     find_order t oid = Some ord' \<and> ord_status ord' = CANCELLED"
  using sub
proof (cases rule: ls_submit_order_cases)
  case (accepted ord0 bid s2 s3 s4 s5 s6)
  then have [simp]: "ord0 = ord" using ord by simp
  have s1: "s1 = s6" using accepted(12) rest by simp
  have "find_order s2 oid = Some ord" using ord reserve_orders [OF accepted(7)] by simp
  note hand = handover_book [OF this accepted(8-10)]
  let ?sub = "submitted ord (Some bid)"
  have id: "ord_order_id ord = oid" using ord by (rule order_store.get_key)
  have get: "find_order s1 oid = Some ?sub" by (simp add: s1 accepted(11) hand)
  have tables: "s_accounts s1 = s_accounts s2" "s_positions s1 = s_positions s2"
    using arg_cong [OF hand(1), of bk_accounts] arg_cong [OF hand(1), of bk_positions]
    by (simp_all add: s1 accepted(11))
  have limit: "ord_limit_price ord \<noteq> None"
    using valid_intent_of_order(3) [OF wf(1)] market_fill_price [of ord q] rest by auto
  let ?pend = "?sub\<lparr>ord_status := CANCEL_PENDING\<rparr>"
  obtain s7 where s7: "transition_order tr' oid CANCEL_PENDING ''LOCAL_SIM_CANCEL_PENDING'' s1 = Inr s7"
    "s_accounts s7 = s_accounts s2" "s_positions s7 = s_positions s2" "find_order s7 oid = Some ?pend"
    using get id by (auto simp: transition_order_ok tables order_store.get_put)
  obtain s8 where s8: "release_resources cfg tr' ?sub s7 = Inr s8" "s_accounts s8 = s_accounts s"
    "s_positions s8 = s_positions s" "find_order s8 = find_order s7"
    using release_after_reserve [OF accepted(7) [simplified] s7(2,3) limit wf(2), of ?sub] dist by auto
  obtain s9 where s9: "transition_order tr' oid CANCELLED ''LOCAL_SIM_ORDER_CANCELLED'' s8 = Inr s9"
    "s_accounts s9 = s_accounts s" "s_positions s9 = s_positions s"
    "find_order s9 oid = Some (?pend\<lparr>ord_status := CANCELLED\<rparr>)"
    using s7(4) s8 id by (auto simp: transition_order_ok order_store.get_put)
  show ?thesis
    using get s7(1) s8(1) s9 by (simp add: ls_cancel_order_def get_order_def Let_def)
qed (use acc in auto)

end
