(* ===== verification/Demo_Session.thy ===== *)
theory Demo_Session
  imports Kernel_Runs Order_Properties
begin

text \<open>
  A concrete session on which the properties are instantiated: one account with 1000 in cash, one
  buy order of 2 shares limited at 100, checked, submitted while the market is at 120 and filled when
  it falls to 90. The hash is the identity and decimals are printed in unary up to their integer
  part; nothing depends on either.
\<close>

definition demo_str :: "rat \<Rightarrow> string" where
  "demo_str q = replicate (nat \<lfloor>q\<rfloor>) CHR ''i''"

definition demo_svc :: order_service where
  "demo_svc = \<lparr>os_risk_config = default_risk_config, os_sha256 = id, os_str_decimal = demo_str\<rparr>"

definition demo_cfg :: local_sim_config where
  "demo_cfg = \<lparr>commission_rate = 1 / 100, minimum_commission = 0\<rparr>"

definition demo_account :: account where
  "demo_account = \<lparr>acc_account_id = ''acc'', acc_base_currency = ''USD'', acc_cash_available = 1000,
     acc_cash_frozen = 0, acc_equity = 1000, acc_realized_pnl = 0, acc_unrealized_pnl = 0\<rparr>"

definition demo0 :: session where
  "demo0 = \<lparr>s_autoflush = False, s_enforce_fk = True, s_now = 0,
     s_uuids = (\<lambda>n. replicate n CHR ''a''), s_uuid_next = 0, s_accounts = [demo_account],
     s_positions = [], s_signals = [], s_risk_decisions = [], s_orders = [], s_db_orders = [],
     s_fills = [], s_cash_ledger = [], s_audit_logs = [], s_outbox_events = [],
     s_broker_events = []\<rparr>"

definition demo_intent :: order_intent where
  "demo_intent = \<lparr>oi_account_id = ''acc'', oi_symbol = ''S'', oi_side = BUY, oi_order_type = LIMIT,
     oi_quantity = 2, oi_limit_price = Some 100, oi_time_in_force = DAY, oi_source_signal_id = None,
     oi_strategy_name = None, oi_trigger_price = None\<rparr>"

definition demo_quote :: "rat \<Rightarrow> market_quote" where
  "demo_quote p =
     \<lparr>mq_symbol = ''S'', mq_last_price = p, mq_bid_price = None, mq_ask_price = None\<rparr>"

definition demo1 :: session where
  "demo1 = snd (create_order_from_intent demo_svc ''t'' demo_intent demo0)"

definition demo_oid :: string where
  "demo_oid = ''ord_''"

definition demo_order :: trade_order where
  "demo_order = order_of_intent demo_svc demo_intent ''ord_'' ''client_a'' 0"

definition demo_rid :: string where
  "demo_rid = ''risk_'' @ s_uuids demo1 (s_uuid_next demo1)"

definition demo2 :: session where
  "demo2 = snd (projr
     (run_risk_check demo_svc ''t'' demo_oid (Some (demo_quote 101)) (Some True) demo1))"

definition demo_bid :: string where
  "demo_bid = ''ls_order_'' @ s_uuids demo2 (Suc (s_uuid_next demo2))"

definition demo3 :: session where
  "demo3 = snd (projr (ls_submit_order demo_cfg ''t'' demo_oid (demo_quote 120) demo2))"

definition demo3c :: session where
  "demo3c = demo3\<lparr>s_db_orders := s_orders demo3\<rparr>"

definition demo4 :: session where
  "demo4 = snd (projr (process_quote demo_cfg ''t'' (demo_quote 90) demo3c))"

section \<open>What the run does\<close>

lemma demo_valid [simp]:
  "valid_order_intent demo_intent" "no_bracket (stored_intent demo_intent)"
  "unpriced_market (stored_intent demo_intent)" "fair_commission demo_cfg"
  "0 < p \<Longrightarrow> valid_market_quote (demo_quote p)"
  by (simp_all add: valid_order_intent_def demo_intent_def opt_positive_def no_bracket_def
      stored_intent_def unpriced_market_def fair_commission_def demo_cfg_def demo_quote_def
      valid_market_quote_def)

lemma demo_created:
  "fst (create_order_from_intent demo_svc ''t'' demo_intent demo0) = demo_oid"
  "s_orders demo1 = [demo_order]" "s_accounts demo1 = [demo_account]" "s_positions demo1 = []"
  "s_db_orders demo1 = []" "s_signals demo1 = []" "s_risk_decisions demo1 = []"
  "s_autoflush demo1 = False" "s_enforce_fk demo1 = True" "s_now demo1 = 0" "s_fills demo1 = []"
  "s_cash_ledger demo1 = []"
proof -
  have q: "query_orders demo0 (\<lambda>row. ord_idempotency_key row = idempotency_key demo_svc demo_intent) = []"
    by (simp add: query_orders_def visible_orders_def demo0_def)
  show "fst (create_order_from_intent demo_svc ''t'' demo_intent demo0) = demo_oid"
  "s_orders demo1 = [demo_order]" "s_accounts demo1 = [demo_account]" "s_positions demo1 = []"
  "s_db_orders demo1 = []" "s_signals demo1 = []" "s_risk_decisions demo1 = []"
  "s_autoflush demo1 = False" "s_enforce_fk demo1 = True" "s_now demo1 = 0" "s_fills demo1 = []"
  "s_cash_ledger demo1 = []"
    by (simp_all add: demo1_def create_order_new [OF q] demo_order_def fresh_order_id_def
        fresh_client_order_id_def, simp_all add: demo0_def demo_oid_def)
qed

lemma demo_order_simps:
  "ord_order_id demo_order = demo_oid" "ord_status demo_order = CREATED"
  "ord_account_id demo_order = ''acc''" "ord_source_signal_id demo_order = None"
  "intent_of_order demo_order = demo_intent" "ord_broker_order_id demo_order = None"
  "ord_side demo_order = BUY" "ord_order_type demo_order = LIMIT"
  "ord_limit_price demo_order = Some 100" "ord_quantity demo_order = 2"
  "ord_symbol demo_order = ''S''"
  by (simp_all add: demo_order_def order_of_intent_def demo_oid_def intent_of_order_def
      demo_intent_def)

lemma demo_risk_ok:
  "rr_approved (risk_check (os_risk_config demo_svc) demo1 demo_intent (Some demo_oid)
     (Some (demo_quote 101)) (Some True) None)"
proof -
  have a: "find_account demo1 (oi_account_id demo_intent) = Some demo_account"
    by (simp add: finds demo_created demo_account_def demo_intent_def)
  have c: "count_orders demo1 p = 0" for p
    by (simp add: count_orders_def visible_orders_def demo_created)
  show ?thesis
    unfolding risk_approved [OF a] risk_rules_def
    by (simp add: demo_svc_def default_risk_config_def demo_quote_def demo_intent_def
        estimate_order_value_def demo_account_def c)
qed

lemmas demo_eval = flush_def unique_ok_def fk_ok_def demo_created List.map_filter_simps get_order_def
  finds transition_order_def assert_order_transition_def Let_def case_prod_unfold demo_order_simps

lemma demo2_ok:
  "(\<exists>d. run_risk_check demo_svc ''t'' demo_oid (Some (demo_quote 101)) (Some True) demo1 =
     Inr (d, demo2)) \<and>
   s_orders demo2 = [demo_order\<lparr>ord_risk_decision_id := Some demo_rid, ord_status := RISK_APPROVED\<rparr>] \<and>
   s_accounts demo2 = [demo_account] \<and> s_positions demo2 = [] \<and> s_signals demo2 = [] \<and>
   map rd_signal_id (s_risk_decisions demo2) = [None] \<and> s_autoflush demo2 = False \<and>
   s_enforce_fk demo2 = True \<and> s_now demo2 = 0 \<and> s_fills demo2 = [] \<and> s_cash_ledger demo2 = []"
proof -
  have g: "get_order demo1 demo_oid = Inr demo_order"
    by (simp add: get_order_def finds demo_created demo_order_simps)
  show ?thesis
    by (simp add: demo2_def run_risk_check_def g make_order_intent_def demo_risk_ok
     set_risk_decision_id_def demo_account_def add_risk_decision_def demo_eval demo_rid_def fst_new_id)
qed

lemma demo3_ok:
  "(\<exists>r. ls_submit_order demo_cfg ''t'' demo_oid (demo_quote 120) demo2 = Inr (r, demo3)) \<and>
   s_orders demo3 = [submitted (demo_order\<lparr>ord_risk_decision_id := Some demo_rid\<rparr>) (Some demo_bid)] \<and>
   s_accounts demo3 = [demo_account\<lparr>acc_cash_available := 798, acc_cash_frozen := 202\<rparr>] \<and>
   s_positions demo3 = [] \<and> s_signals demo3 = [] \<and>
   map rd_signal_id (s_risk_decisions demo3) = [None] \<and> s_autoflush demo3 = False \<and>
   s_enforce_fk demo3 = True \<and> s_fills demo3 = [] \<and> s_cash_ledger demo3 = []"
  using demo2_ok
  by (simp add: demo3_def ls_submit_order_def demo_eval reserve_resources_def demo_account_def
      demo_quote_def reserved_cash_def demo_cfg_def ls_commission_def set_broker_order_id_def
      ls_fill_price_def or_else_def submitted_def demo_bid_def fst_new_id record_event_def
      audit_logs_audit)

lemma demo_fill:
  "\<exists>t. apply_fill demo_cfg ''t'' demo_oid 90 demo3c = Inr t \<and>
     map ord_status (s_orders t) = [FILLED] \<and> map acc_cash_available (s_accounts t) = [4091 / 5] \<and>
     map acc_cash_frozen (s_accounts t) = [0] \<and> map acc_equity (s_accounts t) = [4991 / 5] \<and>
     map pos_quantity (s_positions t) = [2] \<and> map pos_available_quantity (s_positions t) = [2] \<and>
     map cl_amount (s_cash_ledger t) = [- 909 / 5] \<and>
     map ord_order_id (s_orders t) = [demo_oid] \<and> map acc_account_id (s_accounts t) = [''acc''] \<and>
     map pos_key (s_positions t) = [(''acc'', ''S'')]"
proof -
  obtain d where d: "s_risk_decisions demo3 = [d]" "rd_signal_id d = None"
    using demo3_ok by (auto simp: map_eq_Cons_conv)
  show ?thesis
    using demo3_ok d
    by (simp add: demo3c_def apply_fill_def demo_eval get_or_create_position_def settle_def
        mark_position_def submitted_def demo_account_def demo_quote_def reserved_cash_def
        demo_cfg_def ls_commission_def weighted_avg_cost_def total_market_value_def
        total_unrealized_pnl_def)
qed

lemma demo4_ok:
  "process_quote demo_cfg ''t'' (demo_quote 90) demo3c = Inr ([demo_oid], demo4) \<and>
   map ord_status (s_orders demo4) = [FILLED] \<and> map acc_cash_available (s_accounts demo4) = [4091 / 5] \<and>
   map acc_cash_frozen (s_accounts demo4) = [0] \<and> map acc_equity (s_accounts demo4) = [4991 / 5] \<and>
   map pos_quantity (s_positions demo4) = [2] \<and> map pos_available_quantity (s_positions demo4) = [2] \<and>
   map cl_amount (s_cash_ledger demo4) = [- 909 / 5] \<and>
   map ord_order_id (s_orders demo4) = [demo_oid] \<and> map acc_account_id (s_accounts demo4) = [''acc''] \<and>
   map pos_key (s_positions demo4) = [(''acc'', ''S'')]"
proof -
  let ?ord = "submitted (demo_order\<lparr>ord_risk_decision_id := Some demo_rid\<rparr>) (Some demo_bid)"
  have orders: "s_orders demo3c = [?ord]" "s_db_orders demo3c = [?ord]" "s_autoflush demo3c = False"
    using demo3_ok by (simp_all add: demo3c_def)
  then have "query_orders demo3c (\<lambda>row. ord_symbol row = mq_symbol (demo_quote 90) \<and>
      ord_status row = SUBMITTED) = [?ord]" and get: "get_order demo3c demo_oid = Inr ?ord"
    by (simp_all add: query_orders_def visible_orders_def finds demo_order_simps demo_quote_def
        get_order_def)
  moreover have "ls_fill_price ?ord (demo_quote 90) = Some 90"
    by (simp add: ls_fill_price_def demo_order_simps demo_quote_def or_else_def)
  ultimately have "process_quote demo_cfg ''t'' (demo_quote 90) demo3c =
      rbind (apply_fill demo_cfg ''t'' demo_oid 90 demo3c) (\<lambda>t. Inr ([demo_oid], t))"
    by (simp add: process_quote_def demo_order_simps)
  with demo_fill show ?thesis by (auto simp: demo4_def)
qed

section \<open>The run as steps\<close>

lemma demo_sync: "flush demo3 = Inr demo3c"
proof -
  obtain d where "s_risk_decisions demo3 = [d]" "rd_signal_id d = None"
    using demo3_ok by (auto simp: map_eq_Cons_conv)
  with demo3_ok show ?thesis
    by (simp add: demo3c_def demo_eval submitted_def demo_account_def)
qed

lemma demo_steps:
  assumes "P (stored_intent demo_intent)"
  shows "sim_step P demo_svc demo_cfg demo0 demo1" "sim_step P demo_svc demo_cfg demo1 demo2"
    "sim_step P demo_svc demo_cfg demo2 demo3" "sim_step P demo_svc demo_cfg demo3 demo3c"
    "sim_step P demo_svc demo_cfg demo3c demo4"
proof -
  show "sim_step P demo_svc demo_cfg demo0 demo1"
    using assms by (intro sim_step.create [of demo_intent P demo_svc "''t''" _ demo_oid])
      (simp_all add: demo1_def prod_eq_iff demo_created)
  show "sim_step P demo_svc demo_cfg demo1 demo2" "sim_step P demo_svc demo_cfg demo2 demo3"
    "sim_step P demo_svc demo_cfg demo3 demo3c" "sim_step P demo_svc demo_cfg demo3c demo4"
    using demo2_ok demo3_ok demo4_ok demo_sync
    by (auto intro: sim_step.risk sim_step.submit [of "demo_quote 120"] sim_step.sync
        sim_step.quote [of "demo_quote 90"])
qed

lemma demo_run:
  assumes "P (stored_intent demo_intent)"
  shows "(sim_step P demo_svc demo_cfg)\<^sup>*\<^sup>* demo0 demo3"
    and "(sim_step P demo_svc demo_cfg)\<^sup>*\<^sup>* demo0 demo4"
proof -
  note steps = demo_steps [of P, OF assms]
  show run: "(sim_step P demo_svc demo_cfg)\<^sup>*\<^sup>* demo0 demo3"
    using steps(1-3) by (meson rtranclp.rtrancl_into_rtrancl rtranclp.rtrancl_refl)
  show "(sim_step P demo_svc demo_cfg)\<^sup>*\<^sup>* demo0 demo4"
    using run steps(4,5) by (meson rtranclp.rtrancl_into_rtrancl)
qed

lemma demo_inv: "trail_inv demo0" "book_wf P (book_of demo0)" "sim_inv P demo0"
proof -
  have "inj (\<lambda>n. replicate n CHR ''a'')"
    by (rule injI) (metis length_replicate)
  then show "trail_inv demo0" "book_wf P (book_of demo0)" "sim_inv P demo0"
    by (simp_all add: sim_inv_def trail_inv_def ids_fresh_def book_wf_def demo0_def finds
        order_trail_def)
qed

text \<open>The numbers the run starts from and ends with.\<close>

lemma demo0_numbers:
  "cash_booked (\<lambda>a. if a = ''acc'' then 1000 else 0) (book_of demo0)"
  "frozen_backed cfg (book_of demo0)" "shares_backed (book_of demo0)" "cash_nonneg (book_of demo0)"
  "equity_marked (book_of demo0)" "fills_match (book_of demo0)"
  by (simp_all add: cash_booked_def frozen_backed_def shares_backed_def cash_nonneg_def
      equity_marked_def fills_match_def acc_view_def pos_view_def ledger_total_def account_sum_def
      finds demo0_def demo_account_def)

lemma demo4_order: "\<exists>ord. find_order demo4 demo_oid = Some ord \<and> ord_status ord = FILLED"
  using demo4_ok by (auto simp: map_eq_Cons_conv finds)

lemma demo4_ledger: "ledger_total (book_of demo4) ''acc'' = - 909 / 5"
proof -
  have "cash_booked (\<lambda>a. if a = ''acc'' then 1000 else 0) (book_of demo4)"
    by (rule sim_run_invariant [where I = "cash_booked (\<lambda>a. if a = ''acc'' then 1000 else 0)",
          OF demo_run(2) [of no_bracket] demo_inv(3) _ demo0_numbers(1)])
      (simp, rule cash_booked_step)
  then have "cash_total (book_of demo4) ''acc'' = 1000 + ledger_total (book_of demo4) ''acc''"
    by (simp add: cash_booked_def)
  moreover have "cash_total (book_of demo4) ''acc'' = 4091 / 5"
    using demo4_ok by (auto simp: acc_view_def finds map_eq_Cons_conv)
  ultimately show ?thesis by simp
qed

lemma demo0_ledger: "ledger_total (book_of demo0) a = 0"
  by (simp add: ledger_total_def demo0_def)

lemma transition_accounts: "transition_order tr oid tgt ev s = Inr t \<Longrightarrow> s_accounts t = s_accounts s"
  by (auto simp: transition_order_ok)

lemma demo_accepted:
  "ls_submit_order demo_cfg ''t'' demo_oid (demo_quote 120) demo2 = Inr (r, demo3) \<Longrightarrow> br_accepted r"
proof (erule ls_submit_order_cases)
  assume "demo3 = demo2"
  then have "s_accounts demo3 = s_accounts demo2" by simp
  then show ?thesis using demo2_ok demo3_ok by (auto simp: demo_account_def)
next
  fix ord ev
  assume "transition_order ''t'' demo_oid FAILED ev demo2 = Inr demo3"
  then have "s_accounts demo3 = s_accounts demo2" by (rule transition_accounts)
  then show ?thesis using demo2_ok demo3_ok by (auto simp: demo_account_def)
qed

text \<open>The same run as steps of the whole kernel, with a gateway nobody calls.\<close>

definition demo_gateway :: gateway where
  "demo_gateway = \<lparr>gw_calls = [], gw_submit_answer = (\<lambda>_ _. Inr ''LB1''),
     gw_cancel_answer = (\<lambda>_ _. Inr ())\<rparr>"

lemma demo_kernel_run:
  "(kernel_step demo_svc (Local_Sim_Broker demo_cfg))\<^sup>*\<^sup>* (demo0, demo_gateway) (demo4, demo_gateway)"
proof -
  let ?step = "kernel_step demo_svc (Local_Sim_Broker demo_cfg)"
  have "?step (demo0, demo_gateway) (demo1, demo_gateway)"
    by (intro kernel_step.create [of demo_intent demo_svc "''t''" _ demo_oid])
      (simp_all add: demo1_def prod_eq_iff demo_created)
  moreover have "?step (demo1, demo_gateway) (demo2, demo_gateway)"
    using demo2_ok by (auto intro: kernel_step.risk)
  moreover have "?step (demo2, demo_gateway) (demo3, demo_gateway)"
    using demo3_ok
    by (auto intro: kernel_step.submit [of _ "''t''" demo_oid "demo_quote 120"]
        simp: broker_submit_def local_sim_submit_def)
  moreover have "?step (demo3, demo_gateway) (demo3c, demo_gateway)"
    using demo_sync by (rule kernel_step.sync)
  moreover have "?step (demo3c, demo_gateway) (demo4, demo_gateway)"
    using demo4_ok by (auto intro: kernel_step.quote)
  ultimately show ?thesis by (meson converse_rtranclp_into_rtranclp rtranclp.rtrancl_refl)
qed

section \<open>Longbridge and the executor on the demo session\<close>

definition demo_lb_cfg :: longbridge_config where
  "demo_lb_cfg = \<lparr>lb_mode = ''Paper'', lb_enable_order_submission = True, lb_enable_live_trading = False\<rparr>"

definition demo_dead_gateway :: gateway where
  "demo_dead_gateway = \<lparr>gw_calls = [], gw_submit_answer = (\<lambda>_ _. Inl (Gw_Timeout ''timeout'')),
     gw_cancel_answer = (\<lambda>_ _. Inl (Gw_Timeout ''timeout''))\<rparr>"

lemma demo_lb_enabled: "submission_enabled demo_lb_cfg"
  by code_simp

lemma demo2_order:
  "find_order demo2 demo_oid =
     Some (demo_order\<lparr>ord_risk_decision_id := Some demo_rid, ord_status := RISK_APPROVED\<rparr>)"
  "ord_status (demo_order\<lparr>ord_risk_decision_id := Some demo_rid, ord_status := RISK_APPROVED\<rparr>) =
     RISK_APPROVED"
  "trigger_price_of (ord_raw_request
     (demo_order\<lparr>ord_risk_decision_id := Some demo_rid, ord_status := RISK_APPROVED\<rparr>)) = Inr None"
  using demo2_ok
  by (simp_all add: finds demo_order_simps)
    (simp add: demo_order_def order_of_intent_def intent_dump_def trigger_price_of_def json_opt_def
      demo_intent_def)

lemma demo_lb_sent:
  "gw_calls (snd (lb_submit_order demo_lb_cfg ''t'' demo_oid (demo_quote 100) demo2 demo_gateway)) \<noteq> []"
  using demo2_order(1)
  by (cases rule: lb_submit_order_cases [where cfg = demo_lb_cfg and tr = "''t''"
        and q = "demo_quote 100" and g = demo_gateway])
    (use demo_lb_enabled demo2_order(2,3) in auto)

definition demo_ex :: executor where
  "demo_ex = \<lparr>ex_order_service = demo_svc, ex_strategy_name = ''harness_agent'',
     ex_strategy_version = ''1.0'', ex_signal_raw_extras = []\<rparr>"

definition demo_proposal :: llm_trade_proposal where
  "demo_proposal = \<lparr>tp_action = TA_BUY, tp_symbol = ''S'', tp_confidence = 1 / 2, tp_quantity = 2,
     tp_order_type = LIMIT, tp_limit_price = Some 100, tp_take_profit_price = None,
     tp_stop_loss_price = None, tp_rationale = ''r'', tp_risk_notes = []\<rparr>"

definition demo_market_proposal :: llm_trade_proposal where
  "demo_market_proposal = demo_proposal\<lparr>tp_order_type := MARKET, tp_limit_price := None\<rparr>"

definition demo_decision :: human_approval_decision where
  "demo_decision = \<lparr>ha_approved = True, ha_reviewer = ''me'', ha_reason = []\<rparr>"

lemma demo_market_fails:
  "isl (fst (execute demo_ex (broker_submit (Local_Sim_Broker demo_cfg)) demo_market_proposal
     demo_decision ''acc'' (Some ''tr'') (Some ''th'') [] None demo0 demo_gateway))"
proof -
  have none: "find_existing_order demo_ex ''tr'' (tp_symbol demo_market_proposal) demo0 = None"
    by (simp add: find_existing_order_def query_orders_def visible_orders_def demo0_def)
  have "tp_limit_price demo_market_proposal = None" by (simp add: demo_market_proposal_def)
  from prepare_order_unpriced [OF this]
  obtain e where "prepare_order demo_ex demo_market_proposal demo_decision ''acc'' ''tr'' [] None demo0 = Inl e"
    by blast
  with none show ?thesis by (simp add: execute_def fresh_id_def do_execute_def)
qed

text \<open>The executor's own order: signal, order and approval on the demo session.\<close>

definition demo_signal :: strategy_signal where
  "demo_signal = projr (build_signal demo_ex ''sig_'' ''tr'' [] demo_proposal demo_decision)"

definition demo_s1 :: session where
  "demo_s1 = demo0\<lparr>s_uuid_next := Suc 0, s_signals := [demo_signal]\<rparr>"

definition demo_ex_intent :: order_intent where
  "demo_ex_intent = proposal_intent demo_ex ''acc'' demo_proposal BUY ''sig_''"

definition demo_s2 :: session where
  "demo_s2 = snd (create_order_from_intent demo_svc ''tr'' demo_ex_intent demo_s1)"

definition demo_ex_order :: trade_order where
  "demo_ex_order = order_of_intent demo_svc demo_ex_intent ''ord_a'' ''client_aa'' 0"

lemma demo_s2_tables:
  "create_order_from_intent demo_svc ''tr'' demo_ex_intent demo_s1 = (''ord_a'', demo_s2)"
  "s_orders demo_s2 = [demo_ex_order]" "s_accounts demo_s2 = [demo_account]" "s_positions demo_s2 = []"
  "s_db_orders demo_s2 = []" "s_signals demo_s2 = [demo_signal]" "s_risk_decisions demo_s2 = []"
  "\<not> s_autoflush demo_s2"
proof -
  have q: "query_orders demo_s1 (\<lambda>row. ord_idempotency_key row = idempotency_key demo_svc demo_ex_intent) = []"
    by (simp add: query_orders_def visible_orders_def demo_s1_def demo0_def)
  show "create_order_from_intent demo_svc ''tr'' demo_ex_intent demo_s1 = (''ord_a'', demo_s2)"
    "s_orders demo_s2 = [demo_ex_order]" "s_accounts demo_s2 = [demo_account]" "s_positions demo_s2 = []"
    "s_db_orders demo_s2 = []" "s_signals demo_s2 = [demo_signal]" "s_risk_decisions demo_s2 = []"
    "\<not> s_autoflush demo_s2"
    unfolding demo_s2_def create_order_new [OF q]
    by (simp_all add: demo_ex_order_def fresh_order_id_def fresh_client_order_id_def,
        simp_all add: demo_s1_def demo0_def)
qed

lemma demo_ex_order_simps:
  "ord_order_id demo_ex_order = ''ord_a''" "ord_status demo_ex_order = CREATED"
  "ord_account_id demo_ex_order = ''acc''" "ord_source_signal_id demo_ex_order = Some ''sig_''"
  "intent_of_order demo_ex_order = demo_ex_intent\<lparr>oi_strategy_name := None\<rparr>"
  "trigger_price_of (ord_raw_request demo_ex_order) = Inr None" "ord_broker_order_id demo_ex_order = None"
  by (simp_all add: demo_ex_order_def order_of_intent_def intent_of_order_def demo_ex_intent_def
      proposal_intent_def demo_proposal_def intent_dump_def trigger_price_of_def json_opt_def)

lemma demo_ex_approved:
  "rr_approved (risk_check (os_risk_config demo_svc) demo_s2 (intent_of_order demo_ex_order)
     (Some ''ord_a'') (Some (quote_at ''S'' 100)) (Some True) None)"
proof -
  let ?i = "intent_of_order demo_ex_order"
  have a: "find_account demo_s2 (oi_account_id ?i) = Some demo_account"
    by (simp add: finds demo_s2_tables demo_account_def demo_ex_order_simps demo_ex_intent_def
        proposal_intent_def)
  have c: "count_orders demo_s2 p = 0" for p
    by (simp add: count_orders_def visible_orders_def demo_s2_tables)
  show ?thesis
    unfolding risk_approved [OF a] risk_rules_def
    by (simp add: demo_svc_def default_risk_config_def quote_at_def demo_ex_order_simps
        demo_ex_intent_def proposal_intent_def demo_proposal_def estimate_order_value_def
        demo_account_def c)
qed

lemma demo_prepare:
  "\<exists>sig oid quote d s ord. prepare_order demo_ex demo_proposal demo_decision ''acc'' ''tr'' [] (Some True) demo0 =
     Inr ((sig, oid, quote, d), s) \<and> find_order s oid = Some ord \<and>
     trigger_price_of (ord_raw_request ord) = Inr None"
proof -
  have sig: "sig_signal_id demo_signal = ''sig_''"
    "build_signal demo_ex ''sig_'' ''tr'' [] demo_proposal demo_decision = Inr demo_signal"
    by (simp_all add: demo_signal_def build_signal_def order_side_of_def demo_proposal_def)
  have fields: "tp_action demo_proposal = TA_BUY" "tp_symbol demo_proposal = ''S''"
    "tp_limit_price demo_proposal = Some 100" "ex_order_service demo_ex = demo_svc"
    by (simp_all add: demo_proposal_def demo_ex_def)
  have quote: "make_market_quote (quote_at ''S'' 100) = Inr (quote_at ''S'' 100)"
    by (simp add: make_market_quote_def quote_at_def valid_market_quote_def opt_positive_def)
  have n: "new_id ''sig'' demo0 = (''sig_'', demo0\<lparr>s_uuid_next := Suc 0\<rparr>)" by (simp add: new_id_def demo0_def)
  have fl: "flush (add_signal demo_signal (demo0\<lparr>s_uuid_next := Suc 0\<rparr>)) = Inr demo_s1"
    by (simp add: flush_def unique_ok_def fk_ok_def add_signal_def demo_s1_def demo0_def map_filter_simps)
  have valid: "valid_order_intent demo_ex_intent"
    "valid_order_intent (intent_of_order demo_ex_order)"
    by (simp_all add: demo_ex_order_simps valid_order_intent_def demo_ex_intent_def
        proposal_intent_def demo_proposal_def opt_positive_def)
  have find: "find_order demo_s2 ''ord_a'' = Some demo_ex_order"
    by (simp add: finds demo_s2_tables demo_ex_order_simps)
  have ok: "unique_ok demo_s2" "fk_ok demo_s2"
    by (simp_all add: unique_ok_def fk_ok_def demo_s2_tables demo_ex_order_simps demo_account_def
        map_filter_simps sig)
  obtain d t where risk: "run_risk_check demo_svc ''tr'' ''ord_a'' (Some (quote_at ''S'' 100)) (Some True)
      demo_s2 = Inr (d, t)"
    and ord: "find_order t ''ord_a'' = Some (demo_ex_order\<lparr>ord_risk_decision_id :=
      Some (rd_risk_decision_id d), ord_status := RISK_APPROVED\<rparr>)"
    using run_risk_check_decides [OF find demo_ex_order_simps(2) valid(2) ok(1), of demo_svc "''tr''"
        "Some (quote_at ''S'' 100)" "Some True"] ok(2) demo_ex_approved by auto
  have "prepare_order demo_ex demo_proposal demo_decision ''acc'' ''tr'' [] (Some True) demo0 =
      Inr ((''sig_'', ''ord_a'', quote_at ''S'' 100, d), t)"
    using risk ord demo_s2_tables(1) valid(1)
    by (simp add: prepare_order_def n sig fl fields quote order_side_of_def make_order_intent_def
        get_order_def or_else_def demo_ex_intent_def [symmetric])
  with ord show ?thesis
    by (intro exI conjI) (assumption, assumption, simp add: demo_ex_order_simps)
qed

end
