(* ===== verification/Llm_Provider.thy ===== *)
theory Llm_Provider
  imports Domain
begin

text \<open>
  The language model's side of the program: texts, the stock picks of \<open>domain/schemas.py\<close>, the price
  history of \<open>market/history.py\<close> and its tool in \<open>tools/market.py\<close>, and the provider of
  \<open>orchestrator/llm_provider.py\<close> with its bounded tool loop. The model itself, the vendor's SDK and the
  gateway's candlestick query are parameters.

  A text typed by the user or written by the model is the list of its code points. The texts that the
  program composes from decimals and JSON are kept as the values they are composed from.
\<close>

section \<open>Texts\<close>

type_synonym utext = "nat list"

definition unicode_space :: "nat \<Rightarrow> bool" where
  "unicode_space c \<longleftrightarrow> 9 \<le> c \<and> c \<le> 13 \<or> 28 \<le> c \<and> c \<le> 32 \<or> c = 133 \<or> c = 160 \<or> c = 5760 \<or>
     8192 \<le> c \<and> c \<le> 8202 \<or> c = 8232 \<or> c = 8233 \<or> c = 8239 \<or> c = 8287 \<or> c = 12288"

definition strip_with :: "(nat \<Rightarrow> bool) \<Rightarrow> utext \<Rightarrow> utext" where
  "strip_with P t = rev (dropWhile P (rev (dropWhile P t)))"

fun text_contains :: "utext \<Rightarrow> utext \<Rightarrow> bool" where
  "text_contains [] k = (k = [])"
| "text_contains (c # t) k = (take (length k) (c # t) = k \<or> text_contains t k)"

definition codes :: "string \<Rightarrow> utext" where
  "codes s = map of_char s"

definition ascii_lower :: "nat \<Rightarrow> nat" where
  "ascii_lower c = (if 65 \<le> c \<and> c \<le> 90 then c + 32 else c)"

text \<open>\<open>str.replace\<close> of a non-empty text.\<close>

function replace_text :: "utext \<Rightarrow> utext \<Rightarrow> utext \<Rightarrow> utext" where
  "replace_text old new [] = []"
| "replace_text old new (c # t) =
     (if old \<noteq> [] \<and> take (length old) (c # t) = old
      then new @ replace_text old new (drop (length old) (c # t))
      else c # replace_text old new t)"
  by pat_completeness auto
termination
  by (relation "measure (\<lambda>(_, _, t). length t)") (auto simp: neq_Nil_conv)

section \<open>Picks\<close>

record stock_pick =
  sp_symbol :: string
  sp_action :: trade_action
  sp_confidence :: rat
  sp_quantity :: rat
  sp_suggested_limit_price :: "rat option"
  sp_take_profit_price :: "rat option"
  sp_stop_loss_price :: "rat option"
  sp_rationale :: string
  sp_key_catalysts :: "string list"
  sp_risk_notes :: "string list"

definition valid_stock_pick :: "stock_pick \<Rightarrow> bool" where
  "valid_stock_pick p \<longleftrightarrow>
     sp_symbol p \<noteq> [] \<and> 0 \<le> sp_confidence p \<and> sp_confidence p \<le> 1 \<and> 0 \<le> sp_quantity p \<and>
     sp_rationale p \<noteq> []"

record stock_selection =
  sel_picks :: "stock_pick list"
  sel_market_summary :: utext

section \<open>Price history\<close>

text \<open>
  A candlestick of the SDK; a number that is not the text of a decimal is \<open>None\<close>. A date is a day
  number.
\<close>

record raw_bar =
  rb_timestamp :: "nat option"
  rb_open :: "rat option"
  rb_high :: "rat option"
  rb_low :: "rat option"
  rb_close :: "rat option"
  rb_volume :: "rat option"
  rb_turnover :: "rat option"

record candlestick_bar =
  cb_date :: nat
  cb_open :: rat
  cb_high :: rat
  cb_low :: rat
  cb_close :: rat
  cb_volume :: rat
  cb_turnover :: rat

definition valid_bar :: "candlestick_bar \<Rightarrow> bool" where
  "valid_bar b \<longleftrightarrow> 0 < cb_open b \<and> 0 < cb_high b \<and> 0 < cb_low b \<and> 0 < cb_close b \<and>
     0 \<le> cb_volume b \<and> 0 \<le> cb_turnover b"

definition decimal_of :: "rat option \<Rightarrow> rat result" where
  "decimal_of x = (case x of None \<Rightarrow> Inl InvalidOperation | Some v \<Rightarrow> Inr v)"

definition bar_of :: "nat \<Rightarrow> raw_bar \<Rightarrow> candlestick_bar result" where
  "bar_of ts bar =
     rbind (decimal_of (rb_open bar)) (\<lambda>o1.
     rbind (decimal_of (rb_high bar)) (\<lambda>h.
     rbind (decimal_of (rb_low bar)) (\<lambda>l.
     rbind (decimal_of (rb_close bar)) (\<lambda>c.
     rbind (decimal_of (rb_volume bar)) (\<lambda>v.
     rbind (decimal_of (rb_turnover bar)) (\<lambda>t.
       let b = \<lparr>cb_date = ts, cb_open = o1, cb_high = h, cb_low = l, cb_close = c, cb_volume = v,
                cb_turnover = t\<rparr>
       in if valid_bar b then Inr b else Inl (ValidationError ''CandlestickBar'')))))))"

fun collect_bars :: "raw_bar list \<Rightarrow> candlestick_bar list result" where
  "collect_bars [] = Inr []"
| "collect_bars (bar # bars) =
     (case rb_timestamp bar of
        None \<Rightarrow> collect_bars bars
      | Some ts \<Rightarrow>
          rbind (bar_of ts bar) (\<lambda>b. rbind (collect_bars bars) (\<lambda>bs. Inr (b # bs))))"

definition fetch_bars :: "(json \<Rightarrow> raw_bar list result) \<Rightarrow> json \<Rightarrow> candlestick_bar list result" where
  "fetch_bars history symbol =
     rbind (history symbol) (\<lambda>raw. rbind (collect_bars raw) (\<lambda>bs. Inr (sort_key cb_date bs)))"

text \<open>What the markdown summary of \<open>_format_markdown\<close> shows.\<close>

record market_history =
  mh_symbol :: json
  mh_count :: nat
  mh_first_date :: nat
  mh_last_date :: nat
  mh_last_close :: rat
  mh_high :: rat
  mh_low :: rat
  mh_pct_change :: rat
  mh_rows :: "candlestick_bar list"

definition last_rows :: "nat \<Rightarrow> 'a list \<Rightarrow> 'a list" where
  "last_rows n xs = drop (length xs - n) xs"

definition format_markdown :: "json \<Rightarrow> candlestick_bar list \<Rightarrow> market_history" where
  "format_markdown symbol bars =
     (let latest = last bars; first = hd bars
      in \<lparr>mh_symbol = symbol, mh_count = length bars, mh_first_date = cb_date first,
          mh_last_date = cb_date latest, mh_last_close = cb_close latest,
          mh_high = Max (set (map cb_high bars)), mh_low = Min (set (map cb_low bars)),
          mh_pct_change = (cb_close latest - cb_close first) / cb_close first * 100,
          mh_rows = last_rows 30 bars\<rparr>)"

text \<open>\<open>fetch_markdown\<close>: \<open>None\<close> is the note that there are no data.\<close>

definition fetch_markdown :: "(json \<Rightarrow> raw_bar list result) \<Rightarrow> json \<Rightarrow> market_history option result" where
  "fetch_markdown history symbol =
     rbind (fetch_bars history symbol) (\<lambda>bars.
       Inr (if bars = [] then None else Some (format_markdown symbol bars)))"

section \<open>Tools\<close>

text \<open>
  The arguments of a tool call are the parsed JSON text, \<open>None\<close> when it does not parse. The empty text
  is read as the empty object.
\<close>

record tool_call =
  tc_id :: string
  tc_name :: string
  tc_arguments :: "json option"

datatype tool_answer =
    Bad_Arguments
  | Missing_Symbol
  | History json "market_history option"
  | Fetch_Failed json py_exc
  | Unknown_Tool string

record chat_tool =
  ct_name :: string
  ct_run_call :: "tool_call \<Rightarrow> tool_answer result"

fun json_truthy :: "json \<Rightarrow> bool" where
  "json_truthy JNull = False"
| "json_truthy (JBool b) = b"
| "json_truthy (JInt i) = (i \<noteq> 0)"
| "json_truthy (JDec d) = (d \<noteq> 0)"
| "json_truthy (JStr s) = (s \<noteq> [])"
| "json_truthy (JList l) = (l \<noteq> [])"
| "json_truthy (JObj m) = (m \<noteq> [])"

definition market_history_run_call ::
  "(json \<Rightarrow> raw_bar list result) \<Rightarrow> tool_call \<Rightarrow> tool_answer result" where
  "market_history_run_call history tc =
     (case tc_arguments tc of
        None \<Rightarrow> Inr Bad_Arguments
      | Some (JObj arguments) \<Rightarrow>
          (case map_of arguments ''symbol'' of
             None \<Rightarrow> Inr Missing_Symbol
           | Some symbol \<Rightarrow>
               if \<not> json_truthy symbol then Inr Missing_Symbol
               else case fetch_markdown history symbol of
                 Inl e \<Rightarrow> Inr (Fetch_Failed symbol e)
               | Inr md \<Rightarrow> Inr (History symbol md))
      | Some other \<Rightarrow> Inl (AttributeError ''get''))"

definition market_history_tool :: "(json \<Rightarrow> raw_bar list result) \<Rightarrow> chat_tool" where
  "market_history_tool history =
     \<lparr>ct_name = ''get_market_history'', ct_run_call = market_history_run_call history\<rparr>"

section \<open>Conversations with the model\<close>

datatype chat_msg =
    Sys_Msg utext
  | User_Msg utext
  | User_Report snapshot utext
  | Assistant_Msg "utext option" "tool_call list"
  | Tool_Msg string tool_answer

record parsed_choice =
  pc_finish_length :: bool
  pc_refusal :: "utext option"
  pc_parsed :: "stock_selection option"

text \<open>
  The vendor's client: a chat completion, asked with or without tools, and a structured one.
\<close>

record llm_client =
  lc_create :: "chat_tool list \<Rightarrow> chat_msg list \<Rightarrow> (utext option \<times> tool_call list) result"
  lc_parse :: "chat_msg list \<Rightarrow> parsed_choice result"

definition run_tool_call :: "chat_tool list \<Rightarrow> tool_call \<Rightarrow> chat_msg result" where
  "run_tool_call tools tc =
     rbind (case map_of (rev (map (\<lambda>t. (ct_name t, t)) tools)) (tc_name tc) of
              None \<Rightarrow> Inr (Unknown_Tool (tc_name tc))
            | Some t \<Rightarrow> ct_run_call t tc)
       (\<lambda>answer. Inr (Tool_Msg (tc_id tc) answer))"

fun run_tool_calls :: "chat_tool list \<Rightarrow> tool_call list \<Rightarrow> chat_msg list result" where
  "run_tool_calls tools [] = Inr []"
| "run_tool_calls tools (tc # tcs) =
     rbind (run_tool_call tools tc) (\<lambda>m. rbind (run_tool_calls tools tcs) (\<lambda>ms. Inr (m # ms)))"

text \<open>
  The loop shared by \<open>_llm_chat\<close> and \<open>select_stocks\<close>: at most \<open>n\<close> rounds; the content of the answer
  that called no tool, if one came, and the conversation.
\<close>

fun tool_rounds ::
  "llm_client \<Rightarrow> chat_tool list \<Rightarrow> nat \<Rightarrow> chat_msg list \<Rightarrow> (utext option \<times> chat_msg list) result" where
  "tool_rounds client tools 0 messages = Inr (None, messages)"
| "tool_rounds client tools (Suc n) messages =
     rbind (lc_create client tools messages) (\<lambda>(content, calls).
       let messages = messages @ [Assistant_Msg content calls]
       in if calls = [] then Inr (Some (case content of None \<Rightarrow> [] | Some c \<Rightarrow> c), messages)
          else rbind (run_tool_calls tools calls) (\<lambda>answers.
            tool_rounds client tools n (messages @ answers)))"

definition default_system_prompt :: utext where
  "default_system_prompt =
     codes ''You are an experienced equity analyst and intraday portfolio manager. Read '' @
     codes ''the supplied market research report and historical price data, then identify '' @
     codes ''exactly {n} stocks most worth trading TODAY (intraday) based on the analysis. '' @
     codes ''For each pick:'' @
     [10] @
     codes ''- symbol: exact ticker from the report with market suffix (e.g. AAPL.US, '' @
     codes ''00700.HK)'' @
     [10] @
     codes ''- action: BUY or SELL only '' @
     [8212] @
     codes '' never HOLD'' @
     [10] @
     codes ''- confidence: decimal 0.0-1.0 (e.g. 0.85 = high, 0.60 = moderate) '' @
     [8212] @
     codes '' never words'' @
     [10] @
     codes ''- quantity: recommended share count as a positive integer, calculated from '' @
     codes ''the account'' @
     [39] @
     codes ''s cash_available and the price mentioned in the report; size each position '' @
     codes ''at 10-20% of cash_available unless instructions say otherwise; check existing '' @
     codes ''positions to avoid over-concentration; set 0 if price is unknown'' @
     [10] @
     codes ''- suggested_limit_price: reference a price from the report or historical '' @
     codes ''data; null if unknown; must be a plain number without currency symbols (e.g. '' @
     codes ''10.50 not $10.50)'' @
     [10] @
     codes ''- take_profit_price: intraday take-profit price for BUY '' @
     [8212] @
     codes '' use resistance levels, target price, or 2-5% above entry from the report/history; '' @
     codes ''null if action is SELL'' @
     [10] @
     codes ''- stop_loss_price: intraday stop-loss price for BUY '' @
     [8212] @
     codes '' use support levels or 1-3% below entry from the report/history; null if '' @
     codes ''action is SELL; must be strictly below suggested_limit_price'' @
     [10] @
     codes ''- rationale: cite specific evidence from the report and historical price '' @
     codes ''context (max 80 words)'' @
     [10] @
     codes ''- key_catalysts: list of drivers from the report (max 5 items, each under '' @
     codes ''15 words)'' @
     [10] @
     codes ''- risk_notes: always provide, use [] only if truly no risks (max 3 items)'' @
     [10] @
     codes ''Rank picks by conviction descending. Do not invent facts not in the report '' @
     codes ''or history data. Keep all text fields concise to stay within token limits.''"

definition system_prompt :: "int \<Rightarrow> utext option \<Rightarrow> utext option \<Rightarrow> utext" where
  "system_prompt n instructions custom_prompt =
     replace_text (codes ''{n}'') (codes (int_str n))
       (case custom_prompt of None \<Rightarrow> default_system_prompt
        | Some p \<Rightarrow> if p = [] then default_system_prompt else p) @
     (case instructions of None \<Rightarrow> []
      | Some i \<Rightarrow> if i = [] then []
          else [10] @ codes ''Additional operator instructions:'' @ [10] @ i)"

definition select_stocks ::
  "llm_client \<Rightarrow> utext \<Rightarrow> snapshot \<Rightarrow> int \<Rightarrow> utext option \<Rightarrow> utext option \<Rightarrow> chat_tool list \<Rightarrow>
   stock_selection result" where
  "select_stocks client market_content account_context n instructions custom_prompt tools =
     (let messages = [Sys_Msg (system_prompt n instructions custom_prompt),
                      User_Report account_context market_content]
      in rbind (if tools = [] then Inr (None, messages) else tool_rounds client tools 5 messages)
           (\<lambda>(content, messages).
         rbind (lc_parse client messages) (\<lambda>choice.
           if pc_finish_length choice then Inl (RuntimeError ''truncated'')
           else if (case pc_refusal choice of None \<Rightarrow> False | Some r \<Rightarrow> r \<noteq> [])
           then Inl (RuntimeError ''refused'')
           else case pc_parsed choice of
             None \<Rightarrow> Inl (RuntimeError ''no result'')
           | Some sel \<Rightarrow> Inr sel)))"

text \<open>
  The client of the provider: \<open>sdk\<close> is the vendor's constructor when its package is installed.
\<close>

definition provider_client ::
  "string option \<Rightarrow> string option \<Rightarrow> llm_client option \<Rightarrow> (string \<Rightarrow> llm_client) option \<Rightarrow>
   llm_client result" where
  "provider_client api_key configured_key client sdk =
     (let resolved_key = (case api_key of None \<Rightarrow> configured_key
                          | Some k \<Rightarrow> if k = [] then configured_key else Some k)
      in case client of
        Some c \<Rightarrow> Inr c
      | None \<Rightarrow>
          (case resolved_key of
             None \<Rightarrow> Inl (RuntimeError ''OPENAI_API_KEY is required for the LLM trading Agent'')
           | Some k \<Rightarrow>
               if k = []
               then Inl (RuntimeError ''OPENAI_API_KEY is required for the LLM trading Agent'')
               else case sdk of
                 None \<Rightarrow> Inl (RuntimeError ''OpenAI SDK is required. Install project dependencies first.'')
               | Some openai \<Rightarrow> Inr (openai k)))"

section \<open>What the tool loop keeps\<close>

text \<open>
  The protocol of a conversation: the calls of an answer are followed by their results, one for each
  call, in order, before the model is asked again.
\<close>

fun answered :: "string list \<Rightarrow> chat_msg list \<Rightarrow> bool" where
  "answered open_calls [] = (open_calls = [])"
| "answered open_calls (Tool_Msg i a # ms) =
     (case open_calls of [] \<Rightarrow> False | c # cs \<Rightarrow> c = i \<and> answered cs ms)"
| "answered open_calls (Assistant_Msg content calls # ms) =
     (open_calls = [] \<and> answered (map tc_id calls) ms)"
| "answered open_calls (Sys_Msg t # ms) = (open_calls = [] \<and> answered [] ms)"
| "answered open_calls (User_Msg t # ms) = (open_calls = [] \<and> answered [] ms)"
| "answered open_calls (User_Report c t # ms) = (open_calls = [] \<and> answered [] ms)"

lemma answered_append:
  "answered cs ms \<Longrightarrow> answered [] ms' \<Longrightarrow> answered cs (ms @ ms')"
  by (induction cs ms rule: answered.induct) (auto split: list.splits)

lemma run_tool_calls_answer:
  "run_tool_calls tools calls = Inr answers \<Longrightarrow> answered (map tc_id calls) answers"
  by (induction calls arbitrary: answers) (auto simp: rbind_Inr_iff run_tool_call_def)

definition model_answers :: "chat_msg list \<Rightarrow> nat" where
  "model_answers ms = length (filter (\<lambda>m. case m of Assistant_Msg c t \<Rightarrow> True | _ \<Rightarrow> False) ms)"

lemma model_answers_append [simp]: "model_answers (ms @ ms') = model_answers ms + model_answers ms'"
  by (simp add: model_answers_def)

lemma model_answers_simps [simp]:
  "model_answers [] = 0" "model_answers (Assistant_Msg c t # ms) = Suc (model_answers ms)"
  by (simp_all add: model_answers_def)

lemma run_tool_calls_no_answers [simp]:
  "run_tool_calls tools calls = Inr answers \<Longrightarrow> model_answers answers = 0"
  by (induction calls arbitrary: answers)
    (auto simp: rbind_Inr_iff run_tool_call_def model_answers_def)

lemma tool_rounds_keeps:
  assumes "tool_rounds client tools n ms = Inr (content, ms')" and "answered [] ms"
  shows "answered [] ms' \<and> take (length ms) ms' = ms \<and>
    model_answers ms' \<le> model_answers ms + n \<and> (content = None \<longrightarrow> model_answers ms' = model_answers ms + n)"
  using assms
proof (induction n arbitrary: ms)
  case 0
  then show ?case by simp
next
  case (Suc n)
  then obtain c calls where ask: "lc_create client tools ms = Inr (c, calls)"
    by (auto simp: rbind_Inr_iff)
  let ?ms = "ms @ [Assistant_Msg c calls]"
  show ?case
  proof (cases "calls = []")
    case True
    with Suc.prems ask show ?thesis by (auto simp: answered_append)
  next
    case False
    with Suc.prems(1) ask obtain answers where run: "run_tool_calls tools calls = Inr answers"
      and rest: "tool_rounds client tools n (?ms @ answers) = Inr (content, ms')"
      by (auto simp: rbind_Inr_iff)
    have "answered [] (ms @ (Assistant_Msg c calls # answers))"
      using Suc.prems(2) run_tool_calls_answer [OF run] by (intro answered_append) simp_all
    then have "answered [] (?ms @ answers)" by simp
    note kept = Suc.IH [OF rest this]
    have "take (length ms) ms' = take (length ms) (take (length (?ms @ answers)) ms')"
      by (simp add: min_def)
    also have "\<dots> = ms" using kept by (simp del: length_append)
    finally show ?thesis using kept run by simp
  qed
qed

lemma collect_bars_valid: "collect_bars raw = Inr bs \<Longrightarrow> list_all valid_bar bs"
  by (induction raw arbitrary: bs)
    (auto simp: rbind_Inr_iff bar_of_def Let_def split: option.splits if_splits)

lemma fetch_bars_sorted:
  assumes "fetch_bars history symbol = Inr bars"
  shows "list_all valid_bar bars" and "sorted (map cb_date bars)"
  using assms collect_bars_valid by (auto simp: fetch_bars_def rbind_Inr_iff list_all_iff)

section \<open>Properties\<close>

text \<open>
  C10. The tool loop asks the model at most five times and keeps the protocol of the conversation:
  what was said before stays, every call of a tool is answered once, in order, before the model is
  asked again, and the loop gives up without an answer only after five rounds.
\<close>

theorem tool_loop_protocol:
  assumes "tool_rounds client tools 5 ms = Inr (content, ms')" and "answered [] ms"
  shows "answered [] ms' \<and> take (length ms) ms' = ms \<and> model_answers ms' \<le> model_answers ms + 5 \<and>
    (content = None \<longrightarrow> model_answers ms' = model_answers ms + 5)"
  using tool_rounds_keeps [OF assms] .

text \<open>A model that asks for the history once and then answers.\<close>

definition demo_history_call :: tool_call where
  "demo_history_call = \<lparr>tc_id = ''c1'', tc_name = ''get_market_history'',
     tc_arguments = Some (JObj [(''symbol'', JStr ''S'')])\<rparr>"

definition demo_model :: llm_client where
  "demo_model = \<lparr>lc_create = (\<lambda>tools ms. Inr (if length ms = 1 then (None, [demo_history_call])
       else (Some [79, 75], []))),
     lc_parse = (\<lambda>ms. Inl (RuntimeError ''no''))\<rparr>"

theorem tool_loop_protocol_witness:
  "\<exists>ms'. tool_rounds demo_model [market_history_tool (\<lambda>symbol. Inr [])] 5 [User_Msg [104]] =
     Inr (Some [79, 75], ms') \<and> answered [] ms' \<and> model_answers ms' \<le> 5"
proof -
  let ?ms = "[User_Msg [104], Assistant_Msg None [demo_history_call],
    Tool_Msg ''c1'' (History (JStr ''S'') None), Assistant_Msg (Some [79, 75]) []]"
  have rounds: "tool_rounds demo_model [market_history_tool (\<lambda>symbol. Inr [])] 5 [User_Msg [104]] =
      Inr (Some [79, 75], ?ms)"
    by (simp add: eval_nat_numeral demo_model_def run_tool_call_def market_history_tool_def
        market_history_run_call_def demo_history_call_def fetch_markdown_def fetch_bars_def)
  from tool_loop_protocol [OF this] show ?thesis
    by (intro exI [where x = ?ms]) (simp add: rounds model_answers_def)
qed

text \<open>
  The summary of a price history: its rows are the last thirty bars in the order of their dates,
  the period does not end before it starts, the change is taken from a positive price (so the division
  is defined), and the positive low and the high of the summary bound those of every row shown.
\<close>

theorem history_summary_sound:
  assumes "fetch_markdown history symbol = Inr (Some md)"
  shows "length (mh_rows md) = min 30 (mh_count md) \<and> 0 < mh_count md \<and> sorted (map cb_date (mh_rows md)) \<and>
    mh_first_date md \<le> mh_last_date md \<and> 0 < mh_low md \<and> 0 < mh_last_close md \<and>
    (\<exists>first. 0 < first \<and> mh_last_close md = first * (1 + mh_pct_change md / 100)) \<and>
    (\<forall>b \<in> set (mh_rows md). mh_low md \<le> cb_low b \<and> cb_high b \<le> mh_high md)"
proof -
  obtain bars where fetch: "fetch_bars history symbol = Inr bars" and "bars \<noteq> []"
    and md: "md = format_markdown symbol bars"
    using assms by (auto simp: fetch_markdown_def rbind_Inr_iff split: if_splits)
  note valid = fetch_bars_sorted [OF fetch]
  have bar: "valid_bar b" if "b \<in> set bars" for b using valid(1) that by (simp add: list_all_iff)
  have first: "valid_bar (hd bars)" "valid_bar (last bars)" using \<open>bars \<noteq> []\<close> by (auto intro: bar)
  have "cb_date (hd bars) \<le> cb_date (last bars)"
    using valid(2) \<open>bars \<noteq> []\<close> by (cases bars) auto
  moreover have "sorted (map cb_date (last_rows 30 bars))"
    using sorted_wrt_drop [OF valid(2)] by (simp add: last_rows_def drop_map)
  moreover have "0 < Min (set (map cb_low bars))"
    using \<open>bars \<noteq> []\<close> bar by (subst Min_gr_iff) (auto simp: valid_bar_def)
  moreover have "Min (set (map cb_low bars)) \<le> cb_low b \<and> cb_high b \<le> Max (set (map cb_high bars))"
    if "b \<in> set (last_rows 30 bars)" for b
    using that by (auto simp: last_rows_def dest: in_set_dropD)
  moreover have "cb_close (last bars) =
      cb_close (hd bars) * (1 + (cb_close (last bars) - cb_close (hd bars)) / cb_close (hd bars) * 100 / 100)"
    using first by (simp add: valid_bar_def field_simps)
  ultimately show ?thesis
    using \<open>bars \<noteq> []\<close> first
    by (auto simp: md format_markdown_def Let_def last_rows_def valid_bar_def min_def)
qed

definition demo_raw_bar :: "nat \<Rightarrow> rat \<Rightarrow> raw_bar" where
  "demo_raw_bar d p = \<lparr>rb_timestamp = Some d, rb_open = Some p, rb_high = Some p, rb_low = Some p,
     rb_close = Some p, rb_volume = Some 0, rb_turnover = Some 0\<rparr>"

theorem history_summary_sound_witness:
  "\<exists>md. fetch_markdown (\<lambda>_. Inr [demo_raw_bar 2 11, demo_raw_bar 1 10]) (JStr ''S'') = Inr (Some md) \<and>
     mh_count md = 2 \<and> mh_first_date md \<le> mh_last_date md \<and> 0 < mh_low md"
proof -
  obtain md where "fetch_markdown (\<lambda>_. Inr [demo_raw_bar 2 11, demo_raw_bar 1 10]) (JStr ''S'') = Inr (Some md)"
    and "mh_count md = 2"
    by (simp add: fetch_markdown_def fetch_bars_def demo_raw_bar_def bar_of_def decimal_of_def
        valid_bar_def Let_def format_markdown_def)
  with history_summary_sound [OF this(1)] show ?thesis by blast
qed

end
