(* ===== verification/Harness_Agent.thy ===== *)
theory Harness_Agent
  imports Kernel_Runs Llm_Provider
begin

text \<open>
  The conversation layer: the selection skill of \<open>skills/select_stocks.py\<close>, the agent graph of
  \<open>orchestrator/harness_agent.py\<close> and the session handlers of \<open>web/app.py\<close>.

  An operation takes the committed database and the gateway and returns them with the messages it
  pushed to the client, in order. The handlers run one after the other.
\<close>

section \<open>The selection skill\<close>

text \<open>The code points of the keywords.\<close>

definition order_keywords :: "utext list" where
  "order_keywords =
     [[19979, 21333], [20080, 20837], [21334, 20986], [25191, 34892, 19979, 21333],
      [25552, 20132, 35746, 21333]]"

definition select_keywords :: "utext list" where
  "select_keywords =
     [[36873, 32929], [24110, 25105, 36873], [25361, 20960, 21482], [25512, 33616, 32929]]"

definition semicolon :: nat where
  "semicolon = 65307"

type_synonym select_provider =
  "utext \<Rightarrow> snapshot \<Rightarrow> int \<Rightarrow> utext option \<Rightarrow> utext option \<Rightarrow> chat_tool list \<Rightarrow> stock_selection result"

record select_skill =
  sk_enabled :: bool
  sk_select_stocks :: "select_provider option"
  sk_tools :: "chat_tool list"

definition empty_report_summary :: utext where
  "empty_report_summary =
     [25253, 21578, 20869, 23481, 20026, 31354, 65292, 35831, 20808, 21152, 36733, 25253, 21578,
      25991, 20214, 12290]"

definition load_account_context :: "session \<Rightarrow> string \<Rightarrow> snapshot result" where
  "load_account_context db account_id =
     (case find_account db account_id of
        None \<Rightarrow> Inl (ValueError (''Account '' @ account_id @ '' does not exist''))
      | Some a \<Rightarrow> Inr
          [(''account'', JObj
             [(''account_id'', JStr (acc_account_id a)),
              (''base_currency'', JStr (acc_base_currency a)),
              (''cash_available'', JDec (acc_cash_available a)),
              (''cash_frozen'', JDec (acc_cash_frozen a)), (''equity'', JDec (acc_equity a)),
              (''realized_pnl'', JDec (acc_realized_pnl a)),
              (''unrealized_pnl'', JDec (acc_unrealized_pnl a))]),
           (''positions'', JList (map (\<lambda>p. JObj
             [(''symbol'', JStr (pos_symbol p)), (''quantity'', JDec (pos_quantity p)),
              (''available_quantity'', JDec (pos_available_quantity p)),
              (''avg_cost'', JDec (pos_avg_cost p)), (''market_price'', JDec (pos_market_price p)),
              (''market_value'', JDec (pos_market_value p)),
              (''unrealized_pnl'', JDec (pos_unrealized_pnl p))])
             (filter (\<lambda>p. pos_account_id p = account_id) (s_positions db))))])"

definition run_select_skill ::
  "select_skill \<Rightarrow> utext \<Rightarrow> string \<Rightarrow> int \<Rightarrow> utext option \<Rightarrow> utext option \<Rightarrow> session \<Rightarrow>
   stock_selection result" where
  "run_select_skill sk market_content account_id n instructions custom_prompt db =
     (if \<not> sk_enabled sk
      then Inl (RuntimeError ''LLM trading Agent is disabled. Set ENABLE_LLM_TRADING_AGENT=true.'')
      else if strip_with unicode_space market_content = []
      then Inr \<lparr>sel_picks = [], sel_market_summary = empty_report_summary\<rparr>
      else case sk_select_stocks sk of
        None \<Rightarrow> Inl (RuntimeError ''The configured provider does not support select_stocks()'')
      | Some select_fn \<Rightarrow>
          rbind (load_account_context db account_id) (\<lambda>account_context.
          select_fn market_content account_context n instructions custom_prompt (sk_tools sk)))"

section \<open>The agent graph\<close>

datatype intent_label = Intent_Select | Intent_Order | Intent_Chat

record harness_state =
  hs_user_text :: utext
  hs_account_id :: string
  hs_reviewer :: string
  hs_report_content :: utext
  hs_n :: int
  hs_instructions :: "utext option"
  hs_custom_prompt :: "utext option"
  hs_intent :: "intent_label option"
  hs_pending_picks :: "stock_pick list"
  hs_picks :: "stock_pick list"
  hs_confirmed_picks :: "stock_pick list"

datatype push_msg =
    Msg_Selecting int
  | Msg_Summary utext
  | Msg_Picks "stock_pick list"
  | Msg_No_Picks
  | Msg_Nothing_Pending
  | Msg_Submitting nat
  | Msg_Executing stock_pick
  | Msg_Order_Result llm_trading_run_result
  | Msg_Order_Error string py_exc
  | Msg_Done
  | Msg_Chat utext
  | Msg_Error string
  | Msg_Unknown_Type

text \<open>The prompts of the classifier and of the chat.\<close>

definition intent_prompt :: utext where
  "intent_prompt =
     [20320, 26159, 20132, 26131, 31995, 32479, 30340, 24847, 22270, 20998, 31867, 22120, 12290,
      26681, 25454, 29992, 25143, 36755, 20837, 65292, 21482, 36820, 22238, 20197, 19979, 26631,
      31614, 20043, 19968, 65306, 10, 45, 32, 115, 101, 108, 101, 99, 116, 65306, 29992, 25143,
      24819, 35201, 36873, 32929, 12289, 20998, 26512, 25253, 21578, 12289, 25110, 35843, 25972,
      36873, 32929, 26465, 20214, 10, 45, 32, 111, 114, 100, 101, 114, 65306, 29992, 25143,
      24819, 35201, 19979, 21333, 12289, 20080, 20837, 25110, 21334, 20986, 32929, 31080, 10, 45,
      32, 99, 104, 97, 116, 65306, 29992, 25143, 22312, 38386, 32842, 25110, 35810, 38382, 36890,
      29992, 30693, 35782, 65292, 19981, 28041, 21450, 20855, 20307, 25805, 20316, 10, 21482,
      36820, 22238, 26631, 31614, 26412, 36523, 65292, 19981, 35201, 26377, 20854, 20182, 25991,
      23383, 12290]"

definition chat_prompt :: utext where
  "chat_prompt =
     [20320, 26159, 19968, 20010, 19987, 19994, 30340, 37327, 21270, 20132, 26131, 21161, 25163,
      65292, 29087, 24713, 32929, 31080, 24066, 22330, 12289, 25237, 36164, 31574, 30053, 21644,
      39118, 38505, 31649, 29702, 12290, 33509, 38656, 35201, 26597, 35810, 26576, 21482, 32929,
      31080, 30340, 21382, 21490, 34892, 24773, 65292, 21487, 35843, 29992, 24037, 20855, 33719,
      21462, 25968, 25454, 21518, 20877, 22238, 31572, 12290, 35831, 31616, 27905, 12289, 20934,
      30830, 22320, 22238, 31572, 29992, 25143, 38382, 39064, 12290]"

definition classify_intent :: "llm_client option \<Rightarrow> utext \<Rightarrow> intent_label result" where
  "classify_intent client text =
     (case client of
        None \<Rightarrow> Inr Intent_Chat
      | Some c \<Rightarrow>
          rbind (lc_create c [] [Sys_Msg intent_prompt, User_Msg text]) (\<lambda>(content, calls).
            let label = map ascii_lower (strip_with unicode_space
                          (case content of None \<Rightarrow> [] | Some a \<Rightarrow> a))
            in Inr (if label = codes ''select'' then Intent_Select
                    else if label = codes ''order'' then Intent_Order else Intent_Chat)))"

definition interpret_node :: "llm_client option \<Rightarrow> harness_state \<Rightarrow> harness_state result" where
  "interpret_node client st =
     (let text = strip_with unicode_space (hs_user_text st);
          order = st\<lparr>hs_intent := Some Intent_Order, hs_confirmed_picks := hs_pending_picks st\<rparr>
      in if list_ex (text_contains text) order_keywords then Inr order
         else if take 2 text = [36873, 32929] \<or> list_ex (text_contains text) select_keywords
         then Inr (st\<lparr>hs_intent := Some Intent_Select, hs_instructions := None\<rparr>)
         else rbind (classify_intent client text) (\<lambda>intent. Inr (case intent of
           Intent_Order \<Rightarrow> order
         | Intent_Select \<Rightarrow>
             st\<lparr>hs_intent := Some Intent_Select,
                hs_instructions := Some (case hs_instructions st of
                    None \<Rightarrow> text
                  | Some prev \<Rightarrow> if prev = [] then text
                      else strip_with (\<lambda>c. c = semicolon) (prev @ [semicolon] @ text))\<rparr>
         | Intent_Chat \<Rightarrow> st\<lparr>hs_intent := Some Intent_Chat\<rparr>)))"

definition select_node ::
  "select_skill \<Rightarrow> harness_state \<Rightarrow> session \<Rightarrow> harness_state result \<times> push_msg list" where
  "select_node sk st db =
     (case run_select_skill sk (hs_report_content st) (hs_account_id st) (hs_n st)
        (hs_instructions st) (hs_custom_prompt st) db of
       Inl e \<Rightarrow> (Inl e, [Msg_Selecting (hs_n st)])
     | Inr sel \<Rightarrow>
         (Inr (st\<lparr>hs_picks := sel_picks sel\<rparr>),
          [Msg_Selecting (hs_n st)] @
          (if sel_market_summary sel \<noteq> [] then [Msg_Summary (sel_market_summary sel)] else []) @
          (if sel_picks sel \<noteq> [] then [Msg_Picks (sel_picks sel)] else [Msg_No_Picks])))"

definition proposal_of_pick :: "stock_pick \<Rightarrow> llm_trade_proposal" where
  "proposal_of_pick p =
     \<lparr>tp_action = sp_action p, tp_symbol = sp_symbol p, tp_confidence = sp_confidence p,
      tp_quantity = sp_quantity p,
      tp_order_type = (if truthy (sp_suggested_limit_price p) then LIMIT else MARKET),
      tp_limit_price = sp_suggested_limit_price p, tp_take_profit_price = sp_take_profit_price p,
      tp_stop_loss_price = sp_stop_loss_price p, tp_rationale = sp_rationale p,
      tp_risk_notes = sp_risk_notes p\<rparr>"

text \<open>The body of the loop over the confirmed picks, exceptions included.\<close>

definition execute_pick ::
  "executor \<Rightarrow> broker \<Rightarrow> string \<Rightarrow> string \<Rightarrow> stock_pick \<Rightarrow> session \<Rightarrow> gateway \<Rightarrow>
   push_msg list \<times> session \<times> gateway" where
  "execute_pick ex b account_id reviewer pick db g =
     (let failed = (\<lambda>e. Msg_Order_Error (sp_symbol pick) e)
      in if \<not> valid_stock_pick pick then ([failed (ValidationError ''StockPick'')], db, g)
         else if \<not> valid_llm_trade_proposal (proposal_of_pick pick)
         then ([failed (ValidationError ''LLMTradeProposal'')], db, g)
         else if reviewer = [] then ([failed (ValidationError ''HumanApprovalDecision'')], db, g)
         else
         let decision = \<lparr>ha_approved = True, ha_reviewer = reviewer, ha_reason = []\<rparr>;
             (r, db, g) = execute ex (broker_submit b) (proposal_of_pick pick) decision account_id
                            None None [] None db g
         in ([Msg_Executing pick,
              (case r of Inl e \<Rightarrow> failed e | Inr res \<Rightarrow> Msg_Order_Result res)], db, g))"

fun execute_picks ::
  "executor \<Rightarrow> broker \<Rightarrow> string \<Rightarrow> string \<Rightarrow> stock_pick list \<Rightarrow> session \<Rightarrow> gateway \<Rightarrow>
   push_msg list \<times> session \<times> gateway" where
  "execute_picks ex b account_id reviewer [] db g = ([], db, g)"
| "execute_picks ex b account_id reviewer (pick # picks) db g =
     (let (ms, db, g) = execute_pick ex b account_id reviewer pick db g;
          (ms', db, g) = execute_picks ex b account_id reviewer picks db g
      in (ms @ ms', db, g))"

definition execute_node ::
  "executor \<Rightarrow> broker \<Rightarrow> harness_state \<Rightarrow> session \<Rightarrow> gateway \<Rightarrow> push_msg list \<times> session \<times> gateway" where
  "execute_node ex b st db g =
     (if hs_confirmed_picks st = [] then ([Msg_Nothing_Pending], db, g)
      else let (ms, db, g) = execute_picks ex b (hs_account_id st) (hs_reviewer st)
                 (hs_confirmed_picks st) db g
           in ([Msg_Submitting (length (hs_confirmed_picks st))] @ ms @ [Msg_Done], db, g))"

definition llm_chat :: "llm_client option \<Rightarrow> chat_tool list \<Rightarrow> utext \<Rightarrow> utext result" where
  "llm_chat client tools message =
     (case client of
        None \<Rightarrow> Inr [25265, 27465, 65292, 24403, 21069, 32, 76, 76, 77, 32, 26381, 21153, 19981, 21487,
                    29992, 12290]
      | Some c \<Rightarrow>
          let messages = [Sys_Msg chat_prompt, User_Msg message]
          in if tools \<noteq> []
             then rbind (tool_rounds c tools 5 messages) (\<lambda>(content, _).
                    Inr (case content of None \<Rightarrow> [] | Some t \<Rightarrow> t))
             else rbind (lc_create c [] messages) (\<lambda>(content, _).
                    Inr (case content of None \<Rightarrow> [] | Some t \<Rightarrow> t)))"

text \<open>
  A run of the graph ends, stops at the approval node with the state it will be resumed from, or
  fails in a node.
\<close>

datatype graph_outcome = Ended harness_state | Awaiting_Approval harness_state | Failed_In harness_state

record agent_services =
  ag_client :: "llm_client option"
  ag_tools :: "chat_tool list"
  ag_skill :: select_skill
  ag_executor :: executor
  ag_broker :: broker

definition graph_run ::
  "agent_services \<Rightarrow> harness_state \<Rightarrow> session \<Rightarrow> gateway \<Rightarrow>
   graph_outcome result \<times> push_msg list \<times> session \<times> gateway" where
  "graph_run ag st db g =
     (case interpret_node (ag_client ag) st of
        Inl e \<Rightarrow> (Inl e, [], db, g)
      | Inr st \<Rightarrow>
          (case hs_intent st of
             Some Intent_Order \<Rightarrow>
               let (ms, db, g) = execute_node (ag_executor ag) (ag_broker ag) st db g
               in (Inr (Ended st), ms, db, g)
           | Some Intent_Select \<Rightarrow>
               (case select_node (ag_skill ag) st db of
                  (Inl e, ms) \<Rightarrow> (Inl e, ms, db, g)
                | (Inr st, ms) \<Rightarrow>
                    (Inr (if hs_picks st \<noteq> [] then Awaiting_Approval st else Ended st), ms, db, g))
           | _ \<Rightarrow>
               (case llm_chat (ag_client ag) (ag_tools ag) (hs_user_text st) of
                  Inl e \<Rightarrow> (Inl e, [], db, g)
                | Inr reply \<Rightarrow> (Inr (Ended st), [Msg_Chat reply], db, g))))"

definition graph_resume ::
  "agent_services \<Rightarrow> harness_state \<Rightarrow> stock_pick list \<Rightarrow> session \<Rightarrow> gateway \<Rightarrow>
   push_msg list \<times> session \<times> gateway" where
  "graph_resume ag st confirmed db g =
     (let st = st\<lparr>hs_confirmed_picks := confirmed\<rparr>
      in if confirmed = [] then ([], db, g)
         else execute_node (ag_executor ag) (ag_broker ag) st db g)"

section \<open>The chat session\<close>

record chat_session =
  ch_account_id :: string
  ch_reviewer :: string
  ch_report_content :: utext
  ch_n :: int
  ch_custom_prompt :: "utext option"
  ch_instructions :: "utext option"
  ch_last_picks :: "stock_pick list"
  ch_thread :: "graph_outcome option"

definition new_chat_session :: chat_session where
  "new_chat_session =
     \<lparr>ch_account_id = [], ch_reviewer = ''user'', ch_report_content = [], ch_n = 2,
      ch_custom_prompt = None, ch_instructions = None, ch_last_picks = [], ch_thread = None\<rparr>"

text \<open>
  The fields of a chat message. \<open>cm_report\<close> is what reading the day's report gave, when the session has
  not read it yet and the file exists.
\<close>

record chat_message =
  cm_text :: utext
  cm_account_id :: string
  cm_n :: "int option"
  cm_custom_prompt :: "utext option"
  cm_report :: "utext result option"

text \<open>The first half of \<open>_handle_message\<close>: the parameters of the side bar and the report.\<close>

definition update_session :: "chat_message \<Rightarrow> chat_session \<Rightarrow> push_msg list \<times> chat_session" where
  "update_session m ch =
     ((case cm_report m of Some (Inl e) \<Rightarrow> [Msg_Error ''report''] | _ \<Rightarrow> []),
      ch\<lparr>ch_account_id := (if strip (cm_account_id m) = [] then ch_account_id ch else strip (cm_account_id m)),
         ch_n := (case cm_n m of None \<Rightarrow> ch_n ch | Some k \<Rightarrow> if k = 0 then ch_n ch else k),
         ch_custom_prompt := (case cm_custom_prompt m of
             None \<Rightarrow> ch_custom_prompt ch
           | Some c \<Rightarrow> if c = [] then ch_custom_prompt ch else Some c),
         ch_report_content := (case cm_report m of Some (Inr r) \<Rightarrow> r | _ \<Rightarrow> ch_report_content ch)\<rparr>)"

definition graph_input :: "utext \<Rightarrow> chat_session \<Rightarrow> harness_state" where
  "graph_input text ch =
     \<lparr>hs_user_text = text, hs_account_id = ch_account_id ch, hs_reviewer = ch_reviewer ch,
      hs_report_content = ch_report_content ch, hs_n = ch_n ch, hs_instructions = ch_instructions ch,
      hs_custom_prompt = ch_custom_prompt ch, hs_intent = None, hs_pending_picks = ch_last_picks ch,
      hs_picks = [], hs_confirmed_picks = []\<rparr>"

definition handle_message ::
  "agent_services \<Rightarrow> chat_message \<Rightarrow> chat_session \<Rightarrow> session \<Rightarrow> gateway \<Rightarrow>
   push_msg list \<times> chat_session \<times> session \<times> gateway" where
  "handle_message ag m ch db g =
     (let text = strip_with unicode_space (cm_text m)
      in if text = [] then ([], ch, db, g)
         else
         let (pre, ch) = update_session m ch
         in if ch_account_id ch = [] then (pre @ [Msg_Error ''account id''], ch, db, g)
            else
            let st = graph_input text ch; (r, ms, db, g) = graph_run ag st db g
            in case r of
              Inl e \<Rightarrow> (pre @ ms @ [Msg_Error ''agent''], ch\<lparr>ch_thread := Some (Failed_In st)\<rparr>, db, g)
            | Inr out \<Rightarrow>
                let st = (case out of Ended x \<Rightarrow> x | Awaiting_Approval x \<Rightarrow> x | Failed_In x \<Rightarrow> x)
                in (pre @ ms, ch\<lparr>ch_thread := Some out, ch_instructions := hs_instructions st,
                      ch_last_picks := (if hs_picks st \<noteq> [] then hs_picks st else ch_last_picks ch)\<rparr>,
                    db, g))"

text \<open>
  \<open>_handle_approve\<close>: the picks are the ones the client sends. The graph library resumes a run at its
  approval node; \<open>resume_failed\<close> stands for what it does with a run that failed in a node, and a run that
  has ended has no node left to resume.
\<close>

type_synonym resume_failed =
  "harness_state \<Rightarrow> stock_pick list \<Rightarrow> session \<Rightarrow> gateway \<Rightarrow>
   push_msg list \<times> graph_outcome \<times> session \<times> gateway"

definition handle_approve ::
  "agent_services \<Rightarrow> resume_failed \<Rightarrow> stock_pick list \<Rightarrow> chat_session \<Rightarrow> session \<Rightarrow> gateway \<Rightarrow>
   push_msg list \<times> chat_session \<times> session \<times> gateway" where
  "handle_approve ag resume_failed confirmed ch db g =
     (case ch_thread ch of
        None \<Rightarrow> ([Msg_Error ''nothing to approve''], ch, db, g)
      | Some (Ended st) \<Rightarrow> ([], ch, db, g)
      | Some (Awaiting_Approval st) \<Rightarrow>
          let (ms, db, g) = graph_resume ag st confirmed db g
          in (ms, ch\<lparr>ch_thread := Some (Ended (st\<lparr>hs_confirmed_picks := confirmed\<rparr>))\<rparr>, db, g)
      | Some (Failed_In st) \<Rightarrow>
          let (ms, out, db, g) = resume_failed st confirmed db g
          in (ms, ch\<lparr>ch_thread := Some out\<rparr>, db, g))"

section \<open>The connections\<close>

record connection_manager =
  cn_connections :: "string list"
  cn_sessions :: "string \<rightharpoonup> chat_session"

definition connect :: "string \<Rightarrow> connection_manager \<Rightarrow> connection_manager" where
  "connect sid w =
     w\<lparr>cn_connections := (if sid \<in> set (cn_connections w) then cn_connections w else sid # cn_connections w),
       cn_sessions := (cn_sessions w)(sid \<mapsto> new_chat_session)\<rparr>"

definition disconnect :: "string \<Rightarrow> connection_manager \<Rightarrow> connection_manager" where
  "disconnect sid w =
     w\<lparr>cn_connections := filter (\<lambda>x. x \<noteq> sid) (cn_connections w),
       cn_sessions := (cn_sessions w)(sid := None)\<rparr>"

definition session_state :: "string \<Rightarrow> connection_manager \<Rightarrow> chat_session" where
  "session_state sid w = (case cn_sessions w sid of None \<Rightarrow> new_chat_session | Some ch \<Rightarrow> ch)"

datatype client_msg = Client_Message chat_message | Client_Approve "stock_pick list" | Client_Other

definition dispatch ::
  "agent_services \<Rightarrow> resume_failed \<Rightarrow> string \<Rightarrow> client_msg \<Rightarrow> connection_manager \<Rightarrow> session \<Rightarrow> gateway \<Rightarrow>
   push_msg list \<times> connection_manager \<times> session \<times> gateway" where
  "dispatch ag resume_failed sid msg w db g =
     (let ch = session_state sid w;
          (ms, ch', db, g) =
            (case msg of
               Client_Message m \<Rightarrow> handle_message ag m ch db g
             | Client_Approve picks \<Rightarrow> handle_approve ag resume_failed picks ch db g
             | Client_Other \<Rightarrow> ([Msg_Unknown_Type], ch, db, g))
      in (if sid \<in> set (cn_connections w) then ms else [],
          (case msg of Client_Other \<Rightarrow> w
           | Client_Message m \<Rightarrow>
               if strip_with unicode_space (cm_text m) = [] then w
               else w\<lparr>cn_sessions := (cn_sessions w)(sid \<mapsto> ch')\<rparr>
           | _ \<Rightarrow> w\<lparr>cn_sessions := (cn_sessions w)(sid \<mapsto> ch')\<rparr>), db, g))"

end
