(* ===== verification/Harness_Properties.thy ===== *)
theory Harness_Properties
  imports Harness_Agent Demo_Session
begin

text \<open>
  Properties of the conversation layer: when a message of the client can reach the orders, what is
  reported for the picks it executes, and that a conversation keeps the audit trail of the database.
\<close>

section \<open>Executing picks\<close>

definition is_report :: "push_msg \<Rightarrow> bool" where
  "is_report m = (case m of Msg_Order_Result r \<Rightarrow> True | Msg_Order_Error symb e \<Rightarrow> True | _ \<Rightarrow> False)"

text \<open>The report of a pick: the result of its proposal, or the error with its symbol.\<close>

definition reports :: "stock_pick \<Rightarrow> push_msg \<Rightarrow> bool" where
  "reports pick m =
     (case m of Msg_Order_Result r \<Rightarrow> lr_proposal r = proposal_of_pick pick
      | Msg_Order_Error symb e \<Rightarrow> symb = sp_symbol pick | _ \<Rightarrow> False)"

lemma is_report_simps [simp]:
  "is_report (Msg_Order_Result r)" "is_report (Msg_Order_Error symb e)" "\<not> is_report (Msg_Executing p)"
  "\<not> is_report (Msg_Submitting n)" "\<not> is_report Msg_Done" "\<not> is_report Msg_Nothing_Pending"
  by (simp_all add: is_report_def)

lemma do_execute_proposal:
  assumes "do_execute ex submit p decision acc tr th url mo s w = (Inr (res, t), w')"
  shows "lr_proposal res = p"
proof (cases "find_existing_order ex tr (tp_symbol p) s")
  case None
  with assms show ?thesis by (auto simp: do_execute_def wbind_Inr_iff split: if_splits)
next
  case (Some ord)
  with assms show ?thesis by (auto simp: do_execute_def)
qed

lemma execute_proposal:
  assumes "execute ex submit p decision acc trace_id thread_id url mo db w = (Inr res, db', w')"
  shows "lr_proposal res = p"
  using assms do_execute_proposal
  by (fastforce simp: execute_def case_prod_unfold rbind_Inr_iff Let_def prod_eq_iff split: sum.splits)

lemma execute_pick_reports:
  "\<exists>m. filter is_report (fst (execute_pick ex b acc reviewer pick db g)) = [m] \<and> reports pick m"
proof -
  let ?x = "execute ex (broker_submit b) (proposal_of_pick pick)
     \<lparr>ha_approved = True, ha_reviewer = reviewer, ha_reason = []\<rparr> acc None None [] None db g"
  obtain r db' g' where x: "?x = (r, db', g')" by (metis surj_pair)
  then have "r = Inr res \<Longrightarrow> lr_proposal res = proposal_of_pick pick" for res
    using execute_proposal by simp
  then show ?thesis by (cases r) (auto simp: execute_pick_def reports_def Let_def x)
qed

lemma execute_picks_reports:
  "list_all2 reports picks (filter is_report (fst (execute_picks ex b acc reviewer picks db g)))"
proof (induction picks arbitrary: db g)
  case (Cons pick picks)
  obtain ms db1 g1 where one: "execute_pick ex b acc reviewer pick db g = (ms, db1, g1)" by (metis surj_pair)
  obtain m where "filter is_report ms = [m]" "reports pick m"
    using execute_pick_reports [of ex b acc reviewer pick db g] one by auto
  with Cons.IH [of db1 g1] show ?case by (simp add: one Let_def case_prod_unfold)
qed simp

lemma execute_pick_trail:
  assumes "trail_inv db" and "execute_pick ex b acc reviewer pick db g = (ms, db', g')"
  shows "trail_inv db'"
proof -
  let ?x = "execute ex (broker_submit b) (proposal_of_pick pick)
     \<lparr>ha_approved = True, ha_reviewer = reviewer, ha_reason = []\<rparr> acc None None [] None db g"
  obtain r db1 g1 where x: "?x = (r, db1, g1)" by (metis surj_pair)
  have "trail_inv db1"
    using execute_run [OF x] kernel_run.inv_run [of "ex_order_service ex" b "(db, g)" "(db1, g1)"] assms(1)
    by auto
  with assms show ?thesis by (auto simp: execute_pick_def Let_def x split: if_splits)
qed

lemma execute_picks_trail:
  "trail_inv db \<Longrightarrow> execute_picks ex b acc reviewer picks db g = (ms, db', g') \<Longrightarrow> trail_inv db'"
proof (induction picks arbitrary: db g ms)
  case (Cons pick picks)
  obtain ms1 db1 g1 where one: "execute_pick ex b acc reviewer pick db g = (ms1, db1, g1)" by (metis surj_pair)
  obtain ms2 db2 g2 where rest: "execute_picks ex b acc reviewer picks db1 g1 = (ms2, db2, g2)"
    by (metis surj_pair)
  have "db2 = db'" "g2 = g'" using Cons.prems(2) by (simp_all add: one rest)
  with Cons.IH [OF execute_pick_trail [OF Cons.prems(1) one], of g1 ms2] rest show ?case by simp
qed simp

lemma execute_node_trail:
  "trail_inv db \<Longrightarrow> trail_inv (fst (snd (execute_node ex b st db g)))"
  using execute_picks_trail by (auto simp: execute_node_def split: prod.splits)

lemma execute_node_idle: "hs_confirmed_picks st = [] \<Longrightarrow> snd (execute_node ex b st db g) = (db, g)"
  by (simp add: execute_node_def)

section \<open>Runs of the graph\<close>

lemma strip_twice: "strip_with P (strip_with P t) = strip_with P t"
proof -
  let ?u = "dropWhile P t"
  have "dropWhile P (rev (dropWhile P (rev ?u))) = rev (dropWhile P (rev ?u))"
  proof (cases "dropWhile P (rev ?u)" rule: rev_cases)
    case (snoc ys y)
    have "rev ?u = takeWhile P (rev ?u) @ ys @ [y]" by (simp add: snoc flip: snoc)
    then have "hd ?u = y" by (metis append_is_Nil_conv hd_rev last_appendR last_snoc not_Cons_self2 rev_rev_ident)
    moreover have "?u \<noteq> []"
      using snoc by (metis dropWhile.simps(1) rev.simps(1) append_is_Nil_conv not_Cons_self2)
    ultimately have "\<not> P y" using hd_dropWhile by metis
    with snoc show ?thesis by simp
  next
    case Nil
    then show ?thesis by (metis dropWhile.simps(1) rev.simps(1))
  qed
  then show ?thesis by (simp add: strip_with_def)
qed

lemma graph_run_world:
  "snd (snd (graph_run ag st db g)) =
     (case interpret_node (ag_client ag) st of
        Inl e \<Rightarrow> (db, g)
      | Inr st' \<Rightarrow> if hs_intent st' = Some Intent_Order
          then snd (execute_node (ag_executor ag) (ag_broker ag) st' db g) else (db, g))"
  by (auto simp: graph_run_def case_prod_unfold split: sum.splits option.splits intent_label.splits)

lemma interpret_order_pending:
  assumes "interpret_node client st = Inr st'" and "hs_intent st' = Some Intent_Order"
  shows "st' = st\<lparr>hs_intent := Some Intent_Order, hs_confirmed_picks := hs_pending_picks st\<rparr>"
  using assms
  unfolding interpret_node_def Let_def
  by (auto simp: rbind_Inr_iff split: if_splits intent_label.splits) (metis intent_label.exhaust)

lemma graph_run_trail: "trail_inv db \<Longrightarrow> trail_inv (fst (snd (snd (graph_run ag st db g))))"
  using execute_node_trail by (auto simp: graph_run_world split: sum.splits)

lemma graph_run_touches:
  assumes "snd (snd (graph_run ag st db g)) \<noteq> (db, g)"
  shows "hs_pending_picks st \<noteq> []"
proof
  assume "hs_pending_picks st = []"
  with assms interpret_order_pending [of "ag_client ag" st] show False
    by (auto simp: graph_run_world execute_node_idle split: sum.splits if_splits)
qed

lemma graph_resume_trail: "trail_inv db \<Longrightarrow> trail_inv (fst (snd (graph_resume ag st picks db g)))"
  using execute_node_trail by (auto simp: graph_resume_def)

section \<open>Handlers\<close>

lemma update_session_picks [simp]: "ch_last_picks (snd (update_session m ch)) = ch_last_picks ch"
  by (simp add: update_session_def)

text \<open>What a message does to the database and the gateway.\<close>

lemma handle_message_world:
  "snd (snd (handle_message ag m ch db g)) =
     (let text = strip_with unicode_space (cm_text m); ch' = snd (update_session m ch)
      in if text = [] \<or> ch_account_id ch' = [] then (db, g)
         else snd (snd (graph_run ag (graph_input text ch') db g)))"
  by (auto simp: handle_message_def Let_def case_prod_unfold split: sum.splits)

lemma handle_message_trail: "trail_inv db \<Longrightarrow> trail_inv (fst (snd (snd (handle_message ag m ch db g))))"
  using graph_run_trail by (simp add: handle_message_world Let_def)

lemma handle_message_touches:
  assumes "snd (snd (handle_message ag m ch db g)) \<noteq> (db, g)"
  shows "ch_last_picks ch \<noteq> []"
  using assms graph_run_touches
    [of ag "graph_input (strip_with unicode_space (cm_text m)) (snd (update_session m ch))" db g]
  by (auto simp: handle_message_world Let_def graph_input_def split: if_splits)

lemma handle_approve_trail:
  assumes "\<And>st picks g. trail_inv (fst (snd (snd (resume_failed st picks db g))))" and "trail_inv db"
  shows "trail_inv (fst (snd (snd (handle_approve ag resume_failed picks ch db g))))"
  using assms graph_resume_trail
  by (auto simp: handle_approve_def Let_def case_prod_unfold split: option.splits graph_outcome.splits)

lemma dispatch_world:
  "snd (snd (dispatch ag rf sid msg w db g)) =
     (case msg of
        Client_Message m \<Rightarrow> snd (snd (handle_message ag m (session_state sid w) db g))
      | Client_Approve picks \<Rightarrow> snd (snd (handle_approve ag rf picks (session_state sid w) db g))
      | Client_Other \<Rightarrow> (db, g))"
  by (auto simp: dispatch_def Let_def case_prod_unfold split: client_msg.splits)

text \<open>The events of the server: a connection opens or closes, a message is handled.\<close>

inductive web_step ::
  "agent_services \<Rightarrow> resume_failed \<Rightarrow> connection_manager \<times> session \<times> gateway \<Rightarrow>
   connection_manager \<times> session \<times> gateway \<Rightarrow> bool" for ag rf where
  open_connection: "web_step ag rf (w, db, g) (connect sid w, db, g)"
| close_connection: "web_step ag rf (w, db, g) (disconnect sid w, db, g)"
| message: "dispatch ag rf sid msg w db g = (ms, w', db', g') \<Longrightarrow>
    web_step ag rf (w, db, g) (w', db', g')"

lemma web_step_trail:
  assumes "\<And>st picks db g. trail_inv db \<Longrightarrow> trail_inv (fst (snd (snd (rf st picks db g))))"
    and "web_step ag rf x y" and "trail_inv (fst (snd x))"
  shows "trail_inv (fst (snd y))"
  using assms(2,3)
proof (induction rule: web_step.induct)
  case (message sid msg w db g ms w' db' g')
  have "(db', g') = snd (snd (dispatch ag rf sid msg w db g))" using message by simp
  then have "db' = fst (snd (snd (dispatch ag rf sid msg w db g)))" by (metis fst_conv)
  with message(2) assms(1) show ?case
    by (auto simp: dispatch_world split: client_msg.split
        intro!: handle_message_trail handle_approve_trail)
qed simp_all

section \<open>Properties of the conversation\<close>

definition demo_pick :: stock_pick where
  "demo_pick = \<lparr>sp_symbol = ''S'', sp_action = TA_BUY, sp_confidence = 1 / 2, sp_quantity = 2,
     sp_suggested_limit_price = Some 100, sp_take_profit_price = None, sp_stop_loss_price = None,
     sp_rationale = ''r'', sp_key_catalysts = [], sp_risk_notes = []\<rparr>"

definition demo_agent :: agent_services where
  "demo_agent = \<lparr>ag_client = None, ag_tools = [],
     ag_skill = \<lparr>sk_enabled = False, sk_select_stocks = None, sk_tools = []\<rparr>,
     ag_executor = demo_ex, ag_broker = Local_Sim_Broker demo_cfg\<rparr>"

definition demo_chat :: chat_session where
  "demo_chat = new_chat_session\<lparr>ch_account_id := ''acc'', ch_last_picks := [demo_pick]\<rparr>"

text \<open>The user types the order keyword.\<close>

definition demo_order_message :: chat_message where
  "demo_order_message = \<lparr>cm_text = [32, 19979, 21333], cm_account_id = [], cm_n = None,
     cm_custom_prompt = None, cm_report = None\<rparr>"

definition demo_manager :: connection_manager where
  "demo_manager = \<lparr>cn_connections = [''ws''], cn_sessions = [''ws'' \<mapsto> demo_chat]\<rparr>"

text \<open>
  C9. A message of the client leaves the database and the gateway alone, unless it is a chat message
  read as an order while the session has picks of an earlier selection, an approval of picks for a run
  that waits for one, or an approval for a run that failed.
\<close>

theorem orders_need_picks:
  "snd (snd (dispatch ag rf sid msg w db g)) = (db, g) \<or>
   (case msg of
      Client_Message m \<Rightarrow>
        ch_last_picks (session_state sid w) \<noteq> [] \<and>
        (\<exists>st. interpret_node (ag_client ag)
           (graph_input (strip_with unicode_space (cm_text m))
             (snd (update_session m (session_state sid w)))) = Inr st \<and> hs_intent st = Some Intent_Order)
    | Client_Approve picks \<Rightarrow>
        (\<exists>st. ch_thread (session_state sid w) = Some (Awaiting_Approval st)) \<and> picks \<noteq> [] \<or>
        (\<exists>st. ch_thread (session_state sid w) = Some (Failed_In st))
    | Client_Other \<Rightarrow> False)"
proof (cases msg)
  case (Client_Message m)
  let ?ch = "session_state sid w"
  show ?thesis
    using handle_message_touches [of ag m ?ch db g]
    by (auto simp: Client_Message dispatch_world handle_message_world Let_def graph_run_world
        split: sum.splits if_splits)
next
  case (Client_Approve picks)
  then show ?thesis
    by (auto simp: dispatch_world handle_approve_def Let_def graph_resume_def case_prod_unfold
        split: option.splits graph_outcome.splits)
next
  case Client_Other
  then show ?thesis by (simp add: dispatch_world)
qed

text \<open>
  Every confirmed pick is tried once, in order, and reported: its result, or an error with its
  symbol, and one pick's failure does not keep the next ones from being tried.
\<close>

theorem one_report_per_pick:
  "list_all2 reports (hs_confirmed_picks st) (filter is_report (fst (execute_node ex b st db g)))"
  using execute_picks_reports [of "hs_confirmed_picks st" ex b "hs_account_id st" "hs_reviewer st" db g]
  by (auto simp: execute_node_def Let_def case_prod_unfold)

text \<open>
  Whatever is typed and approved in whatever connections, the audit log of the database replays
  the life of every order: the conversation only acts through the executor. The library that resumes a
  failed run is assumed to do the same.
\<close>

theorem conversation_keeps_trail:
  assumes "\<And>st picks db g. trail_inv db \<Longrightarrow> trail_inv (fst (snd (snd (rf st picks db g))))"
    and "(web_step ag rf)\<^sup>*\<^sup>* (w, db, g) (w', db', g')" and "trail_inv db"
  shows "trail_inv db'"
proof -
  have "trail_inv (fst (snd (w', db', g')))"
    using assms(2)
    by (induction rule: rtranclp_induct) (use assms(3) in simp, rule web_step_trail [OF assms(1)])
  then show ?thesis by simp
qed

theorem conversation_keeps_trail_witness:
  "\<exists>ms w db g. dispatch demo_agent (\<lambda>st picks db g. ([], Failed_In st, db, g)) ''ws''
     (Client_Message demo_order_message) demo_manager demo0 demo_gateway = (ms, w, db, g) \<and> trail_inv db"
proof -
  let ?rf = "\<lambda>st picks db g. ([], Failed_In st, db, g)"
  obtain ms w db g where step: "dispatch demo_agent ?rf ''ws'' (Client_Message demo_order_message)
      demo_manager demo0 demo_gateway = (ms, w, db, g)" by (metis surj_pair)
  from conversation_keeps_trail [of ?rf demo_agent demo_manager demo0 demo_gateway w db g]
    r_into_rtranclp [of "web_step demo_agent ?rf", OF web_step.message [OF step]] demo_inv
  show ?thesis using step by (auto simp: sim_inv_def)
qed

text \<open>
  An order keyword executes the picks of the last selection at once: no approval is asked for, and
  since the picks stay in the session, the next order keyword executes the same picks again.
\<close>

theorem order_keyword_executes_picks:
  assumes "list_ex (text_contains (strip_with unicode_space (cm_text m))) order_keywords"
    and "snd (update_session m ch) = ch'" and "ch_account_id ch' \<noteq> []"
  shows "\<exists>st. hs_confirmed_picks st = ch_last_picks ch \<and> hs_account_id st = ch_account_id ch' \<and>
      handle_message ag m ch db g =
        (fst (update_session m ch) @ fst (execute_node (ag_executor ag) (ag_broker ag) st db g),
         ch'\<lparr>ch_thread := Some (Ended st)\<rparr>, snd (execute_node (ag_executor ag) (ag_broker ag) st db g)) \<and>
      ch_last_picks (fst (snd (handle_message ag m ch db g))) = ch_last_picks ch"
proof -
  let ?typed = "strip_with unicode_space (cm_text m)"
  let ?start = "graph_input ?typed ch'"
  let ?st = "?start\<lparr>hs_intent := Some Intent_Order, hs_confirmed_picks := ch_last_picks ch\<rparr>"
  have picks: "ch_last_picks ch' = ch_last_picks ch" using assms(2) by auto
  have typed: "?typed \<noteq> []" using assms(1) by (auto simp: order_keywords_def)
  have "interpret_node (ag_client ag) ?start = Inr ?st"
    using assms(1) typed
    by (simp add: interpret_node_def Let_def graph_input_def strip_twice picks)
  then have "graph_run ag ?start db g =
      (Inr (Ended ?st), execute_node (ag_executor ag) (ag_broker ag) ?st db g)"
    by (simp add: graph_run_def case_prod_unfold Let_def)
  moreover obtain pre where "update_session m ch = (pre, ch')"
    using assms(2) by (cases "update_session m ch") auto
  ultimately have "handle_message ag m ch db g =
      (fst (update_session m ch) @ fst (execute_node (ag_executor ag) (ag_broker ag) ?st db g),
       ch'\<lparr>ch_thread := Some (Ended ?st)\<rparr>, snd (execute_node (ag_executor ag) (ag_broker ag) ?st db g))"
    using typed assms(3)
    by (simp add: handle_message_def Let_def case_prod_unfold) (simp add: graph_input_def)
  then show ?thesis using picks by (intro exI [where x = ?st]) (simp add: graph_input_def)
qed

theorem order_keyword_executes_picks_witness:
  "\<exists>st. hs_confirmed_picks st = [demo_pick] \<and>
     snd (snd (handle_message demo_agent demo_order_message demo_chat demo0 demo_gateway)) =
       snd (execute_node demo_ex (Local_Sim_Broker demo_cfg) st demo0 demo_gateway)"
proof -
  have "list_ex (text_contains (strip_with unicode_space (cm_text demo_order_message))) order_keywords"
    by (simp add: demo_order_message_def order_keywords_def strip_with_def unicode_space_def)
  from order_keyword_executes_picks [OF this, of demo_chat
      "snd (update_session demo_order_message demo_chat)" demo_agent demo0 demo_gateway]
  show ?thesis
    by (auto simp: demo_chat_def new_chat_session_def demo_agent_def demo_order_message_def
        update_session_def strip_def)
qed

end
