(* ===== verification/Live_Mandate.thy ===== *)
theory Live_Mandate
  imports Live_Store
begin

text \<open>
  The mandate of \<open>agent/src/live/mandate\<close>: its data model (\<open>model.py\<close>), the strict loader (\<open>store.py\<close>)
  and the proposals and the commit of \<open>commit.py\<close>, the only writer of a mandate.
\<close>

section \<open>The data model\<close>

datatype instrument_type = EQUITY | ETF | OPTION | CRYPTO

datatype asset_class = US_EQUITY | US_ETF | HK_EQUITY | CN_EQUITY | CRYPTO_CLASS

fun instrument_value :: "instrument_type \<Rightarrow> string" where
  "instrument_value EQUITY = ''equity''"
| "instrument_value ETF = ''etf''"
| "instrument_value OPTION = ''option''"
| "instrument_value CRYPTO = ''crypto''"

fun asset_class_value :: "asset_class \<Rightarrow> string" where
  "asset_class_value US_EQUITY = ''us_equity''"
| "asset_class_value US_ETF = ''us_etf''"
| "asset_class_value HK_EQUITY = ''hk_equity''"
| "asset_class_value CN_EQUITY = ''cn_equity''"
| "asset_class_value CRYPTO_CLASS = ''crypto''"

definition mandate_schema_version :: int where
  "mandate_schema_version = 1"

record hard_caps =
  hc_account_funding_usd :: pyfloat
  hc_max_order_notional_usd :: pyfloat
  hc_max_total_exposure_usd :: pyfloat
  hc_max_leverage :: pyfloat
  hc_allowed_instruments :: "instrument_type list"
  hc_max_trades_per_day :: int

record universe_constraint =
  un_asset_classes :: "asset_class list"
  un_min_market_cap_usd :: "pyfloat option"
  un_min_avg_daily_volume_usd :: "pyfloat option"
  un_exclude_symbols :: "string list"

record consent_meta =
  cm_created_at :: string
  cm_consent_token_sha256 :: string
  cm_broker :: string
  cm_account_ref :: string
  cm_expires_at :: string

record mandate =
  ma_schema_version :: int
  ma_hard_caps :: hard_caps
  ma_universe :: universe_constraint
  ma_consent :: consent_meta
  ma_flatten_on_halt :: bool

section \<open>The loader\<close>

definition parse_instrument :: "pyval \<Rightarrow> instrument_type live" where
  "parse_instrument v =
     (case filter (\<lambda>i. v = VStr (instrument_value i)) [EQUITY, ETF, OPTION, CRYPTO] of
        [] \<Rightarrow> Inl (Value_Error ''InstrumentType'')
      | i # _ \<Rightarrow> Inr i)"

definition parse_asset_class :: "pyval \<Rightarrow> asset_class live" where
  "parse_asset_class v =
     (case filter (\<lambda>i. v = VStr (asset_class_value i)) [US_EQUITY, US_ETF, HK_EQUITY, CN_EQUITY, CRYPTO_CLASS] of
        [] \<Rightarrow> Inl (Value_Error ''AssetClass'')
      | i # _ \<Rightarrow> Inr i)"

definition require_dict :: "pyval \<Rightarrow> string \<Rightarrow> pydict live" where
  "require_dict v field = (case v of VDict d \<Rightarrow> Inr d | _ \<Rightarrow> Inl (Type_Error field))"

definition opt_float :: "pyval \<Rightarrow> pyfloat option live" where
  "opt_float v = (if v = VNone then Inr None else rbind (py_float v) (\<lambda>x. Inr (Some x)))"

definition parse_hard_caps :: "pydict \<Rightarrow> hard_caps live" where
  "parse_hard_caps caps =
     rbind (rbind (ditem caps ''account_funding_usd'') py_float) (\<lambda>funding.
     rbind (rbind (ditem caps ''max_order_notional_usd'') py_float) (\<lambda>order.
     rbind (rbind (ditem caps ''max_total_exposure_usd'') py_float) (\<lambda>exposure.
     rbind (rbind (ditem caps ''max_leverage'') py_float) (\<lambda>leverage.
     rbind (rbind (rbind (ditem caps ''allowed_instruments'') py_iter) (rmap parse_instrument)) (\<lambda>instruments.
     rbind (rbind (ditem caps ''max_trades_per_day'') py_int) (\<lambda>trades.
       Inr \<lparr>hc_account_funding_usd = funding, hc_max_order_notional_usd = order,
            hc_max_total_exposure_usd = exposure, hc_max_leverage = leverage,
            hc_allowed_instruments = instruments, hc_max_trades_per_day = trades\<rparr>))))))"

definition parse_universe :: "py_env \<Rightarrow> pydict \<Rightarrow> universe_constraint live" where
  "parse_universe e u =
     rbind (rbind (rbind (ditem u ''asset_classes'') py_iter) (rmap parse_asset_class)) (\<lambda>classes.
     rbind (rbind (ditem u ''min_market_cap_usd'') opt_float) (\<lambda>cap.
     rbind (rbind (ditem u ''min_avg_daily_volume_usd'') opt_float) (\<lambda>adv.
     rbind (rbind (ditem u ''exclude_symbols'') py_iter) (\<lambda>excluded.
       Inr \<lparr>un_asset_classes = classes, un_min_market_cap_usd = cap, un_min_avg_daily_volume_usd = adv,
            un_exclude_symbols = map (py_str e) excluded\<rparr>))))"

definition parse_consent :: "py_env \<Rightarrow> pydict \<Rightarrow> consent_meta live" where
  "parse_consent e c =
     rbind (ditem c ''created_at'') (\<lambda>created.
     rbind (ditem c ''consent_token_sha256'') (\<lambda>token.
     rbind (ditem c ''broker'') (\<lambda>broker.
     rbind (ditem c ''account_ref'') (\<lambda>account.
     rbind (ditem c ''expires_at'') (\<lambda>expires.
       Inr \<lparr>cm_created_at = py_str e created, cm_consent_token_sha256 = py_str e token,
            cm_broker = py_str e broker, cm_account_ref = py_str e account,
            cm_expires_at = py_str e expires\<rparr>)))))"

definition parse_mandate :: "py_env \<Rightarrow> pyval \<Rightarrow> mandate live" where
  "parse_mandate e raw =
     (case raw of
        VDict d \<Rightarrow>
          rbind (rbind (ditem d ''hard_caps'') (\<lambda>v. require_dict v ''hard_caps'')) (\<lambda>caps.
          rbind (rbind (ditem d ''universe'') (\<lambda>v. require_dict v ''universe'')) (\<lambda>universe.
          rbind (rbind (ditem d ''consent'') (\<lambda>v. require_dict v ''consent'')) (\<lambda>consent.
          rbind (parse_hard_caps caps) (\<lambda>hard_caps.
          rbind (parse_universe e universe) (\<lambda>universe.
          rbind (parse_consent e consent) (\<lambda>consent.
          rbind (rbind (ditem d ''schema_version'') py_int) (\<lambda>version.
            Inr \<lparr>ma_schema_version = version, ma_hard_caps = hard_caps, ma_universe = universe,
                 ma_consent = consent,
                 ma_flatten_on_halt = val_truthy (dget_or d ''flatten_on_halt'' (VBool False))\<rparr>)))))))
      | _ \<Rightarrow> Inl (Type_Error ''mandate root must be a JSON object''))"

definition load_mandate :: "py_env \<Rightarrow> string \<Rightarrow> live_store \<Rightarrow> mandate option live" where
  "load_mandate e broker s =
     rbind (broker_key broker) (\<lambda>k.
       case lv_mandate s k of
         None \<Rightarrow> Inr None
       | Some raw \<Rightarrow>
           (case parse_mandate e raw of
              Inl Overflow_Error \<Rightarrow> Inl Overflow_Error
            | Inl x \<Rightarrow> Inr None
            | Inr m \<Rightarrow> Inr (Some m)))"

section \<open>Proposals\<close>

definition is_hex :: "char \<Rightarrow> bool" where
  "is_hex c \<longleftrightarrow> is_digit c \<or> c \<in> set ''abcdef''"

definition valid_proposal_id :: "string \<Rightarrow> bool" where
  "valid_proposal_id i \<longleftrightarrow> take 3 i = ''mp_'' \<and> length i = 35 \<and> list_all is_hex (drop 3 i)"

definition proposal_path :: "string \<Rightarrow> string \<Rightarrow> (string \<times> string) live" where
  "proposal_path broker i =
     (if \<not> valid_proposal_id i
      then Inl (Value_Error ''proposal_id must be a bare mp_<32 hex> identifier'')
      else rbind (broker_key broker) (\<lambda>k. Inr (k, i)))"

definition save_proposal :: "py_env \<Rightarrow> pydict \<Rightarrow> live_store \<Rightarrow> live_store live" where
  "save_proposal e p s =
     (let i = strip (py_str e (val_or (dget p ''proposal_id'') (VStr [])))
      in if i = [] then Inl (Value_Error ''proposal must carry a proposal_id'')
         else case val_or (dget p ''account'') (VDict []) of
           VDict account \<Rightarrow>
             (let broker = strip (py_str e (val_or (dget account ''broker'') (VStr [])))
              in if broker = [] then Inl (Value_Error ''proposal must carry account.broker'')
                 else rbind (proposal_path broker i) (\<lambda>(k, i).
                   Inr (s\<lparr>lv_proposals := (lv_proposals s)(k := (lv_proposals s k)(i := Some (VDict p)))\<rparr>)))
         | _ \<Rightarrow> Inl (Attribute_Error ''get''))"

definition load_proposal :: "string \<Rightarrow> string \<Rightarrow> live_store \<Rightarrow> pydict option" where
  "load_proposal broker i s =
     (case proposal_path broker i of
        Inl x \<Rightarrow> None
      | Inr (k, i) \<Rightarrow> (case lv_proposals s k i of Some (VDict d) \<Rightarrow> Some d | _ \<Rightarrow> None))"

definition invalidate_proposal :: "string \<Rightarrow> string \<Rightarrow> live_store \<Rightarrow> live_store" where
  "invalidate_proposal broker i s =
     (case proposal_path broker i of
        Inl x \<Rightarrow> s
      | Inr (k, i) \<Rightarrow> s\<lparr>lv_proposals := (lv_proposals s)(k := (lv_proposals s k)(i := None))\<rparr>)"

section \<open>The profile and its ceilings\<close>

definition ceiling_aliases :: "(string \<times> string) list" where
  "ceiling_aliases =
     [(''max_order_usd'', ''max_order_notional_usd''),
      (''max_order_notional_usd'', ''max_order_notional_usd''),
      (''daily_trade_cap'', ''max_trades_per_day''), (''max_trades_per_day'', ''max_trades_per_day''),
      (''leverage'', ''leverage''), (''max_leverage'', ''leverage''),
      (''instruments'', ''allowed_instruments''), (''allowed_instruments'', ''allowed_instruments'')]"

definition normalize_limit :: "string \<times> pyval \<Rightarrow> pydict \<Rightarrow> pydict" where
  "normalize_limit kv normalized =
     (case map_of ceiling_aliases (fst kv) of
        None \<Rightarrow> normalized
      | Some canonical \<Rightarrow>
          if canonical = fst kv \<or> map_of normalized canonical = None
          then dict_set canonical (snd kv) normalized else normalized)"

definition normalize_limits :: "pydict \<Rightarrow> pydict" where
  "normalize_limits source = fold normalize_limit source []"

fun find_profile :: "pyval list \<Rightarrow> int \<Rightarrow> pydict option live" where
  "find_profile [] ordinal = Inr None"
| "find_profile (p # ps) ordinal =
     (case p of
        VDict d \<Rightarrow>
          rbind (py_int (dget_or d ''ordinal'' (VInt (- 1)))) (\<lambda>n.
            if n = ordinal then Inr (Some d) else find_profile ps ordinal)
      | _ \<Rightarrow> Inl (Attribute_Error ''get''))"

fun apply_adjustments :: "pydict \<Rightarrow> pydict \<Rightarrow> pydict live" where
  "apply_adjustments [] resolved = Inr resolved"
| "apply_adjustments ((key, v) # rest) resolved =
     (case map_of resolved key of
        None \<Rightarrow> Inl (Commit_Error ''adjustment is not a field of the selected profile'')
      | Some current \<Rightarrow>
          if (case (number_of current, number_of v) of (Some c, Some n) \<Rightarrow> flt c n | _ \<Rightarrow> False)
          then Inl (Commit_Error ''adjustment widens the rendered limit'')
          else apply_adjustments rest (dict_set key v resolved))"

definition resolve_profile :: "pydict \<Rightarrow> int \<Rightarrow> pydict option \<Rightarrow> pydict live" where
  "resolve_profile proposal ordinal adjustments =
     rbind (py_iter (val_or (dget proposal ''profiles'') (VList []))) (\<lambda>profiles.
     rbind (find_profile profiles ordinal) (\<lambda>found.
       case found of
         None \<Rightarrow> Inl (Commit_Error ''selected_ordinal is not in proposal'')
       | Some d \<Rightarrow> apply_adjustments (case adjustments of None \<Rightarrow> [] | Some a \<Rightarrow> a) d))"

text \<open>\<open>v not in ("none", None, 1, 1.0)\<close>\<close>

definition wants_leverage :: "pyval \<Rightarrow> bool" where
  "wants_leverage v \<longleftrightarrow> v \<noteq> VStr ''none'' \<and> v \<noteq> VNone \<and>
     (case number_of v of Some x \<Rightarrow> \<not> feq x (Fin 1) | None \<Rightarrow> True)"

definition limit_fits :: "pydict \<Rightarrow> string \<times> pyval \<Rightarrow> bool" where
  "limit_fits prof kv =
     (case map_of prof (fst kv) of
        None \<Rightarrow> True
      | Some prof_value \<Rightarrow>
          (case (number_of (snd kv), number_of prof_value) of
             (Some cap, Some value) \<Rightarrow> \<not> flt cap value
           | _ \<Rightarrow> \<not> (fst kv = ''leverage'' \<and> snd kv = VStr ''none'' \<and> wants_leverage prof_value)))"

definition profile_fits_ceilings :: "pydict \<Rightarrow> pydict \<Rightarrow> bool" where
  "profile_fits_ceilings profile ceilings =
     list_all (limit_fits (normalize_limits profile)) (normalize_limits ceilings)"

definition profile_to_hard_caps :: "pydict \<Rightarrow> pydict live" where
  "profile_to_hard_caps p =
     (let leverage_raw = dget_or p ''leverage'' (VStr ''none'') in
     rbind (if leverage_raw = VStr ''none'' \<or> leverage_raw = VNone then Inr (Fin 1) else py_float leverage_raw)
       (\<lambda>max_leverage.
     rbind (py_iter (val_or (dget p ''instruments'') (VList [VStr ''equity'']))) (\<lambda>instruments.
     rbind (py_float (val_or (dget_or p ''account_funding_usd'' (dget_or p ''max_total_exposure_usd'' (VFloat (Fin 0))))
       (VFloat (Fin 0)))) (\<lambda>funding.
     rbind (py_float (val_or (dget_or p ''max_order_usd'' (VFloat (Fin 0))) (VFloat (Fin 0)))) (\<lambda>max_order.
     rbind (py_float (val_or (dget_or p ''max_total_exposure_usd'' (val_or (VFloat funding) (VFloat max_order)))
       (VFloat max_order))) (\<lambda>max_exposure.
     rbind (py_int (val_or (dget_or p ''daily_trade_cap'' (VInt 0)) (VInt 0))) (\<lambda>trades.
       Inr [(''account_funding_usd'', val_or (VFloat funding) (VFloat max_exposure)),
            (''max_order_notional_usd'', VFloat max_order),
            (''max_total_exposure_usd'', VFloat max_exposure), (''max_leverage'', VFloat max_leverage),
            (''allowed_instruments'', VList instruments), (''max_trades_per_day'', VInt trades)])))))))"

definition profile_to_universe :: "pydict \<Rightarrow> pydict live" where
  "profile_to_universe p =
     rbind (py_iter (val_or (dget p ''asset_classes'') (VList [VStr ''us_equity'']))) (\<lambda>classes.
     rbind (py_iter (val_or (dget p ''exclude_symbols'') (VList []))) (\<lambda>excluded.
       Inr [(''asset_classes'', VList classes), (''min_market_cap_usd'', dget p ''min_market_cap_usd''),
            (''min_avg_daily_volume_usd'', dget p ''min_avg_daily_volume_usd''),
            (''exclude_symbols'', VList excluded)]))"

section \<open>The commit\<close>

record commit_request =
  cq_proposal_id :: string
  cq_ordinal :: int
  cq_adjustments :: "pydict option"
  cq_consent_ack :: bool
  cq_broker :: string
  cq_account_ref :: string
  cq_session_id :: "string option"
  cq_ceilings_ref :: "pydict option"
  cq_lifetime_days :: int
  cq_flatten_on_halt :: "bool option"

text \<open>\<open>dict(v)\<close> of the snapshot a proposal carries; a list of pairs is left out.\<close>

definition as_dict :: "pyval \<Rightarrow> pydict live" where
  "as_dict v = (case val_or v (VDict []) of VDict d \<Rightarrow> Inr d | _ \<Rightarrow> Inl (Type_Error ''dict''))"

definition mandate_doc ::
  "py_env \<Rightarrow> commit_request \<Rightarrow> string \<Rightarrow> string \<Rightarrow> pydict \<Rightarrow> pydict \<Rightarrow> bool \<Rightarrow> pydict" where
  "mandate_doc e q mandate_id consent_id caps universe flatten =
     (let created = pe_now e; expires = created + max 1 (cq_lifetime_days q) * 86400000000
      in [(''schema_version'', VInt mandate_schema_version), (''mandate_id'', VStr mandate_id),
          (''hard_caps'', VDict caps), (''universe'', VDict universe), (''flatten_on_halt'', VBool flatten),
          (''consent'', VDict
            [(''created_at'', VStr (pe_iso_z e created)),
             (''consent_token_sha256'', VStr (pe_sha256 e (cq_proposal_id q @ ''|'' @ int_str (cq_ordinal q) @
                ''|'' @ consent_id @ ''|'' @ pe_iso_z e created))),
             (''broker'', VStr (cq_broker q)), (''account_ref'', VStr (cq_account_ref q)),
             (''expires_at'', VStr (pe_iso_z e expires))])])"

definition consent_record ::
  "py_env \<Rightarrow> commit_request \<Rightarrow> string \<Rightarrow> string \<Rightarrow> pydict \<Rightarrow> pydict \<Rightarrow> bool \<Rightarrow> pydict" where
  "consent_record e q mandate_id consent_id proposal resolved flatten =
     (let created = pe_now e; expires = created + max 1 (cq_lifetime_days q) * 86400000000
      in [(''consent_record_id'', VStr consent_id), (''mandate_id'', VStr mandate_id),
          (''proposal_id'', VStr (cq_proposal_id q)), (''selected_ordinal'', VInt (cq_ordinal q)),
          (''adjustments'', (case cq_adjustments q of None \<Rightarrow> VNone | Some a \<Rightarrow> if a = [] then VNone else VDict a)),
          (''consent_ack'', VBool True), (''session_id'', opt_str (cq_session_id q)),
          (''broker'', VStr (cq_broker q)), (''account_ref'', VStr (cq_account_ref q)),
          (''resolved_profile'', VDict resolved), (''flatten_on_halt'', VBool flatten),
          (''ceilings_ref'', dget proposal ''ceilings_ref''),
          (''created_at'', VStr (pe_iso_z e created)), (''expires_at'', VStr (pe_iso_z e expires))])"

definition commit_mandate ::
  "py_env \<Rightarrow> commit_request \<Rightarrow> live_store \<Rightarrow> (pydict \<times> live_store) live" where
  "commit_mandate e q s =
     (if \<not> cq_consent_ack q then Inl (Commit_Error ''commit requires an explicit consent_ack=true'')
      else case load_proposal (cq_broker q) (cq_proposal_id q) s of
        None \<Rightarrow> Inl (Commit_Error ''proposal is not live'')
      | Some proposal \<Rightarrow>
          rbind (resolve_profile proposal (cq_ordinal q) (cq_adjustments q)) (\<lambda>resolved.
          rbind (case cq_ceilings_ref q of Some c \<Rightarrow> Inr c | None \<Rightarrow> as_dict (dget proposal ''ceilings'')) (\<lambda>ceilings.
          if ceilings \<noteq> [] \<and> \<not> profile_fits_ceilings resolved ceilings
          then Inl (Commit_Error ''resolved profile exceeds the account ceilings'')
          else
          let flatten = (case cq_flatten_on_halt q of Some b \<Rightarrow> b
                         | None \<Rightarrow> val_truthy (dget_or resolved ''flatten_on_halt'' (VBool False)));
              (mandate_id, s) = new_hex e ''mandate'' s;
              (consent_id, s) = new_hex e ''cr'' s
          in rbind (profile_to_hard_caps resolved) (\<lambda>caps.
             rbind (profile_to_universe resolved) (\<lambda>universe.
             rbind (broker_key (cq_broker q)) (\<lambda>k.
             let s = s\<lparr>lv_mandate := (lv_mandate s)(k :=
                        Some (VDict (mandate_doc e q mandate_id consent_id caps universe flatten)))\<rparr>;
                 s = s\<lparr>lv_consents := (lv_consents s)(k := (lv_consents s k)(consent_id :=
                        Some (VDict (consent_record e q mandate_id consent_id proposal resolved flatten))))\<rparr>;
                 s = invalidate_proposal (cq_broker q) (cq_proposal_id q) s
             in Inr ([(''mandate_id'', VStr mandate_id), (''consent_record_id'', VStr consent_id),
                      (''broker'', VStr (cq_broker q)),
                      (''expires_at'', VStr (pe_iso_z e (pe_now e + max 1 (cq_lifetime_days q) * 86400000000))),
                      (''resolved_profile'', VDict resolved)], s)))))))"

end
