(* ===== verification/Live_Enforcement.thy ===== *)
theory Live_Enforcement
  imports Live_Mandate
begin

text \<open>
  The pre-trade check of \<open>agent/src/live/enforcement.py\<close>: the normalized order, the breach, the readers of
  a broker's payloads and \<open>check_mandate\<close>, the decision function of both order gates. The market-data
  loaders and the fundamentals lookup are parameters.
\<close>

section \<open>Orders and breaches\<close>

text \<open>The side is the text the caller gives.\<close>

record live_intent =
  li_symbol :: string
  li_side :: string
  li_notional_usd :: "pyfloat option"
  li_quantity :: "pyfloat option"
  li_instrument_type :: instrument_type
  li_asset_class :: "asset_class option"

datatype breach_kind = Breach_Universe | Breach_Instrument | Breach_Quantitative

record breach_event =
  be_broker :: string
  be_limit :: string
  be_limit_value :: pyfloat
  be_attempted_value :: pyfloat
  be_overage :: pyfloat
  be_proposed_action :: live_intent
  be_remote_tool :: string
  be_created_at :: string
  be_kind :: breach_kind
  be_detail :: string

definition breach ::
  "py_env \<Rightarrow> string \<Rightarrow> string \<Rightarrow> live_intent \<Rightarrow> breach_kind \<Rightarrow> string \<Rightarrow> pyfloat \<Rightarrow> pyfloat \<Rightarrow> string \<Rightarrow>
   breach_event" where
  "breach e broker tool intent kind limit limit_value attempted_value detail =
     \<lparr>be_broker = broker, be_limit = limit, be_limit_value = limit_value,
      be_attempted_value = attempted_value, be_overage = fsub attempted_value limit_value,
      be_proposed_action = intent, be_remote_tool = tool, be_created_at = pe_iso e (pe_now e),
      be_kind = kind, be_detail = detail\<rparr>"

lemma breach_sel [simp]:
  "be_kind (breach e b t i k l lv av d) = k" "be_limit (breach e b t i k l lv av d) = l"
  "be_overage (breach e b t i k l lv av d) = fsub av lv"
  by (simp_all add: breach_def)

fun instrument_asset_class :: "instrument_type \<Rightarrow> asset_class option" where
  "instrument_asset_class EQUITY = Some US_EQUITY"
| "instrument_asset_class ETF = Some US_ETF"
| "instrument_asset_class CRYPTO = Some CRYPTO_CLASS"
| "instrument_asset_class OPTION = None"

fun asset_class_market :: "asset_class \<Rightarrow> string option" where
  "asset_class_market US_EQUITY = Some ''us_equity''"
| "asset_class_market US_ETF = Some ''us_equity''"
| "asset_class_market HK_EQUITY = Some ''hk_equity''"
| "asset_class_market CRYPTO_CLASS = Some ''crypto''"
| "asset_class_market CN_EQUITY = None"

section \<open>Readers\<close>

definition as_float :: "pyval \<Rightarrow> pyfloat option" where
  "as_float v = (case py_float v of Inl x \<Rightarrow> None | Inr x \<Rightarrow> if is_nan x then None else Some x)"

definition resolve_order_notional :: "live_intent \<Rightarrow> pyfloat option" where
  "resolve_order_notional i =
     (case li_notional_usd i of
        None \<Rightarrow> None
      | Some x \<Rightarrow> if fle x (Fin 0) \<or> is_nan x then None else Some x)"

text \<open>The first of some keys that a row has.\<close>

fun first_key :: "string list \<Rightarrow> pydict \<Rightarrow> pyval option" where
  "first_key [] row = None"
| "first_key (k # ks) row = (case map_of row k of Some v \<Rightarrow> Some v | None \<Rightarrow> first_key ks row)"

definition position_market_value :: "pydict \<Rightarrow> pyfloat option" where
  "position_market_value row =
     (case first_key [''market_value'', ''marketValue'', ''value_usd'', ''value''] row of
        Some v \<Rightarrow> as_float v
      | None \<Rightarrow>
          (case (Option.bind (first_key [''quantity'', ''qty'', ''shares''] row) as_float,
                 Option.bind (first_key [''price'', ''last_price'', ''mark_price'', ''market_price''] row) as_float) of
             (Some qty, Some price) \<Rightarrow> Some (fmul (fabs qty) price)
           | _ \<Rightarrow> None))"

fun as_rows :: "pyval list \<Rightarrow> pydict list option" where
  "as_rows [] = Some []"
| "as_rows (v # vs) =
     (case v of VDict d \<Rightarrow> map_option ((#) d) (as_rows vs) | _ \<Rightarrow> None)"

definition coerce_position_rows :: "pyval \<Rightarrow> pydict list option" where
  "coerce_position_rows positions =
     (case positions of
        VList l \<Rightarrow> as_rows l
      | VDict d \<Rightarrow>
          (let rows = dget d ''positions'';
               rows = (if rows = VNone then dget d ''data'' else rows);
               rows = (if rows = VNone then VList (map snd d) else rows)
           in case rows of VList l \<Rightarrow> as_rows l | _ \<Rightarrow> None)
      | _ \<Rightarrow> None)"

fun sum_values :: "pydict list \<Rightarrow> pyfloat \<Rightarrow> pyfloat option" where
  "sum_values [] acc = Some acc"
| "sum_values (row # rows) acc =
     (case position_market_value row of None \<Rightarrow> None | Some v \<Rightarrow> sum_values rows (fadd acc v))"

definition positions_market_value :: "pyval \<Rightarrow> pyfloat option" where
  "positions_market_value positions =
     (case coerce_position_rows positions of None \<Rightarrow> None | Some rows \<Rightarrow> sum_values rows (Fin 0))"

definition account_balance_market_value :: "pyval \<Rightarrow> pyfloat option" where
  "account_balance_market_value balance =
     (case balance of
        VDict d \<Rightarrow>
          (case first_key [''equity'', ''buying_power'', ''cash'', ''account_value'', ''total''] d of
             Some v \<Rightarrow> as_float v
           | None \<Rightarrow> as_float balance)
      | _ \<Rightarrow> as_float balance)"

section \<open>Market data\<close>

text \<open>
  A frame of daily bars, by column; a missing column is \<open>None\<close>. \<open>md_fetch\<close> is what the first available
  loader of a market returns for a symbol over a number of calendar days, \<open>None\<close> when there is no loader,
  when it fails or when it has no frame. \<open>md_info\<close> is the fundamentals lookup.
\<close>

record ohlcv =
  fr_close :: "pyfloat list option"
  fr_volume :: "pyfloat list option"

record market_data =
  md_fetch :: "string \<Rightarrow> string \<Rightarrow> nat \<Rightarrow> ohlcv option"
  md_info :: "string \<Rightarrow> pyval option"

definition fetch_frame :: "market_data \<Rightarrow> string \<Rightarrow> asset_class \<Rightarrow> nat \<Rightarrow> ohlcv option" where
  "fetch_frame md symbol ac days =
     (case asset_class_market ac of None \<Rightarrow> None | Some market \<Rightarrow> md_fetch md market symbol days)"

definition dropna :: "pyfloat list \<Rightarrow> pyfloat list" where
  "dropna xs = filter (\<lambda>x. \<not> is_nan x) xs"

definition last_price_usd :: "market_data \<Rightarrow> string \<Rightarrow> asset_class \<Rightarrow> pyfloat option" where
  "last_price_usd md symbol ac =
     (case fetch_frame md symbol ac 10 of
        None \<Rightarrow> None
      | Some frame \<Rightarrow>
          (case fr_close frame of
             None \<Rightarrow> None
           | Some col \<Rightarrow>
               let closes = dropna col
               in if closes = [] then None
                  else if flt (Fin 0) (last closes) then Some (last closes) else None))"

definition avg_daily_dollar_volume :: "market_data \<Rightarrow> string \<Rightarrow> asset_class \<Rightarrow> pyfloat option" where
  "avg_daily_dollar_volume md symbol ac =
     (case fetch_frame md symbol ac 45 of
        None \<Rightarrow> None
      | Some frame \<Rightarrow>
          (case (fr_close frame, fr_volume frame) of
             (Some close, Some volume) \<Rightarrow>
               let dollar = dropna (map2 fmul close volume)
               in if dollar = [] then None
                  else let value = fdiv (foldl fadd (Fin 0) dollar) (Fin (of_nat (length dollar)))
                       in if fle (Fin 0) value then Some value else None
           | _ \<Rightarrow> None))"

definition market_cap_usd :: "market_data \<Rightarrow> string \<Rightarrow> asset_class \<Rightarrow> pyfloat option" where
  "market_cap_usd md symbol ac =
     (if ac \<noteq> US_EQUITY \<and> ac \<noteq> US_ETF then None
      else case md_info md symbol of
        Some (VDict info) \<Rightarrow>
          (case as_float (dget info ''marketCap'') of
             None \<Rightarrow> None
           | Some cap \<Rightarrow> if flt (Fin 0) cap then Some cap else None)
      | _ \<Rightarrow> None)"

section \<open>The check\<close>

text \<open>A floor is breached when its figure is missing or below it.\<close>

definition floor_breach :: "pyfloat option \<Rightarrow> pyfloat option \<Rightarrow> bool" where
  "floor_breach lowest figure =
     (case lowest of None \<Rightarrow> False
      | Some f \<Rightarrow> (case figure of None \<Rightarrow> True | Some x \<Rightarrow> flt x f))"

definition figure_value :: "pyfloat option \<Rightarrow> pyfloat" where
  "figure_value x = (case x of None \<Rightarrow> Fin 0 | Some v \<Rightarrow> v)"

definition check_universe_floors ::
  "py_env \<Rightarrow> market_data \<Rightarrow> universe_constraint \<Rightarrow> live_intent \<Rightarrow> string \<Rightarrow> asset_class \<Rightarrow> string \<Rightarrow> string \<Rightarrow>
   breach_event option" where
  "check_universe_floors e md u intent symbol ac broker tool =
     (let cap = market_cap_usd md symbol ac; adv = avg_daily_dollar_volume md symbol ac
      in if floor_breach (un_min_market_cap_usd u) cap
         then Some (breach e broker tool intent Breach_Universe ''min_market_cap_usd''
                (the (un_min_market_cap_usd u)) (figure_value cap)
                (if cap = None then ''market cap unavailable (fail-closed)'' else ''market cap below floor''))
         else if floor_breach (un_min_avg_daily_volume_usd u) adv
         then Some (breach e broker tool intent Breach_Universe ''min_avg_daily_volume_usd''
                (the (un_min_avg_daily_volume_usd u)) (figure_value adv)
                (if adv = None then ''liquidity unavailable (fail-closed)''
                 else ''avg daily $ volume below floor''))
         else None)"

definition check_mandate ::
  "py_env \<Rightarrow> market_data \<Rightarrow> mandate \<Rightarrow> live_intent \<Rightarrow> pyval \<Rightarrow> string \<Rightarrow> string \<Rightarrow> int \<Rightarrow> breach_event option" where
  "check_mandate e md m intent positions broker tool daily_count =
     (let caps = ma_hard_caps m; u = ma_universe m;
          symbol = upper_strip (li_symbol intent);
          structural = (\<lambda>kind limit detail. Some (breach e broker tool intent kind limit (Fin 0) (Fin 0) detail));
          quantitative = (\<lambda>limit value attempted detail.
            Some (breach e broker tool intent Breach_Quantitative limit value attempted detail))
      in if symbol = [] \<or> li_side intent \<noteq> ''buy'' \<and> li_side intent \<noteq> ''sell''
         then structural Breach_Instrument ''order_intent'' ''order intent missing symbol or side''
         else if symbol \<in> upper_strip ` set (un_exclude_symbols u)
         then structural Breach_Universe ''exclude_symbols'' ''on the mandate exclude list''
         else if li_instrument_type intent \<notin> set (hc_allowed_instruments caps)
         then structural Breach_Instrument ''allowed_instruments'' ''not in allowed_instruments''
         else
         let asset_class = (case li_asset_class intent of Some a \<Rightarrow> Some a
                            | None \<Rightarrow> instrument_asset_class (li_instrument_type intent))
         in if (case asset_class of None \<Rightarrow> False | Some a \<Rightarrow> a \<notin> set (un_asset_classes u))
            then structural Breach_Universe ''asset_classes'' ''not in permitted asset_classes''
            else case resolve_order_notional intent of
              None \<Rightarrow> structural Breach_Instrument ''order_intent'' ''order notional could not be resolved''
            | Some notional \<Rightarrow>
              if flt (hc_max_order_notional_usd caps) notional
              then quantitative ''max_order_notional_usd'' (hc_max_order_notional_usd caps) notional []
              else case positions_market_value positions of
                None \<Rightarrow> quantitative ''max_total_exposure_usd'' (hc_max_total_exposure_usd caps) (Fin 0)
                         ''current positions could not be read (fail-closed)''
              | Some current \<Rightarrow>
                let post = fadd current (if li_side intent = ''buy'' then notional else fneg notional)
                in if flt (hc_max_total_exposure_usd caps) post
                   then quantitative ''max_total_exposure_usd'' (hc_max_total_exposure_usd caps) post []
                   else if fle (hc_account_funding_usd caps) (Fin 0)
                   then quantitative ''max_leverage'' (hc_max_leverage caps) PInf
                          ''account_funding_usd is non-positive (fail-closed)''
                   else
                   let leverage = fdiv (fabs post) (hc_account_funding_usd caps)
                   in if flt (hc_max_leverage caps) leverage
                      then quantitative ''max_leverage'' (hc_max_leverage caps) leverage []
                      else if hc_max_trades_per_day caps < daily_count + 1
                      then quantitative ''max_trades_per_day'' (Fin (of_int (hc_max_trades_per_day caps)))
                             (Fin (of_int (daily_count + 1))) []
                      else if li_side intent = ''buy'' \<and> flt (hc_account_funding_usd caps) post
                      then quantitative ''account_funding_usd'' (hc_account_funding_usd caps) post
                             ''post-trade exposure exceeds mirrored funding ceiling''
                      else case asset_class of
                        None \<Rightarrow> None
                      | Some a \<Rightarrow> check_universe_floors e md u intent symbol a broker tool)"

section \<open>What the check guarantees\<close>

definition order_asset_class :: "live_intent \<Rightarrow> asset_class option" where
  "order_asset_class i =
     (case li_asset_class i of Some a \<Rightarrow> Some a | None \<Rightarrow> instrument_asset_class (li_instrument_type i))"

definition post_exposure :: "live_intent \<Rightarrow> pyfloat \<Rightarrow> pyfloat \<Rightarrow> pyfloat" where
  "post_exposure i notional current = fadd current (if li_side i = ''buy'' then notional else fneg notional)"

text \<open>The rules of the mandate, each as the condition that the order satisfies it.\<close>

definition within_mandate :: "market_data \<Rightarrow> mandate \<Rightarrow> live_intent \<Rightarrow> pyval \<Rightarrow> int \<Rightarrow> bool" where
  "within_mandate md m i positions daily_count \<longleftrightarrow>
     upper_strip (li_symbol i) \<noteq> [] \<and> (li_side i = ''buy'' \<or> li_side i = ''sell'') \<and>
     upper_strip (li_symbol i) \<notin> upper_strip ` set (un_exclude_symbols (ma_universe m)) \<and>
     li_instrument_type i \<in> set (hc_allowed_instruments (ma_hard_caps m)) \<and>
     (\<forall>a. order_asset_class i = Some a \<longrightarrow> a \<in> set (un_asset_classes (ma_universe m))) \<and>
     (\<exists>notional current. resolve_order_notional i = Some notional \<and>
        positions_market_value positions = Some current \<and>
        \<not> flt (hc_max_order_notional_usd (ma_hard_caps m)) notional \<and>
        \<not> flt (hc_max_total_exposure_usd (ma_hard_caps m)) (post_exposure i notional current) \<and>
        \<not> fle (hc_account_funding_usd (ma_hard_caps m)) (Fin 0) \<and>
        \<not> flt (hc_max_leverage (ma_hard_caps m))
            (fdiv (fabs (post_exposure i notional current)) (hc_account_funding_usd (ma_hard_caps m))) \<and>
        \<not> (li_side i = ''buy'' \<and>
            flt (hc_account_funding_usd (ma_hard_caps m)) (post_exposure i notional current))) \<and>
     daily_count < hc_max_trades_per_day (ma_hard_caps m) \<and>
     (\<forall>a. order_asset_class i = Some a \<longrightarrow>
        \<not> floor_breach (un_min_market_cap_usd (ma_universe m))
            (market_cap_usd md (upper_strip (li_symbol i)) a) \<and>
        \<not> floor_breach (un_min_avg_daily_volume_usd (ma_universe m))
            (avg_daily_dollar_volume md (upper_strip (li_symbol i)) a))"

lemma check_mandate_iff:
  "check_mandate e md m i positions broker tool n = None \<longleftrightarrow> within_mandate md m i positions n"
  by (cases "order_asset_class i")
    (auto simp: check_mandate_def within_mandate_def Let_def order_asset_class_def [symmetric]
      post_exposure_def check_universe_floors_def split: option.split)

end
