(* ===== verification/Live_Gate.thy ===== *)
theory Live_Gate
  imports Live_Enforcement
begin

text \<open>
  The two order gates: \<open>sdk_order_gate.py\<close>, around a connector's \<open>place_order\<close>, and the guard of
  \<open>order_guard.py\<close>, around a broker's remote tool, with the advisory review of \<open>advisory/__init__.py\<close>.
  Connectors, remote tools, advisory providers and the extractor of a broker's arguments are
  parameters; an answer is \<open>Inl\<close> of an exception's text or \<open>Inr\<close> of the value returned.

  The state is the store and the orders that were sent to a broker: the tool, the arguments and whether
  the answer was one that counts as accepted.
  An exception that leaves a gate keeps the effects it has had.
\<close>

type_synonym answer = "string + pyval"

record sent_order =
  so_broker :: string
  so_tool :: string
  so_arguments :: pydict
  so_accepted :: bool

record gate_state =
  gs_store :: live_store
  gs_sent :: "sent_order list"

definition status_is :: "pydict \<Rightarrow> string \<Rightarrow> bool" where
  "status_is d status = (case dget d ''status'' of VStr s \<Rightarrow> lower s = status | _ \<Rightarrow> False)"

section \<open>What both gates share\<close>

definition is_expired :: "py_env \<Rightarrow> mandate \<Rightarrow> bool" where
  "is_expired e m =
     (case pe_from_iso e (cm_expires_at (ma_consent m)) of None \<Rightarrow> True | Some expires \<Rightarrow> expires \<le> pe_now e)"

definition describe_intent :: "py_env \<Rightarrow> live_intent option \<Rightarrow> string option" where
  "describe_intent e i =
     map_option (\<lambda>i. li_side i @ '' '' @
       (case li_notional_usd i of
          Some x \<Rightarrow> ''$'' @ pe_format_g e x
        | None \<Rightarrow> (case li_quantity i of Some q \<Rightarrow> pe_format_g e q @ '' units'' | None \<Rightarrow> ''?'')) @
       '' '' @ li_symbol i @ '' ('' @ instrument_value (li_instrument_type i) @ '')'') i"

definition audit_action ::
  "py_env \<Rightarrow> string \<Rightarrow> string \<Rightarrow> string \<Rightarrow> action_kind \<Rightarrow> action_outcome \<Rightarrow> mandate option \<Rightarrow> live_intent option \<Rightarrow>
   pydict option \<Rightarrow> pydict option \<Rightarrow> pydict \<Rightarrow> string option \<Rightarrow> live_store \<Rightarrow> pydict option \<times> live_store" where
  "audit_action e broker tool session_id kind outcome m intent request response decision error s =
     write_live_action e
       \<lparr>le_kind = kind, le_session_id = session_id, le_outcome = outcome, le_server = broker,
        le_remote_tool = Some tool, le_intent_normalized = describe_intent e intent,
        le_mandate_snapshot_ref = map_option (\<lambda>m. cm_consent_token_sha256 (ma_consent m)) m,
        le_consent_record_ref = map_option (\<lambda>m. cm_account_ref (ma_consent m)) m,
        le_broker_request = request, le_broker_response = response, le_gate_decision = Some decision,
        le_error = error\<rparr> s"

definition error_message :: "pydict \<Rightarrow> string \<Rightarrow> string" where
  "error_message d other =
     (case filter (\<lambda>v. case v of VStr s \<Rightarrow> s \<noteq> [] | _ \<Rightarrow> False)
        [dget d ''error'', dget d ''message'', dget d ''detail''] of
        VStr s # _ \<Rightarrow> s
      | _ \<Rightarrow> other)"

definition breach_kind_text :: "breach_kind \<Rightarrow> string" where
  "breach_kind_text k =
     (case k of Breach_Universe \<Rightarrow> ''universe'' | Breach_Instrument \<Rightarrow> ''instrument''
      | Breach_Quantitative \<Rightarrow> ''quantitative'')"

definition opt_num :: "pyfloat option \<Rightarrow> pyval" where
  "opt_num x = (case x of None \<Rightarrow> VNone | Some v \<Rightarrow> VFloat v)"

definition action_dict :: "live_intent \<Rightarrow> pydict" where
  "action_dict i =
     [(''symbol'', VStr (li_symbol i)), (''side'', VStr (li_side i)),
      (''notional_usd'', opt_num (li_notional_usd i)), (''quantity'', opt_num (li_quantity i)),
      (''instrument_type'', VStr (instrument_value (li_instrument_type i)))]"

definition breach_reason :: "breach_event \<Rightarrow> string" where
  "breach_reason b = (if be_detail b = [] then ''order breaches '' @ be_limit b else be_detail b)"

definition breach_decision :: "string \<Rightarrow> breach_event \<Rightarrow> pydict" where
  "breach_decision decision b =
     [(''allowed'', VBool False), (''decision'', VStr decision), (''limit'', VStr (be_limit b)),
      (''kind'', VStr (breach_kind_text (be_kind b))), (''limit_value'', VFloat (be_limit_value b)),
      (''attempted_value'', VFloat (be_attempted_value b))]"

definition deny_decision :: "string list \<Rightarrow> pydict" where
  "deny_decision checked =
     [(''allowed'', VBool False), (''decision'', VStr ''deny''), (''checked_limits'', VList (map VStr checked))]"

definition with_record :: "pydict option \<Rightarrow> pydict \<Rightarrow> pydict" where
  "with_record r d = (case r of None \<Rightarrow> d | Some x \<Rightarrow> dict_set ''live_action'' (VDict x) d)"

text \<open>The notional a quantity order is held to: the larger of the explicit and the priced one.\<close>

definition enforced_notional :: "live_intent \<Rightarrow> pyfloat \<Rightarrow> pyfloat \<Rightarrow> pyfloat option" where
  "enforced_notional i q price =
     (let implied = fmul q price
      in if is_nan implied \<or> fle implied (Fin 0) then None
         else Some (fmax (case li_notional_usd i of None \<Rightarrow> Fin 0 | Some x \<Rightarrow> x) implied))"

fun first_price :: "string list \<Rightarrow> pydict \<Rightarrow> pyfloat option" where
  "first_price [] quote = None"
| "first_price (k # ks) quote =
     (case map_of quote k of
        None \<Rightarrow> first_price ks quote
      | Some v \<Rightarrow>
          (case py_float v of
             Inl x \<Rightarrow> first_price ks quote
           | Inr p \<Rightarrow> if \<not> is_nan p \<and> flt (Fin 0) p then Some p else first_price ks quote))"

section \<open>The gate of the SDK connectors\<close>

record connector =
  co_get_quote :: "(string \<Rightarrow> answer) option"
  co_get_positions :: "answer option"
  co_get_account_snapshot :: "answer option"
  co_place_order :: "pydict \<Rightarrow> answer"

definition safe_read :: "answer option \<Rightarrow> pyval" where
  "safe_read f =
     (case f of
        Some (Inr (VDict d)) \<Rightarrow> if status_is d ''error'' then VNone else VDict d
      | Some (Inr v) \<Rightarrow> v
      | _ \<Rightarrow> VNone)"

definition connector_quote_price :: "connector \<Rightarrow> string \<Rightarrow> pyfloat option" where
  "connector_quote_price co symbol =
     (case co_get_quote co of
        None \<Rightarrow> None
      | Some getter \<Rightarrow>
          (case getter symbol of
             Inr (VDict d) \<Rightarrow>
               if status_is d ''error'' then None
               else (case dget d ''quote'' of
                       VDict quote \<Rightarrow> first_price [''last'', ''ask'', ''bid'', ''close''] quote
                     | _ \<Rightarrow> None)
           | _ \<Rightarrow> None))"

definition sdk_quote_price :: "market_data \<Rightarrow> connector \<Rightarrow> live_intent \<Rightarrow> pyfloat option" where
  "sdk_quote_price md co i =
     (case connector_quote_price co (li_symbol i) of
        Some p \<Rightarrow> Some p
      | None \<Rightarrow>
          (case order_asset_class i of None \<Rightarrow> None | Some a \<Rightarrow> last_price_usd md (li_symbol i) a))"

definition sdk_normalize_notional :: "market_data \<Rightarrow> connector \<Rightarrow> live_intent \<Rightarrow> live_intent option" where
  "sdk_normalize_notional md co i =
     (case li_quantity i of
        None \<Rightarrow> Some i
      | Some q \<Rightarrow>
          (case sdk_quote_price md co i of
             None \<Rightarrow> None
           | Some price \<Rightarrow>
               map_option (\<lambda>x. i\<lparr>li_notional_usd := Some x\<rparr>) (enforced_notional i q price)))"

definition sdk_refusal ::
  "string \<Rightarrow> string \<Rightarrow> string \<Rightarrow> bool \<Rightarrow> breach_event option \<Rightarrow> pydict option \<Rightarrow> pydict" where
  "sdk_refusal broker decision reason reauth b r =
     with_record r
       [(''status'', VStr ''blocked''), (''decision'', VStr decision), (''reason'', VStr reason),
        (''broker'', VStr broker), (''requires_reauthorization'', VBool reauth)] @
     (case b of None \<Rightarrow> []
      | Some b \<Rightarrow>
          [(''breach'', VDict
            [(''broker'', VStr (be_broker b)), (''limit'', VStr (be_limit b)),
             (''limit_value'', VFloat (be_limit_value b)),
             (''attempted_value'', VFloat (be_attempted_value b)), (''overage'', VFloat (be_overage b)),
             (''kind'', VStr (breach_kind_text (be_kind b))), (''detail'', VStr (be_detail b)),
             (''proposed_action'', VDict (action_dict (be_proposed_action b)))])])"

definition sdk_deny ::
  "py_env \<Rightarrow> string \<Rightarrow> string \<Rightarrow> string \<Rightarrow> string list \<Rightarrow> mandate option \<Rightarrow> live_intent option \<Rightarrow> bool \<Rightarrow>
   gate_state \<Rightarrow> pydict live \<times> gate_state" where
  "sdk_deny e broker session_id reason checked m intent reauth w =
     (let (r, s) = audit_action e broker ''place_order'' session_id Order_Rejected Blocked m intent None None
            (deny_decision checked) (Some reason) (gs_store w)
      in (Inr (sdk_refusal broker ''deny'' reason reauth None r), w\<lparr>gs_store := s\<rparr>))"

definition sdk_deny_breach ::
  "py_env \<Rightarrow> string \<Rightarrow> string \<Rightarrow> breach_event \<Rightarrow> mandate \<Rightarrow> live_intent \<Rightarrow> bool \<Rightarrow> gate_state \<Rightarrow>
   pydict live \<times> gate_state" where
  "sdk_deny_breach e broker session_id b m intent reauth w =
     (let decision = (if reauth then ''pause_for_reauth'' else ''deny'');
          (r, s) = audit_action e broker ''place_order'' session_id Breach_Kind Blocked (Some m) (Some intent)
            None None (breach_decision decision b) (Some (breach_reason b)) (gs_store w)
      in (Inr (sdk_refusal broker decision (breach_reason b) reauth (Some b) r), w\<lparr>gs_store := s\<rparr>))"

definition sdk_checked :: "string list" where
  "sdk_checked =
     [''mandate'', ''expiry'', ''halt_flag'', ''exclude_symbols'', ''allowed_instruments'',
      ''asset_classes'', ''max_order_notional_usd'', ''max_total_exposure_usd'', ''max_leverage'',
      ''max_trades_per_day'', ''account_funding_usd'', ''universe_floors'']"

definition allow_decision :: "string list \<Rightarrow> pydict" where
  "allow_decision checked =
     [(''allowed'', VBool True), (''decision'', VStr ''allow''), (''checked_limits'', VList (map VStr checked))]"

definition sdk_allow ::
  "py_env \<Rightarrow> connector \<Rightarrow> string \<Rightarrow> string \<Rightarrow> live_intent \<Rightarrow> pydict \<Rightarrow> mandate \<Rightarrow> gate_state \<Rightarrow>
   pydict live \<times> gate_state" where
  "sdk_allow e co broker session_id intent kwargs m w =
     (let result = (case co_place_order co kwargs of
                      Inl text \<Rightarrow> VDict [(''status'', VStr ''error''), (''error'', VStr text)]
                    | Inr v \<Rightarrow> v);
          response = (case result of VDict d \<Rightarrow> d | v \<Rightarrow> [(''raw'', v)]);
          is_error = (case result of VDict d \<Rightarrow> \<not> status_is d ''ok'' | _ \<Rightarrow> True);
          w = w\<lparr>gs_sent := gs_sent w @ [\<lparr>so_broker = broker, so_tool = ''place_order'', so_arguments = kwargs,
                so_accepted = \<not> is_error\<rparr>]\<rparr>;
          answer = (\<lambda>r. case result of VDict d \<Rightarrow> with_record r d
                    | _ \<Rightarrow> [(''status'', VStr ''error''), (''error'', VStr ''non-dict broker result'')])
      in if is_error
         then let (r, s) = audit_action e broker ''place_order'' session_id Order_Rejected Error_Outcome (Some m)
                    (Some intent) (Some kwargs) (Some response) (allow_decision sdk_checked)
                    (Some (error_message (case result of VDict d \<Rightarrow> d | _ \<Rightarrow> []) ''broker order returned an error''))
                    (gs_store w)
              in (Inr (answer r), w\<lparr>gs_store := s\<rparr>)
         else case increment_daily_count e broker (gs_store w) of
           Inl x \<Rightarrow> (Inl x, w)
         | Inr (n, s) \<Rightarrow>
             let (r, s) = audit_action e broker ''place_order'' session_id Order_Placed Accepted (Some m)
                   (Some intent) (Some kwargs) (Some response) (allow_decision sdk_checked) None s
             in (Inr (answer r), w\<lparr>gs_store := s\<rparr>))"

definition execute_live_order ::
  "py_env \<Rightarrow> market_data \<Rightarrow> connector \<Rightarrow> string \<Rightarrow> live_intent \<Rightarrow> pydict \<Rightarrow> string \<Rightarrow> gate_state \<Rightarrow>
   pydict live \<times> gate_state" where
  "execute_live_order e md co broker intent kwargs session_id w =
     (let broker = lower (strip broker); s = gs_store w
      in case load_mandate e broker s of
        Inl x \<Rightarrow> (Inl x, w)
      | Inr None \<Rightarrow> sdk_deny e broker session_id ''no valid mandate on file'' [''mandate''] None None False w
      | Inr (Some m) \<Rightarrow>
          if ma_schema_version m \<noteq> mandate_schema_version
          then sdk_deny e broker session_id ''no valid mandate on file'' [''mandate''] (Some m) None False w
          else if is_expired e m
          then sdk_deny e broker session_id ''mandate expired - re-authorize'' [''mandate'', ''expiry'']
                 (Some m) None True w
          else if halt_flag_set (Some broker) s
          then sdk_deny e broker session_id ''live trading halted'' [''mandate'', ''expiry'', ''halt_flag'']
                 (Some m) None False w
          else case sdk_normalize_notional md co intent of
            None \<Rightarrow> sdk_deny e broker session_id ''quantity order notional could not be priced (fail-closed)''
                     [''mandate'', ''expiry'', ''halt_flag'', ''quote''] (Some m) (Some intent) False w
          | Some intent \<Rightarrow>
              let positions = safe_read (co_get_positions co)
              in case read_daily_count e broker s of
                Inl x \<Rightarrow> (Inl x, w)
              | Inr daily_count \<Rightarrow>
                  (case check_mandate e md m intent positions broker ''place_order'' daily_count of
                     None \<Rightarrow> sdk_allow e co broker session_id intent kwargs m w
                   | Some b \<Rightarrow>
                       sdk_deny_breach e broker session_id b m intent (be_kind b = Breach_Quantitative) w))"

end
