(* ===== verification/Live_Guard.thy ===== *)
theory Live_Guard
  imports Live_Gate
begin

text \<open>
  The guard of \<open>agent/src/live/order_guard.py\<close> around a broker's remote order tool, with the advisory
  review of \<open>advisory/__init__.py\<close> and the wrapping of discovered tools by \<open>classification.py\<close> and
  \<open>registry.py\<close>. The remote server, the extractor and the connector's tool names are parameters.
\<close>

section \<open>The advisory review\<close>

datatype verdict = Approve | Approve_With_Concerns | Verdict_Reject | Review_Unavailable

fun verdict_value :: "verdict \<Rightarrow> string" where
  "verdict_value Approve = ''approve''"
| "verdict_value Approve_With_Concerns = ''approve_with_concerns''"
| "verdict_value Verdict_Reject = ''reject''"
| "verdict_value Review_Unavailable = ''review_unavailable''"

fun verdict_severity :: "verdict \<Rightarrow> nat" where
  "verdict_severity Approve = 0"
| "verdict_severity Approve_With_Concerns = 1"
| "verdict_severity Review_Unavailable = 2"
| "verdict_severity Verdict_Reject = 3"

record advisory_context =
  ac_symbol :: string
  ac_side :: string
  ac_notional_usd :: pyfloat
  ac_account_equity :: pyfloat
  ac_utilization_ratio :: pyfloat
  ac_open_position_count :: nat
  ac_total_exposure_usd :: pyfloat
  ac_funding_usd :: pyfloat

record advisory_result =
  ar_verdict :: verdict
  ar_confidence :: "pyfloat option"
  ar_summary :: string
  ar_concerns :: "string list"
  ar_provider :: string

text \<open>A provider's review: \<open>Inl\<close> of the name of the exception it raised, or its result.\<close>

record advisory_provider =
  ap_id :: string
  ap_review :: "advisory_context \<Rightarrow> string + advisory_result"

definition run_provider :: "advisory_context \<Rightarrow> advisory_provider \<Rightarrow> advisory_result" where
  "run_provider c p =
     (case ap_review p c of
        Inr r \<Rightarrow> r
      | Inl exc \<Rightarrow> \<lparr>ar_verdict = Review_Unavailable, ar_confidence = None,
                   ar_summary = ''provider error: '' @ exc, ar_concerns = [], ar_provider = ap_id p\<rparr>)"

text \<open>\<open>max(results, key=severity)\<close>: the first of the most severe.\<close>

fun worst_verdict :: "verdict \<Rightarrow> advisory_result list \<Rightarrow> verdict" where
  "worst_verdict v [] = v"
| "worst_verdict v (r # rs) =
     worst_verdict (if verdict_severity v < verdict_severity (ar_verdict r) then ar_verdict r else v) rs"

definition review :: "advisory_provider list \<Rightarrow> advisory_context \<Rightarrow> verdict \<times> advisory_result list" where
  "review ps c =
     (case map (run_provider c) ps of
        [] \<Rightarrow> (Approve, [])
      | r # rs \<Rightarrow> (worst_verdict (ar_verdict r) rs, r # rs))"

fun dedup :: "string list \<Rightarrow> string list \<Rightarrow> string list" where
  "dedup seen [] = []"
| "dedup seen (x # xs) = (if x \<in> set seen then dedup seen xs else x # dedup (x # seen) xs)"

definition all_concerns :: "advisory_result list \<Rightarrow> string list" where
  "all_concerns rs = dedup [] (concat (map ar_concerns rs))"

definition advisory_result_dict :: "advisory_result \<Rightarrow> pyval" where
  "advisory_result_dict r =
     VDict [(''verdict'', VStr (verdict_value (ar_verdict r))), (''summary'', VStr (ar_summary r)),
            (''concerns'', VList (map VStr (ar_concerns r))), (''provider'', VStr (ar_provider r)),
            (''confidence'', opt_num (ar_confidence r))]"

definition or_zero :: "pyfloat option \<Rightarrow> pyfloat" where
  "or_zero x = (case x of None \<Rightarrow> Fin 0 | Some v \<Rightarrow> v)"

definition advisory_context_of :: "live_intent \<Rightarrow> pyval \<Rightarrow> pyval \<Rightarrow> mandate \<Rightarrow> advisory_context" where
  "advisory_context_of i positions balance m =
     (let equity = or_zero (account_balance_market_value balance);
          funding = hc_account_funding_usd (ma_hard_caps m)
      in \<lparr>ac_symbol = li_symbol i, ac_side = li_side i, ac_notional_usd = or_zero (li_notional_usd i),
          ac_account_equity = equity,
          ac_utilization_ratio =
            (if flt (Fin 0) equity \<and> flt (Fin 0) funding
             then fmax (Fin 0) (fsub (Fin 1) (fdiv equity funding)) else Fin 0),
          ac_open_position_count =
            (case coerce_position_rows positions of None \<Rightarrow> 0 | Some rows \<Rightarrow> length rows),
          ac_total_exposure_usd = or_zero (positions_market_value positions), ac_funding_usd = funding\<rparr>)"

definition advisory_review ::
  "string \<Rightarrow> advisory_provider list \<Rightarrow> live_intent \<Rightarrow> pyval \<Rightarrow> pyval \<Rightarrow> mandate \<Rightarrow> pydict option" where
  "advisory_review env_val ps i positions balance m =
     (if lower (strip env_val) \<notin> {''1'', ''true'', ''yes''} \<or> ps = [] then None
      else let (v, results) = review ps (advisory_context_of i positions balance m)
           in Some [(''verdict'', VStr (verdict_value v)), (''concerns'', VList (map VStr (all_concerns results))),
                    (''results'', VList (map advisory_result_dict results))])"

section \<open>The guard\<close>

text \<open>
  What the guard talks to: the remote server, the broker's extractor and tool names, the schema of the
  order tool, and the advisory configuration. \<open>gd_call\<close> of a tool is \<open>Inl\<close> when it raises.
\<close>

record guard =
  gd_broker :: string
  gd_remote_name :: string
  gd_session_id :: string
  gd_call :: "string \<Rightarrow> pydict \<Rightarrow> answer"
  gd_extract :: "string \<Rightarrow> pydict \<Rightarrow> live_intent option"
  gd_runner_tool :: "string \<Rightarrow> string \<Rightarrow> string option"
  gd_allowed_keys :: "string list"
  gd_allow_additional :: bool
  gd_advisory_env :: string
  gd_providers :: "advisory_provider list"

definition get_extractor :: "guard \<Rightarrow> string \<Rightarrow> (string \<Rightarrow> pydict \<Rightarrow> live_intent option) option" where
  "get_extractor g broker = (if lower (strip broker) = ''robinhood'' then Some (gd_extract g) else None)"

definition filter_arguments :: "guard \<Rightarrow> pydict \<Rightarrow> pydict" where
  "filter_arguments g arguments =
     (if gd_allowed_keys g \<noteq> []
      then filter (\<lambda>(k, v). k \<in> set (gd_allowed_keys g) \<or> gd_allow_additional g \<and> k \<noteq> ''run_dir'') arguments
      else if gd_allow_additional g then filter (\<lambda>(k, v). k \<noteq> ''run_dir'') arguments
      else [])"

definition read_tools :: "guard \<Rightarrow> string \<Rightarrow> string list \<Rightarrow> string list" where
  "read_tools g operation fallback =
     (case gd_runner_tool g (gd_broker g) operation of
        None \<Rightarrow> fallback | Some t \<Rightarrow> if t = [] then fallback else [t])"

fun read_first :: "guard \<Rightarrow> string list \<Rightarrow> pyval" where
  "read_first g [] = VNone"
| "read_first g (remote # rest) =
     (case gd_call g remote [] of
        Inl x \<Rightarrow> read_first g rest
      | Inr v \<Rightarrow>
          (case v of
             VDict d \<Rightarrow> if dget d ''status'' = VStr ''error'' then read_first g rest else v
           | _ \<Rightarrow> v))"

definition quote_keys :: "string list" where
  "quote_keys = [''price'', ''last_price'', ''last'', ''mark_price'', ''close'', ''ask'', ''bid'']"

definition dict_rows :: "pyval list \<Rightarrow> pydict list" where
  "dict_rows rows = List.map_filter (\<lambda>v. case v of VDict d \<Rightarrow> Some d | _ \<Rightarrow> None) rows"

definition row_names :: "string \<Rightarrow> pydict \<Rightarrow> bool" where
  "row_names symbol row =
     list_ex (\<lambda>k. case dget row k of VStr s \<Rightarrow> upper_strip s = symbol | _ \<Rightarrow> False)
       [''symbol'', ''ticker'', ''instrument'']"

definition match_quote_row :: "pyval list \<Rightarrow> string \<Rightarrow> pydict option" where
  "match_quote_row rows symbol =
     (case filter (row_names symbol) (dict_rows rows) of
        row # _ \<Rightarrow> Some row
      | [] \<Rightarrow> (case dict_rows rows of [row] \<Rightarrow> Some row | _ \<Rightarrow> None))"

fun price_in_containers :: "string list \<Rightarrow> pydict \<Rightarrow> string \<Rightarrow> pyfloat option" where
  "price_in_containers [] result symbol = None"
| "price_in_containers (k # ks) result symbol =
     (case dget result k of
        VList rows \<Rightarrow>
          (case Option.bind (match_quote_row rows symbol) (first_price quote_keys) of
             Some p \<Rightarrow> Some p
           | None \<Rightarrow> price_in_containers ks result symbol)
      | _ \<Rightarrow> price_in_containers ks result symbol)"

definition parse_quote_price :: "pyval \<Rightarrow> string \<Rightarrow> pyfloat option" where
  "parse_quote_price result symbol =
     (case result of
        VDict d \<Rightarrow>
          (case first_price quote_keys d of
             Some p \<Rightarrow> Some p
           | None \<Rightarrow>
               (case (case dget d symbol of VDict keyed \<Rightarrow> first_price quote_keys keyed | _ \<Rightarrow> None) of
                  Some p \<Rightarrow> Some p
                | None \<Rightarrow> price_in_containers [''quotes'', ''data'', ''results''] d symbol))
      | _ \<Rightarrow> None)"

fun broker_quote_price :: "guard \<Rightarrow> string list \<Rightarrow> string \<Rightarrow> pyfloat option" where
  "broker_quote_price g [] symbol = None"
| "broker_quote_price g (remote # rest) symbol =
     (case gd_call g remote [(''symbol'', VStr symbol)] of
        Inl x \<Rightarrow> broker_quote_price g rest symbol
      | Inr v \<Rightarrow>
          if (case v of VDict d \<Rightarrow> dget d ''status'' = VStr ''error'' | _ \<Rightarrow> False)
          then broker_quote_price g rest symbol
          else case parse_quote_price v symbol of
            Some p \<Rightarrow> Some p
          | None \<Rightarrow> broker_quote_price g rest symbol)"

definition guard_quote_price :: "guard \<Rightarrow> market_data \<Rightarrow> live_intent \<Rightarrow> pyfloat option" where
  "guard_quote_price g md i =
     (case broker_quote_price g (read_tools g ''quote'' [''get_quotes'']) (li_symbol i) of
        Some p \<Rightarrow> Some p
      | None \<Rightarrow>
          (case instrument_asset_class (li_instrument_type i) of
             None \<Rightarrow> None | Some a \<Rightarrow> last_price_usd md (li_symbol i) a))"

text \<open>The new intent is built without the asset class.\<close>

definition normalize_intent_notional :: "guard \<Rightarrow> market_data \<Rightarrow> live_intent \<Rightarrow> live_intent option" where
  "normalize_intent_notional g md i =
     (case li_quantity i of
        None \<Rightarrow> Some i
      | Some q \<Rightarrow>
          (case guard_quote_price g md i of
             None \<Rightarrow> None
           | Some price \<Rightarrow>
               map_option (\<lambda>x. i\<lparr>li_notional_usd := Some x, li_asset_class := None\<rparr>)
                 (enforced_notional i q price)))"

definition guard_refusal ::
  "guard \<Rightarrow> string \<Rightarrow> string \<Rightarrow> bool \<Rightarrow> breach_event option \<Rightarrow> pydict option \<Rightarrow> pydict" where
  "guard_refusal g decision reason reauth b r =
     with_record r
       [(''status'', VStr ''blocked''), (''decision'', VStr decision), (''reason'', VStr reason),
        (''broker'', VStr (gd_broker g)), (''remote_tool'', VStr (gd_remote_name g)),
        (''requires_reauthorization'', VBool reauth)] @
     (case b of None \<Rightarrow> []
      | Some b \<Rightarrow>
          [(''breach'', VDict
            [(''broker'', VStr (be_broker b)), (''limit'', VStr (be_limit b)),
             (''limit_value'', VFloat (be_limit_value b)),
             (''attempted_value'', VFloat (be_attempted_value b)), (''overage'', VFloat (be_overage b)),
             (''remote_tool'', VStr (be_remote_tool b)), (''created_at'', VStr (be_created_at b)),
             (''kind'', VStr (breach_kind_text (be_kind b))), (''detail'', VStr (be_detail b)),
             (''proposed_action'', VDict (action_dict (be_proposed_action b)))])])"

definition guard_deny ::
  "py_env \<Rightarrow> guard \<Rightarrow> string \<Rightarrow> string list \<Rightarrow> mandate option \<Rightarrow> bool \<Rightarrow> gate_state \<Rightarrow>
   pydict live \<times> gate_state" where
  "guard_deny e g reason checked m reauth w =
     (let (r, s) = audit_action e (gd_broker g) (gd_remote_name g) (gd_session_id g) Order_Rejected Blocked m
            None None None (deny_decision checked) (Some reason) (gs_store w)
      in (Inr (guard_refusal g ''deny'' reason reauth None r), w\<lparr>gs_store := s\<rparr>))"

definition guard_deny_breach ::
  "py_env \<Rightarrow> guard \<Rightarrow> breach_event \<Rightarrow> mandate \<Rightarrow> live_intent \<Rightarrow> bool \<Rightarrow> gate_state \<Rightarrow>
   pydict live \<times> gate_state" where
  "guard_deny_breach e g b m intent reauth w =
     (let decision = (if reauth then ''pause_for_reauth'' else ''deny'');
          (r, s) = audit_action e (gd_broker g) (gd_remote_name g) (gd_session_id g) Breach_Kind Blocked (Some m)
            (Some intent) None None (breach_decision decision b) (Some (breach_reason b)) (gs_store w)
      in (Inr (guard_refusal g decision (breach_reason b) reauth (Some b) r), w\<lparr>gs_store := s\<rparr>))"

definition guard_checked :: "string list" where
  "guard_checked =
     [''mandate'', ''expiry'', ''halt_flag'', ''intent'', ''exclude_symbols'', ''allowed_instruments'',
      ''asset_classes'', ''max_order_notional_usd'', ''max_total_exposure_usd'', ''max_leverage'',
      ''max_trades_per_day'', ''account_funding_usd'', ''universe_floors'']"

definition guard_decision :: "pydict option \<Rightarrow> pydict" where
  "guard_decision advisory =
     allow_decision (guard_checked @ (if advisory = None then [] else [''advisory''])) @
     [(''advisory'', opt_dict advisory)]"

text \<open>
  The forwarded result is the JSON text of the server's answer; what the guard reads back from it is
  the answer itself.
\<close>

definition guard_allow ::
  "py_env \<Rightarrow> guard \<Rightarrow> mandate \<Rightarrow> live_intent \<Rightarrow> pydict \<Rightarrow> pyval \<Rightarrow> pyval \<Rightarrow> gate_state \<Rightarrow>
   pyval live \<times> gate_state" where
  "guard_allow e g m intent kwargs positions balance w =
     (let advisory = advisory_review (gd_advisory_env g) (gd_providers g) intent positions balance m;
          arguments = filter_arguments g kwargs;
          sent = (\<lambda>ok. w\<lparr>gs_sent := gs_sent w @ [\<lparr>so_broker = gd_broker g, so_tool = gd_remote_name g,
                     so_arguments = arguments, so_accepted = ok\<rparr>]\<rparr>)
      in case gd_call g (gd_remote_name g) arguments of
        Inl x \<Rightarrow> (Inl (Remote_Error x), sent False)
      | Inr payload \<Rightarrow>
          let response = (case payload of VDict d \<Rightarrow> d | v \<Rightarrow> [(''raw'', v)]);
              w = sent (\<not> status_is response ''error'');
              answer = (\<lambda>r. case payload of VDict d \<Rightarrow> VDict (with_record r d) | v \<Rightarrow> v)
          in if status_is response ''error''
             then let (r, s) = audit_action e (gd_broker g) (gd_remote_name g) (gd_session_id g) Order_Rejected
                        Error_Outcome (Some m) (Some intent) (Some kwargs) (Some response)
                        (guard_decision advisory)
                        (Some (error_message response ''broker forward returned an error'')) (gs_store w)
                  in (Inr (answer r), w\<lparr>gs_store := s\<rparr>)
             else case increment_daily_count e (gd_broker g) (gs_store w) of
               Inl x \<Rightarrow> (Inl x, w)
             | Inr (n, s) \<Rightarrow>
                 let (r, s) = audit_action e (gd_broker g) (gd_remote_name g) (gd_session_id g) Order_Placed
                       Accepted (Some m) (Some intent) (Some kwargs) (Some response)
                       (guard_decision advisory) None s
                 in (Inr (answer r), w\<lparr>gs_store := s\<rparr>))"

definition guard_execute ::
  "py_env \<Rightarrow> market_data \<Rightarrow> guard \<Rightarrow> pydict \<Rightarrow> gate_state \<Rightarrow> pyval live \<times> gate_state" where
  "guard_execute e md g kwargs w =
     (let refuse = (\<lambda>x. case x of (r, w) \<Rightarrow> (rbind r (\<lambda>d. Inr (VDict d)), w)); s = gs_store w
      in case load_mandate e (gd_broker g) s of
        Inl x \<Rightarrow> (Inl x, w)
      | Inr None \<Rightarrow> refuse (guard_deny e g ''no valid mandate on file'' [''mandate''] None False w)
      | Inr (Some m) \<Rightarrow>
          if ma_schema_version m \<noteq> mandate_schema_version
          then refuse (guard_deny e g ''no valid mandate on file'' [''mandate''] (Some m) False w)
          else if is_expired e m
          then refuse (guard_deny e g ''mandate expired - re-authorize'' [''mandate'', ''expiry''] (Some m) True w)
          else if halt_flag_set (Some (gd_broker g)) s
          then refuse (guard_deny e g ''live trading halted'' [''mandate'', ''expiry'', ''halt_flag''] (Some m)
                 False w)
          else case Option.bind (get_extractor g (gd_broker g)) (\<lambda>extract. extract (gd_remote_name g) kwargs) of
            None \<Rightarrow> refuse (guard_deny e g ''order intent could not be parsed''
                     [''mandate'', ''expiry'', ''halt_flag'', ''intent''] (Some m) False w)
          | Some intent \<Rightarrow>
              (case normalize_intent_notional g md intent of
                 None \<Rightarrow> refuse (guard_deny e g ''quantity order notional could not be priced (fail-closed)''
                          [''mandate'', ''expiry'', ''halt_flag'', ''intent'', ''quote''] (Some m) False w)
               | Some intent \<Rightarrow>
                   let positions = read_first g (read_tools g ''positions'' [''get_positions'']);
                       balance = read_first g (read_tools g ''account'' [''get_account''])
                   in case read_daily_count e (gd_broker g) s of
                     Inl x \<Rightarrow> (Inl x, w)
                   | Inr daily_count \<Rightarrow>
                       (case check_mandate e md m intent positions (gd_broker g) (gd_remote_name g) daily_count of
                          None \<Rightarrow> guard_allow e g m intent kwargs positions balance w
                        | Some b \<Rightarrow> refuse (guard_deny_breach e g b m intent (be_kind b = Breach_Quantitative) w))))"

section \<open>The tools of a live broker\<close>

datatype tool_class = READ | WRITE | UNKNOWN

text \<open>
  A discovered tool: its remote name and the server's read-only hint, \<open>None\<close> when there are no
  annotations or no hint.
\<close>

record remote_tool =
  rt_remote_name :: string
  rt_read_only_hint :: "bool option"

definition classify_tool :: "string \<Rightarrow> bool option \<Rightarrow> (string \<times> tool_class) list option \<Rightarrow> tool_class" where
  "classify_tool name hint curated =
     (case Option.bind curated (\<lambda>m. map_of m name) of
        Some pinned \<Rightarrow> pinned
      | None \<Rightarrow> (case hint of Some True \<Rightarrow> READ | Some False \<Rightarrow> WRITE | None \<Rightarrow> UNKNOWN))"

datatype wrapped_tool = Plain_Read remote_tool | Guarded remote_tool tool_class

definition broker_for :: "string list \<Rightarrow> (string \<Rightarrow> string option) \<Rightarrow> string \<Rightarrow> string \<Rightarrow> string" where
  "broker_for keys key_for_url server_name url =
     (let key = lower (strip server_name)
      in if key \<in> set keys then key
         else case key_for_url url of None \<Rightarrow> key | Some k \<Rightarrow> if k = [] then key else k)"

definition is_live_broker :: "string list \<Rightarrow> (string \<Rightarrow> bool) \<Rightarrow> string \<Rightarrow> string \<Rightarrow> bool" where
  "is_live_broker keys live_url server_name url = (lower (strip server_name) \<in> set keys \<or> live_url url)"

definition wrap_tool ::
  "(string \<times> tool_class) list option \<Rightarrow> bool \<Rightarrow> remote_tool \<Rightarrow> wrapped_tool list" where
  "wrap_tool curated halted t =
     (let c = classify_tool (rt_remote_name t) (rt_read_only_hint t) curated
      in if c = READ then [Plain_Read t] else if halted then [] else [Guarded t c])"

definition wrap_live_broker_tools ::
  "(string \<Rightarrow> (string \<times> tool_class) list option) \<Rightarrow> string \<Rightarrow> remote_tool list \<Rightarrow> live_store \<Rightarrow>
   wrapped_tool list" where
  "wrap_live_broker_tools curated_maps broker tools s =
     concat (map (wrap_tool (curated_maps broker) (halt_flag_set (Some broker) s)) tools)"

definition should_register_live_channel :: "bool \<Rightarrow> bool option \<Rightarrow> bool" where
  "should_register_live_channel interactive cached_token =
     (if interactive then True else case cached_token of None \<Rightarrow> True | Some present \<Rightarrow> present)"

end
