(* ===== verification/Live_Runs.thy ===== *)
theory Live_Runs
  imports Live_Guard
begin

text \<open>
  What the order gates guarantee over time. Both gates satisfy one contract, the locale \<open>order_gate\<close>:
  a call leaves the orders, the kill switch, the mandates and the counters alone, or it sends one order
  that the mandate on file authorizes at that moment. The client lemmas of the locale are about runs of
  calls; \<open>live_event\<close> adds what happens around the gates.
\<close>

section \<open>The contract of a gate\<close>

text \<open>The gate has not acted: at most the ledger has grown.\<close>

definition untouched :: "gate_state \<Rightarrow> gate_state \<Rightarrow> bool" where
  "untouched w w' \<longleftrightarrow> gs_sent w' = gs_sent w \<and> lv_halt (gs_store w') = lv_halt (gs_store w) \<and>
     lv_mandate (gs_store w') = lv_mandate (gs_store w) \<and>
     lv_counter (gs_store w') = lv_counter (gs_store w) \<and>
     lv_proposals (gs_store w') = lv_proposals (gs_store w)"

text \<open>The mandate on file authorizes an order of the broker now.\<close>

definition authorized :: "py_env \<Rightarrow> string \<Rightarrow> mandate \<Rightarrow> int \<Rightarrow> live_store \<Rightarrow> bool" where
  "authorized e broker m n s \<longleftrightarrow>
     load_mandate e broker s = Inr (Some m) \<and> ma_schema_version m = mandate_schema_version \<and>
     \<not> is_expired e m \<and> \<not> halt_flag_set (Some broker) s \<and> read_daily_count e broker s = Inr n \<and>
     n < hc_max_trades_per_day (ma_hard_caps m)"

text \<open>One order was sent, and the counter has moved if and only if it was accepted.\<close>

definition order_sent :: "py_env \<Rightarrow> string \<Rightarrow> sent_order \<Rightarrow> gate_state \<Rightarrow> gate_state \<Rightarrow> bool" where
  "order_sent e broker ord w w' \<longleftrightarrow>
     gs_sent w' = gs_sent w @ [ord] \<and> so_broker ord = broker \<and>
     lv_halt (gs_store w') = lv_halt (gs_store w) \<and>
     lv_mandate (gs_store w') = lv_mandate (gs_store w) \<and>
     lv_proposals (gs_store w') = lv_proposals (gs_store w) \<and>
     (if so_accepted ord
      then \<exists>n s. increment_daily_count e broker (gs_store w) = Inr (n, s) \<and>
             lv_counter (gs_store w') = lv_counter s
      else lv_counter (gs_store w') = lv_counter (gs_store w))"

lemma audit_action_frame [simp]:
  "lv_mandate (snd (audit_action e b t sid k oc m i rq rs d er s)) = lv_mandate s"
  "lv_counter (snd (audit_action e b t sid k oc m i rq rs d er s)) = lv_counter s"
  "lv_halt (snd (audit_action e b t sid k oc m i rq rs d er s)) = lv_halt s"
  "lv_proposals (snd (audit_action e b t sid k oc m i rq rs d er s)) = lv_proposals s"
  by (simp_all add: audit_action_def write_live_action_def new_hex_def Let_def)

lemma increment_frame:
  assumes "increment_daily_count e b s = Inr (n, t)"
  shows "lv_mandate t = lv_mandate s" "lv_halt t = lv_halt s" "lv_proposals t = lv_proposals s"
  using assms by (auto simp: increment_daily_count_def rbind_Inr_iff)

lemma increment_total:
  assumes "read_daily_count e b s = Inr n"
  obtains t where "increment_daily_count e b s = Inr (n + 1, t)"
  using assms by (auto simp: increment_daily_count_def read_daily_count_def rbind_Inr_iff)

lemma increment_sent [simp]:
  "increment_daily_count e b (gs_store (w\<lparr>gs_sent := x\<rparr>)) = increment_daily_count e b (gs_store w)"
  by simp

section \<open>The gate of the connectors\<close>

lemma sdk_deny_untouched [simp]: "untouched w (snd (sdk_deny e b sid r c m i re w))"
  by (simp add: untouched_def sdk_deny_def case_prod_unfold Let_def)

lemma sdk_deny_breach_untouched [simp]: "untouched w (snd (sdk_deny_breach e b sid br m i re w))"
  by (simp add: untouched_def sdk_deny_breach_def case_prod_unfold Let_def)

lemma untouched_refl [simp]: "untouched w w"
  by (simp add: untouched_def)

lemma sdk_allow_sends:
  assumes "read_daily_count e b (gs_store w) = Inr n"
  shows "\<exists>ok. order_sent e b \<lparr>so_broker = b, so_tool = ''place_order'', so_arguments = kw, so_accepted = ok\<rparr>
    w (snd (sdk_allow e co b sid i kw m w))"
proof -
  obtain t where "increment_daily_count e b (gs_store w) = Inr (n + 1, t)"
    using assms by (rule increment_total)
  then show ?thesis
    using increment_frame [of e b "gs_store w" "n + 1" t]
    by (auto simp: sdk_allow_def order_sent_def case_prod_unfold Let_def)
qed

definition sdk_authorizes ::
  "py_env \<Rightarrow> market_data \<Rightarrow> connector \<Rightarrow> string \<Rightarrow> live_intent \<Rightarrow> mandate \<Rightarrow> int \<Rightarrow> live_store \<Rightarrow> bool" where
  "sdk_authorizes e md co broker intent m n s \<longleftrightarrow>
     authorized e broker m n s \<and>
     (\<exists>i. sdk_normalize_notional md co intent = Some i \<and>
        within_mandate md m i (safe_read (co_get_positions co)) n)"

lemma sdk_gate_cases:
  fixes w :: gate_state and broker :: string
  defines "b \<equiv> lower (strip broker)"
  shows "untouched w (snd (execute_live_order e md co broker intent kw sid w)) \<or>
    (\<exists>m n ok. sdk_authorizes e md co b intent m n (gs_store w) \<and>
      order_sent e b \<lparr>so_broker = b, so_tool = ''place_order'', so_arguments = kw, so_accepted = ok\<rparr> w
        (snd (execute_live_order e md co broker intent kw sid w)))"
proof -
  let ?x = "execute_live_order e md co broker intent kw sid w"
  show ?thesis
  proof (cases "load_mandate e b (gs_store w)")
    case (Inl x)
    then show ?thesis by (simp add: execute_live_order_def b_def Let_def)
  next
    case (Inr found)
    show ?thesis
    proof (cases "\<exists>m i n. found = Some m \<and> ma_schema_version m = mandate_schema_version \<and> \<not> is_expired e m \<and>
        \<not> halt_flag_set (Some b) (gs_store w) \<and> sdk_normalize_notional md co intent = Some i \<and>
        read_daily_count e b (gs_store w) = Inr n \<and>
        check_mandate e md m i (safe_read (co_get_positions co)) b ''place_order'' n = None")
      case True
      then obtain m i n where m: "found = Some m" "ma_schema_version m = mandate_schema_version"
        "\<not> is_expired e m" "\<not> halt_flag_set (Some b) (gs_store w)"
        and i: "sdk_normalize_notional md co intent = Some i"
        and n: "read_daily_count e b (gs_store w) = Inr n"
        and check: "check_mandate e md m i (safe_read (co_get_positions co)) b ''place_order'' n = None"
        by blast
      from check have within: "within_mandate md m i (safe_read (co_get_positions co)) n"
        by (simp add: check_mandate_iff)
      have "?x = sdk_allow e co b sid i kw m w"
        using m i n check Inr by (simp add: execute_live_order_def b_def Let_def)
      moreover have "sdk_authorizes e md co b intent m n (gs_store w)"
        using m i n within Inr
        by (auto simp: sdk_authorizes_def authorized_def within_mandate_def)
      ultimately show ?thesis using sdk_allow_sends [OF n] by metis
    next
      case False
      then have "untouched w (snd ?x)"
        using Inr by (auto simp: execute_live_order_def b_def [symmetric] Let_def
            split: option.split sum.split)
      then show ?thesis by blast
    qed
  qed
qed

section \<open>The guard of remote tools\<close>

lemma guard_deny_untouched [simp]: "untouched w (snd (guard_deny e g r c m re w))"
  by (simp add: untouched_def guard_deny_def case_prod_unfold Let_def)

lemma guard_deny_breach_untouched [simp]: "untouched w (snd (guard_deny_breach e g br m i re w))"
  by (simp add: untouched_def guard_deny_breach_def case_prod_unfold Let_def)

lemma guard_allow_sends:
  assumes "read_daily_count e (gd_broker g) (gs_store w) = Inr n"
  shows "\<exists>ok. order_sent e (gd_broker g) \<lparr>so_broker = gd_broker g, so_tool = gd_remote_name g,
      so_arguments = filter_arguments g kw, so_accepted = ok\<rparr> w
    (snd (guard_allow e g m i kw positions balance w))"
proof -
  obtain t where "increment_daily_count e (gd_broker g) (gs_store w) = Inr (n + 1, t)"
    using assms by (rule increment_total)
  then show ?thesis
    using increment_frame [of e "gd_broker g" "gs_store w" "n + 1" t]
    by (cases "gd_call g (gd_remote_name g) (filter_arguments g kw)")
      (auto simp: guard_allow_def order_sent_def case_prod_unfold Let_def)
qed

definition guard_authorizes ::
  "py_env \<Rightarrow> market_data \<Rightarrow> guard \<Rightarrow> pydict \<Rightarrow> mandate \<Rightarrow> int \<Rightarrow> live_store \<Rightarrow> bool" where
  "guard_authorizes e md g kw m n s \<longleftrightarrow>
     authorized e (gd_broker g) m n s \<and>
     (\<exists>extract i i'. get_extractor g (gd_broker g) = Some extract \<and> extract (gd_remote_name g) kw = Some i \<and>
        normalize_intent_notional g md i = Some i' \<and>
        within_mandate md m i' (read_first g (read_tools g ''positions'' [''get_positions''])) n)"

lemma guard_cases:
  "untouched w (snd (guard_execute e md g kw w)) \<or>
   (\<exists>m n ok. guard_authorizes e md g kw m n (gs_store w) \<and>
      order_sent e (gd_broker g) \<lparr>so_broker = gd_broker g, so_tool = gd_remote_name g,
        so_arguments = filter_arguments g kw, so_accepted = ok\<rparr> w (snd (guard_execute e md g kw w)))"
proof -
  let ?x = "guard_execute e md g kw w" and ?b = "gd_broker g"
  let ?pos = "read_first g (read_tools g ''positions'' [''get_positions''])"
  let ?ext = "Option.bind (get_extractor g ?b) (\<lambda>extract. extract (gd_remote_name g) kw)"
  show ?thesis
  proof (cases "load_mandate e ?b (gs_store w)")
    case (Inl x)
    then show ?thesis by (simp add: guard_execute_def Let_def)
  next
    case (Inr found)
    show ?thesis
    proof (cases "\<exists>m i i' n. found = Some m \<and> ma_schema_version m = mandate_schema_version \<and> \<not> is_expired e m \<and>
        \<not> halt_flag_set (Some ?b) (gs_store w) \<and> ?ext = Some i \<and> normalize_intent_notional g md i = Some i' \<and>
        read_daily_count e ?b (gs_store w) = Inr n \<and>
        check_mandate e md m i' ?pos ?b (gd_remote_name g) n = None")
      case True
      then obtain m i i' n where m: "found = Some m" "ma_schema_version m = mandate_schema_version"
        "\<not> is_expired e m" "\<not> halt_flag_set (Some ?b) (gs_store w)"
        and i: "?ext = Some i" "normalize_intent_notional g md i = Some i'"
        and n: "read_daily_count e ?b (gs_store w) = Inr n"
        and check: "check_mandate e md m i' ?pos ?b (gd_remote_name g) n = None"
        by blast
      from check have within: "within_mandate md m i' ?pos n" by (simp add: check_mandate_iff)
      have "?x = guard_allow e g m i' kw ?pos (read_first g (read_tools g ''account'' [''get_account''])) w"
        using m i n check Inr by (simp add: guard_execute_def Let_def)
      moreover have "guard_authorizes e md g kw m n (gs_store w)"
        using m i n within Inr
        by (auto simp: guard_authorizes_def authorized_def within_mandate_def bind_eq_Some_conv)
      ultimately show ?thesis using guard_allow_sends [OF n] by metis
    next
      case False
      then have "untouched w (snd ?x)"
        using Inr by (auto simp: guard_execute_def Let_def case_prod_unfold split: option.split sum.split)
      then show ?thesis by blast
    qed
  qed
qed

section \<open>The contract as an interface\<close>

text \<open>The orders of today that the counter file of a key stands for.\<close>

definition day_count :: "string \<Rightarrow> string \<Rightarrow> live_store \<Rightarrow> int live" where
  "day_count today k s =
     (case lv_counter s k of
        Some (VDict raw) \<Rightarrow>
          if dget raw ''date'' \<noteq> VStr today then Inr 0
          else (case py_int (dget_or raw ''count'' (VInt 0)) of
                  Inl Overflow_Error \<Rightarrow> Inl Overflow_Error
                | Inl x \<Rightarrow> Inr 0
                | Inr n \<Rightarrow> Inr n)
      | _ \<Rightarrow> Inr 0)"

lemma read_daily_count_day: "read_daily_count e b s = rbind (broker_key b) (\<lambda>k. day_count (utc_today e) k s)"
  by (simp add: read_daily_count_def day_count_def)

definition accepted_for :: "string \<Rightarrow> sent_order \<Rightarrow> bool" where
  "accepted_for k ord \<longleftrightarrow> so_accepted ord \<and> broker_key (so_broker ord) = Inr k"

definition accepted_orders :: "string \<Rightarrow> gate_state \<Rightarrow> int" where
  "accepted_orders k w = int (length (filter (accepted_for k) (gs_sent w)))"

text \<open>The daily limit of the mandate on file for a key.\<close>

definition trade_limit :: "string \<Rightarrow> int \<Rightarrow> live_store \<Rightarrow> bool" where
  "trade_limit k limit s \<longleftrightarrow>
     (\<forall>raw e m. lv_mandate s k = Some raw \<and> parse_mandate e raw = Inr m \<longrightarrow>
        hc_max_trades_per_day (ma_hard_caps m) = limit)"

lemma parse_mandate_caps:
  assumes "parse_mandate e raw = Inr m" and "parse_mandate e' raw = Inr m'"
  shows "ma_hard_caps m = ma_hard_caps m'"
  using assms by (auto simp: parse_mandate_def rbind_Inr_iff split: pyval.splits)

lemma load_mandate_iff:
  "load_mandate e b s = Inr (Some m) \<longleftrightarrow>
     (\<exists>k raw. broker_key b = Inr k \<and> lv_mandate s k = Some raw \<and> parse_mandate e raw = Inr m)"
proof (cases "broker_key b")
  case (Inr k)
  show ?thesis
  proof (cases "lv_mandate s k")
    case (Some raw)
    then show ?thesis
      using Inr by (cases "parse_mandate e raw") (auto simp: load_mandate_def split: live_exc.split)
  qed (simp add: load_mandate_def Inr)
qed (simp add: load_mandate_def)

lemma trade_limit_load:
  assumes "load_mandate e b s = Inr (Some m)" and "broker_key b = Inr k"
  shows "trade_limit k (hc_max_trades_per_day (ma_hard_caps m)) s"
proof -
  obtain raw where raw: "lv_mandate s k = Some raw" "parse_mandate e raw = Inr m"
    using assms by (auto simp: load_mandate_iff)
  have "ma_hard_caps m' = ma_hard_caps m" if "parse_mandate e' raw = Inr m'" for e' m'
    using parse_mandate_caps that raw(2) by blast
  then show ?thesis using raw(1) by (auto simp: trade_limit_def)
qed

lemma increment_day_count:
  assumes "increment_daily_count e b s = Inr (n, t)" and "broker_key b = Inr k"
  shows "day_count (utc_today e) k t = Inr n" and "day_count (utc_today e) k s = Inr (n - 1)"
    and "k' \<noteq> k \<Longrightarrow> lv_counter t k' = lv_counter s k'"
  using assms read_after_increment [OF assms(1)]
  by (auto simp: read_daily_count_day increment_daily_count_def rbind_Inr_iff)

locale order_gate =
  fixes call :: "'c \<Rightarrow> gate_state \<Rightarrow> gate_state"
    and call_env :: "'c \<Rightarrow> py_env"
    and call_broker :: "'c \<Rightarrow> string"
  assumes outcome: "untouched w (call c w) \<or>
    (\<exists>m n ord. authorized (call_env c) (call_broker c) m n (gs_store w) \<and>
       order_sent (call_env c) (call_broker c) ord w (call c w))"
begin

lemma keeps_store:
  "lv_halt (gs_store (call c w)) = lv_halt (gs_store w)"
  "lv_mandate (gs_store (call c w)) = lv_mandate (gs_store w)"
  "lv_proposals (gs_store (call c w)) = lv_proposals (gs_store w)"
  using outcome [of w c] by (auto simp: untouched_def order_sent_def)

lemma halted_sends_nothing:
  "halt_flag_set (Some (call_broker c)) (gs_store w) \<Longrightarrow> gs_sent (call c w) = gs_sent w"
  using outcome [of w c] by (auto simp: untouched_def authorized_def)

lemma no_mandate_sends_nothing:
  "(\<And>k. broker_key (call_broker c) = Inr k \<Longrightarrow> lv_mandate (gs_store w) k = None) \<Longrightarrow>
     gs_sent (call c w) = gs_sent w"
  using outcome [of w c] by (auto simp: untouched_def authorized_def load_mandate_iff)

text \<open>A call moves the counter of a key with the orders accepted for it, and not past the limit.\<close>

lemma counts_orders:
  assumes "utc_today (call_env c) = today" and "day_count today k (gs_store w) = Inr n"
    and "trade_limit k limit (gs_store w)"
  shows "\<exists>n'. day_count today k (gs_store (call c w)) = Inr n' \<and> n' \<le> max n limit \<and>
    n' - n = accepted_orders k (call c w) - accepted_orders k w"
  using outcome [of w c]
proof (elim disjE exE conjE)
  assume "untouched w (call c w)"
  then show ?thesis using assms(2) by (auto simp: untouched_def day_count_def accepted_orders_def)
next
  fix m i ord
  assume auth: "authorized (call_env c) (call_broker c) m i (gs_store w)"
    and sent: "order_sent (call_env c) (call_broker c) ord w (call c w)"
  obtain k' where k': "broker_key (call_broker c) = Inr k'"
    using auth by (auto simp: authorized_def load_mandate_iff)
  show ?thesis
  proof (cases "so_accepted ord")
    case False
    then show ?thesis
      using sent assms(2) by (auto simp: order_sent_def day_count_def accepted_orders_def accepted_for_def)
  next
    case True
    then obtain j s where inc: "increment_daily_count (call_env c) (call_broker c) (gs_store w) = Inr (j, s)"
      and counter: "lv_counter (gs_store (call c w)) = lv_counter s"
      using sent by (auto simp: order_sent_def)
    note day = increment_day_count [OF inc k']
    have grows: "accepted_orders k (call c w) - accepted_orders k w = (if k' = k then 1 else 0)"
      using sent True k' by (auto simp: order_sent_def accepted_orders_def accepted_for_def)
    show ?thesis
    proof (cases "k' = k")
      case True
      then have "n = i" and "j = n + 1"
        using day(2) assms(1,2) auth k' by (auto simp: authorized_def read_daily_count_day)
      moreover have "hc_max_trades_per_day (ma_hard_caps m) = limit"
        using assms(3) auth k' True
        by (auto simp: trade_limit_def authorized_def load_mandate_iff)
      ultimately show ?thesis
        using day(1) counter assms(1) auth grows True
        by (auto simp: authorized_def day_count_def)
    next
      case False
      then show ?thesis using day(3) [of k] counter assms(2) grows by (auto simp: day_count_def)
    qed
  qed
qed

end

type_synonym sdk_call = "py_env \<times> market_data \<times> connector \<times> string \<times> live_intent \<times> pydict \<times> string"

definition sdk_call :: "sdk_call \<Rightarrow> gate_state \<Rightarrow> gate_state" where
  "sdk_call c w = (case c of (e, md, co, broker, intent, kw, sid) \<Rightarrow>
     snd (execute_live_order e md co broker intent kw sid w))"

definition guard_call :: "py_env \<times> market_data \<times> guard \<times> pydict \<Rightarrow> gate_state \<Rightarrow> gate_state" where
  "guard_call c w = (case c of (e, md, g, kw) \<Rightarrow> snd (guard_execute e md g kw w))"

interpretation sdk: order_gate sdk_call "\<lambda>c. fst c" "\<lambda>(e, md, co, broker, r). lower (strip broker)"
proof
  fix w :: gate_state and c :: sdk_call
  obtain e md co broker intent kw sid where c: "c = (e, md, co, broker, intent, kw, sid)"
    by (cases c) auto
  from sdk_gate_cases [of w e md co broker intent kw sid]
  show "untouched w (sdk_call c w) \<or>
    (\<exists>m n ord. authorized (fst c) (case c of (e, md, co, broker, r) \<Rightarrow> lower (strip broker)) m n (gs_store w) \<and>
       order_sent (fst c) (case c of (e, md, co, broker, r) \<Rightarrow> lower (strip broker)) ord w (sdk_call c w))"
    by (auto simp: c sdk_call_def sdk_authorizes_def)
qed

interpretation guarded: order_gate guard_call "\<lambda>c. fst c" "\<lambda>(e, md, g, kw). gd_broker g"
proof
  fix w :: gate_state and c :: "py_env \<times> market_data \<times> guard \<times> pydict"
  obtain e md g kw where c: "c = (e, md, g, kw)" by (cases c) auto
  from guard_cases [of w e md g kw]
  show "untouched w (guard_call c w) \<or>
    (\<exists>m n ord. authorized (fst c) (case c of (e, md, g, kw) \<Rightarrow> gd_broker g) m n (gs_store w) \<and>
       order_sent (fst c) (case c of (e, md, g, kw) \<Rightarrow> gd_broker g) ord w (guard_call c w))"
    by (auto simp: c guard_call_def guard_authorizes_def)
qed

section \<open>Events\<close>

datatype live_event =
    Sdk_Order sdk_call
  | Guard_Order "py_env \<times> market_data \<times> guard \<times> pydict"
  | Trip_Halt py_env string string "string option"
  | Clear_Halt "string option"
  | Propose py_env pydict
  | Commit py_env commit_request

definition on_store :: "live_store live \<Rightarrow> gate_state \<Rightarrow> gate_state" where
  "on_store r w = (case r of Inl x \<Rightarrow> w | Inr s \<Rightarrow> w\<lparr>gs_store := s\<rparr>)"

fun live_step :: "live_event \<Rightarrow> gate_state \<Rightarrow> gate_state" where
  "live_step (Sdk_Order c) w = sdk_call c w"
| "live_step (Guard_Order c) w = guard_call c w"
| "live_step (Trip_Halt e origin reason broker) w = on_store (trip_halt e origin reason broker (gs_store w)) w"
| "live_step (Clear_Halt broker) w = on_store (rbind (clear_halt broker (gs_store w)) (\<lambda>(b, s). Inr s)) w"
| "live_step (Propose e p) w = on_store (save_proposal e p (gs_store w)) w"
| "live_step (Commit e q) w = on_store (rbind (commit_mandate e q (gs_store w)) (\<lambda>(r, s). Inr s)) w"

definition run_events :: "live_event list \<Rightarrow> gate_state \<Rightarrow> gate_state" where
  "run_events evs w = fold live_step evs w"

lemma run_events_simps [simp]:
  "run_events [] w = w" "run_events (ev # evs) w = run_events evs (live_step ev w)"
  by (simp_all add: run_events_def)

lemma on_store_sent [simp]: "gs_sent (on_store r w) = gs_sent w"
  by (simp add: on_store_def split: sum.split)

text \<open>What an event changes of the kill switch, the mandates and the counters.\<close>

lemma invalidate_frame [simp]:
  "lv_halt (invalidate_proposal b i s) = lv_halt s" "lv_counter (invalidate_proposal b i s) = lv_counter s"
  "lv_mandate (invalidate_proposal b i s) = lv_mandate s"
  by (simp_all add: invalidate_proposal_def split: sum.split prod.split)

lemma commit_frame:
  assumes "commit_mandate e q s = Inr (r, t)"
  shows "lv_halt t = lv_halt s" "lv_counter t = lv_counter s" "cq_consent_ack q"
  using assms by (auto simp: commit_mandate_def ok_iff Let_def new_hex_def)

lemma save_proposal_frame:
  assumes "save_proposal e p s = Inr t"
  shows "lv_halt t = lv_halt s" "lv_counter t = lv_counter s" "lv_mandate t = lv_mandate s"
  using assms
  by (auto simp: save_proposal_def rbind_Inr_iff Let_def split: if_splits pyval.splits)

lemma clear_halt_frame:
  assumes "clear_halt broker s = Inr (b, t)"
  shows "lv_counter t = lv_counter s" "lv_mandate t = lv_mandate s" "lv_proposals t = lv_proposals s"
    and "broker \<noteq> None \<Longrightarrow> lv_halt t None = lv_halt s None"
  using assms by (auto simp: clear_halt_def halt_key_def rbind_Inr_iff split: option.splits)

lemma on_store_keeps:
  "(\<And>t. r = Inr t \<Longrightarrow> f t = f (gs_store w)) \<Longrightarrow> f (gs_store (on_store r w)) = f (gs_store w)"
  by (cases r) (simp_all add: on_store_def)

fun by_gate :: "live_event \<Rightarrow> bool" where
  "by_gate (Sdk_Order c) = True"
| "by_gate (Guard_Order c) = True"
| "by_gate _ = False"

lemma event_keeps_counter:
  "\<not> by_gate ev \<Longrightarrow>
     lv_counter (gs_store (live_step ev w)) = lv_counter (gs_store w) \<and> gs_sent (live_step ev w) = gs_sent w"
  by (cases ev)
    (auto intro!: on_store_keeps [where f = lv_counter] simp: rbind_Inr_iff
      dest: trip_halt_frame clear_halt_frame save_proposal_frame commit_frame)

lemma event_keeps_mandate:
  "(\<And>e q. ev = Commit e q \<Longrightarrow> \<not> cq_consent_ack q) \<Longrightarrow>
     lv_mandate (gs_store (live_step ev w)) = lv_mandate (gs_store w)"
  by (cases ev)
    (auto intro!: on_store_keeps [where f = lv_mandate] simp: rbind_Inr_iff sdk.keeps_store guarded.keeps_store
      dest: trip_halt_frame clear_halt_frame save_proposal_frame commit_frame(3))

lemma event_keeps_halt:
  "(\<And>e a r b. ev \<noteq> Trip_Halt e a r b) \<Longrightarrow> (\<And>b. ev \<noteq> Clear_Halt b) \<Longrightarrow>
     lv_halt (gs_store (live_step ev w)) = lv_halt (gs_store w)"
  by (cases ev)
    (auto intro!: on_store_keeps [where f = lv_halt] simp: rbind_Inr_iff sdk.keeps_store guarded.keeps_store
      dest: save_proposal_frame commit_frame)

lemma step_keeps_global_halt:
  assumes "ev \<noteq> Clear_Halt None" and "lv_halt (gs_store w) None \<noteq> None"
  shows "lv_halt (gs_store (live_step ev w)) None \<noteq> None \<and> gs_sent (live_step ev w) = gs_sent w"
proof -
  have halted: "halt_flag_set b (gs_store w)" for b using assms(2) by (simp add: halt_flag_set_def)
  have sent: "gs_sent (live_step ev w) = gs_sent w"
    using sdk.halted_sends_nothing guarded.halted_sends_nothing halted by (cases ev) simp_all
  have "lv_halt (gs_store (live_step ev w)) None \<noteq> None"
  proof (cases ev)
    case (Trip_Halt e origin reason broker)
    then show ?thesis
      using assms(2) by (auto simp: on_store_def trip_halt_def rbind_Inr_iff split: sum.split)
  next
    case (Clear_Halt broker)
    then have "broker \<noteq> None" using assms(1) by simp
    then have "lv_halt (gs_store (live_step ev w)) None = lv_halt (gs_store w) None"
      unfolding Clear_Halt live_step.simps
      by (intro on_store_keeps [where f = "\<lambda>s. lv_halt s None"])
        (auto simp: rbind_Inr_iff dest: clear_halt_frame(4))
    then show ?thesis using assms(2) by simp
  qed (use event_keeps_halt [of ev w] assms(2) in auto)
  with sent show ?thesis by simp
qed

lemma step_without_consent:
  assumes "\<And>e q. ev = Commit e q \<Longrightarrow> \<not> cq_consent_ack q" and "lv_mandate (gs_store w) = (\<lambda>k. None)"
  shows "lv_mandate (gs_store (live_step ev w)) = (\<lambda>k. None) \<and> gs_sent (live_step ev w) = gs_sent w"
proof -
  have "gs_sent (live_step ev w) = gs_sent w"
    using sdk.no_mandate_sends_nothing guarded.no_mandate_sends_nothing assms(2) by (cases ev) simp_all
  with event_keeps_mandate [of ev w] assms show ?thesis by simp
qed

text \<open>The events of one day under one mandate: no commit, and gate calls with that day's date.\<close>

fun on_day :: "string \<Rightarrow> live_event \<Rightarrow> bool" where
  "on_day today (Sdk_Order c) = (utc_today (fst c) = today)"
| "on_day today (Guard_Order c) = (utc_today (fst c) = today)"
| "on_day today (Commit e q) = False"
| "on_day today _ = True"

lemma step_counts_orders:
  assumes "on_day today ev" and "day_count today k (gs_store w) = Inr n"
    and "trade_limit k limit (gs_store w)"
  shows "trade_limit k limit (gs_store (live_step ev w)) \<and>
    (\<exists>n'. day_count today k (gs_store (live_step ev w)) = Inr n' \<and> n' \<le> max n limit \<and>
      n' - n = accepted_orders k (live_step ev w) - accepted_orders k w)"
proof -
  have "lv_mandate (gs_store (live_step ev w)) = lv_mandate (gs_store w)"
    using event_keeps_mandate [of ev w] assms(1) by (cases ev) auto
  then have "trade_limit k limit (gs_store (live_step ev w))" using assms(3) by (simp add: trade_limit_def)
  moreover have "\<exists>n'. day_count today k (gs_store (live_step ev w)) = Inr n' \<and> n' \<le> max n limit \<and>
      n' - n = accepted_orders k (live_step ev w) - accepted_orders k w"
  proof (cases "by_gate ev")
    case True
    then show ?thesis
      using sdk.counts_orders [of _ today k w n limit] guarded.counts_orders [of _ today k w n limit] assms
      by (cases ev) auto
  next
    case False
    then show ?thesis using event_keeps_counter [of ev w] assms(2) by (simp add: day_count_def accepted_orders_def)
  qed
  ultimately show ?thesis by blast
qed

text \<open>Orders are never taken back.\<close>

lemma order_sent_accepts: "order_sent e b ord w w' \<Longrightarrow> accepted_orders k w \<le> accepted_orders k w'"
  by (auto simp: order_sent_def accepted_orders_def)

lemma untouched_accepts: "untouched w w' \<Longrightarrow> accepted_orders k w \<le> accepted_orders k w'"
  by (simp add: untouched_def accepted_orders_def)

lemma step_accepts: "accepted_orders k w \<le> accepted_orders k (live_step ev w)"
proof (cases ev)
  case (Sdk_Order c)
  then show ?thesis using sdk.outcome [of w c] by (auto dest: order_sent_accepts untouched_accepts)
next
  case (Guard_Order c)
  then show ?thesis using guarded.outcome [of w c] by (auto dest: order_sent_accepts untouched_accepts)
qed (simp_all add: accepted_orders_def)

end
