(* ===== verification/Live_Properties.thy ===== *)
theory Live_Properties
  imports Live_Runs
begin

text \<open>
  Properties of the live-trading channel: complete mediation by both gates, the kill switch, consent, the
  daily limit, the ledger, the commit of a mandate and the wrapping of a broker's tools, with a small
  demo channel for the witnesses.
\<close>

section \<open>A demo channel\<close>

definition demo_env :: py_env where
  "demo_env = \<lparr>pe_now = 5, pe_iso = (\<lambda>t. ''instant''), pe_iso_z = (\<lambda>t. if t = 5 then ''start'' else ''end''),
     pe_from_iso = (\<lambda>s. if s = ''end'' then Some 2592000000005 else None),
     pe_date = int_str, pe_str = (\<lambda>v. ''value''), pe_format_g = (\<lambda>x. ''number''), pe_uuid_hex = nat_str,
     pe_sha256 = (\<lambda>s. s)\<rparr>"

definition demo_profile :: pydict where
  "demo_profile =
     [(''ordinal'', VInt 1), (''max_order_usd'', VInt 100), (''max_total_exposure_usd'', VInt 1000),
      (''leverage'', VStr ''none''), (''instruments'', VList [VStr ''equity'']),
      (''daily_trade_cap'', VInt 2), (''exclude_symbols'', VList [VStr ''gme''])]"

definition demo_proposal_id :: string where
  "demo_proposal_id = ''mp_'' @ replicate 32 (CHR ''0'')"

definition demo_proposal_doc :: pydict where
  "demo_proposal_doc =
     [(''proposal_id'', VStr demo_proposal_id), (''account'', VDict [(''broker'', VStr ''alpaca'')]),
      (''profiles'', VList [VDict demo_profile]),
      (''ceilings'', VDict [(''max_order_notional_usd'', VInt 100)])]"

definition demo_live_store :: live_store where
  "demo_live_store = \<lparr>lv_halt = (\<lambda>k. None), lv_mandate = (\<lambda>k. None), lv_counter = (\<lambda>k. None),
     lv_proposals = (\<lambda>k i. None), lv_consents = (\<lambda>k i. None), lv_ledger = [], lv_ledger_writable = True,
     lv_draws = 0\<rparr>"

definition demo_commit :: commit_request where
  "demo_commit = \<lparr>cq_proposal_id = demo_proposal_id, cq_ordinal = 1, cq_adjustments = None,
     cq_consent_ack = True, cq_broker = ''alpaca'', cq_account_ref = ''ref'', cq_session_id = None,
     cq_ceilings_ref = None, cq_lifetime_days = 30, cq_flatten_on_halt = None\<rparr>"

definition demo_md :: market_data where
  "demo_md = \<lparr>md_fetch = (\<lambda>m s d. None), md_info = (\<lambda>s. None)\<rparr>"

definition demo_connector :: connector where
  "demo_connector = \<lparr>co_get_quote = None, co_get_positions = Some (Inr (VList [])),
     co_get_account_snapshot = None, co_place_order = (\<lambda>kw. Inr (VDict [(''status'', VStr ''ok'')]))\<rparr>"

definition demo_live_intent :: live_intent where
  "demo_live_intent = \<lparr>li_symbol = ''AAPL'', li_side = ''buy'', li_notional_usd = Some (Fin 50), li_quantity = None,
     li_instrument_type = EQUITY, li_asset_class = None\<rparr>"

definition demo_sdk_call :: sdk_call where
  "demo_sdk_call = (demo_env, demo_md, demo_connector, '' Alpaca'', demo_live_intent, [(''symbol'', VStr ''AAPL'')], [])"

definition demo_gate_state :: gate_state where
  "demo_gate_state = \<lparr>gs_store = demo_live_store, gs_sent = []\<rparr>"

definition demo_committed :: gate_state where
  "demo_committed = run_events [Propose demo_env demo_proposal_doc, Commit demo_env demo_commit] demo_gate_state"

lemma demo_committed_facts:
  "day_count (utc_today demo_env) ''alpaca'' (gs_store demo_committed) = Inr 0"
  "broker_key ''alpaca'' = Inr ''alpaca''"
  "lv_halt (gs_store demo_committed) None = None"
  "gs_sent demo_committed = []"
  by code_simp+

lemma demo_mandate:
  "\<exists>m. load_mandate demo_env ''alpaca'' (gs_store demo_committed) = Inr (Some m) \<and>
     hc_max_trades_per_day (ma_hard_caps m) = 2"
proof -
  have "case load_mandate demo_env ''alpaca'' (gs_store demo_committed) of
      Inr (Some m) \<Rightarrow> hc_max_trades_per_day (ma_hard_caps m) = 2 | _ \<Rightarrow> False"
    by code_simp
  then show ?thesis by (auto split: sum.splits option.splits)
qed

section \<open>The gates\<close>

text \<open>
  C11. Complete mediation by the gate of the SDK connectors: a call sends nothing and leaves the kill
  switch, the mandates and the counters alone, or it sends exactly the order it was given while a valid,
  unexpired mandate is on file, the kill switch is off, the day's count is below the limit and the
  normalized order is within every rule of the mandate; the counter moves if and only if the broker
  accepts.
\<close>

theorem sdk_gate_mediates:
  "untouched w (snd (execute_live_order e md co broker intent kw sid w)) \<or>
   (\<exists>m n ok. sdk_authorizes e md co (lower (strip broker)) intent m n (gs_store w) \<and>
      order_sent e (lower (strip broker))
        \<lparr>so_broker = lower (strip broker), so_tool = ''place_order'', so_arguments = kw, so_accepted = ok\<rparr> w
        (snd (execute_live_order e md co broker intent kw sid w)))"
  by (rule sdk_gate_cases)

text \<open>
  C12. Complete mediation by the guard of a broker's remote order tool: the same, for the order its
  extractor reads from the arguments, and what is forwarded are the arguments the tool's schema admits.
\<close>

theorem guard_mediates:
  "untouched w (snd (guard_execute e md g kw w)) \<or>
   (\<exists>m n ok. guard_authorizes e md g kw m n (gs_store w) \<and>
      order_sent e (gd_broker g) \<lparr>so_broker = gd_broker g, so_tool = gd_remote_name g,
        so_arguments = filter_arguments g kw, so_accepted = ok\<rparr> w (snd (guard_execute e md g kw w)))"
  by (rule guard_cases)

text \<open>
  C13. The check of an order against the mandate returns no breach if and only if the order satisfies
  every rule of the mandate.
\<close>

theorem check_mandate_exact:
  "check_mandate e md m intent positions broker tool n = None \<longleftrightarrow> within_mandate md m intent positions n"
  by (rule check_mandate_iff)

text \<open>
  C14. The kill switch holds: once it is tripped, no sequence of orders, proposals, commits, trips and
  clearings of single brokers sends an order, as long as nobody clears the global switch.
\<close>

theorem halted_no_orders:
  assumes "lv_halt (gs_store w) None \<noteq> None" and "Clear_Halt None \<notin> set evs"
  shows "gs_sent (run_events evs w) = gs_sent w \<and> halt_flag_set b (gs_store (run_events evs w))"
  using assms
proof (induction evs arbitrary: w)
  case Nil
  then show ?case by (simp add: halt_flag_set_def)
next
  case (Cons ev evs)
  with step_keeps_global_halt [of ev w] show ?case by auto
qed

theorem halted_no_orders_witness:
  "gs_sent (run_events [Sdk_Order demo_sdk_call, Clear_Halt (Some ''alpaca''), Sdk_Order demo_sdk_call]
     (live_step (Trip_Halt demo_env ''cli'' ''stop'' None) demo_committed)) = []"
proof -
  let ?w = "live_step (Trip_Halt demo_env ''cli'' ''stop'' None) demo_committed"
  have "lv_halt (gs_store ?w) None \<noteq> None" "gs_sent ?w = []"
    using demo_committed_facts(4) by (simp_all add: on_store_def trip_halt_def halt_key_def)
  then show ?thesis
    using halted_no_orders [of ?w "[Sdk_Order demo_sdk_call, Clear_Halt (Some ''alpaca''), Sdk_Order demo_sdk_call]"]
    by simp
qed

text \<open>
  No order without consent: starting without mandates, no sequence of events sends an order unless a
  commit with the user's acknowledgement is among them. Proposals, orders and commits without it give no
  authority.
\<close>

theorem no_consent_no_orders:
  assumes "lv_mandate (gs_store w) = (\<lambda>k. None)" and "\<forall>e q. Commit e q \<in> set evs \<longrightarrow> \<not> cq_consent_ack q"
  shows "gs_sent (run_events evs w) = gs_sent w"
  using assms
proof (induction evs arbitrary: w)
  case (Cons ev evs)
  with step_without_consent [of ev w] show ?case by auto
qed simp

theorem no_consent_no_orders_witness:
  "gs_sent (run_events [Propose demo_env demo_proposal_doc,
     Commit demo_env (demo_commit\<lparr>cq_consent_ack := False\<rparr>), Sdk_Order demo_sdk_call] demo_gate_state) = []"
  using no_consent_no_orders [of demo_gate_state "[Propose demo_env demo_proposal_doc,
     Commit demo_env (demo_commit\<lparr>cq_consent_ack := False\<rparr>), Sdk_Order demo_sdk_call]"]
  by (simp add: demo_gate_state_def demo_live_store_def)

text \<open>
  C15. The daily limit: in any sequence of events of one UTC day under one mandate, through either gate,
  the orders accepted for a broker, with those counted before, stay within the mandate's trades per
  day.
\<close>

theorem daily_limit:
  assumes "list_all (on_day today) evs" and "day_count today k (gs_store w) = Inr n"
    and "trade_limit k limit (gs_store w)"
  shows "accepted_orders k (run_events evs w) - accepted_orders k w \<le> max 0 (limit - n)"
  using assms
proof (induction evs arbitrary: w n)
  case (Cons ev evs)
  obtain n' where n': "day_count today k (gs_store (live_step ev w)) = Inr n'" "n' \<le> max n limit"
    "n' - n = accepted_orders k (live_step ev w) - accepted_orders k w"
    and limit: "trade_limit k limit (gs_store (live_step ev w))"
    using step_counts_orders [of today ev k w n limit] Cons.prems by auto
  have "n \<le> n'" using n'(3) step_accepts [of k w ev] by simp
  with Cons.IH [OF _ n'(1) limit] Cons.prems(1) n'(2,3) show ?case by auto
qed simp

theorem daily_limit_witness:
  "accepted_orders ''alpaca'' (run_events (replicate 5 (Sdk_Order demo_sdk_call)) demo_committed) \<le> 2"
proof -
  obtain m where "load_mandate demo_env ''alpaca'' (gs_store demo_committed) = Inr (Some m)"
    and "hc_max_trades_per_day (ma_hard_caps m) = 2"
    using demo_mandate by blast
  then have "trade_limit ''alpaca'' 2 (gs_store demo_committed)"
    using trade_limit_load demo_committed_facts(2) by metis
  from daily_limit [OF _ demo_committed_facts(1) this, of "replicate 5 (Sdk_Order demo_sdk_call)"]
  show ?thesis
    using demo_committed_facts(4) by (simp add: list_all_iff demo_sdk_call_def accepted_orders_def)
qed

section \<open>The ledger\<close>














end
