(* ===== verification/Mandate_Properties.thy ===== *)
theory Mandate_Properties
  imports Live_Properties
begin

text \<open>
  Properties of the mandate's commit, of the order's size, of the advisory review and of the tools a
  live broker exposes.
\<close>

section \<open>The commit\<close>

lemma load_invalidate [simp]: "load_proposal b i (invalidate_proposal b i s) = None"
  by (cases "proposal_path b i")
    (auto simp: load_proposal_def invalidate_proposal_def proposal_path_def ok_iff split: if_splits)

lemma commit_ok:
  assumes "commit_mandate e q s = Inr (r, t)"
  obtains proposal resolved caps universe k mid cid flatten
  where "load_proposal (cq_broker q) (cq_proposal_id q) s = Some proposal"
    and "resolve_profile proposal (cq_ordinal q) (cq_adjustments q) = Inr resolved"
    and "profile_to_hard_caps resolved = Inr caps" and "profile_to_universe resolved = Inr universe"
    and "broker_key (cq_broker q) = Inr k"
    and "lv_mandate t k = Some (VDict (mandate_doc e q mid cid caps universe flatten))"
    and "dget r ''resolved_profile'' = VDict resolved"
    and "\<And>i. load_proposal (cq_broker q) (cq_proposal_id q) t = Some i \<Longrightarrow> False"
proof -
  note unf = commit_mandate_def ok_iff Let_def case_prod_unfold
  from assms obtain proposal where p: "load_proposal (cq_broker q) (cq_proposal_id q) s = Some proposal"
    by (auto simp: unf)
  from assms p obtain resolved where
    resolved: "resolve_profile proposal (cq_ordinal q) (cq_adjustments q) = Inr resolved"
    by (auto simp: unf)
  from assms p resolved obtain caps universe k where
    caps: "profile_to_hard_caps resolved = Inr caps" and universe: "profile_to_universe resolved = Inr universe"
    and k: "broker_key (cq_broker q) = Inr k"
    by (auto simp: unf)
  define flatten where "flatten = (case cq_flatten_on_halt q of Some b \<Rightarrow> b
    | None \<Rightarrow> val_truthy (dget_or resolved ''flatten_on_halt'' (VBool False)))"
  define h1 where "h1 = new_hex e ''mandate'' s"
  define h2 where "h2 = new_hex e ''cr'' (snd h1)"
  have r: "dget r ''resolved_profile'' = VDict resolved"
    using assms p resolved caps universe k by (auto simp: unf dget_def)
  have t: "\<exists>s'. t = invalidate_proposal (cq_broker q) (cq_proposal_id q) s' \<and>
      lv_mandate s' k = Some (VDict (mandate_doc e q (fst h1) (fst h2) caps universe flatten))"
    using assms p resolved caps universe k
    by (auto simp: unf h1_def h2_def flatten_def intro!: exI)
  then have m: "lv_mandate t k = Some (VDict (mandate_doc e q (fst h1) (fst h2) caps universe flatten))"
    by auto
  have "load_proposal (cq_broker q) (cq_proposal_id q) t = Some i \<Longrightarrow> False" for i
    using t by auto
  with that [OF p resolved caps universe k m r] show ?thesis by blast
qed



text \<open>
  A proposal is committed once: after a commit, no commit of the same proposal succeeds, whatever
  profile, adjustments or ceilings it asks for.
\<close>

theorem commit_consumes_proposal:
  assumes "commit_mandate e q s = Inr (r, t)"
    and "cq_broker q' = cq_broker q" and "cq_proposal_id q' = cq_proposal_id q"
  shows "\<exists>msg. commit_mandate e' q' t = Inl (Commit_Error msg)"
proof -
  have "load_proposal (cq_broker q) (cq_proposal_id q) t = None"
    using commit_ok [OF assms(1)] by (metis not_None_eq)
  then show ?thesis using assms(2,3) by (simp add: commit_mandate_def)
qed

theorem commit_consumes_proposal_witness:
  "\<exists>r t msg. commit_mandate demo_env demo_commit
     (gs_store (live_step (Propose demo_env demo_proposal_doc) demo_gate_state)) = Inr (r, t) \<and>
     commit_mandate demo_env (demo_commit\<lparr>cq_ordinal := 2\<rparr>) t = Inl (Commit_Error msg)"
proof -
  let ?c = "commit_mandate demo_env demo_commit
     (gs_store (live_step (Propose demo_env demo_proposal_doc) demo_gate_state))"
  have "\<not> isl ?c" by code_simp
  then obtain r t where "?c = Inr (r, t)" by (cases ?c) auto
  with commit_consumes_proposal [OF this, of "demo_commit\<lparr>cq_ordinal := 2\<rparr>" demo_env] show ?thesis by auto
qed

text \<open>
  What the commit's checks do not bound. A profile that spells its order limit twice is compared
  with the ceiling under one spelling and committed under the other, so the committed limit is not
  bounded by the ceiling; and an adjustment may replace the leverage \<open>none\<close> by any number, which becomes
  the committed leverage.
\<close>

theorem commit_checks_gaps:
  "(profile_fits_ceilings [(''max_order_usd'', VFloat y), (''max_order_notional_usd'', VFloat x)]
      [(''max_order_notional_usd'', VFloat cap)] \<longleftrightarrow> \<not> flt cap x) \<and>
   (\<exists>caps. profile_to_hard_caps [(''max_order_usd'', VFloat y), (''max_order_notional_usd'', VFloat x)] = Inr caps \<and>
      dget caps ''max_order_notional_usd'' = VFloat y) \<and>
   apply_adjustments [(''leverage'', VFloat z)] [(''leverage'', VStr ''none'')] = Inr [(''leverage'', VFloat z)] \<and>
   (\<exists>caps. profile_to_hard_caps [(''leverage'', VFloat z)] = Inr caps \<and> dget caps ''max_leverage'' = VFloat z)"
proof -
  have zero: "feq y (Fin 0) \<Longrightarrow> y = Fin 0" by (cases y) auto
  show ?thesis
    by (auto simp: profile_fits_ceilings_def normalize_limits_def normalize_limit_def ceiling_aliases_def
        limit_fits_def profile_to_hard_caps_def dget_def dget_or_def val_or_def py_float_def py_iter_def
        py_int_def Let_def dest: zero)
qed

section \<open>The size of an order\<close>

text \<open>
  A quantity cannot smuggle a larger order past the notional limit: when the gate of the connectors
  lets a quantity order on to the check, the notional it is checked with is at least the quantity at the
  quoted price, and at least the notional the caller gave.
\<close>

theorem quantity_is_priced:
  assumes "sdk_normalize_notional md co i = Some i'" and "li_quantity i = Some q"
    and "resolve_order_notional i' = Some x"
  shows "\<exists>price. sdk_quote_price md co i = Some price \<and> fle (fmul q price) x \<and>
    (\<forall>y. li_notional_usd i = Some y \<longrightarrow> fle y x)"
proof -
  obtain price where price: "sdk_quote_price md co i = Some price"
    and enf: "enforced_notional i q price = Some x"
    using assms by (auto simp: sdk_normalize_notional_def resolve_order_notional_def split: option.splits if_splits)
  have "x \<noteq> NaN" using assms(3) by (auto simp: resolve_order_notional_def split: option.splits if_splits)
  let ?y = "case li_notional_usd i of None \<Rightarrow> Fin 0 | Some y \<Rightarrow> y"
  have "x = fmax ?y (fmul q price)" "fmul q price \<noteq> NaN"
    using enf by (auto simp: enforced_notional_def Let_def split: if_splits)
  with fmax_ge [of ?y "fmul q price"] \<open>x \<noteq> NaN\<close> have "fle ?y x" "fle (fmul q price) x" by auto
  with price show ?thesis by auto
qed

definition demo_priced_connector :: connector where
  "demo_priced_connector = demo_connector\<lparr>co_get_quote :=
     Some (\<lambda>s. Inr (VDict [(''quote'', VDict [(''last'', VFloat (Fin 30))])]))\<rparr>"

theorem quantity_is_priced_witness:
  "\<exists>i' x. sdk_normalize_notional demo_md demo_priced_connector (demo_live_intent\<lparr>li_quantity := Some (Fin 2)\<rparr>) =
     Some i' \<and> resolve_order_notional i' = Some x \<and> fle (fmul (Fin 2) (Fin 30)) x"
proof -
  let ?i = "demo_live_intent\<lparr>li_quantity := Some (Fin 2)\<rparr>"
  let ?j = "?i\<lparr>li_notional_usd := Some (Fin 60)\<rparr>"
  have quote: "sdk_quote_price demo_md demo_priced_connector ?i = Some (Fin 30)"
    by (simp add: sdk_quote_price_def connector_quote_price_def demo_priced_connector_def demo_connector_def
        status_is_def dget_def py_float_def)
  have norm: "sdk_normalize_notional demo_md demo_priced_connector ?i = Some ?j"
    using quote by (simp add: sdk_normalize_notional_def enforced_notional_def demo_live_intent_def fle_def fmax_def)
  have res: "resolve_order_notional ?j = Some (Fin 60)" by (simp add: resolve_order_notional_def fle_def)
  from quantity_is_priced [OF norm _ res, of "Fin 2"] quote norm res show ?thesis by auto
qed

text \<open>The guard of remote tools loses the asset class of a quantity order.\<close>

lemma guard_drops_asset_class:
  "li_quantity i = Some q \<Longrightarrow> normalize_intent_notional g md i = Some i' \<Longrightarrow>
     order_asset_class i' = instrument_asset_class (li_instrument_type i)"
  by (auto simp: normalize_intent_notional_def order_asset_class_def split: option.splits)

section \<open>The tools of a live broker\<close>

text \<open>
  The tools of a live broker: the plain ones are exactly the discovered tools classified as reads,
  every other one is behind the guard, and while the kill switch is on it is left out; a tool the
  curated map calls a write is never a plain one, whatever the server says of it.
\<close>

theorem order_tools_are_guarded:
  "(Plain_Read t \<in> set (wrap_live_broker_tools maps broker tools s) \<longleftrightarrow>
      t \<in> set tools \<and> classify_tool (rt_remote_name t) (rt_read_only_hint t) (maps broker) = READ) \<and>
   (Guarded t c \<in> set (wrap_live_broker_tools maps broker tools s) \<longleftrightarrow>
      t \<in> set tools \<and> classify_tool (rt_remote_name t) (rt_read_only_hint t) (maps broker) = c \<and> c \<noteq> READ \<and>
      \<not> halt_flag_set (Some broker) s) \<and>
   (Option.bind (maps broker) (\<lambda>m. map_of m (rt_remote_name t)) = Some WRITE \<longrightarrow>
      Plain_Read t \<notin> set (wrap_live_broker_tools maps broker tools s))"
  by (auto simp: wrap_live_broker_tools_def wrap_tool_def classify_tool_def Let_def split: if_splits)

theorem order_tools_are_guarded_witness:
  "let t = \<lparr>rt_remote_name = ''place_order'', rt_read_only_hint = Some True\<rparr>
   in Plain_Read t \<notin> set (wrap_live_broker_tools (\<lambda>b. Some [(''place_order'', WRITE)]) ''alpaca'' [t] demo_live_store)"
  using order_tools_are_guarded [of "\<lparr>rt_remote_name = ''place_order'', rt_read_only_hint = Some True\<rparr>"
      "\<lambda>b. Some [(''place_order'', WRITE)]" "''alpaca''"
      "[\<lparr>rt_remote_name = ''place_order'', rt_read_only_hint = Some True\<rparr>]" demo_live_store READ]
  by (simp add: classify_tool_def)

section \<open>The advisory review\<close>

abbreviation with_advisory :: "string \<Rightarrow> advisory_provider list \<Rightarrow> guard \<Rightarrow> guard" where
  "with_advisory v ps g \<equiv> g\<lparr>gd_advisory_env := v, gd_providers := ps\<rparr>"

lemma read_first_advisory [simp]: "read_first (with_advisory v ps g) ts = read_first g ts"
  by (induction ts) (auto split: sum.split pyval.split)

lemma broker_quote_advisory [simp]: "broker_quote_price (with_advisory v ps g) ts s = broker_quote_price g ts s"
  by (induction ts) (auto split: sum.split option.split)

lemma guard_parts_advisory [simp]:
  "read_tools (with_advisory v ps g) op fb = read_tools g op fb"
  "get_extractor (with_advisory v ps g) b = get_extractor g b"
  "filter_arguments (with_advisory v ps g) kw = filter_arguments g kw"
  by (simp_all add: read_tools_def get_extractor_def filter_arguments_def)

lemma normalize_advisory [simp]: "normalize_intent_notional (with_advisory v ps g) md i = normalize_intent_notional g md i"
  by (simp add: normalize_intent_notional_def guard_quote_price_def cong: option.case_cong)

definition same_effect :: "pyval live \<times> gate_state \<Rightarrow> pyval live \<times> gate_state \<Rightarrow> bool" where
  "same_effect x y \<longleftrightarrow> isl (fst x) = isl (fst y) \<and> gs_sent (snd x) = gs_sent (snd y) \<and>
     lv_counter (gs_store (snd x)) = lv_counter (gs_store (snd y)) \<and>
     lv_mandate (gs_store (snd x)) = lv_mandate (gs_store (snd y)) \<and>
     lv_halt (gs_store (snd x)) = lv_halt (gs_store (snd y))"

lemma guard_allow_advisory: "same_effect (guard_allow e (with_advisory v ps g) m i kw pos bal w) (guard_allow e g m i kw pos bal w)"
  by (auto simp: same_effect_def guard_allow_def Let_def case_prod_unfold split: sum.split)

lemma guard_refusals_advisory [simp]:
  "guard_deny e (with_advisory v ps g) r c m re w = guard_deny e g r c m re w"
  "guard_deny_breach e (with_advisory v ps g) br m' i re w = guard_deny_breach e g br m' i re w"
  by (simp_all add: guard_deny_def guard_deny_breach_def guard_refusal_def)

text \<open>
  Advice never decides: whatever the providers say, raise or whether the review is on, the guard
  sends the same orders and changes the counters, the mandates and the kill switch in the same way; the
  verdict of a review is one of the most severe of its results.
\<close>

theorem advisory_never_blocks:
  "same_effect (guard_execute e md (with_advisory v ps g) kw w) (guard_execute e md g kw w) \<and>
   (\<forall>r \<in> set (snd (review ps c)). verdict_severity (ar_verdict r) \<le> verdict_severity (fst (review ps c)))"
proof -
  have refl: "same_effect x x" for x by (simp add: same_effect_def)
  have "same_effect (guard_execute e md (with_advisory v ps g) kw w) (guard_execute e md g kw w)"
    unfolding guard_execute_def Let_def
    by (auto simp: refl guard_allow_advisory split: sum.split option.split)
  moreover have "verdict_severity u \<le> verdict_severity (worst_verdict u rs) \<and>
      (\<forall>r \<in> set rs. verdict_severity (ar_verdict r) \<le> verdict_severity (worst_verdict u rs))" for u rs
  proof (induction rs arbitrary: u)
    case (Cons r rs)
    from Cons.IH [of "ar_verdict r"] Cons.IH [of u] show ?case by auto
  qed simp
  ultimately show ?thesis by (auto simp: review_def split: list.split)
qed

definition demo_context :: advisory_context where
  "demo_context = \<lparr>ac_symbol = ''AAPL'', ac_side = ''buy'', ac_notional_usd = Fin 50, ac_account_equity = Fin 1000,
     ac_utilization_ratio = Fin 0, ac_open_position_count = 0, ac_total_exposure_usd = Fin 0, ac_funding_usd = Fin 0\<rparr>"

theorem advisory_never_blocks_witness:
  "same_effect
     (guard_execute demo_env demo_md
        (with_advisory ''1'' [\<lparr>ap_id = ''a'', ap_review = (\<lambda>c. Inl ''Timeout'')\<rparr>] demo_guard) [] demo_gate_state)
     (guard_execute demo_env demo_md demo_guard [] demo_gate_state) \<and>
   fst (review [\<lparr>ap_id = ''a'', ap_review = (\<lambda>c. Inl ''Timeout'')\<rparr>] demo_context) = Review_Unavailable"
  using advisory_never_blocks [of demo_env demo_md "[\<lparr>ap_id = ''a'', ap_review = (\<lambda>c. Inl ''Timeout'')\<rparr>]"
      "''1''" demo_guard "[]" demo_gate_state]
  by (simp add: review_def run_provider_def)

end
