(* ===== verification/Live_Schedule.thy ===== *)
theory Live_Schedule
  imports Live_Store
begin

text \<open>
  The wall-clock scheduler of the live runtime (\<open>agent/src/live/runtime/scheduler.py\<close>). The jobs are the
  values of the scheduler's dictionary, in its order and addressed by their ids. A run of the loop is
  given by the readings of the clock at the top of its turns; a sleep, which lasts until the next
  reading, has no effect of its own. The callback of a fired job is a function on the world outside the
  scheduler: what it raises is swallowed, and it does not add or remove jobs.
\<close>

section \<open>Jobs\<close>

record job =
  jb_id :: string
  jb_next_run_at :: int
  jb_schedule :: string
  jb_payload :: "pydict option"

definition default_max_recheck_ms :: int where
  "default_max_recheck_ms = 5 * 60 * 1000"

definition default_interval_ms :: int where
  "default_interval_ms = 60 * 1000"

definition interval_ms :: "job \<Rightarrow> int option" where
  "interval_ms j =
     (let spec = lower (strip (jb_schedule j))
      in if spec = ''once'' then None
         else if take 9 spec = ''interval:''
         then (case int_of_str (strip (drop 9 spec)) of
                 None \<Rightarrow> Some default_interval_ms
               | Some ms \<Rightarrow> Some (if 0 < ms then ms else default_interval_ms))
         else Some default_interval_ms)"

definition earliest_next_run :: "job list \<Rightarrow> int option" where
  "earliest_next_run js = (if js = [] then None else Some (Min (set (map jb_next_run_at js))))"

definition due_jobs :: "job list \<Rightarrow> int \<Rightarrow> job list" where
  "due_jobs js now = sort_key jb_next_run_at (filter (\<lambda>j. jb_next_run_at j \<le> now) js)"

definition compute_sleep_ms :: "job list \<Rightarrow> int \<Rightarrow> int \<Rightarrow> int" where
  "compute_sleep_ms js now max_recheck =
     (case earliest_next_run js of
        None \<Rightarrow> max_recheck
      | Some earliest \<Rightarrow> if earliest - now \<le> 0 then 0 else min (earliest - now) max_recheck)"

text \<open>The job after a fire, or \<open>None\<close> when it does not stay.\<close>

definition advance_after_fire :: "job \<Rightarrow> int \<Rightarrow> job option" where
  "advance_after_fire j now = map_option (\<lambda>i. j\<lparr>jb_next_run_at := now + i\<rparr>) (interval_ms j)"

section \<open>The scheduler\<close>

definition add_job :: "job \<Rightarrow> job list \<Rightarrow> job list" where
  "add_job j js = (if row_at jb_id (jb_id j) js = None then js @ [j] else put_row jb_id j js)"

definition remove_job :: "string \<Rightarrow> job list \<Rightarrow> bool \<times> job list" where
  "remove_job i js = (row_at jb_id i js \<noteq> None, filter (\<lambda>j. jb_id j \<noteq> i) js)"

definition fire_job :: "(job \<Rightarrow> 'w \<Rightarrow> 'w) \<Rightarrow> int \<Rightarrow> job \<Rightarrow> job list \<times> 'w \<Rightarrow> job list \<times> 'w" where
  "fire_job on_fire now j s =
     (let w = on_fire j (snd s)
      in case advance_after_fire j now of
           None \<Rightarrow> (snd (remove_job (jb_id j) (fst s)), w)
         | Some j' \<Rightarrow> (put_row jb_id j' (fst s), w))"

definition fire_due :: "(job \<Rightarrow> 'w \<Rightarrow> 'w) \<Rightarrow> int \<Rightarrow> job list \<times> 'w \<Rightarrow> job list \<times> 'w" where
  "fire_due on_fire now s = fold (fire_job on_fire now) (due_jobs (fst s) now) s"

text \<open>A turn of the loop, and the turns at the given readings of the clock until the loop is stopped.\<close>

definition loop_turn :: "(job \<Rightarrow> 'w \<Rightarrow> 'w) \<Rightarrow> int \<Rightarrow> int \<Rightarrow> job list \<times> 'w \<Rightarrow> job list \<times> 'w" where
  "loop_turn on_fire max_recheck now s =
     (if 0 < compute_sleep_ms (fst s) now max_recheck then s else fire_due on_fire now s)"

definition run_turns :: "(job \<Rightarrow> 'w \<Rightarrow> 'w) \<Rightarrow> int \<Rightarrow> int list \<Rightarrow> job list \<times> 'w \<Rightarrow> job list \<times> 'w" where
  "run_turns on_fire max_recheck nows s = fold (loop_turn on_fire max_recheck) nows s"

section \<open>The sleep\<close>

lemma interval_positive: "interval_ms j = Some i \<Longrightarrow> 0 < i"
  by (auto simp: interval_ms_def default_interval_ms_def Let_def split: if_splits option.splits)

lemma earliest_le: "earliest_next_run js = Some t \<Longrightarrow> t \<le> now \<longleftrightarrow> (\<exists>j \<in> set js. jb_next_run_at j \<le> now)"
  by (auto simp: earliest_next_run_def Min_le_iff split: if_splits)

lemma sleep_bounds: "0 \<le> m \<Longrightarrow> 0 \<le> compute_sleep_ms js now m \<and> compute_sleep_ms js now m \<le> m"
  by (auto simp: compute_sleep_ms_def split: option.splits)

lemma sleep_positive_iff:
  "0 < m \<Longrightarrow> 0 < compute_sleep_ms js now m \<longleftrightarrow> due_jobs js now = []"
proof (cases "earliest_next_run js")
  case None
  then show "0 < m \<Longrightarrow> ?thesis"
    by (auto simp: compute_sleep_ms_def earliest_next_run_def due_jobs_def split: if_splits)
next
  case (Some t)
  have "due_jobs js now = [] \<longleftrightarrow> \<not> (\<exists>j \<in> set js. jb_next_run_at j \<le> now)"
    by (auto simp: due_jobs_def simp flip: set_empty)
  then show "0 < m \<Longrightarrow> ?thesis"
    using earliest_le [OF Some, of now] by (auto simp: compute_sleep_ms_def Some)
qed

text \<open>No job is overslept: the loop wakes up no later than the earliest job is due.\<close>

lemma sleep_not_past_due:
  assumes "j \<in> set js" and "now < jb_next_run_at j"
  shows "now + compute_sleep_ms js now m \<le> jb_next_run_at j"
proof -
  have "Min (set (map jb_next_run_at js)) \<le> jb_next_run_at j" using assms(1) by auto
  moreover have "js \<noteq> []" using assms(1) by auto
  ultimately show ?thesis
    using assms(2) min.cobounded1 [of "Min (set (map jb_next_run_at js)) - now" m]
    by (auto simp: compute_sleep_ms_def earliest_next_run_def)
qed

section \<open>What a turn does to a job\<close>

abbreviation ids_distinct :: "job list \<Rightarrow> bool" where
  "ids_distinct js \<equiv> distinct (map jb_id js)"

lemma advance_id: "advance_after_fire j now = Some j' \<Longrightarrow> jb_id j' = jb_id j"
  by (auto simp: advance_after_fire_def)

lemma row_at_filter_other:
  "row_at key k (filter (\<lambda>r. key r \<noteq> i) rows) = (if k = i then None else row_at key k rows)"
  by (induction rows) auto

lemma fire_job_fst:
  "fst (fire_job f now j s) =
     (case advance_after_fire j now of
        None \<Rightarrow> filter (\<lambda>r. jb_id r \<noteq> jb_id j) (fst s)
      | Some j' \<Rightarrow> put_row jb_id j' (fst s))"
  by (simp add: fire_job_def remove_job_def Let_def split: option.splits)

lemma fire_job_distinct: "ids_distinct (fst s) \<Longrightarrow> ids_distinct (fst (fire_job f now j s))"
  by (auto simp: fire_job_fst distinct_map_filter split: option.splits)

lemma fire_job_row:
  assumes "row_at jb_id (jb_id j) (fst s) \<noteq> None"
  shows "row_at jb_id k (fst (fire_job f now j s)) =
     (if k = jb_id j then advance_after_fire j now else row_at jb_id k (fst s))"
  using assms
  by (auto simp: fire_job_fst row_at_filter_other row_at_put_row advance_id split: option.splits)

lemma fire_list_row:
  assumes "ids_distinct ds" and "\<forall>j \<in> set ds. row_at jb_id (jb_id j) (fst s) = Some j"
  shows "row_at jb_id k (fst (fold (fire_job f now) ds s)) =
     (case row_at jb_id k ds of None \<Rightarrow> row_at jb_id k (fst s) | Some j \<Rightarrow> advance_after_fire j now)"
  using assms
proof (induction ds arbitrary: s)
  case (Cons j ds)
  let ?s = "fire_job f now j s"
  have row: "row_at jb_id i (fst ?s) = (if i = jb_id j then advance_after_fire j now else row_at jb_id i (fst s))"
    for i
    using fire_job_row [of j s] Cons.prems(2) by simp
  have "\<forall>d \<in> set ds. row_at jb_id (jb_id d) (fst ?s) = Some d"
  proof
    fix d assume d: "d \<in> set ds"
    then have "jb_id d \<noteq> jb_id j" using Cons.prems(1) by (metis distinct.simps(2) image_eqI list.simps(9) set_map)
    then show "row_at jb_id (jb_id d) (fst ?s) = Some d" using row [of "jb_id d"] Cons.prems(2) d by simp
  qed
  with Cons.IH [of ?s] Cons.prems(1)
  have "row_at jb_id k (fst (fold (fire_job f now) ds ?s)) =
     (case row_at jb_id k ds of None \<Rightarrow> row_at jb_id k (fst ?s) | Some d \<Rightarrow> advance_after_fire d now)"
    by simp
  moreover have "jb_id j = k \<Longrightarrow> row_at jb_id k ds = None"
    using Cons.prems(1) by (auto simp: row_at_None_iff)
  ultimately show ?case
    unfolding fold_simps row row_at_Cons by (cases "jb_id j = k") simp_all
qed simp

lemma due_distinct: "ids_distinct js \<Longrightarrow> ids_distinct (due_jobs js now)"
  by (auto simp: due_jobs_def distinct_map intro: inj_on_subset)

lemma due_rows:
  assumes "ids_distinct js"
  shows "row_at jb_id k (due_jobs js now) =
     (case row_at jb_id k js of
        None \<Rightarrow> None
      | Some j \<Rightarrow> if jb_next_run_at j \<le> now then Some j else None)"
proof (cases "row_at jb_id k js")
  case None
  then have "k \<notin> jb_id ` set (due_jobs js now)" by (auto simp: row_at_None_iff due_jobs_def)
  then have "row_at jb_id k (due_jobs js now) = None" by (rule row_at_None_iff [THEN iffD2])
  then show ?thesis using None by simp
next
  case (Some j)
  have j: "j \<in> set js" "jb_id j = k" using row_at_SomeD [OF Some] by auto
  note distinct = due_distinct [OF assms]
  show ?thesis
  proof (cases "jb_next_run_at j \<le> now")
    case True
    then have "j \<in> set (due_jobs js now)" using j by (simp add: due_jobs_def)
    from row_at_mem [OF distinct this] show ?thesis using Some True j by simp
  next
    case False
    have "k \<notin> jb_id ` set (due_jobs js now)"
    proof
      assume "k \<in> jb_id ` set (due_jobs js now)"
      then obtain d where d: "d \<in> set js" "jb_id d = k" "jb_next_run_at d \<le> now"
        by (auto simp: due_jobs_def)
      then have "d = j" using row_at_mem [OF assms d(1)] Some by simp
      with d False show False by simp
    qed
    then show ?thesis using Some False by (simp add: row_at_None_iff)
  qed
qed

lemma fire_due_row:
  assumes "ids_distinct (fst s)"
  shows "row_at jb_id k (fst (fire_due f now s)) =
     (case row_at jb_id k (fst s) of
        None \<Rightarrow> None
      | Some j \<Rightarrow> if jb_next_run_at j \<le> now then advance_after_fire j now else Some j)"
proof -
  have "\<forall>j \<in> set (due_jobs (fst s) now). row_at jb_id (jb_id j) (fst s) = Some j"
    using row_at_mem [OF assms] by (simp add: due_jobs_def)
  from fire_list_row [OF due_distinct [OF assms] this] show ?thesis
    by (simp add: fire_due_def due_rows [OF assms] split: option.splits)
qed

lemma fire_due_distinct: "ids_distinct (fst s) \<Longrightarrow> ids_distinct (fst (fire_due f now s))"
proof -
  have "ids_distinct (fst s) \<Longrightarrow> ids_distinct (fst (fold (fire_job f now) ds s))" for ds
    by (induction ds arbitrary: s) (auto simp: fire_job_distinct)
  then show "ids_distinct (fst s) \<Longrightarrow> ids_distinct (fst (fire_due f now s))" by (simp add: fire_due_def)
qed

text \<open>After the due jobs have fired none of the jobs left is due.\<close>

lemma fire_due_none_due:
  assumes "ids_distinct (fst s)"
  shows "due_jobs (fst (fire_due f now s)) now = []"
proof -
  have "now < jb_next_run_at j" if "j \<in> set (fst (fire_due f now s))" for j
  proof -
    from row_at_mem [OF fire_due_distinct [OF assms] that] fire_due_row [OF assms, of "jb_id j" f now]
    show ?thesis
      by (auto simp: advance_after_fire_def interval_positive split: option.splits if_splits
          dest!: interval_positive)
  qed
  then show ?thesis by (fastforce simp: due_jobs_def filter_empty_conv simp flip: set_empty)
qed

section \<open>The cadence of the loop\<close>

text \<open>The loop with a callback that only writes down the time and the job.\<close>

definition note_fire :: "int \<Rightarrow> job \<Rightarrow> (int \<times> string) list \<Rightarrow> (int \<times> string) list" where
  "note_fire now j w = w @ [(now, jb_id j)]"

text \<open>
  What a run of the loop fires, with the clock's reading: the turns with the callback \<open>note_fire\<close>, which
  writes down the reading it is called at.
\<close>

fun fires :: "int \<Rightarrow> int list \<Rightarrow> job list \<Rightarrow> (int \<times> string) list" where
  "fires m [] js = []"
| "fires m (now # nows) js =
     snd (loop_turn (note_fire now) m now (js, [])) @
     fires m nows (fst (loop_turn (note_fire now) m now (js, [])))"

lemma fire_due_notes:
  "snd (fire_due (note_fire now) now (js, w)) = w @ map (\<lambda>j. (now, jb_id j)) (due_jobs js now)"
proof -
  have "snd (fold (fire_job (note_fire now) now) ds s) = snd s @ map (\<lambda>j. (now, jb_id j)) ds" for ds s
    by (induction ds arbitrary: s) (auto simp: fire_job_def note_fire_def Let_def split: option.splits)
  then show ?thesis by (simp add: fire_due_def)
qed

lemma turn_cases:
  assumes "0 < m" and "ids_distinct js"
  shows "snd (loop_turn (note_fire now) m now (js, [])) = map (\<lambda>j. (now, jb_id j)) (due_jobs js now)"
    and "row_at jb_id k (fst (loop_turn (note_fire now) m now (js, []))) =
      (case row_at jb_id k js of
        None \<Rightarrow> None
      | Some j \<Rightarrow> if jb_next_run_at j \<le> now then advance_after_fire j now else Some j)"
    and "ids_distinct (fst (loop_turn (note_fire now) m now (js, [])))"
proof -
  have idle: "due_jobs js now = [] \<Longrightarrow> row_at jb_id k js = Some j \<Longrightarrow> now < jb_next_run_at j" for k j
    using due_rows [OF assms(2), of k now] by (auto split: if_splits)
  show "snd (loop_turn (note_fire now) m now (js, [])) = map (\<lambda>j. (now, jb_id j)) (due_jobs js now)"
    by (simp add: loop_turn_def sleep_positive_iff [OF assms(1)] fire_due_notes)
  show "row_at jb_id k (fst (loop_turn (note_fire now) m now (js, []))) =
      (case row_at jb_id k js of
        None \<Rightarrow> None
      | Some j \<Rightarrow> if jb_next_run_at j \<le> now then advance_after_fire j now else Some j)"
    using fire_due_row [of "(js, [])" k "note_fire now" now] assms(2) idle [of k]
    by (cases "due_jobs js now = []")
      (auto simp: loop_turn_def sleep_positive_iff [OF assms(1)] split: option.splits dest: not_le_imp_less)
  show "ids_distinct (fst (loop_turn (note_fire now) m now (js, [])))"
    using fire_due_distinct [of "(js, [])" "note_fire now" now] assms(2) by (simp add: loop_turn_def)
qed

definition fire_times :: "string \<Rightarrow> (int \<times> string) list \<Rightarrow> int list" where
  "fire_times k w = map fst (filter (\<lambda>x. snd x = k) w)"

lemma fire_times_append [simp]: "fire_times k (u @ w) = fire_times k u @ fire_times k w"
  by (simp add: fire_times_def)

lemma fire_times_turn:
  assumes "ids_distinct js"
  shows "fire_times k (map (\<lambda>j. (now, jb_id j)) (due_jobs js now)) =
     (case row_at jb_id k (due_jobs js now) of None \<Rightarrow> [] | Some j \<Rightarrow> [now])"
proof -
  have "distinct (map jb_id ds) \<Longrightarrow> fire_times k (map (\<lambda>j. (now, jb_id j)) ds) =
     (case row_at jb_id k ds of None \<Rightarrow> [] | Some j \<Rightarrow> [now])" for ds
  proof (induction ds)
    case (Cons d ds)
    have "k \<notin> jb_id ` set ds \<Longrightarrow> fire_times k (map (\<lambda>j. (now, jb_id j)) ds) = []"
      by (auto simp: fire_times_def filter_empty_conv)
    with Cons show ?case by (auto simp: fire_times_def)
  qed (simp add: fire_times_def)
  from this [OF due_distinct [OF assms]] show ?thesis .
qed

lemma fires_absent:
  assumes "0 < m" and "ids_distinct js" and "row_at jb_id k js = None"
  shows "fire_times k (fires m nows js) = []"
  using assms(2,3)
proof (induction nows arbitrary: js)
  case (Cons now nows)
  note turn = turn_cases(1,3) [OF assms(1) Cons.prems(1), of now] turn_cases(2) [OF assms(1) Cons.prems(1), of k now]
  have "row_at jb_id k (fst (loop_turn (note_fire now) m now (js, []))) = None"
    using turn(3) Cons.prems(2) by simp
  with Cons.IH [OF turn(2)] Cons.prems show ?case by (simp add: turn(1) fire_times_turn due_rows)
qed (simp add: fire_times_def)

text \<open>
  A job that is scheduled fires not before it is due, and the fires of a recurring job are at least one
  interval apart, even when the clock jumps; a job that does not recur fires at most once.
\<close>

lemma fires_of_job:
  assumes "0 < m" and "ids_distinct js" and "row_at jb_id k js = Some j"
  shows "(\<forall>t \<in> set (fire_times k (fires m nows js)). jb_next_run_at j \<le> t) \<and>
    (case interval_ms j of
       None \<Rightarrow> length (fire_times k (fires m nows js)) \<le> 1
     | Some i \<Rightarrow> sorted_wrt (\<lambda>t u. t + i \<le> u) (fire_times k (fires m nows js)))"
  using assms(2,3)
proof (induction nows arbitrary: js j)
  case (Cons now nows)
  let ?js = "fst (loop_turn (note_fire now) m now (js, []))"
  note distinct = turn_cases(3) [OF assms(1) Cons.prems(1), of now]
  have row: "row_at jb_id k ?js = (if jb_next_run_at j \<le> now then advance_after_fire j now else Some j)"
    using turn_cases(2) [OF assms(1) Cons.prems(1), of k now] Cons.prems(2) by simp
  have times: "fire_times k (fires m (now # nows) js) =
      (if jb_next_run_at j \<le> now then [now] else []) @ fire_times k (fires m nows ?js)"
    using Cons.prems by (simp add: turn_cases(1) [OF assms(1) Cons.prems(1)] fire_times_turn due_rows)
  show ?case
  proof (cases "jb_next_run_at j \<le> now")
    case False
    with Cons.IH [OF distinct, of j] row show ?thesis unfolding times by (simp split: option.splits)
  next
    case due: True
    show ?thesis
    proof (cases "interval_ms j")
      case None
      then have "row_at jb_id k ?js = None" using row due by (simp add: advance_after_fire_def)
      from fires_absent [OF assms(1) distinct this] show ?thesis unfolding times using due None by simp
    next
      case (Some i)
      let ?j = "j\<lparr>jb_next_run_at := now + i\<rparr>"
      have j: "row_at jb_id k ?js = Some ?j" "interval_ms ?j = Some i"
        using row due Some by (simp_all add: advance_after_fire_def interval_ms_def)
      from Cons.IH [OF distinct j(1)] j(2) interval_positive [OF Some] show ?thesis
        unfolding times using due Some by fastforce
    qed
  qed
qed (simp add: fire_times_def split: option.splits)

end
