(* ===== verification/Live_Jobs.thy ===== *)
theory Live_Jobs
  imports Live_Schedule "HOL-Library.AList"
begin

text \<open>
  The durable state of the live runtime (\<open>agent/src/live/runtime\<close>): the job store of \<open>jobstore.py\<close> with its
  write sequence, the heartbeats of \<open>liveness.py\<close>, and the triggers of \<open>triggers.py\<close>. The text of a file is
  the JSON value it decodes to, or \<open>Garbled\<close>; the conversion of an instant to the local time of a zone is a
  parameter.
\<close>

section \<open>The job store\<close>

datatype file_text = No_File | Garbled | Json pyval

definition job_schema_version :: int where
  "job_schema_version = 1"

definition job_to_dict :: "job \<Rightarrow> pydict" where
  "job_to_dict j =
     [(''id'', VStr (jb_id j)), (''next_run_at'', VInt (jb_next_run_at j)),
      (''schedule'', VStr (jb_schedule j)),
      (''payload'', case jb_payload j of None \<Rightarrow> VNone | Some d \<Rightarrow> VDict d)]"

definition envelope :: "job list \<Rightarrow> pyval" where
  "envelope js =
     VDict [(''schema_version'', VInt job_schema_version), (''jobs'', VList (map (\<lambda>j. VDict (job_to_dict j)) js))]"

definition as_object :: "pyval \<Rightarrow> pydict live" where
  "as_object v = (case v of VDict d \<Rightarrow> Inr d | _ \<Rightarrow> Inl (Value_Error ''store 'jobs' contains a non-object entry''))"

definition extract_jobs :: "pyval \<Rightarrow> pydict list live" where
  "extract_jobs v =
     (case v of
        VDict d \<Rightarrow>
          (case dget d ''jobs'' of
             VList l \<Rightarrow> rmap as_object l
           | _ \<Rightarrow> Inl (Value_Error ''store 'jobs' is missing or not a list''))
      | _ \<Rightarrow> Inl (Value_Error ''store root is not a JSON object''))"

definition job_from_dict :: "pydict \<Rightarrow> job live" where
  "job_from_dict d =
     rbind (ditem d ''id'') (\<lambda>i.
     rbind (ditem d ''next_run_at'') (\<lambda>next.
     rbind (ditem d ''schedule'') (\<lambda>schedule.
     case (i, schedule) of
       (VStr i, VStr schedule) \<Rightarrow>
         rbind (case next of
                  VInt t \<Rightarrow> Inr t
                | VBool b \<Rightarrow> Inr (of_bool b)
                | _ \<Rightarrow> Inl (Type_Error ''job 'next_run_at' must be an int (epoch ms)'')) (\<lambda>t.
         rbind (case dget d ''payload'' of
                  VNone \<Rightarrow> Inr None
                | VDict p \<Rightarrow> Inr (Some p)
                | _ \<Rightarrow> Inl (Type_Error ''job 'payload' must be an object or null'')) (\<lambda>payload.
         Inr \<lparr>jb_id = i, jb_next_run_at = t, jb_schedule = schedule, jb_payload = payload\<rparr>))
     | _ \<Rightarrow> Inl (Type_Error ''job 'id' and 'schedule' must be strings''))))"

definition read_jobs :: "pyval \<Rightarrow> job list live" where
  "read_jobs v = rbind (extract_jobs v) (rmap job_from_dict)"

text \<open>
  \<open>load\<close>: the jobs, or the cause of a \<open>CorruptJobStoreError\<close> with the text moved to the quarantine.
\<close>

record job_files =
  jf_store :: file_text
  jf_quarantined :: "file_text list"

definition load_jobs :: "job_files \<Rightarrow> (live_exc + job list) \<times> job_files" where
  "load_jobs f =
     (let quarantine = f\<lparr>jf_store := No_File, jf_quarantined := jf_quarantined f @ [jf_store f]\<rparr>
      in case jf_store f of
           No_File \<Rightarrow> (Inr [], f)
         | Garbled \<Rightarrow> (Inl (Value_Error ''not JSON''), quarantine)
         | Json v \<Rightarrow> (case read_jobs v of Inl x \<Rightarrow> (Inl x, quarantine) | Inr js \<Rightarrow> (Inr js, f)))"

text \<open>
  The write sequence of \<open>save\<close> and the disk it acts on. A file whose contents were not synchronised can
  hold anything after a crash, and a rename whose directory was not synchronised may be undone by it.
\<close>

datatype save_op = Open_Tmp | Write_Tmp pyval | Fsync_Tmp | Replace_Target | Fsync_Dir

definition save_ops :: "job list \<Rightarrow> save_op list" where
  "save_ops js = [Open_Tmp, Write_Tmp (envelope js), Fsync_Tmp, Replace_Target, Fsync_Dir]"

record job_disk =
  jd_target :: file_text
  jd_target_synced :: bool
  jd_tmp :: file_text
  jd_tmp_synced :: bool
  jd_renamed_over :: "file_text option"

fun do_op :: "save_op \<Rightarrow> job_disk \<Rightarrow> job_disk" where
  "do_op Open_Tmp d = d\<lparr>jd_tmp := Garbled, jd_tmp_synced := False\<rparr>"
| "do_op (Write_Tmp v) d = d\<lparr>jd_tmp := Json v, jd_tmp_synced := False\<rparr>"
| "do_op Fsync_Tmp d = d\<lparr>jd_tmp_synced := True\<rparr>"
| "do_op Replace_Target d =
     d\<lparr>jd_target := jd_tmp d, jd_target_synced := jd_tmp_synced d, jd_tmp := No_File,
       jd_renamed_over := Some (jd_target d)\<rparr>"
| "do_op Fsync_Dir d = d\<lparr>jd_renamed_over := None\<rparr>"

definition run_ops :: "save_op list \<Rightarrow> job_disk \<Rightarrow> job_disk" where
  "run_ops ops d = fold do_op ops d"

definition save_jobs :: "job list \<Rightarrow> job_disk \<Rightarrow> job_disk" where
  "save_jobs js d = run_ops (save_ops js) d"

definition after_crash :: "job_disk \<Rightarrow> file_text \<Rightarrow> bool" where
  "after_crash d t \<longleftrightarrow> jd_renamed_over d = Some t \<or> (jd_target_synced d \<longrightarrow> t = jd_target d)"

definition stores :: "file_text \<Rightarrow> job list \<Rightarrow> bool" where
  "stores t js \<longleftrightarrow> fst (load_jobs \<lparr>jf_store = t, jf_quarantined = []\<rparr>) = Inr js"

lemma rmap_map_Inr: "(\<And>x. x \<in> set xs \<Longrightarrow> f (g x) = Inr x) \<Longrightarrow> rmap f (map g xs) = Inr xs"
  by (induction xs) auto

lemma job_dict_roundtrip [simp]: "job_from_dict (job_to_dict j) = Inr j"
  by (cases j) (simp add: job_from_dict_def job_to_dict_def ditem_def dget_def split: option.split)

lemma envelope_roundtrip [simp]: "read_jobs (envelope js) = Inr js"
proof -
  have "rmap as_object (map (\<lambda>j. VDict (job_to_dict j)) js) = Inr (map job_to_dict js)"
    by (induction js) (simp_all add: as_object_def)
  then show ?thesis by (simp add: read_jobs_def envelope_def extract_jobs_def dget_def rmap_map_Inr)
qed

lemma stores_envelope [simp]: "stores (Json (envelope js)) js"
  by (simp add: stores_def load_jobs_def)

lemma stores_missing [simp]: "stores No_File []"
  by (simp add: stores_def load_jobs_def)

text \<open>A prefix of the write sequence.\<close>

lemma save_prefix:
  assumes "jd_target_synced d" and "jd_renamed_over d = None" and "after_crash (run_ops (take n (save_ops js)) d) t"
  shows "t = jd_target d \<or> t = Json (envelope js)"
proof -
  have "n = 0 \<or> n = 1 \<or> n = 2 \<or> n = 3 \<or> n = 4 \<or> 5 \<le> n" by arith
  then show ?thesis
    using assms
    by (elim disjE)
      (auto simp: save_ops_def run_ops_def after_crash_def take_Cons' numeral_eq_Suc split: if_splits)
qed

section \<open>Heartbeats\<close>

type_synonym heartbeats = "(string \<times> string) list"

definition default_staleness_ms :: int where
  "default_staleness_ms = 90 * 1000"

definition heartbeat_key :: "string \<Rightarrow> string live" where
  "heartbeat_key runner =
     (let key = strip runner
      in if key = [] then Inl (Value_Error ''runner_id must not be empty'')
         else if CHR ''/'' \<in> set key \<or> CHR 0x5C \<in> set key \<or> contains key ''..''
         then Inl (Value_Error ''invalid runner_id'')
         else Inr key)"

definition write_heartbeat :: "string \<Rightarrow> int \<Rightarrow> heartbeats \<Rightarrow> (int \<times> heartbeats) live" where
  "write_heartbeat runner tick h =
     rbind (heartbeat_key runner) (\<lambda>k. Inr (tick, AList.update k (int_str tick) h))"

definition last_tick :: "string \<Rightarrow> heartbeats \<Rightarrow> int option" where
  "last_tick runner h =
     (case heartbeat_key runner of
        Inl x \<Rightarrow> None
      | Inr k \<Rightarrow> Option.bind (map_of h k) (\<lambda>text. int_of_str (strip text)))"

definition is_runner_alive :: "string \<Rightarrow> int \<Rightarrow> int \<Rightarrow> heartbeats \<Rightarrow> bool" where
  "is_runner_alive runner now staleness h =
     (case last_tick runner h of None \<Rightarrow> False | Some tick \<Rightarrow> now - tick \<le> staleness)"

fun reap :: "int \<Rightarrow> int \<Rightarrow> string list \<Rightarrow> heartbeats \<Rightarrow> string list \<times> heartbeats" where
  "reap now staleness [] h = ([], h)"
| "reap now staleness (runner # entries) h =
     (if is_runner_alive runner now staleness h then reap now staleness entries h
      else let (reaped, h) = reap now staleness entries (AList.delete runner h) in (runner # reaped, h))"

definition reap_stale :: "int \<Rightarrow> int \<Rightarrow> heartbeats \<Rightarrow> string list \<times> heartbeats" where
  "reap_stale now staleness h = reap now staleness (map fst h) h"

subsection \<open>Numbers and their texts\<close>

lemma more_digits_all: "list_all is_digit ds \<Longrightarrow> more_digits ds = (ds, [])"
  by (induction ds) auto

lemma int_str_roundtrip [simp]: "int_of_str (strip (int_str i)) = Some i"
proof -
  have digits: "list_all is_digit (nat_str n)" "nat_str n \<noteq> []" "digits_val (nat_str n) = n" for n
    using nat_str_digits by blast+
  have space: "list_all (\<lambda>c. \<not> is_space c) (nat_str n)" for n
    using digits(1) [of n] by (auto simp: list_all_iff digit_not_space)
  have "\<not> is_space (CHR ''-'')" by (simp add: is_space_def)
  then have strip: "strip (int_str i) = int_str i" using space by (intro strip_no_space) (simp add: int_str_def)
  have part: "digit_part (nat_str n) = (nat_str n, [])" for n
    using digits(1,2) [of n] more_digits_all by (cases "nat_str n") (auto simp: digit_part_def)
  have sign: "sign_part (nat_str n) = (False, nat_str n)" for n
    using digits(1,2) [of n] digit_not_space by (cases "nat_str n") (auto simp: sign_part_def)
  have neg: "sign_part (CHR ''-'' # cs) = (True, cs)" for cs by (simp add: sign_part_def)
  show ?thesis
    unfolding strip by (cases "i < 0") (simp_all add: int_of_str_def int_str_def strip_no_space space
        sign neg part digits \<open>\<not> is_space (CHR ''-'')\<close>)
qed

lemma dropWhile_rev_last: "t = [] \<or> \<not> P (last t) \<Longrightarrow> dropWhile P (rev t) = rev t"
  by (cases t rule: rev_cases) auto

lemma strip_idem [simp]: "strip (strip s) = strip s"
proof -
  let ?t = "dropWhile is_space (rev (dropWhile is_space s))"
  have "?t = [] \<or> \<not> is_space (last ?t)"
  proof (cases "dropWhile is_space s")
    case (Cons c cs)
    then have "\<not> is_space c" by (metis dropWhile_eq_Cons_conv)
    then have "dropWhile is_space (rev cs @ [c]) \<noteq> []" by (simp add: dropWhile_append)
    moreover have "last (dropWhile is_space (rev cs @ [c])) = c"
      using \<open>\<not> is_space c\<close> by (simp add: dropWhile_append last_appendR)
    ultimately show ?thesis using Cons \<open>\<not> is_space c\<close> by simp
  qed (simp only: rev.simps dropWhile.simps simp_thms)
  then have "dropWhile is_space (rev ?t) = rev ?t" by (rule dropWhile_rev_last)
  moreover have "dropWhile is_space ?t = ?t" by (metis dropWhile_idem)
  ultimately show ?thesis by (simp add: strip_def)
qed

subsection \<open>Liveness\<close>

lemma heartbeat_key_idem: "heartbeat_key r = Inr k \<Longrightarrow> heartbeat_key k = Inr k"
  by (auto simp: heartbeat_key_def Let_def split: if_splits)

lemma tick_written:
  "write_heartbeat r t h = Inr (t', h') \<Longrightarrow> last_tick r h' = Some t \<and> t' = t"
  by (auto simp: write_heartbeat_def last_tick_def rbind_Inr_iff update_conv)

lemma alive_key:
  "is_runner_alive r now st h \<longleftrightarrow> (\<exists>k. heartbeat_key r = Inr k \<and> is_runner_alive k now st h)"
  by (cases "heartbeat_key r") (auto simp: is_runner_alive_def last_tick_def heartbeat_key_idem split: sum.splits)

text \<open>Removing the heartbeat of a runner that is not alive changes no runner's liveness.\<close>

lemma alive_delete:
  assumes "\<not> is_runner_alive d now st h"
  shows "is_runner_alive r now st (AList.delete d h) = is_runner_alive r now st h"
proof (cases "heartbeat_key r")
  case (Inr k)
  show ?thesis
  proof (cases "k = d")
    case True
    have "\<not> is_runner_alive r now st h" using assms Inr True alive_key [of r] heartbeat_key_idem by auto
    then show ?thesis using Inr True by (simp add: is_runner_alive_def last_tick_def delete_conv)
  next
    case False
    then show ?thesis using Inr by (simp add: is_runner_alive_def last_tick_def delete_conv)
  qed
qed (simp add: is_runner_alive_def last_tick_def)

lemma reap_result:
  "fst (reap now st es h) = filter (\<lambda>r. \<not> is_runner_alive r now st h) es"
  "is_runner_alive r now st (snd (reap now st es h)) = is_runner_alive r now st h"
  "map_of (snd (reap now st es h)) r =
     (if r \<in> set es \<and> \<not> is_runner_alive r now st h then None else map_of h r)"
proof (induction es arbitrary: h)
  case (Cons e es)
  {
    case 1
    show ?case
      using Cons.IH(1) [of h] Cons.IH(1) [of "AList.delete e h"] alive_delete [of e now st h]
      by (simp add: Let_def case_prod_unfold)
  next
    case 2
    show ?case
      using Cons.IH(2) [of h] Cons.IH(2) [of "AList.delete e h"] alive_delete [of e now st h]
      by (simp add: Let_def case_prod_unfold)
  next
    case 3
    show ?case
      using Cons.IH(3) [of h] Cons.IH(3) [of "AList.delete e h"] alive_delete [of e now st h r]
      by (auto simp: Let_def case_prod_unfold delete_conv)
  }
qed simp_all

section \<open>Triggers\<close>

type_synonym date = "int \<times> int \<times> int"

text \<open>The number of a day, counted from 1970-01-01, and \<open>date.weekday()\<close> (Monday is 0).\<close>

definition day_number :: "date \<Rightarrow> int" where
  "day_number x =
     (case x of (y, m, d) \<Rightarrow>
      (let y = (if m \<le> 2 then y - 1 else y); mp = (m + 9) mod 12; yoe = y mod 400;
           doy = (153 * mp + 2) div 5 + d - 1
       in (y div 400) * 146097 + (yoe * 365 + yoe div 4 - yoe div 100 + doy) - 719468))"

definition weekday :: "int \<Rightarrow> int" where
  "weekday day = (day + 3) mod 7"

record market_spec =
  ms_tz :: string
  ms_open_time :: int
  ms_close_time :: int
  ms_weekdays :: "int list"
  ms_always_open :: bool
  ms_holidays :: "date list"

definition us_equity_holidays :: "date list" where
  "us_equity_holidays =
     [(2026, 1, 1), (2026, 1, 19), (2026, 2, 16), (2026, 4, 3), (2026, 5, 25), (2026, 6, 19),
      (2026, 7, 3), (2026, 9, 7), (2026, 11, 26), (2026, 12, 25),
      (2027, 1, 1), (2027, 1, 18), (2027, 2, 15), (2027, 3, 26), (2027, 5, 31), (2027, 6, 18),
      (2027, 7, 5), (2027, 9, 6), (2027, 11, 25), (2027, 12, 24)]"

text \<open>Times of a day are counted in milliseconds.\<close>

definition clock_time :: "int \<Rightarrow> int \<Rightarrow> int" where
  "clock_time h m = (h * 60 + m) * 60000"

definition market_specs :: "(string \<times> market_spec) list" where
  "market_specs =
     [(''us_equity'', \<lparr>ms_tz = ''America/New_York'', ms_open_time = clock_time 9 30,
        ms_close_time = clock_time 16 0, ms_weekdays = [0, 1, 2, 3, 4], ms_always_open = False,
        ms_holidays = us_equity_holidays\<rparr>),
      (''crypto'', \<lparr>ms_tz = ''UTC'', ms_open_time = 0, ms_close_time = 0, ms_weekdays = [],
        ms_always_open = True, ms_holidays = []\<rparr>)]"

type_synonym local_clock = "string \<Rightarrow> int \<Rightarrow> int"

definition market_is_open_at :: "local_clock \<Rightarrow> string \<Rightarrow> int \<Rightarrow> bool live" where
  "market_is_open_at zone market now =
     (case map_of market_specs market of
        None \<Rightarrow> Inl (Value_Error ''unknown market'')
      | Some spec \<Rightarrow> Inr
          (if ms_always_open spec then True
           else let here = zone (ms_tz spec) now; day = here div 86400000; time = here mod 86400000
                in if ms_weekdays spec \<noteq> [] \<and> weekday day \<notin> set (ms_weekdays spec) then False
                   else if day \<in> set (map day_number (ms_holidays spec)) then False
                   else ms_open_time spec \<le> time \<and> time < ms_close_time spec))"

datatype trigger_kind = Interval_Trigger | Market_Trigger | Event_Trigger

text \<open>
  The field \<open>market\<close> of a trigger. The class body declares the field and then a class method of the same
  name, so the default of the field is that method and not \<open>None\<close>.
\<close>

datatype market_field = No_Market | Market_Key string | Market_Method

record trigger =
  tg_kind :: trigger_kind
  tg_interval_ms :: int
  tg_epoch_ms :: int
  tg_market :: market_field
  tg_predicate :: "(pydict \<Rightarrow> bool) option"

definition default_trigger :: "trigger_kind \<Rightarrow> trigger" where
  "default_trigger k =
     \<lparr>tg_kind = k, tg_interval_ms = 0, tg_epoch_ms = 0, tg_market = Market_Method, tg_predicate = None\<rparr>"

definition interval_trigger :: "int \<Rightarrow> int \<Rightarrow> trigger live" where
  "interval_trigger ms epoch =
     (if ms \<le> 0 then Inl (Value_Error ''interval_ms must be > 0'')
      else Inr ((default_trigger Interval_Trigger)\<lparr>tg_interval_ms := ms, tg_epoch_ms := epoch\<rparr>))"

definition market_trigger :: "string \<Rightarrow> trigger live" where
  "market_trigger market =
     (if map_of market_specs market = None then Inl (Value_Error ''unknown market'')
      else Inr ((default_trigger Market_Trigger)\<lparr>tg_market := Market_Key market\<rparr>))"

definition event_trigger :: "(pydict \<Rightarrow> bool) \<Rightarrow> trigger" where
  "event_trigger p = (default_trigger Event_Trigger)\<lparr>tg_predicate := Some p\<rparr>"

definition due_now :: "local_clock \<Rightarrow> trigger \<Rightarrow> int \<Rightarrow> pydict option \<Rightarrow> bool live" where
  "due_now zone t now event_state =
     (case tg_kind t of
        Interval_Trigger \<Rightarrow>
          if tg_interval_ms t \<le> 0 then Inl (Value_Error ''interval trigger requires interval_ms > 0'')
          else Inr (0 \<le> now - tg_epoch_ms t \<and> (now - tg_epoch_ms t) mod tg_interval_ms t = 0)
      | Market_Trigger \<Rightarrow>
          (case tg_market t of
             No_Market \<Rightarrow> Inl (Value_Error ''market trigger requires a market'')
           | Market_Key m \<Rightarrow> market_is_open_at zone m now
           | Market_Method \<Rightarrow> Inl (Value_Error ''unknown market''))
      | Event_Trigger \<Rightarrow>
          (case tg_predicate t of
             None \<Rightarrow> Inl (Value_Error ''event trigger requires a predicate'')
           | Some p \<Rightarrow> Inr (p (case event_state of None \<Rightarrow> [] | Some d \<Rightarrow> d))))"

text \<open>The static holidays are days of the week on which the market would otherwise open.\<close>

lemma holidays_on_weekdays: "list_all (\<lambda>x. weekday (day_number x) < 5) us_equity_holidays"
  by (simp add: us_equity_holidays_def day_number_def weekday_def Let_def)

lemma day_number_epoch: "day_number (1970, 1, 1) = 0" "day_number (2000, 3, 1) = 11017"
  by (simp_all add: day_number_def Let_def)

lemma market_open_hours:
  assumes "market_is_open_at zone ''us_equity'' now = Inr True"
  shows "weekday (zone ''America/New_York'' now div 86400000) < 5"
    and "zone ''America/New_York'' now mod 86400000 \<in> {34200000 ..< 57600000}"
  using assms
  by (auto simp: market_is_open_at_def market_specs_def clock_time_def Let_def weekday_def split: if_splits)

text \<open>A market trigger made without a market is never due: the check for a missing market cannot see it.\<close>

lemma default_market_trigger: "due_now zone (default_trigger Market_Trigger) now st = Inl (Value_Error ''unknown market'')"
  by (simp add: due_now_def default_trigger_def)

end
