(* ===== verification/Live_Reconcile.thy ===== *)
theory Live_Reconcile
  imports Live_Gate Live_Jobs
begin

text \<open>
  The reconciliation of the broker's state with the last recorded one
  (\<open>agent/src/live/runtime/reconcile.py\<close>). The recorded state of a broker is a file; the broker's reads
  are parameters, an answer being \<open>Inl\<close> of an exception's text or the rows read.
\<close>

section \<open>Rows\<close>

fun first_truthy :: "string list \<Rightarrow> pydict \<Rightarrow> pyval option" where
  "first_truthy [] d = None"
| "first_truthy (k # ks) d = (if val_truthy (dget d k) then Some (dget d k) else first_truthy ks d)"

definition client_order_id :: "py_env \<Rightarrow> pydict \<Rightarrow> string option" where
  "client_order_id e d =
     map_option (py_str e) (first_truthy [''client_order_id'', ''client_oid'', ''clientOrderId'', ''clord_id''] d)"

definition broker_id_keys :: "string list" where
  "broker_id_keys = [''order_id'', ''id'', ''broker_order_id'']"

definition order_identity :: "py_env \<Rightarrow> pydict \<Rightarrow> string option" where
  "order_identity e d =
     (case first_truthy broker_id_keys d of
        Some v \<Rightarrow> Some (py_str e v)
      | None \<Rightarrow> client_order_id e d)"

definition is_confirmed :: "py_env \<Rightarrow> pydict \<Rightarrow> bool" where
  "is_confirmed e d \<longleftrightarrow> first_truthy broker_id_keys d \<noteq> None \<and>
     lower (py_str e (dget_or d ''status'' (VStr []))) \<notin> {[], ''pending'', ''submitted'', ''unconfirmed''}"

definition position_symbol :: "py_env \<Rightarrow> pydict \<Rightarrow> string option" where
  "position_symbol e d = map_option (py_str e) (first_truthy [''symbol'', ''ticker''] d)"

fun first_present :: "string list \<Rightarrow> pydict \<Rightarrow> pyval option" where
  "first_present [] d = None"
| "first_present (k # ks) d =
     (if map_of d k = None \<or> map_of d k = Some VNone then first_present ks d else map_of d k)"

definition position_qty :: "pydict \<Rightarrow> pyfloat" where
  "position_qty d =
     (case first_present [''qty'', ''quantity'', ''position''] d of
        None \<Rightarrow> Fin 0
      | Some v \<Rightarrow> (case py_float v of Inl x \<Rightarrow> Fin 0 | Inr q \<Rightarrow> q))"

section \<open>The difference\<close>

datatype delta_kind = Matched | Unknown_Fill | Orphan_Order | Mid_Order_Ambiguous

datatype delta_subject = Order_Subject | Position_Subject

record reconcile_delta =
  rd_kind :: delta_kind
  rd_subject :: delta_subject
  rd_identity :: string
  rd_client_order_id :: "string option"
  rd_detail :: string
  rd_recorded :: "pydict option"
  rd_broker :: "pydict option"

record reconcile_report =
  rp_broker :: string
  rp_ts :: string
  rp_deltas :: "reconcile_delta list"
  rp_recorded_client_order_ids :: "string list"
  rp_state_persisted :: bool
  rp_had_prior_state :: bool

definition halting_kinds :: "delta_kind set" where
  "halting_kinds = {Unknown_Fill, Mid_Order_Ambiguous}"

definition requires_halt :: "reconcile_report \<Rightarrow> bool" where
  "requires_halt r = list_ex (\<lambda>d. rd_kind d \<in> halting_kinds) (rp_deltas r)"

definition is_safe :: "reconcile_report \<Rightarrow> bool" where
  "is_safe r = (\<not> requires_halt r)"

text \<open>A dictionary comprehension over rows: of rows with the same key the last one stays.\<close>

definition rows_by :: "('a \<Rightarrow> string option) \<Rightarrow> ('a \<Rightarrow> 'b) \<Rightarrow> 'a list \<Rightarrow> string \<Rightarrow> 'b option" where
  "rows_by key f rows k = map_of (rev (concat (map (\<lambda>r. case key r of None \<Rightarrow> [] | Some k \<Rightarrow> [(k, f r)]) rows))) k"

definition order_delta :: "py_env \<Rightarrow> pydict list \<Rightarrow> pydict \<Rightarrow> reconcile_delta" where
  "order_delta e broker_orders r =
     (let identity = order_identity e r; coid = client_order_id e r;
          name = (case identity of Some i \<Rightarrow> i | None \<Rightarrow> (case coid of Some c \<Rightarrow> c | None \<Rightarrow> ''<unknown>''))
      in case Option.bind identity (rows_by (order_identity e) id broker_orders) of
           Some b \<Rightarrow>
             \<lparr>rd_kind = Matched, rd_subject = Order_Subject, rd_identity = name, rd_client_order_id = coid,
              rd_detail = ''recorded order still open on broker'', rd_recorded = Some r, rd_broker = Some b\<rparr>
         | None \<Rightarrow>
             (if is_confirmed e r
              then \<lparr>rd_kind = Orphan_Order, rd_subject = Order_Subject, rd_identity = name,
                    rd_client_order_id = coid,
                    rd_detail = ''confirmed order absent from broker open-orders (cancelled / rejected / filled-and-cleared); not resent'',
                    rd_recorded = Some r, rd_broker = None\<rparr>
              else \<lparr>rd_kind = Mid_Order_Ambiguous, rd_subject = Order_Subject, rd_identity = name,
                    rd_client_order_id = coid,
                    rd_detail = ''submitted-but-unconfirmed order: may have filled before the audit write; no-retry rule forbids resend - surfaced for halt'',
                    rd_recorded = Some r, rd_broker = None\<rparr>))"

definition diff_orders :: "py_env \<Rightarrow> pydict list \<Rightarrow> pydict list \<Rightarrow> reconcile_delta list" where
  "diff_orders e recorded broker_orders = map (order_delta e broker_orders) recorded"

definition position_delta :: "py_env \<Rightarrow> pydict list \<Rightarrow> pydict \<Rightarrow> reconcile_delta list" where
  "position_delta e recorded p =
     (case position_symbol e p of
        None \<Rightarrow> []
      | Some symbol \<Rightarrow>
          let q = position_qty p; known = rows_by (position_symbol e) position_qty recorded symbol;
              view = map_option (\<lambda>x. [(''symbol'', VStr symbol), (''qty'', VFloat x)]) known
          in if (case known of None \<Rightarrow> False | Some x \<Rightarrow> feq x q)
             then [\<lparr>rd_kind = Matched, rd_subject = Position_Subject, rd_identity = symbol,
                    rd_client_order_id = None, rd_detail = ''recorded position matches broker truth'',
                    rd_recorded = view, rd_broker = Some p\<rparr>]
             else [\<lparr>rd_kind = Unknown_Fill, rd_subject = Position_Subject, rd_identity = symbol,
                    rd_client_order_id = None,
                    rd_detail = ''broker reports a position/quantity we have no record of (recorded='' @
                      pe_str e (opt_num known) @ '', broker='' @ pe_str e (VFloat q) @
                      ''); real money moved without a matching audit record'',
                    rd_recorded = view, rd_broker = Some p\<rparr>])"

definition diff_positions :: "py_env \<Rightarrow> pydict list \<Rightarrow> pydict list \<Rightarrow> reconcile_delta list" where
  "diff_positions e recorded positions = concat (map (position_delta e recorded) positions)"

section \<open>The pass\<close>

type_synonym runtime_files = "string \<Rightarrow> file_text"

definition runtime_state_schema_version :: int where
  "runtime_state_schema_version = 1"

text \<open>A garbled file is renamed aside.\<close>

definition load_state :: "string \<Rightarrow> runtime_files \<Rightarrow> (pydict option \<times> runtime_files) live" where
  "load_state broker fs =
     rbind (broker_key broker) (\<lambda>k.
       Inr (case fs k of
              Json (VDict d) \<Rightarrow> (Some d, fs)
            | Garbled \<Rightarrow> (None, fs(k := No_File))
            | _ \<Rightarrow> (None, fs)))"

definition state_dict ::
  "string \<Rightarrow> string \<Rightarrow> pydict list \<Rightarrow> pydict list \<Rightarrow> pydict \<Rightarrow> pydict" where
  "state_dict broker ts orders positions balance =
     [(''schema_version'', VInt runtime_state_schema_version), (''broker'', VStr broker),
      (''reconciled_at'', VStr ts), (''open_orders'', VList (map VDict orders)),
      (''positions'', VList (map VDict positions)), (''balance'', VDict balance)]"

definition persist_state ::
  "string \<Rightarrow> pydict list \<Rightarrow> pydict list \<Rightarrow> pydict \<Rightarrow> string \<Rightarrow> runtime_files \<Rightarrow> runtime_files live" where
  "persist_state broker orders positions balance ts fs =
     rbind (broker_key broker) (\<lambda>k. Inr (fs(k := Json (VDict (state_dict broker ts orders positions balance)))))"

definition mapping :: "pyval \<Rightarrow> pydict live" where
  "mapping v = (case v of VDict d \<Rightarrow> Inr d | _ \<Rightarrow> Inl (Attribute_Error ''get''))"

definition recorded_rows :: "pydict option \<Rightarrow> string \<Rightarrow> pydict list live" where
  "recorded_rows prior k =
     (case prior of
        None \<Rightarrow> Inr []
      | Some d \<Rightarrow>
          if d = [] then Inr [] else rbind (py_iter (dget_or d k (VList []))) (rmap mapping))"

definition broker_read :: "string + 'a \<Rightarrow> 'a live" where
  "broker_read a = (case a of Inl x \<Rightarrow> Inl (Remote_Error x) | Inr r \<Rightarrow> Inr r)"

record broker_reads =
  br_positions :: "string + pydict list"
  br_balance :: "string + pydict"
  br_open_orders :: "string + pydict list"

definition make_report ::
  "py_env \<Rightarrow> string \<Rightarrow> pydict option \<Rightarrow> pydict list \<Rightarrow> pydict list \<Rightarrow> pydict list \<Rightarrow> pydict list \<Rightarrow>
   reconcile_report" where
  "make_report e broker prior recorded_orders recorded_positions orders positions =
     \<lparr>rp_broker = broker, rp_ts = pe_iso e (pe_now e),
      rp_deltas = (if prior = None then []
                   else diff_orders e recorded_orders orders @ diff_positions e recorded_positions positions),
      rp_recorded_client_order_ids =
        concat (map (\<lambda>r. case client_order_id e r of Some c \<Rightarrow> if c = [] then [] else [c] | None \<Rightarrow> [])
          recorded_orders),
      rp_state_persisted = False, rp_had_prior_state = (prior \<noteq> None)\<rparr>"

definition reconcile ::
  "py_env \<Rightarrow> string \<Rightarrow> broker_reads \<Rightarrow> live_store \<Rightarrow> runtime_files \<Rightarrow> reconcile_report live \<times> runtime_files" where
  "reconcile e broker reads s fs =
     (case rbind (load_mandate e broker s) (\<lambda>m. load_state broker fs) of
        Inl x \<Rightarrow> (Inl x, fs)
      | Inr (prior, fs) \<Rightarrow>
          (case
             rbind (recorded_rows prior ''open_orders'') (\<lambda>recorded_orders.
             rbind (recorded_rows prior ''positions'') (\<lambda>recorded_positions.
             rbind (broker_read (br_open_orders reads)) (\<lambda>orders.
             rbind (broker_read (br_positions reads)) (\<lambda>positions.
             rbind (broker_read (br_balance reads)) (\<lambda>balance.
             let report = make_report e broker prior recorded_orders recorded_positions orders positions
             in if is_safe report
                then rbind (persist_state broker orders positions balance (rp_ts report) fs)
                       (\<lambda>fs. Inr (report\<lparr>rp_state_persisted := True\<rparr>, fs))
                else Inr (report, fs)))))) of
             Inl x \<Rightarrow> (Inl x, fs)
           | Inr (report, fs) \<Rightarrow> (Inr report, fs)))"

section \<open>When a pass is safe\<close>

text \<open>What a recorded order and a position of the broker must be for the pass to be safe.\<close>

definition order_settled :: "py_env \<Rightarrow> pydict list \<Rightarrow> pydict \<Rightarrow> bool" where
  "order_settled e orders r \<longleftrightarrow> is_confirmed e r \<or>
     (\<exists>i. order_identity e r = Some i \<and> (\<exists>b \<in> set orders. order_identity e b = Some i))"

definition position_known :: "py_env \<Rightarrow> pydict list \<Rightarrow> pydict \<Rightarrow> bool" where
  "position_known e recorded p \<longleftrightarrow>
     (\<forall>symbol. position_symbol e p = Some symbol \<longrightarrow>
        (\<exists>x. rows_by (position_symbol e) position_qty recorded symbol = Some x \<and> feq x (position_qty p)))"

lemma rows_by_simps [simp]:
  "rows_by key f [] k = None"
  "rows_by key f (r # rows) k =
     (case rows_by key f rows k of
        Some x \<Rightarrow> Some x
      | None \<Rightarrow> if key r = Some k then Some (f r) else None)"
  by (auto simp: rows_by_def map_add_def split: option.split)

lemma rows_by_None_iff: "rows_by key f rows k = None \<longleftrightarrow> (\<forall>r \<in> set rows. key r \<noteq> Some k)"
  by (induction rows) (auto split: option.split)

lemma rows_by_Some: "rows_by key f rows k = Some x \<Longrightarrow> \<exists>r \<in> set rows. key r = Some k \<and> x = f r"
  by (induction rows) (auto split: option.splits if_splits)

lemma rows_by_distinct:
  assumes "p \<in> set rows" and "key p = Some k" and "\<And>r. r \<in> set rows \<Longrightarrow> key r = Some k \<Longrightarrow> r = p"
  shows "rows_by key f rows k = Some (f p)"
proof -
  have "rows_by key f rows k \<noteq> None" using assms(1,2) by (auto simp: rows_by_None_iff)
  then obtain x where x: "rows_by key f rows k = Some x" by blast
  from rows_by_Some [OF x] obtain r where "r \<in> set rows" "key r = Some k" "x = f r" by blast
  with assms(3) x show ?thesis by auto
qed

lemma order_delta_halts: "rd_kind (order_delta e orders r) \<in> halting_kinds \<longleftrightarrow> \<not> order_settled e orders r"
proof -
  have "Option.bind (order_identity e r) (rows_by (order_identity e) id orders) = None \<longleftrightarrow>
      \<not> (\<exists>i. order_identity e r = Some i \<and> (\<exists>b \<in> set orders. order_identity e b = Some i))"
    by (cases "order_identity e r") (auto simp: rows_by_None_iff)
  then show ?thesis
    by (auto simp: order_delta_def order_settled_def halting_kinds_def Let_def split: option.split)
qed

lemma position_delta_halts:
  "(\<exists>d \<in> set (position_delta e recorded p). rd_kind d \<in> halting_kinds) \<longleftrightarrow> \<not> position_known e recorded p"
proof (cases "position_symbol e p")
  case None
  then show ?thesis by (simp add: position_delta_def position_known_def)
next
  case (Some symbol)
  have "(\<exists>d \<in> set (position_delta e recorded p). rd_kind d \<in> halting_kinds) \<longleftrightarrow>
      \<not> (case rows_by (position_symbol e) position_qty recorded symbol of
           None \<Rightarrow> False | Some x \<Rightarrow> feq x (position_qty p))"
    by (simp add: position_delta_def halting_kinds_def Some Let_def)
  then show ?thesis using Some by (auto simp: position_known_def split: option.split)
qed

lemma report_safe_iff:
  "is_safe (make_report e broker prior recorded_orders recorded_positions orders positions) \<longleftrightarrow>
     prior = None \<or>
     (\<forall>r \<in> set recorded_orders. order_settled e orders r) \<and>
     (\<forall>p \<in> set positions. position_known e recorded_positions p)"
proof -
  have "list_ex (\<lambda>d. rd_kind d \<in> halting_kinds) (diff_orders e recorded_orders orders) \<longleftrightarrow>
      (\<exists>r \<in> set recorded_orders. \<not> order_settled e orders r)"
    by (simp add: diff_orders_def list_ex_iff order_delta_halts)
  moreover have "list_ex (\<lambda>d. rd_kind d \<in> halting_kinds) (diff_positions e recorded_positions positions) \<longleftrightarrow>
      (\<exists>p \<in> set positions. \<not> position_known e recorded_positions p)"
    using position_delta_halts [of e recorded_positions] by (auto simp: diff_positions_def list_ex_iff)
  ultimately show ?thesis by (auto simp: is_safe_def requires_halt_def make_report_def)
qed

section \<open>The pass on a recorded state\<close>

text \<open>The state file holds what a clean pass wrote.\<close>

definition recorded_state ::
  "string \<Rightarrow> runtime_files \<Rightarrow> pydict list \<Rightarrow> pydict list \<Rightarrow> bool" where
  "recorded_state broker fs orders positions \<longleftrightarrow>
     (\<exists>k ts balance. broker_key broker = Inr k \<and> fs k = Json (VDict (state_dict broker ts orders positions balance)))"

lemma rmap_mapping [simp]: "rmap mapping (map VDict ds) = Inr ds"
  by (induction ds) (simp_all add: mapping_def)

lemma reconcile_recorded:
  assumes "recorded_state broker fs recorded_orders recorded_positions"
    and "load_mandate e broker s = Inr m"
    and "br_open_orders reads = Inr orders" and "br_positions reads = Inr positions"
    and "br_balance reads = Inr balance"
  shows "\<exists>prior. prior \<noteq> None \<and>
    (let r = make_report e broker prior recorded_orders recorded_positions orders positions
     in if is_safe r
        then \<exists>fs'. reconcile e broker reads s fs = (Inr (r\<lparr>rp_state_persisted := True\<rparr>), fs') \<and>
          recorded_state broker fs' orders positions
        else reconcile e broker reads s fs = (Inr r, fs))"
proof -
  from assms(1) obtain k ts old where k: "broker_key broker = Inr k"
    and f: "fs k = Json (VDict (state_dict broker ts recorded_orders recorded_positions old))"
    by (auto simp: recorded_state_def)
  let ?prior = "Some (state_dict broker ts recorded_orders recorded_positions old)"
  have rows: "recorded_rows ?prior ''open_orders'' = Inr recorded_orders"
    "recorded_rows ?prior ''positions'' = Inr recorded_positions"
    by (simp_all add: recorded_rows_def state_dict_def dget_or_def py_iter_def)
  have "load_state broker fs = Inr (?prior, fs)" by (simp add: load_state_def k f)
  then show ?thesis
    using assms(2-5) k rows
    by (intro exI [of _ ?prior])
      (auto simp: reconcile_def broker_read_def persist_state_def recorded_state_def Let_def)
qed

end
