(* ===== verification/Live_Sweep.thy ===== *)
theory Live_Sweep
  imports Live_Reconcile
begin

text \<open>
  The preemptive action on a halt (\<open>agent/src/live/runtime/flatten.py\<close>): cancel the resting orders, then
  close the positions when the mandate permits it. The broker is a function of the number of the request
  and the request; each request is kept in the state, and so is the ledger. An exception that leaves the
  sweep keeps the effects it has had.
\<close>

record sweep_state =
  sw_store :: live_store
  sw_requests :: "pydict list"

type_synonym broker_submit_fn = "nat \<Rightarrow> pydict \<Rightarrow> string + pydict"

record sweep_env =
  se_submit :: broker_submit_fn
  se_positions :: "string + pydict list"
  se_open_orders :: "string + pydict list"
  se_runner_tool :: "string \<Rightarrow> string \<Rightarrow> string option"

record sweep_report =
  sp_broker :: string
  sp_cancelled_order_ids :: "pyval list"
  sp_flatten_orders_submitted :: "pydict list"
  sp_flatten_skipped_reason :: "string option"
  sp_errors :: "pydict list"

definition new_sweep_report :: "string \<Rightarrow> sweep_report" where
  "new_sweep_report broker =
     \<lparr>sp_broker = broker, sp_cancelled_order_ids = [], sp_flatten_orders_submitted = [],
      sp_flatten_skipped_reason = None, sp_errors = []\<rparr>"

definition sweep_error :: "pydict \<Rightarrow> sweep_report \<Rightarrow> sweep_report" where
  "sweep_error d r = r\<lparr>sp_errors := sp_errors r @ [d]\<rparr>"

definition submit_sweep_request :: "sweep_env \<Rightarrow> pydict \<Rightarrow> sweep_state \<Rightarrow> (string + pydict) \<times> sweep_state" where
  "submit_sweep_request x request w =
     (se_submit x (length (sw_requests w)) request, w\<lparr>sw_requests := sw_requests w @ [request]\<rparr>)"

definition sweep_tool :: "sweep_env \<Rightarrow> string \<Rightarrow> string \<Rightarrow> string \<Rightarrow> string" where
  "sweep_tool x broker operation fallback =
     (case se_runner_tool x broker operation of Some t \<Rightarrow> if t = [] then fallback else t | None \<Rightarrow> fallback)"

text \<open>A ledger that cannot be written raises here.\<close>

definition sweep_audit ::
  "py_env \<Rightarrow> string \<Rightarrow> string \<Rightarrow> string \<Rightarrow> pydict \<Rightarrow> pydict option \<Rightarrow> action_outcome \<Rightarrow> string option \<Rightarrow>
   sweep_state \<Rightarrow> unit live \<times> sweep_state" where
  "sweep_audit e broker tool intent request response outcome err w =
     (case write_live_action e
        \<lparr>le_kind = (if outcome = Accepted then Order_Placed else Order_Rejected),
         le_session_id = ''live-runtime'', le_outcome = outcome, le_server = broker, le_remote_tool = Some tool,
         le_intent_normalized = Some intent, le_mandate_snapshot_ref = None, le_consent_record_ref = None,
         le_broker_request = Some request, le_broker_response = response, le_gate_decision = None,
         le_error = err\<rparr> (sw_store w) of
        (r, s) \<Rightarrow> (if r = None then Inl (Remote_Error ''OSError'') else Inr (), w\<lparr>sw_store := s\<rparr>))"

section \<open>The cancellations\<close>

definition cancel_request :: "pydict \<Rightarrow> pydict" where
  "cancel_request ord = [(''action'', VStr ''cancel''), (''order_id'', dget ord ''order_id'')]"

definition cancel_order_step ::
  "py_env \<Rightarrow> string \<Rightarrow> sweep_env \<Rightarrow> pydict \<Rightarrow> sweep_report \<Rightarrow> sweep_state \<Rightarrow> sweep_report live \<times> sweep_state" where
  "cancel_order_step e broker x ord r w =
     (let order_id = dget ord ''order_id''; request = cancel_request ord;
          tool = sweep_tool x broker ''cancel_order'' ''cancel_order'';
          intent = ''cancel order '' @ py_str e order_id
      in case submit_sweep_request x request w of
           (Inl err, w) \<Rightarrow>
             wbind (sweep_audit e broker tool intent request None Error_Outcome (Some err))
               (\<lambda>_. wlift (Inr (sweep_error [(''phase'', VStr ''cancel''), (''order_id'', order_id),
                   (''error'', VStr err)] r))) w
         | (Inr response, w) \<Rightarrow>
             wbind (sweep_audit e broker tool intent request (Some response) Accepted None)
               (\<lambda>_. wlift (Inr (r\<lparr>sp_cancelled_order_ids := sp_cancelled_order_ids r @ [order_id]\<rparr>))) w)"

fun sweep_each ::
  "('a \<Rightarrow> sweep_report \<Rightarrow> sweep_state \<Rightarrow> sweep_report live \<times> sweep_state) \<Rightarrow> 'a list \<Rightarrow>
   sweep_report \<Rightarrow> sweep_state \<Rightarrow> sweep_report live \<times> sweep_state" where
  "sweep_each f [] r w = (Inr r, w)"
| "sweep_each f (a # as) r w = wbind (f a r) (\<lambda>r. sweep_each f as r) w"

definition cancel_resting_orders ::
  "py_env \<Rightarrow> string \<Rightarrow> sweep_env \<Rightarrow> sweep_report \<Rightarrow> sweep_state \<Rightarrow> sweep_report live \<times> sweep_state" where
  "cancel_resting_orders e broker x r w =
     (case se_open_orders x of
        Inl err \<Rightarrow> (Inr (sweep_error [(''phase'', VStr ''read_open_orders''), (''error'', VStr err)] r), w)
      | Inr orders \<Rightarrow> sweep_each (cancel_order_step e broker x) orders r w)"

section \<open>The closing orders\<close>

definition sweep_qty :: "pydict \<Rightarrow> pyfloat live" where
  "sweep_qty p = py_float (val_or (dget_or p ''qty'' (VInt 0)) (VInt 0))"

definition close_side :: "pyfloat \<Rightarrow> string" where
  "close_side q = (if flt (Fin 0) q then ''sell'' else ''buy'')"

definition close_request :: "pydict \<Rightarrow> pyfloat \<Rightarrow> pydict" where
  "close_request p q =
     [(''action'', VStr ''close''), (''symbol'', dget p ''symbol''), (''side'', VStr (close_side q)),
      (''qty'', VFloat (fabs q)), (''type'', VStr ''market'')]"

definition flatten_step ::
  "py_env \<Rightarrow> string \<Rightarrow> sweep_env \<Rightarrow> pydict \<Rightarrow> sweep_report \<Rightarrow> sweep_state \<Rightarrow> sweep_report live \<times> sweep_state" where
  "flatten_step e broker x p r w =
     (case sweep_qty p of
        Inl err \<Rightarrow> (Inl err, w)
      | Inr q \<Rightarrow>
          if feq q (Fin 0) then (Inr r, w)
          else let symbol = dget p ''symbol''; request = close_request p q;
                   tool = sweep_tool x broker ''submit_order'' ''place_order'';
                   intent = ''flatten '' @ py_str e symbol @ '': '' @ close_side q @ '' '' @
                     pe_str e (VFloat (fabs q)) @ '' @ market''
            in case submit_sweep_request x request w of
                 (Inl err, w) \<Rightarrow>
                   wbind (sweep_audit e broker tool intent request None Error_Outcome (Some err))
                     (\<lambda>_. wlift (Inr (sweep_error [(''phase'', VStr ''flatten''), (''symbol'', symbol),
                         (''error'', VStr err)] r))) w
               | (Inr response, w) \<Rightarrow>
                   wbind (sweep_audit e broker tool intent request (Some response) Accepted None)
                     (\<lambda>_. wlift (Inr (r\<lparr>sp_flatten_orders_submitted := sp_flatten_orders_submitted r @
                         [[(''symbol'', symbol), (''qty'', VFloat (fabs q)), (''side'', VStr (close_side q)),
                           (''response'', VDict response)]]\<rparr>))) w)"

definition flatten_open_positions ::
  "py_env \<Rightarrow> string \<Rightarrow> sweep_env \<Rightarrow> sweep_report \<Rightarrow> sweep_state \<Rightarrow> sweep_report live \<times> sweep_state" where
  "flatten_open_positions e broker x r w =
     (case se_positions x of
        Inl err \<Rightarrow> (Inr (sweep_error [(''phase'', VStr ''read_positions''), (''error'', VStr err)] r), w)
      | Inr positions \<Rightarrow> sweep_each (flatten_step e broker x) positions r w)"

section \<open>The sweep\<close>

definition resolve_allow_flatten :: "py_env \<Rightarrow> string \<Rightarrow> bool option \<Rightarrow> live_store \<Rightarrow> bool live" where
  "resolve_allow_flatten e broker allow s =
     (case allow of
        Some b \<Rightarrow> Inr b
      | None \<Rightarrow> rbind (load_mandate e broker s) (\<lambda>m.
          Inr (case m of None \<Rightarrow> False | Some m \<Rightarrow> ma_flatten_on_halt m)))"

definition flatten_and_cancel ::
  "py_env \<Rightarrow> string \<Rightarrow> sweep_env \<Rightarrow> bool option \<Rightarrow> sweep_state \<Rightarrow> sweep_report live \<times> sweep_state" where
  "flatten_and_cancel e broker x allow w =
     wbind (cancel_resting_orders e broker x (new_sweep_report broker)) (\<lambda>r.
     wbind (\<lambda>w. (resolve_allow_flatten e broker allow (sw_store w), w)) (\<lambda>do_flatten.
       if do_flatten then flatten_open_positions e broker x r
       else wlift (Inr (r\<lparr>sp_flatten_skipped_reason := Some ''mandate forbids flatten (cancel-only)''\<rparr>)))) w"

section \<open>What a sweep sends and records\<close>

text \<open>
  A step of the sweep sends its request at most once, whatever the answer, and books one ledger record
  for it; the store changes in nothing but the ledger.
\<close>

definition sweep_frame :: "live_store \<Rightarrow> live_store \<Rightarrow> bool" where
  "sweep_frame s t \<longleftrightarrow> lv_halt t = lv_halt s \<and> lv_mandate t = lv_mandate s \<and> lv_counter t = lv_counter s \<and>
     lv_proposals t = lv_proposals s \<and> lv_ledger_writable t = lv_ledger_writable s"

definition sweep_effect :: "pydict list \<Rightarrow> sweep_state \<Rightarrow> sweep_state \<Rightarrow> bool" where
  "sweep_effect reqs w w' \<longleftrightarrow>
     sw_requests w' = sw_requests w @ reqs \<and> sweep_frame (sw_store w) (sw_store w') \<and>
     length (lv_ledger (sw_store w')) = length (lv_ledger (sw_store w)) + length reqs"

definition calls_reported :: "sweep_report \<Rightarrow> nat" where
  "calls_reported r = length (sp_cancelled_order_ids r) + length (sp_flatten_orders_submitted r) +
     length (filter (\<lambda>d. dget d ''phase'' \<in> {VStr ''cancel'', VStr ''flatten''}) (sp_errors r))"

lemma sweep_effect_refl [simp]: "sweep_effect [] w w"
  by (simp add: sweep_effect_def sweep_frame_def)

lemma sweep_effect_trans:
  "sweep_effect a w w1 \<Longrightarrow> sweep_effect b w1 w2 \<Longrightarrow> sweep_effect (a @ b) w w2"
  by (simp add: sweep_effect_def sweep_frame_def)

lemma sweep_audit_effect:
  assumes "sweep_audit e b t i rq rs oc err w = (Inr u, w')"
  shows "sw_requests w' = sw_requests w" and "sweep_frame (sw_store w) (sw_store w')"
    and "length (lv_ledger (sw_store w')) = Suc (length (lv_ledger (sw_store w)))"
  using assms
  by (auto simp: sweep_audit_def write_live_action_def new_hex_def sweep_frame_def Let_def split: if_splits)

lemma cancel_step_effect:
  assumes "cancel_order_step e b x ord r w = (Inr r', w')"
  shows "sweep_effect [cancel_request ord] w w' \<and> calls_reported r' = Suc (calls_reported r)"
  using assms
  by (auto simp: cancel_order_step_def submit_sweep_request_def Let_def wbind_Inr_iff sweep_effect_def
      calls_reported_def sweep_error_def dget_def split: sum.splits dest: sweep_audit_effect)

definition close_requests :: "pydict \<Rightarrow> pydict list" where
  "close_requests p =
     (case sweep_qty p of Inl x \<Rightarrow> [] | Inr q \<Rightarrow> if feq q (Fin 0) then [] else [close_request p q])"

lemma flatten_step_effect:
  assumes "flatten_step e b x p r w = (Inr r', w')"
  shows "sweep_effect (close_requests p) w w' \<and> calls_reported r' = calls_reported r + length (close_requests p)"
  using assms
  by (auto simp: flatten_step_def submit_sweep_request_def Let_def wbind_Inr_iff sweep_effect_def close_requests_def
      calls_reported_def sweep_error_def sweep_frame_def dget_def split: sum.splits if_splits
      dest: sweep_audit_effect)

lemma sweep_each_effect:
  assumes "\<And>a r w r' w'. f a r w = (Inr r', w') \<Longrightarrow>
      sweep_effect (g a) w w' \<and> calls_reported r' = calls_reported r + length (g a)"
    and "sweep_each f as r w = (Inr r', w')"
  shows "sweep_effect (concat (map g as)) w w' \<and>
    calls_reported r' = calls_reported r + length (concat (map g as))"
  using assms(2)
proof (induction as arbitrary: r w)
  case (Cons a as)
  then obtain r1 w1 where step: "f a r w = (Inr r1, w1)" and rest: "sweep_each f as r1 w1 = (Inr r', w')"
    by (auto simp: wbind_Inr_iff)
  from assms(1) [OF step] Cons.IH [OF rest] show ?case by (auto intro: sweep_effect_trans)
qed auto

definition cancels_of :: "sweep_env \<Rightarrow> pydict list" where
  "cancels_of x = (case se_open_orders x of Inl err \<Rightarrow> [] | Inr orders \<Rightarrow> map cancel_request orders)"

definition closes_of :: "sweep_env \<Rightarrow> pydict list" where
  "closes_of x =
     (case se_positions x of Inl err \<Rightarrow> [] | Inr positions \<Rightarrow> concat (map close_requests positions))"

lemma concat_map_single: "concat (map (\<lambda>a. [f a]) as) = map f as"
  by (induction as) auto

lemma cancel_orders_effect:
  assumes "cancel_resting_orders e b x r w = (Inr r', w')"
  shows "sweep_effect (cancels_of x) w w' \<and> calls_reported r' = calls_reported r + length (cancels_of x)"
proof (cases "se_open_orders x")
  case (Inl err)
  then show ?thesis using assms
    by (auto simp: cancel_resting_orders_def cancels_of_def calls_reported_def sweep_error_def dget_def)
next
  case (Inr orders)
  then show ?thesis
    using assms sweep_each_effect [of "cancel_order_step e b x" "\<lambda>ord. [cancel_request ord]" orders r w r' w']
      cancel_step_effect [of e b x]
    by (auto simp: cancel_resting_orders_def cancels_of_def concat_map_single)
qed

lemma flatten_positions_effect:
  assumes "flatten_open_positions e b x r w = (Inr r', w')"
  shows "sweep_effect (closes_of x) w w' \<and> calls_reported r' = calls_reported r + length (closes_of x)"
proof (cases "se_positions x")
  case (Inl err)
  then show ?thesis using assms
    by (auto simp: flatten_open_positions_def closes_of_def calls_reported_def sweep_error_def dget_def)
next
  case (Inr positions)
  then show ?thesis
    using assms sweep_each_effect [of "flatten_step e b x" close_requests positions r w r' w']
      flatten_step_effect [of e b x]
    by (auto simp: flatten_open_positions_def closes_of_def)
qed

text \<open>A sweep that ends in an exception changes the store in nothing but the ledger, too.\<close>

lemma sweep_frame_refl [simp]: "sweep_frame s s"
  by (simp add: sweep_frame_def)

definition keeps_authority :: "(sweep_state \<Rightarrow> 'a live \<times> sweep_state) \<Rightarrow> bool" where
  "keeps_authority m \<longleftrightarrow> (\<forall>w. sweep_frame (sw_store w) (sw_store (snd (m w))))"

lemma keeps_wbind:
  assumes "keeps_authority m" and "\<And>a. keeps_authority (f a)"
  shows "keeps_authority (wbind m f)"
  unfolding keeps_authority_def
proof
  fix w
  obtain r w1 where m: "m w = (r, w1)" by (cases "m w")
  show "sweep_frame (sw_store w) (sw_store (snd (wbind m f w)))"
  proof (cases r)
    case (Inr a)
    with assms m show ?thesis
      by (simp add: wbind_def keeps_authority_def sweep_frame_def) (metis snd_conv)
  qed (use assms(1) m in \<open>auto simp: wbind_def keeps_authority_def dest: spec [of _ w]\<close>)
qed

lemma keeps_basic [simp]:
  "keeps_authority (wlift r)" "keeps_authority (\<lambda>w. (g w, w))"
  "keeps_authority (sweep_audit e b t i rq rs oc err)"
  by (simp_all add: keeps_authority_def sweep_audit_def write_live_action_def new_hex_def sweep_frame_def Let_def)

lemma keeps_after_request:
  "keeps_authority m \<Longrightarrow> sweep_frame (sw_store w) (sw_store (snd (m (w\<lparr>sw_requests := x\<rparr>))))"
  by (auto simp: keeps_authority_def dest: spec [of _ "w\<lparr>sw_requests := x\<rparr>"])

lemma keeps_cancel_step [simp]: "keeps_authority (cancel_order_step e b x ord r)"
  unfolding keeps_authority_def cancel_order_step_def submit_sweep_request_def Let_def
  by (auto split: sum.split intro!: keeps_after_request keeps_wbind)

lemma keeps_flatten_step [simp]: "keeps_authority (flatten_step e b x p r)"
  unfolding keeps_authority_def flatten_step_def submit_sweep_request_def Let_def
  by (auto split: sum.split intro!: keeps_after_request keeps_wbind)

lemma keeps_sweep_each: "(\<And>a r. keeps_authority (f a r)) \<Longrightarrow> keeps_authority (sweep_each f as r)"
proof (induction as arbitrary: r)
  case (Cons a as)
  have "sweep_each f (a # as) r = wbind (f a r) (\<lambda>r. sweep_each f as r)" by (rule ext) simp
  with Cons show ?case by (simp add: keeps_wbind)
qed (simp add: keeps_authority_def)

lemma keeps_flatten_and_cancel: "keeps_authority (flatten_and_cancel e b x allow)"
proof -
  have orders: "keeps_authority (cancel_resting_orders e b x r)" for r
    by (cases "se_open_orders x")
      (simp_all add: cancel_resting_orders_def [abs_def] keeps_sweep_each)
  have positions: "keeps_authority (flatten_open_positions e b x r)" for r
    by (cases "se_positions x")
      (simp_all add: flatten_open_positions_def [abs_def] keeps_sweep_each)
  show ?thesis
    unfolding flatten_and_cancel_def [abs_def] by (intro keeps_wbind) (auto intro: orders positions)
qed

text \<open>A sweep with a writable ledger and readable quantities returns its report.\<close>

definition returns :: "('a live \<times> sweep_state) \<Rightarrow> bool" where
  "returns x \<longleftrightarrow> (\<exists>r. fst x = Inr r) \<and> lv_ledger_writable (sw_store (snd x))"

lemma wbind_fst: "fst (m w) = Inr a \<Longrightarrow> wbind m f w = f a (snd (m w))"
  by (cases "m w") (simp add: wbind_def)

lemma returns_wbind:
  assumes "returns (m w)" and "\<And>a v. lv_ledger_writable (sw_store v) \<Longrightarrow> returns (f a v)"
  shows "returns (wbind m f w)"
  using assms by (auto simp: returns_def wbind_fst)

lemma returns_basic [simp]:
  "returns (Inr r, w) = lv_ledger_writable (sw_store w)"
  "returns (wlift (Inr r) w) = lv_ledger_writable (sw_store w)"
  "lv_ledger_writable (sw_store w) \<Longrightarrow> returns (sweep_audit e b t i rq rs oc err w)"
  by (simp_all add: returns_def sweep_audit_def write_live_action_def new_hex_def Let_def)

lemma returns_cancel_step: "lv_ledger_writable (sw_store w) \<Longrightarrow> returns (cancel_order_step e b x ord r w)"
  unfolding cancel_order_step_def submit_sweep_request_def Let_def
  by (auto split: sum.split intro!: returns_wbind)

lemma returns_flatten_step:
  "lv_ledger_writable (sw_store w) \<Longrightarrow> sweep_qty p = Inr q \<Longrightarrow> returns (flatten_step e b x p r w)"
  unfolding flatten_step_def submit_sweep_request_def Let_def
  by (auto split: sum.split intro!: returns_wbind)

lemma returns_sweep_each:
  assumes "\<And>a r w. a \<in> set as \<Longrightarrow> lv_ledger_writable (sw_store w) \<Longrightarrow> returns (f a r w)"
    and "lv_ledger_writable (sw_store w)"
  shows "returns (sweep_each f as r w)"
  using assms
proof (induction as arbitrary: r w)
  case (Cons a as)
  then show ?case by (auto intro!: returns_wbind)
qed simp

lemma sweep_returns:
  assumes "lv_ledger_writable (sw_store w)"
    and "\<And>ps p. se_positions x = Inr ps \<Longrightarrow> p \<in> set ps \<Longrightarrow> \<exists>q. sweep_qty p = Inr q"
  obtains report w' where "flatten_and_cancel e b x (Some permitted) w = (Inr report, w')"
proof -
  have "returns (cancel_resting_orders e b x r v)" if "lv_ledger_writable (sw_store v)" for r v
    using that by (cases "se_open_orders x")
      (auto simp: cancel_resting_orders_def intro!: returns_sweep_each returns_cancel_step)
  moreover have "returns (flatten_open_positions e b x r v)" if "lv_ledger_writable (sw_store v)" for r v
    using that assms(2) by (cases "se_positions x")
      (auto simp: flatten_open_positions_def intro!: returns_sweep_each dest: returns_flatten_step)
  ultimately have "returns (flatten_and_cancel e b x (Some permitted) w)"
    unfolding flatten_and_cancel_def resolve_allow_flatten_def
    using assms(1) by (intro returns_wbind) auto
  then obtain r where "fst (flatten_and_cancel e b x (Some permitted) w) = Inr r" by (auto simp: returns_def)
  with that show ?thesis by (cases "flatten_and_cancel e b x (Some permitted) w") auto
qed

end
