(* ===== verification/Live_Runner.thy ===== *)
theory Live_Runner
  imports Live_Sweep Live_Runs
begin

text \<open>
  The persistent runner of one broker (\<open>agent/src/live/runtime/runner.py\<close>): the tick \<open>run_once\<close> with the
  default dependencies, and the start of its loop. The agent is a function on the prompt and the state of
  the gates, and may raise; the reads of the broker are those of the tick.
\<close>

record runner =
  rn_broker :: string
  rn_session_id :: string
  rn_submit :: "broker_submit_fn option"
  rn_runner_tool :: "string \<Rightarrow> string \<Rightarrow> string option"
  rn_agent :: "string \<Rightarrow> gate_state \<Rightarrow> (string + pydict) \<times> gate_state"

record runner_state =
  ru_gate :: gate_state
  ru_files :: runtime_files
  ru_requests :: "pydict list"
  ru_heartbeats :: heartbeats
  ru_flatten_fired :: bool

section \<open>Expiry and prompt\<close>

definition parse_expiry :: "py_env \<Rightarrow> string \<Rightarrow> int option" where
  "parse_expiry e raw =
     (let t = strip raw
      in if t = [] then None
         else pe_from_iso e (if last t \<in> {CHR ''Z'', CHR ''z''} then butlast t @ ''+00:00'' else t))"

definition mandate_is_expired :: "py_env \<Rightarrow> mandate \<Rightarrow> bool" where
  "mandate_is_expired e m =
     (case parse_expiry e (cm_expires_at (ma_consent m)) of None \<Rightarrow> True | Some t \<Rightarrow> t \<le> pe_now e)"

fun join :: "string \<Rightarrow> string list \<Rightarrow> string" where
  "join sep [] = []"
| "join sep [x] = x"
| "join sep (x # y # xs) = x @ sep @ join sep (y # xs)"

definition or_none :: "string \<Rightarrow> string" where
  "or_none s = (if s = [] then ''(none)'' else s)"

text \<open>The dash of the text is written as a hyphen; \<open>stamp\<close> is the time of the tick to the second.\<close>

definition pin_mandate_prompt :: "py_env \<Rightarrow> string \<Rightarrow> string \<Rightarrow> mandate \<Rightarrow> string" where
  "pin_mandate_prompt e stamp broker m =
     (let caps = ma_hard_caps m; universe = ma_universe m; nl = [CHR 10]
      in ''You are running an AUTONOMOUS live-trading tick under a bounded mandate. Trade freely INSIDE the limits below; you must NEVER place an order that would breach any limit - defer instead. The enforcement gate and kill switch are hard backstops outside your control.'' @ nl @ nl @
         ''Broker: '' @ broker @ nl @
         ''Tick time (UTC): '' @ stamp @ nl @
         ''Mandate expires (UTC): '' @ cm_expires_at (ma_consent m) @ nl @ nl @
         ''=== HARD CAPS (vibe-enforced; broker funding is the absolute ceiling) ==='' @ nl @
         ''- Account funding (USD): '' @ pe_str e (VFloat (hc_account_funding_usd caps)) @ nl @
         ''- Max single-order notional (USD): '' @ pe_str e (VFloat (hc_max_order_notional_usd caps)) @ nl @
         ''- Max total exposure (USD): '' @ pe_str e (VFloat (hc_max_total_exposure_usd caps)) @ nl @
         ''- Max gross leverage: '' @ pe_str e (VFloat (hc_max_leverage caps)) @ nl @
         ''- Allowed instruments: '' @ or_none (join '', '' (map instrument_value (hc_allowed_instruments caps))) @ nl @
         ''- Max trades per UTC day: '' @ int_str (hc_max_trades_per_day caps) @ nl @ nl @
         ''=== DISCOVERY UNIVERSE (pick symbols within these structural filters) ==='' @ nl @
         ''- Asset classes: '' @ or_none (join '', '' (map asset_class_value (un_asset_classes universe))) @ nl @
         ''- Min market cap (USD): '' @ pe_str e (opt_num (un_min_market_cap_usd universe)) @ nl @
         ''- Min avg daily volume (USD): '' @ pe_str e (opt_num (un_min_avg_daily_volume_usd universe)) @ nl @
         ''- Excluded symbols (hard denylist): '' @ or_none (join '', '' (un_exclude_symbols universe)) @ nl @ nl @
         ''Assess the current opportunity set, then act within the mandate. If no action is warranted this tick, hold and explain why.'')"

section \<open>A tick\<close>

text \<open>The text of an exception.\<close>

fun exc_text :: "live_exc \<Rightarrow> string" where
  "exc_text (Value_Error s) = s"
| "exc_text (Type_Error s) = s"
| "exc_text (Key_Error s) = [CHR 39] @ s @ [CHR 39]"
| "exc_text Overflow_Error = ''cannot convert float infinity to integer''"
| "exc_text (Attribute_Error s) = s"
| "exc_text (Commit_Error s) = s"
| "exc_text (Remote_Error s) = s"
| "exc_text (Runtime_Error s) = s"

datatype tick_outcome =
    Tick_Halted | Tick_No_Mandate | Tick_Expired | Tick_Reconcile_Unsafe | Tick_Reconcile_Error
  | Tick_Invoked | Tick_Error

record tick_result =
  tr_outcome :: tick_outcome
  tr_broker :: string
  tr_reason :: string
  tr_agent_result :: "pydict option"
  tr_audit_id :: "pyval option"

definition runner_audit ::
  "py_env \<Rightarrow> runner \<Rightarrow> action_kind \<Rightarrow> action_outcome \<Rightarrow> string \<Rightarrow> string option \<Rightarrow> runner_state \<Rightarrow>
   pyval option \<times> runner_state" where
  "runner_audit e rn kind outcome intent err w =
     (case write_live_action e
        \<lparr>le_kind = kind, le_session_id = rn_session_id rn, le_outcome = outcome, le_server = rn_broker rn,
         le_remote_tool = None, le_intent_normalized = Some intent, le_mandate_snapshot_ref = None,
         le_consent_record_ref = None, le_broker_request = None, le_broker_response = None,
         le_gate_decision = None, le_error = err\<rparr> (gs_store (ru_gate w)) of
        (r, s) \<Rightarrow> (map_option (\<lambda>d. dget d ''audit_id'') r, w\<lparr>ru_gate := (ru_gate w)\<lparr>gs_store := s\<rparr>\<rparr>))"

definition tick_end ::
  "py_env \<Rightarrow> runner \<Rightarrow> action_kind \<Rightarrow> action_outcome \<Rightarrow> string \<Rightarrow> string option \<Rightarrow> tick_outcome \<Rightarrow> string \<Rightarrow>
   pydict option \<Rightarrow> runner_state \<Rightarrow> tick_result \<times> runner_state" where
  "tick_end e rn kind outcome intent err code reason result w =
     (case runner_audit e rn kind outcome intent err w of
        (audit_id, w) \<Rightarrow> (\<lparr>tr_outcome = code, tr_broker = rn_broker rn, tr_reason = reason,
          tr_agent_result = (case result of Some [] \<Rightarrow> None | _ \<Rightarrow> result), tr_audit_id = audit_id\<rparr>, w))"

definition run_preemptive_sweep ::
  "py_env \<Rightarrow> runner \<Rightarrow> broker_reads \<Rightarrow> runner_state \<Rightarrow> runner_state" where
  "run_preemptive_sweep e rn reads w =
     (case rn_submit rn of
        None \<Rightarrow> w
      | Some submit \<Rightarrow>
          if ru_flatten_fired w then w
          else
            (case flatten_and_cancel e (rn_broker rn)
               \<lparr>se_submit = submit, se_positions = br_positions reads, se_open_orders = br_open_orders reads,
                se_runner_tool = rn_runner_tool rn\<rparr> None
               \<lparr>sw_store = gs_store (ru_gate w), sw_requests = ru_requests w\<rparr> of
               (r, s) \<Rightarrow>
                 let w = w\<lparr>ru_flatten_fired := True, ru_requests := sw_requests s,
                           ru_gate := (ru_gate w)\<lparr>gs_store := sw_store s\<rparr>\<rparr>
                 in case r of
                      Inr report \<Rightarrow> w
                    | Inl err \<Rightarrow> snd (runner_audit e rn Breach_Kind Error_Outcome
                        ''preemptive halt sweep failed - not retried (no-retry 8.5)'' (Some (exc_text err)) w)))"

definition halted_result ::
  "py_env \<Rightarrow> runner \<Rightarrow> broker_reads \<Rightarrow> runner_state \<Rightarrow> tick_result \<times> runner_state" where
  "halted_result e rn reads w =
     tick_end e rn Halt_Tripped Blocked ''tick aborted - kill switch tripped'' None Tick_Halted
       ''kill switch tripped'' None (run_preemptive_sweep e rn reads w)"

definition expired_result :: "py_env \<Rightarrow> runner \<Rightarrow> runner_state \<Rightarrow> tick_result \<times> runner_state" where
  "expired_result e rn w =
     (let w = (case trip_halt e ''file'' ''mandate expired - proactive runner stop'' (Some (rn_broker rn))
                (gs_store (ru_gate w)) of
                 Inl x \<Rightarrow> w
               | Inr s \<Rightarrow> w\<lparr>ru_gate := (ru_gate w)\<lparr>gs_store := s\<rparr>\<rparr>)
      in tick_end e rn Halt_Tripped Blocked ''mandate expired - proactive stop, authority revoked'' None
           Tick_Expired ''mandate expired - proactive stop'' None w)"

definition no_mandate_result :: "py_env \<Rightarrow> runner \<Rightarrow> runner_state \<Rightarrow> tick_result \<times> runner_state" where
  "no_mandate_result e rn w =
     tick_end e rn Order_Rejected Blocked ''tick aborted - no valid mandate on file'' None
       Tick_No_Mandate ''no valid mandate'' None w"

text \<open>The reconciliation step: the result of an aborted tick, or \<open>None\<close> when it may go on.\<close>

definition run_reconcile ::
  "py_env \<Rightarrow> runner \<Rightarrow> broker_reads \<Rightarrow> runner_state \<Rightarrow> tick_result option \<times> runner_state" where
  "run_reconcile e rn reads w =
     (case reconcile e (rn_broker rn) reads (gs_store (ru_gate w)) (ru_files w) of
        (r, fs) \<Rightarrow>
          let w = w\<lparr>ru_files := fs\<rparr>
          in case r of
               Inl err \<Rightarrow>
                 (case tick_end e rn Breach_Kind Blocked ''reconcile failed - tick aborted (fail-closed)''
                    (Some (exc_text err)) Tick_Reconcile_Error ''reconcile raised; tick aborted'' None w of
                    (t, w) \<Rightarrow> (Some t, w))
             | Inr report \<Rightarrow>
                 if is_safe report then (None, w)
                 else (case tick_end e rn Breach_Kind Blocked ''reconcile flagged unsafe/ambiguous - no auto-resend''
                         None Tick_Reconcile_Unsafe ''reconcile flagged unsafe/ambiguous broker state'' None w of
                         (t, w) \<Rightarrow> (Some t, w)))"

definition invoke_and_audit ::
  "py_env \<Rightarrow> string \<Rightarrow> runner \<Rightarrow> mandate \<Rightarrow> runner_state \<Rightarrow> tick_result \<times> runner_state" where
  "invoke_and_audit e stamp rn m w =
     (case rn_agent rn (pin_mandate_prompt e stamp (rn_broker rn) m) (ru_gate w) of
        (r, gate) \<Rightarrow>
          let w = w\<lparr>ru_gate := gate\<rparr>
          in case r of
               Inl err \<Rightarrow>
                 tick_end e rn Breach_Kind Error_Outcome ''autonomous tick - agent invocation error'' (Some err)
                   Tick_Error err None w
             | Inr result \<Rightarrow>
                 tick_end e rn Order_Placed Accepted ''autonomous tick completed'' None Tick_Invoked [] (Some result) w)"

definition beat :: "py_env \<Rightarrow> runner \<Rightarrow> runner_state \<Rightarrow> runner_state" where
  "beat e rn w =
     (case write_heartbeat (rn_broker rn) (pe_now e div 1000) (ru_heartbeats w) of
        Inl x \<Rightarrow> w
      | Inr (t, h) \<Rightarrow> w\<lparr>ru_heartbeats := h\<rparr>)"

definition run_once ::
  "py_env \<Rightarrow> string \<Rightarrow> runner \<Rightarrow> broker_reads \<Rightarrow> runner_state \<Rightarrow> tick_result live \<times> runner_state" where
  "run_once e stamp rn reads w =
     (let w = beat e rn w; ok = (\<lambda>(t, w). (Inr t, w))
      in if halt_flag_set (Some (rn_broker rn)) (gs_store (ru_gate w)) then ok (halted_result e rn reads w)
         else case load_mandate e (rn_broker rn) (gs_store (ru_gate w)) of
           Inl x \<Rightarrow> (Inl x, w)
         | Inr None \<Rightarrow> ok (no_mandate_result e rn w)
         | Inr (Some m) \<Rightarrow>
             if mandate_is_expired e m then ok (expired_result e rn w)
             else case run_reconcile e rn reads w of
               (Some t, w) \<Rightarrow> (Inr t, w)
             | (None, w) \<Rightarrow> ok (invoke_and_audit e stamp rn m w))"

section \<open>The start of the loop\<close>

definition default_market_watch_ms :: int where
  "default_market_watch_ms = 60000"

definition trigger_kind_value :: "trigger_kind \<Rightarrow> string" where
  "trigger_kind_value k =
     (case k of Interval_Trigger \<Rightarrow> ''interval'' | Market_Trigger \<Rightarrow> ''market'' | Event_Trigger \<Rightarrow> ''event'')"

definition watch_interval :: "int \<Rightarrow> trigger \<Rightarrow> int option" where
  "watch_interval market_watch t =
     (case tg_kind t of
        Interval_Trigger \<Rightarrow> Some (tg_interval_ms t)
      | Market_Trigger \<Rightarrow> Some (if 0 < market_watch then market_watch else default_market_watch_ms)
      | Event_Trigger \<Rightarrow> None)"

definition watch_job :: "string \<Rightarrow> int \<Rightarrow> nat \<Rightarrow> trigger \<Rightarrow> int \<Rightarrow> job" where
  "watch_job broker now index t interval =
     \<lparr>jb_id = broker @ ''-'' @ trigger_kind_value (tg_kind t) @ ''-'' @ nat_str index,
      jb_next_run_at = now + interval, jb_schedule = ''interval:'' @ int_str interval,
      jb_payload = Some [(''broker'', VStr broker), (''trigger'', VStr (trigger_kind_value (tg_kind t)))]\<rparr>"

definition jobs_from_triggers :: "string \<Rightarrow> int \<Rightarrow> int \<Rightarrow> trigger list \<Rightarrow> job list" where
  "jobs_from_triggers broker market_watch now triggers =
     concat (map (\<lambda>(index, t). case watch_interval market_watch t of
         None \<Rightarrow> [] | Some i \<Rightarrow> [watch_job broker now index t i]) (List.enumerate 0 triggers))"

text \<open>The jobs and the store afterwards; a store that cannot be read counts as empty.\<close>

definition resolve_jobs ::
  "string \<Rightarrow> int \<Rightarrow> trigger list \<Rightarrow> job list option \<Rightarrow> int \<Rightarrow> job_files \<Rightarrow> job list \<times> job_files" where
  "resolve_jobs broker market_watch triggers jobs now f =
     (case jobs of
        Some js \<Rightarrow> (js, f)
      | None \<Rightarrow>
          (case load_jobs f of
             (r, f) \<Rightarrow>
               let persisted = (case r of Inl x \<Rightarrow> [] | Inr js \<Rightarrow> js)
               in if persisted \<noteq> [] then (persisted, f)
                  else let js = jobs_from_triggers broker market_watch now triggers
                       in (js, if js = [] then f else f\<lparr>jf_store := Json (envelope js)\<rparr>)))"

text \<open>The scheduler's jobs, \<open>None\<close> when none was injected, and whether it was started.\<close>

definition run_loop ::
  "py_env \<Rightarrow> runner \<Rightarrow> int \<Rightarrow> trigger list \<Rightarrow> job list option \<Rightarrow> job list option \<Rightarrow> job_files \<Rightarrow> runner_state \<Rightarrow>
   (bool \<times> job list) live \<times> job_files \<times> runner_state" where
  "run_loop e rn market_watch triggers scheduler jobs f w =
     (case scheduler of
        None \<Rightarrow> (Inl (Runtime_Error ''run_loop requires an injected scheduler''), f, w)
      | Some scheduled \<Rightarrow>
          (case load_mandate e (rn_broker rn) (gs_store (ru_gate w)) of
             Inl x \<Rightarrow> (Inl x, f, w)
           | Inr None \<Rightarrow> (Inr (False, scheduled), f, w)
           | Inr (Some m) \<Rightarrow>
               if mandate_is_expired e m then (Inr (False, scheduled), f, snd (expired_result e rn w))
               else case resolve_jobs (rn_broker rn) market_watch triggers jobs (pe_now e div 1000) f of
                 (js, f) \<Rightarrow> (Inr (True, fold add_job js scheduled), f, w)))"

end
