(* ===== verification/Runtime_Properties.thy ===== *)
theory Runtime_Properties
  imports Live_Runner Live_Properties
begin

text \<open>
  Properties of the live runtime: the scheduler and its durable jobs, the reconciliation, the sweep on a
  halt, and runs of the runner's ticks, whose agent acts through the gates of \<open>Live_Runs\<close>.
\<close>

section \<open>What a tick leaves alone\<close>

text \<open>The end of a tick writes to the ledger only.\<close>

lemma tick_end_frame [simp]:
  "ru_files (snd (tick_end e rn k oc i err code r res w)) = ru_files w"
  "ru_requests (snd (tick_end e rn k oc i err code r res w)) = ru_requests w"
  "ru_flatten_fired (snd (tick_end e rn k oc i err code r res w)) = ru_flatten_fired w"
  "ru_heartbeats (snd (tick_end e rn k oc i err code r res w)) = ru_heartbeats w"
  "gs_sent (ru_gate (snd (tick_end e rn k oc i err code r res w))) = gs_sent (ru_gate w)"
  "lv_halt (gs_store (ru_gate (snd (tick_end e rn k oc i err code r res w)))) = lv_halt (gs_store (ru_gate w))"
  "lv_mandate (gs_store (ru_gate (snd (tick_end e rn k oc i err code r res w)))) = lv_mandate (gs_store (ru_gate w))"
  "lv_counter (gs_store (ru_gate (snd (tick_end e rn k oc i err code r res w)))) = lv_counter (gs_store (ru_gate w))"
  "tr_outcome (fst (tick_end e rn k oc i err code r res w)) = code"
  by (simp_all add: tick_end_def runner_audit_def case_prod_unfold)

lemma beat_frame [simp]:
  "ru_files (beat e rn w) = ru_files w" "ru_requests (beat e rn w) = ru_requests w"
  "ru_flatten_fired (beat e rn w) = ru_flatten_fired w" "ru_gate (beat e rn w) = ru_gate w"
  by (simp_all add: beat_def split: sum.split prod.split)

lemma sweep_frame_of_runner [simp]:
  fixes e rn reads w
  defines "w' \<equiv> run_preemptive_sweep e rn reads w"
  shows "ru_files w' = ru_files w" and "gs_sent (ru_gate w') = gs_sent (ru_gate w)"
    and "lv_halt (gs_store (ru_gate w')) = lv_halt (gs_store (ru_gate w))"
    and "lv_mandate (gs_store (ru_gate w')) = lv_mandate (gs_store (ru_gate w))"
    and "lv_counter (gs_store (ru_gate w')) = lv_counter (gs_store (ru_gate w))"
  using keeps_flatten_and_cancel
  by (auto simp: w'_def run_preemptive_sweep_def runner_audit_def case_prod_unfold Let_def keeps_authority_def
      sweep_frame_def split: option.split sum.split)

text \<open>The sweep of a runner is latched.\<close>

lemma sweep_latch:
  fixes e rn reads w
  defines "w' \<equiv> run_preemptive_sweep e rn reads w"
  shows "ru_flatten_fired w \<Longrightarrow> w' = w" and "ru_flatten_fired w \<Longrightarrow> ru_flatten_fired w'"
    and "\<not> ru_flatten_fired w' \<Longrightarrow> w' = w"
  by (auto simp: w'_def run_preemptive_sweep_def runner_audit_def case_prod_unfold Let_def
      split: option.splits sum.splits if_splits)

text \<open>The cases of a tick.\<close>

definition may_trade :: "py_env \<Rightarrow> runner \<Rightarrow> broker_reads \<Rightarrow> runner_state \<Rightarrow> mandate \<Rightarrow> bool" where
  "may_trade e rn reads w m \<longleftrightarrow>
     \<not> halt_flag_set (Some (rn_broker rn)) (gs_store (ru_gate w)) \<and>
     load_mandate e (rn_broker rn) (gs_store (ru_gate w)) = Inr (Some m) \<and> \<not> mandate_is_expired e m \<and>
     (\<exists>report. fst (reconcile e (rn_broker rn) reads (gs_store (ru_gate w)) (ru_files w)) = Inr report \<and>
        is_safe report)"

lemma run_reconcile_frame [simp]:
  "ru_gate (snd (run_reconcile e rn reads w)) = ru_gate w \<or>
     (gs_sent (ru_gate (snd (run_reconcile e rn reads w))) = gs_sent (ru_gate w) \<and>
      lv_halt (gs_store (ru_gate (snd (run_reconcile e rn reads w)))) = lv_halt (gs_store (ru_gate w)))"
  "ru_requests (snd (run_reconcile e rn reads w)) = ru_requests w"
  "ru_flatten_fired (snd (run_reconcile e rn reads w)) = ru_flatten_fired w"
  "ru_files (snd (run_reconcile e rn reads w)) =
     snd (reconcile e (rn_broker rn) reads (gs_store (ru_gate w)) (ru_files w))"
  by (auto simp: run_reconcile_def case_prod_unfold Let_def split: sum.split)

lemma run_reconcile_None:
  "fst (run_reconcile e rn reads w) = None \<longleftrightarrow>
     (\<exists>report. fst (reconcile e (rn_broker rn) reads (gs_store (ru_gate w)) (ru_files w)) = Inr report \<and>
        is_safe report)"
  "fst (run_reconcile e rn reads w) = None \<Longrightarrow> ru_gate (snd (run_reconcile e rn reads w)) = ru_gate w"
  by (auto simp: run_reconcile_def case_prod_unfold Let_def split: sum.splits if_splits)

lemma run_reconcile_Some:
  assumes "fst (run_reconcile e rn reads w) = Some t"
  shows "gs_sent (ru_gate (snd (run_reconcile e rn reads w))) = gs_sent (ru_gate w)"
    and "lv_halt (gs_store (ru_gate (snd (run_reconcile e rn reads w)))) = lv_halt (gs_store (ru_gate w))"
    and "lv_mandate (gs_store (ru_gate (snd (run_reconcile e rn reads w)))) = lv_mandate (gs_store (ru_gate w))"
    and "lv_counter (gs_store (ru_gate (snd (run_reconcile e rn reads w)))) = lv_counter (gs_store (ru_gate w))"
    and "tr_outcome t \<in> {Tick_Reconcile_Error, Tick_Reconcile_Unsafe}"
  using assms
  by (auto simp: run_reconcile_def case_prod_unfold Let_def split: sum.splits if_splits)

text \<open>What counts of the gates' state for the properties below.\<close>

definition same_authority :: "gate_state \<Rightarrow> gate_state \<Rightarrow> bool" where
  "same_authority w w' \<longleftrightarrow> gs_sent w' = gs_sent w \<and> lv_mandate (gs_store w') = lv_mandate (gs_store w) \<and>
     lv_counter (gs_store w') = lv_counter (gs_store w)"

lemma same_authority_refl [simp]: "same_authority w w"
  by (simp add: same_authority_def)

lemma expired_result_frame:
  "same_authority (ru_gate w) (ru_gate (snd (expired_result e rn w)))"
  "ru_files (snd (expired_result e rn w)) = ru_files w"
  "ru_requests (snd (expired_result e rn w)) = ru_requests w"
  "ru_flatten_fired (snd (expired_result e rn w)) = ru_flatten_fired w"
  "tr_outcome (fst (expired_result e rn w)) = Tick_Expired"
  "lv_halt (gs_store (ru_gate w)) k \<noteq> None \<Longrightarrow>
     lv_halt (gs_store (ru_gate (snd (expired_result e rn w)))) k \<noteq> None"
  by (auto simp: expired_result_def same_authority_def Let_def trip_halt_def rbind_Inr_iff split: sum.split)

lemma expired_trips:
  "broker_key (rn_broker rn) = Inr k \<Longrightarrow>
     lv_halt (gs_store (ru_gate (snd (expired_result e rn w)))) (Some k) \<noteq> None"
  by (simp add: expired_result_def Let_def trip_halt_def halt_key_def)


text \<open>Every other tick leaves the orders, the mandates and the counters alone and clears no halt.\<close>

lemma tick_stays:
  fixes e stamp rn reads w
  defines "x \<equiv> run_once e stamp rn reads w"
  assumes "\<nexists>m. may_trade e rn reads w m"
  shows "same_authority (ru_gate w) (ru_gate (snd x))"
    and "fst x = Inr r \<Longrightarrow> tr_outcome r \<notin> {Tick_Invoked, Tick_Error}"
    and "lv_halt (gs_store (ru_gate w)) k \<noteq> None \<Longrightarrow> lv_halt (gs_store (ru_gate (snd x))) k \<noteq> None"
proof -
  let ?w = "beat e rn w" and ?b = "rn_broker rn"
  have "same_authority (ru_gate w) (ru_gate (snd x)) \<and>
      (\<forall>r. fst x = Inr r \<longrightarrow> tr_outcome r \<notin> {Tick_Invoked, Tick_Error}) \<and>
      (\<forall>k. lv_halt (gs_store (ru_gate w)) k \<noteq> None \<longrightarrow> lv_halt (gs_store (ru_gate (snd x))) k \<noteq> None)"
  proof (cases "halt_flag_set (Some ?b) (gs_store (ru_gate w))")
    case True
    then have "x = (\<lambda>(t, w). (Inr t, w)) (halted_result e rn reads ?w)"
      by (simp add: x_def run_once_def Let_def)
    then show ?thesis by (auto simp: halted_result_def case_prod_unfold same_authority_def)
  next
    case on: False
    show ?thesis
    proof (cases "load_mandate e ?b (gs_store (ru_gate w))")
      case (Inl err)
      with on have "x = (Inl err, ?w)" by (simp add: x_def run_once_def Let_def)
      then show ?thesis by simp
    next
      case loaded: (Inr found)
      show ?thesis
      proof (cases found)
        case None
        with on loaded have "x = (\<lambda>(t, w). (Inr t, w)) (no_mandate_result e rn ?w)"
          by (simp add: x_def run_once_def Let_def)
        then show ?thesis by (auto simp: no_mandate_result_def case_prod_unfold same_authority_def)
      next
        case (Some m)
        show ?thesis
        proof (cases "mandate_is_expired e m")
          case True
          with on loaded Some have "x = (\<lambda>(t, w). (Inr t, w)) (expired_result e rn ?w)"
            by (simp add: x_def run_once_def Let_def)
          then show ?thesis using expired_result_frame [where w = "?w" and e = e and rn = rn] by (auto simp: case_prod_unfold)
        next
          case False
          have "fst (run_reconcile e rn reads ?w) \<noteq> None"
            using assms(2) on loaded Some False by (auto simp: may_trade_def run_reconcile_None(1))
          then obtain t where t: "fst (run_reconcile e rn reads ?w) = Some t" by blast
          with on loaded Some False have "x = (Inr t, snd (run_reconcile e rn reads ?w))"
            by (cases "run_reconcile e rn reads ?w") (simp add: x_def run_once_def Let_def)
          then show ?thesis using run_reconcile_Some [OF t] by (auto simp: same_authority_def)
        qed
      qed
    qed
  qed
  then show "same_authority (ru_gate w) (ru_gate (snd x))"
    and "fst x = Inr r \<Longrightarrow> tr_outcome r \<notin> {Tick_Invoked, Tick_Error}"
    and "lv_halt (gs_store (ru_gate w)) k \<noteq> None \<Longrightarrow> lv_halt (gs_store (ru_gate (snd x))) k \<noteq> None"
    by blast+
qed

lemma run_reconcile_requests:
  "run_reconcile e rn reads w = (r, w') \<Longrightarrow>
     ru_requests w' = ru_requests w \<and> ru_flatten_fired w' = ru_flatten_fired w"
  using run_reconcile_frame(2,3) [of e rn reads w] by simp

section \<open>Runs of ticks\<close>

type_synonym tick = "py_env \<times> string \<times> broker_reads"

definition tick_step :: "runner \<Rightarrow> tick \<Rightarrow> runner_state \<Rightarrow> runner_state" where
  "tick_step rn t w = (case t of (e, stamp, reads) \<Rightarrow> snd (run_once e stamp rn reads w))"

definition run_ticks :: "runner \<Rightarrow> tick list \<Rightarrow> runner_state \<Rightarrow> runner_state" where
  "run_ticks rn ts w = fold (tick_step rn) ts w"

lemma run_ticks_simps [simp]:
  "run_ticks rn [] w = w" "run_ticks rn (t # ts) w = run_ticks rn ts (tick_step rn t w)"
  "run_ticks rn (ts @ us) w = run_ticks rn us (run_ticks rn ts w)"
  by (simp_all add: run_ticks_def)


section \<open>Halted and expired\<close>

lemma halted_ticks:
  assumes "broker_key (rn_broker rn) = Inr k" and "lv_halt (gs_store (ru_gate w)) (Some k) \<noteq> None"
  shows "same_authority (ru_gate w) (ru_gate (run_ticks rn ts w)) \<and>
    lv_halt (gs_store (ru_gate (run_ticks rn ts w))) (Some k) \<noteq> None"
  using assms(2)
proof (induction ts arbitrary: w)
  case (Cons t ts)
  obtain e stamp reads where t: "t = (e, stamp, reads)" by (cases t) auto
  have "halt_flag_set (Some (rn_broker rn)) (gs_store (ru_gate w))"
    using assms(1) Cons.prems by (simp add: halt_flag_set_def)
  then have "\<nexists>m. may_trade e rn reads w m" by (simp add: may_trade_def)
  note stays = tick_stays(1,3) [OF this, where stamp = stamp] 
  have "lv_halt (gs_store (ru_gate (tick_step rn t w))) (Some k) \<noteq> None"
    using stays(2) [OF Cons.prems] by (simp add: tick_step_def t)
  from Cons.IH [OF this] stays(1) show ?case by (auto simp: tick_step_def t same_authority_def)
qed simp

text \<open>
  An expired mandate stops the runner for good: the tick that finds it trips the kill switch of the
  broker, and neither this tick nor any later one sends an order, whatever its agent would do.
\<close>

theorem expired_mandate_stops_runner:
  assumes "load_mandate e (rn_broker rn) (gs_store (ru_gate w)) = Inr (Some m)" and "mandate_is_expired e m"
  shows "gs_sent (ru_gate (run_ticks rn ((e, stamp, reads) # ts) w)) = gs_sent (ru_gate w) \<and>
    halt_flag_set (Some (rn_broker rn)) (gs_store (ru_gate (tick_step rn (e, stamp, reads) w)))"
proof -
  let ?w = "tick_step rn (e, stamp, reads) w"
  obtain k where k: "broker_key (rn_broker rn) = Inr k"
    using assms(1) by (cases "broker_key (rn_broker rn)") (auto simp: load_mandate_def)
  have no: "\<nexists>m. may_trade e rn reads w m" using assms by (auto simp: may_trade_def)
  have same: "same_authority (ru_gate w) (ru_gate ?w)" using tick_stays(1) [OF no] by (simp add: tick_step_def)
  show ?thesis
  proof (cases "lv_halt (gs_store (ru_gate w)) None = None")
    case True
    have "lv_halt (gs_store (ru_gate ?w)) (Some k) \<noteq> None"
    proof (cases "halt_flag_set (Some (rn_broker rn)) (gs_store (ru_gate w))")
      case halted: True
      then have "lv_halt (gs_store (ru_gate w)) (Some k) \<noteq> None"
        using True k by (simp add: halt_flag_set_def)
      from tick_stays(3) [OF no this] show ?thesis by (simp add: tick_step_def)
    next
      case False
      with assms have "?w = snd (expired_result e rn (beat e rn w))"
        by (simp add: tick_step_def run_once_def Let_def case_prod_unfold)
      with expired_trips [OF k] show ?thesis by simp
    qed
    with halted_ticks [OF k this, of ts] same k show ?thesis
      by (auto simp: same_authority_def halt_flag_set_def)
  next
    case False
    have keep: "lv_halt (gs_store (ru_gate v)) None \<noteq> None \<Longrightarrow>
        same_authority (ru_gate v) (ru_gate (run_ticks rn us v))" for v us
    proof (induction us arbitrary: v)
      case (Cons t us)
      obtain e stamp reads where t: "t = (e, stamp, reads)" by (cases t) auto
      have "\<nexists>m. may_trade e rn reads v m" using Cons.prems by (simp add: may_trade_def halt_flag_set_def)
      note stays = tick_stays(1,3) [OF this, where stamp = stamp]
      from Cons.IH [of "tick_step rn t v"] stays(2) [OF Cons.prems] stays(1) show ?case
        by (auto simp: tick_step_def t same_authority_def)
    qed simp
    from tick_stays(3) [OF no False] have "lv_halt (gs_store (ru_gate ?w)) None \<noteq> None"
      by (simp add: tick_step_def)
    from keep [OF this, of ts] this same show ?thesis by (auto simp: same_authority_def halt_flag_set_def)
  qed
qed

section \<open>One sweep\<close>

definition latched :: "runner_state \<Rightarrow> runner_state \<Rightarrow> bool" where
  "latched w w' \<longleftrightarrow> ru_requests w' = ru_requests w \<and> ru_flatten_fired w' = ru_flatten_fired w \<or>
     \<not> ru_flatten_fired w \<and> ru_flatten_fired w'"

lemma latched_refl [simp]: "latched w w"
  by (simp add: latched_def)

lemma latched_trans: "latched w w1 \<Longrightarrow> latched w1 w2 \<Longrightarrow> latched w w2"
  by (auto simp: latched_def)

lemma latched_sweep: "latched w (run_preemptive_sweep e rn reads w)"
  using sweep_latch [where w = w and e = e and rn = rn and reads = reads] by (cases "ru_flatten_fired w") (auto simp: latched_def)

lemma invoke_frame [simp]:
  "ru_requests (snd (invoke_and_audit e stamp rn m w)) = ru_requests w"
  "ru_flatten_fired (snd (invoke_and_audit e stamp rn m w)) = ru_flatten_fired w"
  by (simp_all add: invoke_and_audit_def case_prod_unfold Let_def split: sum.split)

lemma no_mandate_frame [simp]:
  "ru_requests (snd (no_mandate_result e rn w)) = ru_requests w"
  "ru_flatten_fired (snd (no_mandate_result e rn w)) = ru_flatten_fired w"
  by (simp_all add: no_mandate_result_def)

lemma latched_same:
  "ru_requests w' = ru_requests w \<Longrightarrow> ru_flatten_fired w' = ru_flatten_fired w \<Longrightarrow> latched w w'"
  by (simp add: latched_def)

lemma latched_tick: "latched w (tick_step rn t w)"
proof -
  obtain e stamp reads where t: "t = (e, stamp, reads)" by (cases t) auto
  have "latched w (snd (halted_result e rn reads (beat e rn w)))"
    using latched_sweep [of "beat e rn w" e rn reads] by (simp add: halted_result_def latched_def)
  moreover have "latched w (snd (expired_result e rn (beat e rn w)))"
    by (rule latched_same) (simp_all add: expired_result_frame)
  moreover obtain r w1 where r: "run_reconcile e rn reads (beat e rn w) = (r, w1)"
    by (cases "run_reconcile e rn reads (beat e rn w)")
  moreover from run_reconcile_requests [OF r]
  have "latched w w1" "latched w (snd (invoke_and_audit e stamp rn m w1))" for m
    by (simp_all add: latched_same)
  moreover have "latched w (snd (no_mandate_result e rn (beat e rn w)))" "latched w (beat e rn w)"
    by (simp_all add: latched_same)
  ultimately have "latched w (snd (run_once e stamp rn reads w))"
    by (simp add: run_once_def Let_def case_prod_unfold split: sum.split option.split)
  then show ?thesis by (simp add: tick_step_def t)
qed

lemma latched_ticks: "latched w (run_ticks rn ts w)"
  by (induction ts arbitrary: w) (auto intro: latched_trans latched_tick)

text \<open>
  The sweep is never repeated: over any run of ticks of one runner, if a tick sends cancellations or
  closing orders, no tick before it did and none after it does.
\<close>

theorem sweep_at_most_once:
  "ru_requests (run_ticks rn (ts @ [t]) w) = ru_requests (run_ticks rn ts w) \<or>
   ru_requests (run_ticks rn ts w) = ru_requests w \<and>
     ru_requests (run_ticks rn (ts @ t # us) w) = ru_requests (run_ticks rn (ts @ [t]) w)"
  using latched_ticks [of w rn ts] latched_tick [of "run_ticks rn ts w" rn t]
    latched_ticks [of "tick_step rn t (run_ticks rn ts w)" rn us]
  by (auto simp: latched_def)

section \<open>The reconciliation\<close>

lemma reconcile_outcome:
  assumes "recorded_state broker fs recorded_orders recorded_positions"
    and "load_mandate e broker s = Inr m"
    and "br_open_orders reads = Inr orders" and "br_positions reads = Inr positions"
    and "br_balance reads = Inr balance"
  shows "\<exists>report fs'. reconcile e broker reads s fs = (Inr report, fs') \<and>
    (is_safe report \<longleftrightarrow> (\<forall>r \<in> set recorded_orders. order_settled e orders r) \<and>
       (\<forall>p \<in> set positions. position_known e recorded_positions p)) \<and>
    rp_state_persisted report = is_safe report \<and>
    (if is_safe report then recorded_state broker fs' orders positions else fs' = fs)"
proof -
  obtain prior where prior: "prior \<noteq> None"
    and result: "let r = make_report e broker prior recorded_orders recorded_positions orders positions
     in if is_safe r
        then \<exists>fs'. reconcile e broker reads s fs = (Inr (r\<lparr>rp_state_persisted := True\<rparr>), fs') \<and>
          recorded_state broker fs' orders positions
        else reconcile e broker reads s fs = (Inr r, fs)"
    using reconcile_recorded [OF assms] by blast
  have safe: "is_safe (r\<lparr>rp_state_persisted := True\<rparr>) = is_safe r" for r
    by (simp add: is_safe_def requires_halt_def)
  have fresh: "\<not> rp_state_persisted (make_report e broker prior recorded_orders recorded_positions orders positions)"
    by (simp add: make_report_def)
  let ?r = "make_report e broker prior recorded_orders recorded_positions orders positions"
  note exact = report_safe_iff [of e broker prior recorded_orders recorded_positions orders positions]
  show ?thesis
  proof (cases "is_safe ?r")
    case True
    with result obtain fs' where "reconcile e broker reads s fs = (Inr (?r\<lparr>rp_state_persisted := True\<rparr>), fs')"
      and "recorded_state broker fs' orders positions"
      by (auto simp: Let_def)
    then show ?thesis using True exact prior safe [of ?r]
      by (intro exI [of _ "?r\<lparr>rp_state_persisted := True\<rparr>"] exI [of _ fs']) simp
  next
    case False
    with result have "reconcile e broker reads s fs = (Inr ?r, fs)" by (simp add: Let_def)
    moreover have "\<not> ((\<forall>r \<in> set recorded_orders. order_settled e orders r) \<and>
        (\<forall>p \<in> set positions. position_known e recorded_positions p))"
      using exact prior False by blast
    ultimately show ?thesis using False fresh by (intro exI [of _ ?r] exI [of _ fs]) (simp only: if_False simp_thms)
  qed
qed

text \<open>
  C19. The reconciliation is exact: with a recorded state and readable broker state, it is safe if and only if
  every recorded order is confirmed or still open at the broker and every position of the broker is
  recorded with its quantity; only then the recorded state becomes the broker's, and otherwise it stays.
\<close>

theorem reconcile_exact:
  assumes "recorded_state broker fs recorded_orders recorded_positions"
    and "load_mandate e broker s = Inr m"
    and "br_open_orders reads = Inr orders" and "br_positions reads = Inr positions"
    and "br_balance reads = Inr balance"
  shows "\<exists>report fs'. reconcile e broker reads s fs = (Inr report, fs') \<and>
    (is_safe report \<longleftrightarrow> (\<forall>r \<in> set recorded_orders. order_settled e orders r) \<and>
       (\<forall>p \<in> set positions. position_known e recorded_positions p)) \<and>
    rp_state_persisted report = is_safe report \<and>
    (if is_safe report then recorded_state broker fs' orders positions else fs' = fs)"
  using assms by (rule reconcile_outcome)

definition demo_files :: runtime_files where
  "demo_files = (\<lambda>k. No_File)(''alpaca'' :=
     Json (VDict (state_dict ''alpaca'' ''t0'' [] [[(''symbol'', VStr ''AAPL''), (''qty'', VInt 1)]] [])))"

definition demo_reads :: broker_reads where
  "demo_reads = \<lparr>br_positions = Inr [[(''symbol'', VStr ''AAPL''), (''qty'', VInt 1)],
       [(''symbol'', VStr ''MSFT''), (''qty'', VInt 2)]],
     br_balance = Inr [], br_open_orders = Inr []\<rparr>"

lemma demo_recorded: "recorded_state ''alpaca'' demo_files [] [[(''symbol'', VStr ''AAPL''), (''qty'', VInt 1)]]"
  using demo_committed_facts(2) by (auto simp: recorded_state_def demo_files_def)

lemma demo_unknown: "\<not> position_known e [[(''symbol'', VStr ''AAPL''), (''qty'', VInt 1)]]
    [(''symbol'', VStr ''MSFT''), (''qty'', VInt 2)]"
  by (simp add: position_known_def position_symbol_def dget_def py_str_def)

theorem reconcile_exact_witness:
  "\<exists>report. reconcile demo_env ''alpaca'' demo_reads (gs_store demo_committed) demo_files = (Inr report, demo_files) \<and>
     \<not> is_safe report"
proof -
  obtain m where m: "load_mandate demo_env ''alpaca'' (gs_store demo_committed) = Inr (Some m)"
    using demo_mandate by blast
  have reads: "br_open_orders demo_reads = Inr []" "br_balance demo_reads = Inr []"
    "br_positions demo_reads = Inr [[(''symbol'', VStr ''AAPL''), (''qty'', VInt 1)],
       [(''symbol'', VStr ''MSFT''), (''qty'', VInt 2)]]"
    by (simp_all add: demo_reads_def)
  from reconcile_exact [OF demo_recorded m reads(1,3,2)] demo_unknown [of demo_env] show ?thesis
    by (auto split: if_splits)
qed

lemma reconcile_keeps_recorded:
  assumes "recorded_state broker fs recorded_orders recorded_positions"
    and "br_positions reads = Inr positions" and "p \<in> set positions"
    and "\<not> position_known e recorded_positions p"
  shows "snd (reconcile e broker reads s fs) = fs \<and>
    (\<forall>report. fst (reconcile e broker reads s fs) = Inr report \<longrightarrow> \<not> is_safe report)"
proof (cases "load_mandate e broker s")
  case (Inr m)
  show ?thesis
  proof (cases "isl (br_open_orders reads) \<or> isl (br_balance reads)")
    case False
    then obtain orders balance where "br_open_orders reads = Inr orders" "br_balance reads = Inr balance"
      by (cases "br_open_orders reads"; cases "br_balance reads") auto
    from reconcile_outcome [OF assms(1) Inr this(1) assms(2) this(2)] assms(3,4) show ?thesis
      by (auto split: if_splits)
  next
    case True
    obtain k ts old where k: "broker_key broker = Inr k"
      and f: "fs k = Json (VDict (state_dict broker ts recorded_orders recorded_positions old))"
      using assms(1) by (auto simp: recorded_state_def)
    let ?prior = "Some (state_dict broker ts recorded_orders recorded_positions old)"
    have "recorded_rows ?prior ''open_orders'' = Inr recorded_orders"
      "recorded_rows ?prior ''positions'' = Inr recorded_positions"
      "load_state broker fs = Inr (?prior, fs)"
      by (simp_all add: recorded_rows_def state_dict_def dget_or_def py_iter_def load_state_def k f)
    with True Inr assms(2) show ?thesis
      by (cases "br_open_orders reads"; cases "br_balance reads") (auto simp: reconcile_def broker_read_def)
  qed
qed (simp add: reconcile_def)

text \<open>
  A trade of the runner's own blocks it: once the broker reports a position that the last recorded state
  does not know, which is what an order filled in the meantime leads to, no later tick sends an order and
  the recorded state stays as it is, for as long as the broker goes on to report such a position.
\<close>

theorem new_position_blocks_runner:
  assumes "recorded_state (rn_broker rn) (ru_files w) recorded_orders recorded_positions"
    and "\<forall>(e, stamp, reads) \<in> set ts. \<exists>positions p. br_positions reads = Inr positions \<and>
      p \<in> set positions \<and> \<not> position_known e recorded_positions p"
  shows "gs_sent (ru_gate (run_ticks rn ts w)) = gs_sent (ru_gate w) \<and>
    ru_files (run_ticks rn ts w) = ru_files w"
  using assms
proof (induction ts arbitrary: w)
  case (Cons t ts)
  obtain e stamp reads where t: "t = (e, stamp, reads)" by (cases t) auto
  obtain positions p where p: "br_positions reads = Inr positions" "p \<in> set positions"
    "\<not> position_known e recorded_positions p"
    using Cons.prems(2) t by auto
  note stuck = reconcile_keeps_recorded [OF Cons.prems(1) p]
  then have no: "\<nexists>m. may_trade e rn reads w m" by (auto simp: may_trade_def)
  have files: "ru_files (tick_step rn t w) = ru_files w"
  proof -
    obtain r w1 where r: "run_reconcile e rn reads (beat e rn w) = (r, w1)"
      by (cases "run_reconcile e rn reads (beat e rn w)")
    have "ru_files w1 = ru_files w" using run_reconcile_frame(4) [of e rn reads "beat e rn w"] stuck r by simp
    moreover have "r \<noteq> None" using run_reconcile_None(1) [of e rn reads "beat e rn w"] stuck r by auto
    ultimately show ?thesis
      using r by (auto simp: t tick_step_def run_once_def Let_def case_prod_unfold halted_result_def
          no_mandate_result_def expired_result_frame split: sum.split option.split)
  qed
  have "recorded_state (rn_broker rn) (ru_files (tick_step rn t w)) recorded_orders recorded_positions"
    using Cons.prems(1) files by simp
  from Cons.IH [OF this] Cons.prems(2) files tick_stays(1) [OF no, of stamp]
  show ?case by (simp add: t tick_step_def same_authority_def)
qed simp

section \<open>The sweep\<close>

text \<open>
  The protocol of the sweep: when it returns a report it has sent one cancellation for each resting order
  it read, then, only if flattening is permitted, one closing order for each position whose \<open>qty\<close> is not
  zero, each exactly once whatever the broker answers; every request is in the report and on the ledger,
  and the kill switch, the mandates and the counters are as before.
\<close>

theorem sweep_protocol:
  assumes "flatten_and_cancel e broker x allow w = (Inr report, w')"
  shows "\<exists>permitted. resolve_allow_flatten e broker allow (sw_store w) = Inr permitted \<and>
    (let reqs = cancels_of x @ (if permitted then closes_of x else [])
     in sweep_effect reqs w w' \<and> calls_reported report = length reqs)"
proof -
  obtain r w1 permitted where cancels: "cancel_resting_orders e broker x (new_sweep_report broker) w = (Inr r, w1)"
    and permitted: "resolve_allow_flatten e broker allow (sw_store w1) = Inr permitted"
    and rest: "(if permitted then flatten_open_positions e broker x r
        else wlift (Inr (r\<lparr>sp_flatten_skipped_reason := Some ''mandate forbids flatten (cancel-only)''\<rparr>))) w1 =
      (Inr report, w')"
    using assms by (auto simp: flatten_and_cancel_def wbind_Inr_iff)
  note first = cancel_orders_effect [OF cancels]
  have "calls_reported (new_sweep_report broker) = 0"
    by (simp add: calls_reported_def new_sweep_report_def)
  moreover have "resolve_allow_flatten e broker allow (sw_store w) = Inr permitted"
    using permitted first
    by (auto simp: resolve_allow_flatten_def load_mandate_def sweep_effect_def sweep_frame_def split: option.splits)
  moreover have "sweep_effect (if permitted then closes_of x else []) w1 w' \<and>
      calls_reported report = calls_reported r + length (if permitted then closes_of x else [])"
  proof (cases permitted)
    case True
    with rest flatten_positions_effect [of e broker x r w1 report w'] show ?thesis by simp
  next
    case False
    with rest have "w' = w1" "calls_reported report = calls_reported r" by (auto simp: calls_reported_def)
    with False show ?thesis by simp
  qed
  ultimately show ?thesis
    using first sweep_effect_trans [of "cancels_of x" w w1 _ w']
    unfolding Let_def by (intro exI [of _ permitted]) simp
qed

definition demo_sweep :: sweep_env where
  "demo_sweep = \<lparr>se_submit = (\<lambda>n r. if n = 0 then Inl ''timeout'' else Inr []),
     se_positions = Inr [[(''symbol'', VStr ''AAPL''), (''qty'', VInt (-3))], [(''symbol'', VStr ''MSFT''), (''quantity'', VInt 2)]],
     se_open_orders = Inr [[(''order_id'', VStr ''o1'')], [(''order_id'', VStr ''o2'')]],
     se_runner_tool = (\<lambda>b op. None)\<rparr>"

theorem sweep_protocol_witness:
  "\<exists>report w'. flatten_and_cancel demo_env ''alpaca'' demo_sweep (Some True)
       \<lparr>sw_store = demo_live_store, sw_requests = []\<rparr> = (Inr report, w') \<and>
     length (sw_requests w') = 3 \<and> calls_reported report = 3"
proof -
  let ?w = "\<lparr>sw_store = demo_live_store, sw_requests = []\<rparr>"
  have "\<exists>q. sweep_qty p = Inr q"
    if "se_positions demo_sweep = Inr ps" and "p \<in> set ps" for ps p
    using that by (auto simp: demo_sweep_def sweep_qty_def val_or_def dget_or_def py_float_def)
  moreover have "lv_ledger_writable (sw_store ?w)" by (simp add: demo_live_store_def)
  ultimately obtain report w' where run: "flatten_and_cancel demo_env ''alpaca'' demo_sweep (Some True) ?w = (Inr report, w')"
    using sweep_returns by blast
  have "length (cancels_of demo_sweep @ closes_of demo_sweep) = 3" by code_simp
  with sweep_protocol [OF run] have "length (sw_requests w') = 3" "calls_reported report = 3"
    by (auto simp: resolve_allow_flatten_def sweep_effect_def Let_def simp del: length_append)
  with run show ?thesis by blast
qed

text \<open>The sweep reads \<open>qty\<close> only: a position under another name of the quantity is left open.\<close>

lemma sweep_skips_quantity:
  "position_qty [(''symbol'', VStr s), (''quantity'', VInt q)] = Fin (of_int q) \<and>
   close_requests [(''symbol'', VStr s), (''quantity'', VInt q)] = []"
  by (simp add: position_qty_def close_requests_def sweep_qty_def val_or_def dget_or_def py_float_def)

section \<open>The scheduler\<close>

text \<open>
  C20. The cadence of the scheduler: whatever the readings of the clock, a job is never fired before it is due,
  two fires of a recurring job are at least its interval apart and a job that does not recur is fired at
  most once; and a turn of the loop that finds a job due leaves none due, so that it can go to sleep, but
  never past the time the next job is due.
\<close>

theorem scheduler_cadence:
  assumes "0 < m" and "ids_distinct js" and "row_at jb_id k js = Some j"
  shows "(\<forall>t \<in> set (fire_times k (fires m nows js)). jb_next_run_at j \<le> t) \<and>
    (case interval_ms j of
       None \<Rightarrow> length (fire_times k (fires m nows js)) \<le> 1
     | Some i \<Rightarrow> 0 < i \<and> sorted_wrt (\<lambda>t u. t + i \<le> u) (fire_times k (fires m nows js))) \<and>
    due_jobs (fst (loop_turn f m now (js, w))) now = [] \<and>
    (now < jb_next_run_at j \<longrightarrow> now + compute_sleep_ms js now m \<le> jb_next_run_at j)"
proof -
  have "due_jobs (fst (loop_turn f m now (js, w))) now = []"
    using fire_due_none_due [of "(js, w)"] assms(2) sleep_positive_iff [OF assms(1)]
    by (simp add: loop_turn_def)
  moreover have "now < jb_next_run_at j \<longrightarrow> now + compute_sleep_ms js now m \<le> jb_next_run_at j"
    using sleep_not_past_due row_at_SomeD [OF assms(3)] by blast
  ultimately show ?thesis
    using fires_of_job [OF assms, of nows] interval_positive [of j] by (auto split: option.splits)
qed

definition demo_jobs :: "job list" where
  "demo_jobs = [\<lparr>jb_id = ''a'', jb_next_run_at = 100, jb_schedule = '' Interval: 50 '', jb_payload = None\<rparr>,
     \<lparr>jb_id = ''b'', jb_next_run_at = 120, jb_schedule = ''once'', jb_payload = None\<rparr>]"

theorem scheduler_cadence_witness:
  "due_jobs (fst (loop_turn (\<lambda>j w. w) 1000 0 (demo_jobs, ()))) 0 = [] \<and>
   list_all (\<lambda>t. 100 \<le> t) (fire_times ''a'' (fires 1000 [90, 100, 110, 155, 400, 390, 450] demo_jobs))"
proof -
  have "ids_distinct demo_jobs" "row_at jb_id ''a'' demo_jobs = Some (hd demo_jobs)" "jb_next_run_at (hd demo_jobs) = 100"
    by (simp_all add: demo_jobs_def)
  with scheduler_cadence [of 1000 demo_jobs "''a''" "hd demo_jobs" "[90, 100, 110, 155, 400, 390, 450]"
    "\<lambda>j w. w" 0 "()"]
  show ?thesis by (simp add: list_all_iff del: fires.simps)
qed

section \<open>The job store\<close>



section \<open>The cadence of the runner\<close>

lemma lower_interval: "lower ''interval:'' = ''interval:''"
  by (simp add: lower_char_def Let_def)

lemma lower_digits: "list_all is_digit ds \<Longrightarrow> lower ds = ds"
  by (induction ds) (auto simp: lower_char_def is_digit_def Let_def)

lemma int_str_chars:
  "lower (int_str i) = int_str i" "list_all (\<lambda>c. \<not> is_space c) (int_str i)"
proof -
  have digits: "list_all is_digit (nat_str n)" for n using nat_str_digits by blast
  then show "lower (int_str i) = int_str i"
    by (simp add: int_str_def lower_digits lower_char_def Let_def)
  show "list_all (\<lambda>c. \<not> is_space c) (int_str i)"
    using digits digit_not_space [THEN conjunct1]
    by (cases "i < 0") (simp_all add: int_str_def list_all_iff is_space_def [of "CHR ''-''"])
qed

lemma watch_job_interval:
  assumes "0 < i"
  shows "interval_ms (watch_job broker now n t i) = Some i"
proof -
  let ?s = "''interval:'' @ int_str i"
  have "list_all (\<lambda>c. \<not> is_space c) ?s" using int_str_chars(2) by (simp add: is_space_def)
  then have spec: "lower (strip (jb_schedule (watch_job broker now n t i))) = ''interval:'' @ int_str i"
    using int_str_chars(1) lower_interval
    unfolding watch_job_def job.simps by (simp only: strip_no_space map_append)
  show ?thesis unfolding interval_ms_def spec Let_def using assms by simp
qed

lemma jobs_from_triggers_item:
  assumes "j \<in> set (jobs_from_triggers broker mw now triggers)"
  obtains n t i where "t \<in> set triggers" and "watch_interval mw t = Some i" and "j = watch_job broker now n t i"
proof -
  from assms obtain x where x: "x \<in> set (List.enumerate 0 triggers)"
    and j: "j \<in> set (case x of (n, t) \<Rightarrow> case watch_interval mw t of
        None \<Rightarrow> [] | Some i \<Rightarrow> [watch_job broker now n t i])"
    by (auto simp only: jobs_from_triggers_def set_concat set_map UN_iff)
  obtain n t where nt: "x = (n, t)" by (rule prod.exhaust)
  then have "t \<in> set triggers" using x by (auto simp: in_set_enumerate_eq)
  with j nt that show ?thesis by (cases "watch_interval mw t") auto
qed

text \<open>
  Resumption: the jobs of a first start with some trigger on the wall clock come back, unchanged, at a
  restart that reads the store they were saved in, whatever triggers and time that restart has; and each
  of them recurs with the interval of the trigger it was made from.
\<close>

theorem restart_resumes_jobs:
  assumes "resolve_jobs broker mw triggers None now f = (js, f')" and "jf_store f = No_File" and "js \<noteq> []"
    and "\<forall>t \<in> set triggers. tg_kind t = Interval_Trigger \<longrightarrow> 0 < tg_interval_ms t"
  shows "resolve_jobs broker' mw' triggers' None now' f' = (js, f') \<and>
    (\<forall>j \<in> set js. \<exists>t \<in> set triggers. \<exists>i. watch_interval mw t = Some i \<and> interval_ms j = Some i \<and>
       jb_next_run_at j = now + i)"
proof
  have js: "js = jobs_from_triggers broker mw now triggers" and f': "f' = f\<lparr>jf_store := Json (envelope js)\<rparr>"
    using assms(1-3) by (auto simp: resolve_jobs_def load_jobs_def Let_def split: if_splits)
  show "resolve_jobs broker' mw' triggers' None now' f' = (js, f')"
    using assms(3) by (simp add: resolve_jobs_def load_jobs_def f')
  show "\<forall>j \<in> set js. \<exists>t \<in> set triggers. \<exists>i. watch_interval mw t = Some i \<and> interval_ms j = Some i \<and>
       jb_next_run_at j = now + i"
  proof
    fix j assume "j \<in> set js"
    then obtain n t i where t: "t \<in> set triggers" "watch_interval mw t = Some i" "j = watch_job broker now n t i"
      unfolding js by (rule jobs_from_triggers_item)
    have "0 < i"
      using t(1,2) assms(4) by (auto simp: watch_interval_def default_market_watch_ms_def split: trigger_kind.splits)
    from watch_job_interval [OF this] t show "\<exists>t \<in> set triggers. \<exists>i. watch_interval mw t = Some i \<and>
        interval_ms j = Some i \<and> jb_next_run_at j = now + i"
      by (auto simp: watch_job_def)
  qed
qed

definition demo_triggers :: "trigger list" where
  "demo_triggers = [(default_trigger Market_Trigger)\<lparr>tg_market := Market_Key ''us_equity''\<rparr>,
     event_trigger (\<lambda>d. True), (default_trigger Interval_Trigger)\<lparr>tg_interval_ms := 5000\<rparr>]"

theorem restart_resumes_jobs_witness:
  "\<exists>js f'. resolve_jobs ''alpaca'' 0 demo_triggers None 1000 \<lparr>jf_store = No_File, jf_quarantined = []\<rparr> = (js, f') \<and>
     length js = 2 \<and> resolve_jobs ''alpaca'' 0 [] None 9000 f' = (js, f')"
proof -
  let ?f = "\<lparr>jf_store = No_File, jf_quarantined = []\<rparr>"
  obtain js f' where run: "resolve_jobs ''alpaca'' 0 demo_triggers None 1000 ?f = (js, f')" by (rule prod.exhaust)
  then have "js = jobs_from_triggers ''alpaca'' 0 1000 demo_triggers"
    by (auto simp: resolve_jobs_def load_jobs_def Let_def)
  then have len: "length js = 2"
    by (simp add: jobs_from_triggers_def demo_triggers_def watch_interval_def default_trigger_def event_trigger_def)
  then have "js \<noteq> []" by auto
  moreover have "\<forall>t \<in> set demo_triggers. tg_kind t = Interval_Trigger \<longrightarrow> 0 < tg_interval_ms t"
    by (simp add: demo_triggers_def default_trigger_def event_trigger_def)
  ultimately show ?thesis
    using restart_resumes_jobs [OF run, of "''alpaca''" 0 "[]" 9000] run len by auto
qed

text \<open>A corrupt store does not stop the runner: it starts with the jobs of its triggers, or with none.\<close>

lemma corrupt_store_starts:
  "jf_store f = Garbled \<Longrightarrow>
     fst (resolve_jobs broker mw triggers None now f) = jobs_from_triggers broker mw now triggers"
  by (simp add: resolve_jobs_def load_jobs_def Let_def)

section \<open>A runner for the witnesses\<close>

text \<open>Its agent places an order through the gate of the connectors at every tick it is asked.\<close>

definition demo_runner :: runner where
  "demo_runner = \<lparr>rn_broker = ''alpaca'', rn_session_id = ''live-alpaca'', rn_submit = Some (\<lambda>n r. Inr []),
     rn_runner_tool = (\<lambda>b op. None), rn_agent = (\<lambda>prompt w. (Inr [], run_events [Sdk_Order demo_sdk_call] w))\<rparr>"

definition demo_runner_state :: runner_state where
  "demo_runner_state = \<lparr>ru_gate = demo_committed, ru_files = demo_files, ru_requests = [], ru_heartbeats = [],
     ru_flatten_fired = False\<rparr>"

theorem new_position_blocks_runner_witness:
  "gs_sent (ru_gate (run_ticks demo_runner (replicate 3 (demo_env, ''now'', demo_reads)) demo_runner_state)) = []"
proof -
  have "recorded_state (rn_broker demo_runner) (ru_files demo_runner_state) [] [[(''symbol'', VStr ''AAPL''), (''qty'', VInt 1)]]"
    using demo_recorded by (simp add: demo_runner_def demo_runner_state_def)
  moreover have "\<forall>(e, stamp, reads) \<in> set (replicate 3 (demo_env, ''now'', demo_reads)). \<exists>positions p.
      br_positions reads = Inr positions \<and> p \<in> set positions \<and>
      \<not> position_known e [[(''symbol'', VStr ''AAPL''), (''qty'', VInt 1)]] p"
    using demo_unknown by (auto simp: demo_reads_def)
  ultimately show ?thesis
    using new_position_blocks_runner [of demo_runner demo_runner_state] demo_committed_facts(4)
    by (simp add: demo_runner_state_def)
qed

text \<open>The mandate of the demo channel, read long after its expiry.\<close>

theorem expired_mandate_stops_runner_witness:
  "gs_sent (ru_gate (run_ticks demo_runner [(demo_env\<lparr>pe_now := 3000000000000\<rparr>, ''late'', demo_reads),
     (demo_env, ''early'', demo_reads)] demo_runner_state)) = []"
proof -
  let ?e = "demo_env\<lparr>pe_now := 3000000000000\<rparr>"
  have "case load_mandate ?e ''alpaca'' (gs_store demo_committed) of
      Inr (Some m) \<Rightarrow> mandate_is_expired ?e m | _ \<Rightarrow> False"
    by code_simp
  then obtain m where "load_mandate ?e (rn_broker demo_runner) (gs_store (ru_gate demo_runner_state)) = Inr (Some m)"
    and "mandate_is_expired ?e m"
    by (auto simp: demo_runner_def demo_runner_state_def split: sum.splits option.splits)
  from expired_mandate_stops_runner [OF this, of "''late''" demo_reads "[(demo_env, ''early'', demo_reads)]"]
  show ?thesis
    using demo_committed_facts(4) by (simp add: demo_runner_state_def)
qed



end
