(* ===== verification/Spec2Isabelle.thy ===== *)
theory Spec2Isabelle
  imports Goal_Properties Governance_Properties Swarm_Properties Swarm_Recovery Agent_Batches
    Demo_Session Order_Properties Kernel_Runs Harness_Properties Mandate_Properties Runtime_Properties
begin

text \<open>
  Verification of SynapseYield.
\<close>

section \<open>The life of an order\<close>

text \<open>
  C1. After any sequence of kernel operations with either broker, started with a consistent audit
  log, the audit log of every order replays its life: it starts with CREATED, each entry follows the
  previous one by an allowed transition, the first decision is RISK_APPROVED or RISK_REJECTED, and
  the last entry is the status of the order.
\<close>

theorem audit_log_replays_orders:
  assumes "(kernel_step svc b)\<^sup>*\<^sup>* (s, g) (t, g')" and "trail_inv s" and "find_order t oid = Some ord"
  shows "replays ord (order_trail t oid)"
  using kernel_run.inv_run [OF assms(1)] assms(2,3) by (simp add: trail_inv_def)

theorem audit_log_replays_orders_witness:
  "\<exists>ord. find_order demo4 demo_oid = Some ord \<and> ord_status ord = FILLED \<and>
     replays ord (order_trail demo4 demo_oid)"
  using demo4_order audit_log_replays_orders [OF demo_kernel_run demo_inv(1)] by auto

text \<open>
  An order with any status but CREATED and RISK_REJECTED was approved first: its audit log starts
  with CREATED and RISK_APPROVED. In particular nothing reaches a broker without an approval.
\<close>

theorem approved_before_broker:
  assumes "(kernel_step svc b)\<^sup>*\<^sup>* (s, g) (t, g')" and "trail_inv s" and "find_order t oid = Some ord"
    and "ord_status ord \<notin> {CREATED, RISK_REJECTED}"
  shows "\<exists>ts. order_trail t oid = CREATED # RISK_APPROVED # ts"
  using kernel_run.inv_run [OF assms(1)] assms(2-4)
  by (auto simp: trail_inv_def intro: replays_approved)

theorem approved_before_broker_witness:
  "\<exists>ts. order_trail demo4 demo_oid = CREATED # RISK_APPROVED # ts"
  using demo4_order approved_before_broker [OF demo_kernel_run demo_inv(1)] by auto

section \<open>The simulated broker as a ledger\<close>

text \<open>
  C2. Refinement: every run of the order service with the simulated broker is, seen through the
  abstraction that forgets logs, ids and flushes, a run of the abstract book.
\<close>

theorem local_sim_refines_book:
  assumes "(sim_step P svc cfg)\<^sup>*\<^sup>* s t" and "sim_inv P s"
  shows "(book_step P cfg)\<^sup>*\<^sup>* (book_of s) (book_of t)"
  using assms by (rule sim_refines_book)

theorem local_sim_refines_book_witness:
  "(book_step no_bracket demo_cfg)\<^sup>*\<^sup>* (book_of demo0) (book_of demo4)"
  by (rule local_sim_refines_book [OF demo_run(2) demo_inv(3)]) simp

text \<open>
  C3. Cash moves only with ledger rows: the available plus frozen cash of every account changes by
  exactly the sum of the cash-ledger amounts booked for it.
\<close>

theorem cash_moves_with_ledger:
  assumes "(sim_step P svc cfg)\<^sup>*\<^sup>* s t" and "sim_inv P s"
  shows "cash_total (book_of t) a - cash_total (book_of s) a =
    ledger_total (book_of t) a - ledger_total (book_of s) a"
proof -
  have "cash_booked (\<lambda>a. cash_total (book_of s) a - ledger_total (book_of s) a) (book_of s)"
    by (simp add: cash_booked_def)
  then have "cash_booked (\<lambda>a. cash_total (book_of s) a - ledger_total (book_of s) a) (book_of t)"
    by (rule sim_run_invariant [where I = "cash_booked _", OF assms, rotated]) (rule cash_booked_step)
  then show ?thesis by (simp add: cash_booked_def)
qed

theorem cash_moves_with_ledger_witness:
  "ledger_total (book_of demo4) ''acc'' = - 909 / 5 \<and>
   cash_total (book_of demo4) ''acc'' - cash_total (book_of demo0) ''acc'' = - 909 / 5"
  using cash_moves_with_ledger [OF demo_run(2) [of no_bracket] demo_inv(3), of "''acc''"]
    demo4_ledger demo0_ledger by simp

text \<open>
  The frozen cash of an account is at every moment the sum of the reservations of its resting buy
  orders: quantity times limit price plus the commission on it.
\<close>

theorem frozen_cash_backs_orders:
  assumes "(sim_step P svc cfg)\<^sup>*\<^sup>* s t" and "sim_inv P s" and "frozen_backed cfg (book_of s)"
  shows "frozen_backed cfg (book_of t)"
  by (rule sim_run_invariant [where I = "frozen_backed cfg", OF assms(1,2) _ assms(3)]) (rule frozen_backed_step)

theorem frozen_cash_backs_orders_witness:
  "frozen_backed demo_cfg (book_of demo3) \<and> map acc_cash_frozen (s_accounts demo3) = [202]"
  using frozen_cash_backs_orders [OF demo_run(1) [of no_bracket] demo_inv(3) demo0_numbers(2)] demo3_ok
  by simp

text \<open>
  Without bracket orders, the shares of a position are its available shares plus the quantities
  of the resting sell orders, and the available shares are never negative: nothing is sold twice.
\<close>

theorem shares_available_or_set_aside:
  assumes "(sim_step no_bracket svc cfg)\<^sup>*\<^sup>* s t" and "sim_inv no_bracket s"
    and "shares_backed (book_of s)"
  shows "shares_backed (book_of t)"
  by (rule sim_run_invariant [where I = shares_backed, OF assms(1,2) _ assms(3)])
    (rule shares_backed_step)

theorem shares_available_or_set_aside_witness:
  "shares_backed (book_of demo4) \<and> map pos_available_quantity (s_positions demo4) = [2]"
  using shares_available_or_set_aside [OF demo_run(2) demo_inv(3) demo0_numbers(3)] demo4_ok by simp

text \<open>
  C4. Available cash never becomes negative, provided market orders carry no limit price and the
  commission is at most the traded amount.
\<close>

theorem cash_never_negative:
  assumes "(sim_step unpriced_market svc cfg)\<^sup>*\<^sup>* s t" and "sim_inv unpriced_market s"
    and "fair_commission cfg" and "cash_nonneg (book_of s)"
  shows "cash_nonneg (book_of t)"
  by (rule sim_run_invariant [where I = cash_nonneg, OF assms(1,2) _ assms(4)])
    (rule cash_nonneg_step [OF _ _ _ assms(3)])

theorem cash_never_negative_witness: "cash_nonneg (book_of demo4)"
  using cash_never_negative [OF demo_run(2) demo_inv(3) _ demo0_numbers(4)] by simp

text \<open>
  The equity of an account is its cash, available and frozen, plus the market value of all its
  positions.
\<close>

theorem equity_is_marked:
  assumes "(sim_step P svc cfg)\<^sup>*\<^sup>* s t" and "sim_inv P s" and "equity_marked (book_of s)"
  shows "equity_marked (book_of t)"
  by (rule sim_run_invariant [where I = "equity_marked", OF assms(1,2) _ assms(3)]) (rule equity_marked_step)

theorem equity_is_marked_witness:
  "equity_marked (book_of demo4) \<and> map acc_equity (s_accounts demo4) = [4991 / 5]"
  using equity_is_marked [OF demo_run(2) [of no_bracket] demo_inv(3) demo0_numbers(5)] demo4_ok by simp

text \<open>
  An order is FILLED exactly when it has one fill, of its whole quantity at its average price;
  every other order has no fill and a filled quantity of zero.
\<close>

theorem fills_match_statuses:
  assumes "(sim_step P svc cfg)\<^sup>*\<^sup>* s t" and "sim_inv P s" and "fills_match (book_of s)"
    and "find_order t oid = Some ord"
  shows "order_filled ord (filter (\<lambda>f. fl_order_id f = oid) (s_fills t))"
proof -
  have "fills_match (book_of t)"
    by (rule sim_run_invariant [where I = fills_match, OF assms(1,2) _ assms(3)])
      (rule fills_match_step)
  with assms(4) show ?thesis by (auto simp: fills_match_def fills_of_def)
qed

theorem fills_match_statuses_witness:
  "\<exists>ord. find_order demo4 demo_oid = Some ord \<and>
     order_filled ord (filter (\<lambda>f. fl_order_id f = demo_oid) (s_fills demo4))"
  using demo4_order fills_match_statuses [OF demo_run(2) [of no_bracket] demo_inv(3) demo0_numbers(6)]
  by auto

text \<open>
  C5. Round trip: a resting order can always be cancelled, and the cancellation restores exactly the
  accounts and positions from before the submission.
\<close>

theorem cancel_undoes_submit:
  assumes "ls_submit_order cfg tr oid q s = Inr (r, s1)" and "br_accepted r"
    and "find_order s oid = Some ord" and "ls_fill_price ord q = None"
    and "valid_order_intent (intent_of_order ord)" and "ord_filled_quantity ord = 0"
    and "distinct (map acc_account_id (s_accounts s))" and "distinct (map pos_key (s_positions s))"
  shows "\<exists>r' t ord'. ls_cancel_order cfg tr' oid s1 = Inr (r', t) \<and> br_accepted r' \<and>
    s_accounts t = s_accounts s \<and> s_positions t = s_positions s \<and>
    find_order t oid = Some ord' \<and> ord_status ord' = CANCELLED"
  using assms by (rule submit_cancel_roundtrip)

theorem cancel_undoes_submit_witness:
  "\<exists>r' t. ls_cancel_order demo_cfg ''t2'' demo_oid demo3 = Inr (r', t) \<and>
     s_accounts t = [demo_account] \<and> s_positions t = []"
proof -
  obtain r where sub: "ls_submit_order demo_cfg ''t'' demo_oid (demo_quote 120) demo2 = Inr (r, demo3)"
    using demo3_ok by auto
  have acc: "br_accepted r" using demo_accepted [OF sub] .
  let ?ord = "demo_order\<lparr>ord_risk_decision_id := Some demo_rid, ord_status := RISK_APPROVED\<rparr>"
  have "find_order demo2 demo_oid = Some ?ord" using demo2_ok by (simp add: finds demo_order_simps)
  moreover have "ls_fill_price ?ord (demo_quote 120) = None"
    by (simp add: ls_fill_price_def demo_order_simps demo_quote_def or_else_def)
  moreover have "valid_order_intent (intent_of_order ?ord)" "ord_filled_quantity ?ord = 0"
    by (simp_all add: valid_order_intent_def intent_of_order_def demo_order_simps opt_positive_def)
      (simp add: demo_order_def order_of_intent_def)
  ultimately show ?thesis
    using cancel_undoes_submit [OF sub acc, where tr' = "''t2''"] demo2_ok by auto
qed

section \<open>Risk checks and creation\<close>

text \<open>
  C6. The risk engine agrees with the table of its rules: it reports the first violated rule in the
  table's order, and it approves exactly when no rule is violated.
\<close>

theorem risk_engine_first_violation:
  assumes "find_account s (oi_account_id i) = Some account"
    and "rules = risk_rules cfg s account i exclude quote market_is_open
           (case checked_at of None \<Rightarrow> s_now s | Some t \<Rightarrow> t)"
    and "r = risk_check cfg s i exclude quote market_is_open checked_at"
  shows "rr_reason_code r = risk_verdict rules \<and> (rr_approved r \<longleftrightarrow> (\<forall>rule \<in> set rules. \<not> snd rule))"
  unfolding assms(2,3) using risk_reason_code [OF assms(1)] risk_approved [OF assms(1)]
  by (simp add: list_all_iff)

theorem risk_engine_first_violation_witness:
  "rr_reason_code (risk_check default_risk_config demo0 demo_intent None (Some (demo_quote 120)) None None) =
     ''LIMIT_PRICE_DEVIATION_EXCEEDED''"
proof -
  have "find_account demo0 (oi_account_id demo_intent) = Some demo_account"
    by (simp add: finds demo0_def demo_account_def demo_intent_def)
  from risk_engine_first_violation [OF this refl refl, of default_risk_config None "Some (demo_quote 120)" None None]
  show ?thesis
    by (simp add: risk_rules_def default_risk_config_def demo_quote_def demo_intent_def count_orders_def
        visible_orders_def estimate_order_value_def demo_account_def demo0_def)
qed

text \<open>
  The risk check decides every new order of a consistent session: it returns, the decision is
  stored and linked to the order, and the order becomes RISK_APPROVED or RISK_REJECTED as the engine
  says.
\<close>

theorem risk_check_decides:
  assumes "find_order s oid = Some ord" and "ord_status ord = CREATED"
    and "valid_order_intent (intent_of_order ord)" and "unique_ok s"
    and "s_enforce_fk s \<longrightarrow> fk_ok s"
  shows "\<exists>d t ord'. run_risk_check svc tr oid q mo s = Inr (d, t) \<and> find_order t oid = Some ord' \<and>
    ord_risk_decision_id ord' = Some (rd_risk_decision_id d) \<and> d \<in> set (s_risk_decisions t) \<and>
    ord_status ord' = (if rr_approved (risk_check (os_risk_config svc) s (intent_of_order ord)
      (Some oid) q mo None) then RISK_APPROVED else RISK_REJECTED)"
  using run_risk_check_decides [of s oid ord svc tr q mo] assms by fastforce

theorem risk_check_decides_witness:
  "\<exists>d t. run_risk_check demo_svc ''t'' demo_oid None None demo1 = Inr (d, t) \<and>
     d \<in> set (s_risk_decisions t)"
proof -
  have "find_order demo1 demo_oid = Some demo_order" "unique_ok demo1" "fk_ok demo1"
    by (simp_all add: demo_eval demo_account_def)
  moreover have "valid_order_intent (intent_of_order demo_order)" by (simp add: demo_order_simps)
  ultimately show ?thesis
    using risk_check_decides [of demo1 demo_oid demo_order demo_svc "''t''" None None]
    by (auto simp: demo_order_simps)
qed

text \<open>
  Creation is idempotent: creating the order of the same intent again, after the first one was
  flushed, returns the same order and adds none.
\<close>

theorem create_order_is_idempotent:
  assumes "query_orders s (\<lambda>row. ord_idempotency_key row = idempotency_key svc i) = []"
    and "find_order s (fresh_order_id s) = None"
    and "create_order_from_intent svc tr i s = (oid, s1)" and "flush s1 = Inr s2"
    and "create_order_from_intent svc tr' i s2 = (oid', s3)"
  shows "oid' = oid \<and> s_orders s3 = s_orders s1 \<and> (\<exists>ord. find_order s3 oid = Some ord \<and>
    ord_status ord = CREATED \<and> intent_of_order ord = stored_intent i)"
  using assms by (rule create_order_idempotent)

theorem create_order_is_idempotent_witness:
  "fst (create_order_from_intent demo_svc ''t2'' demo_intent (demo1\<lparr>s_db_orders := s_orders demo1\<rparr>)) =
     demo_oid"
proof -
  have "query_orders demo0 (\<lambda>row. ord_idempotency_key row = idempotency_key demo_svc demo_intent) = []"
    "find_order demo0 (fresh_order_id demo0) = None"
    by (simp_all add: query_orders_def visible_orders_def finds demo0_def)
  moreover have "create_order_from_intent demo_svc ''t'' demo_intent demo0 = (demo_oid, demo1)"
    by (simp add: prod_eq_iff demo_created demo1_def)
  moreover have "flush demo1 = Inr (demo1\<lparr>s_db_orders := s_orders demo1\<rparr>)"
    by (simp add: demo_eval demo_account_def)
  ultimately show ?thesis by (metis create_order_is_idempotent surjective_pairing)
qed

section \<open>The Longbridge broker\<close>

text \<open>
  C7. The switches guard the gateway: a submission reaches it only when external submission is
  enabled, the mode is paper or live and live trading is enabled if the mode is live, only for an
  approved order, and then with exactly one request that carries the data of the order.
\<close>

theorem longbridge_switches_guard_gateway:
  assumes "lb_submit_order cfg tr oid q s g = (r, g')" and "gw_calls g' \<noteq> gw_calls g"
  shows "submission_enabled cfg \<and> (\<exists>ord tp. find_order s oid = Some ord \<and>
    ord_status ord = RISK_APPROVED \<and> trigger_price_of (ord_raw_request ord) = Inr tp \<and>
    gw_calls g' = gw_calls g @ [Gw_Submit (request_of ord tp)])"
proof (cases "find_order s oid")
  case None
  with assms show ?thesis by (simp add: lb_submit_order_def lb_prepare_submit_def get_order_def)
next
  case (Some ord)
  then show ?thesis
  proof (cases rule: lb_submit_order_cases [where cfg = cfg and tr = tr and q = q and g = g])
    case (sent tp s1 r t ord')
    with Some assms show ?thesis by auto
  qed (use assms in auto)
qed

theorem longbridge_switches_guard_gateway_witness:
  "submission_enabled demo_lb_cfg \<and>
   gw_calls (snd (lb_submit_order demo_lb_cfg ''t'' demo_oid (demo_quote 100) demo2 demo_gateway)) \<noteq> []"
proof -
  have "gw_calls (snd (lb_submit_order demo_lb_cfg ''t'' demo_oid (demo_quote 100) demo2 demo_gateway)) \<noteq>
      gw_calls demo_gateway"
    using demo_lb_sent by (simp add: demo_gateway_def)
  with longbridge_switches_guard_gateway [OF surjective_pairing this] show ?thesis
    by (auto simp: demo_gateway_def)
qed

text \<open>
  The outcome of a submission to Longbridge is decided by the gateway's answer alone: an id makes
  the order SUBMITTED with that id and the call accepted, a timeout or a lost connection makes it
  RECONCILING, any other error FAILED; the call returns in every case.
\<close>

theorem longbridge_submit_outcome:
  assumes "find_order s oid = Some ord" and "ord_status ord = RISK_APPROVED"
    and "submission_enabled cfg" and "trigger_price_of (ord_raw_request ord) = Inr tp"
    and "answer = gw_submit_answer g (gw_calls g) (request_of ord tp)"
  shows "\<exists>r t g' ord'. lb_submit_order cfg tr oid q s g = (Inr (r, t), g') \<and>
    find_order t oid = Some ord' \<and> ord_status ord' = submit_outcome answer \<and>
    (br_accepted r \<longleftrightarrow> (\<exists>bid. answer = Inr bid)) \<and>
    (\<forall>bid. answer = Inr bid \<longrightarrow> br_broker_order_id r = Some bid \<and> ord_broker_order_id ord' = Some bid)"
  using assms(1)
proof (cases rule: lb_submit_order_cases [where cfg = cfg and tr = tr and q = q and g = g])
  case (sent tp' s1 r t ord')
  then show ?thesis using assms(4,5) by auto
qed (use assms in auto)

theorem longbridge_submit_outcome_witness:
  "\<exists>r t g' ord'. lb_submit_order demo_lb_cfg ''t'' demo_oid (demo_quote 100) demo2 demo_gateway =
     (Inr (r, t), g') \<and> find_order t demo_oid = Some ord' \<and> ord_status ord' = SUBMITTED"
  using longbridge_submit_outcome [OF demo2_order(1,2) demo_lb_enabled demo2_order(3) refl,
      where g = demo_gateway and tr = "''t''" and q = "demo_quote 100"]
  by (auto simp: submit_outcome_def demo_gateway_def)

text \<open>
  The request carries what the intent said: the trigger price, which the order table has no
  column for, survives its way through the stored request, and every other field is the intent's.
\<close>

theorem request_carries_intent:
  assumes "query_orders s (\<lambda>row. ord_idempotency_key row = idempotency_key svc i) = []"
    and "find_order s (fresh_order_id s) = None"
    and "create_order_from_intent svc tr i s = (oid, t)"
  shows "\<exists>ord. find_order t oid = Some ord \<and>
    trigger_price_of (ord_raw_request ord) = Inr (oi_trigger_price i) \<and>
    request_of ord (oi_trigger_price i) =
      \<lparr>rq_client_order_id = ord_client_order_id ord, rq_symbol = oi_symbol i, rq_side = oi_side i,
       rq_order_type = oi_order_type i, rq_quantity = oi_quantity i,
       rq_time_in_force = oi_time_in_force i, rq_limit_price = oi_limit_price i,
       rq_trigger_price = oi_trigger_price i\<rparr>"
proof -
  let ?ord = "order_of_intent svc i (fresh_order_id s) (fresh_client_order_id s) (s_now s)"
  have "find_order t oid = Some ?ord"
    using assms(2,3)
    by (auto simp: create_order_new [OF assms(1)] find_order_def row_at_append order_of_intent_def)
  moreover have "trigger_price_of (ord_raw_request ?ord) = Inr (oi_trigger_price i)"
    by (cases "oi_trigger_price i")
      (simp_all add: order_of_intent_def trigger_price_of_def intent_dump_def json_opt_def)
  ultimately show ?thesis by (simp add: request_of_def order_of_intent_def)
qed

theorem request_carries_intent_witness:
  "\<exists>ord. find_order demo1 demo_oid = Some ord \<and> trigger_price_of (ord_raw_request ord) = Inr None"
proof -
  have "query_orders demo0 (\<lambda>row. ord_idempotency_key row = idempotency_key demo_svc demo_intent) = []"
    "find_order demo0 (fresh_order_id demo0) = None"
    by (simp_all add: query_orders_def visible_orders_def finds demo0_def)
  moreover have "create_order_from_intent demo_svc ''t'' demo_intent demo0 = (demo_oid, demo1)"
    by (simp add: prod_eq_iff demo_created demo1_def)
  ultimately have "\<exists>ord. find_order demo1 demo_oid = Some ord \<and>
      trigger_price_of (ord_raw_request ord) = Inr (oi_trigger_price demo_intent)"
    using request_carries_intent by blast
  then show ?thesis by (simp add: demo_intent_def)
qed

text \<open>
  With the broker the factory builds from the settings, no order leaves the process while
  external submission is off, or while the mode is live and live trading is off.
\<close>

theorem settings_keep_orders_inside:
  assumes "build_broker st gateway_given = Inr b"
    and "\<not> set_enable_external_order_submission st \<or>
         lower (set_longbridge_mode st) = ''live'' \<and> \<not> set_enable_live_trading st"
  shows "snd (broker_submit b tr oid q s g) = g"
proof (cases b)
  case (Local_Sim_Broker cfg)
  then show ?thesis by (simp add: broker_submit_def local_sim_submit_def)
next
  case (Longbridge_Broker cfg)
  then have off: "\<not> submission_enabled cfg"
    using assms by (auto simp: build_broker_def submission_enabled_def Let_def split: if_splits)
  show ?thesis
  proof (cases "find_order s oid")
    case None
    then show ?thesis
      by (simp add: Longbridge_Broker broker_submit_def lb_submit_order_def lb_prepare_submit_def
          get_order_def)
  next
    case (Some ord)
    then show ?thesis
      by (cases rule: lb_submit_order_cases [where cfg = cfg and tr = tr and q = q and g = g])
        (use off in \<open>simp_all add: Longbridge_Broker broker_submit_def\<close>)
  qed
qed

theorem settings_keep_orders_inside_witness:
  "\<exists>b. build_broker (default_settings\<lparr>set_broker_type := ''LongBridge''\<rparr>) True = Inr b \<and>
     snd (broker_submit b ''t'' demo_oid (demo_quote 100) demo2 demo_gateway) = demo_gateway"
proof -
  have "\<not> isl (build_broker (default_settings\<lparr>set_broker_type := ''LongBridge''\<rparr>) True)"
    by code_simp
  then obtain b where "build_broker (default_settings\<lparr>set_broker_type := ''LongBridge''\<rparr>) True = Inr b"
    by (cases "build_broker (default_settings\<lparr>set_broker_type := ''LongBridge''\<rparr>) True") auto
  then show ?thesis
    using settings_keep_orders_inside [of "default_settings\<lparr>set_broker_type := ''LongBridge''\<rparr>" True]
    by (auto simp: default_settings_def)
qed

text \<open>
  Whatever the broker, an accepted order was approved before and is accepted only once: a second
  submission is refused and changes neither the session nor the world.
\<close>

theorem accepted_once:
  assumes "broker_submit b tr oid q s g = (Inr (r, t), g')" and "br_accepted r"
  shows "(\<exists>ord. find_order s oid = Some ord \<and> ord_status ord = RISK_APPROVED) \<and>
    (\<exists>r'. broker_submit b tr' oid q' t g' = (Inr (r', t), g') \<and> \<not> br_accepted r')"
  using any_broker.accepts_approved [OF assms] any_broker.accepts_once [OF assms] by blast

theorem accepted_once_witness:
  "\<exists>r'. broker_submit (Local_Sim_Broker demo_cfg) ''t2'' demo_oid (demo_quote 120) demo3 demo_gateway =
     (Inr (r', demo3), demo_gateway) \<and> \<not> br_accepted r'"
proof -
  obtain r where sub: "ls_submit_order demo_cfg ''t'' demo_oid (demo_quote 120) demo2 = Inr (r, demo3)"
    using demo3_ok by auto
  then have "broker_submit (Local_Sim_Broker demo_cfg) ''t'' demo_oid (demo_quote 120) demo2 demo_gateway =
      (Inr (r, demo3), demo_gateway)"
    by (simp add: broker_submit_def local_sim_submit_def)
  from accepted_once [OF this demo_accepted [OF sub]] show ?thesis by blast
qed

section \<open>The trade executor\<close>

text \<open>
  C8. A call of the executor is atomic: an exception leaves the database as it was, and a result
  means that the database went through a run of kernel operations, so that the properties of such
  runs hold of it.
\<close>

theorem execute_is_atomic:
  assumes "execute ex (broker_submit b) p decision acc trace_id thread_id url mo db g = (r, db', g')"
  shows "(\<exists>e. r = Inl e \<and> db' = db) \<or>
    (\<exists>res. r = Inr res \<and> (kernel_step (ex_order_service ex) b)\<^sup>*\<^sup>* (db, g) (db', g'))"
  using assms by (rule execute_run)

theorem execute_is_atomic_witness:
  "\<exists>e g'. execute demo_ex (broker_submit (Local_Sim_Broker demo_cfg)) demo_market_proposal
     demo_decision ''acc'' (Some ''tr'') (Some ''th'') [] None demo0 demo_gateway = (Inl e, demo0, g')"
proof -
  let ?x = "execute demo_ex (broker_submit (Local_Sim_Broker demo_cfg)) demo_market_proposal
     demo_decision ''acc'' (Some ''tr'') (Some ''th'') [] None demo0 demo_gateway"
  have "isl (fst ?x)" by (rule demo_market_fails)
  with execute_is_atomic [of demo_ex "Local_Sim_Broker demo_cfg" demo_market_proposal demo_decision
      "''acc''" "Some ''tr''" "Some ''th''" "[]" None demo0 demo_gateway "fst ?x" "fst (snd ?x)"
      "snd (snd ?x)"]
  show ?thesis by (cases ?x) auto
qed

text \<open>
  A proposal without a limit price is never executed: the quote the executor makes up has the
  price zero, which no quote may have, so every such call ends in an exception before the broker is
  asked. Market orders cannot be placed this way.
\<close>

theorem market_proposal_never_submits:
  assumes "tp_limit_price p = None" and "find_existing_order ex trace (tp_symbol p) s = None"
  shows "\<exists>e. do_execute ex submit p decision acc trace thread url mo s w = (Inl e, w)"
  using assms prepare_order_unpriced [of p ex decision acc trace url mo s] by (auto simp: do_execute_def)

theorem market_proposal_never_submits_witness:
  "\<exists>e. do_execute demo_ex (local_sim_submit demo_cfg) demo_market_proposal demo_decision ''acc''
     ''tr'' ''th'' [] None demo0 () = (Inl e, ())"
  by (rule market_proposal_never_submits)
    (simp_all add: demo_market_proposal_def find_existing_order_def query_orders_def
      visible_orders_def demo0_def)

text \<open>
  An unknown outcome is forgotten: when the submission of the executor's order times out, the
  request has been sent, but the exception the executor raises rolls the transaction back, and with it
  the RECONCILING order and the broker event that ask for the reconciliation.
\<close>

theorem unknown_outcome_rolled_back:
  assumes "find_existing_order ex (c # cs) (tp_symbol p) db = None"
    and "prepare_order ex p decision acc (c # cs) url mo db = Inr ((sig, oid, quote, d), s)"
    and "find_order s oid = Some ord" and "trigger_price_of (ord_raw_request ord) = Inr tp"
    and "submission_enabled cfg"
    and "gw_submit_answer g (gw_calls g) (request_of ord tp) = Inl (Gw_Timeout m)"
  shows "\<exists>msg. execute ex (lb_submit_order cfg) p decision acc (Some (c # cs)) (Some (k # ks)) url mo db g =
    (Inl (BrokerRefused msg), db, g\<lparr>gw_calls := gw_calls g @ [Gw_Submit (request_of ord tp)]\<rparr>)"
proof -
  have st: "ord_status ord = RISK_APPROVED" using prepare_order_run(2) [OF assms(2)] assms(3) by auto
  from assms(3) show ?thesis
  proof (cases rule: lb_submit_order_cases [where cfg = cfg and tr = "c # cs" and q = quote and g = g])
    case (sent tp' s1 r t ord')
    then show ?thesis
      using assms by (simp add: execute_def fresh_id_def do_execute_def wbind_def)
  qed (use st assms in auto)
qed

theorem unknown_outcome_rolled_back_witness:
  "\<exists>msg rq. execute demo_ex (lb_submit_order demo_lb_cfg) demo_proposal demo_decision ''acc''
     (Some ''tr'') (Some ''th'') [] (Some True) demo0 demo_dead_gateway =
     (Inl (BrokerRefused msg), demo0, demo_dead_gateway\<lparr>gw_calls := [Gw_Submit rq]\<rparr>)"
proof -
  obtain sig oid quote d s ord where
    prep: "prepare_order demo_ex demo_proposal demo_decision ''acc'' ''tr'' [] (Some True) demo0 =
      Inr ((sig, oid, quote, d), s)"
    and ord: "find_order s oid = Some ord" "trigger_price_of (ord_raw_request ord) = Inr None"
    using demo_prepare by blast
  have none: "find_existing_order demo_ex ''tr'' (tp_symbol demo_proposal) demo0 = None"
    by (simp add: find_existing_order_def query_orders_def visible_orders_def demo0_def)
  have "gw_submit_answer demo_dead_gateway (gw_calls demo_dead_gateway) rq = Inl (Gw_Timeout ''timeout'')" for rq
    by (simp add: demo_dead_gateway_def)
  from unknown_outcome_rolled_back [OF none prep ord demo_lb_enabled this,
      where k = "CHR ''t''" and ks = "''h''"]
  show ?thesis by (auto simp: demo_dead_gateway_def)
qed

end
